(* ===== verification/Prelude.thy ===== *)
theory Prelude
  imports Main "HOL-Library.Char_ord" "HOL-Library.List_Lexorder"
begin

text \<open>
  The shared vocabulary of the development: results and state-passing results as the
  Rust sources use them (\<open>Result\<close> with early return, \<open>&mut self\<close> methods that
  return \<open>Result\<close>), unsigned machine integers with their saturating and wrapping
  operations, Rust strings as UTF-8 byte strings, and the named collections that carry
  the component proofs.
\<close>

named_theorems result_simps \<open>inversion of results and state-passing results\<close>
named_theorems u64_simps \<open>facts on saturating and wrapping arithmetic\<close>

subsection \<open>Results\<close>

text \<open>A Rust \<open>Result<T, E>\<close> is a sum with the error on the left. \<open>bindR\<close> is the
  question-mark operator: an error returns early.\<close>

definition bindR :: "'e + 'a \<Rightarrow> ('a \<Rightarrow> 'e + 'b) \<Rightarrow> 'e + 'b" where
  "bindR m f = (case m of Inl e \<Rightarrow> Inl e | Inr x \<Rightarrow> f x)"

definition ok_or :: "'a option \<Rightarrow> 'e \<Rightarrow> 'e + 'a" where
  "ok_or x e = (case x of None \<Rightarrow> Inl e | Some v \<Rightarrow> Inr v)"

definition is_ok :: "'e + 'a \<Rightarrow> bool" where
  "is_ok m = (case m of Inl _ \<Rightarrow> False | Inr _ \<Rightarrow> True)"

definition map_err :: "('e \<Rightarrow> 'f) \<Rightarrow> 'e + 'a \<Rightarrow> 'f + 'a" where
  "map_err f m = (case m of Inl e \<Rightarrow> Inl (f e) | Inr x \<Rightarrow> Inr x)"

text \<open>A \<open>&mut self\<close> method that returns a \<open>Result\<close>: the state is returned next to
  the result on both paths, so a mutation made before an error stays visible.\<close>

type_synonym ('s, 'e, 'a) smeth = "'s \<Rightarrow> ('e + 'a) \<times> 's"

definition bindS :: "('s, 'e, 'a) smeth \<Rightarrow> ('a \<Rightarrow> ('s, 'e, 'b) smeth) \<Rightarrow> ('s, 'e, 'b) smeth" where
  "bindS m f s = (case m s of (Inl e, s') \<Rightarrow> (Inl e, s') | (Inr x, s') \<Rightarrow> f x s')"

definition returnS :: "'a \<Rightarrow> ('s, 'e, 'a) smeth" where
  "returnS x s = (Inr x, s)"

definition failS :: "'e \<Rightarrow> ('s, 'e, 'a) smeth" where
  "failS e s = (Inl e, s)"

text \<open>A read-only check on the state inside such a method.\<close>

definition checkS :: "('s \<Rightarrow> 'e + 'a) \<Rightarrow> ('s, 'e, 'a) smeth" where
  "checkS c s = (c s, s)"

text \<open>Work on a clone that replaces the state only on success
  (\<open>let mut candidate = self.clone(); ...; *self = candidate\<close>).\<close>

definition atomically :: "('s, 'e, 'a) smeth \<Rightarrow> ('s, 'e, 'a) smeth" where
  "atomically m s = (case m s of (Inl e, _) \<Rightarrow> (Inl e, s) | (Inr x, s') \<Rightarrow> (Inr x, s'))"

text \<open>Run a method on a local value and keep the value.\<close>

definition execR :: "('s, 'e, 'a) smeth \<Rightarrow> 's \<Rightarrow> 'e + 's" where
  "execR m s = (case m s of (Inl e, _) \<Rightarrow> Inl e | (Inr _, s') \<Rightarrow> Inr s')"

lemma bindR_simps [simp]:
  "bindR (Inl e) f = Inl e" "bindR (Inr x) f = f x"
  by (simp_all add: bindR_def)

lemma bindR_Inr [result_simps]: "bindR m f = Inr y \<longleftrightarrow> (\<exists>x. m = Inr x \<and> f x = Inr y)"
  by (cases m) auto

lemma bindR_Inl [result_simps]:
  "bindR m f = Inl e \<longleftrightarrow> m = Inl e \<or> (\<exists>x. m = Inr x \<and> f x = Inl e)"
  by (cases m) auto

lemma ok_or_simps [simp]: "ok_or None e = Inl e" "ok_or (Some v) e = Inr v"
  by (simp_all add: ok_or_def)

lemma ok_or_Inr [result_simps]: "ok_or x e = Inr v \<longleftrightarrow> x = Some v"
  by (cases x) auto

lemma ok_or_Inl [result_simps]: "ok_or x e = Inl e' \<longleftrightarrow> x = None \<and> e' = e"
  by (cases x) auto

lemma is_ok_simps [simp]: "is_ok (Inl e) = False" "is_ok (Inr x) = True"
  by (simp_all add: is_ok_def)

lemma is_ok_iff: "is_ok m \<longleftrightarrow> (\<exists>x. m = Inr x)"
  by (cases m) auto

lemma map_err_simps [simp]: "map_err f (Inl e) = Inl (f e)" "map_err f (Inr x) = Inr x"
  by (simp_all add: map_err_def)

lemma map_err_Inr [result_simps]: "map_err f m = Inr x \<longleftrightarrow> m = Inr x"
  by (cases m) auto

lemma bindS_Inr [result_simps]:
  "bindS m f s = (Inr y, t) \<longleftrightarrow> (\<exists>x s'. m s = (Inr x, s') \<and> f x s' = (Inr y, t))"
  by (auto simp: bindS_def split: prod.splits sum.splits)

lemma bindS_Inl [result_simps]:
  "bindS m f s = (Inl e, t) \<longleftrightarrow>
     m s = (Inl e, t) \<or> (\<exists>x s'. m s = (Inr x, s') \<and> f x s' = (Inl e, t))"
  by (auto simp: bindS_def split: prod.splits sum.splits)

lemma returnS_iff [result_simps]: "returnS x s = (r, t) \<longleftrightarrow> r = Inr x \<and> t = s"
  by (auto simp: returnS_def)

lemma failS_iff [result_simps]: "failS e s = (r, t) \<longleftrightarrow> r = Inl e \<and> t = s"
  by (auto simp: failS_def)

lemma checkS_iff [result_simps]: "checkS c s = (r, t) \<longleftrightarrow> c s = r \<and> t = s"
  by (auto simp: checkS_def)

lemma atomically_Inr [result_simps]: "atomically m s = (Inr x, t) \<longleftrightarrow> m s = (Inr x, t)"
  by (auto simp: atomically_def split: prod.splits sum.splits)

lemma atomically_Inl [result_simps]:
  "atomically m s = (Inl e, t) \<longleftrightarrow> t = s \<and> (\<exists>t'. m s = (Inl e, t'))"
  by (auto simp: atomically_def split: prod.splits sum.splits)

lemma execR_Inr [result_simps]: "execR m s = Inr t \<longleftrightarrow> (\<exists>x. m s = (Inr x, t))"
  by (auto simp: execR_def split: prod.splits sum.splits)

lemma execR_Inl [result_simps]: "execR m s = Inl e \<longleftrightarrow> (\<exists>t. m s = (Inl e, t))"
  by (auto simp: execR_def split: prod.splits sum.splits)

text \<open>A method preserves a predicate when it holds after the call on every path, errors
  included.\<close>

named_theorems preserving \<open>preservation of a predicate by the method combinators\<close>

definition preserves :: "('s \<Rightarrow> bool) \<Rightarrow> ('s, 'e, 'a) smeth \<Rightarrow> bool" where
  "preserves I m \<longleftrightarrow> (\<forall>s r s'. I s \<longrightarrow> m s = (r, s') \<longrightarrow> I s')"

lemma preservesI: "(\<And>s r s'. I s \<Longrightarrow> m s = (r, s') \<Longrightarrow> I s') \<Longrightarrow> preserves I m"
  by (auto simp: preserves_def)

lemma preservesD: "preserves I m \<Longrightarrow> I s \<Longrightarrow> m s = (r, s') \<Longrightarrow> I s'"
  by (auto simp: preserves_def)

lemma preserves_bindS [preserving]:
  "preserves I m \<Longrightarrow> (\<And>x. preserves I (f x)) \<Longrightarrow> preserves I (bindS m f)"
proof (rule preservesI)
  fix s r s'
  assume m: "preserves I m" and f: "\<And>x. preserves I (f x)" and s: "I s" and r: "bindS m f s = (r, s')"
  obtain q t where q: "m s = (q, t)" by force
  with m s have t: "I t" by (rule preservesD)
  show "I s'"
  proof (cases q)
    case (Inl e)
    with q r t show ?thesis by (simp add: bindS_def)
  next
    case (Inr x)
    with q r have "f x t = (r, s')" by (simp add: bindS_def)
    with f t show ?thesis by (rule preservesD)
  qed
qed

lemma preserves_checkS [preserving]: "preserves I (checkS c)"
  by (auto simp: preserves_def result_simps)

lemma preserves_returnS [preserving]: "preserves I (returnS x)"
  by (auto simp: preserves_def result_simps)

lemma preserves_failS [preserving]: "preserves I (failS e)"
  by (auto simp: preserves_def result_simps)

lemma preserves_atomically [preserving]: "preserves I m \<Longrightarrow> preserves I (atomically m)"
  unfolding preserves_def atomically_def by (auto split: prod.splits sum.splits)

lemma preserves_if [preserving]:
  "preserves I a \<Longrightarrow> preserves I b \<Longrightarrow> preserves I (if c then a else b)"
  by simp

lemma preserves_case_option [preserving]:
  "preserves I a \<Longrightarrow> (\<And>x. preserves I (f x)) \<Longrightarrow> preserves I (case x of None \<Rightarrow> a | Some x \<Rightarrow> f x)"
  by (simp split: option.split)

text \<open>For a method whose body mentions the state it is called on.\<close>

lemma bindS_keeps:
  "bindS m f s = (r, s') \<Longrightarrow> I s \<Longrightarrow> preserves I m \<Longrightarrow> (\<And>x. preserves I (f x)) \<Longrightarrow> I s'"
  by (rule preservesD [OF preserves_bindS])

lemma preserves_const [preserving]: "preserves I (\<lambda>s. (x s, s))"
  by (simp add: preserves_def)

text \<open>\<open>for e in es \{ s.step(e)?; \}\<close>\<close>

fun foldR :: "('e \<Rightarrow> 's \<Rightarrow> 'err + 's) \<Rightarrow> 'e list \<Rightarrow> 's \<Rightarrow> 'err + 's" where
  "foldR f [] s = Inr s"
| "foldR f (e # es) s = bindR (f e s) (foldR f es)"

lemma foldR_append: "foldR f (xs @ ys) s = bindR (foldR f xs s) (foldR f ys)"
  by (induction xs arbitrary: s) (auto simp: bindR_def split: sum.splits)

subsection \<open>Unsigned integers\<close>

text \<open>Machine integers are natural numbers; every place where the source can leave the
  range of the type has its saturating, checked or wrapping operation written out.\<close>

definition u64_max :: nat where "u64_max = 2 ^ 64 - 1"
definition u32_max :: nat where "u32_max = 2 ^ 32 - 1"

definition saturating_add :: "nat \<Rightarrow> nat \<Rightarrow> nat" where
  "saturating_add a b = min (a + b) u64_max"

definition saturating_sub :: "nat \<Rightarrow> nat \<Rightarrow> nat" where
  "saturating_sub a b = a - b"

definition checked_sub :: "nat \<Rightarrow> nat \<Rightarrow> nat option" where
  "checked_sub a b = (if b \<le> a then Some (a - b) else None)"

definition wrapping_add_u64 :: "nat \<Rightarrow> nat \<Rightarrow> nat" where
  "wrapping_add_u64 a b = (a + b) mod 2 ^ 64"

definition wrapping_add_u32 :: "nat \<Rightarrow> nat \<Rightarrow> nat" where
  "wrapping_add_u32 a b = (a + b) mod 2 ^ 32"

text \<open>The cast \<open>x as u32\<close> and the conversion \<open>u32::try_from\<close>.\<close>

definition as_u32 :: "nat \<Rightarrow> nat" where
  "as_u32 n = n mod 2 ^ 32"

definition u32_try_from :: "nat \<Rightarrow> nat option" where
  "u32_try_from n = (if n \<le> u32_max then Some n else None)"

lemma saturating_add_bound [u64_simps]: "saturating_add a b \<le> u64_max"
  by (simp add: saturating_add_def)

lemma saturating_add_comm: "saturating_add a b = saturating_add b a"
  by (simp add: saturating_add_def add.commute)

lemma saturating_add_assoc:
  "saturating_add (saturating_add a b) c = saturating_add a (saturating_add b c)"
  by (simp add: saturating_add_def min_def)

lemma saturating_add_left_commute:
  "saturating_add a (saturating_add b c) = saturating_add b (saturating_add a c)"
  by (simp add: saturating_add_def min_def)

lemmas saturating_add_ac =
  saturating_add_comm saturating_add_assoc saturating_add_left_commute

lemma saturating_add_le_iff [u64_simps]:
  "l < u64_max \<Longrightarrow> saturating_add a b \<le> l \<longleftrightarrow> a + b \<le> l"
  by (auto simp: saturating_add_def min_def)

lemma saturating_add_mono: "a \<le> a' \<Longrightarrow> b \<le> b' \<Longrightarrow> saturating_add a b \<le> saturating_add a' b'"
  by (auto simp: saturating_add_def min_def)

lemma saturating_add_ge: "a \<le> u64_max \<Longrightarrow> a \<le> saturating_add a b"
  by (auto simp: saturating_add_def min_def)

lemma saturating_add_zero [simp]: "a \<le> u64_max \<Longrightarrow> saturating_add a 0 = a"
  by (auto simp: saturating_add_def min_def)

subsection \<open>Rust strings\<close>

text \<open>
  A Rust \<open>String\<close> is valid UTF-8; it is modelled by its bytes, one \<^typ>\<open>char\<close> per
  byte, so \<open>len\<close> and the byte-wise order of \<open>String\<close> are those of the list. The
  control characters of \<open>char::is_control\<close> are U+0000 to U+001F, U+007F and U+0080 to
  U+009F; the last range is encoded as the byte C2 followed by a byte 80 to 9F, and C2
  occurs in valid UTF-8 only as the first byte of a two-byte sequence.
\<close>

abbreviation byte_of :: "char \<Rightarrow> nat" where
  "byte_of c \<equiv> of_char c"

fun has_control :: "string \<Rightarrow> bool" where
  "has_control [] = False"
| "has_control (c # cs) =
     (byte_of c < 32 \<or> byte_of c = 127
      \<or> (byte_of c = 194 \<and> (case cs of [] \<Rightarrow> False | d # _ \<Rightarrow> 128 \<le> byte_of d \<and> byte_of d \<le> 159))
      \<or> has_control cs)"

text \<open>\<open>s.trim().is_empty()\<close>: every character has the Unicode property White\_Space
  (U+0009 to U+000D, U+0020, U+0085, U+00A0, U+1680, U+2000 to U+200A, U+2028, U+2029,
  U+202F, U+205F, U+3000), read off the UTF-8 bytes.\<close>

fun is_blank_bytes :: "nat list \<Rightarrow> bool" where
  "is_blank_bytes [] = True"
| "is_blank_bytes (b # bs) =
     (if (9 \<le> b \<and> b \<le> 13) \<or> b = 32 then is_blank_bytes bs
      else case bs of
        [] \<Rightarrow> False
      | c # cs \<Rightarrow>
          if b = 194 \<and> (c = 133 \<or> c = 160) then is_blank_bytes cs
          else case cs of
            [] \<Rightarrow> False
          | d # ds \<Rightarrow>
              if (b = 225 \<and> c = 154 \<and> d = 128)
                \<or> (b = 226 \<and> c = 128 \<and> (128 \<le> d \<and> d \<le> 138 \<or> d = 168 \<or> d = 169 \<or> d = 175))
                \<or> (b = 226 \<and> c = 129 \<and> d = 159)
                \<or> (b = 227 \<and> c = 128 \<and> d = 128)
              then is_blank_bytes ds else False)"

definition is_blank :: "string \<Rightarrow> bool" where
  "is_blank s = is_blank_bytes (map of_char s)"

text \<open>Decimal rendering of an unsigned integer, as \<open>to_string\<close> and \<open>format!\<close> give it.\<close>

fun show_nat :: "nat \<Rightarrow> string" where
  "show_nat n =
     (if n < 10 then [char_of (48 + n)] else show_nat (n div 10) @ [char_of (48 + n mod 10)])"

declare show_nat.simps [simp del]

lemma show_nat_nonempty [simp]: "show_nat n \<noteq> []"
  by (subst show_nat.simps) simp

text \<open>\<open>str::strip_prefix\<close>.\<close>

fun strip_prefix :: "string \<Rightarrow> string \<Rightarrow> string option" where
  "strip_prefix [] s = Some s"
| "strip_prefix (p # ps) [] = None"
| "strip_prefix (p # ps) (c # cs) = (if p = c then strip_prefix ps cs else None)"

lemma strip_prefix_Some [simp]: "strip_prefix p s = Some t \<longleftrightarrow> s = p @ t"
  by (induction p s rule: strip_prefix.induct) auto

lemma strip_prefix_append [simp]: "strip_prefix p (p @ t) = Some t"
  by simp

definition is_ascii_hexdigit :: "char \<Rightarrow> bool" where
  "is_ascii_hexdigit c =
     (let b = byte_of c in (48 \<le> b \<and> b \<le> 57) \<or> (65 \<le> b \<and> b \<le> 70) \<or> (97 \<le> b \<and> b \<le> 102))"

subsection \<open>Lists\<close>

text \<open>\<open>iter().find(p)\<close> is \<^const>\<open>List.find\<close>; updating the first match in place, as
  \<open>iter\_mut().find(p)\<close> followed by assignments does, is \<open>update\_first\<close>.\<close>

fun update_first :: "('a \<Rightarrow> bool) \<Rightarrow> ('a \<Rightarrow> 'a) \<Rightarrow> 'a list \<Rightarrow> 'a list" where
  "update_first p f [] = []"
| "update_first p f (x # xs) = (if p x then f x # xs else x # update_first p f xs)"

definition last_opt :: "'a list \<Rightarrow> 'a option" where
  "last_opt xs = (if xs = [] then None else Some (last xs))"

lemma last_opt_simps [simp]:
  "last_opt [] = None" "last_opt (xs @ [x]) = Some x"
  by (simp_all add: last_opt_def)

lemma last_opt_None [simp]: "last_opt xs = None \<longleftrightarrow> xs = []"
  by (simp add: last_opt_def)

lemma last_opt_SomeD: "last_opt xs = Some x \<Longrightarrow> xs \<noteq> [] \<and> last xs = x \<and> x \<in> set xs"
  by (auto simp: last_opt_def split: if_splits)

lemma length_update_first [simp]: "length (update_first p f xs) = length xs"
  by (induction xs) auto

lemma update_first_eq_Nil [simp]: "update_first p f xs = [] \<longleftrightarrow> xs = []"
  by (cases xs) auto

lemma map_update_first:
  "(\<And>x. x \<in> set xs \<Longrightarrow> p x \<Longrightarrow> g (f x) = g x) \<Longrightarrow> map g (update_first p f xs) = map g xs"
  by (induction xs) auto

lemma set_update_first: "y \<in> set (update_first p f xs) \<Longrightarrow> y \<in> set xs \<or> (\<exists>x \<in> set xs. p x \<and> y = f x)"
  by (induction xs) (auto split: if_splits)

lemma update_first_none: "\<forall>x \<in> set xs. \<not> p x \<Longrightarrow> update_first p f xs = xs"
  by (induction xs) auto

lemma find_SomeD: "List.find p xs = Some x \<Longrightarrow> p x \<and> x \<in> set xs"
  by (auto simp: find_Some_iff)

end
