(* ===== verification/Json.thy ===== *)
theory Json
  imports Prelude "HOL-Library.Multiset"
begin

text \<open>
  \<open>serde_json::Value\<close> and the accessors the sources call on it. An object is the list of
  its entries; nothing in the modelled code observes their order (it looks keys up, counts
  them, tests them all, or sorts them). A float is carried by its bit pattern.
\<close>

datatype json_number = PosInt nat | NegInt int | Float nat

datatype json =
    JNull
  | JBool bool
  | JNumber json_number
  | JString string
  | JArray "json list"
  | JObject "(string \<times> json) list"

definition as_object :: "json \<Rightarrow> (string \<times> json) list option" where
  "as_object v = (case v of JObject kvs \<Rightarrow> Some kvs | _ \<Rightarrow> None)"

definition as_str :: "json \<Rightarrow> string option" where
  "as_str v = (case v of JString s \<Rightarrow> Some s | _ \<Rightarrow> None)"

definition as_u64 :: "json \<Rightarrow> nat option" where
  "as_u64 v = (case v of JNumber (PosInt n) \<Rightarrow> Some n | _ \<Rightarrow> None)"

definition is_null :: "json \<Rightarrow> bool" where
  "is_null v = (v = JNull)"

definition is_object :: "json \<Rightarrow> bool" where
  "is_object v = (as_object v \<noteq> None)"

text \<open>\<open>Value::get\<close> with a string key.\<close>

definition jget :: "json \<Rightarrow> string \<Rightarrow> json option" where
  "jget v k = (case v of JObject kvs \<Rightarrow> map_of kvs k | _ \<Rightarrow> None)"

text \<open>\<open>v.get(k).and\_then(Value::as\_str)\<close> and the like.\<close>

definition jget_str :: "json \<Rightarrow> string \<Rightarrow> string option" where
  "jget_str v k = Option.bind (jget v k) as_str"

definition jget_u64 :: "json \<Rightarrow> string \<Rightarrow> nat option" where
  "jget_u64 v k = Option.bind (jget v k) as_u64"

lemmas json_simps = as_object_def as_str_def as_u64_def is_null_def is_object_def jget_def
  jget_str_def jget_u64_def

subsection \<open>Canonical serialisation\<close>

text \<open>
  What \<open>durability.rs\<close> uses of \<open>serde_json\<close> and of its own hash when it derives
  identifiers: the digest of a byte string (\<open>hex\_sha256\<close>, theory \<open>Sha256\<close>), the
  decimal form of a JSON number and the quoted form of a string, both of the library.
\<close>

record hasher =
  digest :: "string \<Rightarrow> string"
  number_to_string :: "json_number \<Rightarrow> string"
  quote_string :: "string \<Rightarrow> string"

text \<open>A list separated by commas, as the \<open>index != 0\<close> test of the loops writes it.\<close>

fun comma_separated :: "string list \<Rightarrow> string" where
  "comma_separated [] = []"
| "comma_separated [x] = x"
| "comma_separated (x # y # ys) = x @ '','' @ comma_separated (y # ys)"

fun write_canonical_json :: "'z hasher_scheme \<Rightarrow> json \<Rightarrow> string" where
  "write_canonical_json h JNull = ''null''"
| "write_canonical_json h (JBool b) = (if b then ''true'' else ''false'')"
| "write_canonical_json h (JNumber n) = number_to_string h n"
| "write_canonical_json h (JString s) = quote_string h s"
| "write_canonical_json h (JArray vs) =
     ''['' @ comma_separated (map (write_canonical_json h) vs) @ '']''"
| "write_canonical_json h (JObject kvs) =
     ''{'' @ comma_separated
       (map (\<lambda>(k, t). quote_string h k @ '':'' @ t)
         (sort_key fst (map (\<lambda>kv. (fst kv, write_canonical_json h (snd kv))) kvs))) @ ''}''"

text \<open>Sorting by key makes the bytes independent of the order of an object's entries.\<close>

lemma sort_key_perm_distinct:
  assumes "mset xs = mset ys" and "distinct (map fst xs)"
  shows "sort_key fst xs = sort_key fst (ys :: ('k::linorder \<times> 'v) list)"
proof (rule map_sorted_distinct_set_unique [where f = fst])
  have s: "set xs = set ys" using assms(1) by (rule mset_eq_setD)
  have "mset (map fst xs) = mset (map fst ys)" using assms(1) by simp
  then have d: "distinct (map fst ys)" using assms(2) by (metis mset_eq_imp_distinct_iff)
  show "inj_on fst (set (sort_key fst xs) \<union> set (sort_key fst ys))"
    using assms(2) s by (simp add: distinct_map)
  show "set (sort_key fst xs) = set (sort_key fst ys)" using s by simp
  show "distinct (map fst (sort_key fst xs))" "distinct (map fst (sort_key fst ys))"
    using assms(2) d by (simp_all add: distinct_map)
qed simp_all

lemma write_canonical_json_perm:
  assumes "mset kvs = mset kvs'" and "distinct (map fst kvs)"
  shows "write_canonical_json h (JObject kvs) = write_canonical_json h (JObject kvs')"
proof -
  let ?w = "\<lambda>kv. (fst kv, write_canonical_json h (snd kv))"
  have "mset (map ?w kvs) = mset (map ?w kvs')" using assms(1) by simp
  moreover have "distinct (map fst (map ?w kvs))" using assms(2) by (simp add: comp_def)
  ultimately have "sort_key fst (map ?w kvs) = sort_key fst (map ?w kvs')"
    by (rule sort_key_perm_distinct)
  then show ?thesis by simp
qed

end
