(* ===== verification/Sha256.thy ===== *)
theory Sha256
  imports Prelude "HOL-Library.Word"
begin

text \<open>
  The self-contained SHA-256 of \<open>durability.rs\<close> (\<open>hex\_sha256\<close>), at its machine
  width: message words and the hash state are 32-bit words, so \<open>wrapping\_add\<close> is
  word addition. A byte slice is a string, one \<^typ>\<open>char\<close> per byte. The padding loop
  is the loop of the source, with its termination proof; the message schedule and the
  64 rounds are folds over the index ranges of the source.
\<close>

unbundle bit_operations_syntax

type_synonym byte = "8 word"
type_synonym u64 = "64 word"
type_synonym u32 = "32 word"
type_synonym hash_state = "u32 \<times> u32 \<times> u32 \<times> u32 \<times> u32 \<times> u32 \<times> u32 \<times> u32"

definition sha256_initial :: hash_state where
  "sha256_initial =
     (0x6a09e667, 0xbb67ae85, 0x3c6ef372, 0xa54ff53a, 0x510e527f, 0x9b05688c, 0x1f83d9ab, 0x5be0cd19)"

text \<open>The round constants, one inner list per line of the table in the source.\<close>

definition sha256_K :: "u32 list" where
  "sha256_K = concat
    [[0x428a2f98, 0x71374491, 0xb5c0fbcf, 0xe9b5dba5, 0x3956c25b, 0x59f111f1, 0x923f82a4],
     [0xab1c5ed5, 0xd807aa98, 0x12835b01, 0x243185be, 0x550c7dc3, 0x72be5d74, 0x80deb1fe],
     [0x9bdc06a7, 0xc19bf174, 0xe49b69c1, 0xefbe4786, 0x0fc19dc6, 0x240ca1cc, 0x2de92c6f],
     [0x4a7484aa, 0x5cb0a9dc, 0x76f988da, 0x983e5152, 0xa831c66d, 0xb00327c8, 0xbf597fc7],
     [0xc6e00bf3, 0xd5a79147, 0x06ca6351, 0x14292967, 0x27b70a85, 0x2e1b2138, 0x4d2c6dfc],
     [0x53380d13, 0x650a7354, 0x766a0abb, 0x81c2c92e, 0x92722c85, 0xa2bfe8a1, 0xa81a664b],
     [0xc24b8b70, 0xc76c51a3, 0xd192e819, 0xd6990624, 0xf40e3585, 0x106aa070, 0x19a4c116],
     [0x1e376c08, 0x2748774c, 0x34b0bcb5, 0x391c0cb3, 0x4ed8aa4a, 0x5b9cca4f, 0x682e6ff3],
     [0x748f82ee, 0x78a5636f, 0x84c87814, 0x8cc70208, 0x90befffa, 0xa4506ceb, 0xbef9a3f7],
     [0xc67178f2]]"

text \<open>\<open>u64::to\_be\_bytes\<close>: the eight bytes of an unsigned 64-bit value, high byte first.\<close>

definition u64_be_bytes :: "u64 \<Rightarrow> byte list" where
  "u64_be_bytes n = map (\<lambda>i. ucast (drop_bit i n)) [56, 48, 40, 32, 24, 16, 8, 0]"

text \<open>\<open>while message.len() % 64 != 56 \{ message.push(0) \}\<close>\<close>

function push_zeros :: "byte list \<Rightarrow> byte list" where
  "push_zeros m = (if length m mod 64 \<noteq> 56 then push_zeros (m @ [0]) else m)"
  by pat_completeness auto
termination
proof (relation "measure (\<lambda>m. if length m mod 64 \<le> 56 then 56 - length m mod 64
                                  else 120 - length m mod 64)")
  fix m :: "byte list"
  assume a: "length m mod 64 \<noteq> 56"
  define r where "r = length m mod 64"
  have r: "r < 64" "r \<noteq> 56" using a by (simp_all add: r_def)
  have "length (m @ [0]) mod 64 = (if r = 63 then 0 else Suc r)"
    by (simp add: r_def mod_Suc)
  then show "(m @ [0], m) \<in> measure (\<lambda>m. if length m mod 64 \<le> 56 then 56 - length m mod 64
                                  else 120 - length m mod 64)"
    unfolding in_measure r_def[symmetric] using r by auto
qed simp

declare push_zeros.simps [simp del]

definition sha256_message :: "byte list \<Rightarrow> byte list" where
  "sha256_message input =
     (let bit_len = of_nat (length input) * 8
      in push_zeros (input @ [0x80]) @ u64_be_bytes bit_len)"

definition u32_from_be_bytes :: "byte \<Rightarrow> byte \<Rightarrow> byte \<Rightarrow> byte \<Rightarrow> u32" where
  "u32_from_be_bytes a b c d =
     ((push_bit 24 (ucast a) OR push_bit 16 (ucast b)) OR push_bit 8 (ucast c)) OR ucast d"

definition sha256_small0 :: "u32 \<Rightarrow> u32" where
  "sha256_small0 w = (word_rotr 7 w XOR word_rotr 18 w) XOR drop_bit 3 w"

definition sha256_small1 :: "u32 \<Rightarrow> u32" where
  "sha256_small1 w = (word_rotr 17 w XOR word_rotr 19 w) XOR drop_bit 10 w"

definition sha256_schedule :: "byte list \<Rightarrow> u32 list" where
  "sha256_schedule chunk =
     fold (\<lambda>i ws. ws[i := ((ws ! (i - 16) + sha256_small0 (ws ! (i - 15))) + ws ! (i - 7))
                            + sha256_small1 (ws ! (i - 2))]) [16..<64]
       (map (\<lambda>i. u32_from_be_bytes (chunk ! (i * 4)) (chunk ! (i * 4 + 1))
                   (chunk ! (i * 4 + 2)) (chunk ! (i * 4 + 3))) [0..<16] @ replicate 48 0)"

fun sha256_round :: "u32 \<Rightarrow> u32 \<Rightarrow> hash_state \<Rightarrow> hash_state" where
  "sha256_round k w (a, b, c, d, e, f, g, h) =
     (let sum1 = (((h + ((word_rotr 6 e XOR word_rotr 11 e) XOR word_rotr 25 e))
                   + ((e AND f) XOR ((NOT e) AND g))) + k) + w;
          sum0 = ((word_rotr 2 a XOR word_rotr 13 a) XOR word_rotr 22 a)
                 + (((a AND b) XOR (a AND c)) XOR (b AND c))
      in (sum0 + sum1, a, b, c, d + sum1, e, f, g))"

definition sha256_rounds :: "u32 list \<Rightarrow> hash_state \<Rightarrow> hash_state" where
  "sha256_rounds ws hash = fold (\<lambda>i st. sha256_round (sha256_K ! i) (ws ! i) st) [0..<64] hash"

fun add_states :: "hash_state \<Rightarrow> hash_state \<Rightarrow> hash_state" where
  "add_states (a, b, c, d, e, f, g, h) (a', b', c', d', e', f', g', h') =
     (a + a', b + b', c + c', d + d', e + e', f + f', g + g', h + h')"

definition sha256_compress :: "hash_state \<Rightarrow> byte list \<Rightarrow> hash_state" where
  "sha256_compress hash chunk = add_states hash (sha256_rounds (sha256_schedule chunk) hash)"

text \<open>\<open>chunks\_exact(64)\<close>: consecutive full blocks, a shorter rest is not visited.\<close>

fun chunks_exact :: "nat \<Rightarrow> 'a list \<Rightarrow> 'a list list" where
  "chunks_exact n xs =
     (if n = 0 \<or> length xs < n then [] else take n xs # chunks_exact n (drop n xs))"

declare chunks_exact.simps [simp del]

definition hex_digit :: "u32 \<Rightarrow> char" where
  "hex_digit d = char_of (if uint d < 10 then 48 + uint d else 87 + uint d)"

text \<open>The format \<open>\{word:08x\}\<close>.\<close>

definition hex_u32 :: "u32 \<Rightarrow> string" where
  "hex_u32 w = map (\<lambda>i. hex_digit (drop_bit i w AND 15)) [28, 24, 20, 16, 12, 8, 4, 0]"

text \<open>The loop \<open>for chunk in message.chunks\_exact(64)\<close>.\<close>

fun sha256_blocks :: "hash_state \<Rightarrow> byte list list \<Rightarrow> hash_state" where
  "sha256_blocks hash [] = hash"
| "sha256_blocks hash (chunk # chunks) = sha256_blocks (sha256_compress hash chunk) chunks"

definition sha256_hash :: "byte list \<Rightarrow> hash_state" where
  "sha256_hash input = sha256_blocks sha256_initial (chunks_exact 64 (sha256_message input))"

fun hex_state :: "hash_state \<Rightarrow> string" where
  "hex_state (a, b, c, d, e, f, g, h) = concat (map hex_u32 [a, b, c, d, e, f, g, h])"

definition hex_sha256 :: "string \<Rightarrow> string" where
  "hex_sha256 input = hex_state (sha256_hash (map of_char input))"

end
