(* ===== verification/StableId.thy ===== *)
theory StableId
  imports Json Sha256
begin

text \<open>
  Stable identifiers of \<open>durability.rs\<close>: \<open>push\_hash\_field\<close> frames every field with
  its length as eight big-endian bytes, \<open>stable\_identifier\<close> hashes the framed namespace
  and parts, \<open>stable\_input\_hash\<close> hashes the canonical form of a JSON value. The framing
  is shown injective, so two different part lists share an identifier only through a
  collision of the digest.
\<close>

definition u64_be_string :: "nat \<Rightarrow> string" where
  "u64_be_string n = map (\<lambda>b. char_of (uint b)) (u64_be_bytes (of_nat n))"

definition push_hash_field :: "string \<Rightarrow> string \<Rightarrow> string" where
  "push_hash_field output field = output @ u64_be_string (length field) @ field"

definition framed_fields :: "string \<Rightarrow> string list \<Rightarrow> string" where
  "framed_fields namespace parts =
     fold (\<lambda>part framed. push_hash_field framed part) parts (push_hash_field [] namespace)"

definition stable_identifier :: "'z hasher_scheme \<Rightarrow> string \<Rightarrow> string list \<Rightarrow> string" where
  "stable_identifier h namespace parts =
     namespace @ ''_'' @ digest h (framed_fields namespace parts)"

definition stable_id :: "'z hasher_scheme \<Rightarrow> string \<Rightarrow> string list \<Rightarrow> string" where
  "stable_id h namespace parts = stable_identifier h namespace parts"

definition stable_input_hash :: "'z hasher_scheme \<Rightarrow> json \<Rightarrow> string" where
  "stable_input_hash h v = ''sha256:'' @ digest h (write_canonical_json h v)"

subsection \<open>The framing is injective\<close>

lemma u64_be_bytes_inj: "u64_be_bytes m = u64_be_bytes n \<Longrightarrow> m = n"
proof (rule bit_word_eqI)
  fix k assume eq: "u64_be_bytes m = u64_be_bytes n" and "k < LENGTH(64)"
  then have k: "k < 64" by simp
  define i where "i = 8 * (k div 8)"
  have ki: "k = i + k mod 8" "k mod 8 < 8" by (simp_all add: i_def)
  have "k div 8 \<in> {0, 1, 2, 3, 4, 5, 6, 7}" using k by (simp, linarith)
  then have i: "i \<in> {56, 48, 40, 32, 24, 16, 8, 0}"
    unfolding i_def by (elim insertE emptyE) simp_all
  have "(ucast (drop_bit i m) :: byte) = ucast (drop_bit i n)"
    using eq i by (auto simp: u64_be_bytes_def)
  then have "bit (ucast (drop_bit i m) :: byte) (k mod 8) = bit (ucast (drop_bit i n) :: byte) (k mod 8)"
    by simp
  then have "bit (drop_bit i m) (k mod 8) = bit (drop_bit i n) (k mod 8)"
    by (simp add: bit_ucast_iff)
  then show "bit m k = bit n k"
    using ki by (simp add: bit_drop_bit_eq)
qed

lemma length_u64_be_string [simp]: "length (u64_be_string n) = 8"
  by (simp add: u64_be_string_def u64_be_bytes_def)

lemma char_of_uint_inj: "char_of (uint (a::byte)) = char_of (uint b) \<Longrightarrow> a = b"
proof -
  assume "char_of (uint a) = char_of (uint b)"
  then have "of_char (char_of (uint a)) = (of_char (char_of (uint b)) :: int)" by simp
  moreover have "of_char (char_of (uint c)) = uint c" for c :: byte
    using uint_bounded [of c] by simp
  ultimately have "uint a = uint b" by simp
  then show "a = b" by (simp only: word_uint_eq_iff)
qed

lemma u64_be_string_inj:
  assumes "u64_be_string m = u64_be_string n" and "m < 2 ^ 64" and "n < 2 ^ 64"
  shows "m = n"
proof -
  have "u64_be_bytes (of_nat m) = u64_be_bytes (of_nat n)"
    using assms(1) char_of_uint_inj
    by (auto simp: u64_be_string_def inj_def intro: injD [OF inj_mapI])
  then have "(of_nat m :: u64) = of_nat n" by (rule u64_be_bytes_inj)
  then have "unat (of_nat m :: u64) = unat (of_nat n :: u64)" by simp
  with assms(2,3) show ?thesis by (simp add: unat_of_nat take_bit_eq_mod)
qed

definition frame :: "string \<Rightarrow> string" where
  "frame field = u64_be_string (length field) @ field"

lemma framed_fields_concat: "framed_fields ns ps = concat (map frame (ns # ps))"
proof -
  have "fold (\<lambda>part framed. push_hash_field framed part) ps acc = acc @ concat (map frame ps)" for acc
    by (induction ps arbitrary: acc) (simp_all add: push_hash_field_def frame_def)
  then show ?thesis by (simp add: framed_fields_def push_hash_field_def frame_def)
qed

lemma frame_append_inj:
  assumes "frame p @ r = frame q @ s" and "length p < 2 ^ 64" and "length q < 2 ^ 64"
  shows "p = q \<and> r = s"
proof -
  have "u64_be_string (length p) = u64_be_string (length q)" and rest: "p @ r = q @ s"
    using assms(1) by (simp_all add: frame_def append_eq_append_conv)
  then have "length p = length q" using assms(2,3) by (blast intro: u64_be_string_inj)
  with rest show ?thesis by simp
qed

lemma concat_frame_inj:
  assumes "concat (map frame ps) = concat (map frame qs)"
    and "\<forall>p \<in> set ps. length p < 2 ^ 64" and "\<forall>q \<in> set qs. length q < 2 ^ 64"
  shows "ps = qs"
  using assms
proof (induction ps arbitrary: qs)
  case Nil
  then show ?case by (cases qs) (auto simp: frame_def, metis length_u64_be_string list.size(3) zero_neq_numeral)
next
  case (Cons p ps)
  show ?case
  proof (cases qs)
    case Nil
    with Cons.prems show ?thesis
      by (auto simp: frame_def, metis length_u64_be_string list.size(3) zero_neq_numeral)
  next
    case (Cons q qs')
    with Cons.prems have "p = q \<and> concat (map frame ps) = concat (map frame qs')"
      by (intro frame_append_inj) auto
    with Cons.IH [of qs'] Cons.prems Cons show ?thesis by simp
  qed
qed

lemma framed_fields_inj:
  assumes "framed_fields ns ps = framed_fields ns' qs"
    and "\<forall>p \<in> set (ns # ps). length p < 2 ^ 64" and "\<forall>q \<in> set (ns' # qs). length q < 2 ^ 64"
  shows "ns = ns' \<and> ps = qs"
  using concat_frame_inj [of "ns # ps" "ns' # qs"] assms by (simp add: framed_fields_concat)

lemma stable_identifier_nonempty [simp]: "stable_identifier h ns ps \<noteq> []"
  by (simp add: stable_identifier_def)

end
