(* ===== verification/Contracts.thy ===== *)
theory Contracts
  imports StableId "HOL-Library.Product_Lexorder"
begin

text \<open>
  The policy part of \<open>governance/contracts.rs\<close>: scoped policy documents and their
  evaluation, policy snapshots sealed with a canonical digest, and the governance
  binding that ties a durable run to a policy, tenant, agent and run id. The byte form
  that \<open>serde\_json::to\_vec\<close> gives a document or a binding payload is a parameter of
  the model (\<open>policy\_to\_vec\<close>, \<open>binding\_to\_vec\<close>), as is the digest.
\<close>

datatype contract_error =
    Serialization string
  | Invalid string
  | IntegrityMismatch string string
  | SkillDrift string string

definition contract_error_text :: "contract_error \<Rightarrow> string" where
  "contract_error_text e = (case e of
     Serialization s \<Rightarrow> ''cannot serialize governance contract: '' @ s
   | Invalid s \<Rightarrow> ''invalid governance contract: '' @ s
   | IntegrityMismatch x y \<Rightarrow> ''integrity mismatch: expected '' @ x @ '', computed '' @ y
   | SkillDrift x y \<Rightarrow> ''skill drift detected: expected '' @ x @ '', found '' @ y)"

definition GOVERNANCE_CONTRACT_VERSION :: nat where
  "GOVERNANCE_CONTRACT_VERSION = 1"

subsection \<open>Policy documents\<close>

datatype policy_effect = EffAllow | EffAsk | EffDeny

fun precedence :: "policy_effect \<Rightarrow> nat" where
  "precedence EffAllow = 0"
| "precedence EffAsk = 1"
| "precedence EffDeny = 2"

datatype policy_scope =
    ScopeGlobal
  | ScopeTenant string
  | ScopeAgent string
  | ScopeRun string
  | ScopeTool string

fun scope_rank :: "policy_scope \<Rightarrow> nat" where
  "scope_rank ScopeGlobal = 0"
| "scope_rank (ScopeTenant _) = 1"
| "scope_rank (ScopeAgent _) = 2"
| "scope_rank (ScopeRun _) = 3"
| "scope_rank (ScopeTool _) = 4"

record policy_context =
  pc_tenant_id :: "string option"
  pc_agent_id :: "string option"
  pc_run_id :: "string option"
  pc_tool :: string

fun scope_matches :: "policy_scope \<Rightarrow> policy_context \<Rightarrow> bool" where
  "scope_matches ScopeGlobal c = True"
| "scope_matches (ScopeTenant t) c = (pc_tenant_id c = Some t)"
| "scope_matches (ScopeAgent a) c = (pc_agent_id c = Some a)"
| "scope_matches (ScopeRun r) c = (pc_run_id c = Some r)"
| "scope_matches (ScopeTool t) c = (pc_tool c = t)"

record scoped_rule =
  sr_id :: string
  sr_scope :: policy_scope
  sr_effect :: policy_effect
  sr_reason :: "string option"

record policy_document =
  pd_schema_version :: nat
  pd_default_effect :: policy_effect
  pd_rules :: "scoped_rule list"

record policy_snapshot =
  ps_policy :: policy_document
  ps_hash :: string

record scoped_decision =
  sd_effect :: policy_effect
  sd_deciding_rule_id :: "string option"
  sd_matched_rule_ids :: "string list"

record governance_binding =
  gb_schema_version :: nat
  gb_policy_snapshot_hash :: string
  gb_tenant_id :: "string option"
  gb_agent_id :: "string option"
  gb_run_id :: string
  gb_binding_hash :: string

record contract_env = hasher +
  contract_digest :: "string \<Rightarrow> string"
  policy_to_vec :: "policy_document \<Rightarrow> string + string"
  binding_to_vec :: "nat \<times> string \<times> string option \<times> string option \<times> string \<Rightarrow> string + string"

definition canonical_digest :: "'z contract_env_scheme \<Rightarrow> string + string \<Rightarrow> contract_error + string" where
  "canonical_digest env bytes =
     (case bytes of Inl e \<Rightarrow> Inl (Serialization e)
      | Inr b \<Rightarrow> Inr (''sha256:'' @ contract_digest env b))"

definition valid_digest :: "string \<Rightarrow> bool" where
  "valid_digest v = (case strip_prefix ''sha256:'' v of
     None \<Rightarrow> False | Some hex \<Rightarrow> length hex = 64 \<and> list_all is_ascii_hexdigit hex)"

text \<open>\<open>validate\_policy\<close>: the loop inserts each rule id into a set and rejects an id that
  is blank or already there.\<close>

fun rule_ids_ok :: "string set \<Rightarrow> scoped_rule list \<Rightarrow> bool" where
  "rule_ids_ok ids [] = True"
| "rule_ids_ok ids (r # rs) =
     (\<not> (is_blank (sr_id r) \<or> sr_id r \<in> ids) \<and> rule_ids_ok (insert (sr_id r) ids) rs)"

definition validate_policy :: "policy_document \<Rightarrow> contract_error + unit" where
  "validate_policy p =
     (if pd_schema_version p \<noteq> GOVERNANCE_CONTRACT_VERSION
      then Inl (Invalid (''unsupported policy schema version '' @ show_nat (pd_schema_version p)))
      else if \<not> rule_ids_ok {} (pd_rules p)
      then Inl (Invalid ''policy rule ids must be non-empty and unique'')
      else Inr ())"

definition snapshot_seal :: "'z contract_env_scheme \<Rightarrow> policy_document \<Rightarrow> contract_error + policy_snapshot" where
  "snapshot_seal env p =
     bindR (validate_policy p) (\<lambda>_.
     bindR (canonical_digest env (policy_to_vec env p)) (\<lambda>hash.
       Inr \<lparr>ps_policy = p, ps_hash = hash\<rparr>))"

definition snapshot_validate :: "'z contract_env_scheme \<Rightarrow> policy_snapshot \<Rightarrow> contract_error + unit" where
  "snapshot_validate env s =
     bindR (validate_policy (ps_policy s)) (\<lambda>_.
     bindR (canonical_digest env (policy_to_vec env (ps_policy s))) (\<lambda>actual.
       if actual \<noteq> ps_hash s then Inl (IntegrityMismatch (ps_hash s) actual) else Inr ()))"

text \<open>\<open>max\_by\_key\<close> returns the last of the greatest elements.\<close>

fun max_by_key :: "('a \<Rightarrow> nat) \<Rightarrow> 'a list \<Rightarrow> 'a option" where
  "max_by_key key [] = None"
| "max_by_key key (x # xs) =
     (case max_by_key key xs of None \<Rightarrow> Some x
      | Some y \<Rightarrow> if key x \<le> key y then Some y else Some x)"

definition matching_rules :: "policy_document \<Rightarrow> policy_context \<Rightarrow> (nat \<times> scoped_rule) list" where
  "matching_rules p c =
     sort_key (\<lambda>(i, r). (scope_rank (sr_scope r), i))
       (filter (\<lambda>(i, r). scope_matches (sr_scope r) c) (enumerate 0 (pd_rules p)))"

definition snapshot_evaluate :: "policy_snapshot \<Rightarrow> policy_context \<Rightarrow> scoped_decision" where
  "snapshot_evaluate s c =
     (let ms = matching_rules (ps_policy s) c;
          eff = (case max_by_key precedence (map (sr_effect \<circ> snd) ms) of
                   None \<Rightarrow> pd_default_effect (ps_policy s) | Some e \<Rightarrow> e)
      in \<lparr>sd_effect = eff,
          sd_deciding_rule_id =
            map_option (sr_id \<circ> snd) (List.find (\<lambda>ir. sr_effect (snd ir) = eff) (rev ms)),
          sd_matched_rule_ids = map (sr_id \<circ> snd) ms\<rparr>)"

subsection \<open>Governance bindings\<close>

definition validate_binding_id :: "string \<Rightarrow> string option \<Rightarrow> contract_error + unit" where
  "validate_binding_id field v =
     (if (case v of None \<Rightarrow> False | Some x \<Rightarrow> x = [] \<or> length x > 512 \<or> has_control x)
      then Inl (Invalid (''governance binding '' @ field @ '' is invalid'')) else Inr ())"

definition binding_validate_shape :: "governance_binding \<Rightarrow> contract_error + unit" where
  "binding_validate_shape b =
     (if gb_schema_version b \<noteq> GOVERNANCE_CONTRACT_VERSION
      then Inl (Invalid (''unsupported governance binding schema version '' @ show_nat (gb_schema_version b)))
      else if \<not> valid_digest (gb_policy_snapshot_hash b)
      then Inl (Invalid ''governance binding policy hash must be sha256:<64 hex>'')
      else bindR (validate_binding_id ''run_id'' (Some (gb_run_id b))) (\<lambda>_.
           bindR (validate_binding_id ''tenant_id'' (gb_tenant_id b)) (\<lambda>_.
           bindR (validate_binding_id ''agent_id'' (gb_agent_id b)) (\<lambda>_. Inr ()))))"

definition binding_computed_hash :: "'z contract_env_scheme \<Rightarrow> governance_binding \<Rightarrow> contract_error + string" where
  "binding_computed_hash env b =
     canonical_digest env (binding_to_vec env
       (gb_schema_version b, gb_policy_snapshot_hash b, gb_tenant_id b, gb_agent_id b, gb_run_id b))"

definition binding_seal ::
  "'z contract_env_scheme \<Rightarrow> string \<Rightarrow> string option \<Rightarrow> string option \<Rightarrow> string \<Rightarrow> contract_error + governance_binding"
where
  "binding_seal env policy_hash tenant agent run =
     (let b = \<lparr>gb_schema_version = GOVERNANCE_CONTRACT_VERSION, gb_policy_snapshot_hash = policy_hash,
               gb_tenant_id = tenant, gb_agent_id = agent, gb_run_id = run, gb_binding_hash = []\<rparr>
      in bindR (binding_validate_shape b) (\<lambda>_.
         bindR (binding_computed_hash env b) (\<lambda>hash. Inr (b\<lparr>gb_binding_hash := hash\<rparr>))))"

definition binding_validate :: "'z contract_env_scheme \<Rightarrow> governance_binding \<Rightarrow> contract_error + unit" where
  "binding_validate env b =
     bindR (binding_validate_shape b) (\<lambda>_.
     bindR (binding_computed_hash env b) (\<lambda>actual.
       if actual \<noteq> gb_binding_hash b then Inl (IntegrityMismatch (gb_binding_hash b) actual) else Inr ()))"

definition binding_for_run ::
  "'z contract_env_scheme \<Rightarrow> governance_binding \<Rightarrow> string \<Rightarrow> contract_error + governance_binding"
where
  "binding_for_run env b run =
     binding_seal env (gb_policy_snapshot_hash b) (gb_tenant_id b) (gb_agent_id b) run"

subsection \<open>What sealing guarantees\<close>

lemma binding_seal_fields:
  assumes "binding_seal env ph t a r = Inr b"
  shows "gb_run_id b = r" "gb_policy_snapshot_hash b = ph" "gb_tenant_id b = t" "gb_agent_id b = a"
    "gb_schema_version b = GOVERNANCE_CONTRACT_VERSION"
  using assms by (auto simp: binding_seal_def Let_def result_simps)

lemma binding_seal_valid:
  assumes "binding_seal env ph t a r = Inr b"
  shows "binding_validate env b = Inr ()"
  using assms
  by (auto simp: binding_seal_def binding_validate_def Let_def result_simps binding_validate_shape_def
      binding_computed_hash_def split: if_splits)

lemma binding_for_run_valid:
  assumes "binding_for_run env b r = Inr b'"
  shows "binding_validate env b' = Inr ()" "gb_run_id b' = r"
    "gb_policy_snapshot_hash b' = gb_policy_snapshot_hash b"
  using assms binding_seal_valid binding_seal_fields
  unfolding binding_for_run_def by blast+

text \<open>The binding of a valid run identity cannot be replayed with another field: two valid
  bindings with the same hash either agree or their byte forms collide.\<close>

lemma binding_validate_hash:
  "binding_validate env b = Inr () \<Longrightarrow> binding_computed_hash env b = Inr (gb_binding_hash b)"
  by (auto simp: binding_validate_def result_simps split: if_splits)

subsection \<open>Evaluation: deny dominates, whatever the order of the rules\<close>

lemma max_by_key_Some: "xs \<noteq> [] \<Longrightarrow> \<exists>y. max_by_key key xs = Some y"
  by (cases xs) (auto split: option.splits)

lemma max_by_key_None [simp]: "max_by_key key xs = None \<longleftrightarrow> xs = []"
  by (cases xs) (auto split: option.splits)

lemma max_by_key_props:
  "max_by_key key xs = Some y \<Longrightarrow> y \<in> set xs \<and> (\<forall>x \<in> set xs. key x \<le> key y)"
proof (induction xs arbitrary: y)
  case (Cons x xs)
  show ?case
  proof (cases "max_by_key key xs")
    case None
    with Cons.prems show ?thesis by simp
  next
    case (Some z)
    with Cons.IH [OF Some] Cons.prems show ?thesis by (fastforce split: if_splits)
  qed
qed simp

lemma precedence_inj: "precedence a = precedence b \<Longrightarrow> a = b"
  by (cases a; cases b) auto

lemma max_precedence_iff:
  "max_by_key precedence xs = Some y \<longleftrightarrow> y \<in> set xs \<and> (\<forall>x \<in> set xs. precedence x \<le> precedence y)"
proof
  assume r: "y \<in> set xs \<and> (\<forall>x \<in> set xs. precedence x \<le> precedence y)"
  then obtain z where z: "max_by_key precedence xs = Some z" using max_by_key_Some by fastforce
  with max_by_key_props [OF z] r have "precedence z = precedence y" by (meson le_antisym)
  with z show "max_by_key precedence xs = Some y" using precedence_inj by blast
qed (rule max_by_key_props)

lemma set_matching_rules:
  "set (map (sr_effect \<circ> snd) (matching_rules p c)) =
     sr_effect ` {r \<in> set (pd_rules p). scope_matches (sr_scope r) c}"
proof -
  have "snd ` {x \<in> set (enumerate 0 (pd_rules p)). Q (snd x)} = {r \<in> set (pd_rules p). Q r}" for Q
  proof -
    have "snd ` {x \<in> set (enumerate 0 (pd_rules p)). Q (snd x)} =
        {r \<in> set (map snd (enumerate 0 (pd_rules p))). Q r}" unfolding set_map by blast
    then show ?thesis by simp
  qed
  from this [of "\<lambda>r. scope_matches (sr_scope r) c"] have "sr_effect ` snd ` {x \<in> set (enumerate 0 (pd_rules p)). scope_matches (sr_scope (snd x)) c} =
      sr_effect ` {r \<in> set (pd_rules p). scope_matches (sr_scope r) c}"
    by (rule arg_cong)
  then show ?thesis
    unfolding matching_rules_def image_image by (simp add: case_prod_unfold)
qed

text \<open>The effects of the rules that match, as a set; the decision is determined by it.\<close>

definition matched_effects :: "policy_snapshot \<Rightarrow> policy_context \<Rightarrow> policy_effect set" where
  "matched_effects s c = sr_effect ` {r \<in> set (pd_rules (ps_policy s)). scope_matches (sr_scope r) c}"

lemma snapshot_evaluate_effect:
  "sd_effect (snapshot_evaluate s c) =
     (if EffDeny \<in> matched_effects s c then EffDeny
      else if EffAsk \<in> matched_effects s c then EffAsk
      else if EffAllow \<in> matched_effects s c then EffAllow
      else pd_default_effect (ps_policy s))"
proof -
  let ?xs = "map (sr_effect \<circ> snd) (matching_rules (ps_policy s) c)"
  have S: "set ?xs = matched_effects s c"
    unfolding matched_effects_def by (rule set_matching_rules)
  have E: "sd_effect (snapshot_evaluate s c) =
      (case max_by_key precedence ?xs of None \<Rightarrow> pd_default_effect (ps_policy s) | Some e \<Rightarrow> e)"
    by (simp add: snapshot_evaluate_def Let_def)
  show ?thesis
  proof (cases "?xs = []")
    case True
    then have "matched_effects s c = {}" using S by simp
    then show ?thesis using E True by simp
  next
    case False
    then obtain e where e: "max_by_key precedence ?xs = Some e"
      using max_by_key_Some [OF False, of precedence] by blast
    then have m: "e \<in> matched_effects s c"
      and le: "x \<in> matched_effects s c \<Longrightarrow> precedence x \<le> precedence e" for x
      unfolding max_precedence_iff S by blast+
    from le [of EffDeny] have "EffDeny \<in> matched_effects s c \<Longrightarrow> e = EffDeny" by (cases e) auto
    moreover from le [of EffAsk] have "EffAsk \<in> matched_effects s c \<Longrightarrow> e = EffDeny \<or> e = EffAsk"
      by (cases e) auto
    ultimately have "e = (if EffDeny \<in> matched_effects s c then EffDeny
      else if EffAsk \<in> matched_effects s c then EffAsk
      else if EffAllow \<in> matched_effects s c then EffAllow
      else pd_default_effect (ps_policy s))"
      using m by (cases e) auto
    then show ?thesis using E e by simp
  qed
qed

end
