(* ===== verification/BTree.thy ===== *)
theory BTree
  imports Prelude
begin

text \<open>
  \<open>BTreeMap<String, V>\<close> of the Rust standard library: a finite map iterated in key
  order. It is modelled by the list of its entries in increasing key order, so that
  \<open>values()\<close>, \<open>find\<close> and collected key lists come out in the order of the code.
  The locale \<open>ordered\_map\<close> states what the clients rely on; the interpretation at the
  end discharges it for the operations below.
\<close>

type_synonym 'v btree = "(string \<times> 'v) list"

definition bt_get :: "'v btree \<Rightarrow> string \<Rightarrow> 'v option" where
  "bt_get m k = map_of m k"

fun bt_insert :: "string \<Rightarrow> 'v \<Rightarrow> 'v btree \<Rightarrow> 'v btree" where
  "bt_insert k v [] = [(k, v)]"
| "bt_insert k v ((a, b) # m) =
     (if k < a then (k, v) # (a, b) # m
      else if k = a then (k, v) # m
      else (a, b) # bt_insert k v m)"

definition bt_retain :: "(string \<Rightarrow> 'v \<Rightarrow> bool) \<Rightarrow> 'v btree \<Rightarrow> 'v btree" where
  "bt_retain p m = filter (\<lambda>(k, v). p k v) m"

definition bt_values :: "'v btree \<Rightarrow> 'v list" where
  "bt_values m = map snd m"

definition bt_contains_key :: "'v btree \<Rightarrow> string \<Rightarrow> bool" where
  "bt_contains_key m k = (bt_get m k \<noteq> None)"

text \<open>\<open>get\_mut\<close> followed by an assignment through the reference.\<close>

definition bt_modify :: "string \<Rightarrow> ('v \<Rightarrow> 'v) \<Rightarrow> 'v btree \<Rightarrow> 'v btree" where
  "bt_modify k f m = map (\<lambda>(a, b). (a, if a = k then f b else b)) m"

definition bt_ok :: "'v btree \<Rightarrow> bool" where
  "bt_ok m = (sorted (map fst m) \<and> distinct (map fst m))"

locale ordered_map =
  fixes empty :: 'm
    and lookup :: "'m \<Rightarrow> string \<Rightarrow> 'v option"
    and insert :: "string \<Rightarrow> 'v \<Rightarrow> 'm \<Rightarrow> 'm"
    and modify :: "string \<Rightarrow> ('v \<Rightarrow> 'v) \<Rightarrow> 'm \<Rightarrow> 'm"
    and retain :: "(string \<Rightarrow> 'v \<Rightarrow> bool) \<Rightarrow> 'm \<Rightarrow> 'm"
    and elements :: "'m \<Rightarrow> 'v list"
    and invar :: "'m \<Rightarrow> bool"
  assumes lookup_empty: "lookup empty k = None"
    and lookup_insert: "lookup (insert k v m) k' = (if k' = k then Some v else lookup m k')"
    and lookup_modify: "lookup (modify k f m) k' =
          (if k' = k then map_option f (lookup m k) else lookup m k')"
    and lookup_retain: "invar m \<Longrightarrow> lookup (retain p m) k =
          (case lookup m k of None \<Rightarrow> None | Some v \<Rightarrow> if p k v then Some v else None)"
    and elements_iff: "invar m \<Longrightarrow> v \<in> set (elements m) \<longleftrightarrow> (\<exists>k. lookup m k = Some v)"
    and invar_empty: "invar empty"
    and invar_insert: "invar m \<Longrightarrow> invar (insert k v m)"
    and invar_modify: "invar m \<Longrightarrow> invar (modify k f m)"
    and invar_retain: "invar m \<Longrightarrow> invar (retain p m)"
begin

lemma lookup_in_elements: "invar m \<Longrightarrow> lookup m k = Some v \<Longrightarrow> v \<in> set (elements m)"
  by (auto simp: elements_iff)

text \<open>A property of every value survives an insertion of a value that has it.\<close>

lemma all_insert:
  assumes "\<And>k v. lookup m k = Some v \<Longrightarrow> P k v" and "P k v"
  shows "lookup (insert k v m) k' = Some v' \<Longrightarrow> P k' v'"
  using assms by (auto simp: lookup_insert split: if_splits)

lemma all_modify:
  assumes "\<And>k v. lookup m k = Some v \<Longrightarrow> P k v"
    and "\<And>v. lookup m k = Some v \<Longrightarrow> P k (f v)"
  shows "lookup (modify k f m) k' = Some v' \<Longrightarrow> P k' v'"
  using assms by (auto simp: lookup_modify split: if_splits)

lemma all_retain:
  assumes "invar m" and "\<And>k v. lookup m k = Some v \<Longrightarrow> P k v"
  shows "lookup (retain p m) k' = Some v' \<Longrightarrow> P k' v'"
  using assms by (auto simp: lookup_retain split: option.splits if_splits)

lemma retain_subset:
  assumes "invar m" and "lookup (retain p m) k = Some v"
  shows "lookup m k = Some v \<and> p k v"
  using assms by (auto simp: lookup_retain split: option.splits if_splits)

end

lemma map_of_bt_insert: "map_of (bt_insert k v m) k' = (if k' = k then Some v else map_of m k')"
  by (induction k v m rule: bt_insert.induct) auto

lemma set_bt_insert_keys: "set (map fst (bt_insert k v m)) = insert k (set (map fst m))"
  by (induction k v m rule: bt_insert.induct) auto

lemma bt_ok_insert: "bt_ok m \<Longrightarrow> bt_ok (bt_insert k v m)"
proof (induction k v m rule: bt_insert.induct)
  case (1 k v)
  then show ?case by (simp add: bt_ok_def)
next
  case (2 k v a b m)
  show ?case
  proof (cases "k < a \<or> k = a")
    case True
    with "2.prems" show ?thesis by (fastforce simp: bt_ok_def)
  next
    case False
    with 2 have ok: "bt_ok (bt_insert k v m)" by (simp add: bt_ok_def)
    have keys: "set (map fst (bt_insert k v m)) = insert k (set (map fst m))"
      by (rule set_bt_insert_keys)
    with False "2.prems" have "\<forall>x \<in> set (map fst (bt_insert k v m)). a < x"
      by (fastforce simp: bt_ok_def simp del: set_map)
    then have "\<forall>x \<in> set (map fst (bt_insert k v m)). a \<le> x \<and> x \<noteq> a" by auto
    with ok False show ?thesis by (auto simp: bt_ok_def)
  qed
qed

lemma map_of_bt_modify:
  "map_of (bt_modify k f m) k' = (if k' = k then map_option f (map_of m k) else map_of m k')"
  unfolding bt_modify_def by (induction m) auto

lemma map_of_bt_retain:
  "distinct (map fst m) \<Longrightarrow> map_of (bt_retain p m) k =
     (case map_of m k of None \<Rightarrow> None | Some v \<Rightarrow> if p k v then Some v else None)"
  unfolding bt_retain_def
  by (induction m) (auto split: option.splits simp: map_of_eq_None_iff rev_image_eqI)

lemma bt_ok_filter: "bt_ok m \<Longrightarrow> bt_ok (filter q m)"
  unfolding bt_ok_def by (simp add: sorted_filter distinct_map_filter)

lemma bt_ok_retain: "bt_ok m \<Longrightarrow> bt_ok (bt_retain p m)"
  by (simp add: bt_retain_def bt_ok_filter)

lemma bt_ok_modify: "bt_ok m \<Longrightarrow> bt_ok (bt_modify k f m)"
  by (simp add: bt_ok_def bt_modify_def case_prod_unfold comp_def)

lemma bt_values_iff: "bt_ok m \<Longrightarrow> v \<in> set (bt_values m) \<longleftrightarrow> (\<exists>k. bt_get m k = Some v)"
  by (force simp: bt_ok_def bt_values_def bt_get_def dest: map_of_SomeD)

interpretation bt: ordered_map "[]" bt_get bt_insert bt_modify bt_retain bt_values bt_ok
proof
  show "bt_ok []" by (simp add: bt_ok_def)
  show "bt_ok m \<Longrightarrow> bt_get (bt_retain p m) k =
      (case bt_get m k of None \<Rightarrow> None | Some v \<Rightarrow> if p k v then Some v else None)"
    for m :: "'v btree" and p k
    by (simp add: bt_get_def bt_ok_def map_of_bt_retain)
qed (simp_all add: bt_get_def map_of_bt_insert map_of_bt_modify bt_ok_insert bt_ok_modify
      bt_ok_retain bt_values_iff[unfolded bt_get_def])

lemma bt_values_Nil [simp]: "bt_values [] = []"
  by (simp add: bt_values_def)

lemma bt_get_Nil [simp]: "bt_get [] k = None"
  by (simp add: bt_get_def)

lemmas bt_lookup_simps = bt.lookup_insert bt.lookup_modify bt.lookup_retain

end
