(* ===== verification/DurTypes.thy ===== *)
theory DurTypes
  imports Contracts BTree
begin

text \<open>
  The data model of \<open>durability.rs\<close>: activities and their attempts, approvals,
  artifacts, worker leases, the run projection, checkpoints, the append-only event
  kinds, the run state, commands and errors, and the pure helpers on them.

  A BTreeMap is a key-ordered association list (theory \<open>BTree\<close>), an unsigned integer a
  natural number, a JSON value a \<^typ>\<open>json\<close>. The human-readable \<open>reason\<close> texts inside
  errors are left out: no code branches on them. The reasons that are stored in events are kept.

  The record \<open>durable\_env\<close> collects what the code takes from libraries: the digest and
  the JSON writer (theory \<open>Json\<close>), and the conversions that \<open>serde\_json\<close> derives for
  the typed envelopes (\<open>from\_value\<close>, with the error as text, and \<open>json!\<close>/\<open>to\_value\<close>).
\<close>

subsection \<open>Constants\<close>

definition DURABILITY_SCHEMA_VERSION :: nat where "DURABILITY_SCHEMA_VERSION = 3"
definition MIN_SUPPORTED_DURABILITY_SCHEMA_VERSION :: nat where
  "MIN_SUPPORTED_DURABILITY_SCHEMA_VERSION = 1"
definition TERMINAL_ACTIVITY_INVARIANT_SCHEMA_VERSION :: nat where
  "TERMINAL_ACTIVITY_INVARIANT_SCHEMA_VERSION = 2"
definition ACTIVITY_ATTEMPT_CANCELLED_SCHEMA_VERSION :: nat where
  "ACTIVITY_ATTEMPT_CANCELLED_SCHEMA_VERSION = 3"
definition MAX_DURABLE_WORKER_LEASE_MS :: nat where
  "MAX_DURABLE_WORKER_LEASE_MS = 60 * 60 * 1000"

definition RUNTIME_RUN_STOPPED_AUDIT_STEP_ID :: string where
  "RUNTIME_RUN_STOPPED_AUDIT_STEP_ID = ''runtime-run-stopped-audit-v2''"
definition RUNTIME_LEGACY_RUN_STOPPED_AUDIT_STEP_ID :: string where
  "RUNTIME_LEGACY_RUN_STOPPED_AUDIT_STEP_ID = ''runtime-run-stopped-audit-v1''"
definition RUNTIME_RECOVERY_RUN_STOPPED_AUDIT_STEP_ID :: string where
  "RUNTIME_RECOVERY_RUN_STOPPED_AUDIT_STEP_ID = ''runtime-recovery-run-stopped-audit-v1''"
definition RUNTIME_INVOCATION_LIFECYCLE_STEP_ID :: string where
  "RUNTIME_INVOCATION_LIFECYCLE_STEP_ID = ''runtime-invocation-lifecycle-v1''"

definition DURABLE_APPROVAL_ENVELOPE_KEY :: string where
  "DURABLE_APPROVAL_ENVELOPE_KEY = ''$aikit_durable_approval''"
definition DURABLE_RESOLUTION_ENVELOPE_KEY :: string where
  "DURABLE_RESOLUTION_ENVELOPE_KEY = ''$aikit_durable_resolution''"

lemmas schema_version_defs = DURABILITY_SCHEMA_VERSION_def MIN_SUPPORTED_DURABILITY_SCHEMA_VERSION_def
  TERMINAL_ACTIVITY_INVARIANT_SCHEMA_VERSION_def ACTIVITY_ATTEMPT_CANCELLED_SCHEMA_VERSION_def

lemmas step_id_defs = RUNTIME_RUN_STOPPED_AUDIT_STEP_ID_def RUNTIME_LEGACY_RUN_STOPPED_AUDIT_STEP_ID_def
  RUNTIME_RECOVERY_RUN_STOPPED_AUDIT_STEP_ID_def RUNTIME_INVOCATION_LIFECYCLE_STEP_ID_def

definition is_supported_durability_schema_version :: "nat \<Rightarrow> bool" where
  "is_supported_durability_schema_version v =
     (v \<ge> MIN_SUPPORTED_DURABILITY_SCHEMA_VERSION \<and> v \<le> DURABILITY_SCHEMA_VERSION)"

subsection \<open>Enumerations and records\<close>

datatype durability_mode = Sync | Async | ExitMode

datatype side_effect_class = Pure | Idempotent | EffReconcileRequired

datatype run_status =
  RunRunning | RunPausedSt | RunReconcileRequired | RunCompletedSt | RunFailedSt | RunCancelledSt

fun is_terminal :: "run_status \<Rightarrow> bool" where
  "is_terminal RunCompletedSt = True"
| "is_terminal RunFailedSt = True"
| "is_terminal RunCancelledSt = True"
| "is_terminal _ = False"

datatype attempt_status = AtRunning | AtCompleted | AtFailed | AtReconcileRequired | AtCancelled

record activity_definition =
  ad_activity_id :: string
  ad_stable_step_id :: string
  ad_logical_key :: string
  ad_input :: json
  ad_input_hash :: string
  ad_side_effect_class :: side_effect_class
  ad_idempotency_key :: "string option"

record activity_attempt =
  at_attempt :: nat
  at_status :: attempt_status
  at_started_sequence :: nat
  at_finished_sequence :: "nat option"
  at_output :: "json option"
  at_output_hash :: "string option"
  at_error :: "string option"
  at_retryable :: bool
  at_effect_ambiguous :: bool

record activity_record =
  ar_definition :: activity_definition
  ar_attempts :: "activity_attempt list"

definition completed_output :: "activity_record \<Rightarrow> json option" where
  "completed_output r =
     Option.bind (List.find (\<lambda>a. at_status a = AtCompleted) (rev (ar_attempts r))) at_output"

definition latest_attempt :: "activity_record \<Rightarrow> activity_attempt option" where
  "latest_attempt r = last_opt (ar_attempts r)"

definition latest_is :: "attempt_status \<Rightarrow> activity_record \<Rightarrow> bool" where
  "latest_is st r = (case latest_attempt r of None \<Rightarrow> False | Some a \<Rightarrow> at_status a = st)"

record artifact_metadata =
  am_artifact_id :: string
  am_version :: nat
  am_version_id :: string
  am_branch_id :: string
  am_media_type :: string
  am_size_bytes :: nat
  am_content_hash :: string
  am_created_by_activity_id :: "string option"
  am_previous_version_id :: "string option"

datatype approval_status = Pending | Approved | Rejected

datatype approval_kind = Confirmation | MissingInput | OutputReview | EditRetry

record durable_approval =
  ap_approval_id :: string
  ap_logical_key :: string
  ap_activity_id :: "string option"
  ap_kind :: approval_kind
  ap_prompt :: string
  ap_payload :: json
  ap_policy_snapshot_hash :: "string option"
  ap_governance_binding :: "governance_binding option"
  ap_requested_at :: "nat option"
  ap_expires_at :: "nat option"
  ap_status :: approval_status
  ap_response :: "json option"
  ap_resolved_at :: "nat option"
  ap_timed_out :: bool
  ap_requested_sequence :: nat
  ap_resolved_sequence :: "nat option"

record approval_request =
  rq_logical_key :: string
  rq_activity_id :: "string option"
  rq_kind :: approval_kind
  rq_prompt :: string
  rq_payload :: json
  rq_policy_snapshot_hash :: "string option"
  rq_governance_binding :: "governance_binding option"
  rq_requested_at :: nat
  rq_expires_at :: nat

record approval_envelope =
  ae_schema_version :: nat
  ae_kind :: approval_kind
  ae_payload :: json
  ae_policy_snapshot_hash :: "string option"
  ae_governance_binding :: "governance_binding option"
  ae_requested_at :: nat
  ae_expires_at :: nat

record resolution_envelope =
  re_schema_version :: nat
  re_resolved_at :: nat
  re_timed_out :: bool
  re_response :: "json option"

record approval_resolution =
  res_approval_id :: string
  res_approved :: bool
  res_response :: "json option"

record worker_lease =
  wl_owner_id :: string
  wl_lease_id :: string
  wl_acquired_at :: nat
  wl_heartbeat_at :: nat
  wl_expires_at :: nat

record run_projection =
  pj_branch_id :: string
  pj_status :: run_status
  pj_state :: json
  pj_activities :: "activity_record btree"
  pj_approvals :: "durable_approval btree"
  pj_artifacts :: "artifact_metadata list btree"
  pj_current_checkpoint_id :: "string option"
  pj_pause_reason :: "string option"
  pj_worker_lease :: "worker_lease option"

record checkpoint =
  cp_checkpoint_id :: string
  cp_run_id :: string
  cp_event_sequence :: nat
  cp_parent_checkpoint_id :: "string option"
  cp_label :: "string option"
  cp_projection :: run_projection

datatype reconciliation = RecCompleted json | RecSafeToRetry | RecCancelled

datatype event_kind =
    RunStarted string durability_mode string
  | PolicySnapshotPinned string
  | GovernanceBindingPinned governance_binding
  | ForkedFrom string string durability_mode checkpoint string
  | StateReplaced json
  | WorkerLeaseClaimed string string nat nat
  | WorkerLeaseRenewed string string nat nat
  | WorkerLeaseReleased string string nat
  | ActivityScheduled activity_definition
  | ActivityAttemptStarted string nat
  | ActivityAttemptCompleted string nat json string
  | ActivityAttemptFailed string nat string bool bool
  | ActivityAttemptCancelled string nat string
  | ActivityReconciliationRequired string nat string
  | ActivityReconciled string nat reconciliation
  | ApprovalRequested string string "string option" string json
  | ApprovalResolved string bool "json option"
  | ArtifactPublished artifact_metadata
  | CheckpointCommitted string "string option"
  | RunPaused string
  | RunResumed
  | ForkCreated string string string bool
  | RunRewound string string bool
  | RunCompleted
  | RunFailed string
  | RunCancelled "string option"

record run_event =
  ev_schema_version :: nat
  ev_run_id :: string
  ev_sequence :: nat
  ev_event_id :: string
  ev_kind :: event_kind

datatype append_outcome = Appended nat | Deduplicated nat

datatype activity_decision =
    Execute string nat "string option"
  | ReuseCompleted string json
  | DecReconcileRequired string string
  | DecFailed string string
  | DecCancelled string

datatype run_command =
    Resume string "approval_resolution list"
  | Fork string string string bool
  | Rewind string string bool
  | Cancel string "string option"

record run_state =
  rs_schema_version :: nat
  rs_session_id :: string
  rs_run_id :: string
  rs_durability :: durability_mode
  rs_parent_run_id :: "string option"
  rs_policy_snapshot_hash :: "string option"
  rs_governance_binding :: "governance_binding option"
  rs_events :: "run_event list"
  rs_checkpoints :: "checkpoint btree"
  rs_projection :: run_projection

datatype command_outcome =
    Resumed nat
  | Forked run_state
  | Rewound string nat
  | Cancelled nat

datatype durability_error =
    InvalidIdentifier string
  | UnsupportedSchema nat nat
  | WrongRun string string
  | DuplicateEventConflict string
  | NonMonotonicSequence nat nat
  | MissingRunStart
  | AlreadyStarted
  | TerminalRun run_status
  | ActivityNotFound string
  | ActivityInputChanged string string
  | MissingIdempotencyKey string
  | InvalidActivityTransition string
  | ApprovalNotFound string
  | ApprovalAlreadyResolved string
  | ApprovalClockRequired string
  | InvalidApprovalResolution string
  | PendingApprovals
  | CheckpointNotFound string
  | InvalidArtifactVersion string nat nat
  | ReconcileRequired "string list"
  | NotPaused
  | RunNotExecuting run_status
  | RunRequiresReconciliation
  | WorkerLeaseHeld string nat
  | WorkerLeaseLost string
  | InvalidEvent
  | Panicked

text \<open>\<open>Panicked\<close> is not a variant of \<open>DurabilityError\<close>: it marks the places where the
  source panics (an index into a map that lacks the key, \<open>unreachable!\<close>).\<close>

subsection \<open>Typed audit envelopes\<close>

record usage =
  input_tokens :: nat
  output_tokens :: nat
  cache_creation_input_tokens :: nat
  cache_read_input_tokens :: nat
  reasoning_tokens :: nat

record run_stopped_receipt =
  rr_turns :: nat
  rr_reason :: string
  rr_usage :: usage

record legacy_source =
  ls_schema_version :: nat
  ls_kind :: string
  ls_source_activity_id :: string
  ls_source_attempt :: nat
  ls_source_started_sequence :: nat
  ls_source_output_hash :: "string option"

record legacy_resolution = legacy_source +
  lr_terminal_receipt :: run_stopped_receipt

datatype audit_kind = Canonical | Recovery | Direct
datatype audit_payload_policy = MetadataOnly | FullPayload
datatype audit_failure_mode = BestEffort | FailClosed

record audit_replay_binding =
  ab_schema_version :: nat
  ab_delivery_id :: "string option"
  ab_sink_count :: nat
  ab_payload_policy :: audit_payload_policy
  ab_failure_mode :: audit_failure_mode
  ab_max_preview_bytes :: nat

record replay_envelope =
  rp_schema_version :: nat
  rp_kind :: audit_kind
  rp_terminal_receipt :: run_stopped_receipt
  rp_audit_run_id :: string
  rp_invocation_id :: string
  rp_run_stopped_sequence :: nat
  rp_audit_turns :: nat
  rp_audit_reason :: string
  rp_audit_binding :: audit_replay_binding

definition LEGACY_RUN_STOPPED_RESOLUTION_SCHEMA_VERSION :: nat where
  "LEGACY_RUN_STOPPED_RESOLUTION_SCHEMA_VERSION = 1"
definition LEGACY_RUN_STOPPED_RESOLUTION_KIND :: string where
  "LEGACY_RUN_STOPPED_RESOLUTION_KIND = ''legacy_run_stopped_v1''"

record durable_env = contract_env +
  de_approval_envelope :: "json \<Rightarrow> string + approval_envelope"
  ser_approval_envelope :: "approval_envelope \<Rightarrow> json"
  de_resolution_envelope :: "json \<Rightarrow> string + resolution_envelope"
  ser_resolution_envelope :: "resolution_envelope \<Rightarrow> json"
  de_legacy_source :: "json \<Rightarrow> string + legacy_source"
  de_legacy_resolution :: "json \<Rightarrow> string + legacy_resolution"
  de_replay_envelope :: "json \<Rightarrow> string + replay_envelope"
  de_audit_replay_binding :: "json \<Rightarrow> string + audit_replay_binding"
  de_usage :: "json \<Rightarrow> string + usage"
  ser_receipt :: "run_stopped_receipt \<Rightarrow> string + json"

subsection \<open>Pure helpers\<close>

definition validate_identifier :: "string \<Rightarrow> string \<Rightarrow> durability_error + unit" where
  "validate_identifier field v =
     (if v = [] \<or> has_control v then Inl (InvalidIdentifier field) else Inr ())"

definition validate_policy_hash :: "string \<Rightarrow> durability_error + unit" where
  "validate_policy_hash hash =
     (case strip_prefix ''sha256:'' hash of
        None \<Rightarrow> Inl InvalidEvent
      | Some d \<Rightarrow> if length d = 64 \<and> list_all is_ascii_hexdigit d then Inr () else Inl InvalidEvent)"

definition key_missing :: "string option \<Rightarrow> bool" where
  "key_missing k = (case k of None \<Rightarrow> True | Some s \<Rightarrow> s = [])"

definition retry_is_safe :: "activity_definition \<Rightarrow> bool \<Rightarrow> bool" where
  "retry_is_safe d effect_ambiguous =
     (\<not> effect_ambiguous
      \<or> ad_side_effect_class d = Pure
      \<or> (ad_side_effect_class d = Idempotent \<and> \<not> key_missing (ad_idempotency_key d)))"

definition validate_worker_lease_window :: "nat \<Rightarrow> nat \<Rightarrow> durability_error + unit" where
  "validate_worker_lease_window starts_at expires_at =
     (case checked_sub expires_at starts_at of
        None \<Rightarrow> Inl InvalidEvent
      | Some duration \<Rightarrow>
          if duration > 0 \<and> duration \<le> MAX_DURABLE_WORKER_LEASE_MS then Inr () else Inl InvalidEvent)"

definition append_sequence :: "append_outcome \<Rightarrow> nat" where
  "append_sequence oc = (case oc of Appended n \<Rightarrow> n | Deduplicated n \<Rightarrow> n)"

definition pending_approval_ids :: "run_projection \<Rightarrow> string list" where
  "pending_approval_ids p =
     map ap_approval_id (filter (\<lambda>a. ap_status a = Pending) (bt_values (pj_approvals p)))"

definition projection_root :: "'z hasher_scheme \<Rightarrow> string \<Rightarrow> run_projection" where
  "projection_root h run_id =
     \<lparr>pj_branch_id = stable_identifier h ''branch'' [run_id, ''root''],
      pj_status = RunRunning, pj_state = JObject [],
      pj_activities = [], pj_approvals = [], pj_artifacts = [],
      pj_current_checkpoint_id = None, pj_pause_reason = None, pj_worker_lease = None\<rparr>"

definition is_reserved_step :: "string \<Rightarrow> bool" where
  "is_reserved_step s =
     (s = RUNTIME_LEGACY_RUN_STOPPED_AUDIT_STEP_ID \<or> s = RUNTIME_RUN_STOPPED_AUDIT_STEP_ID
      \<or> s = RUNTIME_RECOVERY_RUN_STOPPED_AUDIT_STEP_ID \<or> s = RUNTIME_INVOCATION_LIFECYCLE_STEP_ID)"

definition fork_restored_reason :: string where
  "fork_restored_reason = ''fork restored pending approvals''"

definition fork_projection :: "'z hasher_scheme \<Rightarrow> checkpoint \<Rightarrow> string \<Rightarrow> string \<Rightarrow> run_projection" where
  "fork_projection h cp destination_run_id new_branch_id =
     (let terminal_id = stable_identifier h ''activity''
            [destination_run_id, new_branch_id, RUNTIME_RUN_STOPPED_AUDIT_STEP_ID, ''terminal''];
          keep = (\<lambda>activity_id record.
            \<not> is_reserved_step (ad_stable_step_id (ar_definition record))
            \<and> \<not> (activity_id = terminal_id \<or> ad_activity_id (ar_definition record) = terminal_id));
          p = (cp_projection cp)
            \<lparr>pj_activities := bt_retain keep (pj_activities (cp_projection cp)),
             pj_worker_lease := None,
             pj_branch_id := new_branch_id,
             pj_current_checkpoint_id := Some (cp_checkpoint_id cp)\<rparr>
      in if pj_status p = RunReconcileRequired
            \<and> list_ex (latest_is AtReconcileRequired) (bt_values (pj_activities p))
         then p
         else if pending_approval_ids p = []
         then p\<lparr>pj_status := RunRunning, pj_pause_reason := None\<rparr>
         else p\<lparr>pj_status := RunPausedSt, pj_pause_reason := Some fork_restored_reason\<rparr>)"

subsection \<open>Approval envelopes\<close>

record decoded_approval =
  da_kind :: approval_kind
  da_payload :: json
  da_policy_snapshot_hash :: "string option"
  da_governance_binding :: "governance_binding option"
  da_requested_at :: "nat option"
  da_expires_at :: "nat option"

definition decode_approval_payload ::
  "durable_env \<Rightarrow> json \<Rightarrow> nat \<Rightarrow> durability_error + decoded_approval"
where
  "decode_approval_payload env payload event_schema_version =
     (case jget payload DURABLE_APPROVAL_ENVELOPE_KEY of
        None \<Rightarrow> Inr \<lparr>da_kind = Confirmation, da_payload = payload, da_policy_snapshot_hash = None,
                   da_governance_binding = None, da_requested_at = None, da_expires_at = None\<rparr>
      | Some v \<Rightarrow>
          (case de_approval_envelope env v of
             Inl _ \<Rightarrow> Inl InvalidEvent
           | Inr e \<Rightarrow>
               if ae_schema_version e \<noteq> event_schema_version
               then Inl (UnsupportedSchema event_schema_version (ae_schema_version e))
               else if ae_expires_at e \<le> ae_requested_at e then Inl InvalidEvent
               else Inr \<lparr>da_kind = ae_kind e, da_payload = ae_payload e,
                         da_policy_snapshot_hash = ae_policy_snapshot_hash e,
                         da_governance_binding = ae_governance_binding e,
                         da_requested_at = Some (ae_requested_at e),
                         da_expires_at = Some (ae_expires_at e)\<rparr>))"

definition validate_edit_retry :: "string \<Rightarrow> json option \<Rightarrow> durability_error + unit" where
  "validate_edit_retry approval_id response =
     (case Option.bind response (\<lambda>v. jget_str v ''action'') of
        None \<Rightarrow> Inl (InvalidApprovalResolution approval_id)
      | Some action \<Rightarrow>
          if \<not> (action = ''edit'' \<or> action = ''retry'') then Inl (InvalidApprovalResolution approval_id)
          else if action = ''edit'' \<and> Option.bind response (\<lambda>v. jget v ''value'') = None
          then Inl (InvalidApprovalResolution approval_id)
          else Inr ())"

definition validate_approval_clock ::
  "durable_approval \<Rightarrow> bool \<Rightarrow> nat option \<Rightarrow> bool \<Rightarrow> durability_error + unit"
where
  "validate_approval_clock approval approved now_unix_ms timed_out =
     (case (ap_requested_at approval, ap_expires_at approval) of
        (Some requested_at, Some expires_at) \<Rightarrow>
          (case now_unix_ms of
             None \<Rightarrow> Inl (ApprovalClockRequired (ap_approval_id approval))
           | Some now \<Rightarrow>
               if now < requested_at then Inl (InvalidApprovalResolution (ap_approval_id approval))
               else if timed_out then
                 (if approved \<or> now < expires_at
                  then Inl (InvalidApprovalResolution (ap_approval_id approval)) else Inr ())
               else if now \<ge> expires_at then Inl (InvalidApprovalResolution (ap_approval_id approval))
               else Inr ())
      | _ \<Rightarrow> if timed_out then Inl (InvalidApprovalResolution (ap_approval_id approval)) else Inr ())"

definition validate_approval_resolution ::
  "durable_approval \<Rightarrow> approval_resolution \<Rightarrow> nat option \<Rightarrow> bool \<Rightarrow> durability_error + unit"
where
  "validate_approval_resolution approval resolution now_unix_ms timed_out =
     bindR (validate_approval_clock approval (res_approved resolution) now_unix_ms timed_out) (\<lambda>_.
       if res_approved resolution then
         (case ap_kind approval of
            MissingInput \<Rightarrow>
              if (case res_response resolution of None \<Rightarrow> True | Some v \<Rightarrow> is_null v)
              then Inl (InvalidApprovalResolution (ap_approval_id approval)) else Inr ()
          | EditRetry \<Rightarrow> validate_edit_retry (ap_approval_id approval) (res_response resolution)
          | Confirmation \<Rightarrow> Inr ()
          | OutputReview \<Rightarrow> Inr ())
       else Inr ())"

record decoded_resolution =
  dr_response :: "json option"
  dr_resolved_at :: "nat option"
  dr_timed_out :: bool

definition decode_resolution_payload ::
  "durable_env \<Rightarrow> durable_approval \<Rightarrow> bool \<Rightarrow> json option \<Rightarrow> nat \<Rightarrow> durability_error + decoded_resolution"
where
  "decode_resolution_payload env approval approved response event_schema_version =
     (if ap_expires_at approval = None
      then Inr \<lparr>dr_response = response, dr_resolved_at = None, dr_timed_out = False\<rparr>
      else
        case Option.bind response (\<lambda>v. jget v DURABLE_RESOLUTION_ENVELOPE_KEY) of
          None \<Rightarrow> Inl (InvalidApprovalResolution (ap_approval_id approval))
        | Some v \<Rightarrow>
            (case de_resolution_envelope env v of
               Inl _ \<Rightarrow> Inl (InvalidApprovalResolution (ap_approval_id approval))
             | Inr e \<Rightarrow>
                 if re_schema_version e \<noteq> event_schema_version
                 then Inl (UnsupportedSchema event_schema_version (re_schema_version e))
                 else bindR (validate_approval_resolution approval
                        \<lparr>res_approval_id = ap_approval_id approval, res_approved = approved,
                         res_response = re_response e\<rparr>
                        (Some (re_resolved_at e)) (re_timed_out e)) (\<lambda>_.
                      Inr \<lparr>dr_response = re_response e, dr_resolved_at = Some (re_resolved_at e),
                           dr_timed_out = re_timed_out e\<rparr>)))"

text \<open>The owner and fencing token that a worker presents to a store.\<close>

record lease_authority =
  la_owner_id :: string
  la_lease_id :: string

end
