(* ===== verification/DurAudit.thy ===== *)
theory DurAudit
  imports DurTypes
begin

text \<open>
  The reserved audit activities of \<open>durability.rs\<close>: four stable step ids are reserved for
  the delivery of terminal audit records (canonical, recovery, the quarantined v1 form) and
  for the invocation lifecycle that fences them. This theory holds the predicates and
  validators that guard their scheduling, attempts, completion and reconciliation, each a
  chain of early returns in the order of the source.
\<close>

definition is_reserved_audit_activity :: "activity_record \<Rightarrow> bool" where
  "is_reserved_audit_activity r =
     (let d = ar_definition r; step = ad_stable_step_id d in
      if step = RUNTIME_LEGACY_RUN_STOPPED_AUDIT_STEP_ID then ad_logical_key d = ''terminal''
      else if step = RUNTIME_RUN_STOPPED_AUDIT_STEP_ID then
        ad_logical_key d = ''terminal''
        \<and> (jget (ad_input d) ''replay'' \<noteq> None \<or> jget (ad_input d) ''legacy_resolution'' \<noteq> None)
      else if step = RUNTIME_RECOVERY_RUN_STOPPED_AUDIT_STEP_ID then
        jget (ad_input d) ''replay'' \<noteq> None
      else if step = RUNTIME_INVOCATION_LIFECYCLE_STEP_ID then
        jget_u64 (ad_input d) ''schema_version'' = Some 1
        \<and> jget_str (ad_input d) ''invocation_id'' = Some (ad_logical_key d)
      else False)"

text \<open>The two step ids of terminal audit markers.\<close>

definition is_terminal_audit_step :: "string \<Rightarrow> bool" where
  "is_terminal_audit_step s =
     (s = RUNTIME_RUN_STOPPED_AUDIT_STEP_ID \<or> s = RUNTIME_RECOVERY_RUN_STOPPED_AUDIT_STEP_ID)"

definition validate_reserved_audit_completion_output ::
  "durable_env \<Rightarrow> activity_record \<Rightarrow> json \<Rightarrow> durability_error + unit"
where
  "validate_reserved_audit_completion_output env record output =
     (let d = ar_definition record; step = ad_stable_step_id d in
      if step \<noteq> RUNTIME_RUN_STOPPED_AUDIT_STEP_ID \<and> step \<noteq> RUNTIME_RECOVERY_RUN_STOPPED_AUDIT_STEP_ID
      then Inr ()
      else if step = RUNTIME_RUN_STOPPED_AUDIT_STEP_ID \<and> ad_logical_key d \<noteq> ''terminal''
      then Inl InvalidEvent
      else if step = RUNTIME_RUN_STOPPED_AUDIT_STEP_ID \<and> jget (ad_input d) ''legacy_resolution'' \<noteq> None
      then Inl InvalidEvent
      else
        let expected = Option.bind
              (case jget (ad_input d) ''expected_output_hash'' of
                 Some v \<Rightarrow> Some v
               | None \<Rightarrow> if step = RUNTIME_RUN_STOPPED_AUDIT_STEP_ID
                         then jget (ad_input d) ''input_hash'' else None)
              as_str
        in case expected of
             None \<Rightarrow> Inl InvalidEvent
           | Some h \<Rightarrow> if stable_input_hash env output \<noteq> h then Inl InvalidEvent else Inr ())"

definition validate_audit_replay_binding :: "durable_env \<Rightarrow> json \<Rightarrow> bool \<Rightarrow> durability_error + unit" where
  "validate_audit_replay_binding env replay require_stable =
     (case jget replay ''audit_binding'' of
        None \<Rightarrow> Inl InvalidEvent
      | Some v \<Rightarrow>
          (case de_audit_replay_binding env v of
             Inl _ \<Rightarrow> Inl InvalidEvent
           | Inr b \<Rightarrow>
               let valid_delivery_id =
                     (case ab_delivery_id b of None \<Rightarrow> True | Some x \<Rightarrow> x \<noteq> [] \<and> \<not> has_control x)
               in if ab_schema_version b \<noteq> 1 \<or> ab_max_preview_bytes b = 0 \<or> \<not> valid_delivery_id
                  then Inl InvalidEvent
                  else if require_stable
                    \<and> (ab_delivery_id b = None \<or> ab_sink_count b = 0 \<or> ab_failure_mode b \<noteq> FailClosed)
                  then Inl InvalidEvent
                  else Inr ()))"

definition usage_keys :: "string list" where
  "usage_keys = [''input_tokens'', ''output_tokens'', ''cache_creation_input_tokens'',
                 ''cache_read_input_tokens'', ''reasoning_tokens'']"

definition valid_receipt_value :: "durable_env \<Rightarrow> json \<Rightarrow> bool" where
  "valid_receipt_value env receipt =
     (jget_u64 receipt ''turns'' \<noteq> None
      \<and> (case jget_str receipt ''reason'' of None \<Rightarrow> False | Some r \<Rightarrow> r \<noteq> [])
      \<and> (case jget receipt ''usage'' of
           None \<Rightarrow> False
         | Some u \<Rightarrow>
             (case as_object u of
                None \<Rightarrow> False
              | Some kvs \<Rightarrow> length kvs = 5 \<and> list_all (\<lambda>kv. fst kv \<in> set usage_keys) kvs
                            \<and> is_ok (de_usage env (JObject kvs)))))"

definition replay_fields_ok :: "json \<Rightarrow> string \<Rightarrow> bool" where
  "replay_fields_ok object expected_kind =
     (jget_u64 object ''schema_version'' = Some 1
      \<and> jget_str object ''kind'' = Some expected_kind
      \<and> (case jget_u64 object ''run_stopped_sequence'' of None \<Rightarrow> False | Some n \<Rightarrow> n > 0)
      \<and> (case jget object ''terminal_receipt'' of None \<Rightarrow> False | Some v \<Rightarrow> is_object v)
      \<and> (case jget_str object ''audit_reason'' of None \<Rightarrow> False | Some r \<Rightarrow> r \<noteq> [])
      \<and> jget_u64 object ''audit_turns'' \<noteq> None)"

definition validate_replay_value :: "durable_env \<Rightarrow> json \<Rightarrow> string \<Rightarrow> durability_error + unit" where
  "validate_replay_value env replay expected_kind =
     (if as_object replay = None then Inl InvalidEvent
      else if \<not> replay_fields_ok replay expected_kind then Inl InvalidEvent
      else if \<not> is_ok (de_replay_envelope env replay) then Inl InvalidEvent
      else bindR (validate_audit_replay_binding env replay False) (\<lambda>_.
        case jget replay ''terminal_receipt'' of
          None \<Rightarrow> Inl InvalidEvent
        | Some receipt \<Rightarrow>
            if as_object receipt = None then Inl InvalidEvent
            else if \<not> valid_receipt_value env receipt then Inl InvalidEvent
            else if expected_kind \<noteq> ''recovery''
              \<and> (jget_u64 replay ''audit_turns'' \<noteq> jget_u64 receipt ''turns''
                 \<or> jget_str replay ''audit_reason'' \<noteq> jget_str receipt ''reason'')
            then Inl InvalidEvent
            else Inr ()))"

definition accepted_output :: json where
  "accepted_output = JObject [(''accepted'', JBool True)]"

definition terminal_expected_output :: "bool \<Rightarrow> json \<Rightarrow> json option" where
  "terminal_expected_output recovery replay =
     (if recovery then Some accepted_output else jget replay ''terminal_receipt'')"

definition validate_terminal_replay_input ::
  "durable_env \<Rightarrow> activity_record \<Rightarrow> bool \<Rightarrow> string \<Rightarrow> durability_error + unit"
where
  "validate_terminal_replay_input env record recovery run_id =
     (let d = ar_definition record in
      case jget (ad_input d) ''replay'' of
        None \<Rightarrow> Inl InvalidEvent
      | Some replay \<Rightarrow>
          if as_object replay = None then Inl InvalidEvent
          else
            let kind = (if recovery then ''recovery'' else ''canonical'');
                valid_run_id = (case jget_str replay ''audit_run_id'' of None \<Rightarrow> False
                  | Some v \<Rightarrow> v = run_id \<and> v \<noteq> [] \<and> \<not> has_control v);
                valid_invocation_id = (case jget_str replay ''invocation_id'' of None \<Rightarrow> False
                  | Some v \<Rightarrow> v \<noteq> [] \<and> \<not> has_control v);
                logical_key_matches =
                  (if recovery then jget_str replay ''invocation_id'' = Some (ad_logical_key d)
                   else ad_logical_key d = ''terminal'')
            in if \<not> replay_fields_ok replay kind \<or> \<not> valid_run_id \<or> \<not> valid_invocation_id
                  \<or> \<not> logical_key_matches
               then Inl InvalidEvent
               else bindR (validate_replay_value env replay kind) (\<lambda>_.
                 case terminal_expected_output recovery replay of
                   None \<Rightarrow> Inl InvalidEvent
                 | Some expected \<Rightarrow>
                     (case jget_str (ad_input d) ''expected_output_hash'' of
                        None \<Rightarrow> Inl InvalidEvent
                      | Some h \<Rightarrow>
                          if stable_input_hash env expected \<noteq> h then Inl InvalidEvent
                          else validate_audit_replay_binding env replay True)))"

subsection \<open>The quarantined v1 audit and its typed resolution\<close>

definition legacy_source_malformed :: "(string \<times> json) list \<Rightarrow> ('z legacy_source_scheme) \<Rightarrow> bool" where
  "legacy_source_malformed input s =
     (length input \<noteq> 1
      \<or> ls_schema_version s \<noteq> LEGACY_RUN_STOPPED_RESOLUTION_SCHEMA_VERSION
      \<or> ls_kind s \<noteq> LEGACY_RUN_STOPPED_RESOLUTION_KIND
      \<or> ls_source_activity_id s = [] \<or> has_control (ls_source_activity_id s)
      \<or> ls_source_attempt s = 0 \<or> ls_source_started_sequence s = 0)"

definition legacy_source_matches :: "durable_env \<Rightarrow> legacy_source \<Rightarrow> activity_attempt \<Rightarrow> bool" where
  "legacy_source_matches env s a =
     (case ls_source_output_hash s of
        Some h \<Rightarrow> at_status a = AtCompleted \<and> at_output_hash a = Some h
                 \<and> map_option (stable_input_hash env) (at_output a) = Some h
      | None \<Rightarrow> (at_status a = AtFailed \<or> at_status a = AtCancelled)
                \<and> at_output a = None \<and> at_output_hash a = None)"

definition validate_legacy_resolution_source ::
  "durable_env \<Rightarrow> activity_record btree \<Rightarrow> activity_definition \<Rightarrow> durability_error + unit"
where
  "validate_legacy_resolution_source env activities d =
     (case as_object (ad_input d) of
        None \<Rightarrow> Inl InvalidEvent
      | Some input \<Rightarrow>
          (case map_of input ''legacy_resolution'' of
             None \<Rightarrow> Inl InvalidEvent
           | Some v \<Rightarrow>
               (case de_legacy_source env v of
                  Inl _ \<Rightarrow> Inl InvalidEvent
                | Inr s \<Rightarrow>
                    if legacy_source_malformed input s then Inl InvalidEvent
                    else
                      case bt_get activities (ls_source_activity_id s) of
                        None \<Rightarrow> Inl InvalidEvent
                      | Some legacy \<Rightarrow>
                          if \<not> (ad_stable_step_id (ar_definition legacy)
                                   = RUNTIME_LEGACY_RUN_STOPPED_AUDIT_STEP_ID
                                 \<and> ad_logical_key (ar_definition legacy) = ''terminal'')
                          then Inl InvalidEvent
                          else
                            case latest_attempt legacy of
                              None \<Rightarrow> Inl InvalidEvent
                            | Some a \<Rightarrow>
                                if \<not> (at_attempt a = ls_source_attempt s
                                       \<and> at_started_sequence a = ls_source_started_sequence s)
                                then Inl InvalidEvent
                                else if \<not> legacy_source_matches env s a then Inl InvalidEvent
                                else Inr ())))"

definition validate_legacy_source_attestation ::
  "durable_env \<Rightarrow> activity_record \<Rightarrow> json \<Rightarrow> durability_error + unit"
where
  "validate_legacy_source_attestation env source output =
     (case latest_attempt source of
        None \<Rightarrow> Inl InvalidEvent
      | Some a \<Rightarrow>
          (case de_legacy_resolution env output of
             Inl _ \<Rightarrow> Inl InvalidEvent
           | Inr r \<Rightarrow>
               if ad_stable_step_id (ar_definition source) \<noteq> RUNTIME_LEGACY_RUN_STOPPED_AUDIT_STEP_ID
                  \<or> ad_logical_key (ar_definition source) \<noteq> ''terminal''
                  \<or> at_status a = AtCompleted
                  \<or> ls_schema_version r \<noteq> LEGACY_RUN_STOPPED_RESOLUTION_SCHEMA_VERSION
                  \<or> ls_kind r \<noteq> LEGACY_RUN_STOPPED_RESOLUTION_KIND
                  \<or> ls_source_activity_id r \<noteq> ad_activity_id (ar_definition source)
                  \<or> ls_source_attempt r \<noteq> at_attempt a
                  \<or> ls_source_started_sequence r \<noteq> at_started_sequence a
                  \<or> ls_source_output_hash r \<noteq> None
                  \<or> rr_reason (lr_terminal_receipt r) = []
               then Inl InvalidEvent else Inr ()))"

definition validate_legacy_terminal_resolution ::
  "durable_env \<Rightarrow> activity_record btree \<Rightarrow> activity_record \<Rightarrow> json \<Rightarrow> durability_error + unit"
where
  "validate_legacy_terminal_resolution env activities bridge output =
     (let d = ar_definition bridge in
      if ad_stable_step_id d \<noteq> RUNTIME_RUN_STOPPED_AUDIT_STEP_ID \<or> ad_logical_key d \<noteq> ''terminal''
      then Inl InvalidEvent
      else bindR (validate_legacy_resolution_source env activities d) (\<lambda>_.
        case jget (ad_input d) ''legacy_resolution'' of
          None \<Rightarrow> Inl InvalidEvent
        | Some v \<Rightarrow>
            (case de_legacy_source env v of
               Inl _ \<Rightarrow> Inl InvalidEvent
             | Inr s \<Rightarrow>
                 (case de_legacy_resolution env output of
                    Inl _ \<Rightarrow> Inl InvalidEvent
                  | Inr r \<Rightarrow>
                      if ls_schema_version r \<noteq> LEGACY_RUN_STOPPED_RESOLUTION_SCHEMA_VERSION
                         \<or> ls_kind r \<noteq> LEGACY_RUN_STOPPED_RESOLUTION_KIND
                         \<or> ls_source_activity_id r \<noteq> ls_source_activity_id s
                         \<or> ls_source_attempt r \<noteq> ls_source_attempt s
                         \<or> ls_source_started_sequence r \<noteq> ls_source_started_sequence s
                         \<or> ls_source_output_hash r \<noteq> ls_source_output_hash s
                         \<or> rr_reason (lr_terminal_receipt r) = []
                      then Inl InvalidEvent else Inr ()))))"

subsection \<open>Scheduling a terminal audit\<close>

text \<open>A lifecycle of the given invocation whose latest attempt is running; the first form
  also requires the audit run id, as the count of the source does.\<close>

definition active_lifecycle :: "string \<Rightarrow> activity_record \<Rightarrow> bool" where
  "active_lifecycle invocation_id r =
     (ad_stable_step_id (ar_definition r) = RUNTIME_INVOCATION_LIFECYCLE_STEP_ID
      \<and> is_reserved_audit_activity r
      \<and> ad_logical_key (ar_definition r) = invocation_id
      \<and> latest_is AtRunning r)"

definition canonical_receipt_completed ::
  "durable_env \<Rightarrow> activity_record btree \<Rightarrow> json \<Rightarrow> string \<Rightarrow> activity_record \<Rightarrow> bool"
where
  "canonical_receipt_completed env activities replay invocation_id r =
     (let d = ar_definition r in
      if ad_stable_step_id d \<noteq> RUNTIME_RUN_STOPPED_AUDIT_STEP_ID \<or> ad_logical_key d \<noteq> ''terminal''
      then False
      else case completed_output r of
        None \<Rightarrow> False
      | Some output \<Rightarrow>
          if jget (ad_input d) ''legacy_resolution'' \<noteq> None then
            (case de_legacy_resolution env output of
               Inl _ \<Rightarrow> False
             | Inr res \<Rightarrow>
                 is_ok (validate_legacy_terminal_resolution env activities r output)
                 \<and> (case ser_receipt env (lr_terminal_receipt res) of Inl _ \<Rightarrow> None | Inr v \<Rightarrow> Some v)
                   = jget replay ''terminal_receipt'')
          else
            Option.bind (jget (ad_input d) ''replay'') (\<lambda>s. jget_str s ''invocation_id'')
              \<noteq> Some invocation_id
            \<and> is_ok (validate_reserved_audit_completion_output env r output)
            \<and> Some output = jget replay ''terminal_receipt'')"

definition validate_terminal_audit_schedule_input ::
  "durable_env \<Rightarrow> activity_record btree \<Rightarrow> activity_definition \<Rightarrow> string \<Rightarrow> string \<Rightarrow> durability_error + unit"
where
  "validate_terminal_audit_schedule_input env activities d kind run_id =
     (case as_object (ad_input d) of
        None \<Rightarrow> Inl InvalidEvent
      | Some input \<Rightarrow>
          if length input \<noteq> 2 then Inl InvalidEvent
          else case map_of input ''replay'' of
            None \<Rightarrow> Inl InvalidEvent
          | Some replay \<Rightarrow>
              bindR (validate_replay_value env replay kind) (\<lambda>_.
                if jget_str replay ''audit_run_id'' \<noteq> Some run_id then Inl InvalidEvent
                else case jget_str replay ''invocation_id'' of
                  None \<Rightarrow> Inl InvalidEvent
                | Some invocation_id \<Rightarrow>
                    if invocation_id = [] \<or> has_control invocation_id then Inl InvalidEvent
                    else if kind = ''recovery'' \<and> invocation_id \<noteq> ad_logical_key d then Inl InvalidEvent
                    else if length (filter (\<lambda>r. active_lifecycle invocation_id r
                             \<and> jget_str (ad_input (ar_definition r)) ''audit_run_id'' = Some run_id)
                             (bt_values activities)) \<noteq> 1
                    then Inl InvalidEvent
                    else
                      let lifecycle_id =
                            (case List.find (active_lifecycle invocation_id) (bt_values activities) of
                               None \<Rightarrow> [] | Some r \<Rightarrow> ad_activity_id (ar_definition r))
                      in if list_ex (\<lambda>r. ad_activity_id (ar_definition r) \<noteq> lifecycle_id
                                          \<and> latest_is AtRunning r) (bt_values activities)
                         then Inl InvalidEvent
                         else case terminal_expected_output (kind = ''recovery'') replay of
                           None \<Rightarrow> Inl InvalidEvent
                         | Some expected \<Rightarrow>
                             if Option.bind (map_of input ''expected_output_hash'') as_str
                                  \<noteq> Some (stable_input_hash env expected)
                             then Inl InvalidEvent
                             else if kind = ''recovery''
                               \<and> \<not> list_ex (canonical_receipt_completed env activities replay invocation_id)
                                     (bt_values activities)
                             then Inl InvalidEvent
                             else Inr ()))"

definition validate_reserved_audit_schedule ::
  "durable_env \<Rightarrow> string \<Rightarrow> string \<Rightarrow> activity_record btree \<Rightarrow> activity_definition \<Rightarrow> durability_error + unit"
where
  "validate_reserved_audit_schedule env run_id branch_id activities d =
     (let step = ad_stable_step_id d in
      if step = RUNTIME_LEGACY_RUN_STOPPED_AUDIT_STEP_ID then Inl InvalidEvent
      else if \<not> (is_terminal_audit_step step \<or> step = RUNTIME_INVOCATION_LIFECYCLE_STEP_ID)
      then Inr ()
      else if ad_activity_id d
                \<noteq> stable_identifier env ''activity'' [run_id, branch_id, step, ad_logical_key d]
              \<or> ad_side_effect_class d \<noteq> EffReconcileRequired
              \<or> ad_idempotency_key d \<noteq> None
      then Inl InvalidEvent
      else if list_ex (\<lambda>r. ad_stable_step_id (ar_definition r) = step
                \<and> (if step = RUNTIME_RUN_STOPPED_AUDIT_STEP_ID
                   then ad_logical_key (ar_definition r) = ''terminal''
                   else ad_logical_key (ar_definition r) = ad_logical_key d)
                \<and> is_reserved_audit_activity r) (bt_values activities)
      then Inl InvalidEvent
      else if step = RUNTIME_RUN_STOPPED_AUDIT_STEP_ID then
        (if ad_logical_key d \<noteq> ''terminal'' then Inl InvalidEvent
         else if jget (ad_input d) ''legacy_resolution'' \<noteq> None
         then validate_legacy_resolution_source env activities d
         else validate_terminal_audit_schedule_input env activities d ''canonical'' run_id)
      else if step = RUNTIME_RECOVERY_RUN_STOPPED_AUDIT_STEP_ID then
        validate_terminal_audit_schedule_input env activities d ''recovery'' run_id
      else
        case as_object (ad_input d) of
          None \<Rightarrow> Inl InvalidEvent
        | Some input \<Rightarrow>
            if length input \<noteq> 3
               \<or> jget_u64 (ad_input d) ''schema_version'' \<noteq> Some 1
               \<or> jget_str (ad_input d) ''audit_run_id'' \<noteq> Some run_id
               \<or> jget_str (ad_input d) ''invocation_id'' \<noteq> Some (ad_logical_key d)
               \<or> ad_logical_key d = [] \<or> has_control (ad_logical_key d)
            then Inl InvalidEvent else Inr ())"

subsection \<open>Lifecycle outcomes, attempts, completion, reconciliation\<close>

definition linked_audit_of :: "json \<Rightarrow> string \<Rightarrow> string \<Rightarrow> activity_record \<Rightarrow> bool" where
  "linked_audit_of identity kind expected_invocation_id r =
     (let d = ar_definition r in
      if ad_stable_step_id d = RUNTIME_RUN_STOPPED_AUDIT_STEP_ID then
        kind = ''canonical'' \<and> jget (ad_input d) ''replay'' = Some identity \<and> ad_logical_key d = ''terminal''
      else if ad_stable_step_id d = RUNTIME_RECOVERY_RUN_STOPPED_AUDIT_STEP_ID then
        kind = ''recovery'' \<and> jget (ad_input d) ''replay'' = Some identity
        \<and> ad_logical_key d = expected_invocation_id
      else False)"

definition links_invocation :: "string option \<Rightarrow> activity_record \<Rightarrow> bool" where
  "links_invocation invocation_id r =
     (is_terminal_audit_step (ad_stable_step_id (ar_definition r))
      \<and> Option.bind (jget (ad_input (ar_definition r)) ''replay'') (\<lambda>v. jget_str v ''invocation_id'')
        = invocation_id)"

definition linked_delivery_ok ::
  "durable_env \<Rightarrow> string option \<Rightarrow> string \<Rightarrow> string \<Rightarrow> activity_record \<Rightarrow> durability_error + bool"
where
  "linked_delivery_ok env status kind expected_run_id candidate =
     (if status = Some ''audit_closed'' then
        (case completed_output candidate of
           None \<Rightarrow> Inr False
         | Some out \<Rightarrow>
             bindR (validate_reserved_audit_completion_output env candidate out) (\<lambda>_. Inr True))
      else if status = Some ''terminal_replay_authorized'' then
        (case latest_attempt candidate of
           None \<Rightarrow> Inr False
         | Some a \<Rightarrow>
             if at_status a = AtFailed \<and> at_retryable a \<and> \<not> at_effect_ambiguous a
             then bindR (validate_terminal_replay_input env candidate (kind = ''recovery'') expected_run_id)
                    (\<lambda>_. Inr True)
             else Inr False)
      else Inr False)"

definition validate_lifecycle_reconciliation_output ::
  "durable_env \<Rightarrow> string \<Rightarrow> activity_record btree \<Rightarrow> activity_record \<Rightarrow> json \<Rightarrow> durability_error + unit"
where
  "validate_lifecycle_reconciliation_output env run_id activities record output =
     (let input = ad_input (ar_definition record); status = jget_str output ''status'' in
      case jget_str input ''audit_run_id'' of
        None \<Rightarrow> Inl InvalidEvent
      | Some expected_run_id \<Rightarrow>
          if expected_run_id \<noteq> run_id then Inl InvalidEvent
          else case jget_str input ''invocation_id'' of
            None \<Rightarrow> Inl InvalidEvent
          | Some expected_invocation_id \<Rightarrow>
              if \<not> (status = Some ''audit_closed'' \<or> status = Some ''terminal_replay_authorized'')
              then Inl InvalidEvent
              else case jget output ''replay'' of
                None \<Rightarrow> Inl InvalidEvent
              | Some identity \<Rightarrow>
                  if jget_str identity ''audit_run_id'' \<noteq> Some expected_run_id
                     \<or> jget_str identity ''invocation_id'' \<noteq> Some expected_invocation_id
                  then Inl InvalidEvent
                  else case jget_str identity ''kind'' of
                    None \<Rightarrow> Inl InvalidEvent
                  | Some kind \<Rightarrow>
                      if \<not> (kind = ''canonical'' \<or> kind = ''recovery'' \<or> kind = ''direct'')
                      then Inl InvalidEvent
                      else bindR (validate_replay_value env identity kind) (\<lambda>_.
                        if kind = ''canonical'' \<or> kind = ''recovery'' then
                          (case List.find (linked_audit_of identity kind expected_invocation_id)
                                  (bt_values activities) of
                             None \<Rightarrow> Inl InvalidEvent
                           | Some candidate \<Rightarrow>
                               bindR (linked_delivery_ok env status kind expected_run_id candidate)
                                 (\<lambda>ok. if ok then Inr () else Inl InvalidEvent))
                        else if status \<noteq> Some ''audit_closed'' then Inl InvalidEvent
                        else if list_ex (links_invocation (Some expected_invocation_id)) (bt_values activities)
                        then Inl InvalidEvent
                        else Inr ()))"

definition validate_lifecycle_not_started_output ::
  "string \<Rightarrow> activity_record btree \<Rightarrow> activity_record \<Rightarrow> json \<Rightarrow> nat \<Rightarrow> bool \<Rightarrow> durability_error + unit"
where
  "validate_lifecycle_not_started_output run_id activities record output boundary require_synthetic_orphan =
     (let input = ad_input (ar_definition record);
          expected_run_id = jget_str input ''audit_run_id'';
          expected_invocation_id = jget_str input ''invocation_id'';
          exact_shape = (case as_object output of None \<Rightarrow> False | Some kvs \<Rightarrow> length kvs = 3);
          post_fence_attempt = list_ex (\<lambda>c.
            ad_activity_id (ar_definition c) \<noteq> ad_activity_id (ar_definition record)
            \<and> list_ex (\<lambda>a. at_started_sequence a > boundary) (ar_attempts c)) (bt_values activities);
          synthetic_orphan = (case latest_attempt record of None \<Rightarrow> False
            | Some a \<Rightarrow> at_status a = AtReconcileRequired
                       \<and> at_finished_sequence a = Some (at_started_sequence a))
      in if \<not> exact_shape
            \<or> expected_run_id \<noteq> Some run_id
            \<or> jget_str output ''audit_run_id'' \<noteq> expected_run_id
            \<or> jget_str output ''invocation_id'' \<noteq> expected_invocation_id
            \<or> list_ex (links_invocation expected_invocation_id) (bt_values activities)
            \<or> post_fence_attempt
            \<or> (require_synthetic_orphan \<and> \<not> synthetic_orphan)
         then Inl InvalidEvent else Inr ())"

definition retry_authorized :: "durable_env \<Rightarrow> string \<Rightarrow> activity_record btree \<Rightarrow> activity_record \<Rightarrow> bool" where
  "retry_authorized env run_id activities record =
     (let replay = jget (ad_input (ar_definition record)) ''replay'';
          invocation_id = Option.bind replay (\<lambda>v. jget_str v ''invocation_id'')
      in list_ex (\<lambda>lc.
           ad_stable_step_id (ar_definition lc) = RUNTIME_INVOCATION_LIFECYCLE_STEP_ID
           \<and> is_reserved_audit_activity lc
           \<and> Some (ad_logical_key (ar_definition lc)) = invocation_id
           \<and> (case completed_output lc of
                None \<Rightarrow> False
              | Some out \<Rightarrow>
                  jget_str out ''status'' = Some ''terminal_replay_authorized''
                  \<and> jget out ''replay'' = replay
                  \<and> is_ok (validate_lifecycle_reconciliation_output env run_id activities lc out)))
         (bt_values activities))"

definition validate_reserved_audit_attempt_start ::
  "durable_env \<Rightarrow> string \<Rightarrow> activity_record btree \<Rightarrow> activity_record \<Rightarrow> durability_error + unit"
where
  "validate_reserved_audit_attempt_start env run_id activities record =
     (let d = ar_definition record; step = ad_stable_step_id d in
      if \<not> is_reserved_audit_activity record then Inr ()
      else if step = RUNTIME_LEGACY_RUN_STOPPED_AUDIT_STEP_ID then Inl InvalidEvent
      else if step = RUNTIME_INVOCATION_LIFECYCLE_STEP_ID then
        (if jget_str (ad_input d) ''audit_run_id'' \<noteq> Some run_id then Inl InvalidEvent else Inr ())
      else if step = RUNTIME_RUN_STOPPED_AUDIT_STEP_ID \<and> jget (ad_input d) ''legacy_resolution'' \<noteq> None
      then validate_legacy_resolution_source env activities d
      else if is_terminal_audit_step step then
        (let kind = (if step = RUNTIME_RUN_STOPPED_AUDIT_STEP_ID then ''canonical'' else ''recovery'') in
         if ar_attempts record = []
         then validate_terminal_audit_schedule_input env activities d kind run_id
         else bindR (validate_terminal_replay_input env record (kind = ''recovery'') run_id) (\<lambda>_.
           if retry_authorized env run_id activities record then Inr () else Inl InvalidEvent))
      else Inr ())"

definition validate_reserved_audit_attempt_completion ::
  "durable_env \<Rightarrow> string \<Rightarrow> activity_record btree \<Rightarrow> activity_record \<Rightarrow> json \<Rightarrow> durability_error + unit"
where
  "validate_reserved_audit_attempt_completion env run_id activities record output =
     (let step = ad_stable_step_id (ar_definition record); status = jget_str output ''status'' in
      if \<not> is_reserved_audit_activity record then Inr ()
      else if step = RUNTIME_LEGACY_RUN_STOPPED_AUDIT_STEP_ID then Inl InvalidEvent
      else if is_terminal_audit_step step
      then validate_reserved_audit_completion_output env record output
      else if step \<noteq> RUNTIME_INVOCATION_LIFECYCLE_STEP_ID then Inr ()
      else if status = Some ''not_started'' then
        (case latest_attempt record of
           None \<Rightarrow> Inl InvalidEvent
         | Some a \<Rightarrow> validate_lifecycle_not_started_output run_id activities record output
                      (at_started_sequence a) False)
      else if status = Some ''audit_closed''
      then validate_lifecycle_reconciliation_output env run_id activities record output
      else Inl InvalidEvent)"

definition validate_reserved_audit_reconciliation ::
  "durable_env \<Rightarrow> string \<Rightarrow> activity_record btree \<Rightarrow> activity_record \<Rightarrow> reconciliation \<Rightarrow> nat option
     \<Rightarrow> durability_error + unit"
where
  "validate_reserved_audit_reconciliation env run_id activities record resolution schedule_sequence =
     (let step = ad_stable_step_id (ar_definition record);
          reserved = is_reserved_audit_activity record;
          is_terminal_audit = (reserved \<and> step = RUNTIME_RUN_STOPPED_AUDIT_STEP_ID);
          is_recovery_audit = (reserved \<and> step = RUNTIME_RECOVERY_RUN_STOPPED_AUDIT_STEP_ID);
          is_lifecycle = (reserved \<and> step = RUNTIME_INVOCATION_LIFECYCLE_STEP_ID);
          is_legacy = (reserved \<and> step = RUNTIME_LEGACY_RUN_STOPPED_AUDIT_STEP_ID)
      in if \<not> is_terminal_audit \<and> \<not> is_recovery_audit \<and> \<not> is_lifecycle \<and> \<not> is_legacy then Inr ()
         else if is_legacy then
           (case resolution of
              RecCompleted output \<Rightarrow> validate_legacy_source_attestation env record output
            | RecSafeToRetry \<Rightarrow> Inl InvalidEvent
            | RecCancelled \<Rightarrow> Inl InvalidEvent)
         else case resolution of
           RecCancelled \<Rightarrow> Inl InvalidEvent
         | RecSafeToRetry \<Rightarrow>
             if is_lifecycle then Inl InvalidEvent
             else validate_terminal_replay_input env record is_recovery_audit run_id
         | RecCompleted output \<Rightarrow>
             if is_lifecycle then
               (if jget_str output ''status'' = Some ''not_started'' then
                  (case schedule_sequence of
                     None \<Rightarrow> Inl InvalidEvent
                   | Some boundary \<Rightarrow>
                       validate_lifecycle_not_started_output run_id activities record output boundary True)
                else validate_lifecycle_reconciliation_output env run_id activities record output)
             else if is_terminal_audit
               \<and> jget (ad_input (ar_definition record)) ''legacy_resolution'' \<noteq> None
             then validate_legacy_terminal_resolution env activities record output
             else validate_reserved_audit_completion_output env record output)"

end
