(* ===== verification/DurCore.thy ===== *)
theory DurCore
  imports DurAudit
begin

text \<open>
  The event-sourced core of \<open>durability.rs\<close>: the checks on a \<open>RunState\<close>, the projection
  of every event kind (\<open>apply\_event\_in\_place\<close>, one definition per event kind), the append
  of a validated event with deduplication and sequence check, and the replay of a log
  (\<open>from\_events\<close>).
\<close>

type_synonym 'a dres = "durability_error + 'a"

abbreviation st_status :: "run_state \<Rightarrow> run_status" where
  "st_status st \<equiv> pj_status (rs_projection st)"

abbreviation st_activities :: "run_state \<Rightarrow> activity_record btree" where
  "st_activities st \<equiv> pj_activities (rs_projection st)"

abbreviation st_approvals :: "run_state \<Rightarrow> durable_approval btree" where
  "st_approvals st \<equiv> pj_approvals (rs_projection st)"

abbreviation st_lease :: "run_state \<Rightarrow> worker_lease option" where
  "st_lease st \<equiv> pj_worker_lease (rs_projection st)"

definition map_projection :: "(run_projection \<Rightarrow> run_projection) \<Rightarrow> run_state \<Rightarrow> run_state" where
  "map_projection f st = st\<lparr>rs_projection := f (rs_projection st)\<rparr>"

definition set_status :: "run_status \<Rightarrow> string option \<Rightarrow> run_state \<Rightarrow> run_state" where
  "set_status s reason = map_projection (\<lambda>p. p\<lparr>pj_status := s, pj_pause_reason := reason\<rparr>)"

text \<open>\<open>for x in xs \{ check(x)?; \}\<close>\<close>

fun check_each :: "('a \<Rightarrow> 'e + unit) \<Rightarrow> 'a list \<Rightarrow> 'e + unit" where
  "check_each c [] = Inr ()"
| "check_each c (x # xs) = bindR (c x) (\<lambda>_. check_each c xs)"

lemma check_each_Inr [result_simps]: "check_each c xs = Inr u \<longleftrightarrow> (\<forall>x \<in> set xs. c x = Inr ())"
  by (induction xs) (auto simp: result_simps)

subsection \<open>Read-only checks on a run\<close>

definition next_sequence :: "run_state \<Rightarrow> nat" where
  "next_sequence st =
     (case last_opt (rs_events st) of None \<Rightarrow> 1 | Some e \<Rightarrow> saturating_add (ev_sequence e) 1)"

definition ensure_active :: "run_state \<Rightarrow> unit dres" where
  "ensure_active st = (if is_terminal (st_status st) then Inl (TerminalRun (st_status st)) else Inr ())"

definition ensure_executing :: "run_state \<Rightarrow> unit dres" where
  "ensure_executing st =
     bindR (ensure_active st) (\<lambda>_.
       if st_status st = RunReconcileRequired then Inl RunRequiresReconciliation
       else if st_status st \<noteq> RunRunning then Inl (RunNotExecuting (st_status st))
       else Inr ())"

definition activity :: "run_state \<Rightarrow> string \<Rightarrow> activity_record dres" where
  "activity st activity_id = ok_or (bt_get (st_activities st) activity_id) (ActivityNotFound activity_id)"

text \<open>A reserved record that is not yet closed, as \<open>ensure\_reserved\_audit\_lifecycle\_closed\<close>
  looks for it: a v1 marker without a validated bridge, or another reserved record with no
  completed output.\<close>

definition reserved_open :: "durable_env \<Rightarrow> activity_record btree \<Rightarrow> activity_record \<Rightarrow> bool" where
  "reserved_open env activities record =
     (let step = ad_stable_step_id (ar_definition record) in
      if \<not> is_reserved_audit_activity record then False
      else if step = RUNTIME_LEGACY_RUN_STOPPED_AUDIT_STEP_ID then
        \<not> list_ex (\<lambda>bridge. case completed_output bridge of
              None \<Rightarrow> False
            | Some output \<Rightarrow>
                is_ok (validate_legacy_terminal_resolution env activities bridge output)
                \<and> Option.bind (jget (ad_input (ar_definition bridge)) ''legacy_resolution'')
                    (\<lambda>source. jget_str source ''source_activity_id'')
                  = Some (ad_activity_id (ar_definition record))) (bt_values activities)
      else if is_terminal_audit_step step \<or> step = RUNTIME_INVOCATION_LIFECYCLE_STEP_ID
      then completed_output record = None
      else False)"

definition ensure_reserved_audit_lifecycle_closed :: "durable_env \<Rightarrow> run_state \<Rightarrow> unit dres" where
  "ensure_reserved_audit_lifecycle_closed env st =
     (if list_ex (reserved_open env (st_activities st)) (bt_values (st_activities st))
      then Inl InvalidEvent else Inr ())"

definition has_running_attempt :: "activity_record \<Rightarrow> bool" where
  "has_running_attempt r = list_ex (\<lambda>a. at_status a = AtRunning) (ar_attempts r)"

definition ensure_no_running_activities :: "run_state \<Rightarrow> unit dres" where
  "ensure_no_running_activities st =
     (if filter has_running_attempt (bt_values (st_activities st)) = [] then Inr () else Inl InvalidEvent)"

definition has_reconciliation_pending :: "run_state \<Rightarrow> bool" where
  "has_reconciliation_pending st = list_ex (latest_is AtReconcileRequired) (bt_values (st_activities st))"

definition activity_attempt_has_v1_provenance :: "run_state \<Rightarrow> string \<Rightarrow> nat \<Rightarrow> bool" where
  "activity_attempt_has_v1_provenance st activity_id attempt =
     (list_ex (\<lambda>e. ev_schema_version e < TERMINAL_ACTIVITY_INVARIANT_SCHEMA_VERSION
                 \<and> (case ev_kind e of ActivityScheduled d \<Rightarrow> ad_activity_id d = activity_id | _ \<Rightarrow> False))
        (rs_events st)
      \<and> list_ex (\<lambda>e. ev_schema_version e < TERMINAL_ACTIVITY_INVARIANT_SCHEMA_VERSION
                 \<and> (case ev_kind e of ActivityAttemptStarted c n \<Rightarrow> c = activity_id \<and> n = attempt
                     | _ \<Rightarrow> False))
        (rs_events st))"

definition event_by_id :: "run_state \<Rightarrow> string \<Rightarrow> run_event option" where
  "event_by_id st event_id = List.find (\<lambda>e. ev_event_id e = event_id) (rs_events st)"

definition checkpoint_by_id :: "run_state \<Rightarrow> string \<Rightarrow> checkpoint dres" where
  "checkpoint_by_id st checkpoint_id =
     ok_or (bt_get (rs_checkpoints st) checkpoint_id) (CheckpointNotFound checkpoint_id)"

text \<open>A checkpoint inherited through a fork is rebased to the current run.\<close>

definition checkpoint_for_current_run :: "durable_env \<Rightarrow> run_state \<Rightarrow> checkpoint \<Rightarrow> checkpoint dres" where
  "checkpoint_for_current_run env st cp =
     (if cp_run_id cp = rs_run_id st then Inr cp
      else case rs_events st of
        [] \<Rightarrow> Inl InvalidEvent
      | e # _ \<Rightarrow>
          (case ev_kind e of
             ForkedFrom session source_run mode source_checkpoint new_branch_id \<Rightarrow>
               if cp_checkpoint_id source_checkpoint \<noteq> cp_checkpoint_id cp
                  \<or> cp_run_id source_checkpoint \<noteq> cp_run_id cp
               then Inl InvalidEvent
               else Inr (cp\<lparr>cp_projection := fork_projection env cp (rs_run_id st) new_branch_id,
                            cp_run_id := rs_run_id st,
                            cp_event_sequence := ev_sequence e,
                            cp_parent_checkpoint_id := None\<rparr>)
           | _ \<Rightarrow> Inl InvalidEvent))"

text \<open>The loop of \<open>activity\_side\_effect\_class\<close> over the scheduled definitions.\<close>

fun scheduled_definition :: "string \<Rightarrow> run_event list \<Rightarrow> activity_definition option \<Rightarrow> activity_definition option dres" where
  "scheduled_definition activity_id [] scheduled = Inr scheduled"
| "scheduled_definition activity_id (e # es) scheduled =
     (case ev_kind e of
        ActivityScheduled d \<Rightarrow>
          if ad_activity_id d \<noteq> activity_id then scheduled_definition activity_id es scheduled
          else if (case scheduled of None \<Rightarrow> False | Some x \<Rightarrow> x \<noteq> d) then Inl InvalidEvent
          else scheduled_definition activity_id es (Some d)
      | _ \<Rightarrow> scheduled_definition activity_id es scheduled)"

definition activity_side_effect_class :: "run_state \<Rightarrow> string \<Rightarrow> side_effect_class dres" where
  "activity_side_effect_class st activity_id =
     (let projected = map_option ar_definition (bt_get (st_activities st) activity_id) in
      bindR (scheduled_definition activity_id (rs_events st) None) (\<lambda>scheduled.
        if (case (projected, scheduled) of (Some l, Some r) \<Rightarrow> l \<noteq> r | _ \<Rightarrow> False) then Inl InvalidEvent
        else case (case projected of Some d \<Rightarrow> Some d | None \<Rightarrow> scheduled) of
          None \<Rightarrow> Inl InvalidEvent
        | Some d \<Rightarrow> Inr (ad_side_effect_class d)))"

text \<open>The activities with a non-pure effect started after an event boundary.\<close>

fun unsafe_started :: "run_state \<Rightarrow> nat \<Rightarrow> run_event list \<Rightarrow> string list dres" where
  "unsafe_started st boundary [] = Inr []"
| "unsafe_started st boundary (e # es) =
     (if ev_sequence e > boundary then
        (case ev_kind e of
           ActivityAttemptStarted activity_id attempt \<Rightarrow>
             bindR (activity_side_effect_class st activity_id) (\<lambda>c.
             bindR (unsafe_started st boundary es) (\<lambda>rest.
               Inr (if c \<noteq> Pure then activity_id # rest else rest)))
         | _ \<Rightarrow> unsafe_started st boundary es)
      else unsafe_started st boundary es)"

definition require_reconciled_after :: "run_state \<Rightarrow> nat \<Rightarrow> bool \<Rightarrow> unit dres" where
  "require_reconciled_after st boundary side_effects_reconciled =
     bindR (unsafe_started st boundary (rs_events st)) (\<lambda>ids.
       if ids \<noteq> [] \<and> \<not> side_effects_reconciled
       then Inl (ReconcileRequired (sort (remdups ids))) else Inr ())"

subsection \<open>Validation of an imported checkpoint\<close>

definition attempt_payload_ok :: "durable_env \<Rightarrow> activity_attempt \<Rightarrow> bool" where
  "attempt_payload_ok env a =
     (let terminal_shape = (at_finished_sequence a \<noteq> None) in
      case at_status a of
        AtRunning \<Rightarrow> \<not> terminal_shape \<and> at_output a = None \<and> at_output_hash a = None
          \<and> at_error a = None \<and> \<not> at_retryable a \<and> \<not> at_effect_ambiguous a
      | AtCompleted \<Rightarrow> terminal_shape
          \<and> (case at_output a of None \<Rightarrow> False
             | Some out \<Rightarrow> at_output_hash a = Some (stable_input_hash env out))
          \<and> \<not> at_retryable a \<and> \<not> at_effect_ambiguous a
      | AtFailed \<Rightarrow> terminal_shape \<and> at_output a = None \<and> at_output_hash a = None
      | AtReconcileRequired \<Rightarrow> terminal_shape \<and> at_output a = None \<and> at_output_hash a = None
          \<and> at_effect_ambiguous a
      | AtCancelled \<Rightarrow> terminal_shape \<and> at_output a = None \<and> at_output_hash a = None
          \<and> \<not> at_retryable a \<and> \<not> at_effect_ambiguous a)"

definition validate_attempt ::
  "durable_env \<Rightarrow> activity_record \<Rightarrow> nat \<times> activity_attempt \<Rightarrow> unit dres"
where
  "validate_attempt env record = (\<lambda>(index, a).
     case Option.bind (u32_try_from index) (\<lambda>v. if v + 1 \<le> u32_max then Some (v + 1) else None) of
       None \<Rightarrow> Inl InvalidEvent
     | Some expected \<Rightarrow>
         if at_attempt a \<noteq> expected \<or> at_started_sequence a = 0 then Inl InvalidEvent
         else if (case at_finished_sequence a of None \<Rightarrow> False | Some f \<Rightarrow> f < at_started_sequence a)
         then Inl InvalidEvent
         else if \<not> attempt_payload_ok env a then Inl InvalidEvent
         else if index + 1 < length (ar_attempts record)
           \<and> (at_status a \<noteq> AtFailed \<or> \<not> at_retryable a
              \<or> \<not> retry_is_safe (ar_definition record) (at_effect_ambiguous a))
         then Inl InvalidEvent
         else Inr ())"

definition validate_activity_entry :: "durable_env \<Rightarrow> string \<times> activity_record \<Rightarrow> unit dres" where
  "validate_activity_entry env = (\<lambda>(activity_id, record).
     let d = ar_definition record in
     if activity_id \<noteq> ad_activity_id d then Inl InvalidEvent
     else bindR (validate_identifier ''activity_id'' activity_id) (\<lambda>_.
          bindR (validate_identifier ''stable_step_id'' (ad_stable_step_id d)) (\<lambda>_.
          bindR (validate_identifier ''logical_key'' (ad_logical_key d)) (\<lambda>_.
            if stable_input_hash env (ad_input d) \<noteq> ad_input_hash d then Inl InvalidEvent
            else if ad_side_effect_class d = Idempotent \<and> key_missing (ad_idempotency_key d)
            then Inl InvalidEvent
            else check_each (validate_attempt env record) (enumerate 0 (ar_attempts record))))))"

definition validate_approval_entry :: "string \<times> durable_approval \<Rightarrow> unit dres" where
  "validate_approval_entry = (\<lambda>(approval_id, a).
     if approval_id \<noteq> ap_approval_id a then Inl InvalidEvent
     else bindR (validate_identifier ''approval_id'' approval_id) (\<lambda>_.
       if ap_requested_sequence a = 0
          \<or> (ap_status a = Pending
             \<and> (ap_resolved_sequence a \<noteq> None \<or> ap_resolved_at a \<noteq> None \<or> ap_timed_out a))
          \<or> (ap_status a \<noteq> Pending \<and> ap_resolved_sequence a = None)
       then Inl InvalidEvent else Inr ()))"

definition validate_version ::
  "artifact_metadata list \<Rightarrow> nat \<times> artifact_metadata \<Rightarrow> unit dres"
where
  "validate_version versions = (\<lambda>(index, m).
     if index + 1 > u64_max then Inl InvalidEvent
     else if am_version m \<noteq> index + 1
        \<or> am_previous_version_id m \<noteq>
            map_option (\<lambda>previous. am_version_id (versions ! previous)) (checked_sub index 1)
     then Inl InvalidEvent
     else validate_identifier ''artifact_version_id'' (am_version_id m))"

definition validate_artifact_entry :: "string \<times> artifact_metadata list \<Rightarrow> unit dres" where
  "validate_artifact_entry = (\<lambda>(artifact_id, versions).
     if list_ex (\<lambda>m. artifact_id \<noteq> am_artifact_id m) versions then Inl InvalidEvent
     else bindR (validate_identifier ''artifact_id'' artifact_id) (\<lambda>_.
       if versions = [] then Inl InvalidEvent
       else check_each (validate_version versions) (enumerate 0 versions)))"

definition validate_projection_keyed_identities :: "durable_env \<Rightarrow> run_projection \<Rightarrow> unit dres" where
  "validate_projection_keyed_identities env p =
     bindR (check_each (validate_activity_entry env) (pj_activities p)) (\<lambda>_.
     bindR (check_each validate_approval_entry (pj_approvals p)) (\<lambda>_.
       check_each validate_artifact_entry (pj_artifacts p)))"

definition validate_source_checkpoint :: "durable_env \<Rightarrow> string \<Rightarrow> string \<Rightarrow> checkpoint \<Rightarrow> unit dres" where
  "validate_source_checkpoint env destination_run_id source_run_id cp =
     bindR (validate_identifier ''checkpoint_id'' (cp_checkpoint_id cp)) (\<lambda>_.
     bindR (validate_identifier ''checkpoint_run_id'' (cp_run_id cp)) (\<lambda>_.
     bindR (validate_identifier ''checkpoint_branch_id'' (pj_branch_id (cp_projection cp))) (\<lambda>_.
     bindR (validate_projection_keyed_identities env (cp_projection cp)) (\<lambda>_.
       if source_run_id = destination_run_id then Inl InvalidEvent
       else if cp_run_id cp \<noteq> source_run_id then Inl InvalidEvent
       else if cp_event_sequence cp = 0 then Inl InvalidEvent
       else Inr ()))))"

subsection \<open>Projection of the first event\<close>

definition apply_run_started ::
  "durable_env \<Rightarrow> string \<Rightarrow> durability_mode \<Rightarrow> string \<Rightarrow> run_state \<Rightarrow> run_state dres"
where
  "apply_run_started env session_id durability root_branch_id st =
     (if session_id \<noteq> rs_session_id st then Inl InvalidEvent
      else Inr (st\<lparr>rs_durability := durability,
                   rs_projection := (projection_root env (rs_run_id st))\<lparr>pj_branch_id := root_branch_id\<rparr>\<rparr>))"

definition apply_forked_from ::
  "durable_env \<Rightarrow> string \<Rightarrow> string \<Rightarrow> durability_mode \<Rightarrow> checkpoint \<Rightarrow> string \<Rightarrow> run_state \<Rightarrow> run_state dres"
where
  "apply_forked_from env session_id source_run_id durability cp new_branch_id st =
     (if session_id \<noteq> rs_session_id st then Inl InvalidEvent
      else bindR (validate_identifier ''source_run_id'' source_run_id) (\<lambda>_.
           bindR (validate_identifier ''new_branch_id'' new_branch_id) (\<lambda>_.
           bindR (validate_source_checkpoint env (rs_run_id st) source_run_id cp) (\<lambda>_.
             Inr (st\<lparr>rs_parent_run_id := Some source_run_id,
                     rs_durability := durability,
                     rs_projection := fork_projection env cp (rs_run_id st) new_branch_id,
                     rs_checkpoints := bt_insert (cp_checkpoint_id cp) cp (rs_checkpoints st)\<rparr>)))))"

subsection \<open>Policy pins, state, leases\<close>

definition apply_policy_snapshot_pinned :: "string \<Rightarrow> run_state \<Rightarrow> run_state dres" where
  "apply_policy_snapshot_pinned hash st =
     (if length (rs_events st) \<noteq> 1 \<or> rs_policy_snapshot_hash st \<noteq> None \<or> rs_governance_binding st \<noteq> None
      then Inl InvalidEvent
      else bindR (validate_policy_hash hash) (\<lambda>_. Inr (st\<lparr>rs_policy_snapshot_hash := Some hash\<rparr>)))"

definition apply_governance_binding_pinned ::
  "durable_env \<Rightarrow> governance_binding \<Rightarrow> run_state \<Rightarrow> run_state dres"
where
  "apply_governance_binding_pinned env b st =
     (if length (rs_events st) \<noteq> 1 \<or> rs_policy_snapshot_hash st \<noteq> None \<or> rs_governance_binding st \<noteq> None
      then Inl InvalidEvent
      else bindR (map_err (\<lambda>_. InvalidEvent) (binding_validate env b)) (\<lambda>_.
        if gb_run_id b \<noteq> rs_run_id st then Inl InvalidEvent
        else Inr (st\<lparr>rs_policy_snapshot_hash := Some (gb_policy_snapshot_hash b),
                     rs_governance_binding := Some b\<rparr>)))"

definition apply_state_replaced :: "json \<Rightarrow> run_state \<Rightarrow> run_state dres" where
  "apply_state_replaced state st =
     bindR (ensure_executing st) (\<lambda>_. Inr (map_projection (\<lambda>p. p\<lparr>pj_state := state\<rparr>) st))"

definition apply_lease_claimed ::
  "nat \<Rightarrow> string \<Rightarrow> string \<Rightarrow> nat \<Rightarrow> nat \<Rightarrow> run_state \<Rightarrow> run_state dres"
where
  "apply_lease_claimed version owner_id lease_id claimed_at expires_at st =
     (if version < TERMINAL_ACTIVITY_INVARIANT_SCHEMA_VERSION then Inl InvalidEvent
      else bindR (validate_identifier ''worker_owner_id'' owner_id) (\<lambda>_.
           bindR (validate_identifier ''worker_lease_id'' lease_id) (\<lambda>_.
           bindR (validate_worker_lease_window claimed_at expires_at) (\<lambda>_.
             case st_lease st of
               Some l \<Rightarrow>
                 if wl_expires_at l > claimed_at
                 then Inl (WorkerLeaseHeld (wl_owner_id l) (wl_expires_at l))
                 else Inr (map_projection (\<lambda>p. p\<lparr>pj_worker_lease := Some
                        \<lparr>wl_owner_id = owner_id, wl_lease_id = lease_id, wl_acquired_at = claimed_at,
                         wl_heartbeat_at = claimed_at, wl_expires_at = expires_at\<rparr>\<rparr>) st)
             | None \<Rightarrow>
                 Inr (map_projection (\<lambda>p. p\<lparr>pj_worker_lease := Some
                        \<lparr>wl_owner_id = owner_id, wl_lease_id = lease_id, wl_acquired_at = claimed_at,
                         wl_heartbeat_at = claimed_at, wl_expires_at = expires_at\<rparr>\<rparr>) st)))))"

definition apply_lease_renewed ::
  "nat \<Rightarrow> string \<Rightarrow> string \<Rightarrow> nat \<Rightarrow> nat \<Rightarrow> run_state \<Rightarrow> run_state dres"
where
  "apply_lease_renewed version owner_id lease_id renewed_at expires_at st =
     (if version < TERMINAL_ACTIVITY_INVARIANT_SCHEMA_VERSION then Inl InvalidEvent
      else bindR (validate_identifier ''worker_owner_id'' owner_id) (\<lambda>_.
           bindR (validate_identifier ''worker_lease_id'' lease_id) (\<lambda>_.
           bindR (validate_worker_lease_window renewed_at expires_at) (\<lambda>_.
             case st_lease st of
               None \<Rightarrow> Inl (WorkerLeaseLost owner_id)
             | Some l \<Rightarrow>
                 if wl_owner_id l \<noteq> owner_id \<or> wl_lease_id l \<noteq> lease_id
                    \<or> wl_expires_at l \<le> renewed_at \<or> wl_heartbeat_at l > renewed_at
                    \<or> expires_at \<le> wl_expires_at l
                 then Inl (WorkerLeaseLost owner_id)
                 else Inr (map_projection (\<lambda>p. p\<lparr>pj_worker_lease := Some
                        (l\<lparr>wl_heartbeat_at := renewed_at, wl_expires_at := expires_at\<rparr>)\<rparr>) st)))))"

definition apply_lease_released :: "nat \<Rightarrow> string \<Rightarrow> string \<Rightarrow> nat \<Rightarrow> run_state \<Rightarrow> run_state dres" where
  "apply_lease_released version owner_id lease_id released_at st =
     (if version < TERMINAL_ACTIVITY_INVARIANT_SCHEMA_VERSION then Inl InvalidEvent
      else bindR (validate_identifier ''worker_owner_id'' owner_id) (\<lambda>_.
           bindR (validate_identifier ''worker_lease_id'' lease_id) (\<lambda>_.
             case st_lease st of
               None \<Rightarrow> Inl (WorkerLeaseLost owner_id)
             | Some l \<Rightarrow>
                 if wl_owner_id l \<noteq> owner_id \<or> wl_lease_id l \<noteq> lease_id
                    \<or> wl_expires_at l \<le> released_at \<or> released_at < wl_heartbeat_at l
                 then Inl (WorkerLeaseLost owner_id)
                 else Inr (map_projection (\<lambda>p. p\<lparr>pj_worker_lease := None\<rparr>) st))))"

subsection \<open>Activities\<close>

definition terminal_marker_exists :: "run_state \<Rightarrow> bool" where
  "terminal_marker_exists st =
     list_ex (\<lambda>r. is_terminal_audit_step (ad_stable_step_id (ar_definition r)) \<and> is_reserved_audit_activity r)
       (bt_values (st_activities st))"

text \<open>The schedule checks for an event of schema version 1.\<close>

definition validate_v1_schedule :: "durable_env \<Rightarrow> activity_definition \<Rightarrow> run_state \<Rightarrow> unit dres" where
  "validate_v1_schedule env d st =
     (let step = ad_stable_step_id d in
      if is_terminal_audit_step step \<or> step = RUNTIME_INVOCATION_LIFECYCLE_STEP_ID then Inl InvalidEvent
      else if step = RUNTIME_LEGACY_RUN_STOPPED_AUDIT_STEP_ID
        \<and> (ad_activity_id d \<noteq> stable_identifier env ''activity''
              [rs_run_id st, pj_branch_id (rs_projection st), RUNTIME_LEGACY_RUN_STOPPED_AUDIT_STEP_ID,
               ''terminal'']
           \<or> ad_logical_key d \<noteq> ''terminal''
           \<or> ad_side_effect_class d \<noteq> EffReconcileRequired
           \<or> ad_idempotency_key d \<noteq> None
           \<or> list_ex (\<lambda>r. ad_stable_step_id (ar_definition r) = RUNTIME_LEGACY_RUN_STOPPED_AUDIT_STEP_ID)
               (bt_values (st_activities st)))
      then Inl InvalidEvent
      else Inr ())"

definition validate_v2_schedule :: "durable_env \<Rightarrow> activity_definition \<Rightarrow> run_state \<Rightarrow> unit dres" where
  "validate_v2_schedule env d st =
     (let step = ad_stable_step_id d in
      if \<not> (is_terminal_audit_step step \<or> step = RUNTIME_INVOCATION_LIFECYCLE_STEP_ID)
         \<and> terminal_marker_exists st
      then Inl InvalidEvent
      else validate_reserved_audit_schedule env (rs_run_id st) (pj_branch_id (rs_projection st))
             (st_activities st) d)"

definition apply_activity_scheduled ::
  "durable_env \<Rightarrow> nat \<Rightarrow> activity_definition \<Rightarrow> run_state \<Rightarrow> run_state dres"
where
  "apply_activity_scheduled env version d st =
     bindR (ensure_executing st) (\<lambda>_.
       if stable_input_hash env (ad_input d) \<noteq> ad_input_hash d then Inl InvalidEvent
       else if ad_side_effect_class d = Idempotent \<and> key_missing (ad_idempotency_key d)
       then Inl (MissingIdempotencyKey (ad_activity_id d))
       else if bt_contains_key (st_activities st) (ad_activity_id d)
       then Inl (InvalidActivityTransition (ad_activity_id d))
       else bindR (if version < TERMINAL_ACTIVITY_INVARIANT_SCHEMA_VERSION
                   then validate_v1_schedule env d st else validate_v2_schedule env d st) (\<lambda>_.
         Inr (map_projection (\<lambda>p. p\<lparr>pj_activities :=
                bt_insert (ad_activity_id d) \<lparr>ar_definition = d, ar_attempts = []\<rparr> (pj_activities p)\<rparr>) st)))"

definition push_attempt :: "string \<Rightarrow> activity_attempt \<Rightarrow> run_state \<Rightarrow> run_state" where
  "push_attempt activity_id a =
     map_projection (\<lambda>p. p\<lparr>pj_activities :=
       bt_modify activity_id (\<lambda>r. r\<lparr>ar_attempts := ar_attempts r @ [a]\<rparr>) (pj_activities p)\<rparr>)"

definition update_attempt :: "string \<Rightarrow> nat \<Rightarrow> (activity_attempt \<Rightarrow> activity_attempt) \<Rightarrow> run_state \<Rightarrow> run_state" where
  "update_attempt activity_id attempt f =
     map_projection (\<lambda>p. p\<lparr>pj_activities :=
       bt_modify activity_id
         (\<lambda>r. r\<lparr>ar_attempts := update_first (\<lambda>a. at_attempt a = attempt) f (ar_attempts r)\<rparr>)
         (pj_activities p)\<rparr>)"

definition find_attempt :: "string \<Rightarrow> nat \<Rightarrow> run_state \<Rightarrow> activity_attempt dres" where
  "find_attempt activity_id attempt st =
     bindR (activity st activity_id) (\<lambda>r.
       ok_or (List.find (\<lambda>a. at_attempt a = attempt) (ar_attempts r)) (InvalidActivityTransition activity_id))"

text \<open>\<open>running\_attempt\_mut\<close> followed by the assignments of the caller.\<close>

definition update_running_attempt ::
  "string \<Rightarrow> nat \<Rightarrow> (activity_attempt \<Rightarrow> activity_attempt) \<Rightarrow> run_state \<Rightarrow> run_state dres"
where
  "update_running_attempt activity_id attempt f st =
     bindR (find_attempt activity_id attempt st) (\<lambda>a.
       if at_status a \<noteq> AtRunning then Inl (InvalidActivityTransition activity_id)
       else Inr (update_attempt activity_id attempt f st))"

definition validate_v2_attempt_start :: "durable_env \<Rightarrow> string \<Rightarrow> run_state \<Rightarrow> unit dres" where
  "validate_v2_attempt_start env activity_id st =
     bindR (activity st activity_id) (\<lambda>r.
       if \<not> is_reserved_audit_activity r \<and> terminal_marker_exists st then Inl InvalidEvent
       else validate_reserved_audit_attempt_start env (rs_run_id st) (st_activities st) r)"

definition running_attempt :: "nat \<Rightarrow> nat \<Rightarrow> activity_attempt" where
  "running_attempt attempt sequence =
     \<lparr>at_attempt = attempt, at_status = AtRunning, at_started_sequence = sequence,
      at_finished_sequence = None, at_output = None, at_output_hash = None, at_error = None,
      at_retryable = False, at_effect_ambiguous = False\<rparr>"

definition apply_attempt_started ::
  "durable_env \<Rightarrow> nat \<Rightarrow> nat \<Rightarrow> string \<Rightarrow> nat \<Rightarrow> run_state \<Rightarrow> run_state dres"
where
  "apply_attempt_started env version sequence activity_id attempt st =
     bindR (ensure_executing st) (\<lambda>_.
     bindR (if version \<ge> TERMINAL_ACTIVITY_INVARIANT_SCHEMA_VERSION
            then validate_v2_attempt_start env activity_id st else Inr ()) (\<lambda>_.
     bindR (activity st activity_id) (\<lambda>r.
       if attempt \<noteq> wrapping_add_u32 (as_u32 (length (ar_attempts r))) 1
       then Inl (InvalidActivityTransition activity_id)
       else if (case latest_attempt r of None \<Rightarrow> False
                | Some prev \<Rightarrow> at_status prev \<noteq> AtFailed \<or> \<not> at_retryable prev
                    \<or> \<not> retry_is_safe (ar_definition r) (at_effect_ambiguous prev))
       then Inl (InvalidActivityTransition activity_id)
       else Inr (push_attempt activity_id (running_attempt attempt sequence) st))))"

definition apply_attempt_completed ::
  "durable_env \<Rightarrow> nat \<Rightarrow> nat \<Rightarrow> string \<Rightarrow> nat \<Rightarrow> json \<Rightarrow> string \<Rightarrow> run_state \<Rightarrow> run_state dres"
where
  "apply_attempt_completed env version sequence activity_id attempt output output_hash st =
     bindR (ensure_active st) (\<lambda>_.
       if stable_input_hash env output \<noteq> output_hash then Inl InvalidEvent
       else bindR (if version \<ge> TERMINAL_ACTIVITY_INVARIANT_SCHEMA_VERSION
                   then bindR (activity st activity_id) (\<lambda>r.
                     validate_reserved_audit_attempt_completion env (rs_run_id st) (st_activities st) r output)
                   else Inr ()) (\<lambda>_.
         update_running_attempt activity_id attempt
           (\<lambda>a. a\<lparr>at_status := AtCompleted, at_finished_sequence := Some sequence,
                  at_output := Some output, at_output_hash := Some output_hash\<rparr>) st))"

definition apply_attempt_failed ::
  "nat \<Rightarrow> nat \<Rightarrow> string \<Rightarrow> nat \<Rightarrow> string \<Rightarrow> bool \<Rightarrow> bool \<Rightarrow> run_state \<Rightarrow> run_state dres"
where
  "apply_attempt_failed version sequence activity_id attempt error retryable effect_ambiguous st =
     bindR (ensure_active st) (\<lambda>_.
     bindR (if version \<ge> TERMINAL_ACTIVITY_INVARIANT_SCHEMA_VERSION
            then bindR (activity st activity_id) (\<lambda>r.
              if is_reserved_audit_activity r then Inl InvalidEvent else Inr ())
            else Inr ()) (\<lambda>_.
       update_running_attempt activity_id attempt
         (\<lambda>a. a\<lparr>at_status := AtFailed, at_finished_sequence := Some sequence,
                at_error := Some error, at_retryable := retryable,
                at_effect_ambiguous := effect_ambiguous\<rparr>) st))"

definition apply_attempt_cancelled ::
  "nat \<Rightarrow> nat \<Rightarrow> string \<Rightarrow> nat \<Rightarrow> string \<Rightarrow> run_state \<Rightarrow> run_state dres"
where
  "apply_attempt_cancelled version sequence activity_id attempt reason st =
     bindR (ensure_active st) (\<lambda>_.
       if version < ACTIVITY_ATTEMPT_CANCELLED_SCHEMA_VERSION then Inl InvalidEvent
       else bindR (activity st activity_id) (\<lambda>r.
         if is_reserved_audit_activity r then Inl InvalidEvent
         else update_running_attempt activity_id attempt
           (\<lambda>a. a\<lparr>at_status := AtCancelled, at_finished_sequence := Some sequence,
                  at_error := Some reason, at_retryable := False,
                  at_effect_ambiguous := False\<rparr>) st))"

text \<open>The two migrations of a terminal v1 history that may still require reconciliation.\<close>

definition terminal_legacy_migration :: "nat \<Rightarrow> string \<Rightarrow> nat \<Rightarrow> run_state \<Rightarrow> bool" where
  "terminal_legacy_migration version activity_id attempt st =
     (version \<ge> TERMINAL_ACTIVITY_INVARIANT_SCHEMA_VERSION
      \<and> is_terminal (st_status st)
      \<and> (case activity st activity_id of
           Inl _ \<Rightarrow> False
         | Inr r \<Rightarrow>
             (attempt = 1
              \<and> ad_stable_step_id (ar_definition r) = RUNTIME_LEGACY_RUN_STOPPED_AUDIT_STEP_ID
              \<and> is_reserved_audit_activity r \<and> ar_attempts r = [])
             \<or> (\<not> is_reserved_audit_activity r
                \<and> ad_side_effect_class (ar_definition r) = EffReconcileRequired
                \<and> (case latest_attempt r of None \<Rightarrow> False
                    | Some c \<Rightarrow> at_attempt c = attempt \<and> at_status c = AtRunning)
                \<and> activity_attempt_has_v1_provenance st activity_id attempt)))"

definition require_reconciliation_status :: "bool \<Rightarrow> string \<Rightarrow> run_state \<Rightarrow> run_state" where
  "require_reconciliation_status migration reason st =
     (if migration then st else set_status RunReconcileRequired (Some reason) st)"

definition apply_reconciliation_required ::
  "nat \<Rightarrow> nat \<Rightarrow> string \<Rightarrow> nat \<Rightarrow> string \<Rightarrow> run_state \<Rightarrow> run_state dres"
where
  "apply_reconciliation_required version sequence activity_id attempt reason st =
     (let migration = terminal_legacy_migration version activity_id attempt st in
      bindR (if migration then Inr () else ensure_active st) (\<lambda>_.
      bindR (activity st activity_id) (\<lambda>r.
        if ar_attempts r = [] then
          (if version < TERMINAL_ACTIVITY_INVARIANT_SCHEMA_VERSION \<or> attempt \<noteq> 1
              \<or> \<not> is_reserved_audit_activity r
           then Inl (InvalidActivityTransition activity_id)
           else Inr (require_reconciliation_status migration reason
                  (push_attempt activity_id
                     \<lparr>at_attempt = attempt, at_status = AtReconcileRequired,
                      at_started_sequence = sequence, at_finished_sequence = Some sequence,
                      at_output = None, at_output_hash = None, at_error = Some reason,
                      at_retryable = False, at_effect_ambiguous = True\<rparr> st)))
        else bindR (find_attempt activity_id attempt st) (\<lambda>a.
          if \<not> (at_status a = AtRunning \<or> at_status a = AtFailed)
          then Inl (InvalidActivityTransition activity_id)
          else Inr (require_reconciliation_status migration reason
                 (update_attempt activity_id attempt
                    (\<lambda>a. a\<lparr>at_status := AtReconcileRequired, at_finished_sequence := Some sequence,
                           at_error := Some reason, at_effect_ambiguous := True\<rparr>) st))))))"

definition lifecycle_schedule_sequence :: "run_state \<Rightarrow> activity_record \<Rightarrow> string \<Rightarrow> nat option" where
  "lifecycle_schedule_sequence st r activity_id =
     (if ad_stable_step_id (ar_definition r) = RUNTIME_INVOCATION_LIFECYCLE_STEP_ID
      then map_option ev_sequence (List.find (\<lambda>e. case ev_kind e of
             ActivityScheduled d \<Rightarrow> ad_activity_id d = activity_id | _ \<Rightarrow> False) (rs_events st))
      else None)"

definition attested_status :: "string \<Rightarrow> run_status" where
  "attested_status reason =
     (if reason = ''end_turn'' \<or> reason = ''stop'' then RunCompletedSt
      else if reason = ''approval_interrupted'' \<or> reason = ''cancelled'' then RunCancelledSt
      else RunFailedSt)"

definition check_terminal_attestation ::
  "durable_env \<Rightarrow> reconciliation \<Rightarrow> run_state \<Rightarrow> unit dres"
where
  "check_terminal_attestation env resolution st =
     (case resolution of
        RecCompleted output \<Rightarrow>
          (case de_legacy_resolution env output of
             Inl _ \<Rightarrow> Inl InvalidEvent
           | Inr res \<Rightarrow>
               if attested_status (rr_reason (lr_terminal_receipt res)) \<noteq> st_status st
               then Inl InvalidEvent else Inr ())
      | _ \<Rightarrow> Inr ())"

definition resolve_attempt ::
  "durable_env \<Rightarrow> reconciliation \<Rightarrow> nat \<Rightarrow> activity_attempt \<Rightarrow> activity_attempt"
where
  "resolve_attempt env resolution sequence a =
     (case resolution of
        RecCompleted output \<Rightarrow>
          a\<lparr>at_status := AtCompleted, at_output_hash := Some (stable_input_hash env output),
            at_output := Some output, at_retryable := False, at_effect_ambiguous := False,
            at_finished_sequence := Some sequence\<rparr>
      | RecSafeToRetry \<Rightarrow>
          a\<lparr>at_status := AtFailed, at_retryable := True, at_effect_ambiguous := False,
            at_finished_sequence := Some sequence\<rparr>
      | RecCancelled \<Rightarrow>
          a\<lparr>at_status := AtCancelled, at_retryable := False, at_effect_ambiguous := False,
            at_finished_sequence := Some sequence\<rparr>)"

definition reconciliation_completed_reason :: string where
  "reconciliation_completed_reason = ''reconciliation completed''"

definition apply_activity_reconciled ::
  "durable_env \<Rightarrow> nat \<Rightarrow> nat \<Rightarrow> string \<Rightarrow> nat \<Rightarrow> reconciliation \<Rightarrow> run_state \<Rightarrow> run_state dres"
where
  "apply_activity_reconciled env version sequence activity_id attempt resolution st =
     bindR (activity st activity_id) (\<lambda>r.
     bindR (if version \<ge> TERMINAL_ACTIVITY_INVARIANT_SCHEMA_VERSION
            then validate_reserved_audit_reconciliation env (rs_run_id st) (st_activities st) r resolution
                   (lifecycle_schedule_sequence st r activity_id)
            else Inr ()) (\<lambda>_.
     let attestation = (is_terminal (st_status st)
           \<and> ad_stable_step_id (ar_definition r) = RUNTIME_LEGACY_RUN_STOPPED_AUDIT_STEP_ID
           \<and> (case latest_attempt r of None \<Rightarrow> False | Some a \<Rightarrow> at_status a \<noteq> AtCompleted)
           \<and> (case resolution of RecCompleted _ \<Rightarrow> True | _ \<Rightarrow> False))
     in bindR (if attestation then check_terminal_attestation env resolution st else Inr ()) (\<lambda>_.
        bindR (find_attempt activity_id attempt st) (\<lambda>a.
          if at_status a \<noteq> AtReconcileRequired \<and> \<not> attestation
          then Inl (InvalidActivityTransition activity_id)
          else
            let st' = update_attempt activity_id attempt (resolve_attempt env resolution sequence) st
            in Inr (if \<not> is_terminal (st_status st) \<and> \<not> has_reconciliation_pending st'
                    then set_status RunPausedSt (Some reconciliation_completed_reason) st' else st')))))"

subsection \<open>Approvals and artifacts\<close>

definition check_binding_identity ::
  "durable_env \<Rightarrow> string \<Rightarrow> string option \<Rightarrow> governance_binding option \<Rightarrow> unit dres"
where
  "check_binding_identity env run_id policy_hash binding =
     (case binding of
        None \<Rightarrow> Inr ()
      | Some b \<Rightarrow>
          bindR (map_err (\<lambda>_. InvalidEvent) (binding_validate env b)) (\<lambda>_.
            if gb_run_id b \<noteq> run_id \<or> policy_hash \<noteq> Some (gb_policy_snapshot_hash b)
            then Inl InvalidEvent else Inr ()))"

definition approval_required_reason :: "string \<Rightarrow> string" where
  "approval_required_reason approval_id = ''approval `'' @ approval_id @ ''` required''"

definition apply_approval_requested ::
  "durable_env \<Rightarrow> nat \<Rightarrow> nat \<Rightarrow> string \<Rightarrow> string \<Rightarrow> string option \<Rightarrow> string \<Rightarrow> json \<Rightarrow> run_state \<Rightarrow> run_state dres"
where
  "apply_approval_requested env version sequence approval_id logical_key activity_id prompt payload st =
     bindR (ensure_active st) (\<lambda>_.
       if st_status st = RunReconcileRequired then Inl RunRequiresReconciliation
       else if bt_contains_key (st_approvals st) approval_id then Inl InvalidEvent
       else bindR (decode_approval_payload env payload version) (\<lambda>d.
            bindR (case da_policy_snapshot_hash d of None \<Rightarrow> Inr () | Some h \<Rightarrow> validate_policy_hash h) (\<lambda>_.
              if da_policy_snapshot_hash d \<noteq> rs_policy_snapshot_hash st then Inl InvalidEvent
              else if da_governance_binding d \<noteq> rs_governance_binding st then Inl InvalidEvent
              else bindR (check_binding_identity env (rs_run_id st) (da_policy_snapshot_hash d)
                            (da_governance_binding d)) (\<lambda>_.
                Inr (set_status RunPausedSt (Some (approval_required_reason approval_id))
                  (map_projection (\<lambda>p. p\<lparr>pj_approvals := bt_insert approval_id
                     \<lparr>ap_approval_id = approval_id, ap_logical_key = logical_key,
                      ap_activity_id = activity_id, ap_kind = da_kind d, ap_prompt = prompt,
                      ap_payload = da_payload d, ap_policy_snapshot_hash = da_policy_snapshot_hash d,
                      ap_governance_binding = da_governance_binding d,
                      ap_requested_at = da_requested_at d, ap_expires_at = da_expires_at d,
                      ap_status = Pending, ap_response = None, ap_resolved_at = None,
                      ap_timed_out = False, ap_requested_sequence = sequence,
                      ap_resolved_sequence = None\<rparr> (pj_approvals p)\<rparr>) st))))))"

definition apply_approval_resolved ::
  "durable_env \<Rightarrow> nat \<Rightarrow> nat \<Rightarrow> string \<Rightarrow> bool \<Rightarrow> json option \<Rightarrow> run_state \<Rightarrow> run_state dres"
where
  "apply_approval_resolved env version sequence approval_id approved response st =
     (case bt_get (st_approvals st) approval_id of
        None \<Rightarrow> Inl (ApprovalNotFound approval_id)
      | Some approval \<Rightarrow>
          if ap_status approval \<noteq> Pending then Inl (ApprovalAlreadyResolved approval_id)
          else bindR (decode_resolution_payload env approval approved response version) (\<lambda>d.
            Inr (map_projection (\<lambda>p. p\<lparr>pj_approvals := bt_modify approval_id
                  (\<lambda>a. a\<lparr>ap_status := (if approved then Approved else Rejected),
                         ap_response := dr_response d, ap_resolved_at := dr_resolved_at d,
                         ap_timed_out := dr_timed_out d, ap_resolved_sequence := Some sequence\<rparr>)
                  (pj_approvals p)\<rparr>) st)))"

text \<open>\<open>entry(id).or\_default()\<close> leaves an empty version list behind only together with an
  error, which discards the candidate.\<close>

definition artifact_versions :: "run_state \<Rightarrow> string \<Rightarrow> artifact_metadata list" where
  "artifact_versions st artifact_id =
     (case bt_get (pj_artifacts (rs_projection st)) artifact_id of None \<Rightarrow> [] | Some vs \<Rightarrow> vs)"

definition apply_artifact_published :: "artifact_metadata \<Rightarrow> run_state \<Rightarrow> run_state dres" where
  "apply_artifact_published m st =
     bindR (ensure_active st) (\<lambda>_.
       let versions = artifact_versions st (am_artifact_id m);
           expected = (case last_opt versions of None \<Rightarrow> 1 | Some prior \<Rightarrow> wrapping_add_u64 (am_version prior) 1)
       in if am_version m \<noteq> expected
          then Inl (InvalidArtifactVersion (am_artifact_id m) expected (am_version m))
          else if am_previous_version_id m \<noteq> map_option am_version_id (last_opt versions)
          then Inl InvalidEvent
          else Inr (map_projection (\<lambda>p. p\<lparr>pj_artifacts :=
                 bt_insert (am_artifact_id m) (versions @ [m]) (pj_artifacts p)\<rparr>) st))"

subsection \<open>Checkpoints, pause and resume, fork, rewind, termination\<close>

definition apply_checkpoint_committed :: "nat \<Rightarrow> string \<Rightarrow> string option \<Rightarrow> run_state \<Rightarrow> run_state dres" where
  "apply_checkpoint_committed sequence checkpoint_id label st =
     bindR (ensure_active st) (\<lambda>_.
       if bt_contains_key (rs_checkpoints st) checkpoint_id then Inl InvalidEvent
       else Inr (map_projection (\<lambda>p. p\<lparr>pj_current_checkpoint_id := Some checkpoint_id\<rparr>)
              (st\<lparr>rs_checkpoints := bt_insert checkpoint_id
                    \<lparr>cp_checkpoint_id = checkpoint_id, cp_run_id = rs_run_id st,
                     cp_event_sequence = sequence,
                     cp_parent_checkpoint_id = pj_current_checkpoint_id (rs_projection st),
                     cp_label = label, cp_projection = rs_projection st\<rparr> (rs_checkpoints st)\<rparr>)))"

definition apply_run_paused :: "string \<Rightarrow> run_state \<Rightarrow> run_state dres" where
  "apply_run_paused reason st =
     bindR (ensure_active st) (\<lambda>_.
       if st_status st = RunReconcileRequired then Inl RunRequiresReconciliation
       else Inr (set_status RunPausedSt (Some reason) st))"

definition apply_run_resumed :: "run_state \<Rightarrow> run_state dres" where
  "apply_run_resumed st =
     (if st_status st \<noteq> RunPausedSt then Inl NotPaused
      else if pending_approval_ids (rs_projection st) \<noteq> [] then Inl PendingApprovals
      else if has_reconciliation_pending st then Inl RunRequiresReconciliation
      else Inr (set_status RunRunning None st))"

definition apply_fork_created :: "durable_env \<Rightarrow> string \<Rightarrow> string \<Rightarrow> bool \<Rightarrow> run_state \<Rightarrow> run_state dres" where
  "apply_fork_created env new_run_id checkpoint_id side_effects_reconciled st =
     bindR (ensure_active st) (\<lambda>_.
     bindR (validate_identifier ''new_run_id'' new_run_id) (\<lambda>_.
     bindR (checkpoint_by_id st checkpoint_id) (\<lambda>cp.
     bindR (checkpoint_for_current_run env st cp) (\<lambda>cp'.
     bindR (require_reconciled_after st (cp_event_sequence cp') side_effects_reconciled) (\<lambda>_.
       Inr st)))))"

definition rewound_reason :: "string \<Rightarrow> string" where
  "rewound_reason checkpoint_id = ''rewound to `'' @ checkpoint_id @ ''`''"

definition apply_run_rewound :: "durable_env \<Rightarrow> string \<Rightarrow> string \<Rightarrow> bool \<Rightarrow> run_state \<Rightarrow> run_state dres" where
  "apply_run_rewound env checkpoint_id new_branch_id side_effects_reconciled st =
     bindR (ensure_active st) (\<lambda>_.
     bindR (checkpoint_by_id st checkpoint_id) (\<lambda>cp.
     bindR (checkpoint_for_current_run env st cp) (\<lambda>cp'.
     bindR (require_reconciled_after st (cp_event_sequence cp') side_effects_reconciled) (\<lambda>_.
       Inr (set_status RunPausedSt (Some (rewound_reason checkpoint_id))
         (st\<lparr>rs_projection := fork_projection env cp' (rs_run_id st) new_branch_id\<rparr>))))))"

definition apply_run_completed :: "durable_env \<Rightarrow> nat \<Rightarrow> run_state \<Rightarrow> run_state dres" where
  "apply_run_completed env version st =
     bindR (ensure_active st) (\<lambda>_.
     bindR (if version \<ge> TERMINAL_ACTIVITY_INVARIANT_SCHEMA_VERSION
            then ensure_reserved_audit_lifecycle_closed env st else Inr ()) (\<lambda>_.
       if pending_approval_ids (rs_projection st) \<noteq> [] then Inl PendingApprovals
       else if has_reconciliation_pending st then Inl RunRequiresReconciliation
       else bindR (ensure_no_running_activities st) (\<lambda>_. Inr (set_status RunCompletedSt None st))))"

definition apply_run_ended ::
  "durable_env \<Rightarrow> nat \<Rightarrow> run_status \<Rightarrow> string option \<Rightarrow> run_state \<Rightarrow> run_state dres"
where
  "apply_run_ended env version status reason st =
     bindR (ensure_active st) (\<lambda>_.
     bindR (if version \<ge> TERMINAL_ACTIVITY_INVARIANT_SCHEMA_VERSION
            then bindR (ensure_reserved_audit_lifecycle_closed env st) (\<lambda>_. ensure_no_running_activities st)
            else Inr ()) (\<lambda>_.
       Inr (set_status status reason st)))"

definition apply_run_failed :: "durable_env \<Rightarrow> nat \<Rightarrow> string \<Rightarrow> run_state \<Rightarrow> run_state dres" where
  "apply_run_failed env version error = apply_run_ended env version RunFailedSt (Some error)"

definition apply_run_cancelled :: "durable_env \<Rightarrow> nat \<Rightarrow> string option \<Rightarrow> run_state \<Rightarrow> run_state dres" where
  "apply_run_cancelled env version reason = apply_run_ended env version RunCancelledSt reason"

subsection \<open>Dispatch, append, replay\<close>

definition apply_first_event :: "durable_env \<Rightarrow> run_event \<Rightarrow> run_state \<Rightarrow> run_state dres" where
  "apply_first_event env ev st =
     (case ev_kind ev of
        RunStarted session_id durability root_branch_id \<Rightarrow>
          apply_run_started env session_id durability root_branch_id st
      | ForkedFrom session_id source_run_id durability cp new_branch_id \<Rightarrow>
          apply_forked_from env session_id source_run_id durability cp new_branch_id st
      | _ \<Rightarrow> Inl MissingRunStart)"

definition apply_later_event :: "durable_env \<Rightarrow> run_event \<Rightarrow> run_state \<Rightarrow> run_state dres" where
  "apply_later_event env ev st =
     (let v = ev_schema_version ev; n = ev_sequence ev in
      case ev_kind ev of
        RunStarted _ _ _ \<Rightarrow> Inl AlreadyStarted
      | ForkedFrom _ _ _ _ _ \<Rightarrow> Inl AlreadyStarted
      | PolicySnapshotPinned h \<Rightarrow> apply_policy_snapshot_pinned h st
      | GovernanceBindingPinned b \<Rightarrow> apply_governance_binding_pinned env b st
      | StateReplaced s \<Rightarrow> apply_state_replaced s st
      | WorkerLeaseClaimed w l c x \<Rightarrow> apply_lease_claimed v w l c x st
      | WorkerLeaseRenewed w l c x \<Rightarrow> apply_lease_renewed v w l c x st
      | WorkerLeaseReleased w l c \<Rightarrow> apply_lease_released v w l c st
      | ActivityScheduled d \<Rightarrow> apply_activity_scheduled env v d st
      | ActivityAttemptStarted a k \<Rightarrow> apply_attempt_started env v n a k st
      | ActivityAttemptCompleted a k out h \<Rightarrow> apply_attempt_completed env v n a k out h st
      | ActivityAttemptFailed a k e r amb \<Rightarrow> apply_attempt_failed v n a k e r amb st
      | ActivityAttemptCancelled a k r \<Rightarrow> apply_attempt_cancelled v n a k r st
      | ActivityReconciliationRequired a k r \<Rightarrow> apply_reconciliation_required v n a k r st
      | ActivityReconciled a k r \<Rightarrow> apply_activity_reconciled env v n a k r st
      | ApprovalRequested i lk a p pl \<Rightarrow> apply_approval_requested env v n i lk a p pl st
      | ApprovalResolved i ok r \<Rightarrow> apply_approval_resolved env v n i ok r st
      | ArtifactPublished m \<Rightarrow> apply_artifact_published m st
      | CheckpointCommitted c l \<Rightarrow> apply_checkpoint_committed n c l st
      | RunPaused r \<Rightarrow> apply_run_paused r st
      | RunResumed \<Rightarrow> apply_run_resumed st
      | ForkCreated r c b s \<Rightarrow> apply_fork_created env r c s st
      | RunRewound c b s \<Rightarrow> apply_run_rewound env c b s st
      | RunCompleted \<Rightarrow> apply_run_completed env v st
      | RunFailed e \<Rightarrow> apply_run_failed env v e st
      | RunCancelled r \<Rightarrow> apply_run_cancelled env v r st)"

definition apply_event_in_place :: "durable_env \<Rightarrow> run_event \<Rightarrow> run_state \<Rightarrow> run_state dres" where
  "apply_event_in_place env ev st =
     (if rs_events st = [] then apply_first_event env ev st else apply_later_event env ev st)"

text \<open>The candidate of \<open>append\_validated\_event\<close>: the event applied to a clone and pushed.\<close>

definition commit_event :: "durable_env \<Rightarrow> run_event \<Rightarrow> run_state \<Rightarrow> run_state dres" where
  "commit_event env ev st =
     bindR (apply_event_in_place env ev st) (\<lambda>c. Inr (c\<lparr>rs_events := rs_events c @ [ev]\<rparr>))"

definition append_validated_event ::
  "durable_env \<Rightarrow> run_event \<Rightarrow> (run_state, durability_error, append_outcome) smeth"
where
  "append_validated_event env ev st =
     (case validate_identifier ''event_id'' (ev_event_id ev) of
        Inl e \<Rightarrow> (Inl e, st)
      | Inr _ \<Rightarrow>
          if ev_run_id ev \<noteq> rs_run_id st then (Inl (WrongRun (rs_run_id st) (ev_run_id ev)), st)
          else case event_by_id st (ev_event_id ev) of
            Some existing \<Rightarrow>
              if ev_kind existing = ev_kind ev then (Inr (Deduplicated (ev_sequence existing)), st)
              else (Inl (DuplicateEventConflict (ev_event_id ev)), st)
          | None \<Rightarrow>
              let expected = next_sequence st in
              if ev_sequence ev \<noteq> expected
              then (Inl (NonMonotonicSequence expected (ev_sequence ev)), st)
              else case commit_event env ev st of
                Inl e \<Rightarrow> (Inl e, st)
              | Inr c \<Rightarrow> (Inr (Appended expected), c))"

definition append_event ::
  "durable_env \<Rightarrow> run_event \<Rightarrow> (run_state, durability_error, append_outcome) smeth"
where
  "append_event env ev st =
     (if ev_schema_version ev \<noteq> DURABILITY_SCHEMA_VERSION
      then (Inl (UnsupportedSchema DURABILITY_SCHEMA_VERSION (ev_schema_version ev)), st)
      else append_validated_event env ev st)"

definition append_replayed_event ::
  "durable_env \<Rightarrow> run_event \<Rightarrow> (run_state, durability_error, append_outcome) smeth"
where
  "append_replayed_event env ev st =
     (if \<not> is_supported_durability_schema_version (ev_schema_version ev)
      then (Inl (UnsupportedSchema DURABILITY_SCHEMA_VERSION (ev_schema_version ev)), st)
      else if (case last_opt (rs_events st) of None \<Rightarrow> False
               | Some prev \<Rightarrow> ev_schema_version prev > ev_schema_version ev)
      then (Inl InvalidEvent, st)
      else append_validated_event env ev st)"

definition emit ::
  "durable_env \<Rightarrow> string \<Rightarrow> event_kind \<Rightarrow> (run_state, durability_error, append_outcome) smeth"
where
  "emit env event_id kind st =
     append_event env \<lparr>ev_schema_version = DURABILITY_SCHEMA_VERSION, ev_run_id = rs_run_id st,
       ev_sequence = next_sequence st, ev_event_id = event_id, ev_kind = kind\<rparr> st"

definition blank_state :: "string \<Rightarrow> string \<Rightarrow> durability_mode \<Rightarrow> run_projection \<Rightarrow> run_state" where
  "blank_state session_id run_id durability projection =
     \<lparr>rs_schema_version = DURABILITY_SCHEMA_VERSION, rs_session_id = session_id, rs_run_id = run_id,
      rs_durability = durability, rs_parent_run_id = None, rs_policy_snapshot_hash = None,
      rs_governance_binding = None, rs_events = [], rs_checkpoints = [], rs_projection = projection\<rparr>"

fun replay_events :: "durable_env \<Rightarrow> run_event list \<Rightarrow> run_state \<Rightarrow> run_state dres" where
  "replay_events env [] st = Inr st"
| "replay_events env (e # es) st =
     (case append_replayed_event env e st of (Inl err, _) \<Rightarrow> Inl err | (Inr _, st') \<Rightarrow> replay_events env es st')"

definition first_event_identity :: "run_event \<Rightarrow> (string \<times> durability_mode) dres" where
  "first_event_identity e =
     (case ev_kind e of
        RunStarted session_id durability _ \<Rightarrow> Inr (session_id, durability)
      | ForkedFrom session_id _ durability _ _ \<Rightarrow> Inr (session_id, durability)
      | _ \<Rightarrow> Inl MissingRunStart)"

definition from_events :: "durable_env \<Rightarrow> run_event list \<Rightarrow> run_state dres" where
  "from_events env events =
     (case events of
        [] \<Rightarrow> Inl MissingRunStart
      | first # _ \<Rightarrow>
          bindR (first_event_identity first) (\<lambda>(session_id, durability).
          bindR (validate_identifier ''session_id'' session_id) (\<lambda>_.
          bindR (validate_identifier ''run_id'' (ev_run_id first)) (\<lambda>_.
            replay_events env events
              (blank_state session_id (ev_run_id first) durability
                (projection_root env (ev_run_id first)))))))"

end
