(* ===== verification/DurOps.thy ===== *)
theory DurOps
  imports DurCore
begin

text \<open>
  The public operations of \<open>RunState\<close> (\<open>durability.rs\<close>): construction, worker leases,
  the activity ledger, reconciliation, approvals, artifacts, checkpoints, termination and
  the resume, fork, rewind and cancel commands. Each is a state-passing method: the state is
  returned next to the result on success and on error.
\<close>

type_synonym 'a run_op = "(run_state, durability_error, 'a) smeth"

abbreviation event_id_of :: "durable_env \<Rightarrow> string list \<Rightarrow> string" where
  "event_id_of env fs \<equiv> stable_identifier env ''event'' fs"

abbreviation st_branch :: "run_state \<Rightarrow> string" where
  "st_branch st \<equiv> pj_branch_id (rs_projection st)"

abbreviation identS :: "string \<Rightarrow> string \<Rightarrow> unit run_op" where
  "identS field v \<equiv> checkS (\<lambda>_. validate_identifier field v)"

text \<open>\<open>request\_approval\<close>, \<open>checkpoint\<close> and \<open>pause\<close> refuse a run that waits for reconciliation.\<close>

definition ensure_not_reconciling :: "run_state \<Rightarrow> unit dres" where
  "ensure_not_reconciling st =
     (if st_status st = RunReconcileRequired then Inl RunRequiresReconciliation else Inr ())"

subsection \<open>Construction\<close>

definition rs_new :: "durable_env \<Rightarrow> string \<Rightarrow> string \<Rightarrow> durability_mode \<Rightarrow> run_state dres" where
  "rs_new env session_id run_id durability =
     bindR (validate_identifier ''session_id'' session_id) (\<lambda>_.
     bindR (validate_identifier ''run_id'' run_id) (\<lambda>_.
       let projection = projection_root env run_id in
       execR (emit env (event_id_of env [run_id, ''run_started''])
                (RunStarted session_id durability (pj_branch_id projection)))
         (blank_state session_id run_id durability projection)))"

definition new_with_governance_binding ::
  "durable_env \<Rightarrow> string \<Rightarrow> string \<Rightarrow> durability_mode \<Rightarrow> governance_binding \<Rightarrow> run_state dres"
where
  "new_with_governance_binding env session_id run_id durability binding =
     bindR (map_err (\<lambda>_. InvalidEvent) (binding_validate env binding)) (\<lambda>_.
       if gb_run_id binding \<noteq> run_id then Inl InvalidEvent
       else bindR (rs_new env session_id run_id durability) (\<lambda>st.
         execR (emit env (event_id_of env [rs_run_id st, ''governance_binding_pinned''])
                  (GovernanceBindingPinned binding)) st))"

definition new_with_policy_snapshot ::
  "durable_env \<Rightarrow> string \<Rightarrow> string \<Rightarrow> durability_mode \<Rightarrow> policy_snapshot \<Rightarrow> run_state dres"
where
  "new_with_policy_snapshot env session_id run_id durability snapshot =
     bindR (map_err (\<lambda>_. InvalidEvent) (snapshot_validate env snapshot)) (\<lambda>_.
     bindR (map_err (\<lambda>_. InvalidEvent) (binding_seal env (ps_hash snapshot) None None run_id)) (\<lambda>binding.
       new_with_governance_binding env session_id run_id durability binding))"

text \<open>The validation that \<open>Deserialize for RunState\<close> makes on a decoded document: the log is
  replayed and every stored field is compared with the replayed one.\<close>

definition deserialize_run_state :: "durable_env \<Rightarrow> run_state \<Rightarrow> run_state dres" where
  "deserialize_run_state env s =
     (if \<not> is_supported_durability_schema_version (rs_schema_version s) then Inl InvalidEvent
      else if list_ex (\<lambda>e. ev_schema_version e > rs_schema_version s) (rs_events s) then Inl InvalidEvent
      else bindR (from_events env (rs_events s)) (\<lambda>r.
        if rs_session_id r \<noteq> rs_session_id s \<or> rs_run_id r \<noteq> rs_run_id s
           \<or> rs_durability r \<noteq> rs_durability s \<or> rs_parent_run_id r \<noteq> rs_parent_run_id s
           \<or> rs_policy_snapshot_hash r \<noteq> rs_policy_snapshot_hash s
           \<or> rs_governance_binding r \<noteq> rs_governance_binding s
           \<or> rs_events r \<noteq> rs_events s \<or> rs_checkpoints r \<noteq> rs_checkpoints s
           \<or> rs_projection r \<noteq> rs_projection s
        then Inl InvalidEvent else Inr r))"

subsection \<open>Worker leases\<close>

definition claim_worker_lease ::
  "durable_env \<Rightarrow> string \<Rightarrow> string \<Rightarrow> nat \<Rightarrow> nat \<Rightarrow> bool run_op"
where
  "claim_worker_lease env owner_id lease_id claimed_at expires_at st =
     bindS (identS ''worker_owner_id'' owner_id) (\<lambda>_.
     bindS (identS ''worker_lease_id'' lease_id) (\<lambda>_.
     bindS (checkS (\<lambda>_. validate_worker_lease_window claimed_at expires_at)) (\<lambda>_.
     bindS (emit env (event_id_of env [rs_run_id st, ''worker_lease_claimed'', lease_id, show_nat claimed_at])
              (WorkerLeaseClaimed owner_id lease_id claimed_at expires_at)) (\<lambda>_.
       returnS (st_lease st \<noteq> None))))) st"

definition renew_worker_lease ::
  "durable_env \<Rightarrow> string \<Rightarrow> string \<Rightarrow> nat \<Rightarrow> nat \<Rightarrow> unit run_op"
where
  "renew_worker_lease env owner_id lease_id renewed_at expires_at st =
     bindS (identS ''worker_owner_id'' owner_id) (\<lambda>_.
     bindS (identS ''worker_lease_id'' lease_id) (\<lambda>_.
     bindS (checkS (\<lambda>_. validate_worker_lease_window renewed_at expires_at)) (\<lambda>_.
     bindS (emit env (event_id_of env [rs_run_id st, ''worker_lease_renewed'', lease_id, show_nat renewed_at])
              (WorkerLeaseRenewed owner_id lease_id renewed_at expires_at)) (\<lambda>_.
       returnS ())))) st"

definition release_worker_lease :: "durable_env \<Rightarrow> string \<Rightarrow> string \<Rightarrow> nat \<Rightarrow> unit run_op" where
  "release_worker_lease env owner_id lease_id released_at st =
     bindS (identS ''worker_owner_id'' owner_id) (\<lambda>_.
     bindS (identS ''worker_lease_id'' lease_id) (\<lambda>_.
     bindS (emit env (event_id_of env [rs_run_id st, ''worker_lease_released'', lease_id, show_nat released_at])
              (WorkerLeaseReleased owner_id lease_id released_at)) (\<lambda>_.
       returnS ()))) st"

subsection \<open>State and activities\<close>

definition replace_state :: "durable_env \<Rightarrow> string \<Rightarrow> json \<Rightarrow> append_outcome run_op" where
  "replace_state env mutation_id state st =
     bindS (identS ''mutation_id'' mutation_id) (\<lambda>_.
     bindS (checkS ensure_executing) (\<lambda>_.
       emit env (event_id_of env [rs_run_id st, st_branch st, ''state'', mutation_id])
         (StateReplaced state))) st"

definition interrupted_error :: string where
  "interrupted_error = ''worker interrupted before completion was committed''"
definition uncommitted_effect_reason :: string where
  "uncommitted_effect_reason = ''previous attempt may have produced an uncommitted external effect''"
definition ambiguous_failure_reason :: string where
  "ambiguous_failure_reason = ''failed attempt has an ambiguous external effect''"

definition unwrap_or :: "'a option \<Rightarrow> 'a \<Rightarrow> 'a" where
  "unwrap_or x d = (case x of None \<Rightarrow> d | Some v \<Rightarrow> v)"

text \<open>The tail of \<open>decide\_activity\<close>: start the next attempt.\<close>

definition start_next_attempt :: "durable_env \<Rightarrow> string \<Rightarrow> activity_decision run_op" where
  "start_next_attempt env activity_id st =
     (case bt_get (st_activities st) activity_id of
        None \<Rightarrow> (Inl Panicked, st)
      | Some r \<Rightarrow>
          (case u32_try_from (length (ar_attempts r) + 1) of
             None \<Rightarrow> (Inl (InvalidActivityTransition activity_id), st)
           | Some attempt \<Rightarrow>
               bindS (emit env (event_id_of env [activity_id, show_nat attempt, ''started''])
                        (ActivityAttemptStarted activity_id attempt)) (\<lambda>_ st'.
                 case bt_get (st_activities st') activity_id of
                   None \<Rightarrow> (Inl Panicked, st')
                 | Some r' \<Rightarrow>
                     (Inr (Execute activity_id attempt (ad_idempotency_key (ar_definition r'))), st')) st))"

text \<open>Emit \<open>ActivityReconciliationRequired\<close> and report the decision.\<close>

definition require_reconciliation :: "durable_env \<Rightarrow> string \<Rightarrow> nat \<Rightarrow> string \<Rightarrow> activity_decision run_op" where
  "require_reconciliation env activity_id attempt reason =
     bindS (emit env (event_id_of env [activity_id, show_nat attempt, ''reconcile_required''])
              (ActivityReconciliationRequired activity_id attempt reason)) (\<lambda>_.
       returnS (DecReconcileRequired activity_id reason))"

definition decide_activity :: "durable_env \<Rightarrow> string \<Rightarrow> activity_decision run_op" where
  "decide_activity env activity_id st =
     (case bt_get (st_activities st) activity_id of
        None \<Rightarrow> (Inl (ActivityNotFound activity_id), st)
      | Some r \<Rightarrow>
          (case completed_output r of
             Some output \<Rightarrow> (Inr (ReuseCompleted activity_id output), st)
           | None \<Rightarrow>
               (case latest_attempt r of
                  None \<Rightarrow> start_next_attempt env activity_id st
                | Some latest \<Rightarrow>
                    (case at_status latest of
                       AtRunning \<Rightarrow>
                         if retry_is_safe (ar_definition r) True then
                           bindS (emit env
                                    (event_id_of env [activity_id, show_nat (at_attempt latest), ''interrupted''])
                                    (ActivityAttemptFailed activity_id (at_attempt latest)
                                       interrupted_error True True)) (\<lambda>_.
                             start_next_attempt env activity_id) st
                         else require_reconciliation env activity_id (at_attempt latest)
                                uncommitted_effect_reason st
                     | AtFailed \<Rightarrow>
                         if \<not> at_retryable latest then
                           (Inr (DecFailed activity_id (unwrap_or (at_error latest) ''activity failed'')), st)
                         else if \<not> retry_is_safe (ar_definition r) (at_effect_ambiguous latest) then
                           require_reconciliation env activity_id (at_attempt latest)
                             ambiguous_failure_reason st
                         else start_next_attempt env activity_id st
                     | AtReconcileRequired \<Rightarrow>
                         (Inr (DecReconcileRequired activity_id
                            (unwrap_or (at_error latest) ''external side effect requires reconciliation'')), st)
                     | AtCancelled \<Rightarrow> (Inr (DecCancelled activity_id), st)
                     | AtCompleted \<Rightarrow> (Inl Panicked, st)))))"

text \<open>The first half of \<open>prepare\_activity\<close>: reuse the record of the stable step, or schedule one.\<close>

definition schedule_activity ::
  "durable_env \<Rightarrow> string \<Rightarrow> string \<Rightarrow> json \<Rightarrow> side_effect_class \<Rightarrow> string option \<Rightarrow> string run_op"
where
  "schedule_activity env stable_step_id logical_key input side_effect_class idempotency_key st =
     (let input_hash = stable_input_hash env input in
      case List.find (\<lambda>r. ad_stable_step_id (ar_definition r) = stable_step_id
                   \<and> ad_logical_key (ar_definition r) = logical_key) (bt_values (st_activities st)) of
        Some found \<Rightarrow>
          (let activity_id = ad_activity_id (ar_definition found) in
           case bt_get (st_activities st) activity_id of
             None \<Rightarrow> (Inl Panicked, st)
           | Some r \<Rightarrow>
               if ad_input_hash (ar_definition r) \<noteq> input_hash
               then (Inl (ActivityInputChanged activity_id stable_step_id), st)
               else if ad_side_effect_class (ar_definition r) \<noteq> side_effect_class
                  \<or> ad_idempotency_key (ar_definition r) \<noteq> idempotency_key
               then (Inl (InvalidActivityTransition activity_id), st)
               else (Inr activity_id, st))
      | None \<Rightarrow>
          (let activity_id = stable_identifier env ''activity''
                 [rs_run_id st, st_branch st, stable_step_id, logical_key] in
           if side_effect_class = Idempotent \<and> key_missing idempotency_key
           then (Inl (MissingIdempotencyKey activity_id), st)
           else bindS (emit env (event_id_of env [activity_id, ''scheduled''])
                  (ActivityScheduled \<lparr>ad_activity_id = activity_id, ad_stable_step_id = stable_step_id,
                     ad_logical_key = logical_key, ad_input = input, ad_input_hash = input_hash,
                     ad_side_effect_class = side_effect_class, ad_idempotency_key = idempotency_key\<rparr>)) (\<lambda>_.
                returnS activity_id) st))"

definition prepare_activity ::
  "durable_env \<Rightarrow> string \<Rightarrow> string \<Rightarrow> json \<Rightarrow> side_effect_class \<Rightarrow> string option \<Rightarrow> activity_decision run_op"
where
  "prepare_activity env stable_step_id logical_key input side_effect_class idempotency_key =
     bindS (identS ''stable_step_id'' stable_step_id) (\<lambda>_.
     bindS (identS ''logical_key'' logical_key) (\<lambda>_.
     bindS (checkS ensure_executing) (\<lambda>_.
     bindS (schedule_activity env stable_step_id logical_key input side_effect_class idempotency_key)
       (decide_activity env))))"

definition complete_activity :: "durable_env \<Rightarrow> string \<Rightarrow> nat \<Rightarrow> json \<Rightarrow> append_outcome run_op" where
  "complete_activity env activity_id attempt output =
     bindS (checkS ensure_active) (\<lambda>_.
     bindS (checkS (\<lambda>st. activity st activity_id)) (\<lambda>r.
       let event_id = event_id_of env [activity_id, show_nat attempt, ''completed''];
           output_hash = stable_input_hash env output;
           commit = emit env event_id (ActivityAttemptCompleted activity_id attempt output output_hash)
       in case List.find (\<lambda>a. at_attempt a = attempt) (ar_attempts r) of
            None \<Rightarrow> commit
          | Some existing \<Rightarrow>
              if at_status existing = AtCompleted then
                (if at_output_hash existing = Some output_hash
                 then returnS (Deduplicated
                        (unwrap_or (at_finished_sequence existing) (at_started_sequence existing)))
                 else failS (DuplicateEventConflict event_id))
              else commit))"

definition reserved_failure_reason :: "string \<Rightarrow> string" where
  "reserved_failure_reason error = ''reserved audit activity requires reconciliation: '' @ error"
definition ambiguous_activity_reason :: "string \<Rightarrow> string" where
  "ambiguous_activity_reason error = ''activity failed ambiguously: '' @ error"

definition fail_activity ::
  "durable_env \<Rightarrow> string \<Rightarrow> nat \<Rightarrow> string \<Rightarrow> bool \<Rightarrow> bool \<Rightarrow> activity_decision run_op"
where
  "fail_activity env activity_id attempt error retryable effect_ambiguous =
     bindS (checkS ensure_active) (\<lambda>_.
     bindS (checkS (\<lambda>st. activity st activity_id)) (\<lambda>r.
       if is_reserved_audit_activity r
       then require_reconciliation env activity_id attempt (reserved_failure_reason error)
       else
         bindS (emit env (event_id_of env [activity_id, show_nat attempt, ''failed''])
                  (ActivityAttemptFailed activity_id attempt error retryable effect_ambiguous)) (\<lambda>_.
         bindS (checkS (\<lambda>st. activity st activity_id)) (\<lambda>r'.
           if effect_ambiguous \<and> \<not> retry_is_safe (ar_definition r') True
           then require_reconciliation env activity_id attempt (ambiguous_activity_reason error)
           else if retryable then decide_activity env activity_id
           else returnS (DecFailed activity_id error)))))"

definition cancel_activity ::
  "durable_env \<Rightarrow> string \<Rightarrow> nat \<Rightarrow> string \<Rightarrow> bool \<Rightarrow> activity_decision run_op"
where
  "cancel_activity env activity_id attempt reason effect_ambiguous =
     bindS (checkS ensure_active) (\<lambda>_.
       if effect_ambiguous then fail_activity env activity_id attempt reason False effect_ambiguous
       else bindS (checkS (\<lambda>st. activity st activity_id)) (\<lambda>r.
         if is_reserved_audit_activity r
         then fail_activity env activity_id attempt reason False effect_ambiguous
         else bindS (emit env (event_id_of env [activity_id, show_nat attempt, ''cancelled''])
                       (ActivityAttemptCancelled activity_id attempt reason)) (\<lambda>_.
                returnS (DecCancelled activity_id))))"

definition quarantine_unstarted_reserved_activity :: "durable_env \<Rightarrow> string \<Rightarrow> string \<Rightarrow> unit run_op" where
  "quarantine_unstarted_reserved_activity env activity_id reason =
     bindS (checkS (\<lambda>st. activity st activity_id)) (\<lambda>r.
     bindS (checkS (\<lambda>st.
       if \<not> is_reserved_audit_activity r \<or> ar_attempts r \<noteq> []
       then Inl (InvalidActivityTransition activity_id)
       else if is_terminal (st_status st)
          \<and> ad_stable_step_id (ar_definition r) = RUNTIME_LEGACY_RUN_STOPPED_AUDIT_STEP_ID
       then Inr () else ensure_active st)) (\<lambda>_.
     bindS (emit env (event_id_of env [activity_id, ''1'', ''orphan_reconcile_required''])
              (ActivityReconciliationRequired activity_id 1 reason)) (\<lambda>_.
       returnS ())))"

definition quarantine_terminal_legacy_running_activity ::
  "durable_env \<Rightarrow> string \<Rightarrow> string \<Rightarrow> unit run_op"
where
  "quarantine_terminal_legacy_running_activity env activity_id reason =
     bindS (checkS (\<lambda>st. if is_terminal (st_status st) then Inr ()
                       else Inl (InvalidActivityTransition activity_id))) (\<lambda>_.
     bindS (checkS (\<lambda>st. activity st activity_id)) (\<lambda>r.
     bindS (checkS (\<lambda>_. ok_or (latest_attempt r) (InvalidActivityTransition activity_id))) (\<lambda>a.
     bindS (checkS (\<lambda>st.
       if is_reserved_audit_activity r
          \<or> ad_side_effect_class (ar_definition r) \<noteq> EffReconcileRequired
          \<or> at_status a \<noteq> AtRunning
          \<or> \<not> activity_attempt_has_v1_provenance st activity_id (at_attempt a)
       then Inl (InvalidActivityTransition activity_id) else Inr ())) (\<lambda>_.
     bindS (emit env (event_id_of env [activity_id, show_nat (at_attempt a), ''legacy_terminal_quarantine''])
              (ActivityReconciliationRequired activity_id (at_attempt a) reason)) (\<lambda>_.
       returnS ())))))"

definition reconcile_activity ::
  "durable_env \<Rightarrow> string \<Rightarrow> string \<Rightarrow> reconciliation \<Rightarrow> append_outcome run_op"
where
  "reconcile_activity env reconciliation_id activity_id resolution =
     bindS (identS ''reconciliation_id'' reconciliation_id) (\<lambda>_.
     bindS (checkS (\<lambda>st. activity st activity_id)) (\<lambda>r.
     bindS (checkS (\<lambda>st. validate_reserved_audit_reconciliation env (rs_run_id st) (st_activities st) r
              resolution (lifecycle_schedule_sequence st r activity_id))) (\<lambda>_.
     bindS (checkS (\<lambda>_. ok_or (latest_attempt r) (InvalidActivityTransition activity_id))) (\<lambda>a.
       emit env (event_id_of env [activity_id, show_nat (at_attempt a), ''reconciled'', reconciliation_id])
         (ActivityReconciled activity_id (at_attempt a) resolution)))))"

subsection \<open>Approvals\<close>

definition request_approval ::
  "durable_env \<Rightarrow> string \<Rightarrow> string option \<Rightarrow> string \<Rightarrow> json \<Rightarrow> string run_op"
where
  "request_approval env logical_key activity_id prompt payload st =
     (let approval_id = stable_identifier env ''approval'' [rs_run_id st, st_branch st, logical_key] in
      bindS (identS ''logical_key'' logical_key) (\<lambda>_.
      bindS (checkS ensure_active) (\<lambda>_.
      bindS (checkS ensure_not_reconciling) (\<lambda>_.
      bindS (checkS (\<lambda>st. case activity_id of None \<Rightarrow> Inr ()
               | Some a \<Rightarrow> bindR (activity st a) (\<lambda>_. Inr ()))) (\<lambda>_.
      bindS (emit env (event_id_of env [approval_id, ''requested''])
               (ApprovalRequested approval_id logical_key activity_id prompt payload)) (\<lambda>_.
        returnS approval_id))))) st)"

text \<open>The governance checks of \<open>request\_typed\_approval\<close>, on the request whose binding has
  been filled in from the run when it is absent.\<close>

definition check_request_governance :: "durable_env \<Rightarrow> run_state \<Rightarrow> approval_request \<Rightarrow> unit dres" where
  "check_request_governance env st request =
     (if rs_policy_snapshot_hash st \<noteq> rq_policy_snapshot_hash request then Inl InvalidEvent
      else if rs_governance_binding st \<noteq> rq_governance_binding request then Inl InvalidEvent
      else bindR (check_binding_identity env (rs_run_id st) (rq_policy_snapshot_hash request)
                    (rq_governance_binding request)) (\<lambda>_.
        case rq_policy_snapshot_hash request of None \<Rightarrow> Inr () | Some h \<Rightarrow> validate_policy_hash h))"

definition approval_envelope_payload :: "durable_env \<Rightarrow> approval_request \<Rightarrow> json" where
  "approval_envelope_payload env request =
     JObject [(DURABLE_APPROVAL_ENVELOPE_KEY, ser_approval_envelope env
       \<lparr>ae_schema_version = DURABILITY_SCHEMA_VERSION, ae_kind = rq_kind request,
        ae_payload = rq_payload request, ae_policy_snapshot_hash = rq_policy_snapshot_hash request,
        ae_governance_binding = rq_governance_binding request,
        ae_requested_at = rq_requested_at request, ae_expires_at = rq_expires_at request\<rparr>)]"

definition request_typed_approval :: "durable_env \<Rightarrow> approval_request \<Rightarrow> string run_op" where
  "request_typed_approval env request0 st =
     (let request = (if rq_governance_binding request0 = None
                     then request0\<lparr>rq_governance_binding := rs_governance_binding st\<rparr> else request0) in
      bindS (identS ''logical_key'' (rq_logical_key request)) (\<lambda>_.
      bindS (checkS (\<lambda>st.
        if is_blank (rq_prompt request) then Inl InvalidEvent
        else if rq_expires_at request \<le> rq_requested_at request then Inl InvalidEvent
        else if rs_policy_snapshot_hash st \<noteq> None \<and> rs_governance_binding st = None then Inl InvalidEvent
        else check_request_governance env st request)) (\<lambda>_.
      request_approval env (rq_logical_key request) (rq_activity_id request) (rq_prompt request)
        (approval_envelope_payload env request))) st)"

definition resolve_approval ::
  "durable_env \<Rightarrow> string \<Rightarrow> approval_resolution \<Rightarrow> nat option \<Rightarrow> bool \<Rightarrow> unit run_op"
where
  "resolve_approval env command_id resolution now_unix_ms timed_out =
     bindS (checkS (\<lambda>st. ok_or (bt_get (st_approvals st) (res_approval_id resolution))
              (ApprovalNotFound (res_approval_id resolution)))) (\<lambda>approval.
     bindS (checkS (\<lambda>_.
       if ap_status approval \<noteq> Pending then Inl (ApprovalAlreadyResolved (res_approval_id resolution))
       else validate_approval_resolution approval resolution now_unix_ms timed_out)) (\<lambda>_.
     bindS (emit env (event_id_of env [res_approval_id resolution, ''resolved'', command_id])
       (ApprovalResolved (res_approval_id resolution) (res_approved resolution)
          (case now_unix_ms of
             None \<Rightarrow> res_response resolution
           | Some now \<Rightarrow>
               if ap_expires_at approval \<noteq> None
               then Some (JObject [(DURABLE_RESOLUTION_ENVELOPE_KEY, ser_resolution_envelope env
                      \<lparr>re_schema_version = DURABILITY_SCHEMA_VERSION, re_resolved_at = now,
                       re_timed_out = timed_out, re_response = res_response resolution\<rparr>)])
               else res_response resolution))) (\<lambda>_.
       returnS ())))"

fun resolve_each ::
  "durable_env \<Rightarrow> string \<Rightarrow> nat option \<Rightarrow> bool \<Rightarrow> approval_resolution list \<Rightarrow> unit run_op"
where
  "resolve_each env command_id now_unix_ms timed_out [] = returnS ()"
| "resolve_each env command_id now_unix_ms timed_out (r # rs) =
     bindS (resolve_approval env command_id r now_unix_ms timed_out) (\<lambda>_.
       resolve_each env command_id now_unix_ms timed_out rs)"

definition expired_approval_ids :: "nat \<Rightarrow> run_state \<Rightarrow> string list" where
  "expired_approval_ids now st =
     map ap_approval_id (filter (\<lambda>a. ap_status a = Pending
         \<and> (case ap_expires_at a of None \<Rightarrow> False | Some expires_at \<Rightarrow> now \<ge> expires_at))
       (bt_values (st_approvals st)))"

definition timeout_resolution :: "string \<Rightarrow> approval_resolution" where
  "timeout_resolution approval_id =
     \<lparr>res_approval_id = approval_id, res_approved = False,
      res_response = Some (JObject [(''reason'', JString ''approval_timeout'')])\<rparr>"

definition expire_approvals :: "durable_env \<Rightarrow> string \<Rightarrow> nat \<Rightarrow> string list run_op" where
  "expire_approvals env expiration_id now st =
     (let expired_ids = expired_approval_ids now st in
      bindS (identS ''expiration_id'' expiration_id) (\<lambda>_.
      bindS (checkS ensure_active) (\<lambda>_.
      atomically
        (bindS (resolve_each env expiration_id (Some now) True (map timeout_resolution expired_ids)) (\<lambda>_.
           returnS expired_ids)))) st)"

subsection \<open>Artifacts, checkpoints, pause, termination\<close>

definition publish_artifact ::
  "durable_env \<Rightarrow> string \<Rightarrow> string \<Rightarrow> nat \<Rightarrow> string \<Rightarrow> string option \<Rightarrow> artifact_metadata run_op"
where
  "publish_artifact env artifact_id media_type size_bytes content_hash created_by st =
     (let prior = last_opt (artifact_versions st artifact_id);
          version = (case prior of None \<Rightarrow> 1 | Some m \<Rightarrow> saturating_add (am_version m) 1);
          version_id = stable_identifier env ''artifact_version''
            [rs_run_id st, st_branch st, artifact_id, show_nat version];
          metadata = \<lparr>am_artifact_id = artifact_id, am_version = version, am_version_id = version_id,
             am_branch_id = st_branch st, am_media_type = media_type, am_size_bytes = size_bytes,
             am_content_hash = content_hash, am_created_by_activity_id = created_by,
             am_previous_version_id = map_option am_version_id prior\<rparr>
      in bindS (identS ''artifact_id'' artifact_id) (\<lambda>_.
         bindS (checkS ensure_active) (\<lambda>_.
         bindS (checkS (\<lambda>st. case created_by of None \<Rightarrow> Inr ()
                  | Some a \<Rightarrow> bindR (activity st a) (\<lambda>_. Inr ()))) (\<lambda>_.
         bindS (emit env (event_id_of env [version_id, ''published'']) (ArtifactPublished metadata)) (\<lambda>_.
           returnS metadata)))) st)"

definition checkpoint_op :: "durable_env \<Rightarrow> string \<Rightarrow> string option \<Rightarrow> checkpoint run_op" where
  "checkpoint_op env checkpoint_key label st =
     (let checkpoint_id = stable_identifier env ''checkpoint'' [rs_run_id st, st_branch st, checkpoint_key] in
      bindS (identS ''checkpoint_key'' checkpoint_key) (\<lambda>_.
      bindS (checkS ensure_active) (\<lambda>_.
      bindS (checkS ensure_not_reconciling) (\<lambda>_.
      bindS (emit env (event_id_of env [checkpoint_id, ''committed''])
               (CheckpointCommitted checkpoint_id label)) (\<lambda>_ st'.
        case bt_get (rs_checkpoints st') checkpoint_id of
          None \<Rightarrow> (Inl Panicked, st')
        | Some cp \<Rightarrow> (Inr cp, st'))))) st)"

definition pause :: "durable_env \<Rightarrow> string \<Rightarrow> string \<Rightarrow> unit run_op" where
  "pause env pause_id reason st =
     bindS (identS ''pause_id'' pause_id) (\<lambda>_.
     bindS (checkS ensure_active) (\<lambda>_.
     bindS (checkS ensure_not_reconciling) (\<lambda>_.
     bindS (emit env (event_id_of env [rs_run_id st, ''pause'', pause_id]) (RunPaused reason)) (\<lambda>_.
       returnS ())))) st"

definition complete_run :: "durable_env \<Rightarrow> string \<Rightarrow> append_outcome run_op" where
  "complete_run env completion_id st =
     bindS (identS ''completion_id'' completion_id) (\<lambda>_.
     bindS (checkS ensure_active) (\<lambda>_.
     bindS (checkS (ensure_reserved_audit_lifecycle_closed env)) (\<lambda>_.
       emit env (event_id_of env [rs_run_id st, ''complete'', completion_id]) RunCompleted))) st"

definition fail_run :: "durable_env \<Rightarrow> string \<Rightarrow> string \<Rightarrow> append_outcome run_op" where
  "fail_run env failure_id error st =
     bindS (identS ''failure_id'' failure_id) (\<lambda>_.
     bindS (checkS ensure_active) (\<lambda>_.
     bindS (checkS (ensure_reserved_audit_lifecycle_closed env)) (\<lambda>_.
       emit env (event_id_of env [rs_run_id st, ''fail'', failure_id]) (RunFailed error)))) st"

subsection \<open>Commands\<close>

text \<open>The body of \<open>resume\<close> that works on the candidate.\<close>

definition resume_candidate ::
  "durable_env \<Rightarrow> string \<Rightarrow> string \<Rightarrow> approval_resolution list \<Rightarrow> nat option \<Rightarrow> command_outcome run_op"
where
  "resume_candidate env command_id event_id approvals now_unix_ms st =
     (let expired = (case now_unix_ms of None \<Rightarrow> [] | Some now \<Rightarrow> expired_approval_ids now st) in
      bindS (resolve_each env command_id now_unix_ms True (map timeout_resolution expired)) (\<lambda>_.
      bindS (resolve_each env command_id now_unix_ms False
               (filter (\<lambda>r. res_approval_id r \<notin> set expired) approvals)) (\<lambda>_.
      bindS (checkS (\<lambda>st. if pending_approval_ids (rs_projection st) \<noteq> []
               then Inl PendingApprovals else Inr ())) (\<lambda>_.
      bindS (emit env event_id RunResumed) (\<lambda>outcome.
        returnS (Resumed (append_sequence outcome)))))) st)"

definition typed_pending :: "run_state \<Rightarrow> string option" where
  "typed_pending st = map_option ap_approval_id
     (List.find (\<lambda>a. ap_status a = Pending \<and> ap_expires_at a \<noteq> None) (bt_values (st_approvals st)))"

definition resume ::
  "durable_env \<Rightarrow> string \<Rightarrow> approval_resolution list \<Rightarrow> nat option \<Rightarrow> command_outcome run_op"
where
  "resume env command_id approvals now_unix_ms st =
     bindS (identS ''command_id'' command_id) (\<lambda>_ st.
       let event_id = event_id_of env [rs_run_id st, ''resume'', command_id] in
       case event_by_id st event_id of
         Some event \<Rightarrow>
           if ev_kind event = RunResumed then (Inr (Resumed (ev_sequence event)), st)
           else (Inl (DuplicateEventConflict event_id), st)
       | None \<Rightarrow>
           if st_status st = RunReconcileRequired then (Inl RunRequiresReconciliation, st)
           else if st_status st \<noteq> RunPausedSt then (Inl NotPaused, st)
           else case (typed_pending st, now_unix_ms) of
             (Some approval_id, None) \<Rightarrow> (Inl (ApprovalClockRequired approval_id), st)
           | _ \<Rightarrow> atomically (resume_candidate env command_id event_id approvals now_unix_ms) st) st"

definition build_fork ::
  "durable_env \<Rightarrow> run_state \<Rightarrow> string \<Rightarrow> checkpoint \<Rightarrow> string \<Rightarrow> string \<Rightarrow> run_state dres"
where
  "build_fork env st new_run_id cp new_branch_id command_id =
     bindR (execR (emit env (event_id_of env [new_run_id, ''forked_from'', command_id])
              (ForkedFrom (rs_session_id st) (rs_run_id st) (rs_durability st) cp new_branch_id))
            (blank_state (rs_session_id st) new_run_id (rs_durability st)
              (fork_projection env cp new_run_id new_branch_id))) (\<lambda>forked.
       case rs_governance_binding st of
         Some b \<Rightarrow>
           bindR (map_err (\<lambda>_. InvalidEvent) (binding_for_run env b new_run_id)) (\<lambda>b'.
             execR (emit env (event_id_of env [new_run_id, ''governance_binding_pinned''])
                      (GovernanceBindingPinned b')) forked)
       | None \<Rightarrow>
           (case rs_policy_snapshot_hash st of
              Some h \<Rightarrow> execR (emit env (event_id_of env [new_run_id, ''policy_snapshot_pinned''])
                        (PolicySnapshotPinned h)) forked
            | None \<Rightarrow> Inr forked))"

text \<open>The checkpoint a fork or a rewind starts from, as seen by the current run.\<close>

definition source_checkpoint :: "durable_env \<Rightarrow> run_state \<Rightarrow> string \<Rightarrow> checkpoint dres" where
  "source_checkpoint env st checkpoint_id =
     bindR (checkpoint_by_id st checkpoint_id) (checkpoint_for_current_run env st)"

definition fork ::
  "durable_env \<Rightarrow> string \<Rightarrow> string \<Rightarrow> string \<Rightarrow> bool \<Rightarrow> command_outcome run_op"
where
  "fork env command_id new_run_id checkpoint_id reconciled st =
     bindS (identS ''command_id'' command_id) (\<lambda>_.
     bindS (identS ''new_run_id'' new_run_id) (\<lambda>_.
     bindS (checkS (\<lambda>st. if new_run_id = rs_run_id st then Inl InvalidEvent
              else source_checkpoint env st checkpoint_id)) (\<lambda>cp st.
       let new_branch_id = stable_identifier env ''branch'' [new_run_id, ''fork'', command_id];
           event_id = event_id_of env [rs_run_id st, ''fork'', command_id];
           kind = ForkCreated new_run_id checkpoint_id new_branch_id reconciled
       in case event_by_id st event_id of
            Some event \<Rightarrow>
              (case ev_kind event of
                 ForkCreated run' checkpoint' branch' reconciled' \<Rightarrow>
                   if run' = new_run_id \<and> checkpoint' = checkpoint_id \<and> reconciled' = reconciled
                   then (bindR (build_fork env st new_run_id cp branch' command_id) (\<lambda>f. Inr (Forked f)), st)
                   else (Inl (DuplicateEventConflict event_id), st)
               | _ \<Rightarrow> (Inl (DuplicateEventConflict event_id), st))
          | None \<Rightarrow>
              bindS (checkS (\<lambda>st. require_reconciled_after st (cp_event_sequence cp) reconciled)) (\<lambda>_.
                atomically (bindS (emit env event_id kind) (\<lambda>_.
                  bindS (checkS (\<lambda>c. build_fork env c new_run_id cp new_branch_id command_id)) (\<lambda>f.
                    returnS (Forked f))))) st))) st"

definition rewind :: "durable_env \<Rightarrow> string \<Rightarrow> string \<Rightarrow> bool \<Rightarrow> command_outcome run_op" where
  "rewind env command_id checkpoint_id reconciled st =
     bindS (identS ''command_id'' command_id) (\<lambda>_.
     bindS (checkS (\<lambda>st. source_checkpoint env st checkpoint_id)) (\<lambda>cp st.
       let new_branch_id = stable_identifier env ''branch''
             [rs_run_id st, ''rewind'', command_id, checkpoint_id];
           event_id = event_id_of env [rs_run_id st, ''rewind'', command_id]
       in case event_by_id st event_id of
            Some event \<Rightarrow>
              (case ev_kind event of
                 RunRewound checkpoint' _ reconciled' \<Rightarrow>
                   if checkpoint' = checkpoint_id \<and> reconciled' = reconciled
                   then (Inr (Rewound checkpoint_id (ev_sequence event)), st)
                   else (Inl (DuplicateEventConflict event_id), st)
               | _ \<Rightarrow> (Inl (DuplicateEventConflict event_id), st))
          | None \<Rightarrow>
              bindS (checkS (\<lambda>st. require_reconciled_after st (cp_event_sequence cp) reconciled)) (\<lambda>_.
              bindS (emit env event_id (RunRewound checkpoint_id new_branch_id reconciled)) (\<lambda>outcome.
                returnS (Rewound checkpoint_id (append_sequence outcome)))) st)) st"

definition cancel :: "durable_env \<Rightarrow> string \<Rightarrow> string option \<Rightarrow> command_outcome run_op" where
  "cancel env command_id reason st =
     bindS (identS ''command_id'' command_id) (\<lambda>_ st.
       let event_id = event_id_of env [rs_run_id st, ''cancel'', command_id] in
       case event_by_id st event_id of
         Some event \<Rightarrow>
           (case ev_kind event of
              RunCancelled reason' \<Rightarrow>
                if reason' = reason then (Inr (Cancelled (ev_sequence event)), st)
                else (Inl (DuplicateEventConflict event_id), st)
            | _ \<Rightarrow> (Inl (DuplicateEventConflict event_id), st))
       | None \<Rightarrow>
           bindS (checkS ensure_active) (\<lambda>_.
           bindS (checkS (ensure_reserved_audit_lifecycle_closed env)) (\<lambda>_.
           bindS (emit env event_id (RunCancelled reason)) (\<lambda>outcome.
             returnS (Cancelled (append_sequence outcome))))) st) st"

definition apply_command :: "durable_env \<Rightarrow> run_command \<Rightarrow> command_outcome run_op" where
  "apply_command env command =
     (case command of
        Resume command_id approvals \<Rightarrow> resume env command_id approvals None
      | Fork command_id new_run_id checkpoint_id reconciled \<Rightarrow>
          fork env command_id new_run_id checkpoint_id reconciled
      | Rewind command_id checkpoint_id reconciled \<Rightarrow> rewind env command_id checkpoint_id reconciled
      | Cancel command_id reason \<Rightarrow> cancel env command_id reason)"

definition apply_command_at :: "durable_env \<Rightarrow> run_command \<Rightarrow> nat \<Rightarrow> command_outcome run_op" where
  "apply_command_at env command now_unix_ms =
     (case command of
        Resume command_id approvals \<Rightarrow> resume env command_id approvals (Some now_unix_ms)
      | _ \<Rightarrow> apply_command env command)"

end
