(* ===== verification/DurFrame.thy ===== *)
theory DurFrame
  imports DurOps
begin

text \<open>
  What each event does to the state, as inversion facts for the projection functions of
  \<open>DurCore\<close>, collected in one case rule. Every later invariant is proved over this rule.
\<close>

named_theorems apply_inv \<open>inversion of the projection of one event\<close>

lemma map_projection_simps [simp]:
  "rs_schema_version (map_projection f st) = rs_schema_version st"
  "rs_session_id (map_projection f st) = rs_session_id st"
  "rs_run_id (map_projection f st) = rs_run_id st"
  "rs_durability (map_projection f st) = rs_durability st"
  "rs_parent_run_id (map_projection f st) = rs_parent_run_id st"
  "rs_policy_snapshot_hash (map_projection f st) = rs_policy_snapshot_hash st"
  "rs_governance_binding (map_projection f st) = rs_governance_binding st"
  "rs_events (map_projection f st) = rs_events st"
  "rs_checkpoints (map_projection f st) = rs_checkpoints st"
  "rs_projection (map_projection f st) = f (rs_projection st)"
  by (simp_all add: map_projection_def)

lemma set_status_simps [simp]:
  "rs_schema_version (set_status s r st) = rs_schema_version st"
  "rs_session_id (set_status s r st) = rs_session_id st"
  "rs_run_id (set_status s r st) = rs_run_id st"
  "rs_durability (set_status s r st) = rs_durability st"
  "rs_parent_run_id (set_status s r st) = rs_parent_run_id st"
  "rs_policy_snapshot_hash (set_status s r st) = rs_policy_snapshot_hash st"
  "rs_governance_binding (set_status s r st) = rs_governance_binding st"
  "rs_events (set_status s r st) = rs_events st"
  "rs_checkpoints (set_status s r st) = rs_checkpoints st"
  "rs_projection (set_status s r st) = (rs_projection st)\<lparr>pj_status := s, pj_pause_reason := r\<rparr>"
  by (simp_all add: set_status_def)

lemma ensure_active_Inr [result_simps]: "ensure_active st = Inr u \<longleftrightarrow> \<not> is_terminal (st_status st)"
  by (simp add: ensure_active_def)

lemma ensure_executing_Inr [result_simps]: "ensure_executing st = Inr u \<longleftrightarrow> st_status st = RunRunning"
  by (auto simp: ensure_executing_def ensure_active_def bindR_def split: sum.splits)

lemma activity_Inr [result_simps]: "activity st i = Inr r \<longleftrightarrow> bt_get (st_activities st) i = Some r"
  by (simp add: activity_def result_simps)

lemma find_attempt_Inr [result_simps]:
  "find_attempt i k st = Inr a \<longleftrightarrow>
     (\<exists>r. bt_get (st_activities st) i = Some r \<and> List.find (\<lambda>a. at_attempt a = k) (ar_attempts r) = Some a)"
  by (simp add: find_attempt_def result_simps)

lemma update_running_attempt_Inr [result_simps]:
  "update_running_attempt i k f st = Inr c \<longleftrightarrow>
     (\<exists>r a. bt_get (st_activities st) i = Some r
        \<and> List.find (\<lambda>a. at_attempt a = k) (ar_attempts r) = Some a
        \<and> at_status a = AtRunning \<and> c = update_attempt i k f st)"
  by (auto simp: update_running_attempt_def result_simps)

lemma push_attempt_simps [simp]:
  "rs_projection (push_attempt i a st) = (rs_projection st)\<lparr>pj_activities :=
     bt_modify i (\<lambda>r. r\<lparr>ar_attempts := ar_attempts r @ [a]\<rparr>) (st_activities st)\<rparr>"
  by (simp add: push_attempt_def)

lemma update_attempt_simps [simp]:
  "rs_projection (update_attempt i k f st) = (rs_projection st)\<lparr>pj_activities :=
     bt_modify i (\<lambda>r. r\<lparr>ar_attempts := update_first (\<lambda>a. at_attempt a = k) f (ar_attempts r)\<rparr>)
       (st_activities st)\<rparr>"
  by (simp add: update_attempt_def)

text \<open>Everything outside the projection.\<close>

definition outer_frame :: "run_state \<Rightarrow> run_state \<Rightarrow> bool" where
  "outer_frame st c \<longleftrightarrow> rs_schema_version c = rs_schema_version st
     \<and> rs_session_id c = rs_session_id st \<and> rs_run_id c = rs_run_id st
     \<and> rs_durability c = rs_durability st \<and> rs_parent_run_id c = rs_parent_run_id st
     \<and> rs_policy_snapshot_hash c = rs_policy_snapshot_hash st
     \<and> rs_governance_binding c = rs_governance_binding st
     \<and> rs_events c = rs_events st \<and> rs_checkpoints c = rs_checkpoints st"

lemma outer_frame_map [simp]: "outer_frame st (map_projection f st)"
  by (simp add: outer_frame_def)

lemma outer_frame_push [simp]: "outer_frame st (push_attempt i a st)"
  by (simp add: push_attempt_def)

lemma outer_frame_update [simp]: "outer_frame st (update_attempt i k f st)"
  by (simp add: update_attempt_def)

lemma outer_frame_set_status [simp]: "outer_frame st (set_status s r c) = outer_frame st c"
  by (simp add: outer_frame_def)

lemmas outer_frame_fields [simp] =
  outer_frame_push [unfolded outer_frame_def] outer_frame_update [unfolded outer_frame_def]

subsection \<open>Inversion, one fact per event kind\<close>

lemma apply_run_started_Inr [apply_inv]:
  assumes "apply_run_started env s d b st = Inr c"
  shows "s = rs_session_id st"
    and "c = st\<lparr>rs_durability := d, rs_projection := (projection_root env (rs_run_id st))\<lparr>pj_branch_id := b\<rparr>\<rparr>"
  using assms by (auto simp: apply_run_started_def split: if_splits)

lemma apply_forked_from_Inr [apply_inv]:
  assumes "apply_forked_from env s src d cp b st = Inr c"
  shows "s = rs_session_id st" and "validate_source_checkpoint env (rs_run_id st) src cp = Inr ()"
    and "c = st\<lparr>rs_parent_run_id := Some src, rs_durability := d,
               rs_projection := fork_projection env cp (rs_run_id st) b,
               rs_checkpoints := bt_insert (cp_checkpoint_id cp) cp (rs_checkpoints st)\<rparr>"
  using assms by (auto simp: apply_forked_from_def result_simps split: if_splits)

lemma apply_policy_snapshot_pinned_Inr [apply_inv]:
  assumes "apply_policy_snapshot_pinned h st = Inr c"
  shows "length (rs_events st) = 1" and "rs_policy_snapshot_hash st = None"
    and "rs_governance_binding st = None" and "validate_policy_hash h = Inr ()"
    and "c = st\<lparr>rs_policy_snapshot_hash := Some h\<rparr>"
  using assms by (auto simp: apply_policy_snapshot_pinned_def result_simps split: if_splits)

lemma apply_governance_binding_pinned_Inr [apply_inv]:
  assumes "apply_governance_binding_pinned env b st = Inr c"
  shows "length (rs_events st) = 1" and "rs_policy_snapshot_hash st = None"
    and "rs_governance_binding st = None" and "binding_validate env b = Inr ()"
    and "gb_run_id b = rs_run_id st"
    and "c = st\<lparr>rs_policy_snapshot_hash := Some (gb_policy_snapshot_hash b), rs_governance_binding := Some b\<rparr>"
  using assms by (auto simp: apply_governance_binding_pinned_def result_simps split: if_splits)

lemma apply_state_replaced_Inr [apply_inv]:
  assumes "apply_state_replaced s st = Inr c"
  shows "st_status st = RunRunning" and "c = map_projection (\<lambda>p. p\<lparr>pj_state := s\<rparr>) st"
  using assms by (auto simp: apply_state_replaced_def result_simps)

definition fresh_lease :: "string \<Rightarrow> string \<Rightarrow> nat \<Rightarrow> nat \<Rightarrow> worker_lease" where
  "fresh_lease owner_id lease_id claimed_at expires_at =
     \<lparr>wl_owner_id = owner_id, wl_lease_id = lease_id, wl_acquired_at = claimed_at,
      wl_heartbeat_at = claimed_at, wl_expires_at = expires_at\<rparr>"

lemma apply_lease_claimed_Inr [apply_inv]:
  assumes "apply_lease_claimed v w l t x st = Inr c"
  shows "validate_worker_lease_window t x = Inr ()"
    and "st_lease st = Some l0 \<Longrightarrow> wl_expires_at l0 \<le> t"
    and "c = map_projection (\<lambda>p. p\<lparr>pj_worker_lease := Some (fresh_lease w l t x)\<rparr>) st"
  using assms
  by (auto simp: apply_lease_claimed_def fresh_lease_def result_simps split: if_splits option.splits)

lemma apply_lease_renewed_Inr [apply_inv]:
  assumes "apply_lease_renewed v w l t x st = Inr c"
  shows "validate_worker_lease_window t x = Inr ()"
    and "\<exists>l0. st_lease st = Some l0 \<and> wl_owner_id l0 = w \<and> wl_lease_id l0 = l \<and> t < wl_expires_at l0
       \<and> wl_heartbeat_at l0 \<le> t \<and> wl_expires_at l0 < x
       \<and> c = map_projection (\<lambda>p. p\<lparr>pj_worker_lease :=
             Some (l0\<lparr>wl_heartbeat_at := t, wl_expires_at := x\<rparr>)\<rparr>) st"
  using assms
  by (auto simp: apply_lease_renewed_def result_simps not_le split: if_splits option.splits)

lemma apply_lease_released_Inr [apply_inv]:
  assumes "apply_lease_released v w l t st = Inr c"
  shows "\<exists>l0. st_lease st = Some l0 \<and> wl_owner_id l0 = w \<and> wl_lease_id l0 = l \<and> t < wl_expires_at l0
       \<and> wl_heartbeat_at l0 \<le> t"
    and "c = map_projection (\<lambda>p. p\<lparr>pj_worker_lease := None\<rparr>) st"
  using assms
  by (auto simp: apply_lease_released_def result_simps not_le split: if_splits option.splits)

lemma apply_activity_scheduled_Inr [apply_inv]:
  assumes "apply_activity_scheduled env v d st = Inr c"
  shows "st_status st = RunRunning" and "stable_input_hash env (ad_input d) = ad_input_hash d"
    and "ad_side_effect_class d = Idempotent \<Longrightarrow> \<not> key_missing (ad_idempotency_key d)"
    and "bt_get (st_activities st) (ad_activity_id d) = None"
    and "v < TERMINAL_ACTIVITY_INVARIANT_SCHEMA_VERSION \<Longrightarrow> validate_v1_schedule env d st = Inr ()"
    and "v \<ge> TERMINAL_ACTIVITY_INVARIANT_SCHEMA_VERSION \<Longrightarrow> validate_v2_schedule env d st = Inr ()"
    and "c = map_projection (\<lambda>p. p\<lparr>pj_activities :=
           bt_insert (ad_activity_id d) \<lparr>ar_definition = d, ar_attempts = []\<rparr> (pj_activities p)\<rparr>) st"
  using assms by (auto simp: apply_activity_scheduled_def bt_contains_key_def result_simps split: if_splits)

text \<open>The guard of a new attempt: none before it, or the last one failed, is retryable and
  safe to repeat.\<close>

definition may_start :: "activity_record \<Rightarrow> bool" where
  "may_start r = (case latest_attempt r of None \<Rightarrow> True
     | Some prev \<Rightarrow> at_status prev = AtFailed \<and> at_retryable prev
         \<and> retry_is_safe (ar_definition r) (at_effect_ambiguous prev))"

lemma apply_attempt_started_Inr [apply_inv]:
  assumes "apply_attempt_started env v n i k st = Inr c"
  shows "st_status st = RunRunning"
    and "\<exists>r. bt_get (st_activities st) i = Some r \<and> may_start r
         \<and> k = wrapping_add_u32 (as_u32 (length (ar_attempts r))) 1"
    and "v \<ge> TERMINAL_ACTIVITY_INVARIANT_SCHEMA_VERSION \<Longrightarrow> validate_v2_attempt_start env i st = Inr ()"
    and "c = push_attempt i (running_attempt k n) st"
  using assms
  by (auto simp: apply_attempt_started_def may_start_def result_simps split: if_splits option.splits)

text \<open>The running attempt an event closes.\<close>

definition runs_attempt :: "run_state \<Rightarrow> string \<Rightarrow> nat \<Rightarrow> bool" where
  "runs_attempt st i k = (\<exists>r a. bt_get (st_activities st) i = Some r
     \<and> List.find (\<lambda>a. at_attempt a = k) (ar_attempts r) = Some a \<and> at_status a = AtRunning)"

lemma apply_attempt_completed_Inr [apply_inv]:
  assumes "apply_attempt_completed env v n i k out h st = Inr c"
  shows "\<not> is_terminal (st_status st)" and "stable_input_hash env out = h" and "runs_attempt st i k"
    and "c = update_attempt i k (\<lambda>a. a\<lparr>at_status := AtCompleted, at_finished_sequence := Some n,
               at_output := Some out, at_output_hash := Some h\<rparr>) st"
  using assms by (auto simp: apply_attempt_completed_def runs_attempt_def result_simps split: if_splits)

lemma apply_attempt_failed_Inr [apply_inv]:
  assumes "apply_attempt_failed v n i k e r amb st = Inr c"
  shows "\<not> is_terminal (st_status st)" and "runs_attempt st i k"
    and "v \<ge> TERMINAL_ACTIVITY_INVARIANT_SCHEMA_VERSION \<Longrightarrow>
         bt_get (st_activities st) i = Some rec \<Longrightarrow> \<not> is_reserved_audit_activity rec"
    and "c = update_attempt i k (\<lambda>a. a\<lparr>at_status := AtFailed, at_finished_sequence := Some n,
               at_error := Some e, at_retryable := r, at_effect_ambiguous := amb\<rparr>) st"
  using assms by (auto simp: apply_attempt_failed_def runs_attempt_def result_simps split: if_splits)

lemma apply_attempt_cancelled_Inr [apply_inv]:
  assumes "apply_attempt_cancelled v n i k reason st = Inr c"
  shows "\<not> is_terminal (st_status st)" and "runs_attempt st i k"
    and "bt_get (st_activities st) i = Some rec \<Longrightarrow> \<not> is_reserved_audit_activity rec"
    and "c = update_attempt i k (\<lambda>a. a\<lparr>at_status := AtCancelled, at_finished_sequence := Some n,
               at_error := Some reason, at_retryable := False, at_effect_ambiguous := False\<rparr>) st"
  using assms by (auto simp: apply_attempt_cancelled_def runs_attempt_def result_simps split: if_splits)

definition quarantined_attempt :: "nat \<Rightarrow> nat \<Rightarrow> string \<Rightarrow> activity_attempt" where
  "quarantined_attempt k n reason =
     \<lparr>at_attempt = k, at_status = AtReconcileRequired, at_started_sequence = n,
      at_finished_sequence = Some n, at_output = None, at_output_hash = None,
      at_error = Some reason, at_retryable = False, at_effect_ambiguous = True\<rparr>"

definition mark_ambiguous :: "nat \<Rightarrow> string \<Rightarrow> activity_attempt \<Rightarrow> activity_attempt" where
  "mark_ambiguous n reason a = a\<lparr>at_status := AtReconcileRequired, at_finished_sequence := Some n,
     at_error := Some reason, at_effect_ambiguous := True\<rparr>"

text \<open>The activities after an accepted \<open>ActivityReconciliationRequired\<close>: the first attempt of an
  unstarted reserved record, or the mark on a running or failed attempt.\<close>

lemma apply_reconciliation_required_Inr [apply_inv]:
  assumes "apply_reconciliation_required v n i k reason st = Inr c"
  shows "\<exists>r c0. bt_get (st_activities st) i = Some r
     \<and> (ar_attempts r = [] \<and> k = 1 \<and> is_reserved_audit_activity r
          \<and> c0 = push_attempt i (quarantined_attempt 1 n reason) st
        \<or> (\<exists>a. List.find (\<lambda>a. at_attempt a = k) (ar_attempts r) = Some a
            \<and> (at_status a = AtRunning \<or> at_status a = AtFailed)
            \<and> c0 = update_attempt i k (mark_ambiguous n reason) st))
     \<and> (if terminal_legacy_migration v i k st then c = c0
        else \<not> is_terminal (st_status st) \<and> c = set_status RunReconcileRequired (Some reason) c0)"
  using assms
  by (auto simp: apply_reconciliation_required_def Let_def require_reconciliation_status_def
      quarantined_attempt_def mark_ambiguous_def[abs_def] result_simps split: if_splits)

text \<open>The attempt of a legacy marker that a terminal run may still attest.\<close>

definition attests_legacy :: "reconciliation \<Rightarrow> run_state \<Rightarrow> activity_record \<Rightarrow> bool" where
  "attests_legacy resolution st r \<longleftrightarrow> is_terminal (st_status st)
     \<and> ad_stable_step_id (ar_definition r) = RUNTIME_LEGACY_RUN_STOPPED_AUDIT_STEP_ID
     \<and> (\<exists>a. latest_attempt r = Some a \<and> at_status a \<noteq> AtCompleted)
     \<and> (\<exists>out. resolution = RecCompleted out)"

lemma apply_activity_reconciled_Inr [apply_inv]:
  assumes "apply_activity_reconciled env v n i k resolution st = Inr c"
  shows "\<exists>r a c0. bt_get (st_activities st) i = Some r
     \<and> List.find (\<lambda>a. at_attempt a = k) (ar_attempts r) = Some a
     \<and> (at_status a = AtReconcileRequired \<or> attests_legacy resolution st r)
     \<and> c0 = update_attempt i k (resolve_attempt env resolution n) st
     \<and> c = (if \<not> is_terminal (st_status st) \<and> \<not> has_reconciliation_pending c0
            then set_status RunPausedSt (Some reconciliation_completed_reason) c0 else c0)"
proof -
  from assms obtain r a where r: "bt_get (st_activities st) i = Some r"
    and a: "List.find (\<lambda>a. at_attempt a = k) (ar_attempts r) = Some a"
    and c: "c = (let c0 = update_attempt i k (resolve_attempt env resolution n) st in
        if \<not> is_terminal (st_status st) \<and> \<not> has_reconciliation_pending c0
        then set_status RunPausedSt (Some reconciliation_completed_reason) c0 else c0)"
    and s: "at_status a = AtReconcileRequired \<or> (is_terminal (st_status st)
        \<and> ad_stable_step_id (ar_definition r) = RUNTIME_LEGACY_RUN_STOPPED_AUDIT_STEP_ID
        \<and> (case latest_attempt r of None \<Rightarrow> False | Some a \<Rightarrow> at_status a \<noteq> AtCompleted)
        \<and> (case resolution of RecCompleted _ \<Rightarrow> True | _ \<Rightarrow> False))"
    unfolding apply_activity_reconciled_def Let_def bindR_Inr activity_Inr find_attempt_Inr
    by (auto split: if_split_asm)
  from s have "at_status a = AtReconcileRequired \<or> attests_legacy resolution st r"
    unfolding attests_legacy_def by (cases resolution) (auto split: option.splits)
  with r a c show ?thesis by (auto simp: Let_def)
qed

definition requested_approval ::
  "string \<Rightarrow> string \<Rightarrow> string option \<Rightarrow> string \<Rightarrow> nat \<Rightarrow> decoded_approval \<Rightarrow> durable_approval"
where
  "requested_approval i lk a prompt n d =
     \<lparr>ap_approval_id = i, ap_logical_key = lk, ap_activity_id = a, ap_kind = da_kind d,
      ap_prompt = prompt, ap_payload = da_payload d,
      ap_policy_snapshot_hash = da_policy_snapshot_hash d,
      ap_governance_binding = da_governance_binding d,
      ap_requested_at = da_requested_at d, ap_expires_at = da_expires_at d,
      ap_status = Pending, ap_response = None, ap_resolved_at = None,
      ap_timed_out = False, ap_requested_sequence = n, ap_resolved_sequence = None\<rparr>"

lemma apply_approval_requested_Inr [apply_inv]:
  assumes "apply_approval_requested env v n i lk a prompt payload st = Inr c"
  shows "\<not> is_terminal (st_status st)" and "st_status st \<noteq> RunReconcileRequired"
    and "bt_get (st_approvals st) i = None"
    and "\<exists>d. decode_approval_payload env payload v = Inr d
       \<and> da_policy_snapshot_hash d = rs_policy_snapshot_hash st
       \<and> da_governance_binding d = rs_governance_binding st
       \<and> c = set_status RunPausedSt (Some (approval_required_reason i))
           (map_projection (\<lambda>p. p\<lparr>pj_approvals :=
              bt_insert i (requested_approval i lk a prompt n d) (pj_approvals p)\<rparr>) st)"
  using assms
  by (auto simp: apply_approval_requested_def requested_approval_def bt_contains_key_def result_simps
      split: if_splits)

definition resolved_approval :: "bool \<Rightarrow> nat \<Rightarrow> decoded_resolution \<Rightarrow> durable_approval \<Rightarrow> durable_approval" where
  "resolved_approval approved n d a =
     a\<lparr>ap_status := (if approved then Approved else Rejected), ap_response := dr_response d,
       ap_resolved_at := dr_resolved_at d, ap_timed_out := dr_timed_out d,
       ap_resolved_sequence := Some n\<rparr>"

lemma apply_approval_resolved_Inr [apply_inv]:
  assumes "apply_approval_resolved env v n i approved response st = Inr c"
  shows "\<exists>a d. bt_get (st_approvals st) i = Some a \<and> ap_status a = Pending
     \<and> decode_resolution_payload env a approved response v = Inr d
     \<and> c = map_projection (\<lambda>p. p\<lparr>pj_approvals :=
         bt_modify i (resolved_approval approved n d) (pj_approvals p)\<rparr>) st"
  using assms
  by (auto simp: apply_approval_resolved_def resolved_approval_def[abs_def] result_simps
      split: if_splits option.splits)

definition expected_version :: "artifact_metadata list \<Rightarrow> nat" where
  "expected_version versions =
     (case last_opt versions of None \<Rightarrow> 1 | Some prior \<Rightarrow> wrapping_add_u64 (am_version prior) 1)"

lemma apply_artifact_published_Inr [apply_inv]:
  assumes "apply_artifact_published m st = Inr c"
  shows "\<not> is_terminal (st_status st)"
    and "am_version m = expected_version (artifact_versions st (am_artifact_id m))"
    and "am_previous_version_id m = map_option am_version_id (last_opt (artifact_versions st (am_artifact_id m)))"
    and "c = map_projection (\<lambda>p. p\<lparr>pj_artifacts := bt_insert (am_artifact_id m)
           (artifact_versions st (am_artifact_id m) @ [m]) (pj_artifacts p)\<rparr>) st"
  using assms
  by (auto simp: apply_artifact_published_def expected_version_def Let_def result_simps split: if_splits)

definition new_checkpoint :: "nat \<Rightarrow> string \<Rightarrow> string option \<Rightarrow> run_state \<Rightarrow> checkpoint" where
  "new_checkpoint n i label st =
     \<lparr>cp_checkpoint_id = i, cp_run_id = rs_run_id st, cp_event_sequence = n,
      cp_parent_checkpoint_id = pj_current_checkpoint_id (rs_projection st),
      cp_label = label, cp_projection = rs_projection st\<rparr>"

lemma apply_checkpoint_committed_Inr [apply_inv]:
  assumes "apply_checkpoint_committed n i label st = Inr c"
  shows "\<not> is_terminal (st_status st)" and "bt_get (rs_checkpoints st) i = None"
    and "c = map_projection (\<lambda>p. p\<lparr>pj_current_checkpoint_id := Some i\<rparr>)
           (st\<lparr>rs_checkpoints := bt_insert i (new_checkpoint n i label st) (rs_checkpoints st)\<rparr>)"
  using assms
  by (auto simp: apply_checkpoint_committed_def new_checkpoint_def bt_contains_key_def result_simps
      split: if_splits)

lemma apply_run_paused_Inr [apply_inv]:
  assumes "apply_run_paused reason st = Inr c"
  shows "\<not> is_terminal (st_status st)" and "st_status st \<noteq> RunReconcileRequired"
    and "c = set_status RunPausedSt (Some reason) st"
  using assms by (auto simp: apply_run_paused_def result_simps split: if_splits)

lemma apply_run_resumed_Inr [apply_inv]:
  assumes "apply_run_resumed st = Inr c"
  shows "st_status st = RunPausedSt" and "pending_approval_ids (rs_projection st) = []"
    and "\<not> has_reconciliation_pending st" and "c = set_status RunRunning None st"
  using assms by (auto simp: apply_run_resumed_def split: if_splits)

lemma apply_fork_created_Inr [apply_inv]:
  assumes "apply_fork_created env r i ack st = Inr c"
  shows "\<not> is_terminal (st_status st)" and "c = st"
    and "\<exists>cp. source_checkpoint env st i = Inr cp
         \<and> require_reconciled_after st (cp_event_sequence cp) ack = Inr ()"
  using assms by (auto simp: apply_fork_created_def source_checkpoint_def result_simps)

lemma apply_run_rewound_Inr [apply_inv]:
  assumes "apply_run_rewound env i b ack st = Inr c"
  shows "\<not> is_terminal (st_status st)"
    and "\<exists>cp. source_checkpoint env st i = Inr cp
         \<and> require_reconciled_after st (cp_event_sequence cp) ack = Inr ()
         \<and> c = set_status RunPausedSt (Some (rewound_reason i))
             (st\<lparr>rs_projection := fork_projection env cp (rs_run_id st) b\<rparr>)"
  using assms by (auto simp: apply_run_rewound_def source_checkpoint_def result_simps)

lemma ensure_no_running_Inr [result_simps]:
  "ensure_no_running_activities st = Inr u \<longleftrightarrow> (\<forall>r \<in> set (bt_values (st_activities st)). \<not> has_running_attempt r)"
  by (auto simp: ensure_no_running_activities_def filter_empty_conv split: if_splits)

lemma ensure_reserved_closed_Inr [result_simps]:
  "ensure_reserved_audit_lifecycle_closed env st = Inr u \<longleftrightarrow>
     (\<forall>r \<in> set (bt_values (st_activities st)). \<not> reserved_open env (st_activities st) r)"
  by (auto simp: ensure_reserved_audit_lifecycle_closed_def list_ex_iff split: if_splits)

text \<open>What a run that ends under the terminal invariant (version 2 and later) has closed.\<close>

definition all_closed :: "durable_env \<Rightarrow> run_state \<Rightarrow> bool" where
  "all_closed env st \<longleftrightarrow>
     (\<forall>r \<in> set (bt_values (st_activities st)).
        \<not> has_running_attempt r \<and> \<not> reserved_open env (st_activities st) r)"

lemma apply_run_completed_Inr [apply_inv]:
  assumes "apply_run_completed env v st = Inr c"
  shows "\<not> is_terminal (st_status st)" and "pending_approval_ids (rs_projection st) = []"
    and "\<not> has_reconciliation_pending st"
    and "v \<ge> TERMINAL_ACTIVITY_INVARIANT_SCHEMA_VERSION \<Longrightarrow> all_closed env st"
    and "c = set_status RunCompletedSt None st"
  using assms by (auto simp: apply_run_completed_def all_closed_def result_simps split: if_splits)

lemma apply_run_ended_Inr [apply_inv]:
  assumes "apply_run_ended env v s reason st = Inr c"
  shows "\<not> is_terminal (st_status st)"
    and "v \<ge> TERMINAL_ACTIVITY_INVARIANT_SCHEMA_VERSION \<Longrightarrow> all_closed env st"
    and "c = set_status s reason st"
  using assms by (auto simp: apply_run_ended_def all_closed_def result_simps split: if_splits)

subsection \<open>The attempt state machine\<close>

text \<open>The lifecycle of one attempt, as the abstract machine that every accepted event follows:
  the event of sequence number \<open>n\<close> takes attempt \<open>a\<close> to attempt \<open>a'\<close>. The flag says whether the
  run may attest a legacy marker.\<close>

inductive attempt_step :: "durable_env \<Rightarrow> bool \<Rightarrow> nat \<Rightarrow> activity_attempt \<Rightarrow> activity_attempt \<Rightarrow> bool"
  for env attests n
where
  complete: "at_status a = AtRunning \<Longrightarrow> attempt_step env attests n a
     (a\<lparr>at_status := AtCompleted, at_finished_sequence := Some n, at_output := Some out,
        at_output_hash := Some (stable_input_hash env out)\<rparr>)"
| fail: "at_status a = AtRunning \<Longrightarrow> attempt_step env attests n a
     (a\<lparr>at_status := AtFailed, at_finished_sequence := Some n, at_error := Some e,
        at_retryable := r, at_effect_ambiguous := amb\<rparr>)"
| cancel: "at_status a = AtRunning \<Longrightarrow> attempt_step env attests n a
     (a\<lparr>at_status := AtCancelled, at_finished_sequence := Some n, at_error := Some reason,
        at_retryable := False, at_effect_ambiguous := False\<rparr>)"
| quarantine: "at_status a = AtRunning \<or> at_status a = AtFailed \<Longrightarrow>
     attempt_step env attests n a (mark_ambiguous n reason a)"
| reconcile: "at_status a = AtReconcileRequired \<Longrightarrow>
     attempt_step env attests n a (resolve_attempt env resolution n a)"
| attest: "attests \<Longrightarrow> attempt_step env attests n a (resolve_attempt env (RecCompleted out) n a)"

inductive_cases attempt_stepE [consumes 1, case_names complete fail cancel quarantine reconcile attest]:
  "attempt_step env attests n a a'"

lemma attempt_step_number: "attempt_step env w n a a' \<Longrightarrow> at_attempt a' = at_attempt a"
  by (induction rule: attempt_step.induct)
    (simp_all add: mark_ambiguous_def resolve_attempt_def split: reconciliation.split)

lemma attempt_step_not_running: "attempt_step env w n a a' \<Longrightarrow> at_status a' \<noteq> AtRunning"
  by (induction rule: attempt_step.induct)
    (simp_all add: mark_ambiguous_def resolve_attempt_def split: reconciliation.split)

lemma attempt_step_payload:
  "attempt_step env w n a a' \<Longrightarrow> attempt_payload_ok env a \<Longrightarrow> attempt_payload_ok env a'"
  by (induction rule: attempt_step.induct)
    (auto simp: attempt_payload_ok_def Let_def mark_ambiguous_def resolve_attempt_def
      split: reconciliation.splits attempt_status.splits option.splits)

text \<open>A completed or cancelled attempt is final, unless a legacy marker is attested.\<close>

lemma attempt_step_final:
  "attempt_step env False n a a' \<Longrightarrow> at_status a \<noteq> AtCompleted \<and> at_status a \<noteq> AtCancelled"
  by (erule attempt_stepE) auto

lemma running_attempt_payload [simp]: "attempt_payload_ok env (running_attempt k n)"
  by (simp add: attempt_payload_ok_def running_attempt_def)

lemma quarantined_attempt_payload [simp]: "attempt_payload_ok env (quarantined_attempt k n reason)"
  by (simp add: attempt_payload_ok_def quarantined_attempt_def)

subsection \<open>Field-wise effect of an accepted event\<close>

abbreviation push :: "activity_attempt \<Rightarrow> activity_record \<Rightarrow> activity_record" where
  "push a r \<equiv> r\<lparr>ar_attempts := ar_attempts r @ [a]\<rparr>"

abbreviation step_attempt :: "nat \<Rightarrow> (activity_attempt \<Rightarrow> activity_attempt) \<Rightarrow> activity_record \<Rightarrow> activity_record" where
  "step_attempt k f r \<equiv> r\<lparr>ar_attempts := update_first (\<lambda>a. at_attempt a = k) f (ar_attempts r)\<rparr>"

text \<open>The facts that settle the event kinds a field-wise rule does not mention.\<close>

lemmas apply_results =
  apply_policy_snapshot_pinned_Inr(5) apply_governance_binding_pinned_Inr(6)
  apply_state_replaced_Inr(2) apply_lease_claimed_Inr(3) apply_lease_renewed_Inr(2)
  apply_lease_released_Inr(2) apply_activity_scheduled_Inr(7) apply_attempt_started_Inr(4)
  apply_attempt_completed_Inr(4) apply_attempt_failed_Inr(4) apply_attempt_cancelled_Inr(4)
  apply_approval_requested_Inr(4) apply_approval_resolved_Inr
  apply_artifact_published_Inr(4) apply_checkpoint_committed_Inr(3) apply_run_paused_Inr(3)
  apply_run_resumed_Inr(4) apply_fork_created_Inr(2) apply_run_rewound_Inr(2)
  apply_run_completed_Inr(5) apply_run_ended_Inr(3)

lemmas apply_dispatch = apply_later_event_def apply_run_failed_def apply_run_cancelled_def Let_def

lemma activities_step:
  assumes "apply_later_event env ev st = Inr c"
  obtains
    (same) "st_activities c = st_activities st"
  | (scheduled) d where "ev_kind ev = ActivityScheduled d" and "st_status st = RunRunning"
      and "bt_get (st_activities st) (ad_activity_id d) = None"
      and "stable_input_hash env (ad_input d) = ad_input_hash d"
      and "ad_side_effect_class d = Idempotent \<Longrightarrow> \<not> key_missing (ad_idempotency_key d)"
      and "st_activities c = bt_insert (ad_activity_id d) \<lparr>ar_definition = d, ar_attempts = []\<rparr> (st_activities st)"
  | (started) i r where "ev_kind ev = ActivityAttemptStarted i (wrapping_add_u32 (as_u32 (length (ar_attempts r))) 1)"
      and "st_status st = RunRunning" and "bt_get (st_activities st) i = Some r" and "may_start r"
      and "st_activities c = bt_modify i (push (running_attempt
             (wrapping_add_u32 (as_u32 (length (ar_attempts r))) 1) (ev_sequence ev))) (st_activities st)"
  | (orphaned) i r reason where "ev_kind ev = ActivityReconciliationRequired i 1 reason"
      and "bt_get (st_activities st) i = Some r" and "ar_attempts r = []" and "is_reserved_audit_activity r"
      and "st_status c = RunReconcileRequired \<or> is_terminal (st_status c)"
      and "st_activities c = bt_modify i (push (quarantined_attempt 1 (ev_sequence ev) reason)) (st_activities st)"
  | (stepped) i k r a f w where "bt_get (st_activities st) i = Some r"
      and "List.find (\<lambda>a. at_attempt a = k) (ar_attempts r) = Some a"
      and "\<And>a. at_attempt a = k \<Longrightarrow> at_attempt (f a) = k"
      and "attempt_step env w (ev_sequence ev) a (f a)"
      and "w \<Longrightarrow> is_terminal (st_status st)
             \<and> ad_stable_step_id (ar_definition r) = RUNTIME_LEGACY_RUN_STOPPED_AUDIT_STEP_ID"
      and "at_status (f a) = AtReconcileRequired \<Longrightarrow> st_status c = RunReconcileRequired \<or> is_terminal (st_status c)"
      and "st_activities c = bt_modify i (step_attempt k f) (st_activities st)"
  | (rewound) i b ack cp where "ev_kind ev = RunRewound i b ack" and "source_checkpoint env st i = Inr cp"
      and "\<not> is_terminal (st_status st)"
      and "st_activities c = pj_activities (fork_projection env cp (rs_run_id st) b)"
proof -
  show thesis
  proof (cases "ev_kind ev")
  case (ActivityScheduled d)
  with assms have "apply_activity_scheduled env (ev_schema_version ev) d st = Inr c"
    by (simp add: apply_later_event_def)
  from apply_activity_scheduled_Inr [OF this] ActivityScheduled show ?thesis
    by (intro scheduled) auto
next
  case (ActivityAttemptStarted i k)
  with assms have "apply_attempt_started env (ev_schema_version ev) (ev_sequence ev) i k st = Inr c"
    by (simp add: apply_later_event_def)
  from apply_attempt_started_Inr [OF this] ActivityAttemptStarted show ?thesis
    by (auto intro: started)
next
  case (ActivityAttemptCompleted i k out h)
  with assms have "apply_attempt_completed env (ev_schema_version ev) (ev_sequence ev) i k out h st = Inr c"
    by (simp add: apply_later_event_def)
  from apply_attempt_completed_Inr [OF this] show ?thesis
    by (auto simp: runs_attempt_def intro!: attempt_step.complete
        stepped [where w = False and i = i and k = k and f = "\<lambda>a. a\<lparr>at_status := AtCompleted,
          at_finished_sequence := Some (ev_sequence ev), at_output := Some out, at_output_hash := Some h\<rparr>"])
next
  case (ActivityAttemptFailed i k e r amb)
  with assms have "apply_attempt_failed (ev_schema_version ev) (ev_sequence ev) i k e r amb st = Inr c"
    by (simp add: apply_later_event_def)
  from apply_attempt_failed_Inr [OF this] show ?thesis
    by (auto simp: runs_attempt_def intro!: attempt_step.fail
        stepped [where w = False and i = i and k = k and f = "\<lambda>a. a\<lparr>at_status := AtFailed,
          at_finished_sequence := Some (ev_sequence ev), at_error := Some e, at_retryable := r,
          at_effect_ambiguous := amb\<rparr>"])
next
  case (ActivityAttemptCancelled i k reason)
  with assms have "apply_attempt_cancelled (ev_schema_version ev) (ev_sequence ev) i k reason st = Inr c"
    by (simp add: apply_later_event_def)
  from apply_attempt_cancelled_Inr [OF this] show ?thesis
    by (auto simp: runs_attempt_def intro!: attempt_step.cancel
        stepped [where w = False and i = i and k = k and f = "\<lambda>a. a\<lparr>at_status := AtCancelled,
          at_finished_sequence := Some (ev_sequence ev), at_error := Some reason, at_retryable := False,
          at_effect_ambiguous := False\<rparr>"])
next
  case (ActivityReconciliationRequired i k reason)
  with assms have "apply_reconciliation_required (ev_schema_version ev) (ev_sequence ev) i k reason st = Inr c"
    by (simp add: apply_later_event_def)
  from apply_reconciliation_required_Inr [OF this] obtain r c0
    where r: "bt_get (st_activities st) i = Some r"
      and d: "(ar_attempts r = [] \<and> k = 1 \<and> is_reserved_audit_activity r
          \<and> c0 = push_attempt i (quarantined_attempt 1 (ev_sequence ev) reason) st)
        \<or> (\<exists>a. List.find (\<lambda>a. at_attempt a = k) (ar_attempts r) = Some a
            \<and> (at_status a = AtRunning \<or> at_status a = AtFailed)
            \<and> c0 = update_attempt i k (mark_ambiguous (ev_sequence ev) reason) st)"
      and e: "if terminal_legacy_migration (ev_schema_version ev) i k st then c = c0
        else \<not> is_terminal (st_status st) \<and> c = set_status RunReconcileRequired (Some reason) c0"
    by blast
  from e have c: "st_activities c = st_activities c0" by (simp split: if_splits)
  from e d have z: "st_status c = RunReconcileRequired \<or> is_terminal (st_status c)"
    by (auto simp: terminal_legacy_migration_def split: if_splits)
  from d show ?thesis
  proof
    assume "ar_attempts r = [] \<and> k = 1 \<and> is_reserved_audit_activity r
      \<and> c0 = push_attempt i (quarantined_attempt 1 (ev_sequence ev) reason) st"
    with r c z ActivityReconciliationRequired show ?thesis by (intro orphaned) auto
  next
    assume "\<exists>a. List.find (\<lambda>a. at_attempt a = k) (ar_attempts r) = Some a
      \<and> (at_status a = AtRunning \<or> at_status a = AtFailed)
      \<and> c0 = update_attempt i k (mark_ambiguous (ev_sequence ev) reason) st"
    with r c z show ?thesis
      by (auto intro!: attempt_step.quarantine
          stepped [where w = False and i = i and k = k and f = "mark_ambiguous (ev_sequence ev) reason"]
          simp: mark_ambiguous_def)
  qed
next
  case (ActivityReconciled i k resolution)
  with assms have "apply_activity_reconciled env (ev_schema_version ev) (ev_sequence ev) i k resolution st = Inr c"
    by (simp add: apply_later_event_def)
  from apply_activity_reconciled_Inr [OF this] obtain r a
    where r: "bt_get (st_activities st) i = Some r"
      and a: "List.find (\<lambda>a. at_attempt a = k) (ar_attempts r) = Some a"
      and s: "at_status a = AtReconcileRequired \<or> attests_legacy resolution st r"
      and e: "c = (let c0 = update_attempt i k (resolve_attempt env resolution (ev_sequence ev)) st in
          if \<not> is_terminal (st_status st) \<and> \<not> has_reconciliation_pending c0
          then set_status RunPausedSt (Some reconciliation_completed_reason) c0 else c0)"
    by (auto simp: Let_def)
  from e have c: "st_activities c = bt_modify i
      (step_attempt k (resolve_attempt env resolution (ev_sequence ev))) (st_activities st)"
    by (simp add: Let_def)
  have keeps: "at_attempt (resolve_attempt env resolution (ev_sequence ev) x) = at_attempt x"
    "at_status (resolve_attempt env resolution (ev_sequence ev) x) \<noteq> AtReconcileRequired" for x
    by (simp_all add: resolve_attempt_def split: reconciliation.split)
  from s show ?thesis
  proof
    assume "at_status a = AtReconcileRequired"
    with r a c keeps show ?thesis by (intro stepped [where w = False and i = i and k = k
          and f = "resolve_attempt env resolution (ev_sequence ev)"]) (auto intro: attempt_step.reconcile)
  next
    assume "attests_legacy resolution st r"
    with r a c keeps show ?thesis
      by (intro stepped [where w = True and i = i and k = k
          and f = "resolve_attempt env resolution (ev_sequence ev)"])
        (auto simp: attests_legacy_def intro: attempt_step.attest)
  qed
next
  case (RunRewound i b ack)
  with assms have "apply_run_rewound env i b ack st = Inr c" by (simp add: apply_later_event_def)
  from apply_run_rewound_Inr [OF this] RunRewound show ?thesis by (auto intro: rewound)
  qed ((rule same; insert assms(1); auto simp: apply_dispatch dest!: apply_results)+)
qed

text \<open>Everything in the projection but the activities, the status and its reason.\<close>

definition activity_frame :: "run_projection \<Rightarrow> run_projection \<Rightarrow> bool" where
  "activity_frame p q \<longleftrightarrow> pj_branch_id q = pj_branch_id p \<and> pj_state q = pj_state p
     \<and> pj_approvals q = pj_approvals p \<and> pj_artifacts q = pj_artifacts p
     \<and> pj_current_checkpoint_id q = pj_current_checkpoint_id p \<and> pj_worker_lease q = pj_worker_lease p"

lemma apply_reconciliation_required_outer:
  assumes "apply_reconciliation_required v n i k reason st = Inr c"
  shows "outer_frame st c" and "activity_frame (rs_projection st) (rs_projection c)"
proof -
  from apply_reconciliation_required_Inr [OF assms]
  show "outer_frame st c" by (elim exE conjE disjE) (simp_all split: if_splits)
  from apply_reconciliation_required_Inr [OF assms]
  show "activity_frame (rs_projection st) (rs_projection c)"
    by (elim exE conjE disjE) (simp_all add: activity_frame_def split: if_splits)
qed

lemma apply_activity_reconciled_outer:
  assumes "apply_activity_reconciled env v n i k resolution st = Inr c"
  shows "outer_frame st c" and "activity_frame (rs_projection st) (rs_projection c)"
proof -
  from apply_activity_reconciled_Inr [OF assms]
  show "outer_frame st c" by (elim exE conjE disjE) (simp_all split: if_splits)
  from apply_activity_reconciled_Inr [OF assms]
  show "activity_frame (rs_projection st) (rs_projection c)"
    by (elim exE conjE disjE) (simp_all add: activity_frame_def split: if_splits)
qed

lemma identity_step:
  assumes "apply_later_event env ev st = Inr c"
  shows "rs_schema_version c = rs_schema_version st" and "rs_session_id c = rs_session_id st"
    and "rs_run_id c = rs_run_id st" and "rs_durability c = rs_durability st"
    and "rs_parent_run_id c = rs_parent_run_id st" and "rs_events c = rs_events st"
proof -
  have "rs_schema_version c = rs_schema_version st \<and> rs_session_id c = rs_session_id st
    \<and> rs_run_id c = rs_run_id st \<and> rs_durability c = rs_durability st
    \<and> rs_parent_run_id c = rs_parent_run_id st \<and> rs_events c = rs_events st"
    using assms
    by (cases "ev_kind ev"; auto simp: apply_dispatch outer_frame_def dest!: apply_results
      apply_reconciliation_required_outer(1) apply_activity_reconciled_outer(1))
  then show "rs_schema_version c = rs_schema_version st" "rs_session_id c = rs_session_id st"
    "rs_run_id c = rs_run_id st" "rs_durability c = rs_durability st"
    "rs_parent_run_id c = rs_parent_run_id st" "rs_events c = rs_events st" by simp_all
qed

text \<open>The policy identity is written only by a pin, on a run whose log holds one event.\<close>

lemma policy_step:
  assumes "apply_later_event env ev st = Inr c"
  obtains (same) "rs_policy_snapshot_hash c = rs_policy_snapshot_hash st"
      "rs_governance_binding c = rs_governance_binding st"
  | (hash) h where "ev_kind ev = PolicySnapshotPinned h" "length (rs_events st) = 1"
      "rs_policy_snapshot_hash st = None" "rs_governance_binding st = None"
      "validate_policy_hash h = Inr ()"
      "rs_policy_snapshot_hash c = Some h" "rs_governance_binding c = None"
  | (binding) b where "ev_kind ev = GovernanceBindingPinned b" "length (rs_events st) = 1"
      "rs_policy_snapshot_hash st = None" "rs_governance_binding st = None"
      "binding_validate env b = Inr ()" "gb_run_id b = rs_run_id st"
      "rs_policy_snapshot_hash c = Some (gb_policy_snapshot_hash b)" "rs_governance_binding c = Some b"
proof -
  show thesis
  proof (cases "ev_kind ev")
  case (PolicySnapshotPinned h)
  with assms have "apply_policy_snapshot_pinned h st = Inr c" by (simp add: apply_dispatch)
  from apply_policy_snapshot_pinned_Inr [OF this] PolicySnapshotPinned show ?thesis
    by (intro hash) auto
next
  case (GovernanceBindingPinned b)
  with assms have "apply_governance_binding_pinned env b st = Inr c" by (simp add: apply_dispatch)
  from apply_governance_binding_pinned_Inr [OF this] GovernanceBindingPinned show ?thesis
    by (intro binding) auto
  qed ((rule same; insert assms(1); auto simp: apply_dispatch outer_frame_def dest!: apply_results
      apply_reconciliation_required_outer(1) apply_activity_reconciled_outer(1))+)
qed

lemma checkpoints_step:
  assumes "apply_later_event env ev st = Inr c"
  obtains (same) "rs_checkpoints c = rs_checkpoints st" "\<And>i l. ev_kind ev \<noteq> CheckpointCommitted i l"
  | (committed) i label where "ev_kind ev = CheckpointCommitted i label"
      "\<not> is_terminal (st_status st)" "bt_get (rs_checkpoints st) i = None"
      "rs_checkpoints c = bt_insert i (new_checkpoint (ev_sequence ev) i label st) (rs_checkpoints st)"
proof -
  show thesis
  proof (cases "ev_kind ev")
  case (CheckpointCommitted i label)
  with assms have "apply_checkpoint_committed (ev_sequence ev) i label st = Inr c" by (simp add: apply_dispatch)
  from apply_checkpoint_committed_Inr [OF this] CheckpointCommitted show ?thesis
    by (intro committed) auto
  qed ((rule same; insert assms(1); auto simp: apply_dispatch outer_frame_def dest!: apply_results
      apply_reconciliation_required_outer(1) apply_activity_reconciled_outer(1))+)
qed

lemma artifacts_step:
  assumes "apply_later_event env ev st = Inr c"
  obtains (same) "pj_artifacts (rs_projection c) = pj_artifacts (rs_projection st)"
  | (published) m where "ev_kind ev = ArtifactPublished m" "\<not> is_terminal (st_status st)"
      "am_version m = expected_version (artifact_versions st (am_artifact_id m))"
      "am_previous_version_id m = map_option am_version_id (last_opt (artifact_versions st (am_artifact_id m)))"
      "pj_artifacts (rs_projection c) = bt_insert (am_artifact_id m)
         (artifact_versions st (am_artifact_id m) @ [m]) (pj_artifacts (rs_projection st))"
  | (rewound) i b ack cp where "ev_kind ev = RunRewound i b ack" "source_checkpoint env st i = Inr cp"
      "pj_artifacts (rs_projection c) = pj_artifacts (fork_projection env cp (rs_run_id st) b)"
proof -
  show thesis
  proof (cases "ev_kind ev")
  case (ArtifactPublished m)
  with assms have "apply_artifact_published m st = Inr c" by (simp add: apply_dispatch)
  from apply_artifact_published_Inr [OF this] ArtifactPublished show ?thesis
    by (intro published) auto
next
  case (RunRewound i b ack)
  with assms have "apply_run_rewound env i b ack st = Inr c" by (simp add: apply_dispatch)
  from apply_run_rewound_Inr [OF this] RunRewound show ?thesis by (auto intro: rewound)
  qed ((rule same; insert assms(1); auto simp: apply_dispatch activity_frame_def dest!: apply_results
      apply_reconciliation_required_outer(2) apply_activity_reconciled_outer(2))+)
qed

lemma approvals_step:
  assumes "apply_later_event env ev st = Inr c"
  obtains (same) "st_approvals c = st_approvals st"
  | (requested) i lk a prompt payload d where "ev_kind ev = ApprovalRequested i lk a prompt payload"
      "\<not> is_terminal (st_status st)" "st_status st \<noteq> RunReconcileRequired"
      "bt_get (st_approvals st) i = None"
      "decode_approval_payload env payload (ev_schema_version ev) = Inr d"
      "da_policy_snapshot_hash d = rs_policy_snapshot_hash st"
      "da_governance_binding d = rs_governance_binding st"
      "st_status c = RunPausedSt"
      "st_approvals c = bt_insert i (requested_approval i lk a prompt (ev_sequence ev) d) (st_approvals st)"
  | (resolved) i approved response a d where "ev_kind ev = ApprovalResolved i approved response"
      "bt_get (st_approvals st) i = Some a" "ap_status a = Pending"
      "decode_resolution_payload env a approved response (ev_schema_version ev) = Inr d"
      "st_status c = st_status st"
      "st_approvals c = bt_modify i (resolved_approval approved (ev_sequence ev) d) (st_approvals st)"
  | (rewound) i b ack cp where "ev_kind ev = RunRewound i b ack" "source_checkpoint env st i = Inr cp"
      "st_status c = RunPausedSt"
      "st_approvals c = pj_approvals (fork_projection env cp (rs_run_id st) b)"
proof -
  show thesis
  proof (cases "ev_kind ev")
  case (ApprovalRequested i lk a prompt payload)
  with assms have "apply_approval_requested env (ev_schema_version ev) (ev_sequence ev) i lk a prompt payload st = Inr c"
    by (simp add: apply_dispatch)
  from apply_approval_requested_Inr [OF this] ApprovalRequested show ?thesis
    by (auto intro: requested)
next
  case (ApprovalResolved i approved response)
  with assms have "apply_approval_resolved env (ev_schema_version ev) (ev_sequence ev) i approved response st = Inr c"
    by (simp add: apply_dispatch)
  from apply_approval_resolved_Inr [OF this] ApprovalResolved show ?thesis
    by (auto intro: resolved)
next
  case (RunRewound i b ack)
  with assms have "apply_run_rewound env i b ack st = Inr c" by (simp add: apply_dispatch)
  from apply_run_rewound_Inr [OF this] RunRewound show ?thesis by (auto intro: rewound)
  qed ((rule same; insert assms(1); auto simp: apply_dispatch activity_frame_def dest!: apply_results
      apply_reconciliation_required_outer(2) apply_activity_reconciled_outer(2))+)
qed

lemma lease_step:
  assumes "apply_later_event env ev st = Inr c"
  obtains (same) "st_lease c = st_lease st"
  | (claimed) w l t x where "ev_kind ev = WorkerLeaseClaimed w l t x"
      "validate_worker_lease_window t x = Inr ()"
      "\<And>l0. st_lease st = Some l0 \<Longrightarrow> wl_expires_at l0 \<le> t"
      "st_lease c = Some (fresh_lease w l t x)"
  | (renewed) w l t x l0 where "ev_kind ev = WorkerLeaseRenewed w l t x"
      "validate_worker_lease_window t x = Inr ()" "st_lease st = Some l0"
      "wl_owner_id l0 = w" "wl_lease_id l0 = l" "t < wl_expires_at l0" "wl_heartbeat_at l0 \<le> t"
      "wl_expires_at l0 < x"
      "st_lease c = Some (l0\<lparr>wl_heartbeat_at := t, wl_expires_at := x\<rparr>)"
  | (released) w l t l0 where "ev_kind ev = WorkerLeaseReleased w l t" "st_lease st = Some l0"
      "wl_owner_id l0 = w" "wl_lease_id l0 = l" "t < wl_expires_at l0" "wl_heartbeat_at l0 \<le> t"
      "st_lease c = None"
  | (rewound) i b ack where "ev_kind ev = RunRewound i b ack" "st_lease c = None"
proof -
  show thesis
  proof (cases "ev_kind ev")
  case (WorkerLeaseClaimed w l t x)
  with assms have "apply_lease_claimed (ev_schema_version ev) w l t x st = Inr c" by (simp add: apply_dispatch)
  from apply_lease_claimed_Inr [OF this] WorkerLeaseClaimed show ?thesis by (intro claimed) auto
next
  case (WorkerLeaseRenewed w l t x)
  with assms have "apply_lease_renewed (ev_schema_version ev) w l t x st = Inr c" by (simp add: apply_dispatch)
  from apply_lease_renewed_Inr [OF this] WorkerLeaseRenewed show ?thesis by (auto intro: renewed)
next
  case (WorkerLeaseReleased w l t)
  with assms have "apply_lease_released (ev_schema_version ev) w l t st = Inr c" by (simp add: apply_dispatch)
  from apply_lease_released_Inr [OF this] WorkerLeaseReleased show ?thesis by (auto intro: released)
next
  case (RunRewound i b ack)
  with assms have "apply_run_rewound env i b ack st = Inr c" by (simp add: apply_dispatch)
  from apply_run_rewound_Inr [OF this] RunRewound show ?thesis
    by (auto intro!: rewound simp: fork_projection_def Let_def)
  qed ((rule same; insert assms(1); auto simp: apply_dispatch activity_frame_def dest!: apply_results
      apply_reconciliation_required_outer(2) apply_activity_reconciled_outer(2))+)
qed

lemma status_step:
  assumes "apply_later_event env ev st = Inr c"
  obtains (same) "st_status c = st_status st"
  | (quarantined) i k reason where "ev_kind ev = ActivityReconciliationRequired i k reason"
      "\<not> is_terminal (st_status st)" "st_status c = RunReconcileRequired"
  | (reconciled) i k resolution where "ev_kind ev = ActivityReconciled i k resolution"
      "\<not> is_terminal (st_status st)" "\<not> has_reconciliation_pending c" "st_status c = RunPausedSt"
  | (paused) "\<not> is_terminal (st_status st)" "st_status st \<noteq> RunReconcileRequired"
      "st_activities c = st_activities st" "st_status c = RunPausedSt"
  | (resumed) "ev_kind ev = RunResumed" "st_status st = RunPausedSt"
      "pending_approval_ids (rs_projection st) = []" "\<not> has_reconciliation_pending st"
      "c = set_status RunRunning None st"
  | (rewound) i b ack cp where "ev_kind ev = RunRewound i b ack" "source_checkpoint env st i = Inr cp"
      "\<not> is_terminal (st_status st)" "st_status c = RunPausedSt"
      "st_activities c = pj_activities (fork_projection env cp (rs_run_id st) b)"
  | (ended) s q where "\<not> is_terminal (st_status st)" "is_terminal s"
      "ev_schema_version ev \<ge> TERMINAL_ACTIVITY_INVARIANT_SCHEMA_VERSION \<Longrightarrow> all_closed env st"
      "s = RunCompletedSt \<Longrightarrow> ev_kind ev = RunCompleted \<and> pending_approval_ids (rs_projection st) = []
         \<and> \<not> has_reconciliation_pending st"
      "c = set_status s q st"
proof -
  show thesis
  proof (cases "ev_kind ev")
  case (ActivityReconciliationRequired i k reason)
  with assms have "apply_reconciliation_required (ev_schema_version ev) (ev_sequence ev) i k reason st = Inr c"
    by (simp add: apply_dispatch)
  from apply_reconciliation_required_Inr [OF this] ActivityReconciliationRequired
  have "st_status c = st_status st \<or> \<not> is_terminal (st_status st) \<and> st_status c = RunReconcileRequired"
    by (elim exE conjE disjE) (simp_all split: if_splits)
  with ActivityReconciliationRequired same quarantined show ?thesis by blast
next
  case (ActivityReconciled i k resolution)
  with assms have "apply_activity_reconciled env (ev_schema_version ev) (ev_sequence ev) i k resolution st = Inr c"
    by (simp add: apply_dispatch)
  from apply_activity_reconciled_Inr [OF this] ActivityReconciled
  have "st_status c = st_status st \<or> \<not> is_terminal (st_status st) \<and> \<not> has_reconciliation_pending c
      \<and> st_status c = RunPausedSt"
    by (elim exE conjE disjE) (simp_all add: has_reconciliation_pending_def split: if_splits)
  with ActivityReconciled same reconciled show ?thesis by blast
next
  case (ApprovalRequested i lk a prompt payload)
  with assms have "apply_approval_requested env (ev_schema_version ev) (ev_sequence ev) i lk a prompt payload st = Inr c"
    by (simp add: apply_dispatch)
  from apply_approval_requested_Inr [OF this] show ?thesis by (auto intro: paused)
next
  case (RunPaused reason)
  with assms have "apply_run_paused reason st = Inr c" by (simp add: apply_dispatch)
  from apply_run_paused_Inr [OF this] show ?thesis by (auto intro: paused)
next
  case RunResumed
  with assms have "apply_run_resumed st = Inr c" by (simp add: apply_dispatch)
  from apply_run_resumed_Inr [OF this] RunResumed show ?thesis by (intro resumed)
next
  case (RunRewound i b ack)
  with assms have "apply_run_rewound env i b ack st = Inr c" by (simp add: apply_dispatch)
  from apply_run_rewound_Inr [OF this] RunRewound show ?thesis by (auto intro: rewound)
next
  case RunCompleted
  with assms have "apply_run_completed env (ev_schema_version ev) st = Inr c" by (simp add: apply_dispatch)
  from apply_run_completed_Inr [OF this] RunCompleted show ?thesis
    by (intro ended [where s = RunCompletedSt and q = None]) auto
next
  case (RunFailed e)
  with assms have "apply_run_ended env (ev_schema_version ev) RunFailedSt (Some e) st = Inr c"
    by (simp add: apply_dispatch)
  from apply_run_ended_Inr [OF this] show ?thesis
    by (intro ended [where s = RunFailedSt and q = "Some e"]) auto
next
  case (RunCancelled q)
  with assms have "apply_run_ended env (ev_schema_version ev) RunCancelledSt q st = Inr c"
    by (simp add: apply_dispatch)
  from apply_run_ended_Inr [OF this] show ?thesis
    by (intro ended [where s = RunCancelledSt and q = q]) auto
  qed ((rule same; insert assms(1); auto simp: apply_dispatch dest!: apply_results)+)
qed

end
