(* ===== verification/Journal.thy ===== *)
theory Journal
  imports Prelude
begin

text \<open>
  The contract of an append-only journal whose state is rebuilt by replay: a step either
  leaves the state unchanged (a deduplicated record) or appends exactly the record to the
  log. The client's guarantee is that replaying the log of a state that was built from any
  sequence of records gives back that state.
\<close>

locale journal =
  fixes log :: "'s \<Rightarrow> 'e list"
    and append :: "'e \<Rightarrow> 's \<Rightarrow> 'err + 's"
    and start :: "'e \<Rightarrow> 'err + 's"
  assumes append_log: "append e s = Inr s' \<Longrightarrow> s' = s \<or> log s' = log s @ [e]"
    and start_log: "start e = Inr s \<Longrightarrow> log s = []"
    and first_appended: "start e = Inr s \<Longrightarrow> append e s = Inr s' \<Longrightarrow> log s' = [e]"
begin

text \<open>A fold over any records equals the fold over the records it added to the log.\<close>

lemma fold_log:
  "foldR append es s = Inr t \<Longrightarrow> \<exists>added. log t = log s @ added \<and> foldR append added s = Inr t"
proof (induction es arbitrary: s)
  case Nil
  then show ?case by (intro exI[of _ "[]"]) simp
next
  case (Cons e es)
  then obtain s' where s': "append e s = Inr s'" and rest: "foldR append es s' = Inr t"
    by (auto simp: result_simps)
  from Cons.IH [OF rest] obtain added
    where a: "log t = log s' @ added" "foldR append added s' = Inr t" by blast
  from append_log [OF s'] show ?case
  proof
    assume "s' = s"
    with a show ?thesis by blast
  next
    assume "log s' = log s @ [e]"
    with a s' show ?thesis by (intro exI[of _ "e # added"]) simp
  qed
qed

lemma rebuild_log:
  assumes "start e = Inr s0" and "foldR append (e # es) s0 = Inr t"
  shows "\<exists>added. log t = e # added \<and> foldR append (log t) s0 = Inr t"
proof -
  from assms(2) obtain s1 where s1: "append e s0 = Inr s1" and rest: "foldR append es s1 = Inr t"
    by (auto simp: result_simps)
  from fold_log [OF rest] obtain added
    where a: "log t = log s1 @ added" "foldR append added s1 = Inr t" by blast
  from first_appended [OF assms(1) s1] a s1 show ?thesis by simp
qed

lemma rebuild_step:
  assumes "start e = Inr s0" and "foldR append (log s) s0 = Inr s" and "log s = e # es"
    and "append r s = Inr s'"
  shows "foldR append (log s') s0 = Inr s'" and "\<exists>es'. log s' = e # es'"
proof -
  from assms(2,4) have "foldR append (log s @ [r]) s0 = Inr s'" by (simp add: foldR_append)
  with append_log [OF assms(4)] assms(2) show "foldR append (log s') s0 = Inr s'" by metis
  from append_log [OF assms(4)] assms(3) show "\<exists>es'. log s' = e # es'" by auto
qed

end

end
