(* ===== verification/DurLog.thy ===== *)
theory DurLog
  imports DurFrame Journal
begin

text \<open>
  The append-only log of a run: what an accepted or refused append does, the log built by any
  sequence of appends, and the replay of that log.
\<close>

subsection \<open>Append\<close>

lemma append_validated_Inl:
  "append_validated_event env ev st = (Inl e, st') \<Longrightarrow> st' = st"
  by (auto simp: append_validated_event_def Let_def split: sum.splits option.splits if_splits)

text \<open>The guard of an event that is really appended.\<close>

definition fresh_event :: "run_event \<Rightarrow> run_state \<Rightarrow> bool" where
  "fresh_event ev st \<longleftrightarrow> validate_identifier ''event_id'' (ev_event_id ev) = Inr ()
     \<and> ev_run_id ev = rs_run_id st \<and> event_by_id st (ev_event_id ev) = None
     \<and> ev_sequence ev = next_sequence st"

lemma append_validated_Inr:
  assumes "append_validated_event env ev st = (Inr oc, st')"
  obtains (dedup) old where "event_by_id st (ev_event_id ev) = Some old" "ev_kind old = ev_kind ev"
      "oc = Deduplicated (ev_sequence old)" "st' = st"
  | (appended) "fresh_event ev st" "commit_event env ev st = Inr st'" "oc = Appended (next_sequence st)"
  using assms
  by (auto simp: append_validated_event_def fresh_event_def Let_def split: sum.splits option.splits if_splits)

lemma append_validated_fresh:
  "fresh_event ev st \<Longrightarrow> commit_event env ev st = Inr st' \<Longrightarrow>
     append_validated_event env ev st = (Inr (Appended (next_sequence st)), st')"
  by (simp add: append_validated_event_def fresh_event_def)

lemma append_event_iff:
  "append_event env ev st = (Inr oc, st') \<longleftrightarrow>
     ev_schema_version ev = DURABILITY_SCHEMA_VERSION \<and> append_validated_event env ev st = (Inr oc, st')"
  by (simp add: append_event_def)

lemma append_event_Inl: "append_event env ev st = (Inl e, st') \<Longrightarrow> st' = st"
  by (auto simp: append_event_def dest: append_validated_Inl split: if_splits)

lemma emit_Inl: "emit env i k st = (Inl e, st') \<Longrightarrow> st' = st"
  by (auto simp: emit_def dest: append_event_Inl)

text \<open>The event \<open>emit\<close> builds.\<close>

definition emitted :: "run_state \<Rightarrow> string \<Rightarrow> event_kind \<Rightarrow> run_event" where
  "emitted st i k = \<lparr>ev_schema_version = DURABILITY_SCHEMA_VERSION, ev_run_id = rs_run_id st,
     ev_sequence = next_sequence st, ev_event_id = i, ev_kind = k\<rparr>"

lemma emitted_simps [simp]:
  "ev_schema_version (emitted st i k) = DURABILITY_SCHEMA_VERSION" "ev_run_id (emitted st i k) = rs_run_id st"
  "ev_sequence (emitted st i k) = next_sequence st" "ev_event_id (emitted st i k) = i"
  "ev_kind (emitted st i k) = k"
  by (simp_all add: emitted_def)

lemma emit_Inr:
  assumes "emit env i k st = (Inr oc, st')"
  obtains (dedup) old where "event_by_id st i = Some old" "ev_kind old = k"
      "oc = Deduplicated (ev_sequence old)" "st' = st"
  | (appended) "fresh_event (emitted st i k) st" "commit_event env (emitted st i k) st = Inr st'"
      "oc = Appended (next_sequence st)"
proof -
  from assms have "append_validated_event env (emitted st i k) st = (Inr oc, st')"
    by (simp add: emit_def emitted_def append_event_iff)
  then show thesis by (cases rule: append_validated_Inr) (use dedup appended in auto)
qed

subsection \<open>Commit\<close>

lemma apply_first_Inr:
  assumes "apply_first_event env ev st = Inr c"
  obtains (started) s d b where "ev_kind ev = RunStarted s d b" "s = rs_session_id st"
      "c = st\<lparr>rs_durability := d, rs_projection := (projection_root env (rs_run_id st))\<lparr>pj_branch_id := b\<rparr>\<rparr>"
  | (forked) s src d cp b where "ev_kind ev = ForkedFrom s src d cp b" "s = rs_session_id st"
      "validate_source_checkpoint env (rs_run_id st) src cp = Inr ()"
      "c = st\<lparr>rs_parent_run_id := Some src, rs_durability := d,
               rs_projection := fork_projection env cp (rs_run_id st) b,
               rs_checkpoints := bt_insert (cp_checkpoint_id cp) cp (rs_checkpoints st)\<rparr>"
proof (cases "ev_kind ev")
  case (RunStarted s d b)
  with assms have "apply_run_started env s d b st = Inr c" by (simp add: apply_first_event_def)
  from apply_run_started_Inr [OF this] RunStarted started show ?thesis by blast
next
  case (ForkedFrom s src d cp b)
  with assms have "apply_forked_from env s src d cp b st = Inr c" by (simp add: apply_first_event_def)
  from apply_forked_from_Inr [OF this] ForkedFrom forked show ?thesis by blast
qed (use assms in \<open>simp_all add: apply_first_event_def\<close>)

lemma commit_event_Inr:
  "commit_event env ev st = Inr st' \<longleftrightarrow>
     (\<exists>c. apply_event_in_place env ev st = Inr c \<and> st' = c\<lparr>rs_events := rs_events c @ [ev]\<rparr>)"
  by (auto simp: commit_event_def result_simps)

lemma apply_event_keeps:
  assumes "apply_event_in_place env ev st = Inr c"
  shows "rs_schema_version c = rs_schema_version st" and "rs_session_id c = rs_session_id st"
    and "rs_run_id c = rs_run_id st" and "rs_events c = rs_events st"
proof -
  have "rs_schema_version c = rs_schema_version st \<and> rs_session_id c = rs_session_id st
    \<and> rs_run_id c = rs_run_id st \<and> rs_events c = rs_events st"
  proof (cases "rs_events st = []")
    case True
    with assms have "apply_first_event env ev st = Inr c" by (simp add: apply_event_in_place_def)
    then show ?thesis by (cases rule: apply_first_Inr) auto
  next
    case False
    with assms have "apply_later_event env ev st = Inr c" by (simp add: apply_event_in_place_def)
    from identity_step [OF this] show ?thesis by simp
  qed
  then show "rs_schema_version c = rs_schema_version st" "rs_session_id c = rs_session_id st"
    "rs_run_id c = rs_run_id st" "rs_events c = rs_events st" by simp_all
qed

lemma commit_event_keeps:
  assumes "commit_event env ev st = Inr st'"
  shows "rs_schema_version st' = rs_schema_version st" and "rs_session_id st' = rs_session_id st"
    and "rs_run_id st' = rs_run_id st" and "rs_events st' = rs_events st @ [ev]"
  using assms by (auto simp: commit_event_Inr dest: apply_event_keeps)

subsection \<open>The journal of a run\<close>

definition run_append :: "durable_env \<Rightarrow> run_event \<Rightarrow> run_state \<Rightarrow> run_state dres" where
  "run_append env ev st = execR (append_replayed_event env ev) st"

definition run_start :: "durable_env \<Rightarrow> run_event \<Rightarrow> run_state dres" where
  "run_start env first =
     bindR (first_event_identity first) (\<lambda>(session_id, durability).
     bindR (validate_identifier ''session_id'' session_id) (\<lambda>_.
     bindR (validate_identifier ''run_id'' (ev_run_id first)) (\<lambda>_.
       Inr (blank_state session_id (ev_run_id first) durability (projection_root env (ev_run_id first))))))"

text \<open>An event that replay accepts after the given state.\<close>

definition replayable :: "run_event \<Rightarrow> run_state \<Rightarrow> bool" where
  "replayable ev st \<longleftrightarrow> is_supported_durability_schema_version (ev_schema_version ev)
     \<and> (rs_events st \<noteq> [] \<longrightarrow> ev_schema_version (last (rs_events st)) \<le> ev_schema_version ev)"

lemma run_append_Inr:
  assumes "run_append env ev st = Inr st'"
  obtains (dedup) "replayable ev st" "st' = st" "event_by_id st (ev_event_id ev) \<noteq> None"
  | (appended) "replayable ev st" "fresh_event ev st" "commit_event env ev st = Inr st'"
proof -
  from assms obtain oc where "append_replayed_event env ev st = (Inr oc, st')"
    by (auto simp: run_append_def result_simps)
  then have r: "replayable ev st" and a: "append_validated_event env ev st = (Inr oc, st')"
    by (auto simp: append_replayed_event_def replayable_def last_opt_def split: if_splits)
  from a show thesis by (cases rule: append_validated_Inr) (use r dedup appended in auto)
qed

lemma run_append_fresh:
  "replayable ev st \<Longrightarrow> fresh_event ev st \<Longrightarrow> commit_event env ev st = Inr st' \<Longrightarrow> run_append env ev st = Inr st'"
  by (auto simp: run_append_def execR_def append_replayed_event_def replayable_def last_opt_def
      append_validated_fresh not_less)

lemma run_start_blank:
  assumes "run_start env ev = Inr st"
  obtains s d where "validate_identifier ''session_id'' s = Inr ()"
    "validate_identifier ''run_id'' (ev_run_id ev) = Inr ()"
    "first_event_identity ev = Inr (s, d)"
    "st = blank_state s (ev_run_id ev) d (projection_root env (ev_run_id ev))"
  using assms by (auto simp: run_start_def result_simps)

interpretation run_journal: journal rs_events "run_append env" "run_start env" for env
proof
  show "run_append env e s = Inr s' \<Longrightarrow> s' = s \<or> rs_events s' = rs_events s @ [e]" for e s s'
    by (erule run_append_Inr) (auto dest: commit_event_keeps)
  show start: "run_start env e = Inr s \<Longrightarrow> rs_events s = []" for e s
    by (erule run_start_blank) (simp add: blank_state_def)
  show "run_start env e = Inr s \<Longrightarrow> run_append env e s = Inr s' \<Longrightarrow> rs_events s' = [e]" for e s s'
    by (erule run_append_Inr) (auto dest: commit_event_keeps simp: start event_by_id_def)
qed

lemma replay_events_fold: "replay_events env es st = foldR (run_append env) es st"
  by (induction es arbitrary: st)
    (auto simp: run_append_def execR_def split: sum.splits prod.splits)

lemma from_events_fold:
  "from_events env es =
     (case es of [] \<Rightarrow> Inl MissingRunStart
      | e # _ \<Rightarrow> bindR (run_start env e) (foldR (run_append env) es))"
  by (auto simp: from_events_def run_start_def replay_events_fold bindR_def split: list.splits sum.splits)

end
