(* ===== verification/DurApi.thy ===== *)
theory DurApi
  imports DurLog
begin

text \<open>
  The public interface of \<open>RunState\<close> as a step relation, and the contract that carries every
  invariant of the log over it: an operation changes the state only through \<open>emit\<close>, so a
  predicate that every emitted event keeps is kept by every operation, on success and on
  error.
\<close>

text \<open>Operations emit a checkpoint only while the run does not wait for reconciliation. \<open>append\_event\<close>,
  which takes an event that its caller has built, does not know this restriction.\<close>

definition checkpoint_allowed :: "event_kind \<Rightarrow> run_state \<Rightarrow> bool" where
  "checkpoint_allowed k st =
     (case k of CheckpointCommitted _ _ \<Rightarrow> st_status st \<noteq> RunReconcileRequired | _ \<Rightarrow> True)"

definition plain_kind :: "event_kind \<Rightarrow> bool" where
  "plain_kind k = (case k of CheckpointCommitted _ _ \<Rightarrow> False | _ \<Rightarrow> True)"

lemma plain_kind_allowed: "plain_kind k \<Longrightarrow> checkpoint_allowed k st"
  by (auto simp: plain_kind_def checkpoint_allowed_def split: event_kind.splits)

lemma plain_kinds [preserving]:
  "plain_kind (RunStarted a1 a2 a3)" "plain_kind (PolicySnapshotPinned a4)"
  "plain_kind (GovernanceBindingPinned a5)" "plain_kind (ForkedFrom a6 a7 a8 a9 b1)"
  "plain_kind (StateReplaced b2)" "plain_kind (WorkerLeaseClaimed b3 b4 b5 b6)"
  "plain_kind (WorkerLeaseRenewed b3 b4 b5 b6)" "plain_kind (WorkerLeaseReleased b3 b4 b5)"
  "plain_kind (ActivityScheduled b7)" "plain_kind (ActivityAttemptStarted b8 b9)"
  "plain_kind (ActivityAttemptCompleted b8 b9 c1 c2)" "plain_kind (ActivityAttemptFailed b8 b9 c3 c4 c5)"
  "plain_kind (ActivityAttemptCancelled b8 b9 c3)" "plain_kind (ActivityReconciliationRequired b8 b9 c3)"
  "plain_kind (ActivityReconciled b8 b9 c6)" "plain_kind (ApprovalRequested c7 c8 c9 d1 d2)"
  "plain_kind (ApprovalResolved c7 d3 d4)" "plain_kind (ArtifactPublished d5)"
  "plain_kind (RunPaused d6)" "plain_kind RunResumed" "plain_kind (ForkCreated d7 d8 d9 e1)"
  "plain_kind (RunRewound d7 d8 e1)" "plain_kind RunCompleted" "plain_kind (RunFailed e2)"
  "plain_kind (RunCancelled e3)"
  by (simp_all add: plain_kind_def)

text \<open>A predicate that every append of an allowed event keeps. What operations emit must be allowed.\<close>

locale append_invariant =
  fixes env :: durable_env and allowed :: "event_kind \<Rightarrow> run_state \<Rightarrow> bool" and I :: "run_state \<Rightarrow> bool"
  assumes operations_allowed: "checkpoint_allowed k st \<Longrightarrow> allowed k st"
    and append_keeps: "I st \<Longrightarrow> allowed (ev_kind ev) st \<Longrightarrow> append_event env ev st = (Inr oc, st') \<Longrightarrow> I st'"
begin

lemma append_keeps_any: "I s \<Longrightarrow> allowed (ev_kind ev) s \<Longrightarrow> append_event env ev s = (r, s') \<Longrightarrow> I s'"
  using append_keeps append_event_Inl by (cases r) blast+

lemma emit_keeps_any: "I s \<Longrightarrow> checkpoint_allowed k s \<Longrightarrow> emit env i k s = (r, s') \<Longrightarrow> I s'"
  unfolding emit_def by (rule append_keeps_any) (simp_all add: operations_allowed)

lemma emit_keeps: "I st \<Longrightarrow> checkpoint_allowed k st \<Longrightarrow> emit env i k st = (Inr oc, st') \<Longrightarrow> I st'"
  by (rule emit_keeps_any)

lemma keeps_emit: "plain_kind k \<Longrightarrow> preserves I (emit env i k)"
  by (rule preservesI) (blast intro: emit_keeps_any plain_kind_allowed)

lemma emit_plain: "I st \<Longrightarrow> emit env i k st = (Inr oc, st') \<Longrightarrow> plain_kind k \<Longrightarrow> I st'"
  by (blast intro: emit_keeps plain_kind_allowed)

lemma keeps_claim: "preserves I (claim_worker_lease env w l t x)"
  by (rule preservesI, unfold claim_worker_lease_def, erule bindS_keeps, assumption)
    (intro preserving keeps_emit)+

lemma keeps_renew: "preserves I (renew_worker_lease env w l t x)"
  by (rule preservesI, unfold renew_worker_lease_def, erule bindS_keeps, assumption)
    (intro preserving keeps_emit)+

lemma keeps_release: "preserves I (release_worker_lease env w l t)"
  by (rule preservesI, unfold release_worker_lease_def, erule bindS_keeps, assumption)
    (intro preserving keeps_emit)+

lemma keeps_replace_state: "preserves I (replace_state env m s)"
  by (rule preservesI, unfold replace_state_def, erule bindS_keeps, assumption)
    (intro preserving keeps_emit)+

lemma keeps_start_next: "preserves I (start_next_attempt env i)"
proof (rule preservesI)
  fix s r s'
  assume s: "I s" and r: "start_next_attempt env i s = (r, s')"
  have lookup: "preserves I (\<lambda>st'. case bt_get (st_activities st') i of None \<Rightarrow> (Inl Panicked, st')
      | Some q \<Rightarrow> (Inr (Execute i a (ad_idempotency_key (ar_definition q))), st'))" for a
    by (auto intro!: preservesI split: option.splits)
  show "I s'"
  proof (cases "bt_get (st_activities s) i")
    case None
    with r s show ?thesis by (simp add: start_next_attempt_def)
  next
    case (Some q)
    show ?thesis
    proof (cases "u32_try_from (length (ar_attempts q) + 1)")
      case None
      with r s Some show ?thesis by (simp add: start_next_attempt_def)
    next
      case a: (Some a)
      from r Some a s show ?thesis
        unfolding start_next_attempt_def by simp (erule bindS_keeps, assumption, rule keeps_emit, rule plain_kinds, rule lookup)
    qed
  qed
qed

lemma keeps_require: "preserves I (require_reconciliation env i k reason)"
  unfolding require_reconciliation_def by (intro preserving keeps_emit)

lemma keeps_decide: "preserves I (decide_activity env i)"
proof (rule preservesI)
  fix s r s'
  assume s: "I s" and r: "decide_activity env i s = (r, s')"
  note ops = preservesD [OF keeps_start_next s] preservesD [OF keeps_require s]
    bindS_keeps [OF _ s keeps_emit keeps_start_next]
  from s r show "I s'"
    unfolding decide_activity_def
    by (auto simp: plain_kinds split: option.splits attempt_status.splits if_splits dest: ops)
qed

lemma keeps_schedule: "preserves I (schedule_activity env step key input c ik)"
proof (rule preservesI)
  fix s r s'
  assume s: "I s" and r: "schedule_activity env step key input c ik s = (r, s')"
  from s r show "I s'"
    unfolding schedule_activity_def Let_def
    by (auto split: option.splits if_splits simp: plain_kinds dest: bindS_keeps [OF _ s keeps_emit preserves_returnS])
qed

lemma keeps_prepare: "preserves I (prepare_activity env step key input c ik)"
  unfolding prepare_activity_def by (intro preserving keeps_schedule keeps_decide)

lemma keeps_complete_activity: "preserves I (complete_activity env i k out)"
  unfolding complete_activity_def Let_def by (intro preserving keeps_emit)

lemma keeps_fail_activity: "preserves I (fail_activity env i k e retryable amb)"
  unfolding fail_activity_def by (intro preserving keeps_emit keeps_require keeps_decide)

lemma keeps_cancel_activity: "preserves I (cancel_activity env i k reason amb)"
  unfolding cancel_activity_def by (intro preserving keeps_emit keeps_fail_activity)

lemma keeps_quarantine_unstarted: "preserves I (quarantine_unstarted_reserved_activity env i reason)"
  unfolding quarantine_unstarted_reserved_activity_def by (intro preserving keeps_emit)

lemma keeps_quarantine_legacy: "preserves I (quarantine_terminal_legacy_running_activity env i reason)"
  unfolding quarantine_terminal_legacy_running_activity_def by (intro preserving keeps_emit)

lemma keeps_reconcile: "preserves I (reconcile_activity env rid i resolution)"
  unfolding reconcile_activity_def by (intro preserving keeps_emit)

lemma keeps_request: "preserves I (request_approval env lk a prompt payload)"
  by (rule preservesI, unfold request_approval_def Let_def, erule bindS_keeps, assumption)
    (intro preserving keeps_emit)+

lemma keeps_request_typed: "preserves I (request_typed_approval env request)"
  by (rule preservesI, unfold request_typed_approval_def Let_def, erule bindS_keeps, assumption)
    (intro preserving keeps_request)+

lemma keeps_resolve: "preserves I (resolve_approval env cmd resolution now timed_out)"
  unfolding resolve_approval_def by (intro preserving keeps_emit)

lemma keeps_resolve_each: "preserves I (resolve_each env cmd now timed_out rs)"
  by (induction rs) (auto intro!: preserving keeps_resolve)

lemma keeps_expire: "preserves I (expire_approvals env x now)"
  by (rule preservesI, unfold expire_approvals_def Let_def, erule bindS_keeps, assumption)
    (intro preserving keeps_resolve_each)+

lemma keeps_publish: "preserves I (publish_artifact env a media n h creator)"
  by (rule preservesI, unfold publish_artifact_def Let_def, erule bindS_keeps, assumption)
    (intro preserving keeps_emit)+

lemma keeps_checkpoint: "preserves I (checkpoint_op env key label)"
proof (rule preservesI)
  fix s r s'
  assume s: "I s" and r: "checkpoint_op env key label s = (r, s')"
  let ?cp = "stable_identifier env ''checkpoint'' [rs_run_id s, st_branch s, key]"
  obtain q t where q: "emit env (event_id_of env [?cp, ''committed'']) (CheckpointCommitted ?cp label) s = (q, t)"
    by force
  have t: "st_status s \<noteq> RunReconcileRequired \<Longrightarrow> I t"
    using emit_keeps_any [OF s _ q] by (simp add: checkpoint_allowed_def)
  show "I s'"
  proof (cases "s' = s")
    case False
    with r q have "st_status s \<noteq> RunReconcileRequired \<and> s' = t"
      by (auto simp: checkpoint_op_def Let_def bindS_def checkS_def ensure_not_reconciling_def
          split: sum.splits option.splits if_splits)
    with t show ?thesis by simp
  qed (use s in simp)
qed

lemma keeps_pause: "preserves I (pause env p reason)"
  by (rule preservesI, unfold pause_def, erule bindS_keeps, assumption)
    (intro preserving keeps_emit)+

lemma keeps_complete_run: "preserves I (complete_run env x)"
  by (rule preservesI, unfold complete_run_def, erule bindS_keeps, assumption)
    (intro preserving keeps_emit)+

lemma keeps_fail_run: "preserves I (fail_run env x e)"
  by (rule preservesI, unfold fail_run_def, erule bindS_keeps, assumption)
    (intro preserving keeps_emit)+

lemma keeps_resume_candidate: "preserves I (resume_candidate env cmd ev rs now)"
  by (rule preservesI, unfold resume_candidate_def Let_def, erule bindS_keeps, assumption)
    (intro preserving keeps_resolve_each keeps_emit)+

lemma keeps_resume: "preserves I (resume env cmd rs now)"
proof -
  have "preserves I (\<lambda>st. let event_id = event_id_of env [rs_run_id st, ''resume'', cmd] in
       case event_by_id st event_id of
         Some event \<Rightarrow>
           if ev_kind event = RunResumed then (Inr (Resumed (ev_sequence event)), st)
           else (Inl (DuplicateEventConflict event_id), st)
       | None \<Rightarrow>
           if st_status st = RunReconcileRequired then (Inl RunRequiresReconciliation, st)
           else if st_status st \<noteq> RunPausedSt then (Inl NotPaused, st)
           else case (typed_pending st, now) of
             (Some approval_id, None) \<Rightarrow> (Inl (ApprovalClockRequired approval_id), st)
           | _ \<Rightarrow> atomically (resume_candidate env cmd event_id rs now) st)"
    by (rule preservesI)
      (auto simp: Let_def split: option.splits if_splits
        dest: preservesD [OF preserves_atomically [OF keeps_resume_candidate]])
  note body = this
  show ?thesis
    by (rule preservesI, unfold resume_def, erule bindS_keeps, assumption,
        rule preserves_checkS, rule body)
qed

lemma keeps_fork: "preserves I (fork env cmd run cp ack)"
proof -
  have create: "preserves I (bindS (checkS c) (\<lambda>_. atomically (bindS (emit env i k)
      (\<lambda>_. bindS (checkS g) (\<lambda>f. returnS (h f))))))"
    if "plain_kind k" for c :: "run_state \<Rightarrow> unit dres" and i k and g :: "run_state \<Rightarrow> run_state dres" and h
    by (intro preserving keeps_emit that)
  show ?thesis
    unfolding fork_def [abs_def]
    by (rule preservesI, erule bindS_keeps, assumption, intro preserving, rule preserves_bindS,
        rule preserves_checkS, rule preserves_bindS, rule preserves_checkS, rule preservesI)
      (auto simp: Let_def plain_kinds split: option.splits event_kind.splits if_splits
        dest: preservesD [OF create, rotated])
qed

lemma keeps_rewind: "preserves I (rewind env cmd cp ack)"
proof -
  have create: "preserves I (bindS (checkS c) (\<lambda>_. bindS (emit env i k) (\<lambda>oc. returnS (h oc))))"
    if "plain_kind k" for c :: "run_state \<Rightarrow> unit dres" and i k h
    by (intro preserving keeps_emit that)
  show ?thesis
    unfolding rewind_def [abs_def]
    by (rule preservesI, erule bindS_keeps, assumption, rule preserves_checkS, rule preserves_bindS,
        rule preserves_checkS, rule preservesI)
      (auto simp: Let_def plain_kinds split: option.splits event_kind.splits if_splits
        dest: preservesD [OF create, rotated])
qed

lemma keeps_cancel: "preserves I (DurOps.cancel env cmd reason)"
proof -
  have create: "preserves I (bindS (checkS c) (\<lambda>_. bindS (checkS d) (\<lambda>_.
      bindS (emit env i k) (\<lambda>oc. returnS (h oc)))))"
    if "plain_kind k" for c d :: "run_state \<Rightarrow> unit dres" and i k h
    by (intro preserving keeps_emit that)
  show ?thesis
    unfolding DurOps.cancel_def [abs_def]
    by (rule preservesI, erule bindS_keeps, assumption, rule preserves_checkS, rule preservesI)
      (auto simp: Let_def plain_kinds split: option.splits event_kind.splits if_splits
        dest: preservesD [OF create, rotated])
qed

lemma keeps_command: "preserves I (apply_command env command)"
  by (cases command) (simp_all add: apply_command_def keeps_resume keeps_fork keeps_rewind keeps_cancel)

lemma keeps_command_at: "preserves I (apply_command_at env command now)"
  by (cases command) (simp_all add: apply_command_at_def keeps_command keeps_resume)

lemmas keeps_operation = keeps_claim keeps_renew keeps_release keeps_replace_state keeps_prepare
  keeps_complete_activity keeps_fail_activity keeps_cancel_activity keeps_quarantine_unstarted
  keeps_quarantine_legacy keeps_reconcile keeps_request keeps_request_typed keeps_expire
  keeps_publish keeps_checkpoint keeps_pause keeps_complete_run keeps_fail_run keeps_command
  keeps_command_at

end

subsection \<open>The interface as a step relation\<close>

text \<open>One rule per public operation; the state after the call counts whether the call succeeded
  or not. \<open>allowed\<close> limits the events that a caller may build for \<open>append\_event\<close>.\<close>

inductive run_step :: "(event_kind \<Rightarrow> run_state \<Rightarrow> bool) \<Rightarrow> durable_env \<Rightarrow> run_state \<Rightarrow> run_state \<Rightarrow> bool"
  for allowed env st where
  append: "append_event env ev st = (ro, st') \<Longrightarrow> allowed (ev_kind ev) st \<Longrightarrow> run_step allowed env st st'"
|
  claim: "claim_worker_lease env w l t x st = (r, st') \<Longrightarrow> run_step allowed env st st'"
| renew: "renew_worker_lease env w l t x st = (r', st') \<Longrightarrow> run_step allowed env st st'"
| release: "release_worker_lease env w l t st = (r', st') \<Longrightarrow> run_step allowed env st st'"
| replace: "replace_state env m s st = (ro, st') \<Longrightarrow> run_step allowed env st st'"
| prepare: "prepare_activity env step key input c ik st = (rd, st') \<Longrightarrow> run_step allowed env st st'"
| complete: "complete_activity env i k out st = (ro, st') \<Longrightarrow> run_step allowed env st st'"
| fail: "fail_activity env i k e retryable amb st = (rd, st') \<Longrightarrow> run_step allowed env st st'"
| cancel: "cancel_activity env i k reason amb st = (rd, st') \<Longrightarrow> run_step allowed env st st'"
| orphan: "quarantine_unstarted_reserved_activity env i reason st = (r', st') \<Longrightarrow> run_step allowed env st st'"
| legacy: "quarantine_terminal_legacy_running_activity env i reason st = (r', st') \<Longrightarrow> run_step allowed env st st'"
| reconcile: "reconcile_activity env rid i resolution st = (ro, st') \<Longrightarrow> run_step allowed env st st'"
| request: "request_approval env lk a prompt payload st = (rs, st') \<Longrightarrow> run_step allowed env st st'"
| request_typed: "request_typed_approval env request st = (rs, st') \<Longrightarrow> run_step allowed env st st'"
| expire: "expire_approvals env x now st = (rl, st') \<Longrightarrow> run_step allowed env st st'"
| publish: "publish_artifact env a media n h creator st = (rm, st') \<Longrightarrow> run_step allowed env st st'"
| checkpoint: "checkpoint_op env key label st = (rc, st') \<Longrightarrow> run_step allowed env st st'"
| pause: "pause env p reason st = (r', st') \<Longrightarrow> run_step allowed env st st'"
| complete_run: "complete_run env x st = (ro, st') \<Longrightarrow> run_step allowed env st st'"
| fail_run: "fail_run env x e st = (ro, st') \<Longrightarrow> run_step allowed env st st'"
| command: "apply_command env cmd st = (rk, st') \<Longrightarrow> run_step allowed env st st'"
| command_at: "apply_command_at env cmd now st = (rk, st') \<Longrightarrow> run_step allowed env st st'"

text \<open>The whole interface, and the interface whose callers build a checkpoint event only where the
  operation \<open>checkpoint\<close> would emit one.\<close>

abbreviation api_step :: "durable_env \<Rightarrow> run_state \<Rightarrow> run_state \<Rightarrow> bool" where
  "api_step \<equiv> run_step (\<lambda>_ _. True)"

abbreviation orderly_step :: "durable_env \<Rightarrow> run_state \<Rightarrow> run_state \<Rightarrow> bool" where
  "orderly_step \<equiv> run_step checkpoint_allowed"

lemma orderly_step_api: "orderly_step env st st' \<Longrightarrow> api_step env st st'"
  by (induction rule: run_step.induct) (erule run_step.intros; simp)+

context append_invariant
begin

lemma run_step_keeps: "run_step allowed env st st' \<Longrightarrow> I st \<Longrightarrow> I st'"
proof (induction rule: run_step.induct)
  case (append ev ro st')
  then show ?case by (blast intro: append_keeps_any)
qed (erule (1) keeps_operation [THEN preservesD, rotated])+

end

text \<open>The states a client of the interface can reach: a constructor, a fork of a reachable run,
  and any operations.\<close>

inductive run_reached :: "(event_kind \<Rightarrow> run_state \<Rightarrow> bool) \<Rightarrow> durable_env \<Rightarrow> run_state \<Rightarrow> bool" for allowed env where
  new: "rs_new env s r d = Inr st \<Longrightarrow> run_reached allowed env st"
| new_governed: "new_with_governance_binding env s r d b = Inr st \<Longrightarrow> run_reached allowed env st"
| new_snapshot: "new_with_policy_snapshot env s r d p = Inr st \<Longrightarrow> run_reached allowed env st"
| forked: "run_reached allowed env st \<Longrightarrow> fork env cmd run cp ack st = (Inr (Forked f), st') \<Longrightarrow>
    run_reached allowed env f"
| step: "run_reached allowed env st \<Longrightarrow> run_step allowed env st st' \<Longrightarrow> run_reached allowed env st'"

abbreviation api_reach :: "durable_env \<Rightarrow> run_state \<Rightarrow> bool" where
  "api_reach \<equiv> run_reached (\<lambda>_ _. True)"

abbreviation orderly_reach :: "durable_env \<Rightarrow> run_state \<Rightarrow> bool" where
  "orderly_reach \<equiv> run_reached checkpoint_allowed"

lemma orderly_reach_api: "orderly_reach env st \<Longrightarrow> api_reach env st"
  by (induction rule: run_reached.induct) (blast intro: run_reached.intros orderly_step_api)+

end
