(* ===== verification/DurReplay.thy ===== *)
theory DurReplay
  imports DurApi
begin

text \<open>
  Every state of a run, however it was built, is the replay of its own log; the log is
  numbered without gaps, its event identifiers are unique and its schema versions never
  decrease.
\<close>

inductive run_built :: "durable_env \<Rightarrow> run_state \<Rightarrow> bool" for env where
  first: "validate_identifier ''session_id'' s = Inr () \<Longrightarrow> validate_identifier ''run_id'' r = Inr () \<Longrightarrow>
    replayable ev (blank_state s r d p) \<Longrightarrow> fresh_event ev (blank_state s r d p) \<Longrightarrow>
    commit_event env ev (blank_state s r d p) = Inr st \<Longrightarrow> run_built env st"
| append: "run_built env st \<Longrightarrow> replayable ev st \<Longrightarrow> fresh_event ev st \<Longrightarrow>
    commit_event env ev st = Inr st' \<Longrightarrow> run_built env st'"

definition log_ok :: "run_state \<Rightarrow> bool" where
  "log_ok st \<longleftrightarrow> rs_events st \<noteq> []
     \<and> (\<forall>e \<in> set (rs_events st). is_supported_durability_schema_version (ev_schema_version e)
          \<and> ev_run_id e = rs_run_id st \<and> validate_identifier ''event_id'' (ev_event_id e) = Inr ())
     \<and> distinct (map ev_event_id (rs_events st))
     \<and> sorted (map ev_schema_version (rs_events st))
     \<and> (\<forall>i < length (rs_events st). ev_sequence (rs_events st ! i) = min (i + 1) u64_max)"

lemma next_sequence_log:
  assumes "log_ok st"
  shows "next_sequence st = min (length (rs_events st) + 1) u64_max"
proof -
  from assms have ne: "rs_events st \<noteq> []" by (simp add: log_ok_def)
  then have l: "last (rs_events st) = rs_events st ! (length (rs_events st) - 1)" by (rule last_conv_nth)
  from assms ne have "ev_sequence (last (rs_events st)) = min (length (rs_events st)) u64_max"
    unfolding l log_ok_def by simp
  then show ?thesis by (auto simp: next_sequence_def last_opt_def ne saturating_add_def min_def)
qed

lemma event_by_id_None: "event_by_id st i = None \<longleftrightarrow> i \<notin> ev_event_id ` set (rs_events st)"
  by (auto simp: event_by_id_def find_None_iff)

lemma log_ok_append:
  assumes ok: "log_ok st" and r: "replayable ev st" and f: "fresh_event ev st"
    and c: "commit_event env ev st = Inr st'"
  shows "log_ok st'"
proof -
  note keeps = commit_event_keeps [OF c]
  have n: "ev_sequence ev = min (length (rs_events st) + 1) u64_max"
    using f next_sequence_log [OF ok] by (simp add: fresh_event_def)
  have v: "\<forall>e \<in> set (rs_events st). ev_schema_version e \<le> ev_schema_version ev"
  proof
    fix e assume e: "e \<in> set (rs_events st)"
    from ok have s: "sorted (map ev_schema_version (rs_events st))" and ne: "rs_events st \<noteq> []"
      by (auto simp: log_ok_def)
    from e obtain i where "i < length (rs_events st)" "e = rs_events st ! i" by (metis in_set_conv_nth)
    with s ne have "ev_schema_version e \<le> ev_schema_version (last (rs_events st))"
      by (simp add: last_conv_nth sorted_iff_nth_mono)
    with r ne show "ev_schema_version e \<le> ev_schema_version ev" by (auto simp: replayable_def)
  qed
  have seq: "ev_sequence ((rs_events st @ [ev]) ! i) = min (i + 1) u64_max"
    if "i < length (rs_events st @ [ev])" for i
    using that ok n by (auto simp: log_ok_def nth_append less_Suc_eq)
  show ?thesis
    unfolding log_ok_def keeps
    using ok r f v seq
    by (auto simp: log_ok_def fresh_event_def replayable_def event_by_id_None sorted_append)
qed

lemma blank_fields [simp]:
  "rs_events (blank_state s r d p) = []" "rs_run_id (blank_state s r d p) = r"
  "rs_session_id (blank_state s r d p) = s" "rs_schema_version (blank_state s r d p) = DURABILITY_SCHEMA_VERSION"
  "rs_checkpoints (blank_state s r d p) = []" "rs_policy_snapshot_hash (blank_state s r d p) = None"
  "rs_governance_binding (blank_state s r d p) = None" "rs_parent_run_id (blank_state s r d p) = None"
  by (simp_all add: blank_state_def)

lemma log_ok_first:
  assumes r: "replayable ev (blank_state s r d p)" and f: "fresh_event ev (blank_state s r d p)"
    and c: "commit_event env ev (blank_state s r d p) = Inr st"
  shows "log_ok st"
  using r f commit_event_keeps [OF c]
  by (auto simp: log_ok_def replayable_def fresh_event_def next_sequence_def u64_max_def)

lemma run_built_log: "run_built env st \<Longrightarrow> log_ok st"
  by (induction rule: run_built.induct) (blast intro: log_ok_first log_ok_append)+

lemma run_built_version: "run_built env st \<Longrightarrow> rs_schema_version st = DURABILITY_SCHEMA_VERSION"
  by (induction rule: run_built.induct) (auto dest: commit_event_keeps)

subsection \<open>Closure under append, replay and the interface\<close>

lemma run_built_run_append: "run_built env st \<Longrightarrow> run_append env ev st = Inr st' \<Longrightarrow> run_built env st'"
  by (erule run_append_Inr) (auto intro: run_built.append)

lemma run_built_foldR: "run_built env st \<Longrightarrow> foldR (run_append env) es st = Inr st' \<Longrightarrow> run_built env st'"
  by (induction es arbitrary: st) (auto simp: result_simps intro: run_built_run_append)

lemma current_replayable: "log_ok st \<Longrightarrow> ev_schema_version ev = DURABILITY_SCHEMA_VERSION \<Longrightarrow> replayable ev st"
  by (auto simp: log_ok_def replayable_def is_supported_durability_schema_version_def schema_version_defs)

lemma run_built_append_event:
  assumes "run_built env st" and "append_event env ev st = (Inr oc, st')"
  shows "run_built env st'"
proof -
  from assms(2) have v: "ev_schema_version ev = DURABILITY_SCHEMA_VERSION"
    and a: "append_validated_event env ev st = (Inr oc, st')" by (auto simp: append_event_iff)
  have "replayable ev st" using run_built_log [OF assms(1)] v by (rule current_replayable)
  with a assms(1) show ?thesis
    by (auto elim!: append_validated_Inr intro: run_built.append)
qed

interpretation built: append_invariant env "\<lambda>_ _. True" "run_built env" for env
  by unfold_locales (auto dest: run_built_append_event)

lemma run_built_emit_blank:
  assumes "validate_identifier ''session_id'' s = Inr ()" and "validate_identifier ''run_id'' r = Inr ()"
    and "emit env i k (blank_state s r d p) = (Inr oc, st)"
  shows "run_built env st"
  using assms(3)
proof (cases rule: emit_Inr)
  case (dedup old)
  then show ?thesis by (simp add: event_by_id_def)
next
  case appended
  have "replayable (emitted (blank_state s r d p) i k) (blank_state s r d p)"
    by (simp add: replayable_def is_supported_durability_schema_version_def schema_version_defs)
  with assms(1,2) appended show ?thesis by (blast intro: run_built.first)
qed

lemma run_built_new: "rs_new env s r d = Inr st \<Longrightarrow> run_built env st"
  by (auto simp: rs_new_def Let_def result_simps intro: run_built_emit_blank)

lemma run_built_new_governed: "new_with_governance_binding env s r d b = Inr st \<Longrightarrow> run_built env st"
  by (auto simp: new_with_governance_binding_def result_simps split: if_splits
      intro: built.emit_plain plain_kinds dest: run_built_new)

lemma run_built_new_snapshot: "new_with_policy_snapshot env s r d p = Inr st \<Longrightarrow> run_built env st"
  by (auto simp: new_with_policy_snapshot_def result_simps intro: run_built_new_governed)

lemma run_built_from_events:
  assumes "from_events env es = Inr st"
  shows "run_built env st"
proof -
  from assms obtain e es' s0 where es: "es = e # es'" and s0: "run_start env e = Inr s0"
    and f: "foldR (run_append env) es s0 = Inr st"
    by (auto simp: from_events_fold result_simps split: list.splits)
  from f es obtain s1 where s1: "run_append env e s0 = Inr s1" and rest: "foldR (run_append env) es' s1 = Inr st"
    by (auto simp: result_simps)
  from s0 have "\<exists>s d. s0 = blank_state s (ev_run_id e) d (projection_root env (ev_run_id e))
      \<and> validate_identifier ''session_id'' s = Inr () \<and> validate_identifier ''run_id'' (ev_run_id e) = Inr ()"
    by (rule run_start_blank) blast
  with s1 have "run_built env s1"
    by (auto elim!: run_append_Inr simp: event_by_id_def intro: run_built.first)
  from run_built_foldR [OF this rest] show ?thesis .
qed

text \<open>The identifiers of a run stay those its first event was checked with.\<close>

lemma run_built_identifiers:
  "run_built env st \<Longrightarrow> validate_identifier ''session_id'' (rs_session_id st) = Inr ()
     \<and> validate_identifier ''run_id'' (rs_run_id st) = Inr ()"
  by (induction rule: run_built.induct) (auto dest: commit_event_keeps)

lemma validate_identifier_field:
  "validate_identifier f v = Inr () \<longleftrightarrow> validate_identifier g v = Inr ()"
  by (simp add: validate_identifier_def)

lemma run_built_build_fork:
  assumes "run_built env st" and "validate_identifier ''new_run_id'' r = Inr ()"
    and "build_fork env st r cp b cmd = Inr f"
  shows "run_built env f"
proof -
  from assms(2) have r: "validate_identifier ''run_id'' r = Inr ()" using validate_identifier_field by blast
  from assms(3) obtain oc f0 where f0: "emit env (event_id_of env [r, ''forked_from'', cmd])
      (ForkedFrom (rs_session_id st) (rs_run_id st) (rs_durability st) cp b)
      (blank_state (rs_session_id st) r (rs_durability st) (fork_projection env cp r b)) = (Inr oc, f0)"
    by (auto simp: build_fork_def result_simps)
  have "run_built env f0" using run_built_identifiers [OF assms(1)] r f0 by (blast intro: run_built_emit_blank)
  with assms(3) f0 show ?thesis
    by (auto simp: build_fork_def result_simps split: option.splits intro: built.emit_plain plain_kinds)
qed

lemma fork_result:
  assumes "fork env cmd r cpid ack st = (Inr (Forked f), st')"
  shows "validate_identifier ''new_run_id'' r = Inr () \<and> r \<noteq> rs_run_id st
    \<and> (st' = st \<or> (\<exists>i k oc. plain_kind k \<and> emit env i k st = (Inr oc, st')))
    \<and> (\<exists>cp b. source_checkpoint env st cpid = Inr cp \<and> build_fork env st' r cp b cmd = Inr f)"
proof (cases "event_by_id st (event_id_of env [rs_run_id st, ''fork'', cmd])")
  case None
  with assms show ?thesis by (auto simp: fork_def Let_def result_simps split: if_splits intro: plain_kinds)
next
  case (Some old)
  with assms obtain cp where cp: "validate_identifier ''new_run_id'' r = Inr ()" "r \<noteq> rs_run_id st"
    "source_checkpoint env st cpid = Inr cp"
    by (auto simp: fork_def Let_def result_simps split: if_splits)
  with assms Some show ?thesis
    by (cases "ev_kind old") (auto simp: fork_def Let_def result_simps split: if_splits)
qed

lemma run_built_fork:
  assumes "run_built env st" and "fork env cmd r cpid ack st = (Inr (Forked f), st')"
  shows "run_built env f"
proof -
  from fork_result [OF assms(2)] assms(1) have "run_built env st'" by (auto intro: built.emit_plain)
  with fork_result [OF assms(2)] show ?thesis by (auto intro: run_built_build_fork)
qed

lemma api_reach_built: "api_reach env st \<Longrightarrow> run_built env st"
  by (induction rule: run_reached.induct)
    (auto intro: run_built_new run_built_new_governed run_built_new_snapshot run_built_fork
      built.run_step_keeps)

subsection \<open>Replay of the log\<close>

text \<open>The first event fixes durability and projection, whatever the blank state held.\<close>

lemma commit_first_blank:
  "commit_event env ev (blank_state s r d p) = commit_event env ev (blank_state s r d' p')"
  by (cases "ev_kind ev")
    (simp_all add: commit_event_def apply_event_in_place_def apply_first_event_def apply_run_started_def
      apply_forked_from_def blank_state_def bindR_def split: sum.splits)

lemma first_identity:
  assumes "commit_event env ev (blank_state s r d p) = Inr st"
  obtains d' where "first_event_identity ev = Inr (s, d')"
proof -
  from assms obtain c where "apply_first_event env ev (blank_state s r d p) = Inr c"
    by (auto simp: commit_event_Inr apply_event_in_place_def)
  then show thesis by (cases rule: apply_first_Inr) (use that in \<open>auto simp: first_event_identity_def\<close>)
qed

lemma run_built_rebuild:
  "run_built env st \<Longrightarrow> \<exists>e es s0. rs_events st = e # es \<and> run_start env e = Inr s0
     \<and> foldR (run_append env) (rs_events st) s0 = Inr st"
proof (induction rule: run_built.induct)
  case (first s r ev d p st)
  from first_identity [OF first(5)] obtain d' where "first_event_identity ev = Inr (s, d')" .
  moreover from first(4) have "ev_run_id ev = r" by (simp add: fresh_event_def)
  ultimately have start: "run_start env ev = Inr (blank_state s r d' (projection_root env r))"
    using first(1,2) by (simp add: run_start_def)
  have "replayable ev (blank_state s r d' (projection_root env r))"
    "fresh_event ev (blank_state s r d' (projection_root env r))"
    using first(3,4) by (simp_all add: replayable_def fresh_event_def event_by_id_def next_sequence_def)
  moreover from first(5) have "commit_event env ev (blank_state s r d' (projection_root env r)) = Inr st"
    by (subst commit_first_blank) assumption
  ultimately have "run_append env ev (blank_state s r d' (projection_root env r)) = Inr st"
    by (rule run_append_fresh)
  with start commit_event_keeps(4) [OF first(5)] show ?case by simp
next
  case (append st ev st')
  then obtain e es s0 where h: "rs_events st = e # es" "run_start env e = Inr s0"
    "foldR (run_append env) (rs_events st) s0 = Inr st" by blast
  have "run_append env ev st = Inr st'" using append by (blast intro: run_append_fresh)
  from run_journal.rebuild_step [OF h(2,3,1) this] h(2) show ?case by blast
qed

lemma run_built_replay:
  assumes "run_built env st"
  shows "from_events env (rs_events st) = Inr st"
proof -
  from run_built_rebuild [OF assms] obtain e es s0 where h: "rs_events st = e # es" "run_start env e = Inr s0"
    "foldR (run_append env) (rs_events st) s0 = Inr st" by blast
  from h have "from_events env (e # es) = Inr st" by (simp add: from_events_fold)
  with h(1) show ?thesis by simp
qed

lemma run_built_iff: "run_built env st \<longleftrightarrow> from_events env (rs_events st) = Inr st"
  using run_built_replay run_built_from_events by blast

lemma run_built_deserialize:
  assumes "run_built env st"
  shows "deserialize_run_state env st = Inr st"
proof -
  have "\<not> list_ex (\<lambda>e. ev_schema_version e > rs_schema_version st) (rs_events st)"
    using run_built_log [OF assms] run_built_version [OF assms]
    by (auto simp: list_ex_iff log_ok_def is_supported_durability_schema_version_def)
  then show ?thesis
    using run_built_replay [OF assms] run_built_version [OF assms]
    by (simp add: deserialize_run_state_def is_supported_durability_schema_version_def schema_version_defs)
qed

end
