(* ===== verification/DurInv.thy ===== *)
theory DurInv
  imports DurReplay
begin

text \<open>
  The structural invariant of a run: every map is keyed by the identity of its values, every
  activity carries the hash of its input and a well-formed attempt history, every artifact an
  unbroken version chain, every approval a consistent resolution, and every checkpoint a
  projection with the same properties. It holds for every log that replay accepts.
\<close>

subsection \<open>The invariant\<close>

definition attempts_ok :: "durable_env \<Rightarrow> activity_attempt list \<Rightarrow> bool" where
  "attempts_ok env xs \<longleftrightarrow> (\<forall>a \<in> set xs. attempt_payload_ok env a)
     \<and> (\<forall>i < length xs. at_attempt (xs ! i) = wrapping_add_u32 (as_u32 i) 1)
     \<and> (\<forall>i. Suc i < length xs \<longrightarrow> at_status (xs ! i) \<noteq> AtRunning)"

definition record_ok :: "durable_env \<Rightarrow> string \<Rightarrow> activity_record \<Rightarrow> bool" where
  "record_ok env k r \<longleftrightarrow> ad_activity_id (ar_definition r) = k
     \<and> stable_input_hash env (ad_input (ar_definition r)) = ad_input_hash (ar_definition r)
     \<and> (ad_side_effect_class (ar_definition r) = Idempotent \<longrightarrow> \<not> key_missing (ad_idempotency_key (ar_definition r)))
     \<and> attempts_ok env (ar_attempts r)"

definition activities_ok :: "durable_env \<Rightarrow> activity_record btree \<Rightarrow> bool" where
  "activities_ok env m \<longleftrightarrow> bt_ok m \<and> (\<forall>k r. bt_get m k = Some r \<longrightarrow> record_ok env k r)"

definition approval_ok :: "string \<Rightarrow> durable_approval \<Rightarrow> bool" where
  "approval_ok k a \<longleftrightarrow> ap_approval_id a = k \<and> ap_requested_sequence a \<noteq> 0
     \<and> (ap_status a = Pending \<longleftrightarrow> ap_resolved_sequence a = None)
     \<and> (ap_status a = Pending \<longrightarrow> ap_resolved_at a = None \<and> \<not> ap_timed_out a)"

definition approvals_ok :: "durable_approval btree \<Rightarrow> bool" where
  "approvals_ok m \<longleftrightarrow> bt_ok m \<and> (\<forall>k a. bt_get m k = Some a \<longrightarrow> approval_ok k a)"

definition version_chain :: "artifact_metadata list \<Rightarrow> bool" where
  "version_chain vs \<longleftrightarrow> (\<forall>i < length vs. am_version (vs ! i) = (i + 1) mod 2 ^ 64
     \<and> am_previous_version_id (vs ! i) = (if i = 0 then None else Some (am_version_id (vs ! (i - 1)))))"

definition artifact_ok :: "string \<Rightarrow> artifact_metadata list \<Rightarrow> bool" where
  "artifact_ok k vs \<longleftrightarrow> vs \<noteq> [] \<and> (\<forall>m \<in> set vs. am_artifact_id m = k) \<and> version_chain vs"

definition artifacts_ok :: "artifact_metadata list btree \<Rightarrow> bool" where
  "artifacts_ok m \<longleftrightarrow> bt_ok m \<and> (\<forall>k vs. bt_get m k = Some vs \<longrightarrow> artifact_ok k vs)"

definition proj_ok :: "durable_env \<Rightarrow> run_projection \<Rightarrow> bool" where
  "proj_ok env p \<longleftrightarrow> activities_ok env (pj_activities p) \<and> approvals_ok (pj_approvals p)
     \<and> artifacts_ok (pj_artifacts p)"

definition lease_ok :: "worker_lease option \<Rightarrow> bool" where
  "lease_ok l = (case l of None \<Rightarrow> True
     | Some l \<Rightarrow> wl_acquired_at l \<le> wl_heartbeat_at l \<and> wl_heartbeat_at l < wl_expires_at l
         \<and> wl_expires_at l \<le> wl_heartbeat_at l + MAX_DURABLE_WORKER_LEASE_MS)"

definition checkpoints_ok :: "durable_env \<Rightarrow> checkpoint btree \<Rightarrow> bool" where
  "checkpoints_ok env m \<longleftrightarrow> bt_ok m
     \<and> (\<forall>k cp. bt_get m k = Some cp \<longrightarrow> cp_checkpoint_id cp = k \<and> proj_ok env (cp_projection cp))"

definition state_ok :: "durable_env \<Rightarrow> run_state \<Rightarrow> bool" where
  "state_ok env st \<longleftrightarrow> proj_ok env (rs_projection st) \<and> lease_ok (st_lease st)
     \<and> checkpoints_ok env (rs_checkpoints st)"

text \<open>What the types of the source guarantee of a decoded event: the maps of an imported
  checkpoint are BTreeMaps.\<close>

definition typed_event :: "run_event \<Rightarrow> bool" where
  "typed_event ev = (case ev_kind ev of
     ForkedFrom _ _ _ cp _ \<Rightarrow> bt_ok (pj_activities (cp_projection cp))
       \<and> bt_ok (pj_approvals (cp_projection cp)) \<and> bt_ok (pj_artifacts (cp_projection cp))
   | _ \<Rightarrow> True)"

subsection \<open>Attempt histories\<close>

lemma attempts_ok_Nil [simp]: "attempts_ok env []"
  by (simp add: attempts_ok_def)

lemma attempts_ok_push:
  assumes "attempts_ok env xs" and "attempt_payload_ok env a"
    and "at_attempt a = wrapping_add_u32 (as_u32 (length xs)) 1"
    and "xs \<noteq> [] \<Longrightarrow> at_status (last xs) \<noteq> AtRunning"
  shows "attempts_ok env (xs @ [a])"
proof -
  have "at_status ((xs @ [a]) ! i) \<noteq> AtRunning" if "Suc i < length (xs @ [a])" for i
  proof (cases "Suc i < length xs")
    case True
    with assms(1) show ?thesis by (simp add: attempts_ok_def nth_append)
  next
    case False
    with that have i: "i = length xs - 1" "xs \<noteq> []" by auto
    with assms(4) show ?thesis by (simp add: nth_append last_conv_nth)
  qed
  moreover have "at_attempt ((xs @ [a]) ! i) = wrapping_add_u32 (as_u32 i) 1" if "i < length (xs @ [a])" for i
    using assms(1,3) that by (auto simp: attempts_ok_def nth_append less_Suc_eq)
  ultimately show ?thesis using assms(1,2) by (auto simp: attempts_ok_def)
qed

lemma update_first_nth:
  "i < length xs \<Longrightarrow> update_first p f xs ! i = xs ! i
     \<or> (List.find p xs = Some (xs ! i) \<and> update_first p f xs ! i = f (xs ! i))"
proof (induction xs arbitrary: i)
  case (Cons x xs)
  then show ?case by (cases i) auto
qed simp

lemma attempts_ok_step:
  assumes ok: "attempts_ok env xs" and a: "List.find (\<lambda>a. at_attempt a = k) xs = Some a"
    and s: "attempt_step env w n a (f a)"
  shows "attempts_ok env (update_first (\<lambda>a. at_attempt a = k) f xs)"
proof -
  let ?ys = "update_first (\<lambda>a. at_attempt a = k) f xs"
  have each: "?ys ! i = xs ! i \<or> xs ! i = a \<and> ?ys ! i = f a" if "i < length xs" for i
    using update_first_nth [OF that] a by fastforce
  have pay: "attempt_payload_ok env (f a)"
    using attempt_step_payload [OF s] ok find_SomeD [OF a] by (auto simp: attempts_ok_def)
  have "attempt_payload_ok env y" if "y \<in> set ?ys" for y
  proof -
    from that obtain i where "i < length xs" "y = ?ys ! i" by (metis in_set_conv_nth length_update_first)
    with each [of i] ok pay show ?thesis by (auto simp: attempts_ok_def)
  qed
  moreover have "at_attempt (?ys ! i) = wrapping_add_u32 (as_u32 i) 1" if "i < length xs" for i
    using each [OF that] ok that attempt_step_number [OF s] by (auto simp: attempts_ok_def)
  moreover have "at_status (?ys ! i) \<noteq> AtRunning" if "Suc i < length xs" for i
    using each [of i] ok that attempt_step_not_running [OF s] by (auto simp: attempts_ok_def)
  ultimately show ?thesis by (simp add: attempts_ok_def)
qed

lemma wrapping_one [simp]: "wrapping_add_u32 (as_u32 0) (Suc 0) = Suc 0"
  by (simp add: wrapping_add_u32_def as_u32_def)

lemma may_start_last:
  "may_start r \<Longrightarrow> ar_attempts r \<noteq> [] \<Longrightarrow> at_status (last (ar_attempts r)) = AtFailed"
  by (auto simp: may_start_def latest_attempt_def last_opt_def)

lemma bt_get_modify: "bt_get (bt_modify k f m) k' = (if k' = k then map_option f (bt_get m k) else bt_get m k')"
  by (rule bt.lookup_modify)

lemma activities_ok_modify:
  assumes "activities_ok env m" and "bt_get m i = Some r" and "record_ok env i (f r)"
  shows "activities_ok env (bt_modify i f m)"
  using assms by (auto simp: activities_ok_def bt_get_modify bt.invar_modify)

lemma activities_ok_retain:
  assumes "activities_ok env m"
  shows "activities_ok env (bt_retain q m)"
  using assms bt.retain_subset [of m q] by (auto simp: activities_ok_def bt.invar_retain)

subsection \<open>Imported projections\<close>

lemma fork_projection_fields [simp]:
  "pj_approvals (fork_projection h cp r b) = pj_approvals (cp_projection cp)"
  "pj_artifacts (fork_projection h cp r b) = pj_artifacts (cp_projection cp)"
  "pj_branch_id (fork_projection h cp r b) = b"
  "pj_worker_lease (fork_projection h cp r b) = None"
  "pj_state (fork_projection h cp r b) = pj_state (cp_projection cp)"
  "pj_current_checkpoint_id (fork_projection h cp r b) = Some (cp_checkpoint_id cp)"
  by (simp_all add: fork_projection_def Let_def)

lemma fork_projection_activities:
  "\<exists>q. pj_activities (fork_projection h cp r b) = bt_retain q (pj_activities (cp_projection cp))"
  by (auto simp: fork_projection_def Let_def)

lemma proj_ok_fork: "proj_ok env (cp_projection cp) \<Longrightarrow> proj_ok env (fork_projection h cp r b)"
  using fork_projection_activities [of h cp r b] by (auto simp: proj_ok_def activities_ok_retain)

lemma expected_attempt:
  assumes "Option.bind (u32_try_from i) (\<lambda>v. if v + 1 \<le> u32_max then Some (v + 1) else None) = Some n"
  shows "n = wrapping_add_u32 (as_u32 i) 1"
  using assms by (auto simp: u32_try_from_def u32_max_def wrapping_add_u32_def as_u32_def split: if_splits)

lemma validate_attempt_Inr:
  assumes "validate_attempt env r (i, a) = Inr ()"
  shows "at_attempt a = wrapping_add_u32 (as_u32 i) 1" and "attempt_payload_ok env a"
    and "Suc i < length (ar_attempts r) \<Longrightarrow> at_status a = AtFailed"
  using assms expected_attempt
  by (auto simp: validate_attempt_def split: option.splits if_splits)

lemma validate_activity_entry_ok:
  assumes "validate_activity_entry env (k, r) = Inr ()"
  shows "record_ok env k r"
proof -
  from assms have v: "\<forall>x \<in> set (enumerate 0 (ar_attempts r)). validate_attempt env r x = Inr ()"
    and d: "ad_activity_id (ar_definition r) = k"
      "stable_input_hash env (ad_input (ar_definition r)) = ad_input_hash (ar_definition r)"
      "ad_side_effect_class (ar_definition r) = Idempotent \<longrightarrow> \<not> key_missing (ad_idempotency_key (ar_definition r))"
    by (auto simp: validate_activity_entry_def Let_def result_simps split: if_splits)
  have each: "validate_attempt env r (i, ar_attempts r ! i) = Inr ()" if "i < length (ar_attempts r)" for i
    using v that by (auto simp: in_set_enumerate_eq)
  have "attempts_ok env (ar_attempts r)"
    unfolding attempts_ok_def
  proof (intro conjI ballI allI impI)
    fix a assume "a \<in> set (ar_attempts r)"
    then obtain i where "i < length (ar_attempts r)" "a = ar_attempts r ! i" by (metis in_set_conv_nth)
    with validate_attempt_Inr(2) [OF each] show "attempt_payload_ok env a" by simp
  next
    fix i assume "i < length (ar_attempts r)"
    from validate_attempt_Inr(1) [OF each [OF this]]
    show "at_attempt (ar_attempts r ! i) = wrapping_add_u32 (as_u32 i) 1" .
  next
    fix i assume "Suc i < length (ar_attempts r)"
    with validate_attempt_Inr(3) [OF each [of i]] show "at_status (ar_attempts r ! i) \<noteq> AtRunning" by simp
  qed
  with d show ?thesis by (simp add: record_ok_def)
qed

lemma validate_approval_entry_ok: "validate_approval_entry (k, a) = Inr () \<Longrightarrow> approval_ok k a"
  by (auto simp: validate_approval_entry_def approval_ok_def result_simps split: if_splits)

lemma validate_artifact_entry_ok:
  assumes "validate_artifact_entry (k, vs) = Inr ()"
  shows "artifact_ok k vs"
proof -
  from assms have v: "\<forall>x \<in> set (enumerate 0 vs). validate_version vs x = Inr ()"
    and d: "vs \<noteq> []" "\<forall>m \<in> set vs. am_artifact_id m = k"
    by (auto simp: validate_artifact_entry_def list_ex_iff result_simps split: if_splits)
  have "am_version (vs ! i) = (i + 1) mod 2 ^ 64
     \<and> am_previous_version_id (vs ! i) = (if i = 0 then None else Some (am_version_id (vs ! (i - 1))))"
    if "i < length vs" for i
  proof -
    from v that have "validate_version vs (i, vs ! i) = Inr ()" by (auto simp: in_set_enumerate_eq)
    then show ?thesis
      by (cases i) (auto simp: validate_version_def checked_sub_def u64_max_def split: if_splits)
  qed
  with d show ?thesis by (simp add: artifact_ok_def version_chain_def)
qed

lemma bt_get_entry: "bt_get m k = Some v \<Longrightarrow> (k, v) \<in> set m"
  by (simp add: bt_get_def map_of_SomeD)

lemma imported_proj_ok:
  assumes "validate_source_checkpoint env r src cp = Inr ()"
    and "bt_ok (pj_activities (cp_projection cp))" and "bt_ok (pj_approvals (cp_projection cp))"
    and "bt_ok (pj_artifacts (cp_projection cp))"
  shows "proj_ok env (cp_projection cp)"
proof -
  from assms(1) have "validate_projection_keyed_identities env (cp_projection cp) = Inr ()"
    by (auto simp: validate_source_checkpoint_def result_simps split: if_splits)
  then have v: "\<forall>x \<in> set (pj_activities (cp_projection cp)). validate_activity_entry env x = Inr ()"
    "\<forall>x \<in> set (pj_approvals (cp_projection cp)). validate_approval_entry x = Inr ()"
    "\<forall>x \<in> set (pj_artifacts (cp_projection cp)). validate_artifact_entry x = Inr ()"
    by (auto simp: validate_projection_keyed_identities_def result_simps)
  show ?thesis
    unfolding proj_ok_def activities_ok_def approvals_ok_def artifacts_ok_def
    using assms(2-4) v
    by (blast dest: bt_get_entry intro: validate_activity_entry_ok validate_approval_entry_ok
        validate_artifact_entry_ok)
qed

subsection \<open>Preservation, field by field\<close>

text \<open>A checkpoint in its form for the current run.\<close>

lemma source_checkpoint_ok:
  assumes "checkpoints_ok env (rs_checkpoints st)" and "source_checkpoint env st i = Inr cp"
  shows "proj_ok env (cp_projection cp)"
  using assms
  by (auto simp: source_checkpoint_def checkpoint_by_id_def checkpoint_for_current_run_def checkpoints_ok_def
      result_simps split: if_splits list.splits event_kind.splits intro!: proj_ok_fork)

lemma activities_ok_apply:
  assumes ok: "activities_ok env (st_activities st)" "checkpoints_ok env (rs_checkpoints st)"
    and a: "apply_later_event env ev st = Inr c"
  shows "activities_ok env (st_activities c)"
  using a
proof (cases rule: activities_step)
  case same
  with ok show ?thesis by simp
next
  case (scheduled d)
  with ok(1) show ?thesis
    by (auto simp: activities_ok_def record_ok_def bt.lookup_insert bt.invar_insert)
next
  case (started i r)
  let ?a = "running_attempt (wrapping_add_u32 (as_u32 (length (ar_attempts r))) 1) (ev_sequence ev)"
  from ok(1) started(3) have r: "record_ok env i r" by (simp add: activities_ok_def)
  then have "attempts_ok env (ar_attempts r @ [?a])"
    using may_start_last [OF started(4)]
    by (intro attempts_ok_push) (auto simp: record_ok_def running_attempt_def attempt_payload_ok_def)
  with r have "record_ok env i (push ?a r)" by (simp add: record_ok_def)
  from activities_ok_modify [OF ok(1) started(3), of "push ?a", OF this] started(5) show ?thesis by simp
next
  case (orphaned i r reason)
  let ?a = "quarantined_attempt 1 (ev_sequence ev) reason"
  from ok(1) orphaned(2) have r: "record_ok env i r" by (simp add: activities_ok_def)
  have "attempts_ok env (ar_attempts r @ [?a])"
    using orphaned(3) by (intro attempts_ok_push) (simp_all, simp add: quarantined_attempt_def)
  with r have "record_ok env i (push ?a r)" by (simp add: record_ok_def)
  from activities_ok_modify [OF ok(1) orphaned(2), of "push ?a", OF this] orphaned(6) show ?thesis by simp
next
  case (stepped i k r a f w)
  from ok(1) stepped(1) have r: "record_ok env i r" by (simp add: activities_ok_def)
  with attempts_ok_step [of env "ar_attempts r" k a w _ f, OF _ stepped(2,4)] have "record_ok env i (step_attempt k f r)"
    by (simp add: record_ok_def)
  from activities_ok_modify [OF ok(1) stepped(1), of "step_attempt k f", OF this] stepped(7)
  show ?thesis by simp
next
  case (rewound i b ack cp)
  have "proj_ok env (fork_projection env cp (rs_run_id st) b)"
    by (intro proj_ok_fork source_checkpoint_ok [OF ok(2) rewound(2)])
  with rewound(4) show ?thesis by (simp add: proj_ok_def)
qed

lemma approvals_ok_apply:
  assumes ok: "approvals_ok (st_approvals st)" "checkpoints_ok env (rs_checkpoints st)"
    and a: "apply_later_event env ev st = Inr c" and n: "ev_sequence ev \<noteq> 0"
  shows "approvals_ok (st_approvals c)"
  using a
proof (cases rule: approvals_step)
  case same
  with ok show ?thesis by simp
next
  case (requested i lk a prompt payload d)
  with ok(1) n show ?thesis
    by (auto simp: approvals_ok_def approval_ok_def requested_approval_def bt.lookup_insert bt.invar_insert)
next
  case (resolved i approved response a d)
  with ok(1) show ?thesis
    by (auto simp: approvals_ok_def approval_ok_def resolved_approval_def bt_get_modify bt.invar_modify)
next
  case (rewound i b ack cp)
  from source_checkpoint_ok [OF ok(2) rewound(2)] rewound(4) show ?thesis by (simp add: proj_ok_def)
qed

lemma version_chain_push:
  assumes "version_chain vs" and "am_version m = expected_version vs"
    and "am_previous_version_id m = map_option am_version_id (last_opt vs)"
  shows "version_chain (vs @ [m])"
proof -
  have "am_version m = (length vs + 1) mod 2 ^ 64
      \<and> am_previous_version_id m = (if length vs = 0 then None else Some (am_version_id (vs ! (length vs - 1))))"
  proof (cases "vs = []")
    case True
    with assms(2,3) show ?thesis by (simp add: expected_version_def)
  next
    case False
    with assms(1) have "am_version (last vs) = length vs mod 2 ^ 64"
      by (simp add: version_chain_def last_conv_nth)
    with False assms(2,3) show ?thesis
      by (simp add: expected_version_def last_opt_def wrapping_add_u64_def last_conv_nth mod_Suc_eq)
  qed
  with assms(1) show ?thesis by (auto simp: version_chain_def nth_append less_Suc_eq)
qed

lemma artifacts_ok_apply:
  assumes ok: "artifacts_ok (pj_artifacts (rs_projection st))" "checkpoints_ok env (rs_checkpoints st)"
    and a: "apply_later_event env ev st = Inr c"
  shows "artifacts_ok (pj_artifacts (rs_projection c))"
  using a
proof (cases rule: artifacts_step)
  case same
  with ok show ?thesis by simp
next
  case (published m)
  let ?vs = "artifact_versions st (am_artifact_id m)"
  from ok(1) have "version_chain ?vs \<and> (\<forall>x \<in> set ?vs. am_artifact_id x = am_artifact_id m)"
    by (auto simp: artifact_versions_def artifacts_ok_def artifact_ok_def version_chain_def split: option.split)
  with version_chain_push [of ?vs m] published(3,4) have "artifact_ok (am_artifact_id m) (?vs @ [m])"
    by (auto simp: artifact_ok_def)
  with ok(1) published(5) show ?thesis
    by (auto simp: artifacts_ok_def bt.lookup_insert bt.invar_insert)
next
  case (rewound i b ack cp)
  from source_checkpoint_ok [OF ok(2) rewound(2)] rewound(3) show ?thesis by (simp add: proj_ok_def)
qed

lemma validate_window_Inr [result_simps]:
  "validate_worker_lease_window t x = Inr u \<longleftrightarrow> t < x \<and> x \<le> t + MAX_DURABLE_WORKER_LEASE_MS"
  by (auto simp: validate_worker_lease_window_def checked_sub_def split: if_splits option.splits)

lemma lease_ok_apply:
  assumes "lease_ok (st_lease st)" and "apply_later_event env ev st = Inr c"
  shows "lease_ok (st_lease c)"
  using assms(2)
proof (cases rule: lease_step)
  case (claimed w l t x)
  then show ?thesis by (auto simp: lease_ok_def fresh_lease_def result_simps)
next
  case (renewed w l t x l0)
  with assms(1) show ?thesis by (auto simp: lease_ok_def result_simps)
qed (use assms(1) in \<open>simp_all add: lease_ok_def\<close>)

lemma checkpoints_ok_apply:
  assumes "proj_ok env (rs_projection st)" and "checkpoints_ok env (rs_checkpoints st)"
    and "apply_later_event env ev st = Inr c"
  shows "checkpoints_ok env (rs_checkpoints c)"
  using assms(3)
proof (cases rule: checkpoints_step)
  case (committed i label)
  with assms(1,2) show ?thesis
    by (auto simp: checkpoints_ok_def new_checkpoint_def bt.lookup_insert bt.invar_insert)
qed (use assms(2) in simp)

lemma state_ok_apply:
  assumes "state_ok env st" and "apply_later_event env ev st = Inr c" and "ev_sequence ev \<noteq> 0"
  shows "state_ok env c"
  using assms activities_ok_apply approvals_ok_apply artifacts_ok_apply lease_ok_apply checkpoints_ok_apply
  unfolding state_ok_def proj_ok_def by blast

subsection \<open>Every built run satisfies it\<close>

lemma state_ok_first:
  assumes "apply_event_in_place env ev (blank_state s r d p) = Inr c" and "typed_event ev"
  shows "state_ok env c"
  using assms(1) [unfolded apply_event_in_place_def, simplified]
proof (cases rule: apply_first_Inr)
  case (started s' d' b)
  then show ?thesis
    by (simp add: state_ok_def proj_ok_def projection_root_def activities_ok_def approvals_ok_def
        artifacts_ok_def lease_ok_def checkpoints_ok_def bt.invar_empty)
next
  case (forked s' src d' cp b)
  with assms(2) have p: "proj_ok env (cp_projection cp)" by (auto simp: typed_event_def intro: imported_proj_ok)
  from forked(4) p show ?thesis
    by (auto simp: state_ok_def proj_ok_fork lease_ok_def checkpoints_ok_def bt_get_def bt_ok_def
        split: if_splits)
qed

lemma state_ok_push [simp]: "state_ok env (c\<lparr>rs_events := es\<rparr>) = state_ok env c"
  by (simp add: state_ok_def)

lemma next_sequence_pos: "next_sequence st \<noteq> 0"
  by (auto simp: next_sequence_def saturating_add_def u64_max_def split: option.split)

lemma state_ok_commit:
  assumes "state_ok env st" and "rs_events st \<noteq> []" and "fresh_event ev st"
    and "commit_event env ev st = Inr st'"
  shows "state_ok env st'"
proof -
  from assms(2,4) obtain c where c: "apply_later_event env ev st = Inr c" "st' = c\<lparr>rs_events := rs_events c @ [ev]\<rparr>"
    by (auto simp: commit_event_Inr apply_event_in_place_def)
  have "ev_sequence ev \<noteq> 0" using assms(3) next_sequence_pos [of st] by (simp add: fresh_event_def)
  from state_ok_apply [OF assms(1) c(1) this] c(2) show ?thesis by simp
qed

lemma run_built_state_ok:
  "run_built env st \<Longrightarrow> \<forall>e \<in> set (rs_events st). typed_event e \<Longrightarrow> state_ok env st"
proof (induction rule: run_built.induct)
  case (first s r ev d p st)
  from first.prems commit_event_keeps(4) [OF first.hyps(5)] have "typed_event ev" by simp
  with first.hyps(5) show ?case by (auto simp: commit_event_Inr intro: state_ok_first)
next
  case (append st ev st')
  from append.prems commit_event_keeps(4) [OF append.hyps(4)] have "\<forall>e \<in> set (rs_events st). typed_event e"
    by simp
  with append.IH have "state_ok env st" by blast
  moreover have "rs_events st \<noteq> []" using run_built_log [OF append.hyps(1)] by (simp add: log_ok_def)
  ultimately show ?case using append.hyps by (blast intro: state_ok_commit)
qed

end
