(* ===== verification/DurProto.thy ===== *)
theory DurProto
  imports DurInv
begin

text \<open>
  The protocol invariants of a run that is driven through its public interface, beyond the
  structural invariant. \<open>run_ok\<close> holds for every reachable run: an ended run has no running attempt, and
  no approval was granted after its deadline. \<open>orderly_ok\<close> holds when callers of \<open>append\_event\<close> build
  checkpoints only where the operation would: an executing or paused run has no activity that waits
  for reconciliation. Both hold for the checkpoints a run can be forked from or rewound to.
\<close>

definition quiet :: "activity_record btree \<Rightarrow> bool" where
  "quiet m \<longleftrightarrow> (\<forall>k r. bt_get m k = Some r \<longrightarrow> \<not> latest_is AtReconcileRequired r)"

definition calm :: "run_projection \<Rightarrow> bool" where
  "calm p \<longleftrightarrow> (pj_status p = RunRunning \<or> pj_status p = RunPausedSt) \<and> quiet (pj_activities p)"

definition no_running :: "activity_record btree \<Rightarrow> bool" where
  "no_running m \<longleftrightarrow> (\<forall>k r. bt_get m k = Some r \<longrightarrow> \<not> has_running_attempt r)"

definition clock_ok :: "durable_approval \<Rightarrow> bool" where
  "clock_ok a \<longleftrightarrow>
     (case (ap_requested_at a, ap_expires_at a) of
        (Some q, Some x) \<Rightarrow> q < x
          \<and> (ap_status a = Approved \<longrightarrow> \<not> ap_timed_out a \<and> (\<exists>t. ap_resolved_at a = Some t \<and> q \<le> t \<and> t < x))
          \<and> (ap_timed_out a \<longrightarrow> ap_status a = Rejected \<and> (\<exists>t. ap_resolved_at a = Some t \<and> x \<le> t))
      | (None, None) \<Rightarrow> ap_kind a = Confirmation \<and> \<not> ap_timed_out a
      | _ \<Rightarrow> False)
     \<and> (ap_status a = Approved \<longrightarrow>
          (ap_kind a = MissingInput \<longrightarrow> (\<exists>v. ap_response a = Some v \<and> \<not> is_null v))
          \<and> (ap_kind a = EditRetry \<longrightarrow> validate_edit_retry (ap_approval_id a) (ap_response a) = Inr ()))"

definition clocks_ok :: "durable_approval btree \<Rightarrow> bool" where
  "clocks_ok m \<longleftrightarrow> (\<forall>k a. bt_get m k = Some a \<longrightarrow> clock_ok a)"

definition proto_ok :: "run_state \<Rightarrow> bool" where
  "proto_ok st \<longleftrightarrow>
     (is_terminal (st_status st) \<longrightarrow> no_running (st_activities st))
     \<and> clocks_ok (st_approvals st)
     \<and> (\<forall>k cp. bt_get (rs_checkpoints st) k = Some cp \<longrightarrow> clocks_ok (pj_approvals (cp_projection cp)))"

definition calm_ok :: "run_state \<Rightarrow> bool" where
  "calm_ok st \<longleftrightarrow>
     (st_status st = RunRunning \<or> st_status st = RunPausedSt \<longrightarrow> quiet (st_activities st))
     \<and> (\<forall>k cp. bt_get (rs_checkpoints st) k = Some cp \<longrightarrow> calm (cp_projection cp))"

text \<open>Outside the invariant, the list form the code computes.\<close>

lemma pending_iff_quiet:
  "bt_ok (st_activities st) \<Longrightarrow> has_reconciliation_pending st \<longleftrightarrow> \<not> quiet (st_activities st)"
  unfolding has_reconciliation_pending_def quiet_def list_ex_iff by (metis bt.elements_iff)

lemma no_running_iff:
  "bt_ok m \<Longrightarrow> no_running m \<longleftrightarrow> (\<forall>r \<in> set (bt_values m). \<not> has_running_attempt r)"
  by (auto simp: no_running_def bt.elements_iff)

subsection \<open>Restored projections\<close>

lemma quiet_retain: "bt_ok m \<Longrightarrow> quiet m \<Longrightarrow> quiet (bt_retain q m)"
  using bt.retain_subset [of m q] by (auto simp: quiet_def)

lemma calm_fork:
  assumes "proj_ok env (cp_projection cp)" and "calm (cp_projection cp)"
  shows "calm (fork_projection h cp r b)"
proof -
  have "quiet (pj_activities (fork_projection h cp r b))"
    using assms fork_projection_activities [of h cp r b]
    by (auto simp: calm_def proj_ok_def activities_ok_def intro: quiet_retain)
  moreover have "pj_status (fork_projection h cp r b) = RunRunning \<or> pj_status (fork_projection h cp r b) = RunPausedSt"
    using assms(2) by (auto simp: calm_def fork_projection_def Let_def)
  ultimately show ?thesis by (simp add: calm_def)
qed

lemma source_checkpoint_stored:
  assumes "source_checkpoint env st i = Inr cp"
  obtains cp0 where "bt_get (rs_checkpoints st) i = Some cp0"
    "cp = cp0 \<or> (\<exists>b n. cp = cp0\<lparr>cp_projection := fork_projection env cp0 (rs_run_id st) b,
        cp_run_id := rs_run_id st, cp_event_sequence := n, cp_parent_checkpoint_id := None\<rparr>)"
  using assms
  by (auto simp: source_checkpoint_def checkpoint_by_id_def checkpoint_for_current_run_def result_simps
      split: if_splits list.splits event_kind.splits)

lemma source_checkpoint_calm:
  assumes "state_ok env st" and "calm_ok st" and "source_checkpoint env st i = Inr cp"
  shows "calm (cp_projection cp)"
  using assms(3)
proof (rule source_checkpoint_stored)
  fix cp0
  assume cp0: "bt_get (rs_checkpoints st) i = Some cp0"
    and cp: "cp = cp0 \<or> (\<exists>b n. cp = cp0\<lparr>cp_projection := fork_projection env cp0 (rs_run_id st) b,
        cp_run_id := rs_run_id st, cp_event_sequence := n, cp_parent_checkpoint_id := None\<rparr>)"
  from assms(1,2) cp0 have c: "calm (cp_projection cp0)" "proj_ok env (cp_projection cp0)"
    by (auto simp: calm_ok_def state_ok_def checkpoints_ok_def)
  from cp c calm_fork [OF c(2,1)] show ?thesis by auto
qed

lemma fork_projection_approvals [simp]: "pj_approvals (fork_projection h cp r b) = pj_approvals (cp_projection cp)"
  by (simp add: fork_projection_def Let_def)

lemma source_checkpoint_clocks:
  assumes "proto_ok st" and "source_checkpoint env st i = Inr cp"
  shows "clocks_ok (pj_approvals (cp_projection cp))"
  using assms(2) by (rule source_checkpoint_stored) (use assms(1) in \<open>auto simp: proto_ok_def\<close>)

subsection \<open>Activities\<close>

lemma latest_update_first:
  assumes "last_opt (update_first p f xs) = Some y"
  shows "last_opt xs = Some y \<or> (\<exists>x. List.find p xs = Some x \<and> y = f x)"
proof -
  from assms have "xs \<noteq> []" by (auto simp: last_opt_def split: if_splits)
  with assms have y: "y = update_first p f xs ! (length xs - 1)"
    by (auto simp: last_opt_def last_conv_nth split: if_splits)
  from \<open>xs \<noteq> []\<close> update_first_nth [of "length xs - 1" xs p f] y show ?thesis
    by (auto simp: last_opt_def last_conv_nth)
qed

lemma quiet_modify:
  assumes "quiet m" and "\<And>r. bt_get m i = Some r \<Longrightarrow> latest_is AtReconcileRequired (f r) \<Longrightarrow> latest_is AtReconcileRequired r"
  shows "quiet (bt_modify i f m)"
  using assms by (auto simp: quiet_def bt_get_modify)

lemma quiet_apply:
  assumes "quiet (st_activities st)" and "\<And>i cp. source_checkpoint env st i = Inr cp \<Longrightarrow>
      proj_ok env (cp_projection cp) \<and> calm (cp_projection cp)"
    and "apply_later_event env ev st = Inr c" and "st_status c = RunRunning \<or> st_status c = RunPausedSt"
  shows "quiet (st_activities c)"
  using assms(3)
proof (cases rule: activities_step)
  case same
  with assms(1) show ?thesis by simp
next
  case (scheduled d)
  with assms(1) show ?thesis by (auto simp: quiet_def latest_is_def latest_attempt_def bt.lookup_insert)
next
  case (started i r)
  with assms(1) show ?thesis
    by (auto intro!: quiet_modify simp: latest_is_def latest_attempt_def running_attempt_def)
next
  case (orphaned i r reason)
  with assms(4) show ?thesis by auto
next
  case (stepped i k r a f w)
  from stepped(6) assms(4) have "at_status (f a) \<noteq> AtReconcileRequired" by auto
  then have "latest_is AtReconcileRequired r"
    if "latest_is AtReconcileRequired (step_attempt k f r)"
    using that stepped(2) by (auto simp: latest_is_def latest_attempt_def dest!: latest_update_first split: option.splits)
  with assms(1) stepped(1,7) show ?thesis by (auto intro!: quiet_modify)
next
  case (rewound i b ack cp)
  from assms(2) [OF rewound(2)] have "calm (fork_projection env cp (rs_run_id st) b)" by (blast intro: calm_fork)
  with rewound(4) show ?thesis by (simp add: calm_def)
qed

lemma no_running_step:
  assumes "attempt_step env w n a (f a)" and "List.find (\<lambda>a. at_attempt a = k) (ar_attempts r) = Some a"
    and "\<not> has_running_attempt r"
  shows "\<not> has_running_attempt (step_attempt k f r)"
proof
  assume "has_running_attempt (step_attempt k f r)"
  then obtain y where y: "y \<in> set (update_first (\<lambda>a. at_attempt a = k) f (ar_attempts r))" "at_status y = AtRunning"
    by (auto simp: has_running_attempt_def list_ex_iff)
  then obtain i where "i < length (ar_attempts r)" "y = update_first (\<lambda>a. at_attempt a = k) f (ar_attempts r) ! i"
    by (metis in_set_conv_nth length_update_first)
  with update_first_nth [of i "ar_attempts r" "\<lambda>a. at_attempt a = k" f] assms(2)
  have "y \<in> set (ar_attempts r) \<or> y = f a" by fastforce
  with y(2) assms(3) attempt_step_not_running [OF assms(1)] show False
    by (auto simp: has_running_attempt_def list_ex_iff)
qed

lemma no_running_apply:
  assumes "no_running (st_activities st)" and "is_terminal (st_status st)"
    and "apply_later_event env ev st = Inr c"
  shows "no_running (st_activities c)"
  using assms(3)
proof (cases rule: activities_step)
  case (orphaned i r reason)
  with assms(1) show ?thesis
    by (auto simp: no_running_def bt_get_modify has_running_attempt_def quarantined_attempt_def)
next
  case (stepped i k r a f w)
  with assms(1) no_running_step [of env w _ a f k r, OF stepped(4,2)] show ?thesis by (auto simp: no_running_def bt_get_modify)
qed (use assms(1,2) in auto)

subsection \<open>Approvals\<close>

lemma decode_approval_clock:
  assumes "decode_approval_payload env payload v = Inr d"
  shows "clock_ok (requested_approval i lk a prompt n d)"
  using assms
  by (auto simp: decode_approval_payload_def clock_ok_def requested_approval_def
      split: option.splits sum.splits if_splits)

lemma validate_approval_resolution_Inr:
  assumes "validate_approval_resolution a r now timed_out = Inr ()"
  shows "validate_approval_clock a (res_approved r) now timed_out = Inr ()"
    and "res_approved r \<Longrightarrow> ap_kind a = MissingInput \<Longrightarrow> \<exists>v. res_response r = Some v \<and> \<not> is_null v"
    and "res_approved r \<Longrightarrow> ap_kind a = EditRetry \<Longrightarrow> validate_edit_retry (ap_approval_id a) (res_response r) = Inr ()"
  using assms by (auto simp: validate_approval_resolution_def result_simps split: if_splits option.splits)

lemma clock_ok_resolved:
  assumes ok: "clock_ok a" and p: "ap_status a = Pending"
    and d: "decode_resolution_payload env a approved response v = Inr d"
  shows "clock_ok (resolved_approval approved n d a)"
proof (cases "ap_expires_at a")
  case None
  with ok p d show ?thesis
    by (auto simp: clock_ok_def decode_resolution_payload_def resolved_approval_def split: option.splits)
next
  case (Some x)
  with ok obtain q where q: "ap_requested_at a = Some q" "q < x"
    by (auto simp: clock_ok_def split: option.splits)
  from d Some have "\<exists>e :: resolution_envelope. validate_approval_resolution a
      \<lparr>res_approval_id = ap_approval_id a, res_approved = approved, res_response = re_response e\<rparr>
      (Some (re_resolved_at e)) (re_timed_out e) = Inr ()
    \<and> d = \<lparr>dr_response = re_response e, dr_resolved_at = Some (re_resolved_at e), dr_timed_out = re_timed_out e\<rparr>"
    unfolding decode_resolution_payload_def
    by (auto simp: result_simps split: option.splits sum.splits if_splits)
  then obtain e :: resolution_envelope where e: "validate_approval_resolution a
      \<lparr>res_approval_id = ap_approval_id a, res_approved = approved, res_response = re_response e\<rparr>
      (Some (re_resolved_at e)) (re_timed_out e) = Inr ()"
    and d': "d = \<lparr>dr_response = re_response e, dr_resolved_at = Some (re_resolved_at e), dr_timed_out = re_timed_out e\<rparr>"
    by blast
  note v = validate_approval_resolution_Inr [OF e, simplified]
  from v(1) q Some have "q \<le> re_resolved_at e"
    "re_timed_out e \<Longrightarrow> \<not> approved \<and> x \<le> re_resolved_at e" "\<not> re_timed_out e \<Longrightarrow> re_resolved_at e < x"
    by (auto simp: validate_approval_clock_def split: if_splits)
  with v q Some d' show ?thesis by (auto simp: clock_ok_def resolved_approval_def)
qed

lemma clocks_apply:
  assumes "clocks_ok (st_approvals st)" and "\<And>i cp. source_checkpoint env st i = Inr cp \<Longrightarrow>
      clocks_ok (pj_approvals (cp_projection cp))"
    and "apply_later_event env ev st = Inr c"
  shows "clocks_ok (st_approvals c)"
  using assms(3)
proof (cases rule: approvals_step)
  case (requested i lk a prompt payload d)
  with assms(1) decode_approval_clock [OF requested(5)] show ?thesis
    by (auto simp: clocks_ok_def bt.lookup_insert)
next
  case (resolved i approved response a d)
  with assms(1) clock_ok_resolved [OF _ resolved(3,4)] show ?thesis
    by (auto simp: clocks_ok_def bt_get_modify)
qed (use assms(1,2) in auto)

subsection \<open>Preservation\<close>

lemma quiet_status:
  assumes s: "state_ok env st" and p: "calm_ok st" and a: "apply_later_event env ev st = Inr c"
    and sc: "state_ok env c" and r: "st_status c = RunRunning \<or> st_status c = RunPausedSt"
  shows "quiet (st_activities c)"
proof -
  have cps: "proj_ok env (cp_projection cp) \<and> calm (cp_projection cp)"
    if "source_checkpoint env st i = Inr cp" for i cp
    using source_checkpoint_ok [OF _ that] source_checkpoint_calm [OF s p that] s
    by (simp add: state_ok_def)
  have act: "quiet (st_activities c)" if "st_status st = RunRunning \<or> st_status st = RunPausedSt"
    using quiet_apply [OF _ cps a r] p that by (simp add: calm_ok_def)
  from a show ?thesis
  proof (cases rule: status_step)
    case same
    with r act show ?thesis by simp
  next
    case (reconciled i k resolution)
    with sc show ?thesis
      by (auto simp: pending_iff_quiet state_ok_def proj_ok_def activities_ok_def)
  next
    case paused
    then have "st_status st = RunRunning \<or> st_status st = RunPausedSt" by (cases "st_status st") auto
    with act show ?thesis by simp
  next
    case resumed
    with act show ?thesis by simp
  next
    case (rewound i b ack cp)
    from cps [OF rewound(2)] have "calm (fork_projection env cp (rs_run_id st) b)" by (blast intro: calm_fork)
    with rewound(5) show ?thesis by (simp add: calm_def)
  qed (use r in auto)
qed

lemma ended_no_running:
  assumes s: "state_ok env st" and p: "proto_ok st" and a: "apply_later_event env ev st = Inr c"
    and v: "ev_schema_version ev = DURABILITY_SCHEMA_VERSION" and t: "is_terminal (st_status c)"
  shows "no_running (st_activities c)"
  using a
proof (cases rule: status_step)
  case same
  with p t no_running_apply [OF _ _ a] show ?thesis by (simp add: proto_ok_def)
next
  case (ended s' q)
  from v ended(3) have "all_closed env st" by (simp add: schema_version_defs)
  with s ended(5) show ?thesis
    by (auto simp: all_closed_def no_running_iff state_ok_def proj_ok_def activities_ok_def)
qed (use t in auto)

lemma proto_ok_apply:
  assumes s: "state_ok env st" and p: "proto_ok st" and a: "apply_later_event env ev st = Inr c"
    and v: "ev_schema_version ev = DURABILITY_SCHEMA_VERSION"
  shows "proto_ok c"
proof -
  have "clocks_ok (pj_approvals (cp_projection cp))" if "bt_get (rs_checkpoints c) i = Some cp" for i cp
    using a
  proof (cases rule: checkpoints_step)
    case same
    with that p show ?thesis by (auto simp: proto_ok_def)
  next
    case (committed j label)
    have "(if i = j then Some (new_checkpoint (ev_sequence ev) j label st)
        else bt_get (rs_checkpoints st) i) = Some cp"
      using that unfolding committed(4) bt.lookup_insert .
    with p show ?thesis by (auto simp: proto_ok_def new_checkpoint_def split: if_splits)
  qed
  moreover have "clocks_ok (st_approvals c)"
    using clocks_apply [OF _ _ a] p source_checkpoint_clocks [OF p] by (simp add: proto_ok_def)
  ultimately show ?thesis
    using ended_no_running [OF s p a v] unfolding proto_ok_def by blast
qed

lemma calm_ok_apply:
  assumes s: "state_ok env st" and p: "calm_ok st" and a: "apply_later_event env ev st = Inr c"
    and sc: "state_ok env c" and k: "checkpoint_allowed (ev_kind ev) st"
  shows "calm_ok c"
proof -
  have "calm (cp_projection cp)" if "bt_get (rs_checkpoints c) i = Some cp" for i cp
    using a
  proof (cases rule: checkpoints_step)
    case same
    with that p show ?thesis by (auto simp: calm_ok_def)
  next
    case (committed j label)
    then have st: "st_status st = RunRunning \<or> st_status st = RunPausedSt"
      using k by (cases "st_status st") (auto simp: checkpoint_allowed_def)
    have "(if i = j then Some (new_checkpoint (ev_sequence ev) j label st)
        else bt_get (rs_checkpoints st) i) = Some cp"
      using that unfolding committed(4) bt.lookup_insert .
    with st p show ?thesis by (auto simp: calm_ok_def new_checkpoint_def calm_def split: if_splits)
  qed
  with quiet_status [OF s p a sc] show ?thesis unfolding calm_ok_def by blast
qed

text \<open>The invariants of the interface.\<close>

definition run_ok :: "durable_env \<Rightarrow> run_state \<Rightarrow> bool" where
  "run_ok env st \<longleftrightarrow> run_built env st \<and> state_ok env st \<and> proto_ok st"

definition orderly_ok :: "durable_env \<Rightarrow> run_state \<Rightarrow> bool" where
  "orderly_ok env st \<longleftrightarrow> run_ok env st \<and> calm_ok st"

lemma proto_ok_push [simp]: "proto_ok (c\<lparr>rs_events := es\<rparr>) = proto_ok c"
  by (simp add: proto_ok_def)

lemma calm_ok_push [simp]: "calm_ok (c\<lparr>rs_events := es\<rparr>) = calm_ok c"
  by (simp add: calm_ok_def)

text \<open>An append that is not a repetition applies its event.\<close>

lemma append_applies:
  assumes "append_event env ev st = (Inr oc, st')" and "run_built env st"
  obtains "st' = st"
  | c where "fresh_event ev st" "ev_schema_version ev = DURABILITY_SCHEMA_VERSION"
      "commit_event env ev st = Inr st'" "apply_later_event env ev st = Inr c"
      "st' = c\<lparr>rs_events := rs_events c @ [ev]\<rparr>"
proof -
  from assms(1) have v: "ev_schema_version ev = DURABILITY_SCHEMA_VERSION"
    and a: "append_validated_event env ev st = (Inr oc, st')" by (auto simp: append_event_iff)
  have ne: "rs_events st \<noteq> []" using run_built_log [OF assms(2)] by (simp add: log_ok_def)
  from a show thesis
  proof (cases rule: append_validated_Inr)
    case (dedup old)
    with that(1) show thesis by blast
  next
    case appended
    from appended(2) ne obtain c where "apply_later_event env ev st = Inr c"
      "st' = c\<lparr>rs_events := rs_events c @ [ev]\<rparr>" by (auto simp: commit_event_Inr apply_event_in_place_def)
    with appended v that(2) show thesis by blast
  qed
qed

lemma run_ok_append:
  assumes ok: "run_ok env st" and e: "append_event env ev st = (Inr oc, st')"
  shows "run_ok env st'"
proof -
  have built: "run_built env st" "run_built env st'" using ok e run_built_append_event by (auto simp: run_ok_def)
  from e built(1) show ?thesis
  proof (cases rule: append_applies)
    case 1
    with ok show ?thesis by simp
  next
    case (2 c)
    have "rs_events st \<noteq> []" using run_built_log [OF built(1)] by (simp add: log_ok_def)
    with ok 2(1,3) have "state_ok env st'" unfolding run_ok_def by (blast intro: state_ok_commit)
    moreover have "proto_ok c" using proto_ok_apply [OF _ _ 2(4,2)] ok by (simp add: run_ok_def)
    ultimately show ?thesis using built 2(5) by (simp add: run_ok_def)
  qed
qed

lemma orderly_ok_append:
  assumes ok: "orderly_ok env st" and k: "checkpoint_allowed (ev_kind ev) st"
    and e: "append_event env ev st = (Inr oc, st')"
  shows "orderly_ok env st'"
proof -
  have r: "run_ok env st" "run_ok env st'" using ok e run_ok_append by (auto simp: orderly_ok_def)
  then have "run_built env st" by (simp add: run_ok_def)
  with e show ?thesis
  proof (cases rule: append_applies)
    case 1
    with ok show ?thesis by simp
  next
    case (2 c)
    have "calm_ok c"
      by (rule calm_ok_apply [OF _ _ 2(4) _ k]) (use ok r 2(5) in \<open>simp_all add: orderly_ok_def run_ok_def\<close>)
    with r 2(5) show ?thesis by (simp add: orderly_ok_def)
  qed
qed

interpretation api: append_invariant env "\<lambda>_ _. True" "run_ok env" for env
  by unfold_locales (simp, rule run_ok_append)

interpretation orderly: append_invariant env checkpoint_allowed "orderly_ok env" for env
  by unfold_locales (simp, rule orderly_ok_append)

subsection \<open>Every state of the interface satisfies it\<close>

lemma emit_blank_commit:
  assumes "emit env i k (blank_state s r d p) = (Inr oc, st)"
  obtains c where "apply_event_in_place env (emitted (blank_state s r d p) i k) (blank_state s r d p) = Inr c"
    "st = c\<lparr>rs_events := rs_events c @ [emitted (blank_state s r d p) i k]\<rparr>"
  using assms by (cases rule: emit_Inr) (auto simp: event_by_id_def commit_event_Inr)

lemma orderly_ok_new:
  assumes "rs_new env s r d = Inr st"
  shows "orderly_ok env st"
proof -
  from assms obtain oc where e: "emit env (event_id_of env [r, ''run_started''])
      (RunStarted s d (pj_branch_id (projection_root env r))) (blank_state s r d (projection_root env r)) = (Inr oc, st)"
    by (auto simp: rs_new_def Let_def result_simps)
  from e show ?thesis
  proof (rule emit_blank_commit)
    fix c
    let ?ev = "emitted (blank_state s r d (projection_root env r)) (event_id_of env [r, ''run_started''])
        (RunStarted s d (pj_branch_id (projection_root env r)))"
    assume c: "apply_event_in_place env ?ev (blank_state s r d (projection_root env r)) = Inr c"
      and st: "st = c\<lparr>rs_events := rs_events c @ [?ev]\<rparr>"
    have "state_ok env c" using c by (rule state_ok_first) (simp add: typed_event_def)
    moreover have "rs_projection c = projection_root env r \<and> rs_checkpoints c = []"
      using c by (auto simp: apply_event_in_place_def apply_first_event_def apply_run_started_def)
    then have "proto_ok c" "calm_ok c" by (simp_all add: proto_ok_def calm_ok_def projection_root_def quiet_def clocks_ok_def)
    ultimately show ?thesis using run_built_new [OF assms] st by (simp add: run_ok_def orderly_ok_def)
  qed
qed

lemma orderly_ok_new_governed: "new_with_governance_binding env s r d b = Inr st \<Longrightarrow> orderly_ok env st"
  by (auto simp: new_with_governance_binding_def result_simps split: if_splits
      intro: orderly.emit_keeps plain_kinds plain_kind_allowed dest: orderly_ok_new)

lemma orderly_ok_new_snapshot: "new_with_policy_snapshot env s r d p = Inr st \<Longrightarrow> orderly_ok env st"
  by (auto simp: new_with_policy_snapshot_def result_simps intro: orderly_ok_new_governed)

lemma run_ok_forked_from:
  assumes ok: "run_ok env st" and cp: "source_checkpoint env st0 i = Inr cp" and ok0: "run_ok env st0"
    and r: "validate_identifier ''new_run_id'' r = Inr ()"
    and e: "emit env j (ForkedFrom (rs_session_id st) (rs_run_id st) m cp b)
        (blank_state (rs_session_id st) r m p) = (Inr oc, f)"
  shows "run_ok env f \<and> (calm_ok st0 \<longrightarrow> calm_ok f)"
proof -
  have built: "run_built env f"
    using run_built_identifiers [of env st] ok r e validate_identifier_field
    by (auto simp: run_ok_def intro: run_built_emit_blank)
  from ok0 have s0: "state_ok env st0" "proto_ok st0" by (simp_all add: run_ok_def)
  have p: "proj_ok env (cp_projection cp)" "clocks_ok (pj_approvals (cp_projection cp))"
    using source_checkpoint_ok [OF _ cp] source_checkpoint_clocks [OF s0(2) cp] s0(1)
    by (simp_all add: state_ok_def)
  from e show ?thesis
  proof (rule emit_blank_commit)
    fix c
    let ?b = "blank_state (rs_session_id st) r m p"
    let ?ev = "emitted ?b j (ForkedFrom (rs_session_id st) (rs_run_id st) m cp b)"
    assume c: "apply_event_in_place env ?ev ?b = Inr c" and f: "f = c\<lparr>rs_events := rs_events c @ [?ev]\<rparr>"
    have "state_ok env c" using c p(1)
      by (intro state_ok_first [OF c])
        (simp add: typed_event_def proj_ok_def activities_ok_def approvals_ok_def artifacts_ok_def)
    moreover have fields: "rs_projection c = fork_projection env cp r b"
        "rs_checkpoints c = bt_insert (cp_checkpoint_id cp) cp []"
      using c by (auto simp: apply_event_in_place_def apply_first_event_def apply_forked_from_def
          result_simps split: if_splits)
    moreover have "\<not> is_terminal (pj_status (fork_projection env cp r b))"
      by (auto simp: fork_projection_def Let_def)
    with fields p have "proto_ok c" by (auto simp: proto_ok_def bt_get_def split: if_splits)
    moreover have "calm_ok c" if "calm_ok st0"
      using fields source_checkpoint_calm [OF s0(1) that cp] calm_fork [OF p(1), of env r b]
      by (auto simp: calm_ok_def calm_def bt_get_def split: if_splits)
    ultimately show ?thesis using built f by (simp add: run_ok_def)
  qed
qed

lemma run_ok_build_fork:
  assumes ok: "run_ok env st" and cp: "source_checkpoint env st0 i = Inr cp" and ok0: "run_ok env st0"
    and r: "validate_identifier ''new_run_id'' r = Inr ()" and b: "build_fork env st r cp br cmd = Inr f"
  shows "run_ok env f \<and> (calm_ok st0 \<longrightarrow> orderly_ok env f)"
proof -
  from b obtain oc f0 where f0: "emit env (event_id_of env [r, ''forked_from'', cmd])
      (ForkedFrom (rs_session_id st) (rs_run_id st) (rs_durability st) cp br)
      (blank_state (rs_session_id st) r (rs_durability st) (fork_projection env cp r br)) = (Inr oc, f0)"
    by (auto simp: build_fork_def result_simps)
  have "run_ok env f0" "calm_ok st0 \<Longrightarrow> orderly_ok env f0"
    using run_ok_forked_from [OF ok cp ok0 r f0] by (simp_all add: orderly_ok_def)
  with b f0 show ?thesis
    by (auto simp: build_fork_def result_simps split: option.splits
        intro: api.emit_keeps orderly.emit_keeps plain_kinds plain_kind_allowed)
qed

lemma run_ok_fork:
  assumes "run_ok env st" and "fork env cmd r cpid ack st = (Inr (Forked f), st')"
  shows "run_ok env f \<and> (calm_ok st \<longrightarrow> orderly_ok env f)"
proof -
  from fork_result [OF assms(2)] assms(1) have "run_ok env st'"
    by (auto intro: api.emit_keeps plain_kind_allowed)
  with fork_result [OF assms(2)] assms(1) run_ok_build_fork show ?thesis by metis
qed

lemma orderly_run_ok: "orderly_ok env st \<Longrightarrow> run_ok env st"
  by (simp add: orderly_ok_def)

lemma api_reach_ok: "api_reach env st \<Longrightarrow> run_ok env st"
proof (induction rule: run_reached.induct)
  case (forked st cmd run cp ack f st')
  from run_ok_fork [OF forked.IH forked.hyps(2)] show ?case by blast
next
  case (step st st')
  with api.run_step_keeps show ?case by blast
qed (blast intro: orderly_run_ok orderly_ok_new orderly_ok_new_governed orderly_ok_new_snapshot)+

lemma orderly_reach_ok: "orderly_reach env st \<Longrightarrow> orderly_ok env st"
proof (induction rule: run_reached.induct)
  case (forked st cmd run cp ack f st')
  from forked.IH have ok: "run_ok env st" "calm_ok st" by (simp_all add: orderly_ok_def)
  from run_ok_fork [OF ok(1) forked.hyps(2)] ok(2) show ?case by blast
next
  case (step st st')
  with orderly.run_step_keeps show ?case by blast
qed (blast intro: orderly_ok_new orderly_ok_new_governed orderly_ok_new_snapshot)+

end
