(* ===== verification/DurSafety.thy ===== *)
theory DurSafety
  imports DurProto
begin

text \<open>
  Consequences of the invariants and of the field-wise rules that speak of single appends and
  operations: idempotent retry, append-only growth, terminal states, exactly-once completion,
  lease exclusion, policy identity, fork and rewind.
\<close>

lemma append_event_cases:
  assumes "append_event env ev st = (Inr oc, st')" and "rs_events st \<noteq> []"
  obtains (dedup) old where "event_by_id st (ev_event_id ev) = Some old" "ev_kind old = ev_kind ev"
      "oc = Deduplicated (ev_sequence old)" "st' = st"
  | (appended) c where "fresh_event ev st" "ev_schema_version ev = DURABILITY_SCHEMA_VERSION"
      "apply_later_event env ev st = Inr c" "st' = c\<lparr>rs_events := rs_events st @ [ev]\<rparr>"
      "oc = Appended (next_sequence st)"
proof -
  from assms(1) have v: "ev_schema_version ev = DURABILITY_SCHEMA_VERSION"
    and a: "append_validated_event env ev st = (Inr oc, st')" by (auto simp: append_event_iff)
  from a show thesis
  proof (cases rule: append_validated_Inr)
    case (dedup old)
    with that(1) show thesis by blast
  next
    case appended
    from appended(2) assms(2) obtain c where "apply_later_event env ev st = Inr c"
      "st' = c\<lparr>rs_events := rs_events c @ [ev]\<rparr>" by (auto simp: commit_event_Inr apply_event_in_place_def)
    with appended v that(2) identity_step(6) show thesis by metis
  qed
qed

lemma emit_cases:
  assumes "emit env i k st = (Inr oc, st')" and "rs_events st \<noteq> []"
  obtains (dedup) old where "event_by_id st i = Some old" "ev_kind old = k"
      "oc = Deduplicated (ev_sequence old)" "st' = st"
  | (appended) c where "fresh_event (emitted st i k) st"
      "apply_later_event env (emitted st i k) st = Inr c"
      "st' = c\<lparr>rs_events := rs_events st @ [emitted st i k]\<rparr>" "oc = Appended (next_sequence st)"
proof -
  from assms(1) have a: "append_event env (emitted st i k) st = (Inr oc, st')"
    by (simp add: emit_def emitted_def)
  from append_event_cases [OF this assms(2)] that show thesis by (metis emitted_simps(4,5))
qed

subsection \<open>Retry\<close>

lemma find_append_new: "List.find p xs = None \<Longrightarrow> p x \<Longrightarrow> List.find p (xs @ [x]) = Some x"
  by (induction xs) (auto split: if_splits)

lemma append_validated_again:
  assumes "append_validated_event env ev st = (Inr oc, st')"
  shows "append_validated_event env ev st' = (Inr (Deduplicated (append_sequence oc)), st')"
proof -
  have id: "validate_identifier ''event_id'' (ev_event_id ev) = Inr ()" "ev_run_id ev = rs_run_id st"
    using assms by (auto simp: append_validated_event_def split: sum.splits if_splits)
  from assms show ?thesis
  proof (cases rule: append_validated_Inr)
    case (dedup old)
    with id show ?thesis by (simp add: append_validated_event_def append_sequence_def)
  next
    case appended
    note keeps = commit_event_keeps [OF appended(2)]
    have "event_by_id st' (ev_event_id ev) = Some ev"
      using appended(1) by (auto simp: event_by_id_def keeps fresh_event_def intro: find_append_new)
    moreover have "ev_sequence ev = next_sequence st" using appended(1) by (simp add: fresh_event_def)
    ultimately show ?thesis using id appended(3) by (simp add: append_validated_event_def append_sequence_def keeps)
  qed
qed

subsection \<open>Growth of the log\<close>

definition extends_run :: "run_state \<Rightarrow> run_state \<Rightarrow> bool" where
  "extends_run st st' \<longleftrightarrow> (\<exists>added. rs_events st' = rs_events st @ added)
     \<and> rs_run_id st' = rs_run_id st \<and> rs_session_id st' = rs_session_id st
     \<and> rs_durability st' = rs_durability st \<and> rs_parent_run_id st' = rs_parent_run_id st"

lemma extends_append:
  assumes "extends_run st0 st" and "rs_events st0 \<noteq> []" and "append_event env ev st = (Inr oc, st')"
  shows "extends_run st0 st'"
proof -
  from assms(1,2) have "rs_events st \<noteq> []" by (auto simp: extends_run_def)
  with assms(3) show ?thesis
  proof (cases rule: append_event_cases)
    case (dedup old)
    with assms(1) show ?thesis by simp
  next
    case (appended c)
    with assms(1) identity_step [OF appended(3)] show ?thesis by (auto simp: extends_run_def)
  qed
qed

lemma extends_emit:
  "extends_run st0 st \<Longrightarrow> rs_events st0 \<noteq> [] \<Longrightarrow> emit env i k st = (Inr oc, st') \<Longrightarrow> extends_run st0 st'"
  unfolding emit_def by (rule extends_append)

interpretation grows: append_invariant env "\<lambda>_ _. True" "\<lambda>st. extends_run st0 st \<and> rs_events st0 \<noteq> []" for env st0
  by unfold_locales (simp, blast intro: extends_append)

subsection \<open>Ended runs\<close>

lemma status_append_terminal:
  assumes "is_terminal (st_status st)" and "rs_events st \<noteq> []" and "append_event env ev st = (Inr oc, st')"
  shows "st_status st' = st_status st"
  using assms(3,2)
proof (cases rule: append_event_cases)
  case (appended c)
  from appended(3) have "st_status c = st_status st" by (cases rule: status_step) (use assms(1) in auto)
  with appended(4) show ?thesis by simp
qed simp

interpretation ended: append_invariant env "\<lambda>_ _. True" "\<lambda>st. rs_events st \<noteq> [] \<and> st_status st = s \<and> is_terminal s" for env s
proof (unfold_locales, simp, elim conjE, intro conjI)
  fix st ev oc st'
  assume st: "rs_events st \<noteq> []" "st_status st = s" "is_terminal s" and e: "append_event env ev st = (Inr oc, st')"
  show "st_status st' = s" using status_append_terminal [OF _ _ e] st by simp
  show "rs_events st' \<noteq> []" using extends_append [of st st env ev oc st'] st e by (auto simp: extends_run_def)
  show "is_terminal s" by (rule st)
qed

subsection \<open>Completed activities\<close>

text \<open>One appended event that does not rewind the run.\<close>

inductive forward :: "durable_env \<Rightarrow> run_state \<Rightarrow> run_state \<Rightarrow> bool" for env where
  refl: "forward env st st"
| append: "forward env st0 st \<Longrightarrow> append_event env ev st = (Inr oc, st') \<Longrightarrow>
    (\<And>i b a. ev_kind ev \<noteq> RunRewound i b a) \<Longrightarrow> forward env st0 st'"

definition settled :: "run_state \<Rightarrow> string \<Rightarrow> activity_definition \<Rightarrow> activity_attempt \<Rightarrow> bool" where
  "settled st i d a \<longleftrightarrow> rs_events st \<noteq> [] \<and> at_status a = AtCompleted
     \<and> ad_stable_step_id d \<noteq> RUNTIME_LEGACY_RUN_STOPPED_AUDIT_STEP_ID
     \<and> (\<exists>r. bt_get (st_activities st) i = Some r \<and> ar_definition r = d \<and> latest_attempt r = Some a)"

lemma settled_apply:
  assumes s: "settled st i d a" and ev: "\<And>j b ack. ev_kind ev \<noteq> RunRewound j b ack"
    and ap: "apply_later_event env ev st = Inr c"
  shows "\<exists>r. bt_get (st_activities c) i = Some r \<and> ar_definition r = d \<and> latest_attempt r = Some a"
proof -
  from s obtain r where r: "bt_get (st_activities st) i = Some r" "ar_definition r = d" "latest_attempt r = Some a"
    and c: "at_status a = AtCompleted" and d: "ad_stable_step_id d \<noteq> RUNTIME_LEGACY_RUN_STOPPED_AUDIT_STEP_ID"
    by (auto simp: settled_def)
  from ap show ?thesis
  proof (cases rule: activities_step)
    case (scheduled d')
    with r show ?thesis by (auto simp: bt.lookup_insert)
  next
    case (started j q)
    with r c have "i \<noteq> j" by (auto simp: may_start_def)
    with started r show ?thesis by (simp add: bt_get_modify)
  next
    case (orphaned j q reason)
    with r have "i \<noteq> j" by (auto simp: latest_attempt_def)
    with orphaned r show ?thesis by (simp add: bt_get_modify)
  next
    case (stepped j k q x f w)
    show ?thesis
    proof (cases "i = j")
      case True
      with r stepped(1) have q: "q = r" by simp
      with stepped(5) r(2) d have "\<not> w" by auto
      with stepped(4) attempt_step_final have "at_status x \<noteq> AtCompleted" by fastforce
      with c have xa: "x \<noteq> a" by auto
      from r(3) have ne: "ar_attempts r \<noteq> []" "last (ar_attempts r) = a"
        by (auto simp: latest_attempt_def dest: last_opt_SomeD)
      have "last (update_first (\<lambda>a. at_attempt a = k) f (ar_attempts r)) = a"
        using update_first_nth [of "length (ar_attempts r) - 1" "ar_attempts r" "\<lambda>a. at_attempt a = k" f]
          stepped(2) q ne xa by (auto simp: last_conv_nth)
      with True r ne stepped(7) show ?thesis
        by (auto simp: bt_get_modify latest_attempt_def last_opt_def)
    next
      case False
      with stepped(7) r show ?thesis by (simp add: bt_get_modify)
    qed
  qed (use r ev in auto)
qed

lemma settled_append:
  assumes s: "settled st i d a" and ap: "append_event env ev st = (Inr oc, st')"
    and ev: "\<And>j b ack. ev_kind ev \<noteq> RunRewound j b ack"
  shows "settled st' i d a"
proof -
  from s have ne: "rs_events st \<noteq> []" by (simp add: settled_def)
  from ap ne show ?thesis
  proof (cases rule: append_event_cases)
    case (dedup old)
    with s show ?thesis by simp
  next
    case (appended c)
    from settled_apply [OF s ev appended(3)] s appended(4) show ?thesis by (auto simp: settled_def)
  qed
qed

lemma settled_forward: "forward env st st' \<Longrightarrow> settled st i d a \<Longrightarrow> settled st' i d a"
  by (induction rule: forward.induct) (auto intro: settled_append)

lemma settled_output:
  assumes "settled st i d a"
  obtains r where "bt_get (st_activities st) i = Some r" "ar_definition r = d" "completed_output r = at_output a"
proof -
  from assms obtain r where r: "bt_get (st_activities st) i = Some r" "ar_definition r = d"
    "latest_attempt r = Some a" "at_status a = AtCompleted" by (auto simp: settled_def)
  from r(3) have rv: "rev (ar_attempts r) = a # rev (butlast (ar_attempts r))"
    by (metis append_butlast_last_id last_opt_SomeD latest_attempt_def rev_eq_Cons_iff rev_rev_ident)
  have "completed_output r = at_output a" unfolding completed_output_def rv using r(4) by simp
  with r that show thesis by blast
qed

subsection \<open>Preparing an activity\<close>

text \<open>A settled activity is answered from the ledger, whatever else the run holds.\<close>

lemma decide_settled:
  assumes "settled st i d a" and "at_output a = Some out"
  shows "decide_activity env i st = (Inr (ReuseCompleted i out), st)"
  using assms(1) by (rule settled_output) (simp add: decide_activity_def assms(2))

lemma state_ok_record:
  assumes "state_ok env st" and "bt_get (st_activities st) i = Some r"
  shows "record_ok env i r"
  using assms by (simp add: state_ok_def proj_ok_def activities_ok_def)

lemma settled_payload:
  assumes "state_ok env st" and "settled st i d a"
  shows "\<exists>out. at_output a = Some out \<and> at_output_hash a = Some (stable_input_hash env out)"
proof -
  from assms(2) obtain r where r: "bt_get (st_activities st) i = Some r" "latest_attempt r = Some a"
    "at_status a = AtCompleted" by (auto simp: settled_def)
  from state_ok_record [OF assms(1) r(1)] r(2) have "attempt_payload_ok env a"
    by (auto simp: record_ok_def attempts_ok_def latest_attempt_def dest: last_opt_SomeD)
  with r(3) show ?thesis by (auto simp: attempt_payload_ok_def split: option.splits)
qed

subsection \<open>Leases\<close>

lemma lease_append:
  assumes ap: "append_event env ev st = (Inr oc, st')" and ne: "rs_events st \<noteq> []"
    and l: "st_lease st = Some l" and l': "st_lease st' = Some l'"
    and new: "wl_owner_id l' \<noteq> wl_owner_id l \<or> wl_lease_id l' \<noteq> wl_lease_id l"
  shows "\<exists>t x. ev_kind ev = WorkerLeaseClaimed (wl_owner_id l') (wl_lease_id l') t x
    \<and> wl_expires_at l \<le> t \<and> l' = fresh_lease (wl_owner_id l') (wl_lease_id l') t x"
  using ap ne
proof (cases rule: append_event_cases)
  case (dedup old)
  with l l' new show ?thesis by simp
next
  case (appended c)
  from appended(4) l' have c: "st_lease c = Some l'" by simp
  from appended(3) show ?thesis
    by (cases rule: lease_step) (use l c new in \<open>auto simp: fresh_lease_def\<close>)
qed

subsection \<open>Policy identity\<close>

definition policy_ok :: "durable_env \<Rightarrow> run_state \<Rightarrow> bool" where
  "policy_ok env st \<longleftrightarrow> (\<forall>b. rs_governance_binding st = Some b \<longrightarrow>
     binding_validate env b = Inr () \<and> gb_run_id b = rs_run_id st
     \<and> rs_policy_snapshot_hash st = Some (gb_policy_snapshot_hash b))
   \<and> (length (rs_events st) = 1 \<longrightarrow> rs_policy_snapshot_hash st = None \<and> rs_governance_binding st = None)"

lemma policy_ok_commit:
  assumes "policy_ok env st" and "rs_events st \<noteq> []" and "commit_event env ev st = Inr st'"
  shows "policy_ok env st'"
proof -
  from assms(2,3) obtain c where c: "apply_later_event env ev st = Inr c" "st' = c\<lparr>rs_events := rs_events c @ [ev]\<rparr>"
    by (auto simp: commit_event_Inr apply_event_in_place_def)
  from c(1) show ?thesis
    by (cases rule: policy_step)
      (use assms(1,2) c(2) identity_step [OF c(1)] in \<open>auto simp: policy_ok_def\<close>)
qed

lemma run_built_policy_ok: "run_built env st \<Longrightarrow> policy_ok env st"
proof (induction rule: run_built.induct)
  case (first s r ev d p st)
  from first(5) obtain c where c: "apply_first_event env ev (blank_state s r d p) = Inr c"
    "st = c\<lparr>rs_events := rs_events c @ [ev]\<rparr>" by (auto simp: commit_event_Inr apply_event_in_place_def)
  from c(1) show ?case by (cases rule: apply_first_Inr) (use c(2) in \<open>auto simp: policy_ok_def\<close>)
next
  case (append st ev st')
  then show ?case using run_built_log by (blast intro: policy_ok_commit dest: log_ok_def [THEN iffD1])
qed

definition pinned_at :: "run_state \<Rightarrow> string option \<times> governance_binding option" where
  "pinned_at st = (rs_policy_snapshot_hash st, rs_governance_binding st)"

lemma pinned_append:
  assumes "length (rs_events st) > 1" and "append_event env ev st = (Inr oc, st')"
  shows "pinned_at st' = pinned_at st"
proof -
  from assms(1) have "rs_events st \<noteq> []" by auto
  with assms(2) show ?thesis
  proof (cases rule: append_event_cases)
    case (appended c)
    from appended(3) show ?thesis
      by (cases rule: policy_step) (use assms(1) appended(4) in \<open>auto simp: pinned_at_def\<close>)
  qed simp
qed

interpretation pinned: append_invariant env "\<lambda>_ _. True"
  "\<lambda>st. length (rs_events st) > 1 \<and> pinned_at st = p" for env p
proof (unfold_locales, simp, elim conjE, intro conjI)
  fix st ev oc st'
  assume st: "1 < length (rs_events st)" "pinned_at st = p" and e: "append_event env ev st = (Inr oc, st')"
  show "pinned_at st' = p" using pinned_append [OF st(1) e] st(2) by simp
  show "1 < length (rs_events st')"
    using extends_append [of st st env ev oc st'] st e by (cases "rs_events st") (auto simp: extends_run_def)
qed

end
