(* ===== verification/DurCommands.thy ===== *)
theory DurCommands
  imports DurSafety
begin

text \<open>
  The functional behaviour of the commands: what a resumed run has settled, what a rewound run
  restores, what a fork carries over, and what an approval records.
\<close>

subsection \<open>Effects after a boundary\<close>

text \<open>The loop of \<open>require\_reconciled\_after\<close> finds every non-pure activity that started after the
  boundary.\<close>

lemma unsafe_started_spec:
  assumes "unsafe_started st n es = Inr ids"
  shows "set ids = {i. \<exists>e \<in> set es. ev_sequence e > n \<and> (\<exists>k. ev_kind e = ActivityAttemptStarted i k)
     \<and> (\<exists>c. activity_side_effect_class st i = Inr c \<and> c \<noteq> Pure)}"
  using assms
proof (induction es arbitrary: ids)
  case (Cons e es)
  show ?case
  proof (cases "ev_sequence e > n \<and> (\<exists>i k. ev_kind e = ActivityAttemptStarted i k)")
    case True
    then obtain i k where e: "ev_sequence e > n" "ev_kind e = ActivityAttemptStarted i k" by blast
    with Cons.prems obtain c rest where c: "activity_side_effect_class st i = Inr c"
      "unsafe_started st n es = Inr rest" "ids = (if c \<noteq> Pure then i # rest else rest)"
      by (auto simp: result_simps)
    with Cons.IH [OF c(2)] e show ?thesis by auto
  next
    case False
    with Cons.prems have "unsafe_started st n es = Inr ids"
      by (auto split: if_splits event_kind.splits)
    from Cons.IH [OF this] False show ?thesis by auto
  qed
qed simp

text \<open>No non-pure activity started after the boundary.\<close>

definition no_effect_after :: "run_state \<Rightarrow> nat \<Rightarrow> bool" where
  "no_effect_after st n \<longleftrightarrow> (\<forall>e \<in> set (rs_events st). \<forall>i k. ev_sequence e > n \<longrightarrow>
     ev_kind e = ActivityAttemptStarted i k \<longrightarrow> activity_side_effect_class st i = Inr Pure)"

lemma unsafe_started_class:
  assumes "unsafe_started st n es = Inr ids" and "e \<in> set es" and "ev_sequence e > n"
    and "ev_kind e = ActivityAttemptStarted i k"
  shows "\<exists>c. activity_side_effect_class st i = Inr c"
  using assms(1,2)
proof (induction es arbitrary: ids)
  case (Cons x es)
  show ?case
  proof (cases "x = e")
    case True
    with Cons.prems(1) assms(3,4) show ?thesis by (auto simp: result_simps)
  next
    case False
    from Cons.prems(1) obtain rest where "unsafe_started st n es = Inr rest"
      by (auto simp: result_simps split: if_splits event_kind.splits)
    with Cons.IH Cons.prems(2) False show ?thesis by auto
  qed
qed simp

lemma require_reconciled_Inr:
  assumes "require_reconciled_after st n False = Inr ()"
  shows "no_effect_after st n"
proof -
  from assms have u: "unsafe_started st n (rs_events st) = Inr []"
    by (auto simp: require_reconciled_after_def result_simps split: if_splits)
  show ?thesis
    unfolding no_effect_after_def
  proof (intro ballI allI impI)
    fix e i k
    assume e: "e \<in> set (rs_events st)" "n < ev_sequence e" "ev_kind e = ActivityAttemptStarted i k"
    from unsafe_started_class [OF u e] obtain c where c: "activity_side_effect_class st i = Inr c" by blast
    with unsafe_started_spec [OF u] e have "c = Pure" by auto
    with c show "activity_side_effect_class st i = Inr Pure" by simp
  qed
qed

subsection \<open>Resume\<close>

text \<open>Resolving approvals adds nothing but resolutions to the log.\<close>

definition adds_resolutions :: "run_state \<Rightarrow> run_state \<Rightarrow> bool" where
  "adds_resolutions st st' \<longleftrightarrow> (\<exists>added. rs_events st' = rs_events st @ added
     \<and> (\<forall>e \<in> set added. \<exists>i ok r. ev_kind e = ApprovalResolved i ok r))"

lemma adds_resolutions_refl [simp]: "adds_resolutions st st"
  by (auto simp: adds_resolutions_def)

lemma adds_resolutions_trans: "adds_resolutions a b \<Longrightarrow> adds_resolutions b c \<Longrightarrow> adds_resolutions a c"
  unfolding adds_resolutions_def by (metis (no_types) append_assoc in_set_conv_decomp set_append Un_iff)

lemma resolve_approval_adds:
  assumes "resolve_approval env cmd r now t st = (Inr u, st')"
  shows "adds_resolutions st st'"
proof -
  from assms obtain i ok x j oc where e: "emit env j (ApprovalResolved i ok x) st = (Inr oc, st')"
    unfolding resolve_approval_def bindS_Inr checkS_iff returnS_iff by blast
  from e show ?thesis
  proof (cases rule: emit_Inr)
    case appended
    from commit_event_keeps(4) [OF appended(2)] show ?thesis by (auto simp: adds_resolutions_def)
  qed simp
qed

lemma resolve_each_adds: "resolve_each env cmd now t rs st = (Inr u, st') \<Longrightarrow> adds_resolutions st st'"
  by (induction rs arbitrary: st)
    (auto simp: result_simps intro: adds_resolutions_trans dest: resolve_approval_adds)

lemma adds_resolutions_find:
  assumes "adds_resolutions st st'" and "event_by_id st i = None" and "event_by_id st' i = Some e"
  shows "\<exists>j ok r. ev_kind e = ApprovalResolved j ok r"
proof -
  from assms(1) obtain added where a: "rs_events st' = rs_events st @ added"
    "\<forall>e \<in> set added. \<exists>i ok r. ev_kind e = ApprovalResolved i ok r" by (auto simp: adds_resolutions_def)
  from assms(3) have "e \<in> set (rs_events st')" "ev_event_id e = i"
    by (auto simp: event_by_id_def dest: find_SomeD)
  moreover from assms(2) \<open>ev_event_id e = i\<close> have "e \<notin> set (rs_events st)"
    by (auto simp: event_by_id_None)
  ultimately show ?thesis using a by auto
qed

lemma resume_candidate_result:
  assumes r: "resume_candidate env cmd i rs now st = (Inr oc, st')" and ne: "rs_events st \<noteq> []"
    and fresh: "event_by_id st i = None"
  shows "st_status st' = RunRunning \<and> pending_approval_ids (rs_projection st') = []
    \<and> \<not> has_reconciliation_pending st'"
proof -
  from r obtain st1 st2 n where steps: "adds_resolutions st st1" "adds_resolutions st1 st2"
    and e: "emit env i RunResumed st2 = (Inr n, st')"
    unfolding resume_candidate_def Let_def bindS_Inr checkS_iff returnS_iff
    by (blast dest: resolve_each_adds)
  have st2: "adds_resolutions st st2" using steps by (rule adds_resolutions_trans)
  then have "rs_events st2 \<noteq> []" using ne by (auto simp: adds_resolutions_def)
  with e show ?thesis
  proof (cases rule: emit_cases)
    case (dedup old)
    with adds_resolutions_find [OF st2 fresh dedup(1)] show ?thesis by auto
  next
    case (appended c)
    from appended(2) have "apply_run_resumed st2 = Inr c" by (simp add: apply_later_event_def)
    from apply_run_resumed_Inr [OF this] appended(3) show ?thesis
      by (auto simp: pending_approval_ids_def has_reconciliation_pending_def)
  qed
qed

lemma resume_result:
  assumes r: "resume env cmd rs now st = (Inr (Resumed n), st')" and ne: "rs_events st \<noteq> []"
  shows "(st' = st \<and> (\<exists>e. event_by_id st (event_id_of env [rs_run_id st, ''resume'', cmd]) = Some e
             \<and> ev_kind e = RunResumed \<and> ev_sequence e = n))
    \<or> (st_status st = RunPausedSt \<and> st_status st' = RunRunning
        \<and> pending_approval_ids (rs_projection st') = [] \<and> \<not> has_reconciliation_pending st')"
proof (cases "event_by_id st (event_id_of env [rs_run_id st, ''resume'', cmd])")
  case None
  with r have "st_status st = RunPausedSt \<and>
      resume_candidate env cmd (event_id_of env [rs_run_id st, ''resume'', cmd]) rs now st = (Inr (Resumed n), st')"
    by (auto simp: resume_def Let_def result_simps split: if_splits option.splits)
  with resume_candidate_result [OF _ ne None] show ?thesis by blast
next
  case (Some e)
  with r show ?thesis by (auto simp: resume_def Let_def result_simps split: if_splits)
qed

subsection \<open>Rewind and fork\<close>

text \<open>A projection restored from a checkpoint for a run: the checkpoint's state, approvals and
  artifacts, no lease, and exactly the checkpoint's activities, except the reserved audit records
  and a record that occupies the identity of the new branch's terminal audit.\<close>

definition restores :: "'e hasher_scheme \<Rightarrow> string \<Rightarrow> checkpoint \<Rightarrow> run_projection \<Rightarrow> bool" where
  "restores h r cp p \<longleftrightarrow> pj_state p = pj_state (cp_projection cp)
     \<and> pj_approvals p = pj_approvals (cp_projection cp)
     \<and> pj_artifacts p = pj_artifacts (cp_projection cp)
     \<and> pj_worker_lease p = None \<and> pj_current_checkpoint_id p = Some (cp_checkpoint_id cp)
     \<and> (let terminal = stable_identifier h ''activity''
             [r, pj_branch_id p, RUNTIME_RUN_STOPPED_AUDIT_STEP_ID, ''terminal'']
         in \<forall>k. bt_get (pj_activities p) k =
           (case bt_get (pj_activities (cp_projection cp)) k of
              None \<Rightarrow> None
            | Some record \<Rightarrow>
                if is_reserved_step (ad_stable_step_id (ar_definition record))
                   \<or> k = terminal \<or> ad_activity_id (ar_definition record) = terminal
                then None else Some record))"

lemma restores_fork:
  assumes "bt_ok (pj_activities (cp_projection cp))"
  shows "restores h r cp (fork_projection h cp r b)"
proof -
  let ?t = "stable_identifier h ''activity'' [r, b, RUNTIME_RUN_STOPPED_AUDIT_STEP_ID, ''terminal'']"
  let ?q = "\<lambda>activity_id record. \<not> is_reserved_step (ad_stable_step_id (ar_definition record))
      \<and> \<not> (activity_id = ?t \<or> ad_activity_id (ar_definition record) = ?t)"
  have a: "pj_activities (fork_projection h cp r b) = bt_retain ?q (pj_activities (cp_projection cp))"
    by (simp add: fork_projection_def Let_def)
  show ?thesis
    unfolding restores_def Let_def a bt.lookup_retain [OF assms]
    by (auto split: option.splits)
qed

lemma restores_status [simp]:
  "restores h r cp (p\<lparr>pj_status := s, pj_pause_reason := q\<rparr>) = restores h r cp p"
  by (simp add: restores_def)

lemma source_checkpoint_bt_ok:
  "state_ok env st \<Longrightarrow> source_checkpoint env st i = Inr cp \<Longrightarrow> bt_ok (pj_activities (cp_projection cp))"
  using source_checkpoint_ok [of env st i cp] by (simp add: state_ok_def proj_ok_def activities_ok_def)

lemma rewind_result:
  assumes r: "rewind env cmd cpid ack st = (Inr (Rewound c n), st')" and ok: "state_ok env st"
    and ne: "rs_events st \<noteq> []" and fresh: "event_by_id st (event_id_of env [rs_run_id st, ''rewind'', cmd]) = None"
  shows "\<exists>cp. source_checkpoint env st cpid = Inr cp
    \<and> (\<not> ack \<longrightarrow> no_effect_after st (cp_event_sequence cp))
    \<and> restores env (rs_run_id st) cp (rs_projection st') \<and> st_status st' = RunPausedSt
    \<and> rs_checkpoints st' = rs_checkpoints st \<and> extends_run st st'"
proof -
  let ?i = "event_id_of env [rs_run_id st, ''rewind'', cmd]"
  from r fresh obtain cp b oc where cp: "source_checkpoint env st cpid = Inr cp"
    and q: "require_reconciled_after st (cp_event_sequence cp) ack = Inr ()"
    and e: "emit env ?i (RunRewound cpid b ack) st = (Inr oc, st')"
    unfolding rewind_def Let_def bindS_Inr checkS_iff by (auto simp: result_simps)
  from e ne show ?thesis
  proof (cases rule: emit_cases)
    case (dedup old)
    with fresh show ?thesis by simp
  next
    case (appended c)
    from appended(2) have "apply_run_rewound env cpid b ack st = Inr c" by (simp add: apply_later_event_def)
    from apply_run_rewound_Inr [OF this] cp have c: "c = set_status RunPausedSt (Some (rewound_reason cpid))
        (st\<lparr>rs_projection := fork_projection env cp (rs_run_id st) b\<rparr>)" by auto
    have "restores env (rs_run_id st) cp (rs_projection c)"
      using restores_fork [OF source_checkpoint_bt_ok [OF ok cp]] by (simp add: c)
    moreover have "extends_run st st'" using extends_emit [of st st env] e ne by (simp add: extends_run_def)
    ultimately show ?thesis
      using cp q appended(3) c by (cases ack) (auto intro: require_reconciled_Inr)
  qed
qed

text \<open>The identity a fork starts with.\<close>

definition forks_from :: "'e hasher_scheme \<Rightarrow> run_state \<Rightarrow> string \<Rightarrow> checkpoint \<Rightarrow> run_state \<Rightarrow> bool" where
  "forks_from h st r cp f \<longleftrightarrow> rs_run_id f = r \<and> rs_parent_run_id f = Some (rs_run_id st)
     \<and> rs_session_id f = rs_session_id st \<and> rs_durability f = rs_durability st
     \<and> restores h r cp (rs_projection f)
     \<and> rs_policy_snapshot_hash f = rs_policy_snapshot_hash st
     \<and> (case rs_governance_binding st of None \<Rightarrow> rs_governance_binding f = None
        | Some b \<Rightarrow> \<exists>b'. rs_governance_binding f = Some b' \<and> gb_run_id b' = r
            \<and> gb_policy_snapshot_hash b' = gb_policy_snapshot_hash b
            \<and> gb_tenant_id b' = gb_tenant_id b \<and> gb_agent_id b' = gb_agent_id b)"

lemma emit_pin_binding:
  assumes "emit env i (GovernanceBindingPinned b) st = (Inr oc, st')" and "rs_events st \<noteq> []"
    and "\<And>e. e \<in> set (rs_events st) \<Longrightarrow> ev_kind e \<noteq> GovernanceBindingPinned b"
  shows "rs_projection st' = rs_projection st \<and> rs_policy_snapshot_hash st' = Some (gb_policy_snapshot_hash b)
    \<and> rs_governance_binding st' = Some b \<and> extends_run st st'"
  using assms(1,2)
proof (cases rule: emit_cases)
  case (dedup old)
  with assms(3) show ?thesis by (auto simp: event_by_id_def dest: find_SomeD)
next
  case (appended c)
  from appended(2) have "apply_governance_binding_pinned env b st = Inr c" by (simp add: apply_later_event_def)
  from apply_governance_binding_pinned_Inr [OF this] appended(3) show ?thesis by (simp add: extends_run_def)
qed

lemma emit_pin_hash:
  assumes "emit env i (PolicySnapshotPinned h) st = (Inr oc, st')" and "rs_events st \<noteq> []"
    and "\<And>e. e \<in> set (rs_events st) \<Longrightarrow> ev_kind e \<noteq> PolicySnapshotPinned h"
  shows "rs_projection st' = rs_projection st \<and> rs_policy_snapshot_hash st' = Some h
    \<and> rs_governance_binding st' = None \<and> extends_run st st'"
  using assms(1,2)
proof (cases rule: emit_cases)
  case (dedup old)
  with assms(3) show ?thesis by (auto simp: event_by_id_def dest: find_SomeD)
next
  case (appended c)
  from appended(2) have "apply_policy_snapshot_pinned h st = Inr c" by (simp add: apply_later_event_def)
  from apply_policy_snapshot_pinned_Inr [OF this] appended(3) show ?thesis by (simp add: extends_run_def)
qed

lemma emit_forked_from:
  assumes "emit env i (ForkedFrom s src d cp b) (blank_state s r d p) = (Inr oc, f)"
    and "bt_ok (pj_activities (cp_projection cp))"
  shows "rs_run_id f = r \<and> rs_parent_run_id f = Some src \<and> rs_session_id f = s \<and> rs_durability f = d
    \<and> restores env r cp (rs_projection f) \<and> rs_policy_snapshot_hash f = None \<and> rs_governance_binding f = None
    \<and> (\<exists>e. rs_events f = [e] \<and> ev_kind e = ForkedFrom s src d cp b)"
  using assms(1)
proof (rule emit_blank_commit)
  fix c
  let ?ev = "emitted (blank_state s r d p) i (ForkedFrom s src d cp b)"
  assume c: "apply_event_in_place env ?ev (blank_state s r d p) = Inr c" and f: "f = c\<lparr>rs_events := rs_events c @ [?ev]\<rparr>"
  from c have "apply_forked_from env s src d cp b (blank_state s r d p) = Inr c"
    by (simp add: apply_event_in_place_def apply_first_event_def)
  from apply_forked_from_Inr(3) [OF this] f restores_fork [OF assms(2)] show ?thesis
    by (simp add: blank_state_def)
qed

lemma build_fork_result:
  assumes b: "build_fork env st r cp br cmd = Inr f" and cp: "bt_ok (pj_activities (cp_projection cp))"
    and pol: "policy_ok env st"
  shows "forks_from env st r cp f"
proof -
  from b obtain oc f0 where f0: "emit env (event_id_of env [r, ''forked_from'', cmd])
      (ForkedFrom (rs_session_id st) (rs_run_id st) (rs_durability st) cp br)
      (blank_state (rs_session_id st) r (rs_durability st) (fork_projection env cp r br)) = (Inr oc, f0)"
    by (auto simp: build_fork_def result_simps)
  note base = emit_forked_from [OF f0 cp]
  have ne: "rs_events f0 \<noteq> []" and only: "e \<in> set (rs_events f0) \<Longrightarrow> \<exists>s src d c b. ev_kind e = ForkedFrom s src d c b" for e
    using base by auto
  show ?thesis
  proof (cases "rs_governance_binding st")
    case (Some g)
    with b f0 obtain g' i oc' where g': "binding_for_run env g r = Inr g'"
      and e: "emit env i (GovernanceBindingPinned g') f0 = (Inr oc', f)"
      by (auto simp: build_fork_def result_simps)
    have "e \<in> set (rs_events f0) \<Longrightarrow> ev_kind e \<noteq> GovernanceBindingPinned g'" for e using only by fastforce
    from emit_pin_binding [OF e ne this] base g' binding_for_run_valid [OF g']
      binding_seal_fields [OF g' [unfolded binding_for_run_def]] Some pol
    show ?thesis by (auto simp: forks_from_def extends_run_def policy_ok_def)
  next
    case None
    show ?thesis
    proof (cases "rs_policy_snapshot_hash st")
      case h: (Some h)
      with b f0 None obtain i oc' where e: "emit env i (PolicySnapshotPinned h) f0 = (Inr oc', f)"
        by (auto simp: build_fork_def result_simps)
      have "e \<in> set (rs_events f0) \<Longrightarrow> ev_kind e \<noteq> PolicySnapshotPinned h" for e using only by fastforce
      from emit_pin_hash [OF e ne this] base None h show ?thesis by (auto simp: forks_from_def extends_run_def)
    next
      case h: None
      with b f0 None base show ?thesis by (auto simp: build_fork_def forks_from_def result_simps)
    qed
  qed
qed

lemma fork_full_result:
  assumes r: "fork env cmd r cpid ack st = (Inr (Forked f), st')" and ok: "run_ok env st"
  shows "\<exists>cp. source_checkpoint env st cpid = Inr cp \<and> forks_from env st r cp f
    \<and> rs_projection st' = rs_projection st \<and> extends_run st st'
    \<and> (\<not> ack \<and> event_by_id st (event_id_of env [rs_run_id st, ''fork'', cmd]) = None \<longrightarrow>
         no_effect_after st (cp_event_sequence cp))"
proof -
  have ne: "rs_events st \<noteq> []" using ok run_built_log by (auto simp: run_ok_def log_ok_def)
  have s: "state_ok env st" "policy_ok env st" using ok by (auto simp: run_ok_def intro: run_built_policy_ok)
  let ?i = "event_id_of env [rs_run_id st, ''fork'', cmd]"
  show ?thesis
  proof (cases "event_by_id st ?i")
    case None
    with r obtain cp br oc where cp: "source_checkpoint env st cpid = Inr cp"
      and q: "require_reconciled_after st (cp_event_sequence cp) ack = Inr ()"
      and e: "emit env ?i (ForkCreated r cpid br ack) st = (Inr oc, st')"
      and f: "build_fork env st' r cp br cmd = Inr f"
      by (auto simp: fork_def Let_def result_simps split: if_splits)
    from e ne obtain c where c: "apply_later_event env (emitted st ?i (ForkCreated r cpid br ack)) st = Inr c"
      "st' = c\<lparr>rs_events := rs_events st @ [emitted st ?i (ForkCreated r cpid br ack)]\<rparr>"
      by (cases rule: emit_cases) (use None in auto)
    have "c = st" using c(1) by (auto simp: apply_later_event_def dest: apply_fork_created_Inr(2))
    with c(2) have st': "st' = st\<lparr>rs_events := rs_events st @ [emitted st ?i (ForkCreated r cpid br ack)]\<rparr>" by simp
    have "policy_ok env st'" using s(2) ne by (auto simp: st' policy_ok_def)
    from build_fork_result [OF f source_checkpoint_bt_ok [OF s(1) cp] this] st'
    have "forks_from env st r cp f" by (simp add: forks_from_def)
    with cp q st' None show ?thesis by (cases ack) (auto simp: extends_run_def intro: require_reconciled_Inr)
  next
    case (Some old)
    from fork_result [OF r] obtain cp where cp: "source_checkpoint env st cpid = Inr cp" by blast
    from r Some cp obtain br where st': "st' = st" and f: "build_fork env st r cp br cmd = Inr f"
      by (cases "ev_kind old") (auto simp: fork_def Let_def result_simps split: if_splits)
    from build_fork_result [OF f source_checkpoint_bt_ok [OF s(1) cp] s(2)] cp st' Some
    show ?thesis by (auto simp: extends_run_def)
  qed
qed

subsection \<open>Approvals\<close>

text \<open>What \<open>serde\_json\<close> guarantees of the two approval envelopes: decoding gives back what was
  encoded.\<close>

definition approval_codec :: "durable_env \<Rightarrow> bool" where
  "approval_codec env \<longleftrightarrow> (\<forall>e. de_approval_envelope env (ser_approval_envelope env e) = Inr e)
     \<and> (\<forall>e. de_resolution_envelope env (ser_resolution_envelope env e) = Inr e)"

text \<open>The approval a typed request leaves in the ledger.\<close>

definition typed_approval :: "approval_request \<Rightarrow> string \<Rightarrow> run_state \<Rightarrow> durable_approval" where
  "typed_approval request i st =
     \<lparr>ap_approval_id = i, ap_logical_key = rq_logical_key request, ap_activity_id = rq_activity_id request,
      ap_kind = rq_kind request, ap_prompt = rq_prompt request, ap_payload = rq_payload request,
      ap_policy_snapshot_hash = rs_policy_snapshot_hash st,
      ap_governance_binding = rs_governance_binding st,
      ap_requested_at = Some (rq_requested_at request), ap_expires_at = Some (rq_expires_at request),
      ap_status = Pending, ap_response = None, ap_resolved_at = None, ap_timed_out = False,
      ap_requested_sequence = next_sequence st, ap_resolved_sequence = None\<rparr>"

lemma jget_single [simp]: "jget (JObject [(k, v)]) k = Some v"
  by (simp add: json_simps)

lemma request_typed_Inr:
  assumes "request_typed_approval env request st = (Inr i, st')" and c: "approval_codec env"
    and ne: "rs_events st \<noteq> []"
    and fresh: "event_by_id st (event_id_of env [stable_identifier env ''approval''
        [rs_run_id st, st_branch st, rq_logical_key request], ''requested'']) = None"
  shows "st_status st' = RunPausedSt
    \<and> st_approvals st' = bt_insert i (typed_approval request i st) (st_approvals st)"
proof -
  define rq where "rq = (if rq_governance_binding request = None
      then request\<lparr>rq_governance_binding := rs_governance_binding st\<rparr> else request)"
  have keep: "rq_logical_key rq = rq_logical_key request" "rq_activity_id rq = rq_activity_id request"
    "rq_kind rq = rq_kind request" "rq_prompt rq = rq_prompt request" "rq_payload rq = rq_payload request"
    "rq_requested_at rq = rq_requested_at request" "rq_expires_at rq = rq_expires_at request"
    by (simp_all add: rq_def)
  let ?i = "stable_identifier env ''approval'' [rs_run_id st, st_branch st, rq_logical_key request]"
  from assms(1) obtain oc where x: "rq_expires_at rq > rq_requested_at rq"
    and g: "check_request_governance env st rq = Inr ()" and i: "i = ?i"
    and e: "emit env (event_id_of env [?i, ''requested'']) (ApprovalRequested ?i (rq_logical_key request)
        (rq_activity_id request) (rq_prompt request) (approval_envelope_payload env rq)) st = (Inr oc, st')"
    unfolding request_typed_approval_def request_approval_def Let_def rq_def [symmetric] keep
    by (auto simp: result_simps not_le split: if_splits)
  from g have pol: "rq_policy_snapshot_hash rq = rs_policy_snapshot_hash st"
    "rq_governance_binding rq = rs_governance_binding st"
    by (auto simp: check_request_governance_def split: if_splits)
  have d: "decode_approval_payload env (approval_envelope_payload env rq) DURABILITY_SCHEMA_VERSION
      = Inr \<lparr>da_kind = rq_kind rq, da_payload = rq_payload rq,
          da_policy_snapshot_hash = rq_policy_snapshot_hash rq,
          da_governance_binding = rq_governance_binding rq,
          da_requested_at = Some (rq_requested_at rq), da_expires_at = Some (rq_expires_at rq)\<rparr>"
    using c x by (simp add: decode_approval_payload_def approval_envelope_payload_def approval_codec_def)
  from e ne show ?thesis
  proof (cases rule: emit_cases)
    case (dedup old)
    with fresh show ?thesis by simp
  next
    case (appended cc)
    from appended(2) have "apply_approval_requested env DURABILITY_SCHEMA_VERSION (next_sequence st) ?i
        (rq_logical_key request) (rq_activity_id request) (rq_prompt request)
        (approval_envelope_payload env rq) st = Inr cc" by (simp add: apply_later_event_def)
    from apply_approval_requested_Inr(4) [OF this] d appended(3) pol i keep show ?thesis
      by (auto simp: typed_approval_def requested_approval_def)
  qed
qed

end
