(* ===== verification/Demo.thy ===== *)
theory Demo
  imports DurCommands
begin

text \<open>
  A concrete environment (a short readable digest, simple codecs) and small runs, for witnesses that
  evaluate the model. The evaluation facts unfold the operations one call at a time.
\<close>

subsection \<open>The environment\<close>

definition demo_filter :: "string \<Rightarrow> string" where
  "demo_filter s = filter (\<lambda>c. 48 \<le> byte_of c \<and> byte_of c < 58 \<or> 95 \<le> byte_of c \<and> byte_of c < 123) s"

definition demo_digest :: "string \<Rightarrow> string" where
  "demo_digest s = rev (take 12 (rev (demo_filter s)))"

definition enc_string :: "string option \<Rightarrow> json" where
  "enc_string x = (case x of None \<Rightarrow> JNull | Some s \<Rightarrow> JString s)"

fun dec_string :: "json \<Rightarrow> string option option" where
  "dec_string JNull = Some None"
| "dec_string (JString s) = Some (Some s)"
| "dec_string _ = None"

definition enc_binding :: "governance_binding option \<Rightarrow> json" where
  "enc_binding x = (case x of None \<Rightarrow> JNull
     | Some b \<Rightarrow> JArray [JNumber (PosInt (gb_schema_version b)), JString (gb_policy_snapshot_hash b),
         enc_string (gb_tenant_id b), enc_string (gb_agent_id b), JString (gb_run_id b),
         JString (gb_binding_hash b)])"

fun dec_binding :: "json \<Rightarrow> governance_binding option option" where
  "dec_binding JNull = Some None"
| "dec_binding (JArray [JNumber (PosInt v), JString h, t, a, JString r, JString bh]) =
     Option.bind (dec_string t) (\<lambda>t'. Option.bind (dec_string a) (\<lambda>a'.
       Some (Some \<lparr>gb_schema_version = v, gb_policy_snapshot_hash = h, gb_tenant_id = t',
         gb_agent_id = a', gb_run_id = r, gb_binding_hash = bh\<rparr>)))"
| "dec_binding _ = None"

definition enc_kind :: "approval_kind \<Rightarrow> json" where
  "enc_kind k = JString (case k of Confirmation \<Rightarrow> ''c'' | MissingInput \<Rightarrow> ''m''
     | OutputReview \<Rightarrow> ''o'' | EditRetry \<Rightarrow> ''e'')"

definition dec_kind :: "string \<Rightarrow> approval_kind option" where
  "dec_kind s = (if s = ''c'' then Some Confirmation else if s = ''m'' then Some MissingInput
     else if s = ''o'' then Some OutputReview else if s = ''e'' then Some EditRetry else None)"

definition enc_approval :: "approval_envelope \<Rightarrow> json" where
  "enc_approval e = JArray [JNumber (PosInt (ae_schema_version e)), enc_kind (ae_kind e), ae_payload e,
     enc_string (ae_policy_snapshot_hash e), enc_binding (ae_governance_binding e),
     JNumber (PosInt (ae_requested_at e)), JNumber (PosInt (ae_expires_at e))]"

fun dec_approval :: "json \<Rightarrow> string + approval_envelope" where
  "dec_approval (JArray [JNumber (PosInt v), JString k, p, h, b, JNumber (PosInt q), JNumber (PosInt x)]) =
     (case (dec_kind k, dec_string h, dec_binding b) of
        (Some k', Some h', Some b') \<Rightarrow> Inr \<lparr>ae_schema_version = v, ae_kind = k', ae_payload = p,
          ae_policy_snapshot_hash = h', ae_governance_binding = b', ae_requested_at = q, ae_expires_at = x\<rparr>
      | _ \<Rightarrow> Inl ''malformed'')"
| "dec_approval _ = Inl ''malformed''"

definition enc_resolution :: "resolution_envelope \<Rightarrow> json" where
  "enc_resolution e = JArray [JNumber (PosInt (re_schema_version e)), JNumber (PosInt (re_resolved_at e)),
     JBool (re_timed_out e), JArray (case re_response e of None \<Rightarrow> [] | Some v \<Rightarrow> [v])]"

fun dec_resolution :: "json \<Rightarrow> string + resolution_envelope" where
  "dec_resolution (JArray [JNumber (PosInt v), JNumber (PosInt t), JBool z, JArray r]) =
     Inr \<lparr>re_schema_version = v, re_resolved_at = t, re_timed_out = z,
       re_response = (case r of [] \<Rightarrow> None | x # _ \<Rightarrow> Some x)\<rparr>"
| "dec_resolution _ = Inl ''malformed''"

definition demo_env :: durable_env where
  "demo_env = \<lparr>digest = demo_digest, number_to_string = (\<lambda>n. case n of PosInt k \<Rightarrow> show_nat k | _ \<Rightarrow> ''f''),
     quote_string = (\<lambda>s. s), contract_digest = (\<lambda>_. replicate 64 (CHR ''a'')),
     policy_to_vec = (\<lambda>_. Inr ''policy''), binding_to_vec = (\<lambda>_. Inr ''binding''),
     de_approval_envelope = dec_approval, ser_approval_envelope = enc_approval,
     de_resolution_envelope = dec_resolution, ser_resolution_envelope = enc_resolution,
     de_legacy_source = (\<lambda>_. Inl ''none''), de_legacy_resolution = (\<lambda>_. Inl ''none''),
     de_replay_envelope = (\<lambda>_. Inl ''none''), de_audit_replay_binding = (\<lambda>_. Inl ''none''),
     de_usage = (\<lambda>_. Inl ''none''), ser_receipt = (\<lambda>_. Inl ''none'')\<rparr>"

lemma dec_enc_string [simp]: "dec_string (enc_string x) = Some x"
  by (simp add: enc_string_def split: option.split)

lemma dec_enc_binding [simp]: "dec_binding (enc_binding x) = Some x"
  by (simp add: enc_binding_def split: option.split)

lemma demo_codec: "approval_codec demo_env"
  unfolding approval_codec_def
proof (intro conjI allI)
  fix e :: approval_envelope
  show "de_approval_envelope demo_env (ser_approval_envelope demo_env e) = Inr e"
    by (cases "ae_kind e") (simp_all add: demo_env_def enc_approval_def enc_kind_def dec_kind_def)
next
  fix e :: resolution_envelope
  show "de_resolution_envelope demo_env (ser_resolution_envelope demo_env e) = Inr e"
    by (simp add: demo_env_def enc_resolution_def split: option.split)
qed

subsection \<open>Evaluation\<close>

lemma bindR_weak: "m = m' \<Longrightarrow> bindR m f = bindR m' f"
  by simp

lemma bindS_weak: "m s = m' s \<Longrightarrow> bindS m f s = bindS m' f s"
  by (simp add: bindS_def)

lemma bindS_value:
  "m s = (Inr x, s') \<Longrightarrow> bindS m f s = f x s'"
  "m s = (Inl e, s') \<Longrightarrow> bindS m f s = (Inl e, s')"
  by (simp_all add: bindS_def)

lemmas method_eval = bindS_value checkS_def returnS_def failS_def atomically_def execR_def

lemmas log_eval = emit_def append_event_def append_validated_event_def commit_event_def
  apply_event_in_place_def apply_first_event_def apply_later_event_def event_by_id_def
  next_sequence_def last_opt_def Let_def schema_version_defs
  saturating_add_def u64_max_def blank_state_def projection_root_def map_projection_def
  set_status_def append_sequence_def

lemmas activity_eval = ensure_executing_def ensure_active_def bt_values_def bt_contains_key_def
  bt_get_def bt_modify_def bt_retain_def activity_def apply_activity_scheduled_def validate_v2_schedule_def
  terminal_marker_exists_def is_reserved_audit_activity_def is_terminal_audit_step_def step_id_defs
  validate_reserved_audit_schedule_def apply_attempt_started_def validate_v2_attempt_start_def
  validate_reserved_audit_attempt_start_def completed_output_def latest_attempt_def push_attempt_def
  update_attempt_def update_running_attempt_def find_attempt_def wrapping_add_u32_def as_u32_def
  running_attempt_def u32_try_from_def u32_max_def apply_attempt_completed_def
  validate_reserved_audit_attempt_completion_def apply_attempt_failed_def retry_is_safe_def key_missing_def
  unwrap_or_def

lemmas operation_eval = rs_new_def apply_run_started_def prepare_activity_def schedule_activity_def
  decide_activity_def start_next_attempt_def complete_activity_def fail_activity_def
  require_reconciliation_def apply_reconciliation_required_def terminal_legacy_migration_def
  require_reconciliation_status_def checkpoint_op_def ensure_not_reconciling_def
  apply_checkpoint_committed_def complete_run_def ensure_reserved_audit_lifecycle_closed_def
  reserved_open_def apply_run_completed_def pending_approval_ids_def has_reconciliation_pending_def
  latest_is_def ensure_no_running_activities_def has_running_attempt_def

lemmas run_eval = method_eval log_eval activity_eval operation_eval

subsection \<open>A run that completes one activity and ends\<close>

lemma u64_be_string_small:
  assumes "n < 256"
  shows "u64_be_string n = replicate 7 (char_of (0::nat)) @ [char_of n]"
proof -
  let ?w = "of_nat n :: u64"
  have u: "unat ?w = n" using assms by (simp add: unat_of_nat take_bit_eq_mod)
  have zero: "drop_bit i ?w = 0" if "8 \<le> i" for i
  proof -
    have "(256::nat) \<le> 2 ^ i" using power_increasing [OF that, of "2::nat"] by simp
    then have "n < 2 ^ i" using assms by simp
    then have "drop_bit i n = 0" by (simp add: drop_bit_eq_div)
    then have "unat (drop_bit i ?w) = 0" by (simp only: unat_drop_bit_eq u)
    then show ?thesis by (simp only: unat_eq_0)
  qed
  have "uint ?w = int n" by (simp only: uint_nat u)
  then have "uint (ucast ?w :: byte) = int n" using assms by (simp add: unsigned_ucast_eq take_bit_eq_mod)
  moreover have "char_of (0::int) = char_of (0::nat)" using char_of_nat [of 0, where ?'a = int] by simp
  ultimately show ?thesis
    unfolding u64_be_string_def u64_be_bytes_def by (simp add: zero numeral_eq_Suc)
qed

text \<open>The digest drops the length prefix of every field of the small runs.\<close>

lemma demo_identifier:
  assumes "\<forall>p \<in> set (ns # ps). length p < 48"
  shows "stable_identifier demo_env ns ps = ns @ ''_'' @ rev (take 12 (rev (concat (map demo_filter (ns # ps)))))"
proof -
  have split: "demo_filter (x @ y) = demo_filter x @ demo_filter y" for x y by (simp add: demo_filter_def)
  have len: "demo_filter (u64_be_string n) = []" if "n < 48" for n
    using that by (simp add: demo_filter_def u64_be_string_small filter_replicate)
  have "demo_filter (concat (map frame qs)) = concat (map demo_filter qs)" if "\<forall>p \<in> set qs. length p < 48" for qs
    using that by (induction qs) (simp_all add: split frame_def len, simp add: demo_filter_def)
  from this [OF assms] show ?thesis
    by (simp add: stable_identifier_def framed_fields_concat demo_env_def demo_digest_def)
qed

lemma demo_ids:
  "stable_identifier demo_env ''branch'' [''r'', ''root''] = ''branch_branchrroot''"
  "stable_identifier demo_env ''event'' [''r'', ''run_started''] = ''event_rrun_started''"
  "stable_identifier demo_env ''activity'' [''r'', ''branch_branchrroot'', ''pay'', ''k''] = ''activity_nchrrootpayk''"
  "stable_identifier demo_env ''event'' [''activity_nchrrootpayk'', ''scheduled''] = ''event_aykscheduled''"
  "stable_identifier demo_env ''event'' [''activity_nchrrootpayk'', ''1'', ''started''] = ''event_payk1started''"
  "stable_identifier demo_env ''event'' [''activity_nchrrootpayk'', ''1'', ''completed''] = ''event_yk1completed''"
  "stable_identifier demo_env ''checkpoint'' [''r'', ''branch_branchrroot'', ''c''] = ''checkpoint_branchrrootc''"
  "stable_identifier demo_env ''event'' [''checkpoint_branchrrootc'', ''committed''] = ''event_otccommitted''"
  "stable_identifier demo_env ''event'' [''r'', ''complete'', ''done''] = ''event_completedone''"
  by (simp_all add: demo_identifier demo_filter_def)

lemma demo_valid:
  "validate_identifier x ''activity_nchrrootpayk'' = Inr ()"
  "validate_identifier x ''branch_branchrroot'' = Inr ()"
  "validate_identifier x ''c'' = Inr ()"
  "validate_identifier x ''checkpoint_branchrrootc'' = Inr ()"
  "validate_identifier x ''done'' = Inr ()"
  "validate_identifier x ''event_aykscheduled'' = Inr ()"
  "validate_identifier x ''event_completedone'' = Inr ()"
  "validate_identifier x ''event_otccommitted'' = Inr ()"
  "validate_identifier x ''event_payk1started'' = Inr ()"
  "validate_identifier x ''event_rrun_started'' = Inr ()"
  "validate_identifier x ''event_yk1completed'' = Inr ()"
  "validate_identifier x ''k'' = Inr ()"
  "validate_identifier x ''pay'' = Inr ()"
  "validate_identifier x ''r'' = Inr ()"
  "validate_identifier x ''s'' = Inr ()"
  by (simp_all add: validate_identifier_def)

lemma demo_values:
  "stable_input_hash demo_env JNull = ''sha256:null''"
  "stable_input_hash demo_env (JBool True) = ''sha256:true''"
  by (simp_all add: stable_input_hash_def demo_env_def demo_digest_def demo_filter_def)

lemma demo_attempts: "show_nat (Suc 0) = ''1''"
  by code_simp

lemmas demo_eval = run_eval demo_ids demo_valid demo_values demo_attempts

definition demo0 :: run_state where
  "demo0 = \<lparr>rs_schema_version = 3, rs_session_id = ''s'', rs_run_id = ''r'', rs_durability = Sync,
     rs_parent_run_id = None, rs_policy_snapshot_hash = None, rs_governance_binding = None,
     rs_events = [\<lparr>ev_schema_version = 3, ev_run_id = ''r'', ev_sequence = 1,
       ev_event_id = ''event_rrun_started'', ev_kind = RunStarted ''s'' Sync ''branch_branchrroot''\<rparr>],
     rs_checkpoints = [],
     rs_projection = \<lparr>pj_branch_id = ''branch_branchrroot'', pj_status = RunRunning, pj_state = JObject [],
       pj_activities = [], pj_approvals = [], pj_artifacts = [], pj_current_checkpoint_id = None,
       pj_pause_reason = None, pj_worker_lease = None\<rparr>\<rparr>"

definition demo_activity :: string where
  "demo_activity = ''activity_nchrrootpayk''"

definition demo1 :: run_state where
  "demo1 = snd (prepare_activity demo_env ''pay'' ''k'' JNull Pure None demo0)"
definition demo2 :: run_state where
  "demo2 = snd (complete_activity demo_env demo_activity 1 (JBool True) demo1)"
definition demo3 :: run_state where
  "demo3 = snd (checkpoint_op demo_env ''c'' None demo2)"
definition demo4 :: run_state where
  "demo4 = snd (complete_run demo_env ''done'' demo3)"

lemma demo0_new: "rs_new demo_env ''s'' ''r'' Sync = Inr demo0"
  by (simp add: demo_eval demo0_def cong: bindR_weak bindS_weak)

lemma demo1_run: "fst (prepare_activity demo_env ''pay'' ''k'' JNull Pure None demo0) =
    Inr (Execute demo_activity 1 None)"
  by (simp add: demo_eval demo0_def demo_activity_def cong: bindR_weak bindS_weak)

lemma demo4_status: "st_status demo4 = RunCompletedSt"
  by (simp add: demo_eval demo4_def demo3_def demo2_def demo1_def demo0_def demo_activity_def cong: bindR_weak bindS_weak)

subsection \<open>A run with a typed approval\<close>

lemma approval_ids:
  "stable_identifier demo_env ''approval'' [''r'', ''branch_branchrroot'', ''ok''] = ''approval_ranchrrootok''"
  "stable_identifier demo_env ''event'' [''approval_ranchrrootok'', ''requested''] = ''event_tokrequested''"
  "stable_identifier demo_env ''event'' [''approval_ranchrrootok'', ''resolved'', ''go''] = ''event_okresolvedgo''"
  "stable_identifier demo_env ''event'' [''r'', ''resume'', ''go''] = ''event_entrresumego''"
  by (simp_all add: demo_identifier demo_filter_def)

lemma approval_valid:
  "validate_identifier x ''approval_ranchrrootok'' = Inr ()"
  "validate_identifier x ''event_entrresumego'' = Inr ()"
  "validate_identifier x ''event_okresolvedgo'' = Inr ()"
  "validate_identifier x ''event_tokrequested'' = Inr ()"
  "validate_identifier x ''go'' = Inr ()"
  "validate_identifier x ''ok'' = Inr ()"
  by (simp_all add: validate_identifier_def)

lemmas approval_eval = request_typed_approval_def request_approval_def check_request_governance_def
  check_binding_identity_def approval_envelope_payload_def apply_approval_requested_def
  decode_approval_payload_def jget_def as_object_def DURABLE_APPROVAL_ENVELOPE_KEY_def
  DURABLE_RESOLUTION_ENVELOPE_KEY_def apply_command_at_def resume_def resume_candidate_def
  typed_pending_def expired_approval_ids_def timeout_resolution_def resolve_approval_def
  validate_approval_resolution_def validate_approval_clock_def apply_approval_resolved_def
  decode_resolution_payload_def apply_run_resumed_def is_blank_def approval_ids approval_valid
  approval_required_reason_def

lemma demo_envelopes:
  "de_approval_envelope demo_env (ser_approval_envelope demo_env e) = Inr e"
  "de_resolution_envelope demo_env (ser_resolution_envelope demo_env f) = Inr f"
  using demo_codec by (simp_all add: approval_codec_def)

definition demo_request :: approval_request where
  "demo_request = \<lparr>rq_logical_key = ''ok'', rq_activity_id = None, rq_kind = Confirmation,
     rq_prompt = ''p'', rq_payload = JNull, rq_policy_snapshot_hash = None,
     rq_governance_binding = None, rq_requested_at = 10, rq_expires_at = 20\<rparr>"

definition demo_approval :: string where
  "demo_approval = ''approval_ranchrrootok''"

definition demo5 :: run_state where
  "demo5 = snd (request_typed_approval demo_env demo_request demo0)"
definition demo6 :: run_state where
  "demo6 = snd (apply_command_at demo_env
     (Resume ''go'' [\<lparr>res_approval_id = demo_approval, res_approved = True, res_response = None\<rparr>]) 15 demo5)"

lemma demo5_run: "fst (request_typed_approval demo_env demo_request demo0) = Inr demo_approval"
  by (simp add: demo_eval approval_eval demo_envelopes demo0_def demo_request_def demo_approval_def
      cong: bindR_weak bindS_weak)

lemma demo6_outcome: "fst (apply_command_at demo_env
     (Resume ''go'' [\<lparr>res_approval_id = demo_approval, res_approved = True, res_response = None\<rparr>]) 15 demo5) =
    Inr (Resumed 4)"
  by (simp add: demo_eval approval_eval demo_envelopes demo5_def demo0_def demo_request_def
      demo_approval_def cong: bindR_weak bindS_weak)

lemma demo6_run:
  "st_status demo6 = RunRunning"
  "map_option (\<lambda>a. (ap_status a, ap_resolved_at a, ap_expires_at a)) (bt_get (st_approvals demo6) demo_approval) =
     Some (Approved, Some 15, Some 20)"
  by (simp_all add: demo_eval approval_eval demo_envelopes demo6_def demo5_def demo0_def demo_request_def
      demo_approval_def cong: bindR_weak bindS_weak)

end
