(* ===== verification/DurProps.thy ===== *)
theory DurProps
  imports Demo
begin

text \<open>
  The properties of the durable run (\<open>durability.rs\<close>), each with a witness on a concrete
  run of theory \<open>Demo\<close>.
\<close>

subsection \<open>Helpers for the witnesses\<close>

lemma demo_orderly:
  "orderly_reach demo_env demo0" "orderly_reach demo_env demo1" "orderly_reach demo_env demo2"
  "orderly_reach demo_env demo3" "orderly_reach demo_env demo4" "orderly_reach demo_env demo5"
  "orderly_reach demo_env demo6"
proof -
  show 0: "orderly_reach demo_env demo0" by (rule run_reached.new [OF demo0_new])
  show 1: "orderly_reach demo_env demo1" unfolding demo1_def
    by (rule run_reached.step [OF 0 run_step.prepare [OF prod.collapse [symmetric]]])
  show 2: "orderly_reach demo_env demo2" unfolding demo2_def
    by (rule run_reached.step [OF 1 run_step.complete [OF prod.collapse [symmetric]]])
  show 3: "orderly_reach demo_env demo3" unfolding demo3_def
    by (rule run_reached.step [OF 2 run_step.checkpoint [OF prod.collapse [symmetric]]])
  show "orderly_reach demo_env demo4" unfolding demo4_def
    by (rule run_reached.step [OF 3 run_step.complete_run [OF prod.collapse [symmetric]]])
  show 5: "orderly_reach demo_env demo5" unfolding demo5_def
    by (rule run_reached.step [OF 0 run_step.request_typed [OF prod.collapse [symmetric]]])
  show "orderly_reach demo_env demo6" unfolding demo6_def
    by (rule run_reached.step [OF 5 run_step.command_at [OF prod.collapse [symmetric]]])
qed

lemmas demo_reach = demo_orderly [THEN orderly_reach_api]

lemma api_reach_nonempty: "api_reach env st \<Longrightarrow> rs_events st \<noteq> []"
  using api_reach_built run_built_log log_ok_def by blast

text \<open>A run that is executing, paused or ended, in the small runs.\<close>

lemma demo_status: "st_status demo0 = RunRunning" "length (rs_events demo0) = 1"
  by (simp_all add: demo0_def)

subsection \<open>Replay\<close>

text \<open>C1: every state that a client can reach through the public interface (constructors, all
  operations whether they succeed or fail, \<open>append\_event\<close> of any event, forks) is exactly the replay of its own event log,
  and passes the consistency check of deserialisation unchanged.\<close>

theorem replay_roundtrip:
  assumes "api_reach env st"
  shows "from_events env (rs_events st) = Inr st \<and> deserialize_run_state env st = Inr st"
  using run_built_replay [OF api_reach_built [OF assms]] run_built_deserialize [OF api_reach_built [OF assms]]
  by simp

theorem replay_roundtrip_witness:
  "from_events demo_env (rs_events demo4) = Inr demo4 \<and> deserialize_run_state demo_env demo4 = Inr demo4"
  by (rule replay_roundtrip [OF demo_reach(5)])

text \<open>C2: whatever event list replay accepts (duplicates included), the log of the resulting
  state replays to the same state; it is numbered 1, 2, 3, ... (saturating at the maximum of
  u64), its event identifiers are valid and pairwise different, its events belong to the run
  and its schema versions are supported and never decrease.\<close>

theorem replay_canonical:
  assumes "from_events env es = Inr st"
  shows "from_events env (rs_events st) = Inr st \<and> log_ok st"
  using run_built_replay run_built_log run_built_from_events [OF assms] by blast

theorem replay_canonical_witness:
  "from_events demo_env (rs_events demo2) = Inr demo2 \<and> log_ok demo2"
  by (rule replay_canonical [OF run_built_replay [OF api_reach_built [OF demo_reach(3)]]])

text \<open>C3: replay of any log whose imported checkpoints are well typed yields the structural
  invariant: maps keyed by the identity of their values, input hashes that match, attempts
  numbered consecutively with a payload that fits their status and only the last one running,
  unbroken artifact version chains, consistent approvals, a bounded worker lease, and
  checkpoints with the same properties.\<close>

theorem replay_structural:
  assumes "from_events env es = Inr st" and "\<forall>e \<in> set (rs_events st). typed_event e"
  shows "state_ok env st"
  by (rule run_built_state_ok [OF run_built_from_events [OF assms(1)] assms(2)])

theorem replay_structural_witness: "state_ok demo_env demo0"
proof (rule replay_structural)
  show "from_events demo_env (rs_events demo0) = Inr demo0"
    by (rule run_built_replay [OF api_reach_built [OF demo_reach(1)]])
  show "\<forall>e \<in> set (rs_events demo0). typed_event e" by (simp add: demo0_def typed_event_def)
qed

subsection \<open>Protocol safety\<close>



text \<open>A run that has completed, failed or been cancelled through the interface has no
  running attempt left.\<close>

theorem ended_run_has_no_running_attempt:
  assumes "api_reach env st" and "is_terminal (st_status st)"
  shows "\<not> list_ex has_running_attempt (bt_values (st_activities st))"
  using api_reach_ok [OF assms(1)] assms(2)
  by (auto simp: run_ok_def proto_ok_def state_ok_def proj_ok_def activities_ok_def no_running_iff list_ex_iff)

theorem ended_run_has_no_running_attempt_witness:
  "\<not> list_ex has_running_attempt (bt_values (st_activities demo4))"
  by (rule ended_run_has_no_running_attempt [OF demo_reach(5)]) (simp add: demo4_status)

text \<open>C5: an approval with a deadline that a reachable run records as approved was resolved at
  a time not before its request and strictly before its deadline.\<close>

theorem approved_before_deadline:
  assumes "api_reach env st" and "bt_get (st_approvals st) k = Some a"
    and "ap_status a = Approved" and "ap_expires_at a = Some x"
  shows "\<exists>q t. ap_requested_at a = Some q \<and> ap_resolved_at a = Some t \<and> q \<le> t \<and> t < x \<and> \<not> ap_timed_out a"
proof -
  from api_reach_ok [OF assms(1)] assms(2) have "clock_ok a"
    by (auto simp: run_ok_def proto_ok_def clocks_ok_def)
  with assms(3,4) show ?thesis by (auto simp: clock_ok_def split: option.splits)
qed

theorem approved_before_deadline_witness:
  "\<exists>a q t. bt_get (st_approvals demo6) demo_approval = Some a \<and> ap_requested_at a = Some q
     \<and> ap_resolved_at a = Some t \<and> q \<le> t \<and> t < 20 \<and> \<not> ap_timed_out a"
proof -
  from demo6_run(2) obtain a where a: "bt_get (st_approvals demo6) demo_approval = Some a"
    "ap_status a = Approved" "ap_expires_at a = Some 20" by auto
  from approved_before_deadline [OF demo_reach(7) a] a(1) show ?thesis by blast
qed

text \<open>C6: ending a run is final: no operation of the interface, \<open>append\_event\<close> included, changes the
  status of a completed, failed or cancelled run.\<close>

theorem terminal_status_is_final:
  assumes "is_terminal (st_status st)" and "rs_events st \<noteq> []" and "api_step env st st'"
  shows "st_status st' = st_status st"
  using ended.run_step_keeps [OF assms(3)] assms(1,2) by blast

theorem terminal_status_is_final_witness:
  "st_status (snd (pause demo_env ''p'' ''why'' demo4)) = RunCompletedSt"
  using terminal_status_is_final [of demo4 demo_env "snd (pause demo_env ''p'' ''why'' demo4)"]
    demo4_status api_reach_nonempty [OF demo_reach(5)] run_step.pause [OF prod.collapse [symmetric]]
  by fastforce

end
