(* ===== verification/DemoBranch.thy ===== *)
theory DemoBranch
  imports Demo
begin

text \<open>
  Runs with a rewind, a fork, a pause and worker leases, for the properties of the commands and
  for the behaviours of branches that the event identifiers do not separate.
\<close>

lemma branch_ids:
  "stable_identifier demo_env ''event'' [''activity_nchrrootpayk'', ''1'', ''interrupted''] = ''event_1interrupted''"
  "stable_identifier demo_env ''event'' [''activity_nchrrootpayk'', ''2'', ''started''] = ''event_payk2started''"
  "stable_identifier demo_env ''branch'' [''r'', ''rewind'', ''w'', ''checkpoint_branchrrootc''] = ''branch_branchrrootc''"
  "stable_identifier demo_env ''event'' [''r'', ''rewind'', ''w''] = ''event_ventrrewindw''"
  "stable_identifier demo_env ''activity'' [''r'', ''branch_branchrrootc'', ''runtime-run-stopped-audit-v2'', ''terminal''] = ''activity_itv2terminal''"
  "stable_identifier demo_env ''branch'' [''q'', ''fork'', ''f''] = ''branch_branchqforkf''"
  "stable_identifier demo_env ''event'' [''r'', ''fork'', ''f''] = ''event_eventrforkf''"
  "stable_identifier demo_env ''event'' [''q'', ''forked_from'', ''f''] = ''event_forked_fromf''"
  "stable_identifier demo_env ''activity'' [''q'', ''branch_branchqforkf'', ''runtime-run-stopped-audit-v2'', ''terminal''] = ''activity_itv2terminal''"
  "stable_identifier demo_env ''checkpoint'' [''q'', ''branch_branchqforkf'', ''c''] = ''checkpoint_ranchqforkfc''"
  "stable_identifier demo_env ''event'' [''checkpoint_ranchqforkfc'', ''committed''] = ''event_kfccommitted''"
  "stable_identifier demo_env ''branch'' [''z'', ''fork'', ''g''] = ''branch_branchzforkg''"
  "stable_identifier demo_env ''event'' [''q'', ''fork'', ''g''] = ''event_eventqforkg''"
  "stable_identifier demo_env ''event'' [''z'', ''forked_from'', ''g''] = ''event_forked_fromg''"
  "stable_identifier demo_env ''activity'' [''z'', ''branch_branchzforkg'', ''runtime-run-stopped-audit-v2'', ''terminal''] = ''activity_itv2terminal''"
  "stable_identifier demo_env ''event'' [''r'', ''pause'', ''p''] = ''event_eventrpausep''"
  "stable_identifier demo_env ''event'' [''activity_nchrrootpayk'', ''1'', ''failed''] = ''event_tpayk1failed''"
  "stable_identifier demo_env ''event'' [''r'', ''worker_lease_claimed'', ''l'', ''10''] = ''event_e_claimedl10''"
  "stable_identifier demo_env ''event'' [''r'', ''worker_lease_claimed'', ''m'', ''20''] = ''event_e_claimedm20''"
  by (simp_all add: demo_identifier demo_filter_def)

lemma branch_valid:
  "validate_identifier x ''activity_itv2terminal'' = Inr ()"
  "validate_identifier x ''branch_branchqforkf'' = Inr ()"
  "validate_identifier x ''branch_branchrrootc'' = Inr ()"
  "validate_identifier x ''branch_branchzforkg'' = Inr ()"
  "validate_identifier x ''checkpoint_ranchqforkfc'' = Inr ()"
  "validate_identifier x ''event_1interrupted'' = Inr ()"
  "validate_identifier x ''event_e_claimedl10'' = Inr ()"
  "validate_identifier x ''event_e_claimedm20'' = Inr ()"
  "validate_identifier x ''event_eventqforkg'' = Inr ()"
  "validate_identifier x ''event_eventrforkf'' = Inr ()"
  "validate_identifier x ''event_eventrpausep'' = Inr ()"
  "validate_identifier x ''event_forked_fromf'' = Inr ()"
  "validate_identifier x ''event_forked_fromg'' = Inr ()"
  "validate_identifier x ''event_kfccommitted'' = Inr ()"
  "validate_identifier x ''event_payk2started'' = Inr ()"
  "validate_identifier x ''event_tpayk1failed'' = Inr ()"
  "validate_identifier x ''event_ventrrewindw'' = Inr ()"
  "validate_identifier x ''f'' = Inr ()"
  "validate_identifier x ''g'' = Inr ()"
  "validate_identifier x ''l'' = Inr ()"
  "validate_identifier x ''m'' = Inr ()"
  "validate_identifier x ''p'' = Inr ()"
  "validate_identifier x ''q'' = Inr ()"
  "validate_identifier x ''w'' = Inr ()"
  "validate_identifier x ''z'' = Inr ()"
  by (simp_all add: validate_identifier_def)

lemma branch_values: "show_nat (Suc (Suc 0)) = ''2''" "show_nat 2 = ''2''" "show_nat 10 = ''10''" "show_nat 20 = ''20''"
  by code_simp+

lemmas branch_eval = apply_command_def rewind_def DurOps.fork_def resume_def resume_candidate_def
  source_checkpoint_def checkpoint_by_id_def checkpoint_for_current_run_def require_reconciled_after_def
  activity_side_effect_class_def apply_run_rewound_def fork_projection_def is_reserved_step_def
  typed_pending_def expired_approval_ids_def apply_run_resumed_def build_fork_def apply_fork_created_def
  apply_forked_from_def validate_source_checkpoint_def validate_projection_keyed_identities_def
  validate_activity_entry_def validate_attempt_def attempt_payload_ok_def validate_approval_entry_def
  validate_artifact_entry_def pause_def apply_run_paused_def claim_worker_lease_def apply_lease_claimed_def
  validate_worker_lease_window_def checked_sub_def MAX_DURABLE_WORKER_LEASE_MS_def ok_or_def
  branch_ids branch_valid branch_values approval_ids approval_valid rewound_reason_def interrupted_error_def

subsection \<open>Values of the small runs\<close>

definition demo_definition :: activity_definition where
  "demo_definition = \<lparr>ad_activity_id = demo_activity, ad_stable_step_id = ''pay'', ad_logical_key = ''k'',
     ad_input = JNull, ad_input_hash = ''sha256:null'', ad_side_effect_class = Pure, ad_idempotency_key = None\<rparr>"

definition demo_event :: "nat \<Rightarrow> string \<Rightarrow> event_kind \<Rightarrow> run_event" where
  "demo_event n i k = \<lparr>ev_schema_version = 3, ev_run_id = ''r'', ev_sequence = n, ev_event_id = i, ev_kind = k\<rparr>"

definition demo_attempt :: "nat \<Rightarrow> attempt_status \<Rightarrow> nat \<Rightarrow> activity_attempt" where
  "demo_attempt k s n = \<lparr>at_attempt = k, at_status = s, at_started_sequence = n, at_finished_sequence = None,
     at_output = None, at_output_hash = None, at_error = None, at_retryable = False, at_effect_ambiguous = False\<rparr>"

definition demo_checkpoint :: checkpoint where
  "demo_checkpoint = \<lparr>cp_checkpoint_id = ''checkpoint_branchrrootc'', cp_run_id = ''r'',
     cp_event_sequence = 4, cp_parent_checkpoint_id = None, cp_label = None,
     cp_projection = (rs_projection demo0)\<lparr>pj_activities :=
       [(demo_activity, \<lparr>ar_definition = demo_definition, ar_attempts = [demo_attempt 1 AtRunning 3]\<rparr>)]\<rparr>\<rparr>"

definition branch1 :: run_state where
  "branch1 = snd (checkpoint_op demo_env ''c'' None demo1)"

lemmas branch_defs = demo0_def demo_activity_def demo_definition_def demo_event_def demo_attempt_def demo_checkpoint_def

lemma branch1_eq: "branch1 = demo0\<lparr>
   rs_events := rs_events demo0 @
     [demo_event 2 ''event_aykscheduled'' (ActivityScheduled demo_definition),
      demo_event 3 ''event_payk1started'' (ActivityAttemptStarted demo_activity 1),
      demo_event 4 ''event_otccommitted''
        (CheckpointCommitted (cp_checkpoint_id demo_checkpoint) None)],
   rs_checkpoints := [(cp_checkpoint_id demo_checkpoint, demo_checkpoint)],
   rs_projection := (cp_projection demo_checkpoint)\<lparr>pj_current_checkpoint_id := Some (cp_checkpoint_id demo_checkpoint)\<rparr>\<rparr>"
  by (simp add: demo_eval branch1_def demo1_def branch_defs cong: bindR_weak bindS_weak)

subsection \<open>A retry on a rewound branch\<close>

definition branch2 :: run_state where
  "branch2 = snd (prepare_activity demo_env ''pay'' ''k'' JNull Pure None branch1)"
definition branch3 :: run_state where
  "branch3 = snd (apply_command demo_env (Rewind ''w'' (cp_checkpoint_id demo_checkpoint) False) branch2)"
definition branch4 :: run_state where
  "branch4 = snd (apply_command demo_env (Resume ''go'' []) branch3)"

text \<open>The two events of the retry on the first branch.\<close>

definition retry_events :: "run_event list" where
  "retry_events =
     [demo_event 5 ''event_1interrupted''
        (ActivityAttemptFailed demo_activity 1 interrupted_error True True),
      demo_event 6 ''event_payk2started''
        (ActivityAttemptStarted demo_activity 2)]"

lemma branch2_eq: "branch2 = branch1\<lparr>
   rs_events := rs_events branch1 @ retry_events,
   rs_projection := (rs_projection branch1)\<lparr>pj_activities :=
     [(demo_activity, \<lparr>ar_definition = demo_definition, ar_attempts =
        [(demo_attempt 1 AtFailed 3)\<lparr>at_finished_sequence := Some 5, at_error := Some interrupted_error,
           at_retryable := True, at_effect_ambiguous := True\<rparr>, demo_attempt 2 AtRunning 6]\<rparr>)]\<rparr>\<rparr>"
  by (simp add: demo_eval branch_eval branch2_def branch1_eq branch_defs retry_events_def cong: bindR_weak bindS_weak)

lemma branch3_run: "fst (rewind demo_env ''w'' (cp_checkpoint_id demo_checkpoint) False branch2) =
    Inr (Rewound (cp_checkpoint_id demo_checkpoint) 7)"
  by (simp add: demo_eval branch_eval branch2_eq branch1_eq branch_defs retry_events_def cong: bindR_weak bindS_weak)

lemma branch4_eq: "branch4 = branch1\<lparr>
   rs_events := rs_events branch1 @ retry_events @
     [demo_event 7 ''event_ventrrewindw'' (RunRewound (cp_checkpoint_id demo_checkpoint)
        ''branch_branchrrootc'' False),
      demo_event 8 ''event_entrresumego'' RunResumed],
   rs_projection := (rs_projection branch1)\<lparr>pj_branch_id :=
     ''branch_branchrrootc''\<rparr>\<rparr>"
  by (simp add: demo_eval branch_eval branch4_def branch3_def branch2_eq branch1_eq branch_defs retry_events_def
      cong: bindR_weak bindS_weak)

lemma branch4_retry: "prepare_activity demo_env ''pay'' ''k'' JNull Pure None branch4 =
    (Inr (Execute demo_activity 2 None), branch4)"
  by (simp add: demo_eval branch_eval branch4_eq branch1_eq branch_defs retry_events_def cong: bindR_weak bindS_weak)

subsection \<open>A fork with an inherited running attempt\<close>

definition fork1 :: run_state where
  "fork1 = \<lparr>rs_schema_version = 3, rs_session_id = ''s'', rs_run_id = ''q'', rs_durability = Sync,
     rs_parent_run_id = Some ''r'', rs_policy_snapshot_hash = None, rs_governance_binding = None,
     rs_events = [\<lparr>ev_schema_version = 3, ev_run_id = ''q'', ev_sequence = 1,
       ev_event_id = ''event_forked_fromf'',
       ev_kind = ForkedFrom ''s'' ''r'' Sync demo_checkpoint ''branch_branchqforkf''\<rparr>],
     rs_checkpoints = [(cp_checkpoint_id demo_checkpoint, demo_checkpoint)],
     rs_projection = (cp_projection demo_checkpoint)\<lparr>pj_branch_id := ''branch_branchqforkf'',
       pj_current_checkpoint_id := Some (cp_checkpoint_id demo_checkpoint)\<rparr>\<rparr>"

lemma fork1_run: "fst (fork demo_env ''f'' ''q'' (cp_checkpoint_id demo_checkpoint) False branch1) = Inr (Forked fork1)"
  by (simp add: demo_eval branch_eval fork1_def branch1_eq branch_defs cong: bindR_weak bindS_weak)

text \<open>The inherited attempt completes in the fork and a checkpoint is taken.\<close>

definition demo_done :: activity_record where
  "demo_done = \<lparr>ar_definition = demo_definition, ar_attempts = [(demo_attempt 1 AtCompleted 3)
     \<lparr>at_finished_sequence := Some 2, at_output := Some (JBool True), at_output_hash := Some ''sha256:true''\<rparr>]\<rparr>"

definition fork2 :: run_state where
  "fork2 = fork1\<lparr>rs_events := rs_events fork1 @ [\<lparr>ev_schema_version = 3, ev_run_id = ''q'', ev_sequence = 2,
       ev_event_id = ''event_yk1completed'',
       ev_kind = ActivityAttemptCompleted demo_activity 1 (JBool True) ''sha256:true''\<rparr>],
     rs_projection := (rs_projection fork1)\<lparr>pj_activities := [(demo_activity, demo_done)]\<rparr>\<rparr>"

lemma fork2_run: "complete_activity demo_env demo_activity 1 (JBool True) fork1 = (Inr (Appended 2), fork2)"
  by (simp add: demo_eval branch_eval fork2_def fork1_def branch_defs demo_done_def cong: bindR_weak bindS_weak)

definition fork_checkpoint :: checkpoint where
  "fork_checkpoint = \<lparr>cp_checkpoint_id = ''checkpoint_ranchqforkfc'', cp_run_id = ''q'',
     cp_event_sequence = 3, cp_parent_checkpoint_id = Some (cp_checkpoint_id demo_checkpoint), cp_label = None,
     cp_projection = rs_projection fork2\<rparr>"

definition fork3 :: run_state where
  "fork3 = fork2\<lparr>rs_events := rs_events fork2 @ [\<lparr>ev_schema_version = 3, ev_run_id = ''q'', ev_sequence = 3,
       ev_event_id = ''event_kfccommitted'', ev_kind = CheckpointCommitted (cp_checkpoint_id fork_checkpoint) None\<rparr>],
     rs_checkpoints := [(cp_checkpoint_id demo_checkpoint, demo_checkpoint), (cp_checkpoint_id fork_checkpoint, fork_checkpoint)],
     rs_projection := (rs_projection fork2)\<lparr>pj_current_checkpoint_id := Some (cp_checkpoint_id fork_checkpoint)\<rparr>\<rparr>"

lemma fork3_run: "checkpoint_op demo_env ''c'' None fork2 = (Inr fork_checkpoint, fork3)"
  by (simp add: demo_eval branch_eval fork3_def fork2_def fork1_def branch_defs demo_done_def fork_checkpoint_def
      cong: bindR_weak bindS_weak)

lemma fork3_rejects: "fst (fork demo_env ''g'' ''z'' (cp_checkpoint_id fork_checkpoint) False fork3) = Inl InvalidEvent"
  by (simp add: demo_eval branch_eval fork3_def fork2_def fork1_def branch_defs demo_done_def fork_checkpoint_def
      cong: bindR_weak bindS_weak)

subsection \<open>A failure reported on a paused run\<close>

definition paused1 :: run_state where
  "paused1 = snd (pause demo_env ''p'' ''why'' demo1)"

lemma paused1_fail:
  "fst (fail_activity demo_env demo_activity 1 ''e'' True False paused1) = Inl (RunNotExecuting RunPausedSt)"
  "length (rs_events (snd (fail_activity demo_env demo_activity 1 ''e'' True False paused1))) =
     Suc (length (rs_events paused1))"
  by (simp_all add: demo_eval branch_eval paused1_def demo1_def branch_defs cong: bindR_weak bindS_weak)

subsection \<open>Worker leases\<close>

definition lease1 :: run_state where
  "lease1 = snd (claim_worker_lease demo_env ''w'' ''l'' 10 20 demo0)"

definition takeover :: run_event where
  "takeover = demo_event 3 ''event_e_claimedm20'' (WorkerLeaseClaimed ''z'' ''m'' 20 30)"

lemma lease1_run:
  "st_lease lease1 = Some \<lparr>wl_owner_id = ''w'', wl_lease_id = ''l'', wl_acquired_at = 10,
     wl_heartbeat_at = 10, wl_expires_at = 20\<rparr>"
  "fst (append_event demo_env takeover lease1) = Inr (Appended 3)"
  "st_lease (snd (append_event demo_env takeover lease1)) =
     Some \<lparr>wl_owner_id = ''z'', wl_lease_id = ''m'', wl_acquired_at = 20, wl_heartbeat_at = 20, wl_expires_at = 30\<rparr>"
  by (simp_all add: demo_eval branch_eval lease1_def takeover_def branch_defs cong: bindR_weak bindS_weak)

subsection \<open>A governed run\<close>

definition demo_hash :: string where
  "demo_hash = ''sha256:'' @ replicate 64 (CHR ''a'')"

definition demo_binding :: governance_binding where
  "demo_binding = \<lparr>gb_schema_version = 1, gb_policy_snapshot_hash = demo_hash, gb_tenant_id = Some ''t'',
     gb_agent_id = None, gb_run_id = ''r'', gb_binding_hash = demo_hash\<rparr>"

lemma demo_hash_valid: "valid_digest demo_hash"
  by (simp add: demo_hash_def valid_digest_def is_ascii_hexdigit_def list_all_iff)

lemma demo_binding_valid: "binding_validate demo_env demo_binding = Inr ()"
proof -
  have "binding_validate_shape demo_binding = Inr ()"
    by (simp add: binding_validate_shape_def demo_binding_def demo_hash_valid validate_binding_id_def
        GOVERNANCE_CONTRACT_VERSION_def)
  moreover have "binding_computed_hash demo_env demo_binding = Inr demo_hash"
    by (simp add: binding_computed_hash_def canonical_digest_def demo_env_def demo_hash_def)
  moreover have "gb_binding_hash demo_binding = demo_hash" by (simp add: demo_binding_def)
  ultimately show ?thesis by (simp add: binding_validate_def)
qed

definition governed1 :: run_state where
  "governed1 = demo0\<lparr>rs_policy_snapshot_hash := Some demo_hash, rs_governance_binding := Some demo_binding,
     rs_events := rs_events demo0 @ [demo_event 2 ''event_nding_pinned'' (GovernanceBindingPinned demo_binding)]\<rparr>"

lemma governed_ids:
  "stable_identifier demo_env ''event'' [''r'', ''governance_binding_pinned''] = ''event_nding_pinned''"
  "validate_identifier x ''event_nding_pinned'' = Inr ()"
  by (simp_all add: demo_identifier demo_filter_def validate_identifier_def)

lemma governed1_new: "new_with_governance_binding demo_env ''s'' ''r'' Sync demo_binding = Inr governed1"
proof -
  have r: "gb_run_id demo_binding = ''r''" "gb_policy_snapshot_hash demo_binding = demo_hash"
    by (simp_all add: demo_binding_def)
  show ?thesis
    by (simp add: new_with_governance_binding_def demo_binding_valid demo0_new apply_governance_binding_pinned_def
        r method_eval log_eval map_err_def governed1_def branch_defs governed_ids governed_ids [unfolded One_nat_def]
        cong: bindR_weak bindS_weak)
qed

subsection \<open>A checkpoint appended while a reconciliation is required\<close>

lemma stuck_ids:
  "stable_identifier demo_env ''event'' [''activity_nchrrootpayk'', ''1'', ''reconcile_required''] = ''event_ile_required''"
  "stable_identifier demo_env ''branch'' [''r'', ''rewind'', ''w'', ''y''] = ''branch_nchrrewindwy''"
  "stable_identifier demo_env ''activity'' [''r'', ''branch_nchrrewindwy'', ''runtime-run-stopped-audit-v2'', ''terminal''] = ''activity_itv2terminal''"
  by (simp_all add: demo_identifier demo_filter_def)

lemma stuck_valid:
  "validate_identifier x ''activity_itv2terminal'' = Inr ()"
  "validate_identifier x ''branch_nchrrewindwy'' = Inr ()"
  "validate_identifier x ''event_ile_required'' = Inr ()"
  "validate_identifier x ''lost'' = Inr ()"
  "validate_identifier x ''x'' = Inr ()"
  "validate_identifier x ''y'' = Inr ()"
  by (simp_all add: validate_identifier_def)

definition stuck0 :: run_state where
  "stuck0 = snd (prepare_activity demo_env ''pay'' ''k'' JNull EffReconcileRequired None demo0)"
definition stuck1 :: run_state where
  "stuck1 = snd (fail_activity demo_env demo_activity 1 ''lost'' False True stuck0)"
definition stuck2 :: run_state where
  "stuck2 = snd (append_event demo_env (demo_event 6 ''x'' (CheckpointCommitted ''y'' None)) stuck1)"
definition stuck3 :: run_state where
  "stuck3 = snd (apply_command demo_env (Rewind ''w'' ''y'' True) stuck2)"

definition stuck_definition :: activity_definition where
  "stuck_definition = demo_definition\<lparr>ad_side_effect_class := EffReconcileRequired\<rparr>"

lemmas stuck_eval = stuck_ids stuck_valid stuck_definition_def ambiguous_activity_reason_def

lemma stuck0_eq: "stuck0 = demo0\<lparr>
   rs_events := rs_events demo0 @
     [demo_event 2 ''event_aykscheduled'' (ActivityScheduled stuck_definition),
      demo_event 3 ''event_payk1started'' (ActivityAttemptStarted demo_activity 1)],
   rs_projection := (rs_projection demo0)\<lparr>pj_activities := [(demo_activity,
     \<lparr>ar_definition = stuck_definition, ar_attempts = [demo_attempt 1 AtRunning 3]\<rparr>)]\<rparr>\<rparr>"
  by (simp add: demo_eval branch_eval stuck_eval stuck0_def branch_defs cong: bindR_weak bindS_weak)

definition stuck_record :: activity_record where
  "stuck_record = \<lparr>ar_definition = stuck_definition, ar_attempts =
     [(demo_attempt 1 AtReconcileRequired 3)\<lparr>at_finished_sequence := Some 5,
        at_error := Some (ambiguous_activity_reason ''lost''), at_effect_ambiguous := True\<rparr>]\<rparr>"

lemma stuck1_eq: "stuck1 = stuck0\<lparr>
   rs_events := rs_events stuck0 @
     [demo_event 4 ''event_tpayk1failed'' (ActivityAttemptFailed demo_activity 1 ''lost'' False True),
      demo_event 5 ''event_ile_required''
        (ActivityReconciliationRequired demo_activity 1 (ambiguous_activity_reason ''lost''))],
   rs_projection := (rs_projection stuck0)\<lparr>pj_status := RunReconcileRequired,
     pj_pause_reason := Some (ambiguous_activity_reason ''lost''),
     pj_activities := [(demo_activity, stuck_record)]\<rparr>\<rparr>"
  by (simp add: demo_eval branch_eval stuck_eval stuck1_def stuck0_eq branch_defs stuck_record_def
      cong: bindR_weak bindS_weak)

definition stuck_checkpoint :: checkpoint where
  "stuck_checkpoint = \<lparr>cp_checkpoint_id = ''y'', cp_run_id = ''r'', cp_event_sequence = 6,
     cp_parent_checkpoint_id = None, cp_label = None, cp_projection = rs_projection stuck1\<rparr>"

lemma stuck2_eq: "stuck2 = stuck1\<lparr>
   rs_events := rs_events stuck1 @ [demo_event 6 ''x'' (CheckpointCommitted ''y'' None)],
   rs_checkpoints := [(''y'', stuck_checkpoint)],
   rs_projection := (rs_projection stuck1)\<lparr>pj_current_checkpoint_id := Some ''y''\<rparr>\<rparr>"
  by (simp add: demo_eval branch_eval stuck_eval stuck2_def stuck1_eq stuck0_eq branch_defs stuck_record_def
      stuck_checkpoint_def cong: bindR_weak bindS_weak)

lemma stuck_refused: "fst (checkpoint_op demo_env ''y'' None stuck1) = Inl RunRequiresReconciliation"
  by (simp add: demo_eval branch_eval stuck_eval stuck1_eq stuck0_eq branch_defs stuck_record_def
      cong: bindR_weak bindS_weak)

lemma stuck3_eq: "stuck3 = stuck2\<lparr>
   rs_events := rs_events stuck2 @ [demo_event 7 ''event_ventrrewindw'' (RunRewound ''y'' ''branch_nchrrewindwy'' True)],
   rs_projection := (rs_projection stuck2)\<lparr>pj_status := RunPausedSt, pj_branch_id := ''branch_nchrrewindwy'',
     pj_pause_reason := Some (rewound_reason ''y'')\<rparr>\<rparr>"
  by (simp add: demo_eval branch_eval stuck_eval stuck3_def stuck2_eq stuck1_eq stuck0_eq branch_defs stuck_record_def
      stuck_checkpoint_def cong: bindR_weak bindS_weak)

lemma stuck_resume: "fst (apply_command demo_env (Resume ''go'' []) stuck3) = Inl RunRequiresReconciliation"
  by (simp add: demo_eval branch_eval stuck_eval stuck3_eq stuck2_eq stuck1_eq stuck0_eq branch_defs stuck_record_def
      stuck_checkpoint_def cong: bindR_weak bindS_weak)

lemma stuck_pending: "has_reconciliation_pending stuck3"
  by (simp add: demo_eval stuck3_eq stuck2_eq stuck1_eq stuck0_eq branch_defs stuck_record_def)

end
