(* ===== verification/DurCmdProps.thy ===== *)
theory DurCmdProps
  imports DurProps DemoBranch
begin

text \<open>
  Properties of the log, of leases, of the pinned policy identity and of the commands of a
  durable run, each with a witness on the runs of the theories \<open>Demo\<close> and \<open>DemoBranch\<close>.
\<close>

subsection \<open>The runs of the witnesses are reachable\<close>

lemma branch_orderly: "orderly_reach demo_env branch1" "orderly_reach demo_env branch2" "orderly_reach demo_env lease1"
  "orderly_reach demo_env governed1"
proof -
  show 1: "orderly_reach demo_env branch1" unfolding branch1_def
    by (rule run_reached.step [OF demo_orderly(2) run_step.checkpoint [OF prod.collapse [symmetric]]])
  show "orderly_reach demo_env branch2" unfolding branch2_def
    by (rule run_reached.step [OF 1 run_step.prepare [OF prod.collapse [symmetric]]])
  show "orderly_reach demo_env lease1" unfolding lease1_def
    by (rule run_reached.step [OF demo_orderly(1) run_step.claim [OF prod.collapse [symmetric]]])
  show "orderly_reach demo_env governed1" by (rule run_reached.new_governed [OF governed1_new])
qed

lemmas branch_reach = branch_orderly [THEN orderly_reach_api]

subsection \<open>A checkpoint appended as an event\<close>

text \<open>The operation \<open>checkpoint\<close> refuses a run that waits for a reconciliation, but
  \<open>append_event\<close> accepts the event it would have emitted.  A rewind to that checkpoint
  then pauses the run while the effect is still open: the status no longer shows it, and the
  run cannot be resumed.  This is the only use of the interface outside \<open>orderly_step\<close>.\<close>

theorem checkpoint_while_reconciling_unblocks:
  "api_reach demo_env stuck3 \<and> fst (checkpoint_op demo_env ''y'' None stuck1) = Inl RunRequiresReconciliation
    \<and> has_reconciliation_pending stuck3 \<and> st_status stuck3 = RunPausedSt
    \<and> fst (apply_command demo_env (Resume ''go'' []) stuck3) = Inl RunRequiresReconciliation"
proof -
  have "api_reach demo_env stuck0" unfolding stuck0_def
    by (rule run_reached.step [OF demo_reach(1) run_step.prepare [OF prod.collapse [symmetric]]])
  then have "api_reach demo_env stuck1" unfolding stuck1_def
    by (rule run_reached.step [OF _ run_step.fail [OF prod.collapse [symmetric]]])
  then have "api_reach demo_env stuck2" unfolding stuck2_def
    by (rule run_reached.step [OF _ run_step.append [OF prod.collapse [symmetric] TrueI]])
  then have "api_reach demo_env stuck3" unfolding stuck3_def
    by (rule run_reached.step [OF _ run_step.command [OF prod.collapse [symmetric]]])
  with stuck_refused stuck_pending stuck_resume show ?thesis by (simp add: stuck3_eq)
qed

subsection \<open>The log\<close>

text \<open>C7: appending an event is idempotent: after an append has succeeded, the same append
  changes nothing and reports the sequence number of the first one.\<close>

theorem append_retry_is_idempotent:
  assumes "append_event env ev st = (Inr oc, st')"
  shows "append_event env ev st' = (Inr (Deduplicated (append_sequence oc)), st')"
  using assms append_validated_again by (auto simp: append_event_def split: if_splits)

theorem append_retry_is_idempotent_witness:
  "append_event demo_env takeover (snd (append_event demo_env takeover lease1)) =
     (Inr (Deduplicated 3), snd (append_event demo_env takeover lease1))"
  using append_retry_is_idempotent [of demo_env takeover lease1 "Appended 3" "snd (append_event demo_env takeover lease1)"]
    lease1_run(2) prod.collapse [of "append_event demo_env takeover lease1"] by (simp add: append_sequence_def)

text \<open>C8: no operation of the interface, \<open>append\_event\<close> included, removes or rewrites an event: the log only grows at its
  end, and the identity of the run (run, session, durability mode, parent) stays.\<close>

theorem log_is_append_only:
  assumes "api_step env st st'" and "rs_events st \<noteq> []"
  shows "extends_run st st'"
  using grows.run_step_keeps [OF assms(1), of st] assms(2) by (simp add: extends_run_def)

theorem log_is_append_only_witness:
  "extends_run branch2 (snd (rewind demo_env ''w'' (cp_checkpoint_id demo_checkpoint) False branch2))"
proof -
  have "api_step demo_env branch2
      (snd (apply_command demo_env (Rewind ''w'' (cp_checkpoint_id demo_checkpoint) False) branch2))"
    by (rule run_step.command [OF prod.collapse [symmetric]])
  from log_is_append_only [OF this api_reach_nonempty [OF branch_reach(2)]] show ?thesis
    by (simp add: apply_command_def)
qed

text \<open>C9: a rejected command leaves the run as it was, whatever stage of the command failed.\<close>

theorem failed_command_changes_nothing:
  assumes "apply_command env c st = (Inl e, st') \<or> apply_command_at env c now st = (Inl e, st')"
  shows "st' = st"
proof -
  have resume: "resume env i rs t st = (Inl e, st') \<Longrightarrow> st' = st" for i rs t
    by (auto simp: resume_def Let_def result_simps split: option.splits if_splits)
  have fork: "st' = st" if f: "fork env i r p a st = (Inl e, st')" for i r p a
  proof (cases "event_by_id st (event_id_of env [rs_run_id st, ''fork'', i])")
    case (Some y)
    with f show ?thesis by (cases "ev_kind y") (auto simp: fork_def Let_def result_simps split: if_splits)
  qed (use f in \<open>auto simp: fork_def Let_def result_simps split: if_splits\<close>)
  have rewind: "st' = st" if f: "rewind env i p a st = (Inl e, st')" for i p a
  proof (cases "event_by_id st (event_id_of env [rs_run_id st, ''rewind'', i])")
    case (Some y)
    with f show ?thesis by (cases "ev_kind y") (auto simp: rewind_def Let_def result_simps split: if_splits)
  qed (use f in \<open>auto simp: rewind_def Let_def result_simps dest: emit_Inl split: if_splits\<close>)
  have cancel: "st' = st" if f: "DurOps.cancel env i r st = (Inl e, st')" for i r
  proof (cases "event_by_id st (event_id_of env [rs_run_id st, ''cancel'', i])")
    case (Some y)
    with f show ?thesis by (cases "ev_kind y") (auto simp: DurOps.cancel_def Let_def result_simps split: if_splits)
  qed (use f in \<open>auto simp: DurOps.cancel_def Let_def result_simps dest: emit_Inl split: if_splits\<close>)
  from assms show ?thesis
    by (cases c) (auto simp: apply_command_def apply_command_at_def dest: resume fork rewind cancel)
qed

lemma demo0_resume: "apply_command demo_env (Resume ''go'' []) demo0 = (Inl NotPaused, demo0)"
  by (simp add: demo_eval branch_eval demo0_def cong: bindR_weak bindS_weak)

theorem failed_command_changes_nothing_witness: "snd (apply_command demo_env (Resume ''go'' []) demo0) = demo0"
  using failed_command_changes_nothing [of demo_env "Resume ''go'' []" demo0 NotPaused demo0 0] demo0_resume by simp

subsection \<open>Attempts\<close>

text \<open>C10: an activity is started only on a running run and never unsafely: it has no attempt
  yet, or its last attempt failed, is retryable, and its effect is known not to have happened,
  or the activity is pure, or it is idempotent and carries its idempotency key. The new attempt
  has the next number and is running.\<close>

theorem restart_only_when_safe:
  assumes "append_event env ev st = (Inr (Appended n), st')" and "rs_events st \<noteq> []"
    and "ev_kind ev = ActivityAttemptStarted i k"
  shows "\<exists>r. bt_get (st_activities st) i = Some r \<and> st_status st = RunRunning
    \<and> bt_get (st_activities st') i =
        Some (r\<lparr>ar_attempts := ar_attempts r @ [running_attempt k (next_sequence st)]\<rparr>)
    \<and> k = wrapping_add_u32 (as_u32 (length (ar_attempts r))) 1
    \<and> (ar_attempts r = []
       \<or> at_status (last (ar_attempts r)) = AtFailed \<and> at_retryable (last (ar_attempts r))
         \<and> (\<not> at_effect_ambiguous (last (ar_attempts r))
            \<or> ad_side_effect_class (ar_definition r) = Pure
            \<or> ad_side_effect_class (ar_definition r) = Idempotent
              \<and> \<not> key_missing (ad_idempotency_key (ar_definition r))))"
  using assms(1,2)
proof (cases rule: append_event_cases)
  case (appended c)
  from appended(1) have n: "ev_sequence ev = next_sequence st" by (simp add: fresh_event_def)
  from appended(3) assms(3) have "apply_attempt_started env (ev_schema_version ev) (ev_sequence ev) i k st = Inr c"
    by (simp add: apply_later_event_def)
  note inv = apply_attempt_started_Inr [OF this]
  from inv(2) obtain r where r: "bt_get (st_activities st) i = Some r" "may_start r"
    "k = wrapping_add_u32 (as_u32 (length (ar_attempts r))) 1" by blast
  have "bt_get (st_activities st') i = Some (r\<lparr>ar_attempts := ar_attempts r @ [running_attempt k (next_sequence st)]\<rparr>)"
    using r(1) by (simp add: appended(4) inv(4) push_attempt_def n bt.lookup_modify)
  with r inv(1) show ?thesis
    by (auto simp: may_start_def latest_attempt_def last_opt_def retry_is_safe_def split: if_splits)
qed simp

text \<open>The interrupted first attempt of the demo activity, and the start of its second one.\<close>

definition branch_failed :: run_state where
  "branch_failed = snd (append_event demo_env (hd retry_events) branch1)"

lemma branch_restart: "fst (append_event demo_env (retry_events ! 1) branch_failed) = Inr (Appended 6)"
  by (simp add: demo_eval branch_eval branch_failed_def branch1_eq branch_defs retry_events_def
      cong: bindR_weak bindS_weak)

lemma branch_failed_events: "rs_events branch_failed \<noteq> []"
  by (simp add: demo_eval branch_eval branch_failed_def branch1_eq branch_defs retry_events_def
      cong: bindR_weak bindS_weak)

theorem restart_only_when_safe_witness:
  "\<exists>r. bt_get (st_activities branch_failed) demo_activity = Some r \<and> st_status branch_failed = RunRunning
    \<and> 2 = wrapping_add_u32 (as_u32 (length (ar_attempts r))) 1"
  using restart_only_when_safe [of demo_env "retry_events ! 1" branch_failed 6
      "snd (append_event demo_env (retry_events ! 1) branch_failed)" demo_activity 2]
    branch_restart branch_failed_events prod.collapse [of "append_event demo_env (retry_events ! 1) branch_failed"]
  by (auto simp: retry_events_def demo_event_def)

text \<open>C11: a completed activity is never executed again on its branch: whatever events follow,
  short of a rewind, preparing the activity returns the recorded output and changes nothing.
  (The quarantined legacy audit record, which an operator may attest anew, is excepted.)\<close>

theorem completed_activity_is_reused:
  assumes "api_reach env st" and "bt_get (st_activities st) i = Some r" and "latest_attempt r = Some a"
    and "at_status a = AtCompleted" and "ad_stable_step_id (ar_definition r) \<noteq> RUNTIME_LEGACY_RUN_STOPPED_AUDIT_STEP_ID"
    and "forward env st st'"
  shows "\<exists>out. at_output a = Some out \<and> at_output_hash a = Some (stable_input_hash env out)
    \<and> decide_activity env i st' = (Inr (ReuseCompleted i out), st')"
proof -
  have s: "settled st i (ar_definition r) a"
    using assms(2-5) api_reach_nonempty [OF assms(1)] by (auto simp: settled_def)
  have "state_ok env st" using api_reach_ok [OF assms(1)] by (simp add: run_ok_def)
  from settled_payload [OF this s] decide_settled [OF settled_forward [OF assms(6) s]] show ?thesis by blast
qed

definition pause_event :: run_event where
  "pause_event = demo_event 5 ''x'' (RunPaused ''why'')"

lemma demo2_run: "\<exists>r. bt_get (st_activities demo2) demo_activity = Some r \<and> ar_definition r = demo_definition
    \<and> (\<exists>a. latest_attempt r = Some a \<and> at_status a = AtCompleted)"
  "fst (append_event demo_env pause_event demo2) = Inr (Appended 5)"
  by (simp_all add: demo_eval branch_eval demo2_def demo1_def branch_defs pause_event_def
      validate_identifier_def cong: bindR_weak bindS_weak)

theorem completed_activity_is_reused_witness:
  "\<exists>out. decide_activity demo_env demo_activity (snd (append_event demo_env pause_event demo2)) =
     (Inr (ReuseCompleted demo_activity out), snd (append_event demo_env pause_event demo2))"
proof -
  let ?s = "snd (append_event demo_env pause_event demo2)"
  from demo2_run(1) obtain r a where r: "bt_get (st_activities demo2) demo_activity = Some r"
    "ar_definition r = demo_definition" "latest_attempt r = Some a" "at_status a = AtCompleted" by blast
  have "append_event demo_env pause_event demo2 = (Inr (Appended 5), ?s)"
    using demo2_run(2) prod.collapse [of "append_event demo_env pause_event demo2"] by simp
  from forward.append [OF forward.refl this] have f: "forward demo_env demo2 ?s"
    by (simp add: pause_event_def demo_event_def)
  have "ad_stable_step_id (ar_definition r) \<noteq> RUNTIME_LEGACY_RUN_STOPPED_AUDIT_STEP_ID"
    by (simp add: r(2) demo_definition_def step_id_defs)
  from completed_activity_is_reused [OF demo_reach(3) r(1) r(3) r(4) this f] show ?thesis by blast
qed

lemma find_update_first:
  "List.find p xs = Some a \<Longrightarrow> (\<And>x. p (f x) = p x) \<Longrightarrow> List.find p (update_first p f xs) = Some (f a)"
  by (induction xs) (auto split: if_splits)

lemma emit_same: "emit env i k st = (Inr oc, st) \<Longrightarrow> \<exists>n. oc = Deduplicated n"
  by (erule emit_Inr) (auto dest: commit_event_keeps(4))

text \<open>A completion is idempotent: repeating a committed completion reports the sequence
  number of the first and changes nothing.\<close>

theorem completion_is_idempotent:
  assumes "complete_activity env i k out st = (Inr oc, st')" and "rs_events st \<noteq> []"
  shows "complete_activity env i k out st' = (Inr (Deduplicated (append_sequence oc)), st')"
proof (cases "st' = st")
  case True
  with assms(1) have "\<exists>n. oc = Deduplicated n"
    by (auto simp: complete_activity_def Let_def result_simps dest: emit_same split: option.splits if_splits)
  with assms(1) True show ?thesis by (auto simp: append_sequence_def)
next
  case False
  let ?k = "ActivityAttemptCompleted i k out (stable_input_hash env out)"
  from assms(1) False have "emit env (event_id_of env [i, show_nat k, ''completed'']) ?k st = (Inr oc, st')"
    by (auto simp: complete_activity_def Let_def result_simps split: option.splits if_splits)
  then show ?thesis using assms(2)
  proof (cases rule: emit_cases)
    case (appended c)
    from appended(2) have "apply_attempt_completed env DURABILITY_SCHEMA_VERSION (next_sequence st) i k out
        (stable_input_hash env out) st = Inr c" by (simp add: apply_later_event_def)
    note inv = apply_attempt_completed_Inr [OF this]
    from inv(3) obtain r a where r: "bt_get (st_activities st) i = Some r"
      "List.find (\<lambda>a. at_attempt a = k) (ar_attempts r) = Some a" by (auto simp: runs_attempt_def)
    from inv(1) r show ?thesis
      by (auto simp: complete_activity_def Let_def appended(3,4) inv(4) update_attempt_def bt.lookup_modify
          activity_def ensure_active_def result_simps append_sequence_def find_update_first unwrap_or_def)
  qed (use False in simp)
qed


theorem completion_is_idempotent_witness:
  "complete_activity demo_env demo_activity 1 (JBool True) fork2 = (Inr (Deduplicated 2), fork2)"
  using completion_is_idempotent [OF fork2_run] by (simp add: fork1_def append_sequence_def)

subsection \<open>Leases and policy identity\<close>

text \<open>A worker lease changes hands only by a claim made at or after the expiry of the lease
  that is held; the new lease starts at the claim.\<close>

theorem lease_takeover_after_expiry:
  assumes "append_event env ev st = (Inr oc, st')" and "rs_events st \<noteq> []"
    and "st_lease st = Some l" and "st_lease st' = Some l'"
    and "wl_owner_id l' \<noteq> wl_owner_id l \<or> wl_lease_id l' \<noteq> wl_lease_id l"
  shows "\<exists>t x. ev_kind ev = WorkerLeaseClaimed (wl_owner_id l') (wl_lease_id l') t x
    \<and> wl_expires_at l \<le> t \<and> t < x \<and> x \<le> t + MAX_DURABLE_WORKER_LEASE_MS
    \<and> wl_acquired_at l' = t \<and> wl_expires_at l' = x"
proof -
  from lease_append [OF assms] obtain t x where k: "ev_kind ev = WorkerLeaseClaimed (wl_owner_id l') (wl_lease_id l') t x"
    "wl_expires_at l \<le> t" and l': "l' = fresh_lease (wl_owner_id l') (wl_lease_id l') t x" by blast
  have f: "wl_acquired_at l' = t" "wl_expires_at l' = x" by (subst l', simp add: fresh_lease_def)+
  from assms(1,2) have "t < x \<and> x \<le> t + MAX_DURABLE_WORKER_LEASE_MS"
  proof (cases rule: append_event_cases)
    case (dedup old)
    with assms(3-5) show ?thesis by auto
  next
    case (appended c)
    from appended(3) k(1) show ?thesis
      by (auto simp: apply_later_event_def apply_lease_claimed_def result_simps split: if_splits)
  qed
  with k f show ?thesis by blast
qed

theorem lease_takeover_after_expiry_witness:
  "\<exists>t x. ev_kind takeover = WorkerLeaseClaimed ''z'' ''m'' t x \<and> 20 \<le> t \<and> t < x"
proof -
  let ?s = "snd (append_event demo_env takeover lease1)"
  have "append_event demo_env takeover lease1 = (Inr (Appended 3), ?s)"
    using lease1_run(2) prod.collapse [of "append_event demo_env takeover lease1"] by simp
  from lease_takeover_after_expiry [OF this api_reach_nonempty [OF branch_reach(3)] lease1_run(1) lease1_run(3)]
  show ?thesis by auto
qed

text \<open>The governance binding of a reachable run is valid (its hash matches its fields), names
  the run itself and determines the pinned policy snapshot hash.\<close>

theorem governance_binding_valid:
  assumes "api_reach env st" and "rs_governance_binding st = Some b"
  shows "binding_validate env b = Inr () \<and> gb_run_id b = rs_run_id st
    \<and> rs_policy_snapshot_hash st = Some (gb_policy_snapshot_hash b)"
  using run_built_policy_ok [OF api_reach_built [OF assms(1)]] assms(2) by (simp add: policy_ok_def)

theorem governance_binding_valid_witness: "binding_validate demo_env demo_binding = Inr () \<and> gb_run_id demo_binding = ''r''"
  using governance_binding_valid [OF branch_reach(4), of demo_binding] by (simp add: governed1_def demo0_def)

text \<open>After its second event the policy identity of a run never changes: no operation pins,
  replaces or drops the policy snapshot hash or the governance binding.\<close>

theorem policy_identity_immutable:
  assumes "api_step env st st'" and "length (rs_events st) > 1"
  shows "rs_policy_snapshot_hash st' = rs_policy_snapshot_hash st \<and> rs_governance_binding st' = rs_governance_binding st"
  using pinned.run_step_keeps [OF assms(1), of "pinned_at st"] assms(2) by (simp add: pinned_at_def)

theorem policy_identity_immutable_witness:
  "rs_governance_binding (snd (pause demo_env ''p'' ''why'' governed1)) = Some demo_binding"
proof -
  have "api_step demo_env governed1 (snd (pause demo_env ''p'' ''why'' governed1))"
    by (rule run_step.pause [OF prod.collapse [symmetric]])
  from policy_identity_immutable [OF this] show ?thesis by (simp add: governed1_def demo0_def)
qed

subsection \<open>Commands\<close>

text \<open>C12: a successful resume is the repetition of an earlier one with the same command id, or it
  takes a paused run to running with no approval pending and no effect to reconcile.\<close>

theorem resume_settles_everything:
  assumes "apply_command_at env (Resume cmd approvals) now st = (Inr (Resumed n), st')" and "rs_events st \<noteq> []"
  shows "(st' = st \<and> (\<exists>e \<in> set (rs_events st). ev_kind e = RunResumed \<and> ev_sequence e = n))
    \<or> (st_status st = RunPausedSt \<and> st_status st' = RunRunning
        \<and> pending_approval_ids (rs_projection st') = [] \<and> \<not> has_reconciliation_pending st')"
  using resume_result [of env cmd approvals "Some now" st n st'] assms
  by (auto simp: apply_command_at_def event_by_id_def dest: find_SomeD)

lemma demo5_paused: "st_status demo5 = RunPausedSt"
  by (simp add: demo_eval approval_eval demo_envelopes demo5_def demo0_def demo_request_def
      demo_approval_def cong: bindR_weak bindS_weak)

theorem resume_settles_everything_witness:
  "pending_approval_ids (rs_projection demo6) = [] \<and> \<not> has_reconciliation_pending demo6"
proof -
  let ?c = "Resume ''go'' [\<lparr>res_approval_id = demo_approval, res_approved = True, res_response = None\<rparr>]"
  have r: "apply_command_at demo_env ?c 15 demo5 = (Inr (Resumed 4), demo6)"
    using demo6_outcome prod.collapse [of "apply_command_at demo_env ?c 15 demo5"] by (simp add: demo6_def)
  have "st_status demo5 \<noteq> st_status demo6" by (simp add: demo6_run(1) demo5_paused)
  with resume_settles_everything [OF r api_reach_nonempty [OF demo_reach(6)]] show ?thesis by auto
qed

text \<open>C13: a new rewind restores the checkpoint: state, approvals and artifacts of the checkpoint,
  every one of its activities with its record, except the reserved audit records and a record
  under the identity of the new branch's terminal audit, nothing else, no lease, a paused run. Unless the caller
  acknowledged them, no non-pure activity had started after the checkpoint. The log and the
  checkpoints are kept.\<close>

theorem rewind_restores:
  assumes "api_reach env st" and "apply_command env (Rewind cmd cpid ack) st = (Inr (Rewound c n), st')"
    and "event_by_id st (event_id_of env [rs_run_id st, ''rewind'', cmd]) = None"
  shows "\<exists>cp. source_checkpoint env st cpid = Inr cp
    \<and> (\<not> ack \<longrightarrow> no_effect_after st (cp_event_sequence cp))
    \<and> restores env (rs_run_id st) cp (rs_projection st') \<and> st_status st' = RunPausedSt
    \<and> rs_checkpoints st' = rs_checkpoints st \<and> extends_run st st'"
  using rewind_result [of env cmd cpid ack st c n st'] assms(2,3) api_reach_ok [OF assms(1)]
    api_reach_nonempty [OF assms(1)] by (simp add: apply_command_def run_ok_def)

theorem rewind_restores_witness: "st_status branch3 = RunPausedSt \<and> rs_checkpoints branch3 = rs_checkpoints branch2"
proof -
  have r: "apply_command demo_env (Rewind ''w'' (cp_checkpoint_id demo_checkpoint) False) branch2 =
      (Inr (Rewound (cp_checkpoint_id demo_checkpoint) 7), branch3)"
    using branch3_run prod.collapse [of "rewind demo_env ''w'' (cp_checkpoint_id demo_checkpoint) False branch2"]
    by (simp add: branch3_def apply_command_def)
  have "event_by_id branch2 (event_id_of demo_env [rs_run_id branch2, ''rewind'', ''w'']) = None"
    by (simp add: branch2_eq branch1_eq branch_defs retry_events_def branch_ids event_by_id_def)
  from rewind_restores [OF branch_reach(2) r this] show ?thesis by blast
qed

text \<open>A fork starts a run under the new identifier with the source as its parent, the same
  session, durability mode, policy snapshot and (re-sealed) governance binding, and the
  restored checkpoint; the source keeps its projection and only records the fork.\<close>

theorem fork_inherits:
  assumes "api_reach env st" and "apply_command env (Fork cmd r cpid ack) st = (Inr (Forked f), st')"
  shows "\<exists>cp. source_checkpoint env st cpid = Inr cp \<and> forks_from env st r cp f
    \<and> rs_projection st' = rs_projection st \<and> extends_run st st'
    \<and> (\<not> ack \<and> event_by_id st (event_id_of env [rs_run_id st, ''fork'', cmd]) = None \<longrightarrow>
         no_effect_after st (cp_event_sequence cp))"
  using fork_full_result [of env cmd r cpid ack st f st'] assms(2) api_reach_ok [OF assms(1)]
  by (simp add: apply_command_def)

theorem fork_inherits_witness: "\<exists>cp. forks_from demo_env branch1 ''q'' cp fork1"
proof -
  let ?c = "Fork ''f'' ''q'' (cp_checkpoint_id demo_checkpoint) False"
  have "apply_command demo_env ?c branch1 = (Inr (Forked fork1), snd (apply_command demo_env ?c branch1))"
    using fork1_run prod.collapse [of "apply_command demo_env ?c branch1"] by (simp add: apply_command_def)
  from fork_inherits [OF branch_reach(1) this] show ?thesis by blast
qed


text \<open>A typed approval request pauses the run and records exactly what was asked: kind,
  prompt, payload, both clock values, and the policy identity of the run. The hypothesis on the
  codec is what \<open>serde\_json\<close> guarantees: decoding an encoded envelope gives it back.\<close>

theorem typed_request_recorded:
  assumes "request_typed_approval env request st = (Inr i, st')" and "approval_codec env" and "rs_events st \<noteq> []"
    and "event_by_id st (event_id_of env [stable_identifier env ''approval''
        [rs_run_id st, st_branch st, rq_logical_key request], ''requested'']) = None"
  shows "st_status st' = RunPausedSt \<and> bt_get (st_approvals st') i = Some (typed_approval request i st)"
  using request_typed_Inr [OF assms] by (simp add: bt.lookup_insert)

theorem typed_request_recorded_witness:
  "bt_get (st_approvals demo5) demo_approval = Some (typed_approval demo_request demo_approval demo0)"
proof -
  have r: "request_typed_approval demo_env demo_request demo0 = (Inr demo_approval, demo5)"
    using demo5_run prod.collapse [of "request_typed_approval demo_env demo_request demo0"] by (simp add: demo5_def)
  have "event_by_id demo0 (event_id_of demo_env [stable_identifier demo_env ''approval''
      [rs_run_id demo0, st_branch demo0, rq_logical_key demo_request], ''requested'']) = None"
    by (simp add: demo0_def demo_request_def approval_ids event_by_id_def)
  from typed_request_recorded [OF r demo_codec api_reach_nonempty [OF demo_reach(1)] this] show ?thesis by blast
qed

text \<open>C14: a run completes only when everything in it is closed: no pending approval, no effect to
  reconcile, no running attempt and no open reserved audit record.\<close>

theorem completed_run_is_closed:
  assumes "complete_run env x st = (Inr (Appended n), st')" and "rs_events st \<noteq> []"
  shows "st_status st' = RunCompletedSt \<and> pending_approval_ids (rs_projection st') = []
    \<and> \<not> has_reconciliation_pending st' \<and> all_closed env st'"
proof -
  from assms(1) have "emit env (event_id_of env [rs_run_id st, ''complete'', x]) RunCompleted st = (Inr (Appended n), st')"
    by (auto simp: complete_run_def result_simps)
  then show ?thesis using assms(2)
  proof (cases rule: emit_cases)
    case (appended c)
    from appended(2) have "apply_run_completed env DURABILITY_SCHEMA_VERSION st = Inr c" by (simp add: apply_later_event_def)
    note inv = apply_run_completed_Inr [OF this]
    have "all_closed env st" by (rule inv(4)) (simp add: schema_version_defs)
    with inv(2,3,5) appended(3) show ?thesis
      by (simp add: all_closed_def pending_approval_ids_def has_reconciliation_pending_def)
  qed simp
qed

lemma demo4_run: "fst (complete_run demo_env ''done'' demo3) = Inr (Appended 6)"
  by (simp add: demo_eval demo3_def demo2_def demo1_def demo0_def demo_activity_def cong: bindR_weak bindS_weak)

theorem completed_run_is_closed_witness: "all_closed demo_env demo4"
proof -
  have "complete_run demo_env ''done'' demo3 = (Inr (Appended 6), demo4)"
    using demo4_run prod.collapse [of "complete_run demo_env ''done'' demo3"] by (simp add: demo4_def)
  from completed_run_is_closed [OF this api_reach_nonempty [OF demo_reach(4)]] show ?thesis by blast
qed



lemma branch3_reach: "orderly_reach demo_env branch3"
  unfolding branch3_def by (rule run_reached.step [OF branch_orderly(2) run_step.command [OF prod.collapse [symmetric]]])





subsection \<open>Behaviours the identifiers of events do not separate\<close>

text \<open>After a rewind, retrying the restored attempt meets the events of the abandoned branch:
  the identifiers of attempt events carry no branch, so the two events of the retry count as
  duplicates. The caller is told to execute attempt 2, and the run records nothing of it: its
  only attempt is still attempt 1, running.\<close>

theorem retry_after_rewind_not_recorded:
  "api_reach demo_env branch4
   \<and> prepare_activity demo_env ''pay'' ''k'' JNull Pure None branch4 = (Inr (Execute demo_activity 2 None), branch4)
   \<and> map_option (map (\<lambda>a. (at_attempt a, at_status a)) \<circ> ar_attempts) (bt_get (st_activities branch4) demo_activity) =
       Some [(1, AtRunning)]"
proof (intro conjI)
  show "api_reach demo_env branch4" unfolding branch4_def
    by (rule run_reached.step [OF orderly_reach_api [OF branch3_reach] run_step.command [OF prod.collapse [symmetric]]])
  show "map_option (map (\<lambda>a. (at_attempt a, at_status a)) \<circ> ar_attempts) (bt_get (st_activities branch4) demo_activity) =
      Some [(1, AtRunning)]"
    by (simp add: branch4_eq branch1_eq branch_defs bt_get_def)
qed (rule branch4_retry)

text \<open>A fork that inherited a running attempt can close it, take a checkpoint, and never be
  forked from that checkpoint: the attempt keeps the start number of the source run and gets an
  end number of the fork, so the checkpoint validation of the next fork rejects it.\<close>

theorem fork_of_fork_rejected:
  "complete_activity demo_env demo_activity 1 (JBool True) fork1 = (Inr (Appended 2), fork2)
   \<and> checkpoint_op demo_env ''c'' None fork2 = (Inr fork_checkpoint, fork3)
   \<and> fst (apply_command demo_env (Fork ''g'' ''z'' (cp_checkpoint_id fork_checkpoint) False) fork3) = Inl InvalidEvent
   \<and> api_reach demo_env fork1"
  using fork2_run fork3_run fork3_rejects
    run_reached.forked [OF branch_reach(1), of "''f''" "''q''" "cp_checkpoint_id demo_checkpoint" False fork1
      "snd (fork demo_env ''f'' ''q'' (cp_checkpoint_id demo_checkpoint) False branch1)"]
    fork1_run prod.collapse [of "fork demo_env ''f'' ''q'' (cp_checkpoint_id demo_checkpoint) False branch1"]
  by (simp add: apply_command_def)

text \<open>A failure that is reported as retryable on a paused run is recorded in the log although
  the call returns an error, so an error of this operation does not mean an unchanged run.\<close>

theorem failed_call_records_failure:
  "fst (fail_activity demo_env demo_activity 1 ''e'' True False paused1) = Inl (RunNotExecuting RunPausedSt)
   \<and> length (rs_events (snd (fail_activity demo_env demo_activity 1 ''e'' True False paused1))) =
       Suc (length (rs_events paused1))"
  using paused1_fail by blast

end
