(* ===== verification/DurStore.thy ===== *)
theory DurStore
  imports DurProps
begin

text \<open>
  The durable store of \<open>durable\_store.rs\<close>: the checks that every backend makes while it holds its
  lock or transaction (worker-lease fence, append-only log, approval deadlines) and the in-memory
  backend. The clock is an argument of each operation, and the texts of the \<open>Invalid\<close> and \<open>Io\<close>
  errors are not modelled. What the contract of the trait gives its clients is proved once, in the
  locale \<open>durable\_store\<close>.
\<close>

subsection \<open>Errors\<close>

datatype store_error =
    StNotFound string
  | StAlreadyExists string
  | StConflict string nat nat
  | WorkerLeaseRequired string string
  | WorkerLeaseConflict string string
  | InvalidWorkerLeaseClaim string
  | WorkerLeaseRecoveryRequired string
  | LeaseFencingUnsupported string
  | LeaseClockUnsupported
  | ApprovalResolutionUnsupported string
  | ApprovalResolutionGuardRequired string string
  | ApprovalExpired string string nat
  | StIo
  | StInvalid

abbreviation current_lease :: "run_state \<Rightarrow> worker_lease option" where
  "current_lease st \<equiv> pj_worker_lease (rs_projection st)"

abbreviation stored_approval :: "run_state \<Rightarrow> string \<Rightarrow> durable_approval option" where
  "stored_approval st i \<equiv> bt_get (pj_approvals (rs_projection st)) i"

definition last_sequence :: "run_state \<Rightarrow> nat" where
  "last_sequence st = (case last_opt (rs_events st) of None \<Rightarrow> 0 | Some e \<Rightarrow> ev_sequence e)"

subsection \<open>The checks of a replacement\<close>

definition appends_worker_lease_claim :: "run_state \<Rightarrow> run_state \<Rightarrow> bool" where
  "appends_worker_lease_claim current replacement =
     list_ex (\<lambda>e. case ev_kind e of WorkerLeaseClaimed _ _ _ _ \<Rightarrow> True | _ \<Rightarrow> False)
       (drop (min (length (rs_events current)) (length (rs_events replacement))) (rs_events replacement))"

definition is_atomic_lease_claim :: "run_state \<Rightarrow> run_state \<Rightarrow> nat \<Rightarrow> bool" where
  "is_atomic_lease_claim current replacement now =
     (let n = length (rs_events current) in
      if length (rs_events replacement) \<noteq> n + 1 then False
      else case ev_kind (rs_events replacement ! n) of
        WorkerLeaseClaimed owner lease claimed_at expires_at \<Rightarrow>
          (case current_lease replacement of
             None \<Rightarrow> False
           | Some l \<Rightarrow>
               claimed_at \<le> now \<and> expires_at > now
               \<and> (case checked_sub expires_at claimed_at of None \<Rightarrow> False
                  | Some duration \<Rightarrow> duration > 0 \<and> duration \<le> MAX_DURABLE_WORKER_LEASE_MS)
               \<and> wl_owner_id l = owner \<and> wl_lease_id l = lease
               \<and> wl_acquired_at l = claimed_at \<and> wl_expires_at l = expires_at)
      | _ \<Rightarrow> False)"

definition active_lease :: "run_state \<Rightarrow> nat \<Rightarrow> worker_lease option" where
  "active_lease st now =
     (case current_lease st of None \<Rightarrow> None | Some l \<Rightarrow> if wl_expires_at l > now then Some l else None)"

definition validate_worker_lease_fence ::
  "run_state \<Rightarrow> run_state \<Rightarrow> lease_authority option \<Rightarrow> nat \<Rightarrow> store_error + unit"
where
  "validate_worker_lease_fence current replacement authority now =
     (case (current_lease current, active_lease current now, authority) of
        (None, None, None) \<Rightarrow>
          if \<not> appends_worker_lease_claim current replacement then Inr ()
          else if is_atomic_lease_claim current replacement now then Inr ()
          else Inl (InvalidWorkerLeaseClaim (rs_run_id current))
      | (Some _, None, None) \<Rightarrow>
          if is_atomic_lease_claim current replacement now then Inr ()
          else Inl (WorkerLeaseRecoveryRequired (rs_run_id current))
      | (_, Some lease, None) \<Rightarrow> Inl (WorkerLeaseRequired (rs_run_id current) (wl_owner_id lease))
      | (_, Some lease, Some a) \<Rightarrow>
          if wl_owner_id lease = la_owner_id a \<and> wl_lease_id lease = la_lease_id a then Inr ()
          else Inl (WorkerLeaseConflict (rs_run_id current) (la_owner_id a))
      | (_, None, Some a) \<Rightarrow> Inl (WorkerLeaseConflict (rs_run_id current) (la_owner_id a)))"

definition validate_append_only :: "run_state \<Rightarrow> run_state \<Rightarrow> store_error + unit" where
  "validate_append_only current replacement =
     (if rs_run_id current \<noteq> rs_run_id replacement then Inl StInvalid
      else if rs_session_id current \<noteq> rs_session_id replacement then Inl StInvalid
      else if length (rs_events replacement) < length (rs_events current)
           \<or> take (length (rs_events current)) (rs_events replacement) \<noteq> rs_events current then Inl StInvalid
      else if length (rs_events replacement) = length (rs_events current) \<and> replacement \<noteq> current then Inl StInvalid
      else Inr ())"

text \<open>The loop of \<open>validate\_approval\_resolution\_deadline\<close> over the appended events, with the
  number of resolutions of the named approval and whether one of them comes too late.\<close>

fun scan_resolutions ::
  "run_state \<Rightarrow> string \<Rightarrow> nat \<Rightarrow> run_event list \<Rightarrow> nat \<Rightarrow> bool \<Rightarrow> store_error + nat \<times> bool"
where
  "scan_resolutions current approval now [] n expired = Inr (n, expired)"
| "scan_resolutions current approval now (e # es) n expired =
     (case ev_kind e of
        ApprovalResolved i approved _ \<Rightarrow>
          (case stored_approval current i of
             None \<Rightarrow> Inl StInvalid
           | Some persisted \<Rightarrow>
               if ap_status persisted \<noteq> Pending then Inl StInvalid
               else let n = (if i = approval then n + 1 else n) in
                 if \<not> approved then scan_resolutions current approval now es n expired
                 else if i \<noteq> approval then Inl StInvalid
                 else case ap_expires_at persisted of
                   None \<Rightarrow> Inl StInvalid
                 | Some expires \<Rightarrow> scan_resolutions current approval now es n (expired \<or> now \<ge> expires))
      | _ \<Rightarrow> scan_resolutions current approval now es n expired)"

definition validate_approval_resolution_deadline ::
  "run_state \<Rightarrow> run_state \<Rightarrow> string \<Rightarrow> nat \<Rightarrow> store_error + unit"
where
  "validate_approval_resolution_deadline current replacement approval now =
     (case stored_approval current approval of
        None \<Rightarrow> Inl StInvalid
      | Some ap \<Rightarrow>
          if ap_status ap \<noteq> Pending \<or> ap_expires_at ap = None then Inl StInvalid
          else if length (rs_events current) > length (rs_events replacement) then Inl StInvalid
          else bindR (scan_resolutions current approval now (drop (length (rs_events current)) (rs_events replacement)) 0 False)
            (\<lambda>(n, expired).
               if n \<noteq> 1 then Inl StInvalid
               else case stored_approval replacement approval of
                 None \<Rightarrow> Inl StInvalid
               | Some resolved \<Rightarrow>
                   if ap_status resolved = Pending then Inl StInvalid
                   else if expired then Inl (ApprovalExpired (rs_run_id current) approval now)
                   else Inr ()))"

fun reject_resolutions :: "run_state \<Rightarrow> run_event list \<Rightarrow> store_error + unit" where
  "reject_resolutions current [] = Inr ()"
| "reject_resolutions current (e # es) =
     (case ev_kind e of
        ApprovalResolved i _ _ \<Rightarrow>
          (case stored_approval current i of
             None \<Rightarrow> Inl StInvalid
           | Some ap \<Rightarrow>
               if ap_expires_at ap \<noteq> None then Inl (ApprovalResolutionGuardRequired (rs_run_id current) i)
               else reject_resolutions current es)
      | _ \<Rightarrow> reject_resolutions current es)"

definition reject_unvalidated_approval_resolutions :: "run_state \<Rightarrow> run_state \<Rightarrow> store_error + unit" where
  "reject_unvalidated_approval_resolutions current replacement =
     (if length (rs_events current) > length (rs_events replacement) then Inl StInvalid
      else reject_resolutions current (drop (length (rs_events current)) (rs_events replacement)))"

text \<open>What \<open>compare\_and\_swap\_inner\<close> checks once the run is found.\<close>

definition validate_swap ::
  "store_error + nat \<Rightarrow> nat \<Rightarrow> run_state \<Rightarrow> run_state \<Rightarrow> lease_authority option \<Rightarrow> string option \<Rightarrow> store_error + unit"
where
  "validate_swap clock expected current replacement authority approval =
     (if last_sequence current \<noteq> expected
      then Inl (StConflict (rs_run_id replacement) expected (last_sequence current))
      else bindR clock (\<lambda>now.
        bindR (validate_worker_lease_fence current replacement authority now) (\<lambda>_.
        bindR (validate_append_only current replacement) (\<lambda>_.
        case approval of
          Some i \<Rightarrow> validate_approval_resolution_deadline current replacement i now
        | None \<Rightarrow> reject_unvalidated_approval_resolutions current replacement))))"

subsection \<open>The in-memory store\<close>

record memory_store =
  ms_runs :: "string \<Rightarrow> run_state option"
  ms_poisoned :: bool

definition store_create :: "run_state \<Rightarrow> memory_store \<Rightarrow> (store_error + unit) \<times> memory_store" where
  "store_create st s =
     (if ms_poisoned s then (Inl StIo, s)
      else if ms_runs s (rs_run_id st) \<noteq> None then (Inl (StAlreadyExists (rs_run_id st)), s)
      else (Inr (), s\<lparr>ms_runs := (ms_runs s)(rs_run_id st \<mapsto> st)\<rparr>))"

definition store_load :: "string \<Rightarrow> memory_store \<Rightarrow> store_error + run_state" where
  "store_load run s =
     (if ms_poisoned s then Inl StIo
      else case ms_runs s run of None \<Rightarrow> Inl (StNotFound run) | Some st \<Rightarrow> Inr st)"

definition compare_and_swap_inner ::
  "store_error + nat \<Rightarrow> nat \<Rightarrow> run_state \<Rightarrow> lease_authority option \<Rightarrow> string option \<Rightarrow> memory_store
    \<Rightarrow> (store_error + unit) \<times> memory_store"
where
  "compare_and_swap_inner clock expected replacement authority approval s =
     (if ms_poisoned s then (Inl StIo, s)
      else case ms_runs s (rs_run_id replacement) of
        None \<Rightarrow> (Inl (StNotFound (rs_run_id replacement)), s)
      | Some current \<Rightarrow>
          (case validate_swap clock expected current replacement authority approval of
             Inl e \<Rightarrow> (Inl e, s)
           | Inr _ \<Rightarrow> (Inr (), s\<lparr>ms_runs := (ms_runs s)(rs_run_id replacement \<mapsto> replacement)\<rparr>)))"

definition compare_and_swap ::
  "store_error + nat \<Rightarrow> nat \<Rightarrow> run_state \<Rightarrow> memory_store \<Rightarrow> (store_error + unit) \<times> memory_store"
where
  "compare_and_swap clock expected replacement = compare_and_swap_inner clock expected replacement None None"

definition compare_and_swap_fenced ::
  "store_error + nat \<Rightarrow> nat \<Rightarrow> run_state \<Rightarrow> lease_authority \<Rightarrow> memory_store \<Rightarrow> (store_error + unit) \<times> memory_store"
where
  "compare_and_swap_fenced clock expected replacement authority =
     compare_and_swap_inner clock expected replacement (Some authority) None"

definition compare_and_swap_approval_resolution ::
  "store_error + nat \<Rightarrow> nat \<Rightarrow> run_state \<Rightarrow> string \<Rightarrow> lease_authority option \<Rightarrow> memory_store
    \<Rightarrow> (store_error + unit) \<times> memory_store"
where
  "compare_and_swap_approval_resolution clock expected replacement approval authority =
     compare_and_swap_inner clock expected replacement authority (Some approval)"

subsection \<open>What the checks guarantee\<close>

lemma validate_append_onlyD:
  assumes "validate_append_only current replacement = Inr ()"
  shows "rs_run_id replacement = rs_run_id current" and "rs_session_id replacement = rs_session_id current"
    and "\<exists>new. rs_events replacement = rs_events current @ new \<and> (new = [] \<longrightarrow> replacement = current)"
proof -
  show "rs_run_id replacement = rs_run_id current" "rs_session_id replacement = rs_session_id current"
    using assms by (auto simp: validate_append_only_def split: if_splits)
  let ?n = "length (rs_events current)"
  have "rs_events current = take ?n (rs_events replacement)"
    and same: "length (rs_events replacement) = ?n \<longrightarrow> replacement = current"
    using assms by (auto simp: validate_append_only_def split: if_splits)
  then have "rs_events replacement = rs_events current @ drop ?n (rs_events replacement)"
    by (metis append_take_drop_id)
  with same show "\<exists>new. rs_events replacement = rs_events current @ new \<and> (new = [] \<longrightarrow> replacement = current)"
    by (metis append_Nil2)
qed

lemma validate_swapD:
  assumes "validate_swap clock expected current replacement authority approval = Inr ()"
  obtains now where "clock = Inr now" and "last_sequence current = expected"
    and "validate_worker_lease_fence current replacement authority now = Inr ()"
    and "validate_append_only current replacement = Inr ()"
    and "approval = None \<Longrightarrow> reject_unvalidated_approval_resolutions current replacement = Inr ()"
    and "\<And>i. approval = Some i \<Longrightarrow> validate_approval_resolution_deadline current replacement i now = Inr ()"
  using assms by (auto simp: validate_swap_def bindR_Inr split: if_splits option.splits)

text \<open>A write without authority needs a run without an active lease; after an expired lease it can
  only be a fresh, bounded claim. A write with authority needs the very lease that is active.\<close>

definition may_write :: "run_state \<Rightarrow> run_state \<Rightarrow> lease_authority option \<Rightarrow> nat \<Rightarrow> bool" where
  "may_write current replacement authority now \<longleftrightarrow>
     (case authority of
        Some a \<Rightarrow> (\<exists>l. current_lease current = Some l \<and> now < wl_expires_at l
                     \<and> wl_owner_id l = la_owner_id a \<and> wl_lease_id l = la_lease_id a)
      | None \<Rightarrow> (case current_lease current of
            None \<Rightarrow> True
          | Some l \<Rightarrow> wl_expires_at l \<le> now \<and> (\<exists>e owner lease claimed expires.
              rs_events replacement = rs_events current @ [e] \<and> ev_kind e = WorkerLeaseClaimed owner lease claimed expires
              \<and> claimed \<le> now \<and> now < expires \<and> expires \<le> claimed + MAX_DURABLE_WORKER_LEASE_MS)))"

lemma atomic_claim_event:
  assumes "is_atomic_lease_claim current replacement now" and "rs_events replacement = rs_events current @ new"
  shows "\<exists>e owner lease claimed expires. new = [e] \<and> ev_kind e = WorkerLeaseClaimed owner lease claimed expires
    \<and> claimed \<le> now \<and> now < expires \<and> expires \<le> claimed + MAX_DURABLE_WORKER_LEASE_MS"
proof -
  have "length new = 1" using assms by (auto simp: is_atomic_lease_claim_def Let_def split: if_splits)
  then obtain e where e: "new = [e]" by (cases new) auto
  with assms show ?thesis
    by (auto simp: is_atomic_lease_claim_def Let_def checked_sub_def split: event_kind.splits option.splits if_splits)
qed

lemma fence_may_write:
  assumes "validate_worker_lease_fence current replacement authority now = Inr ()"
    and "validate_append_only current replacement = Inr ()"
  shows "may_write current replacement authority now"
proof -
  obtain new where new: "rs_events replacement = rs_events current @ new" using validate_append_onlyD(3) [OF assms(2)] by blast
  show ?thesis
    using assms(1) atomic_claim_event [OF _ new] new
    by (auto simp: validate_worker_lease_fence_def may_write_def active_lease_def split: option.splits if_splits)
qed

text \<open>No typed approval is granted at or after its deadline.\<close>

lemma scan_resolutions_expired:
  "scan_resolutions current approval now es n expired = Inr (m, x) \<Longrightarrow> expired \<Longrightarrow> x"
  by (induction current approval now es n expired rule: scan_resolutions.induct)
    (auto simp: Let_def split: event_kind.splits option.splits if_splits)

lemma scan_resolutions_deadline:
  assumes "scan_resolutions current approval now es n expired = Inr (n', False)"
    and "e \<in> set es" and "ev_kind e = ApprovalResolved i True response"
    and "stored_approval current i = Some ap" and "ap_expires_at ap = Some deadline"
  shows "now < deadline"
  using assms
proof (induction current approval now es n expired rule: scan_resolutions.induct)
  case (2 current approval now e' es n expired)
  from 2 show ?case
    by (auto simp: Let_def not_le split: event_kind.splits option.splits if_splits dest: scan_resolutions_expired)
qed simp

lemma reject_resolutions_typed:
  assumes "reject_resolutions current es = Inr ()" and "e \<in> set es" and "ev_kind e = ApprovalResolved i b response"
  shows "\<exists>ap. stored_approval current i = Some ap \<and> ap_expires_at ap = None"
  using assms by (induction current es rule: reject_resolutions.induct) (auto split: event_kind.splits option.splits if_splits)

lemma swap_deadline:
  assumes "validate_swap (Inr now) expected current replacement authority approval = Inr ()"
    and "rs_events replacement = rs_events current @ new" and "e \<in> set new"
    and "ev_kind e = ApprovalResolved i True response"
    and "stored_approval current i = Some ap" and "ap_expires_at ap = Some deadline"
  shows "now < deadline"
  using assms(1)
proof (rule validate_swapD)
  fix now'
  assume "Inr now = (Inr now' :: store_error + nat)"
    and none: "approval = None \<Longrightarrow> reject_unvalidated_approval_resolutions current replacement = Inr ()"
    and some: "\<And>i. approval = Some i \<Longrightarrow> validate_approval_resolution_deadline current replacement i now' = Inr ()"
  then have now': "now' = now" by simp
  show ?thesis
  proof (cases approval)
    case None
    with none assms show ?thesis
      by (auto simp: reject_unvalidated_approval_resolutions_def dest: reject_resolutions_typed)
  next
    case (Some j)
    with some [of j] assms(2) now' obtain n where "scan_resolutions current j now new 0 False = Inr (n, False)"
      by (auto simp: validate_approval_resolution_deadline_def bindR_Inr split: option.splits if_splits)
    from scan_resolutions_deadline [OF this assms(3-6)] show ?thesis .
  qed
qed

subsection \<open>The contract of a store\<close>

lemma last_sequence_log:
  assumes "log_ok st"
  shows "last_sequence st = min (length (rs_events st)) u64_max"
proof -
  from assms have ne: "rs_events st \<noteq> []" by (simp add: log_ok_def)
  with assms show ?thesis
    by (simp add: last_sequence_def last_opt_def last_conv_nth log_ok_def)
qed

text \<open>The runs of a store are keyed by their identifier and are replays of their logs.\<close>

definition runs_ok :: "durable_env \<Rightarrow> (string \<Rightarrow> run_state option) \<Rightarrow> bool" where
  "runs_ok env runs \<longleftrightarrow> (\<forall>i st. runs i = Some st \<longrightarrow> rs_run_id st = i \<and> run_built env st)"

text \<open>The abstract store: a log for every run, to which events are appended.\<close>

type_synonym logs = "string \<Rightarrow> run_event list option"

inductive log_step :: "logs \<Rightarrow> logs \<Rightarrow> bool" for L where
  stutter: "log_step L L"
| create: "L i = None \<Longrightarrow> es \<noteq> [] \<Longrightarrow> log_step L (L(i \<mapsto> es))"
| append: "L i = Some es \<Longrightarrow> new \<noteq> [] \<Longrightarrow> log_step L (L(i \<mapsto> es @ new))"

definition logs_of :: "(string \<Rightarrow> run_state option) \<Rightarrow> logs" where
  "logs_of runs i = map_option rs_events (runs i)"

lemma logs_of_update: "logs_of (runs(i \<mapsto> st)) = (logs_of runs)(i \<mapsto> rs_events st)"
  by (auto simp: logs_of_def)

locale durable_store =
  fixes runs :: "'s \<Rightarrow> string \<Rightarrow> run_state option"
    and create :: "run_state \<Rightarrow> 's \<Rightarrow> (store_error + unit) \<times> 's"
    and swap :: "store_error + nat \<Rightarrow> nat \<Rightarrow> run_state \<Rightarrow> lease_authority option \<Rightarrow> string option \<Rightarrow> 's
      \<Rightarrow> (store_error + unit) \<times> 's"
  assumes create_Inr: "create st s = (Inr u, s') \<Longrightarrow> runs s (rs_run_id st) = None \<and> runs s' = (runs s)(rs_run_id st \<mapsto> st)"
    and create_Inl: "create st s = (Inl e, s') \<Longrightarrow> runs s' = runs s"
    and swap_Inr: "swap clock n st a p s = (Inr u, s') \<Longrightarrow> runs s' = (runs s)(rs_run_id st \<mapsto> st)
      \<and> (\<exists>current. runs s (rs_run_id st) = Some current \<and> validate_swap clock n current st a p = Inr ())"
    and swap_Inl: "swap clock n st a p s = (Inl e, s') \<Longrightarrow> runs s' = runs s"
begin

lemma create_keeps:
  assumes "runs_ok env (runs s)" and "run_built env st" and "create st s = (r, s')"
  shows "runs_ok env (runs s') \<and> log_step (logs_of (runs s)) (logs_of (runs s'))"
proof (cases r)
  case (Inl e)
  with assms create_Inl show ?thesis by (simp add: log_step.stutter)
next
  case (Inr u)
  with create_Inr assms(3) have c: "runs s (rs_run_id st) = None" "runs s' = (runs s)(rs_run_id st \<mapsto> st)" by blast+
  have "rs_events st \<noteq> []" using run_built_log [OF assms(2)] by (simp add: log_ok_def)
  with c assms(1,2) show ?thesis
    by (auto simp: runs_ok_def logs_of_update intro!: log_step.create) (simp add: logs_of_def)
qed

lemma swap_keeps:
  assumes "runs_ok env (runs s)" and "run_built env st" and "swap clock n st a p s = (r, s')"
  shows "runs_ok env (runs s') \<and> log_step (logs_of (runs s)) (logs_of (runs s'))"
proof (cases r)
  case (Inl e)
  with assms swap_Inl show ?thesis by (simp add: log_step.stutter)
next
  case (Inr u)
  with swap_Inr assms(3) obtain current where c: "runs s' = (runs s)(rs_run_id st \<mapsto> st)"
    "runs s (rs_run_id st) = Some current" "validate_swap clock n current st a p = Inr ()" by blast
  then obtain new where new: "rs_events st = rs_events current @ new" "new = [] \<longrightarrow> st = current"
    by (metis validate_swapD validate_append_onlyD(3))
  have log: "logs_of (runs s) (rs_run_id st) = Some (rs_events current)" using c(2) by (simp add: logs_of_def)
  have "log_step (logs_of (runs s)) ((logs_of (runs s))(rs_run_id st \<mapsto> rs_events current @ new))"
  proof (cases "new = []")
    case True
    with log show ?thesis by (simp add: fun_upd_idem log_step.stutter)
  next
    case False
    with log show ?thesis by (intro log_step.append)
  qed
  with c assms(1,2) new show ?thesis by (auto simp: runs_ok_def logs_of_update)
qed

lemma swap_fenced:
  assumes "swap (Inr now) n st a p s = (Inr u, s')"
  shows "\<exists>current. runs s (rs_run_id st) = Some current \<and> may_write current st a now"
  using swap_Inr [OF assms] fence_may_write by (metis validate_swapD sum.inject(2))

lemma swap_in_time:
  assumes "swap (Inr now) n st a p s = (Inr u, s')" and "runs s (rs_run_id st) = Some current"
    and "rs_events st = rs_events current @ new" and "e \<in> set new" and "ev_kind e = ApprovalResolved i True response"
    and "stored_approval current i = Some ap" and "ap_expires_at ap = Some deadline"
  shows "now < deadline"
  using swap_Inr [OF assms(1)] assms(2) swap_deadline [OF _ assms(3-7)] by fastforce

text \<open>A swap based on a revision that has been extended since is refused.\<close>

lemma swap_stale:
  assumes "runs_ok env (runs s)" and "runs s (rs_run_id st) = Some current"
    and "n < length (rs_events current)" and "n < u64_max"
  shows "fst (swap clock n st a p s) \<noteq> Inr u"
proof
  assume "fst (swap clock n st a p s) = Inr u"
  then obtain s' where "swap clock n st a p s = (Inr u, s')" by (metis prod.collapse)
  with swap_Inr assms(2) have "last_sequence current = n" by (metis option.inject validate_swapD)
  moreover have "log_ok current" using assms(1,2) run_built_log by (auto simp: runs_ok_def)
  ultimately show False using assms(3,4) last_sequence_log by simp
qed

end

interpretation memory: durable_store ms_runs store_create compare_and_swap_inner
  by unfold_locales (auto simp: store_create_def compare_and_swap_inner_def split: if_splits option.splits sum.splits)

subsection \<open>Executions of the in-memory store\<close>

text \<open>Any number of clients create and replace runs, each with some run state of its own; every run
  state is the replay of a log, since nothing else can be constructed or deserialised. A client
  that panics poisons the lock.\<close>

inductive store_step :: "durable_env \<Rightarrow> memory_store \<Rightarrow> memory_store \<Rightarrow> bool" for env s where
  create: "run_built env st \<Longrightarrow> store_create st s = (r, s') \<Longrightarrow> store_step env s s'"
| swap: "run_built env st \<Longrightarrow> compare_and_swap clock n st s = (r, s') \<Longrightarrow> store_step env s s'"
| fenced: "run_built env st \<Longrightarrow> compare_and_swap_fenced clock n st a s = (r, s') \<Longrightarrow> store_step env s s'"
| approval: "run_built env st \<Longrightarrow> compare_and_swap_approval_resolution clock n st i a s = (r, s') \<Longrightarrow> store_step env s s'"
| poison: "store_step env s (s\<lparr>ms_poisoned := True\<rparr>)"

inductive store_reach :: "durable_env \<Rightarrow> memory_store \<Rightarrow> memory_store \<Rightarrow> bool" for env s where
  start: "store_reach env s s"
| step: "store_reach env s t \<Longrightarrow> store_step env t u \<Longrightarrow> store_reach env s u"

definition store_empty :: memory_store where
  "store_empty = \<lparr>ms_runs = (\<lambda>_. None), ms_poisoned = False\<rparr>"

lemmas swap_variants = compare_and_swap_def compare_and_swap_fenced_def compare_and_swap_approval_resolution_def

lemma store_step_keeps:
  assumes "store_step env s s'" and "runs_ok env (ms_runs s)"
  shows "runs_ok env (ms_runs s') \<and> log_step (logs_of (ms_runs s)) (logs_of (ms_runs s'))"
  using assms(1)
proof cases
  case (create st r)
  then show ?thesis by (rule memory.create_keeps [OF assms(2)])
next
  case poison
  with assms(2) show ?thesis by (simp add: log_step.stutter)
qed (use memory.swap_keeps [OF assms(2)] swap_variants in metis)+

lemma store_reach_ok: "store_reach env s s' \<Longrightarrow> runs_ok env (ms_runs s) \<Longrightarrow> runs_ok env (ms_runs s')"
  by (induction rule: store_reach.induct) (blast dest: store_step_keeps)+

lemma empty_ok: "runs_ok env (ms_runs store_empty)"
  by (simp add: runs_ok_def store_empty_def)

lemma log_step_extends: "log_step L L' \<Longrightarrow> L i = Some es \<Longrightarrow> \<exists>new. L' i = Some (es @ new)"
  by (auto elim!: log_step.cases)

lemma store_reach_extends:
  assumes "store_reach env s s'" and "runs_ok env (ms_runs s)" and "logs_of (ms_runs s) i = Some es"
  shows "\<exists>new. logs_of (ms_runs s') i = Some (es @ new)"
  using assms
proof (induction rule: store_reach.induct)
  case (step t u)
  then obtain new where "logs_of (ms_runs t) i = Some (es @ new)" by blast
  with log_step_extends store_step_keeps [OF step(2) store_reach_ok [OF step(1,4)]] show ?case by fastforce
qed simp

end
