(* ===== verification/DurStoreProps.thy ===== *)
theory DurStoreProps
  imports DurStore DemoBranch
begin

text \<open>
  The properties of the durable store (\<open>durable\_store.rs\<close>) in any execution of the in-memory
  backend, with witnesses on the runs of theories \<open>Demo\<close> and \<open>DemoBranch\<close>.
\<close>

subsection \<open>Concrete stores\<close>

definition store_with :: "run_state \<Rightarrow> memory_store" where
  "store_with st = \<lparr>ms_runs = [rs_run_id st \<mapsto> st], ms_poisoned = False\<rparr>"

lemma store_with_reach: "run_built env st \<Longrightarrow> store_reach env store_empty (store_with st)"
  by (rule store_reach.step [OF store_reach.start]) (rule store_step.create [of env st _ "Inr ()"],
      simp_all add: store_create_def store_empty_def store_with_def)

lemma demo5_eval:
  "rs_run_id demo5 = ''r''" "rs_session_id demo5 = ''s''" "current_lease demo5 = None"
  "map ev_sequence (rs_events demo5) = [1, 2]"
  "map_option (\<lambda>a. (ap_status a, ap_expires_at a)) (stored_approval demo5 demo_approval) = Some (Pending, Some 20)"
  by (simp_all add: demo_eval approval_eval demo_envelopes demo5_def demo0_def demo_request_def
      demo_approval_def cong: bindR_weak bindS_weak)

definition resolved_in :: "run_event \<Rightarrow> (string \<times> bool) option" where
  "resolved_in e = (case ev_kind e of ApprovalResolved i b _ \<Rightarrow> Some (i, b) | _ \<Rightarrow> None)"

lemma demo6_eval:
  "rs_run_id demo6 = ''r''" "rs_session_id demo6 = ''s''" "length (rs_events demo6) = 4"
  "take 2 (rs_events demo6) = rs_events demo5"
  "map resolved_in (drop 2 (rs_events demo6)) = [Some (demo_approval, True), None]"
  "\<not> list_ex (\<lambda>e. case ev_kind e of WorkerLeaseClaimed _ _ _ _ \<Rightarrow> True | _ \<Rightarrow> False) (drop 2 (rs_events demo6))"
  by (simp_all add: resolved_in_def demo_eval approval_eval demo_envelopes demo6_def demo5_def demo0_def demo_request_def
      demo_approval_def cong: bindR_weak bindS_weak)

lemma demo5_length: "length (rs_events demo5) = 2"
  using arg_cong [OF demo5_eval(4), of length] by simp

lemma demo5_last: "last_sequence demo5 = 2"
proof -
  have "rs_events demo5 \<noteq> []" using demo5_length by auto
  then have "ev_sequence (last (rs_events demo5)) = last (map ev_sequence (rs_events demo5))" by (simp add: last_map)
  then show ?thesis using \<open>rs_events demo5 \<noteq> []\<close> by (simp add: last_sequence_def last_opt_def demo5_eval)
qed

lemma resolved_in_Some: "resolved_in e = Some (i, b) \<longleftrightarrow> (\<exists>r. ev_kind e = ApprovalResolved i b r)"
  by (auto simp: resolved_in_def split: event_kind.splits)

lemma resolved_in_None: "resolved_in e = None \<Longrightarrow> scan_resolutions c a now (e # es) n x = scan_resolutions c a now es n x"
  by (auto simp: resolved_in_def split: event_kind.splits)

lemma demo6_new: obtains e e' r where "rs_events demo6 = rs_events demo5 @ [e, e']"
  and "ev_kind e = ApprovalResolved demo_approval True r" and "resolved_in e' = None"
proof -
  obtain e e' where d: "drop 2 (rs_events demo6) = [e, e']" and "resolved_in e = Some (demo_approval, True)"
    "resolved_in e' = None" using demo6_eval(5) by auto
  moreover have "rs_events demo6 = rs_events demo5 @ [e, e']"
    using append_take_drop_id [of 2 "rs_events demo6"] by (simp add: demo6_eval(4) d)
  ultimately show thesis using that by (auto simp: resolved_in_Some)
qed

lemma demo_swap:
  "compare_and_swap_inner (Inr 16) 2 demo6 None (Some demo_approval) (store_with demo5) = (Inr (), store_with demo6)"
proof -
  obtain e e' r where new: "rs_events demo6 = rs_events demo5 @ [e, e']"
    "ev_kind e = ApprovalResolved demo_approval True r" "resolved_in e' = None" by (rule demo6_new)
  obtain ap where ap: "stored_approval demo5 demo_approval = Some ap" "ap_status ap = Pending" "ap_expires_at ap = Some 20"
    using demo5_eval(5) by auto
  obtain ap' where ap': "stored_approval demo6 demo_approval = Some ap'" "ap_status ap' = Approved"
    using demo6_run(2) by auto
  have "scan_resolutions demo5 demo_approval 16 [e, e'] 0 False = Inr (1, False)"
    using new(2,3) ap
    by (simp add: scan_resolutions.simps(2) [of _ _ _ e] resolved_in_None Let_def del: scan_resolutions.simps(2))
  then have "validate_approval_resolution_deadline demo5 demo6 demo_approval 16 = Inr ()"
    using ap ap' by (simp add: validate_approval_resolution_deadline_def new(1))
  moreover have "validate_worker_lease_fence demo5 demo6 None 16 = Inr ()"
    using demo6_eval(3,6) by (simp add: validate_worker_lease_fence_def active_lease_def demo5_eval appends_worker_lease_claim_def demo5_length)
  moreover have "validate_append_only demo5 demo6 = Inr ()"
    by (simp add: validate_append_only_def demo5_eval demo6_eval demo5_length)
  ultimately show ?thesis
    by (simp add: compare_and_swap_inner_def validate_swap_def demo5_last store_with_def demo5_eval demo6_eval)
qed

lemma demo_built: "run_built demo_env demo5" "run_built demo_env demo6"
  using demo_reach api_reach_built by blast+

subsection \<open>Properties\<close>

text \<open>C24: the store refines an append-only log per run: in every execution each step leaves the
  logs alone, creates a log, or appends events to one log; what is loaded is exactly the replay of
  the log that is stored.\<close>

theorem store_refines_log:
  assumes "store_reach env store_empty s" and "store_step env s s'"
  shows "log_step (logs_of (ms_runs s)) (logs_of (ms_runs s'))
    \<and> (\<forall>run st. store_load run s' = Inr st \<longrightarrow>
         (\<exists>log. logs_of (ms_runs s') run = Some log \<and> from_events env log = Inr st))"
proof -
  have "runs_ok env (ms_runs s)" using assms(1) empty_ok by (rule store_reach_ok)
  note keeps = store_step_keeps [OF assms(2) this]
  moreover have "\<exists>log. logs_of (ms_runs s') run = Some log \<and> from_events env log = Inr st"
    if "store_load run s' = Inr st" for run st
    using that keeps run_built_replay
    by (auto simp: store_load_def logs_of_def runs_ok_def split: if_splits option.splits)
  ultimately show ?thesis by blast
qed

theorem store_refines_log_witness:
  "log_step (logs_of (ms_runs (store_with demo5))) (logs_of (ms_runs (store_with demo6)))"
  using store_refines_log [OF store_with_reach [OF demo_built(1)] store_step.approval [OF demo_built(2),
      of "Inr 16" 2 demo_approval None "store_with demo5" "Inr ()" "store_with demo6"]] demo_swap
  by (simp add: compare_and_swap_approval_resolution_def)

text \<open>C25: there are no lost updates: once a replacement that appends events to revision \<open>n\<close> of a run
  has been stored, no later replacement based on revision \<open>n\<close> is ever accepted, whatever happens
  in between.\<close>

theorem no_lost_update:
  assumes "store_reach env store_empty s" and "run_built env st"
    and "compare_and_swap_inner clock n st a p s = (Inr (), s1)"
    and "ms_runs s (rs_run_id st) = Some current" and "rs_events st \<noteq> rs_events current" and "n < u64_max"
    and "store_reach env s1 s2" and "rs_run_id st' = rs_run_id st"
  shows "fst (compare_and_swap_inner clock' n st' a' p' s2) \<noteq> Inr ()"
proof -
  have ok: "runs_ok env (ms_runs s)" using assms(1) empty_ok by (rule store_reach_ok)
  note swap = memory.swap_Inr [OF assms(3)] and ok1 = memory.swap_keeps [OF ok assms(2,3), THEN conjunct1]
  from swap assms(4) have valid: "validate_swap clock n current st a p = Inr ()" by auto
  then have last: "last_sequence current = n" by (rule validate_swapD)
  from valid obtain new where new: "rs_events st = rs_events current @ new" by (metis validate_swapD validate_append_onlyD(3))
  have "run_built env current" using ok assms(4) by (simp add: runs_ok_def)
  with last assms(6) have "n = length (rs_events current)" using last_sequence_log [OF run_built_log] by fastforce
  with new assms(5) have n: "n < length (rs_events st)" by auto
  have "logs_of (ms_runs s1) (rs_run_id st) = Some (rs_events st)" using swap by (simp add: logs_of_def)
  with store_reach_extends [OF assms(7) ok1] obtain more where
    "logs_of (ms_runs s2) (rs_run_id st) = Some (rs_events st @ more)" by blast
  then obtain current2 where "ms_runs s2 (rs_run_id st') = Some current2" "rs_events current2 = rs_events st @ more"
    using assms(8) by (auto simp: logs_of_def)
  with memory.swap_stale [OF store_reach_ok [OF assms(7) ok1], of st' current2 n] n assms(6) show ?thesis by simp
qed

theorem no_lost_update_witness:
  "fst (compare_and_swap_inner (Inr 17) 2 demo6 None (Some demo_approval) (store_with demo6)) \<noteq> Inr ()"
proof -
  have "rs_events demo6 \<noteq> rs_events demo5" using demo5_length demo6_eval(3) by auto
  then show ?thesis
    by (intro no_lost_update [OF store_with_reach [OF demo_built(1)] demo_built(2) demo_swap])
      (simp_all add: store_with_def demo5_eval demo6_eval u64_max_def store_reach.start)
qed

text \<open>C26: a stale worker is fenced: a replacement is stored only with the authority of the lease that
  is active at that moment, or without authority when there is no active lease; after an expired
  lease the only replacement without authority is a new, bounded claim.\<close>

theorem stale_worker_is_fenced:
  assumes "compare_and_swap_inner (Inr now) n st a p s = (Inr (), s')"
  shows "\<exists>current. ms_runs s (rs_run_id st) = Some current \<and> may_write current st a now"
  by (rule memory.swap_fenced [OF assms])

definition claimed :: run_state where
  "claimed = snd (append_event demo_env takeover lease1)"

lemma claimed_eval:
  "rs_run_id lease1 = ''r''" "rs_session_id lease1 = ''s''" "map ev_sequence (rs_events lease1) = [1, 2]"
  "rs_run_id claimed = ''r''" "rs_session_id claimed = ''s''" "rs_events claimed = rs_events lease1 @ [takeover]"
  by (simp_all add: demo_eval branch_eval claimed_def lease1_def takeover_def branch_defs cong: bindR_weak bindS_weak)

lemma takeover_swap:
  "compare_and_swap_inner (Inr 25) 2 claimed None None (store_with lease1) = (Inr (), store_with claimed)"
proof -
  have l: "length (rs_events lease1) = 2" using arg_cong [OF claimed_eval(3), of length] by simp
  then have "rs_events lease1 \<noteq> []" by auto
  then have last: "last_sequence lease1 = 2"
    using last_map [of "rs_events lease1" ev_sequence] by (simp add: last_sequence_def last_opt_def claimed_eval)
  have "is_atomic_lease_claim lease1 claimed 25"
    using lease1_run(3) [folded claimed_def]
    by (simp add: is_atomic_lease_claim_def claimed_eval takeover_def demo_event_def
        checked_sub_def MAX_DURABLE_WORKER_LEASE_MS_def)
  then have "validate_worker_lease_fence lease1 claimed None 25 = Inr ()"
    using lease1_run(1) by (simp add: validate_worker_lease_fence_def active_lease_def)
  moreover have "validate_append_only lease1 claimed = Inr ()"
    by (simp add: validate_append_only_def claimed_eval)
  moreover have "reject_unvalidated_approval_resolutions lease1 claimed = Inr ()"
    by (simp add: reject_unvalidated_approval_resolutions_def claimed_eval takeover_def demo_event_def)
  ultimately show ?thesis
    by (simp add: compare_and_swap_inner_def validate_swap_def store_with_def claimed_eval last)
qed

theorem stale_worker_is_fenced_witness: "may_write lease1 claimed None 25"
  using stale_worker_is_fenced [OF takeover_swap] by (simp add: store_with_def claimed_eval)

text \<open>C27: no late approval is stored: a replacement that grants a typed approval is accepted only
  while the clock of the store is before the deadline of the approval as it is stored.\<close>

theorem late_approval_is_refused:
  assumes "compare_and_swap_inner (Inr now) n st a p s = (Inr (), s')" and "ms_runs s (rs_run_id st) = Some current"
    and "rs_events st = rs_events current @ new" and "e \<in> set new" and "ev_kind e = ApprovalResolved i True response"
    and "stored_approval current i = Some ap" and "ap_expires_at ap = Some deadline"
  shows "now < deadline"
  by (rule memory.swap_in_time [OF assms])

theorem late_approval_is_refused_witness:
  "\<exists>ap. stored_approval demo5 demo_approval = Some ap \<and> ap_expires_at ap = Some 20 \<and> (16 :: nat) < 20"
proof -
  obtain e e' r where new: "rs_events demo6 = rs_events demo5 @ [e, e']"
    "ev_kind e = ApprovalResolved demo_approval True r" by (rule demo6_new)
  obtain ap where ap: "stored_approval demo5 demo_approval = Some ap" "ap_expires_at ap = Some 20"
    using demo5_eval(5) by auto
  have "ms_runs (store_with demo5) (rs_run_id demo6) = Some demo5"
    by (simp add: store_with_def demo5_eval demo6_eval)
  from late_approval_is_refused [OF demo_swap this new(1) _ new(2) ap] ap show ?thesis by simp
qed

end
