(* ===== verification/Reliability.thy ===== *)
theory Reliability
  imports Prelude
begin

text \<open>
  The reliability rules of \<open>governance/reliability.rs\<close>: declarative constraints on when a tool may
  run, checked against the ordered history of the tools already run. Decoding the JSON text of a
  policy is a parameter of \<open>from\_json\<close>; its normalisation of the decoded policy is modelled.
\<close>

subsection \<open>Policies and progress\<close>

record tool_requirement =
  tr_tool :: string
  tr_forbidden :: bool
  tr_only_after :: "string list"
  tr_max_uses :: "nat option"
  tr_min_step :: "nat option"

definition for_tool :: "string \<Rightarrow> tool_requirement" where
  "for_tool tool = \<lparr>tr_tool = tool, tr_forbidden = False, tr_only_after = [], tr_max_uses = None, tr_min_step = None\<rparr>"

definition req_forbidden :: "tool_requirement \<Rightarrow> tool_requirement" where
  "req_forbidden r = r\<lparr>tr_forbidden := True\<rparr>"

definition req_only_after :: "string list \<Rightarrow> tool_requirement \<Rightarrow> tool_requirement" where
  "req_only_after tools r = r\<lparr>tr_only_after := tools\<rparr>"

definition req_max_uses :: "nat \<Rightarrow> tool_requirement \<Rightarrow> tool_requirement" where
  "req_max_uses n r = r\<lparr>tr_max_uses := Some n\<rparr>"

definition req_min_step :: "nat \<Rightarrow> tool_requirement \<Rightarrow> tool_requirement" where
  "req_min_step step r = r\<lparr>tr_min_step := Some step\<rparr>"

record reliability_policy =
  requirements :: "tool_requirement list"

datatype verdict = VAllow | VForbid string

record run_progress =
  used :: "string list"

definition progress_new :: run_progress where
  "progress_new = \<lparr>used = []\<rparr>"

definition progress_record :: "string \<Rightarrow> run_progress \<Rightarrow> run_progress" where
  "progress_record tool p = p\<lparr>used := used p @ [tool]\<rparr>"

definition progress_step :: "run_progress \<Rightarrow> nat" where
  "progress_step p = length (used p)"

definition progress_count :: "run_progress \<Rightarrow> string \<Rightarrow> nat" where
  "progress_count p tool = length (filter (\<lambda>t. t = tool) (used p))"

definition has_used :: "run_progress \<Rightarrow> string \<Rightarrow> bool" where
  "has_used p tool = list_ex (\<lambda>t. t = tool) (used p)"

subsection \<open>The check\<close>

text \<open>The body of the loop: the first violation of one requirement.\<close>

definition violation :: "string \<Rightarrow> run_progress \<Rightarrow> tool_requirement \<Rightarrow> string option" where
  "violation tool p r =
     (if tr_forbidden r then Some (''tool '' @ [CHR 0x27] @ tool @ [CHR 0x27] @ '' is forbidden by policy'')
      else if (case tr_max_uses r of None \<Rightarrow> False | Some limit \<Rightarrow> progress_count p tool \<ge> limit)
      then Some (''tool '' @ [CHR 0x27] @ tool @ [CHR 0x27] @ '' already used '' @ show_nat (progress_count p tool)
             @ '' time(s); max is '' @ (case tr_max_uses r of None \<Rightarrow> [] | Some limit \<Rightarrow> show_nat limit))
      else case List.find (\<lambda>prereq. \<not> has_used p prereq) (tr_only_after r) of
        Some prereq \<Rightarrow>
          Some (''tool '' @ [CHR 0x27] @ tool @ [CHR 0x27] @ '' requires '' @ [CHR 0x27] @ prereq @ [CHR 0x27]
             @ '' to run first'')
      | None \<Rightarrow>
          (case tr_min_step r of
             None \<Rightarrow> None
           | Some lo \<Rightarrow>
               if progress_step p < lo
               then Some (''tool '' @ [CHR 0x27] @ tool @ [CHR 0x27] @ '' is not allowed before step ''
                      @ show_nat lo @ '' (now at step '' @ show_nat (progress_step p) @ '')'')
               else None))"

fun first_violation :: "string \<Rightarrow> run_progress \<Rightarrow> tool_requirement list \<Rightarrow> string option" where
  "first_violation tool p [] = None"
| "first_violation tool p (r # rs) =
     (if tr_tool r \<noteq> tool then first_violation tool p rs
      else case violation tool p r of Some reason \<Rightarrow> Some reason | None \<Rightarrow> first_violation tool p rs)"

definition reliability_check :: "reliability_policy \<Rightarrow> string \<Rightarrow> run_progress \<Rightarrow> verdict" where
  "reliability_check policy tool p =
     (case first_violation tool p (requirements policy) of Some reason \<Rightarrow> VForbid reason | None \<Rightarrow> VAllow)"

subsection \<open>Loading a policy\<close>

text \<open>\<open>str::trim\<close> on UTF-8 bytes: leading white space characters of one, two or three bytes go,
  then the longest blank suffix.\<close>

function trim_start :: "string \<Rightarrow> string" where
  "trim_start s =
     (if s = [] then []
      else if is_blank (take 1 s) then trim_start (drop 1 s)
      else if length s \<ge> 2 \<and> is_blank (take 2 s) then trim_start (drop 2 s)
      else if length s \<ge> 3 \<and> is_blank (take 3 s) then trim_start (drop 3 s)
      else s)"
  by pat_completeness auto
termination by (relation "measure length") auto

declare trim_start.simps [simp del]

fun trim_end :: "string \<Rightarrow> string" where
  "trim_end [] = []"
| "trim_end (c # cs) = (if is_blank (c # cs) then [] else c # trim_end cs)"

definition trim :: "string \<Rightarrow> string" where
  "trim s = trim_end (trim_start s)"

datatype reliability_error = InvalidJson string | NoToolName | EmptyPrerequisite string

fun trim_prerequisites :: "string \<Rightarrow> string list \<Rightarrow> reliability_error + string list" where
  "trim_prerequisites tool [] = Inr []"
| "trim_prerequisites tool (q # qs) =
     (if trim q = [] then Inl (EmptyPrerequisite tool)
      else bindR (trim_prerequisites tool qs) (\<lambda>rest. Inr (trim q # rest)))"

fun normalise_requirements :: "tool_requirement list \<Rightarrow> reliability_error + tool_requirement list" where
  "normalise_requirements [] = Inr []"
| "normalise_requirements (r # rs) =
     (if trim (tr_tool r) = [] then Inl NoToolName
      else bindR (trim_prerequisites (trim (tr_tool r)) (tr_only_after r)) (\<lambda>qs.
           bindR (normalise_requirements rs) (\<lambda>rest.
             Inr (r\<lparr>tr_tool := trim (tr_tool r), tr_only_after := qs\<rparr> # rest))))"

definition from_json :: "(string \<Rightarrow> string + reliability_policy) \<Rightarrow> string \<Rightarrow> reliability_error + reliability_policy" where
  "from_json decode s =
     bindR (map_err InvalidJson (decode s)) (\<lambda>policy.
     bindR (normalise_requirements (requirements policy)) (\<lambda>rs.
       Inr (policy\<lparr>requirements := rs\<rparr>)))"

subsection \<open>What an accepted call satisfies\<close>

definition permits :: "tool_requirement \<Rightarrow> run_progress \<Rightarrow> bool" where
  "permits r p \<longleftrightarrow> \<not> tr_forbidden r
     \<and> (\<forall>limit. tr_max_uses r = Some limit \<longrightarrow> progress_count p (tr_tool r) < limit)
     \<and> (\<forall>q \<in> set (tr_only_after r). q \<in> set (used p))
     \<and> (\<forall>lo. tr_min_step r = Some lo \<longrightarrow> lo \<le> length (used p))"

lemma has_used_iff [simp]: "has_used p t \<longleftrightarrow> t \<in> set (used p)"
  by (auto simp: has_used_def list_ex_iff)

lemma violation_None: "violation (tr_tool r) p r = None \<longleftrightarrow> permits r p"
  by (auto simp: violation_def permits_def progress_step_def find_None_iff not_le
      split: option.splits if_splits dest!: find_SomeD)

lemma first_violation_None:
  "first_violation tool p rs = None \<longleftrightarrow> (\<forall>r \<in> set rs. tr_tool r = tool \<longrightarrow> permits r p)"
  by (induction rs) (auto simp: violation_None [symmetric] split: option.splits)

lemma check_Allow:
  "reliability_check policy tool p = VAllow \<longleftrightarrow>
     (\<forall>r \<in> set (requirements policy). tr_tool r = tool \<longrightarrow> permits r p)"
  by (auto simp: reliability_check_def first_violation_None [symmetric] split: option.splits)

text \<open>A run whose every call was accepted before it was recorded.\<close>

inductive gated :: "reliability_policy \<Rightarrow> run_progress \<Rightarrow> bool" for policy where
  start: "gated policy progress_new"
| call: "gated policy p \<Longrightarrow> reliability_check policy tool p = VAllow \<Longrightarrow> gated policy (progress_record tool p)"

text \<open>What the requirement says of a whole history.\<close>

definition obeys :: "tool_requirement \<Rightarrow> string list \<Rightarrow> bool" where
  "obeys r us \<longleftrightarrow>
     (\<forall>limit. tr_max_uses r = Some limit \<longrightarrow> length (filter (\<lambda>t. t = tr_tool r) us) \<le> limit)
     \<and> (\<forall>i < length us. us ! i = tr_tool r \<longrightarrow>
          \<not> tr_forbidden r \<and> set (tr_only_after r) \<subseteq> set (take i us)
          \<and> (\<forall>lo. tr_min_step r = Some lo \<longrightarrow> lo \<le> i))"

lemma obeys_record:
  assumes "obeys r us" and "t = tr_tool r \<Longrightarrow> permits r \<lparr>used = us\<rparr>"
  shows "obeys r (us @ [t])"
  unfolding obeys_def
proof (intro conjI allI impI)
  fix limit assume "tr_max_uses r = Some limit"
  with assms show "length (filter (\<lambda>t. t = tr_tool r) (us @ [t])) \<le> limit"
    by (auto simp: obeys_def permits_def progress_count_def Suc_le_eq)
next
  fix i assume i: "i < length (us @ [t])" "(us @ [t]) ! i = tr_tool r"
  show "\<not> tr_forbidden r" "set (tr_only_after r) \<subseteq> set (take i (us @ [t]))"
    "\<And>lo. tr_min_step r = Some lo \<Longrightarrow> lo \<le> i"
    using assms i by (cases "i < length us"; auto simp: obeys_def permits_def nth_append; fail)+
qed

lemma gated_obeys: "gated policy p \<Longrightarrow> r \<in> set (requirements policy) \<Longrightarrow> obeys r (used p)"
proof (induction rule: gated.induct)
  case start
  then show ?case by (simp add: obeys_def progress_new_def)
next
  case (call p tool)
  then have "tool = tr_tool r \<Longrightarrow> permits r \<lparr>used = used p\<rparr>"
    by (cases p) (auto simp: check_Allow)
  from obeys_record [OF _ this] call show ?case by (simp add: progress_record_def)
qed

subsection \<open>Normalised policies\<close>

text \<open>The byte form of one white space character.\<close>

definition white_space :: "nat list \<Rightarrow> bool" where
  "white_space w \<longleftrightarrow> (\<exists>b. w = [b] \<and> (9 \<le> b \<and> b \<le> 13 \<or> b = 32))
     \<or> (\<exists>c. w = [194, c] \<and> (c = 133 \<or> c = 160))
     \<or> (\<exists>b c d. w = [b, c, d] \<and> (b = 225 \<and> c = 154 \<and> d = 128
         \<or> b = 226 \<and> c = 128 \<and> (128 \<le> d \<and> d \<le> 138 \<or> d = 168 \<or> d = 169 \<or> d = 175)
         \<or> b = 226 \<and> c = 129 \<and> d = 159 \<or> b = 227 \<and> c = 128 \<and> d = 128))"

lemma is_blank_bytes_word: "white_space w \<Longrightarrow> is_blank_bytes (w @ x) = is_blank_bytes x"
  unfolding white_space_def
  by (elim disjE exE conjE) (simp_all only: append_Cons append_Nil, (subst is_blank_bytes.simps, simp del: is_blank_bytes.simps)+)

lemma is_blank_bytes_split:
  assumes "is_blank_bytes (b # bs)"
  obtains w x where "white_space w" "b # bs = w @ x" "w \<noteq> []" "is_blank_bytes x"
proof -
  note p = assms [unfolded is_blank_bytes.simps(2)]
  show thesis
  proof (cases "(9 \<le> b \<and> b \<le> 13) \<or> b = 32")
    case True
    with p that [of "[b]" bs] show ?thesis by (simp add: white_space_def del: is_blank_bytes.simps)
  next
    case False
    with p obtain c cs where bs: "bs = c # cs" by (cases bs) auto
    show ?thesis
    proof (cases "b = 194 \<and> (c = 133 \<or> c = 160)")
      case True
      with p bs False that [of "[194, c]" cs] show ?thesis by (auto simp: white_space_def simp del: is_blank_bytes.simps)
    next
      case two: False
      with p bs False obtain d ds where cs: "cs = d # ds" by (cases cs) (auto simp del: is_blank_bytes.simps)
      with p bs False two that [of "[b, c, d]" ds] show ?thesis
        by (auto simp: white_space_def simp del: is_blank_bytes.simps split: if_splits)
    qed
  qed
qed

lemma is_blank_bytes_append:
  assumes y: "is_blank_bytes y"
  shows "is_blank_bytes a \<Longrightarrow> is_blank_bytes (a @ y)"
proof (induction "length a" arbitrary: a rule: less_induct)
  case less
  show ?case
  proof (cases a)
    case (Cons b bs)
    with less.prems obtain w x where w: "white_space w" "a = w @ x" "w \<noteq> []" "is_blank_bytes x"
      by (auto elim: is_blank_bytes_split simp del: is_blank_bytes.simps)
    with less.hyps [of x] show ?thesis by (simp add: is_blank_bytes_word del: is_blank_bytes.simps)
  qed (simp add: y)
qed

lemma is_blank_append: "is_blank a \<Longrightarrow> is_blank b \<Longrightarrow> is_blank (a @ b)"
  by (simp add: is_blank_def is_blank_bytes_append del: is_blank_bytes.simps)

lemma trim_end_suffix: "\<exists>b. s = trim_end s @ b \<and> is_blank b"
proof (induction s)
  case (Cons c cs)
  then show ?case by (cases "is_blank (c # cs)") auto
qed (simp add: is_blank_def)

lemma trim_end_idem [simp]: "trim_end (trim_end s) = trim_end s"
proof (induction s)
  case (Cons c cs)
  show ?case
  proof (cases "is_blank (c # cs)")
    case False
    obtain b where b: "cs = trim_end cs @ b" "is_blank b" using trim_end_suffix [of cs] by blast
    have "\<not> is_blank (c # trim_end cs)"
    proof
      assume "is_blank (c # trim_end cs)"
      from is_blank_append [OF this b(2)] b(1) False show False by simp
    qed
    with False Cons show ?thesis by simp
  qed simp
qed simp

text \<open>Text that does not start with white space.\<close>

definition starts_solid :: "string \<Rightarrow> bool" where
  "starts_solid s \<longleftrightarrow> s \<noteq> [] \<longrightarrow> \<not> is_blank (take 1 s) \<and> \<not> (length s \<ge> 2 \<and> is_blank (take 2 s))
     \<and> \<not> (length s \<ge> 3 \<and> is_blank (take 3 s))"

lemma trim_start_solid: "starts_solid (trim_start s)"
  by (induction s rule: trim_start.induct) (subst trim_start.simps, auto simp: starts_solid_def)

lemma trim_start_id: "starts_solid s \<Longrightarrow> trim_start s = s"
  by (subst trim_start.simps) (auto simp: starts_solid_def)

lemma starts_solid_prefix: "starts_solid (a @ b) \<Longrightarrow> starts_solid a"
  by (cases a) (auto simp: starts_solid_def)

lemma trim_idem [simp]: "trim (trim s) = trim s"
proof -
  obtain b where "trim_start s = trim_end (trim_start s) @ b" using trim_end_suffix by blast
  then have "starts_solid (trim s)"
    using trim_start_solid [of s] starts_solid_prefix [of "trim s" b] by (simp add: trim_def)
  then show ?thesis using trim_start_id by (simp add: trim_def)
qed

definition normal_name :: "string \<Rightarrow> bool" where
  "normal_name s \<longleftrightarrow> s \<noteq> [] \<and> trim s = s"

lemma trim_prerequisites_normal: "trim_prerequisites t qs = Inr rs \<Longrightarrow> list_all normal_name rs"
  by (induction qs arbitrary: rs) (auto simp: result_simps normal_name_def split: if_splits)

lemma normalise_normal:
  "normalise_requirements rs = Inr rs' \<Longrightarrow> list_all (\<lambda>r. normal_name (tr_tool r) \<and> list_all normal_name (tr_only_after r)) rs'"
  by (induction rs arbitrary: rs')
    (auto simp: result_simps normal_name_def [of "trim _"] dest: trim_prerequisites_normal split: if_splits)

subsection \<open>Properties\<close>

text \<open>C16: in a run whose every tool call passed the check before it was recorded, each requirement
  holds of the whole history: a forbidden tool never ran, no tool ran more often than its cap,
  and every use came after its prerequisites and not before its minimum step.\<close>

theorem accepted_run_obeys_policy:
  assumes "gated policy p" and "r \<in> set (requirements policy)"
  shows "obeys r (used p)"
  by (rule gated_obeys [OF assms])

definition deploy_policy :: reliability_policy where
  "deploy_policy = \<lparr>requirements = [req_max_uses 1 (req_only_after [''test''] (for_tool ''deploy''))]\<rparr>"

theorem accepted_run_obeys_policy_witness:
  "obeys (req_max_uses 1 (req_only_after [''test''] (for_tool ''deploy''))) [''test'', ''deploy'']"
proof -
  have "gated deploy_policy (progress_record ''deploy'' (progress_record ''test'' progress_new))"
    by (rule gated.call, rule gated.call, rule gated.start)
      (simp_all add: reliability_check_def deploy_policy_def for_tool_def req_only_after_def req_max_uses_def
        violation_def progress_record_def progress_new_def progress_count_def)
  from accepted_run_obeys_policy [OF this] show ?thesis
    by (simp add: deploy_policy_def progress_record_def progress_new_def)
qed

text \<open>A policy loaded from JSON has a tool name and prerequisite names that are not empty and
  carry no surrounding white space, so they are compared as they were meant.\<close>

theorem loaded_policy_is_normal:
  assumes "from_json decode s = Inr policy"
  shows "list_all (\<lambda>r. normal_name (tr_tool r) \<and> list_all normal_name (tr_only_after r)) (requirements policy)"
  using assms by (auto simp: from_json_def result_simps dest: normalise_normal)

theorem loaded_policy_is_normal_witness:
  "list_all (\<lambda>r. normal_name (tr_tool r) \<and> list_all normal_name (tr_only_after r))
     (requirements (\<lparr>requirements = [for_tool ''a'']\<rparr>))"
  using loaded_policy_is_normal [of "\<lambda>_. Inr \<lparr>requirements = [for_tool '' a '']\<rparr>" "[]"
      "\<lparr>requirements = [for_tool ''a'']\<rparr>"]
  by (simp add: from_json_def for_tool_def trim_def trim_start.simps is_blank_def)

end
