(* ===== verification/Errors.thy ===== *)
theory Errors
  imports Prelude
begin

text \<open>
  The errors of \<open>error.rs\<close>: the in-process error with its internal detail, the redacted envelope
  that leaves the process, the classification of provider failures that retry and fallback use, and
  the texts of each. The last lemmas show that the envelope depends on nothing but the
  classification and the routing data.
\<close>

subsection \<open>Codes\<close>

record provider_warning =
  pw_code :: string
  pw_message :: string
  pw_parameter :: "string option"
  pw_provider :: "string option"
  pw_model :: "string option"

datatype error_code =
    EcProviderAuth
  | EcProviderRateLimit
  | EcProviderTimeout
  | EcProviderTransport
  | EcProviderServer
  | EcProviderInvalidRequest
  | EcProviderProtocol
  | EcProviderSafety
  | EcPermissionDenied
  | EcSandbox
  | EcConfiguration
  | EcBudgetExceeded
  | EcToolExecution
  | EcStructuredOutput
  | EcSession
  | EcConflict
  | EcCancelled
  | EcMaxTurns
  | EcAudit
  | EcHook
  | EcUnknown

fun error_message :: "error_code \<Rightarrow> string" where
  "error_message EcProviderAuth = ''provider authentication failed''"
| "error_message EcProviderRateLimit = ''provider rate limit exceeded''"
| "error_message EcProviderTimeout = ''provider request timed out''"
| "error_message EcProviderTransport = ''provider transport failed''"
| "error_message EcProviderServer = ''provider server failed''"
| "error_message EcProviderInvalidRequest = ''provider rejected the request''"
| "error_message EcProviderProtocol = ''provider protocol failed''"
| "error_message EcProviderSafety = ''provider safety policy blocked the request''"
| "error_message EcPermissionDenied = ''permission denied''"
| "error_message EcSandbox = ''sandbox boundary denied the operation''"
| "error_message EcConfiguration = ''runtime configuration is invalid''"
| "error_message EcBudgetExceeded = ''budget exceeded''"
| "error_message EcToolExecution = ''tool execution failed''"
| "error_message EcStructuredOutput = ''structured output failed''"
| "error_message EcSession = ''session operation failed''"
| "error_message EcConflict = ''state conflict''"
| "error_message EcCancelled = ''operation cancelled''"
| "error_message EcMaxTurns = ''maximum agent turns exceeded''"
| "error_message EcAudit = ''audit operation failed''"
| "error_message EcHook = ''lifecycle hook failed''"
| "error_message EcUnknown = ''unknown error''"

fun error_hint :: "error_code \<Rightarrow> string" where
  "error_hint EcProviderAuth =
     ''check that this provider's API key is set, valid, and allowed to use the ''
     @ ''requested model''"
| "error_hint EcProviderRateLimit =
     ''slow down or retry later; honor retry_after_ms when present, or configure ''
     @ ''retries or a fallback provider''"
| "error_hint EcProviderTimeout =
     ''retry the request; if it keeps timing out, reduce max_tokens or the prompt size''"
| "error_hint EcProviderTransport =
     ''check network connectivity, proxy/TLS settings, and the provider base URL, then ''
     @ ''retry''"
| "error_hint EcProviderServer =
     ''the provider failed on its side; retry with backoff or fall back to another ''
     @ ''provider''"
| "error_hint EcProviderInvalidRequest =
     ''check the model name, parameters, and message shape against what this provider ''
     @ ''supports; retrying the same request will fail again''"
| "error_hint EcProviderProtocol =
     ''the provider response did not match the expected wire protocol; this usually ''
     @ ''means an adapter or API-version mismatch and is worth reporting''"
| "error_hint EcProviderSafety =
     ''the provider's safety system blocked the input or output; rephrase the request ''
     @ ''or review the provider's usage policy''"
| "error_hint EcPermissionDenied =
     ''a governance policy, guardrail, or approval callback denied the action; review ''
     @ ''the permission policy or approve the action explicitly''"
| "error_hint EcSandbox =
     ''the operation crossed a sandbox boundary; widen the sandbox policy deliberately ''
     @ ''or keep the operation inside the allowed roots and hosts''"
| "error_hint EcConfiguration =
     ''fix the reported configuration value; retrying with the same configuration will ''
     @ ''fail again''"
| "error_hint EcBudgetExceeded =
     ''a configured token, cost, model-call, or time budget ran out; raise the budget ''
     @ ''or reduce the requested work''"
| "error_hint EcToolExecution =
     ''the tool itself failed; inspect the tool's error detail and its input arguments''"
| "error_hint EcStructuredOutput =
     ''the model did not return a schema-valid object; simplify the schema, clarify ''
     @ ''the prompt, or allow more repair retries''"
| "error_hint EcSession = ''check that the session store is reachable and the session id exists and is readable''"
| "error_hint EcConflict =
     ''the state changed underneath this call; reload the latest state and retry with ''
     @ ''its current generation''"
| "error_hint EcCancelled = ''the operation was cancelled on request; no retry is implied''"
| "error_hint EcMaxTurns =
     ''the agent loop hit max_turns before the model finished; raise max_turns or ''
     @ ''check for a tool call that repeats without progress''"
| "error_hint EcAudit =
     ''the audit sink could not record an event, so the run failed closed; check the ''
     @ ''audit sink's storage and permissions''"
| "error_hint EcHook =
     ''a lifecycle hook failed, timed out, or rejected the operation; check the hook ''
     @ ''implementation''"
| "error_hint EcUnknown = ''the failure could not be classified; inspect the error detail or logs''"

record error_info =
  ei_code :: error_code
  ei_message :: string
  ei_provider :: "string option"
  ei_model :: "string option"
  ei_status :: "nat option"
  ei_retry_after_ms :: "nat option"
  ei_retryable :: bool
  ei_warnings :: "provider_warning list"

definition error_info_new :: "error_code \<Rightarrow> error_info" where
  "error_info_new code = \<lparr>ei_code = code, ei_message = error_message code, ei_provider = None, ei_model = None,
     ei_status = None, ei_retry_after_ms = None, ei_retryable = False, ei_warnings = []\<rparr>"

definition info_with_provider :: "string \<Rightarrow> string \<Rightarrow> error_info \<Rightarrow> error_info" where
  "info_with_provider provider model i = i\<lparr>ei_provider := Some provider, ei_model := Some model\<rparr>"

definition info_hint :: "error_info \<Rightarrow> string" where
  "info_hint i = error_hint (ei_code i)"

subsection \<open>Provider failures\<close>

datatype provider_error_kind =
    PkAuthentication
  | PkRateLimited
  | PkTimeout
  | PkTransport
  | PkServer
  | PkInvalidRequest
  | PkProtocol
  | PkSafety
  | PkUnknown
text \<open>The derived \<open>Debug\<close> text of a kind.\<close>

fun kind_debug :: "provider_error_kind \<Rightarrow> string" where
  "kind_debug PkAuthentication = ''Authentication''"
| "kind_debug PkRateLimited = ''RateLimited''"
| "kind_debug PkTimeout = ''Timeout''"
| "kind_debug PkTransport = ''Transport''"
| "kind_debug PkServer = ''Server''"
| "kind_debug PkInvalidRequest = ''InvalidRequest''"
| "kind_debug PkProtocol = ''Protocol''"
| "kind_debug PkSafety = ''Safety''"
| "kind_debug PkUnknown = ''Unknown''"

fun code_of_kind :: "provider_error_kind \<Rightarrow> error_code" where
  "code_of_kind PkAuthentication = EcProviderAuth"
| "code_of_kind PkRateLimited = EcProviderRateLimit"
| "code_of_kind PkTimeout = EcProviderTimeout"
| "code_of_kind PkTransport = EcProviderTransport"
| "code_of_kind PkServer = EcProviderServer"
| "code_of_kind PkInvalidRequest = EcProviderInvalidRequest"
| "code_of_kind PkProtocol = EcProviderProtocol"
| "code_of_kind PkSafety = EcProviderSafety"
| "code_of_kind PkUnknown = EcUnknown"

record provider_error =
  pe_provider :: string
  pe_model :: string
  pe_kind :: provider_error_kind
  pe_status :: "nat option"
  pe_retry_after_ms :: "nat option"
  pe_message :: string
  pe_warnings :: "provider_warning list"

definition provider_error_display :: "provider_error \<Rightarrow> string" where
  "provider_error_display e =
     pe_provider e @ '' provider error ('' @ kind_debug (pe_kind e)
     @ (case pe_status e of None \<Rightarrow> [] | Some status \<Rightarrow> '', HTTP '' @ show_nat status)
     @ '')''
     @ (if pe_model e = [] then [] else '' for model '' @ pe_model e)
     @ '': '' @ pe_message e
     @ (case pe_retry_after_ms e of None \<Rightarrow> [] | Some ms \<Rightarrow> ''; retry after '' @ show_nat ms @ '' ms'')
     @ ''; hint: '' @ error_hint (code_of_kind (pe_kind e))"

definition provider_error_new :: "string \<Rightarrow> string \<Rightarrow> provider_error_kind \<Rightarrow> string \<Rightarrow> provider_error" where
  "provider_error_new provider model kind message = \<lparr>pe_provider = provider, pe_model = model, pe_kind = kind,
     pe_status = None, pe_retry_after_ms = None, pe_message = message, pe_warnings = []\<rparr>"

definition http_kind :: "nat \<Rightarrow> provider_error_kind" where
  "http_kind status =
     (if status = 401 \<or> status = 403 then PkAuthentication
      else if status = 408 then PkTimeout
      else if status = 429 then PkRateLimited
      else if 500 \<le> status \<and> status \<le> 599 then PkServer
      else if 400 \<le> status \<and> status \<le> 499 then PkInvalidRequest
      else PkUnknown)"

definition from_http ::
  "string \<Rightarrow> string \<Rightarrow> nat \<Rightarrow> nat option \<Rightarrow> string \<Rightarrow> provider_error"
where
  "from_http provider model status retry_after_ms message = \<lparr>pe_provider = provider, pe_model = model,
     pe_kind = http_kind status, pe_status = Some status, pe_retry_after_ms = retry_after_ms,
     pe_message = message, pe_warnings = []\<rparr>"

definition with_warnings :: "provider_warning list \<Rightarrow> provider_error \<Rightarrow> provider_error" where
  "with_warnings warnings e =
     fold (\<lambda>w e. if w \<in> set (pe_warnings e) then e else e\<lparr>pe_warnings := pe_warnings e @ [w]\<rparr>) warnings e"

definition provider_retryable :: "provider_error \<Rightarrow> bool" where
  "provider_retryable e =
     (case pe_kind e of PkRateLimited \<Rightarrow> True | PkTimeout \<Rightarrow> True | PkTransport \<Rightarrow> True | PkServer \<Rightarrow> True
      | _ \<Rightarrow> False)"

definition info_of_provider :: "provider_error \<Rightarrow> error_info" where
  "info_of_provider e = (error_info_new (code_of_kind (pe_kind e)))
     \<lparr>ei_provider := Some (pe_provider e), ei_model := Some (pe_model e), ei_status := pe_status e,
      ei_retry_after_ms := pe_retry_after_ms e, ei_retryable := provider_retryable e,
      ei_warnings := pe_warnings e\<rparr>"

subsection \<open>The core error\<close>

datatype aikit_error =
    ProviderFailure provider_error
  | ProviderText string
  | ToolExecutionError string
  | PermissionDeniedError string
  | SandboxError string
  | ConfigurationError string
  | StructuredOutputError string
  | BudgetExceeded
  | SessionError string
  | ConflictError string
  | CancelledError string
  | MaxTurnsError
  | AuditError string
  | HookError string
  | OtherError string

definition provider_error_of :: "aikit_error \<Rightarrow> provider_error option" where
  "provider_error_of e = (case e of ProviderFailure p \<Rightarrow> Some p | _ \<Rightarrow> None)"

text \<open>The texts of the derived \<open>Display\<close>.\<close>

fun aikit_error_text :: "aikit_error \<Rightarrow> string" where
  "aikit_error_text (ProviderFailure e) = provider_error_display e"
| "aikit_error_text (ProviderText s) = ''provider error: '' @ s"
| "aikit_error_text (ToolExecutionError s) = ''tool execution error: '' @ s"
| "aikit_error_text (PermissionDeniedError s) = ''permission denied: '' @ s"
| "aikit_error_text (SandboxError s) = ''sandbox error: '' @ s"
| "aikit_error_text (ConfigurationError s) = ''configuration error: '' @ s"
| "aikit_error_text (StructuredOutputError s) = ''structured output error: '' @ s"
| "aikit_error_text BudgetExceeded =
     ''budget exceeded: a configured token, cost, model-call, or time limit was reached; raise ''
     @ ''the budget or reduce the requested work''"
| "aikit_error_text (SessionError s) = ''session error: '' @ s"
| "aikit_error_text (ConflictError s) = ''state conflict: '' @ s"
| "aikit_error_text (CancelledError s) = ''operation cancelled: '' @ s"
| "aikit_error_text MaxTurnsError =
     ''maximum agent turns exceeded: the agent loop reached max_turns before the model ''
     @ ''finished; raise max_turns or check for a tool call that repeats without progress''"
| "aikit_error_text (AuditError s) = ''audit error: '' @ s"
| "aikit_error_text (HookError s) = ''lifecycle hook error: '' @ s"
| "aikit_error_text (OtherError s) = s"

fun aikit_info :: "aikit_error \<Rightarrow> error_info" where
  "aikit_info (ProviderFailure e) = info_of_provider e"
| "aikit_info (ProviderText _) = error_info_new EcUnknown"
| "aikit_info (OtherError _) = error_info_new EcUnknown"
| "aikit_info (ToolExecutionError _) = error_info_new EcToolExecution"
| "aikit_info (PermissionDeniedError _) = error_info_new EcPermissionDenied"
| "aikit_info (SandboxError _) = error_info_new EcSandbox"
| "aikit_info (ConfigurationError _) = error_info_new EcConfiguration"
| "aikit_info (StructuredOutputError _) = error_info_new EcStructuredOutput"
| "aikit_info BudgetExceeded = error_info_new EcBudgetExceeded"
| "aikit_info (SessionError _) = error_info_new EcSession"
| "aikit_info (ConflictError _) = error_info_new EcConflict"
| "aikit_info (CancelledError _) = error_info_new EcCancelled"
| "aikit_info MaxTurnsError = error_info_new EcMaxTurns"
| "aikit_info (AuditError _) = error_info_new EcAudit"
| "aikit_info (HookError _) = error_info_new EcHook"

definition aikit_code :: "aikit_error \<Rightarrow> error_code" where
  "aikit_code e = (case e of ProviderFailure p \<Rightarrow> code_of_kind (pe_kind p) | other \<Rightarrow> ei_code (aikit_info other))"

definition aikit_hint :: "aikit_error \<Rightarrow> string" where
  "aikit_hint e = error_hint (aikit_code e)"

definition with_provider_warnings :: "provider_warning list \<Rightarrow> aikit_error \<Rightarrow> aikit_error" where
  "with_provider_warnings warnings e =
     (case e of ProviderFailure p \<Rightarrow> ProviderFailure (with_warnings warnings p) | other \<Rightarrow> other)"

subsection \<open>The envelope\<close>

lemma info_new_sel [simp]:
  "ei_code (error_info_new c) = c" "ei_message (error_info_new c) = error_message c"
  "ei_retryable (error_info_new c) = False" "ei_warnings (error_info_new c) = []"
  by (simp_all add: error_info_new_def)

text \<open>The code of an error is the code of its envelope, and the message of an envelope is the fixed
  text of its code.\<close>

lemma envelope_code: "aikit_code e = ei_code (aikit_info e)"
  by (cases e) (simp_all add: aikit_code_def info_of_provider_def)

lemma envelope_message: "ei_message (aikit_info e) = error_message (aikit_code e)"
  by (cases e) (simp_all add: aikit_code_def info_of_provider_def)

lemma envelope_retryable:
  "ei_retryable (aikit_info e) \<longleftrightarrow>
     aikit_code e \<in> {EcProviderRateLimit, EcProviderTimeout, EcProviderTransport, EcProviderServer}"
  by (cases e) (auto simp: aikit_code_def info_of_provider_def provider_retryable_def
      split: provider_error_kind.splits)

text \<open>The detail text of an error: everything that may hold a provider body or an argument.\<close>

fun erase_detail :: "aikit_error \<Rightarrow> aikit_error" where
  "erase_detail (ProviderFailure e) = ProviderFailure (e\<lparr>pe_message := []\<rparr>)"
| "erase_detail (ProviderText _) = ProviderText []"
| "erase_detail (ToolExecutionError _) = ToolExecutionError []"
| "erase_detail (PermissionDeniedError _) = PermissionDeniedError []"
| "erase_detail (SandboxError _) = SandboxError []"
| "erase_detail (ConfigurationError _) = ConfigurationError []"
| "erase_detail (StructuredOutputError _) = StructuredOutputError []"
| "erase_detail (SessionError _) = SessionError []"
| "erase_detail (ConflictError _) = ConflictError []"
| "erase_detail (CancelledError _) = CancelledError []"
| "erase_detail (AuditError _) = AuditError []"
| "erase_detail (HookError _) = HookError []"
| "erase_detail (OtherError _) = OtherError []"
| "erase_detail BudgetExceeded = BudgetExceeded"
| "erase_detail MaxTurnsError = MaxTurnsError"

lemma envelope_erased: "aikit_info (erase_detail e) = aikit_info e"
  by (cases e) (simp_all add: info_of_provider_def provider_retryable_def)

text \<open>Adding warnings keeps the classification, every old warning, and adds each new one once.\<close>

lemma with_warnings_kind [simp]:
  "pe_kind (with_warnings ws e) = pe_kind e" "pe_message (with_warnings ws e) = pe_message e"
  unfolding with_warnings_def by (induction ws arbitrary: e) auto

lemma with_warnings_set:
  "set (pe_warnings (with_warnings ws e)) = set (pe_warnings e) \<union> set ws
   \<and> (distinct (pe_warnings e) \<longrightarrow> distinct (pe_warnings (with_warnings ws e)))"
  unfolding with_warnings_def by (induction ws arbitrary: e) (auto)

text \<open>Which HTTP statuses may be retried.\<close>

lemma http_retryable:
  "provider_retryable (from_http p m status r t) \<longleftrightarrow> status \<in> {408, 429} \<union> {500..599}"
  by (auto simp: provider_retryable_def from_http_def http_kind_def)

end
