(* ===== verification/Budget.thy ===== *)
theory Budget
  imports DurTypes Errors
begin

text \<open>
  The budgets of \<open>budget.rs\<close>: the compatible \<open>BudgetTracker\<close> of one run, and the \<open>BudgetLedger\<close>
  that parallel model calls share. The ledger is behind a mutex, so an execution is a sequence of
  whole operations on a heap of ledgers; a reservation handle names its ledger by its address, as
  the weak pointer does, and its destructor is part of every operation that consumes it. The
  arithmetic of \<open>f64\<close> is a parameter (\<open>f64\_ops\<close>): no property depends on its rounding. Clock
  readings are arguments, in nanoseconds; the two readings of one check are taken as one.
\<close>

subsection \<open>Prices\<close>

record 'f f64_ops =
  f_of_u64 :: "nat \<Rightarrow> 'f"
  f_zero :: 'f
  f_million :: 'f
  f_add :: "'f \<Rightarrow> 'f \<Rightarrow> 'f"
  f_mul :: "'f \<Rightarrow> 'f \<Rightarrow> 'f"
  f_div :: "'f \<Rightarrow> 'f \<Rightarrow> 'f"
  f_ceil :: "'f \<Rightarrow> 'f"
  f_less :: "'f \<Rightarrow> 'f \<Rightarrow> bool"
  f_is_finite :: "'f \<Rightarrow> bool"
  f_to_u64 :: "'f \<Rightarrow> nat"

record 'f model_pricing =
  mp_input :: 'f
  mp_output :: 'f
  mp_cache_read :: "'f option"
  mp_cache_write :: "'f option"

definition bad_rate :: "'f f64_ops \<Rightarrow> 'f option \<Rightarrow> bool" where
  "bad_rate F rate = (case rate of None \<Rightarrow> False | Some v \<Rightarrow> \<not> f_is_finite F v \<or> f_less F v (f_zero F))"

definition pricing_validate :: "'f f64_ops \<Rightarrow> 'f model_pricing \<Rightarrow> aikit_error + unit" where
  "pricing_validate F p =
     (case List.find (\<lambda>nr. bad_rate F (snd nr))
         [(''input_per_million_usd'', Some (mp_input p)), (''output_per_million_usd'', Some (mp_output p)),
          (''cache_read_per_million_usd'', mp_cache_read p), (''cache_write_per_million_usd'', mp_cache_write p)] of
        Some nr \<Rightarrow> Inl (OtherError (fst nr @ '' must be finite and non-negative''))
      | None \<Rightarrow> Inr ())"

definition usage_zero :: usage where
  "usage_zero = \<lparr>input_tokens = 0, output_tokens = 0, cache_creation_input_tokens = 0,
     cache_read_input_tokens = 0, reasoning_tokens = 0\<rparr>"

text \<open>The price of some tokens at a rate per million, and the sum both cost functions form.\<close>

definition priced :: "'f f64_ops \<Rightarrow> nat \<Rightarrow> 'f \<Rightarrow> 'f" where
  "priced F tokens rate = f_div F (f_mul F (f_of_u64 F tokens) rate) (f_million F)"

definition usage_cost :: "'f f64_ops \<Rightarrow> 'f model_pricing \<Rightarrow> usage \<Rightarrow> 'f" where
  "usage_cost F p u =
     (let input = saturating_sub (input_tokens u) (cache_read_input_tokens u);
          cost = priced F input (mp_input p);
          cost = f_add F cost (priced F (output_tokens u) (mp_output p));
          cost = f_add F cost (priced F (cache_read_input_tokens u)
                   (case mp_cache_read p of Some r \<Rightarrow> r | None \<Rightarrow> mp_input p))
      in f_add F cost (priced F (cache_creation_input_tokens u)
           (case mp_cache_write p of Some r \<Rightarrow> r | None \<Rightarrow> mp_input p)))"

subsection \<open>The tracker of one run\<close>

record 'f budget_policy =
  bp_max_total_tokens :: "nat option"
  bp_max_cost_usd :: "'f option"
  bp_pricing :: "'f model_pricing option"

definition token_limit :: "nat \<Rightarrow> 'f budget_policy" where
  "token_limit n = \<lparr>bp_max_total_tokens = Some n, bp_max_cost_usd = None, bp_pricing = None\<rparr>"

definition cost_limit :: "'f \<Rightarrow> 'f model_pricing \<Rightarrow> 'f budget_policy" where
  "cost_limit c p = \<lparr>bp_max_total_tokens = None, bp_max_cost_usd = Some c, bp_pricing = Some p\<rparr>"

definition budget_policy_validate :: "'f f64_ops \<Rightarrow> 'f budget_policy \<Rightarrow> aikit_error + unit" where
  "budget_policy_validate F p =
     (if bad_rate F (bp_max_cost_usd p)
      then Inl (OtherError ''max_cost_usd must be finite and non-negative'')
      else if bp_max_cost_usd p \<noteq> None \<and> bp_pricing p = None then Inl BudgetExceeded
      else case bp_pricing p of None \<Rightarrow> Inr () | Some pr \<Rightarrow> pricing_validate F pr)"

record 'f budget_snapshot =
  bs_usage :: usage
  bs_estimated_cost_usd :: 'f

record 'f budget_tracker =
  bt_policy :: "'f budget_policy"
  bt_snapshot :: "'f budget_snapshot"

definition tracker_new :: "'f f64_ops \<Rightarrow> 'f budget_policy \<Rightarrow> aikit_error + 'f budget_tracker" where
  "tracker_new F p = bindR (budget_policy_validate F p) (\<lambda>_.
     Inr \<lparr>bt_policy = p, bt_snapshot = \<lparr>bs_usage = usage_zero, bs_estimated_cost_usd = f_zero F\<rparr>\<rparr>)"

definition add_usage :: "usage \<Rightarrow> usage \<Rightarrow> usage" where
  "add_usage acc part =
     \<lparr>input_tokens = saturating_add (input_tokens acc) (input_tokens part),
      output_tokens = saturating_add (output_tokens acc) (output_tokens part),
      cache_creation_input_tokens =
        saturating_add (cache_creation_input_tokens acc) (cache_creation_input_tokens part),
      cache_read_input_tokens = saturating_add (cache_read_input_tokens acc) (cache_read_input_tokens part),
      reasoning_tokens = saturating_add (reasoning_tokens acc) (reasoning_tokens part)\<rparr>"

definition estimate_cost :: "'f f64_ops \<Rightarrow> 'f budget_policy \<Rightarrow> usage \<Rightarrow> 'f" where
  "estimate_cost F p u = (case bp_pricing p of None \<Rightarrow> f_zero F | Some pr \<Rightarrow> usage_cost F pr u)"

text \<open>The new snapshot is stored whether or not the limits hold.\<close>

definition tracker_record ::
  "'f f64_ops \<Rightarrow> usage \<Rightarrow> 'f budget_tracker \<Rightarrow> (aikit_error + 'f budget_snapshot) \<times> 'f budget_tracker"
where
  "tracker_record F part t =
     (let u = add_usage (bs_usage (bt_snapshot t)) part;
          s = \<lparr>bs_usage = u, bs_estimated_cost_usd = estimate_cost F (bt_policy t) u\<rparr>;
          t' = t\<lparr>bt_snapshot := s\<rparr>;
          sum = saturating_add (input_tokens u) (output_tokens u)
      in if (case bp_max_total_tokens (bt_policy t) of None \<Rightarrow> False | Some limit \<Rightarrow> sum > limit)
         then (Inl BudgetExceeded, t')
         else if (case bp_max_cost_usd (bt_policy t) of None \<Rightarrow> False
                  | Some limit \<Rightarrow> f_less F limit (bs_estimated_cost_usd s))
         then (Inl BudgetExceeded, t')
         else (Inr s, t'))"

subsection \<open>The shared ledger\<close>

record budget_limits =
  bl_max_model_calls :: "nat option"
  bl_max_input_tokens :: "nat option"
  bl_max_output_tokens :: "nat option"
  bl_max_cost_micro_usd :: "nat option"
  bl_wall_time_ms :: "nat option"

datatype ledger_error =
    UnknownPricing
  | InvalidBudget string
  | Exceeded string nat nat
  | LockPoisoned
  | InvalidReservation

datatype billing = ChargeUsage | NoCharge

record ledger_snapshot =
  sn_committed_model_calls :: nat
  sn_committed_input_tokens :: nat
  sn_committed_output_tokens :: nat
  sn_committed_cost_micro_usd :: nat
  sn_reserved_model_calls :: nat
  sn_reserved_input_tokens :: nat
  sn_reserved_output_tokens :: nat
  sn_reserved_cost_micro_usd :: nat
  sn_elapsed_ms :: nat

record 'f reservation_values =
  rv_input :: nat
  rv_output :: nat
  rv_cost :: nat
  rv_pricing :: "'f model_pricing option"

datatype reservation_state = Reserved | Started | Reconciled

record 'f reservation_entry =
  re_values :: "'f reservation_values"
  re_state :: reservation_state

text \<open>The hash map of reservations, in the order in which it happens to be iterated.\<close>

record 'f ledger_state =
  ls_next_id :: nat
  ls_calls :: nat
  ls_input :: nat
  ls_output :: nat
  ls_cost :: nat
  ls_reservations :: "(nat \<times> 'f reservation_entry) list"

record 'f ledger =
  lg_limits :: budget_limits
  lg_started :: nat
  lg_deadline :: "nat option"
  lg_poisoned :: bool
  lg_state :: "'f ledger_state"

text \<open>The ledgers that are alive, by address.\<close>

type_synonym 'f ledgers = "nat \<Rightarrow> 'f ledger option"

record reservation =
  rs_id :: nat
  rs_owner :: nat
  rs_handle_state :: reservation_state

definition map_put :: "nat \<Rightarrow> 'v \<Rightarrow> (nat \<times> 'v) list \<Rightarrow> (nat \<times> 'v) list" where
  "map_put k v m = (k, v) # filter (\<lambda>e. fst e \<noteq> k) m"

definition map_del :: "nat \<Rightarrow> (nat \<times> 'v) list \<Rightarrow> (nat \<times> 'v) list" where
  "map_del k m = filter (\<lambda>e. fst e \<noteq> k) m"

definition ledger_state_empty :: "'f ledger_state" where
  "ledger_state_empty = \<lparr>ls_next_id = 0, ls_calls = 0, ls_input = 0, ls_output = 0, ls_cost = 0, ls_reservations = []\<rparr>"

text \<open>\<open>Instant::checked\_add\<close> fails beyond the largest instant of the platform, a parameter.\<close>

definition ledger_new :: "nat \<Rightarrow> nat \<Rightarrow> budget_limits \<Rightarrow> ledger_error + 'f ledger" where
  "ledger_new instant_max now limits =
     (if bl_max_model_calls limits = Some 0 then Inl (InvalidBudget ''max_model_calls must be greater than zero'')
      else bindR (case bl_wall_time_ms limits of None \<Rightarrow> Inr None
                  | Some ms \<Rightarrow> if now + ms * 1000000 \<le> instant_max then Inr (Some (now + ms * 1000000))
                              else Inl (InvalidBudget ''wall_time_ms is too large'')) (\<lambda>deadline.
        Inr \<lparr>lg_limits = limits, lg_started = now, lg_deadline = deadline, lg_poisoned = False,
             lg_state = ledger_state_empty\<rparr>))"

definition elapsed_ms :: "nat \<Rightarrow> 'f ledger \<Rightarrow> nat" where
  "elapsed_ms now l = min ((now - lg_started l) div 1000000) u64_max"

definition check_wall_time :: "nat \<Rightarrow> 'f ledger \<Rightarrow> ledger_error + unit" where
  "check_wall_time now l =
     (if (case lg_deadline l of None \<Rightarrow> False | Some d \<Rightarrow> now \<ge> d)
      then Inl (Exceeded ''wall_time_ms'' (case bl_wall_time_ms (lg_limits l) of Some m \<Rightarrow> m | None \<Rightarrow> 0)
                  (elapsed_ms now l))
      else Inr ())"

definition reservation_totals :: "'f ledger_state \<Rightarrow> nat \<times> nat \<times> nat \<times> nat" where
  "reservation_totals st =
     foldl (\<lambda>(calls, input, output, cost) e.
         (saturating_add calls 1, saturating_add input (rv_input (re_values e)),
          saturating_add output (rv_output (re_values e)), saturating_add cost (rv_cost (re_values e))))
       (0, 0, 0, 0) (map snd (ls_reservations st))"

definition commit_reserved :: "'f reservation_values \<Rightarrow> 'f ledger_state \<Rightarrow> 'f ledger_state" where
  "commit_reserved v st = st\<lparr>ls_calls := saturating_add (ls_calls st) 1,
     ls_input := saturating_add (ls_input st) (rv_input v),
     ls_output := saturating_add (ls_output st) (rv_output v),
     ls_cost := saturating_add (ls_cost st) (rv_cost v)\<rparr>"

definition check_limit :: "string \<Rightarrow> nat option \<Rightarrow> nat \<Rightarrow> ledger_error + unit" where
  "check_limit resource limit requested =
     (case limit of None \<Rightarrow> Inr ()
      | Some m \<Rightarrow> if requested > m then Inl (Exceeded resource m requested) else Inr ())"

definition cost_micro_usd :: "'f f64_ops \<Rightarrow> 'f model_pricing \<Rightarrow> usage \<Rightarrow> ledger_error + nat" where
  "cost_micro_usd F p u =
     bindR (map_err (\<lambda>e. InvalidBudget (aikit_error_text e)) (pricing_validate F p)) (\<lambda>_.
       let micro = f_ceil F (f_mul F (usage_cost F p u) (f_million F)) in
       if \<not> f_is_finite F micro \<or> f_less F (f_of_u64 F u64_max) micro
       then Inl (InvalidBudget ''estimated cost exceeds supported range'')
       else Inr (f_to_u64 F micro))"

definition ledger_snapshot_of :: "nat \<Rightarrow> 'f ledger \<Rightarrow> ledger_snapshot" where
  "ledger_snapshot_of now l =
     (let st = lg_state l; (calls, input, output, cost) = reservation_totals st in
      \<lparr>sn_committed_model_calls = ls_calls st, sn_committed_input_tokens = ls_input st,
       sn_committed_output_tokens = ls_output st, sn_committed_cost_micro_usd = ls_cost st,
       sn_reserved_model_calls = calls, sn_reserved_input_tokens = input,
       sn_reserved_output_tokens = output, sn_reserved_cost_micro_usd = cost,
       sn_elapsed_ms = elapsed_ms now l\<rparr>)"

definition ledger_read :: "nat \<Rightarrow> 'f ledger \<Rightarrow> ledger_error + ledger_snapshot" where
  "ledger_read now l =
     bindR (check_wall_time now l) (\<lambda>_.
       if lg_poisoned l then Inl LockPoisoned else Inr (ledger_snapshot_of now l))"


subsection \<open>Operations on the heap of ledgers\<close>

definition put_state :: "nat \<Rightarrow> 'f ledger_state \<Rightarrow> 'f ledgers \<Rightarrow> 'f ledgers" where
  "put_state a st w = (case w a of None \<Rightarrow> w | Some l \<Rightarrow> w(a \<mapsto> l\<lparr>lg_state := st\<rparr>))"

definition reserved_cost ::
  "'f f64_ops \<Rightarrow> budget_limits \<Rightarrow> 'f model_pricing option \<Rightarrow> nat \<Rightarrow> nat \<Rightarrow> ledger_error + nat"
where
  "reserved_cost F limits pricing input output =
     (case (bl_max_cost_micro_usd limits, pricing) of
        (Some _, None) \<Rightarrow> Inl UnknownPricing
      | (_, Some p) \<Rightarrow> cost_micro_usd F p (usage_zero\<lparr>input_tokens := input, output_tokens := output\<rparr>)
      | (None, None) \<Rightarrow> Inr 0)"

text \<open>The four checks of a reservation against what is committed and reserved already.\<close>

definition check_reservation :: "budget_limits \<Rightarrow> 'f ledger_state \<Rightarrow> nat \<Rightarrow> nat \<Rightarrow> nat \<Rightarrow> ledger_error + unit" where
  "check_reservation limits st input output cost =
     (let (r_calls, r_input, r_output, r_cost) = reservation_totals st in
      bindR (check_limit ''model_calls'' (bl_max_model_calls limits)
               (saturating_add (saturating_add (ls_calls st) r_calls) 1)) (\<lambda>_.
      bindR (check_limit ''input_tokens'' (bl_max_input_tokens limits)
               (saturating_add (saturating_add (ls_input st) r_input) input)) (\<lambda>_.
      bindR (check_limit ''output_tokens'' (bl_max_output_tokens limits)
               (saturating_add (saturating_add (ls_output st) r_output) output)) (\<lambda>_.
      check_limit ''cost_micro_usd'' (bl_max_cost_micro_usd limits)
               (saturating_add (saturating_add (ls_cost st) r_cost) cost)))))"

definition reserve_model_call ::
  "'f f64_ops \<Rightarrow> nat \<Rightarrow> nat \<Rightarrow> 'f model_pricing option \<Rightarrow> nat \<Rightarrow> nat \<Rightarrow> 'f ledger \<Rightarrow> 'f ledgers
    \<Rightarrow> (ledger_error + reservation) \<times> 'f ledgers"
where
  "reserve_model_call F now self pricing input output l w =
     (case bindR (check_wall_time now l) (\<lambda>_. reserved_cost F (lg_limits l) pricing input output) of
        Inl e \<Rightarrow> (Inl e, w)
      | Inr cost \<Rightarrow>
          if lg_poisoned l then (Inl LockPoisoned, w)
          else case check_reservation (lg_limits l) (lg_state l) input output cost of
            Inl e \<Rightarrow> (Inl e, w)
          | Inr _ \<Rightarrow>
              let st = lg_state l; rid = saturating_add (ls_next_id st) 1;
                  entry = \<lparr>re_values = \<lparr>rv_input = input, rv_output = output, rv_cost = cost, rv_pricing = pricing\<rparr>,
                           re_state = Reserved\<rparr>
              in (Inr \<lparr>rs_id = rid, rs_owner = self, rs_handle_state = Reserved\<rparr>,
                  put_state self (st\<lparr>ls_next_id := rid,
                    ls_reservations := map_put rid entry (ls_reservations st)\<rparr>) w))"

definition mark_started ::
  "reservation \<Rightarrow> 'f ledgers \<Rightarrow> (ledger_error + unit) \<times> reservation \<times> 'f ledgers"
where
  "mark_started h w =
     (if rs_handle_state h \<noteq> Reserved then (Inl InvalidReservation, h, w)
      else case w (rs_owner h) of
        None \<Rightarrow> (Inl InvalidReservation, h, w)
      | Some l \<Rightarrow>
          if lg_poisoned l then (Inl LockPoisoned, h, w)
          else case map_of (ls_reservations (lg_state l)) (rs_id h) of
            None \<Rightarrow> (Inl InvalidReservation, h, w)
          | Some e \<Rightarrow>
              if re_state e \<noteq> Reserved then (Inl InvalidReservation, h, w)
              else (Inr (), h\<lparr>rs_handle_state := Started\<rparr>,
                    put_state (rs_owner h) ((lg_state l)\<lparr>ls_reservations :=
                      map_put (rs_id h) (e\<lparr>re_state := Started\<rparr>) (ls_reservations (lg_state l))\<rparr>) w))"

text \<open>\<open>Drop for BudgetReservation\<close>.\<close>

definition drop_reservation :: "reservation \<Rightarrow> 'f ledgers \<Rightarrow> 'f ledgers" where
  "drop_reservation h w =
     (if rs_handle_state h = Reconciled then w
      else case w (rs_owner h) of
        None \<Rightarrow> w
      | Some l \<Rightarrow>
          if lg_poisoned l then w
          else case map_of (ls_reservations (lg_state l)) (rs_id h) of
            None \<Rightarrow> w
          | Some e \<Rightarrow>
              let st = (lg_state l)\<lparr>ls_reservations := map_del (rs_id h) (ls_reservations (lg_state l))\<rparr>
              in put_state (rs_owner h) (if re_state e = Started then commit_reserved (re_values e) st else st) w)"

definition exact_cost :: "'f f64_ops \<Rightarrow> billing \<Rightarrow> 'f reservation_values \<Rightarrow> usage \<Rightarrow> ledger_error + nat" where
  "exact_cost F disposition v u =
     (case disposition of
        NoCharge \<Rightarrow> Inr 0
      | ChargeUsage \<Rightarrow> (case rv_pricing v of None \<Rightarrow> Inr 0 | Some p \<Rightarrow> cost_micro_usd F p u))"

definition settle :: "nat \<Rightarrow> billing \<Rightarrow> usage \<Rightarrow> nat \<Rightarrow> 'f ledger_state \<Rightarrow> 'f ledger_state" where
  "settle i disposition u cost st =
     (let st = st\<lparr>ls_reservations := map_del i (ls_reservations st),
                  ls_calls := saturating_add (ls_calls st) 1\<rparr>
      in case disposition of
           NoCharge \<Rightarrow> st
         | ChargeUsage \<Rightarrow> st\<lparr>ls_input := saturating_add (ls_input st) (input_tokens u),
                             ls_output := saturating_add (ls_output st) (output_tokens u),
                             ls_cost := saturating_add (ls_cost st) cost\<rparr>)"

definition check_committed :: "budget_limits \<Rightarrow> 'f ledger_state \<Rightarrow> ledger_error + unit" where
  "check_committed limits st =
     bindR (check_limit ''model_calls'' (bl_max_model_calls limits) (ls_calls st)) (\<lambda>_.
     bindR (check_limit ''input_tokens'' (bl_max_input_tokens limits) (ls_input st)) (\<lambda>_.
     bindR (check_limit ''output_tokens'' (bl_max_output_tokens limits) (ls_output st)) (\<lambda>_.
     check_limit ''cost_micro_usd'' (bl_max_cost_micro_usd limits) (ls_cost st))))"

text \<open>The handle is consumed: on every early return its destructor runs after the lock is
  released; once the reservation is settled the handle is marked and its destructor does
  nothing.\<close>

definition reconcile ::
  "'f f64_ops \<Rightarrow> nat \<Rightarrow> nat \<Rightarrow> reservation \<Rightarrow> usage option \<Rightarrow> billing \<Rightarrow> 'f ledgers
    \<Rightarrow> (ledger_error + ledger_snapshot) \<times> 'f ledgers"
where
  "reconcile F now self h usage disposition w =
     (case w (rs_owner h) of
        None \<Rightarrow> (Inl InvalidReservation, drop_reservation h w)
      | Some l \<Rightarrow>
          if rs_owner h \<noteq> self \<or> rs_handle_state h \<noteq> Started then (Inl InvalidReservation, drop_reservation h w)
          else if lg_poisoned l then (Inl LockPoisoned, drop_reservation h w)
          else case map_of (ls_reservations (lg_state l)) (rs_id h) of
            None \<Rightarrow> (Inl InvalidReservation, drop_reservation h w)
          | Some e \<Rightarrow>
              if re_state e \<noteq> Started then (Inl InvalidReservation, drop_reservation h w)
              else let u = (case usage of Some u \<Rightarrow> u | None \<Rightarrow> usage_zero) in
                case exact_cost F disposition (re_values e) u of
                  Inl err \<Rightarrow> (Inl err, drop_reservation h w)
                | Inr cost \<Rightarrow>
                    let st = settle (rs_id h) disposition u cost (lg_state l) in
                    (bindR (check_committed (lg_limits l) st) (\<lambda>_.
                       Inr (ledger_snapshot_of now (l\<lparr>lg_state := st\<rparr>))),
                     put_state self st w))"


subsection \<open>Totals\<close>

text \<open>The reservation of one resource in the ledger, as an exact sum.\<close>

definition reserved_sum :: "('f reservation_values \<Rightarrow> nat) \<Rightarrow> 'f ledger_state \<Rightarrow> nat" where
  "reserved_sum g st = sum_list (map (\<lambda>e. g (re_values (snd e))) (ls_reservations st))"

lemma saturating_fold: "foldl (\<lambda>acc x. saturating_add acc (g x)) (min a u64_max) xs = min (a + sum_list (map g xs)) u64_max"
proof (induction xs arbitrary: a)
  case (Cons x xs)
  have "saturating_add (min a u64_max) (g x) = min (a + g x) u64_max" by (simp add: saturating_add_def)
  with Cons [of "a + g x"] show ?case by (simp add: add.assoc)
qed simp

lemma totals_fold:
  "foldl (\<lambda>(c, i, out, cost) e.
       (saturating_add c 1, saturating_add i (rv_input (re_values e)),
        saturating_add out (rv_output (re_values e)), saturating_add cost (rv_cost (re_values e)))) (c, i, out, cost) es =
   (foldl (\<lambda>acc e. saturating_add acc 1) c es, foldl (\<lambda>acc e. saturating_add acc (rv_input (re_values e))) i es,
    foldl (\<lambda>acc e. saturating_add acc (rv_output (re_values e))) out es,
    foldl (\<lambda>acc e. saturating_add acc (rv_cost (re_values e))) cost es)"
  by (induction es arbitrary: c i out cost) simp_all

lemma reservation_totals_eq:
  "reservation_totals st = (min (reserved_sum (\<lambda>_. 1) st) u64_max, min (reserved_sum rv_input st) u64_max,
     min (reserved_sum rv_output st) u64_max, min (reserved_sum rv_cost st) u64_max)"
  unfolding reservation_totals_def totals_fold
  using saturating_fold [of _ 0 "map snd (ls_reservations st)"] by (simp add: reserved_sum_def comp_def)

subsection \<open>Executions\<close>

text \<open>A charge that stays within its reservation, for the resource \<open>g\<close> of which \<open>u\<close> is charged.\<close>

definition within_reservation :: "'f f64_ops \<Rightarrow> reservation \<Rightarrow> usage option \<Rightarrow> billing \<Rightarrow> 'f ledgers \<Rightarrow> bool" where
  "within_reservation F h usage disposition w =
     (case w (rs_owner h) of None \<Rightarrow> True
      | Some l \<Rightarrow> (case map_of (ls_reservations (lg_state l)) (rs_id h) of None \<Rightarrow> True
          | Some e \<Rightarrow> disposition = NoCharge \<or>
              (let u = (case usage of Some u \<Rightarrow> u | None \<Rightarrow> usage_zero); v = re_values e in
               input_tokens u \<le> rv_input v \<and> output_tokens u \<le> rv_output v
               \<and> (case exact_cost F disposition v u of Inl _ \<Rightarrow> True | Inr c \<Rightarrow> c \<le> rv_cost v))))"

text \<open>One atomic operation of any client on any ledger; handles are arbitrary, so that stale,
  foreign and copied ones are covered. With the flag set every reported usage stays within its
  reservation. Ledgers can be dropped, and a lock can be poisoned.\<close>

inductive ledger_step :: "'f f64_ops \<Rightarrow> bool \<Rightarrow> 'f ledgers \<Rightarrow> 'f ledgers \<Rightarrow> bool" for F honest w where
  create: "ledger_new instant_max now limits = Inr l \<Longrightarrow> w a = None \<Longrightarrow> ledger_step F honest w (w(a \<mapsto> l))"
| destroy: "ledger_step F honest w (w(a := None))"
| poison: "w a = Some l \<Longrightarrow> ledger_step F honest w (w(a \<mapsto> l\<lparr>lg_poisoned := True\<rparr>))"
| reserve: "w a = Some l \<Longrightarrow> reserve_model_call F now a pricing input output l w = (r, w') \<Longrightarrow> ledger_step F honest w w'"
| start: "mark_started h w = (s, h', w') \<Longrightarrow> ledger_step F honest w w'"
| drop: "ledger_step F honest w (drop_reservation h w)"
| reconcile: "reconcile F now a h usage disposition w = (rs, w') \<Longrightarrow>
    (honest \<longrightarrow> within_reservation F h usage disposition w) \<Longrightarrow> ledger_step F honest w w'"

inductive ledger_reach :: "'f f64_ops \<Rightarrow> bool \<Rightarrow> 'f ledgers \<Rightarrow> bool" for F honest where
  empty: "ledger_reach F honest (\<lambda>_. None)"
| step: "ledger_reach F honest w \<Longrightarrow> ledger_step F honest w w' \<Longrightarrow> ledger_reach F honest w'"

text \<open>What is committed and reserved of a resource stays within its limit. The largest limit is
  no limit, since the counters saturate there.\<close>

definition fits :: "nat option \<Rightarrow> nat \<Rightarrow> nat \<Rightarrow> bool" where
  "fits limit committed reserved = (case limit of None \<Rightarrow> True | Some m \<Rightarrow> m \<ge> u64_max \<or> committed + reserved \<le> m)"

text \<open>A resource of the ledger: its limit, its committed amount, its share of a reservation, what
  a settlement charges.\<close>

locale resource =
  fixes limit :: "budget_limits \<Rightarrow> nat option"
    and committed :: "'f ledger_state \<Rightarrow> nat"
    and share :: "'f reservation_values \<Rightarrow> nat"
    and charge :: "billing \<Rightarrow> usage \<Rightarrow> nat \<Rightarrow> nat"
    and needs_honesty :: bool
  assumes committed_reservations: "committed (st\<lparr>ls_reservations := m\<rparr>) = committed st"
    and committed_next_id: "committed (st\<lparr>ls_next_id := n\<rparr>) = committed st"
    and committed_commit: "committed (commit_reserved v st) \<le> committed st + share v"
    and committed_settle: "committed (settle i d u c st) \<le> committed st + charge d u c"
    and committed_empty: "committed ledger_state_empty = 0"
    and charge_honest: "(needs_honesty \<Longrightarrow> d = NoCharge \<or> input_tokens u \<le> rv_input v \<and> output_tokens u \<le> rv_output v
          \<and> c \<le> rv_cost v) \<Longrightarrow> charge d u c \<le> share v"
    and check_fits: "check_reservation l st x y c = Inr () \<Longrightarrow>
          fits (limit l) (committed st) (reserved_sum share st + share \<lparr>rv_input = x, rv_output = y, rv_cost = c, rv_pricing = p\<rparr>)"
begin

definition budget_ok :: "'f ledger \<Rightarrow> bool" where
  "budget_ok l = fits (limit (lg_limits l)) (committed (lg_state l)) (reserved_sum share (lg_state l))"

lemma fits_mono: "fits m a b \<Longrightarrow> a' + b' \<le> a + b \<Longrightarrow> fits m a' b'"
  by (auto simp: fits_def split: option.splits)

lemma reserved_sum_del:
  "map_of (ls_reservations st) i = Some e \<Longrightarrow>
    reserved_sum share (st\<lparr>ls_reservations := map_del i (ls_reservations st)\<rparr>) + share (re_values e) \<le> reserved_sum share st"
proof -
  have "map_of m i = Some e \<Longrightarrow> sum_list (map (\<lambda>e. share (re_values (snd e))) (map_del i m)) + share (re_values e)
      \<le> sum_list (map (\<lambda>e. share (re_values (snd e))) m)" for m :: "(nat \<times> 'f reservation_entry) list"
  proof (induction m)
    case (Cons x m)
    show ?case
    proof (cases "fst x = i")
      case True
      have "sum_list (map (\<lambda>e. share (re_values (snd e))) (map_del i m)) \<le> sum_list (map (\<lambda>e. share (re_values (snd e))) m)"
        by (simp add: map_del_def sum_list_filter_le_nat)
      with True Cons.prems show ?thesis by (cases x) (simp add: map_del_def)
    next
      case False
      with Cons show ?thesis by (cases x) (simp add: map_del_def)
    qed
  qed simp
  then show "map_of (ls_reservations st) i = Some e \<Longrightarrow>
    reserved_sum share (st\<lparr>ls_reservations := map_del i (ls_reservations st)\<rparr>) + share (re_values e) \<le> reserved_sum share st"
    by (simp add: reserved_sum_def)
qed

lemma reserved_sum_put:
  "reserved_sum share (st\<lparr>ls_reservations := map_put i e m\<rparr>) =
     share (re_values e) + reserved_sum share (st\<lparr>ls_reservations := map_del i m\<rparr>)"
  by (simp add: reserved_sum_def map_put_def map_del_def)

lemma reserved_sum_del_le:
  "reserved_sum share (st\<lparr>ls_reservations := map_del i (ls_reservations st)\<rparr>) \<le> reserved_sum share st"
  by (simp add: reserved_sum_def map_del_def sum_list_filter_le_nat)

text \<open>Every operation keeps the budget of every ledger.\<close>

definition all_ok :: "'f ledgers \<Rightarrow> bool" where
  "all_ok w \<longleftrightarrow> (\<forall>a l. w a = Some l \<longrightarrow> budget_ok l)"

lemma all_okD: "all_ok w \<Longrightarrow> w a = Some l \<Longrightarrow> budget_ok l"
  by (simp add: all_ok_def)

lemma all_ok_put: "all_ok w \<Longrightarrow> (\<And>l. w a = Some l \<Longrightarrow> budget_ok (l\<lparr>lg_state := st\<rparr>)) \<Longrightarrow> all_ok (put_state a st w)"
  by (auto simp: all_ok_def put_state_def split: option.splits)

lemma ok_reserve:
  assumes "all_ok w" and "w a = Some l" and "reserve_model_call F now a pricing x y l w = (r, w')"
  shows "all_ok w'"
proof (cases "w' = w")
  case False
  with assms(3) obtain c where c: "check_reservation (lg_limits l) (lg_state l) x y c = Inr ()"
    and w': "w' = put_state a ((lg_state l)\<lparr>ls_next_id := saturating_add (ls_next_id (lg_state l)) 1,
        ls_reservations := map_put (saturating_add (ls_next_id (lg_state l)) 1)
          \<lparr>re_values = \<lparr>rv_input = x, rv_output = y, rv_cost = c, rv_pricing = pricing\<rparr>, re_state = Reserved\<rparr>
          (ls_reservations (lg_state l))\<rparr>) w"
    by (auto simp: reserve_model_call_def Let_def split: sum.splits if_splits)
  let ?st = "lg_state l" and ?i = "saturating_add (ls_next_id (lg_state l)) 1"
  let ?v = "\<lparr>rv_input = x, rv_output = y, rv_cost = c, rv_pricing = pricing\<rparr>"
  let ?e = "\<lparr>re_values = ?v, re_state = Reserved\<rparr>"
  have "reserved_sum share (?st\<lparr>ls_next_id := ?i, ls_reservations := map_put ?i ?e (ls_reservations ?st)\<rparr>)
      = share ?v + reserved_sum share (?st\<lparr>ls_reservations := map_del ?i (ls_reservations ?st)\<rparr>)"
    by (simp add: reserved_sum_def map_put_def map_del_def)
  also have "\<dots> \<le> share ?v + reserved_sum share ?st" using reserved_sum_del_le by simp
  finally show ?thesis
    unfolding w' using assms(1,2) check_fits [OF c, of pricing]
    by (intro all_ok_put) (auto simp: budget_ok_def committed_reservations committed_next_id elim!: fits_mono)
qed (use assms in simp)

lemma ok_start: "all_ok w \<Longrightarrow> mark_started h w = (s, h', w') \<Longrightarrow> all_ok w'"
proof (cases "w' = w")
  case False
  assume ok: "all_ok w" and m: "mark_started h w = (s, h', w')"
  from m False obtain l e where l: "w (rs_owner h) = Some l"
    and e: "map_of (ls_reservations (lg_state l)) (rs_id h) = Some e"
    and w': "w' = put_state (rs_owner h) ((lg_state l)\<lparr>ls_reservations :=
        map_put (rs_id h) (e\<lparr>re_state := Started\<rparr>) (ls_reservations (lg_state l))\<rparr>) w"
    by (auto simp: mark_started_def split: option.splits if_splits)
  show ?thesis
    unfolding w' using ok all_okD [OF ok l] l reserved_sum_del [OF e]
    by (intro all_ok_put) (auto simp: budget_ok_def committed_reservations reserved_sum_put elim!: fits_mono)
qed simp

lemma ok_drop:
  assumes "all_ok w"
  shows "all_ok (drop_reservation h w)"
proof (cases "drop_reservation h w = w")
  case False
  let ?del = "\<lambda>l. (lg_state l)\<lparr>ls_reservations := map_del (rs_id h) (ls_reservations (lg_state l))\<rparr>"
  from False obtain l e where l: "w (rs_owner h) = Some l"
    and e: "map_of (ls_reservations (lg_state l)) (rs_id h) = Some e"
    and w': "drop_reservation h w = put_state (rs_owner h)
        (if re_state e = Started then commit_reserved (re_values e) (?del l) else ?del l) w"
    by (auto simp: drop_reservation_def Let_def split: option.splits if_splits)
  have same: "reserved_sum share (commit_reserved v st) = reserved_sum share st" for v st
    by (simp add: reserved_sum_def commit_reserved_def)
  from reserved_sum_del [OF e] committed_commit [of "re_values e" "?del l"] show ?thesis
    unfolding w' using assms all_okD [OF assms l] l
    by (intro all_ok_put) (auto simp: budget_ok_def committed_reservations same elim!: fits_mono)
qed (use assms in simp)

lemma ok_reconcile:
  assumes "all_ok w" and "reconcile F now a h usage d w = (r, w')"
    and "needs_honesty \<Longrightarrow> within_reservation F h usage d w"
  shows "all_ok w'"
proof (cases "w' = drop_reservation h w")
  case False
  let ?u = "case usage of Some u \<Rightarrow> u | None \<Rightarrow> usage_zero"
  from assms(2) False obtain l e c where l: "w a = Some l" and own: "rs_owner h = a"
    and e: "map_of (ls_reservations (lg_state l)) (rs_id h) = Some e"
    and c: "exact_cost F d (re_values e) ?u = Inr c"
    and w': "w' = put_state a (settle (rs_id h) d ?u c (lg_state l)) w"
    by (auto simp: reconcile_def Let_def split: option.splits if_splits sum.splits)
  have sum: "reserved_sum share (settle (rs_id h) d ?u c (lg_state l)) =
      reserved_sum share ((lg_state l)\<lparr>ls_reservations := map_del (rs_id h) (ls_reservations (lg_state l))\<rparr>)"
    by (simp add: reserved_sum_def settle_def Let_def split: billing.split)
  have "charge d ?u c \<le> share (re_values e)"
    using assms(3) l own e c by (intro charge_honest) (auto simp: within_reservation_def Let_def)
  with reserved_sum_del [OF e] committed_settle [of "rs_id h" d ?u c "lg_state l"] show ?thesis
    unfolding w' using assms(1) all_okD [OF assms(1) l] l
    by (intro all_ok_put) (auto simp: budget_ok_def sum elim!: fits_mono)
qed (use assms ok_drop in simp)

lemma ok_new:
  assumes "ledger_new instant_max now limits = Inr l"
  shows "budget_ok l"
proof -
  from assms have "lg_state l = ledger_state_empty"
    by (auto simp: ledger_new_def result_simps split: option.splits if_splits)
  moreover have "reserved_sum share ledger_state_empty = 0"
    by (simp add: reserved_sum_def ledger_state_empty_def)
  ultimately show ?thesis
    by (simp add: budget_ok_def committed_empty fits_def split: option.split)
qed

lemma ok_step:
  assumes "ledger_step F honest w w'" and "needs_honesty \<Longrightarrow> honest" and "all_ok w"
  shows "all_ok w'"
  using assms(1)
proof cases
  case (create m now limits l a)
  with ok_new assms(3) show ?thesis by (auto simp: all_ok_def)
next
  case (destroy a)
  with assms(3) show ?thesis by (auto simp: all_ok_def)
next
  case (poison a l)
  with assms(3) show ?thesis by (auto simp: all_ok_def budget_ok_def)
next
  case (reserve a l now pricing x y r)
  with assms(3) show ?thesis by (blast intro: ok_reserve)
next
  case (start h s h')
  with assms(3) show ?thesis by (blast intro: ok_start)
next
  case (drop h)
  with assms(3) show ?thesis by (simp add: ok_drop)
next
  case (reconcile now a h usage d r)
  with assms(2,3) show ?thesis by (blast intro: ok_reconcile)
qed

lemma reach_ok: "ledger_reach F honest w \<Longrightarrow> (needs_honesty \<Longrightarrow> honest) \<Longrightarrow> all_ok w"
proof (induction rule: ledger_reach.induct)
  case empty
  then show ?case by (simp add: all_ok_def)
next
  case (step w w')
  then show ?case by (blast intro: ok_step)
qed

lemma limit_holds:
  assumes "ledger_reach F honest w" and "needs_honesty \<Longrightarrow> honest" and "w a = Some l"
  shows "fits (limit (lg_limits l)) (committed (lg_state l)) (reserved_sum share (lg_state l))"
  using reach_ok [OF assms(1,2)] assms(3) by (simp add: all_ok_def budget_ok_def)

end

lemma check_limit_fits:
  assumes "check_limit r m (saturating_add (saturating_add a (min b u64_max)) c) = Inr ()"
  shows "fits m a (b + c)"
  using assms by (auto simp: check_limit_def fits_def saturating_add_def split: option.splits if_splits)

lemma check_reservation_fits:
  assumes "check_reservation l st x y c = Inr ()"
  shows "fits (bl_max_model_calls l) (ls_calls st) (reserved_sum (\<lambda>_. 1) st + 1)"
    and "fits (bl_max_input_tokens l) (ls_input st) (reserved_sum rv_input st + x)"
    and "fits (bl_max_output_tokens l) (ls_output st) (reserved_sum rv_output st + y)"
    and "fits (bl_max_cost_micro_usd l) (ls_cost st) (reserved_sum rv_cost st + c)"
  using assms unfolding check_reservation_def reservation_totals_eq
  by (auto simp: bindR_Inr dest!: check_limit_fits)

lemmas ledger_accounting = commit_reserved_def settle_def Let_def saturating_add_def ledger_state_empty_def

interpretation calls: resource bl_max_model_calls ls_calls "\<lambda>_. 1" "\<lambda>_ _ _. 1" False
  by unfold_locales
    (auto simp: ledger_accounting split: billing.split dest: check_reservation_fits)

interpretation input: resource bl_max_input_tokens ls_input rv_input
    "\<lambda>d u _. if d = NoCharge then 0 else input_tokens u" True
  by unfold_locales
    (auto simp: ledger_accounting split: billing.split dest: check_reservation_fits)

interpretation out: resource bl_max_output_tokens ls_output rv_output
    "\<lambda>d u _. if d = NoCharge then 0 else output_tokens u" True
  by unfold_locales
    (auto simp: ledger_accounting split: billing.split dest: check_reservation_fits)

interpretation cost: resource bl_max_cost_micro_usd ls_cost rv_cost
    "\<lambda>d u c. if d = NoCharge then 0 else c" True
  by unfold_locales
    (auto simp: ledger_accounting split: billing.split dest: check_reservation_fits)


subsection \<open>Identifiers\<close>

text \<open>Reservations have distinct identifiers, none beyond the last one given out.\<close>

definition ids_ok :: "'f ledger_state \<Rightarrow> bool" where
  "ids_ok st \<longleftrightarrow> distinct (map fst (ls_reservations st)) \<and> fst ` set (ls_reservations st) \<subseteq> {..ls_next_id st}
     \<and> ls_next_id st \<le> u64_max"

lemma map_del_keys: "fst ` set (map_del i m) = fst ` set m - {i}"
  by (auto simp: map_del_def)

lemma map_put_keys: "fst ` set (map_put i v m) = insert i (fst ` set m)"
  by (auto simp: map_put_def)

lemma map_del_distinct: "distinct (map fst m) \<Longrightarrow> distinct (map fst (map_del i m))"
  by (simp add: map_del_def distinct_map_filter)

lemma map_put_distinct: "distinct (map fst m) \<Longrightarrow> distinct (map fst (map_put i v m))"
  by (auto simp: map_put_def distinct_map_filter)

lemma map_del_put: "map_del i (map_put i v m) = map_del i m"
  by (simp add: map_del_def map_put_def)

lemma map_put_put: "map_put i v (map_put i u m) = map_put i v m"
  by (simp add: map_put_def)

lemma map_of_put: "map_of (map_put i v m) i = Some v"
  by (simp add: map_put_def)

lemma map_del_fresh: "i \<notin> fst ` set m \<Longrightarrow> map_del i m = m"
  by (auto simp: map_del_def filter_id_conv)

lemmas map_facts = map_del_keys map_put_keys map_del_distinct map_put_distinct

definition all_ids :: "'f ledgers \<Rightarrow> bool" where
  "all_ids w \<longleftrightarrow> (\<forall>a l. w a = Some l \<longrightarrow> ids_ok (lg_state l))"

lemma all_ids_put:
  "all_ids w \<Longrightarrow> (\<And>l. w a = Some l \<Longrightarrow> ids_ok (lg_state l) \<Longrightarrow> ids_ok st) \<Longrightarrow> all_ids (put_state a st w)"
  by (auto simp: all_ids_def put_state_def split: option.splits)

lemma ids_ok_del: "ids_ok st \<Longrightarrow> ids_ok (st\<lparr>ls_reservations := map_del i (ls_reservations st)\<rparr>)"
  unfolding ids_ok_def by (simp add: map_facts) blast

lemma ids_ok_settle: "ids_ok st \<Longrightarrow> ids_ok (settle i d u c st)"
  using ids_ok_del [of st i] by (cases d) (simp_all add: settle_def Let_def ids_ok_def)

lemma ids_ok_commit: "ids_ok (commit_reserved v st) = ids_ok st"
  by (simp add: ids_ok_def commit_reserved_def)

lemma ids_ok_put:
  "ids_ok st \<Longrightarrow> map_of (ls_reservations st) i = Some e \<Longrightarrow>
    ids_ok (st\<lparr>ls_reservations := map_put i e' (ls_reservations st)\<rparr>)"
  by (drule map_of_SomeD) (force simp: ids_ok_def map_facts)

lemma ids_ok_new:
  assumes "ids_ok st" "ls_next_id st \<le> i" "i \<le> u64_max"
  shows "ids_ok (st\<lparr>ls_next_id := i, ls_reservations := map_put i e (ls_reservations st)\<rparr>)"
  using assms unfolding ids_ok_def by (simp add: map_facts) (meson atMost_subset_iff subset_trans)

lemma all_ids_drop: "all_ids w \<Longrightarrow> all_ids (drop_reservation h w)"
  by (auto simp: drop_reservation_def Let_def ids_ok_commit ids_ok_del intro!: all_ids_put split: option.split)

lemma all_ids_step: "ledger_step F honest w w' \<Longrightarrow> all_ids w \<Longrightarrow> all_ids w'"
proof (induction rule: ledger_step.induct)
  case (create m now limits l a)
  then have "lg_state l = ledger_state_empty"
    by (auto simp: ledger_new_def result_simps split: option.splits if_splits)
  with create show ?case by (auto simp: all_ids_def ids_ok_def ledger_state_empty_def)
next
  case (reserve a l now pricing x y r w')
  then show ?case
    by (auto simp: reserve_model_call_def Let_def saturating_add_def split: sum.splits if_splits
        intro!: all_ids_put ids_ok_new) (auto simp: ids_ok_def)
next
  case (start h s h' w')
  then show ?case
    by (auto simp: mark_started_def split: option.splits if_splits intro!: all_ids_put ids_ok_put)
next
  case (reconcile now a h usage d r w')
  then show ?case
    by (auto simp: reconcile_def Let_def all_ids_drop ids_ok_settle split: option.splits if_splits sum.splits
        intro!: all_ids_put)
qed (auto simp: all_ids_def all_ids_drop [unfolded all_ids_def])

lemma reach_ids: "ledger_reach F honest w \<Longrightarrow> all_ids w"
  by (induction rule: ledger_reach.induct) (simp_all add: all_ids_def all_ids_step [unfolded all_ids_def])


subsection \<open>The course of a call\<close>

lemma reserve_okE:
  assumes "reserve_model_call F now a pricing x y l w = (Inr h, w')"
  obtains c where "h = \<lparr>rs_id = saturating_add (ls_next_id (lg_state l)) 1, rs_owner = a, rs_handle_state = Reserved\<rparr>"
    and "reserved_cost F (lg_limits l) pricing x y = Inr c" and "\<not> lg_poisoned l"
    and "w' = put_state a ((lg_state l)\<lparr>ls_next_id := rs_id h, ls_reservations := map_put (rs_id h)
      \<lparr>re_values = \<lparr>rv_input = x, rv_output = y, rv_cost = c, rv_pricing = pricing\<rparr>, re_state = Reserved\<rparr>
      (ls_reservations (lg_state l))\<rparr>) w"
  using assms by (auto simp: reserve_model_call_def Let_def bindR_Inr split: sum.splits if_splits)

lemma put_state_simps:
  "w a = Some l \<Longrightarrow> put_state a st w = w(a \<mapsto> l\<lparr>lg_state := st\<rparr>)"
  by (simp add: put_state_def)

lemma fresh_id:
  assumes "ids_ok st" and "ls_next_id st < u64_max"
  shows "map_del (saturating_add (ls_next_id st) 1) (ls_reservations st) = ls_reservations st"
  using assms by (intro map_del_fresh) (auto simp: ids_ok_def saturating_add_def)

lemma reach_fresh:
  "ledger_reach F honest w \<Longrightarrow> w a = Some l \<Longrightarrow> ls_next_id (lg_state l) < u64_max \<Longrightarrow>
    map_del (saturating_add (ls_next_id (lg_state l)) 1) (ls_reservations (lg_state l)) = ls_reservations (lg_state l)"
  using reach_ids fresh_id by (fastforce simp: all_ids_def)

text \<open>The state after a call was reserved and started.\<close>

lemma start_after_reserve:
  assumes "w a = Some l" and "reserve_model_call F now a pricing x y l w = (Inr h, w1)"
    and "mark_started h w1 = (r, h', w2)"
  obtains c where "reserved_cost F (lg_limits l) pricing x y = Inr c" and "\<not> lg_poisoned l" and "r = Inr ()"
    and "h' = \<lparr>rs_id = saturating_add (ls_next_id (lg_state l)) 1, rs_owner = a, rs_handle_state = Started\<rparr>"
    and "w2 = w(a \<mapsto> l\<lparr>lg_state := (lg_state l)\<lparr>ls_next_id := rs_id h', ls_reservations := map_put (rs_id h')
      \<lparr>re_values = \<lparr>rv_input = x, rv_output = y, rv_cost = c, rv_pricing = pricing\<rparr>, re_state = Started\<rparr>
      (ls_reservations (lg_state l))\<rparr>\<rparr>)"
  using assms(2)
proof (rule reserve_okE)
  fix c
  assume h: "h = \<lparr>rs_id = saturating_add (ls_next_id (lg_state l)) 1, rs_owner = a, rs_handle_state = Reserved\<rparr>"
    and c: "reserved_cost F (lg_limits l) pricing x y = Inr c" and p: "\<not> lg_poisoned l"
    and w1: "w1 = put_state a ((lg_state l)\<lparr>ls_next_id := rs_id h, ls_reservations := map_put (rs_id h)
      \<lparr>re_values = \<lparr>rv_input = x, rv_output = y, rv_cost = c, rv_pricing = pricing\<rparr>, re_state = Reserved\<rparr>
      (ls_reservations (lg_state l))\<rparr>) w"
  from assms(1,3) h p w1 show thesis
    by (intro that [OF c p]) (auto simp: mark_started_def put_state_simps map_of_put map_put_put)
qed

subsection \<open>Properties\<close>

text \<open>C18: In every interleaving of operations on shared ledgers, whatever usage is reported, the
  model calls that are committed or reserved never exceed the limit of their ledger (for a limit
  below the largest counter value).\<close>

lemma call_limit_never_exceeded:
  assumes "ledger_reach F honest w" and "w a = Some l"
    and "bl_max_model_calls (lg_limits l) = Some m" and "m < u64_max"
  shows "ls_calls (lg_state l) + length (ls_reservations (lg_state l)) \<le> m"
proof -
  have "reserved_sum (\<lambda>_. 1) (lg_state l) = length (ls_reservations (lg_state l))"
    by (simp add: reserved_sum_def sum_list_triv)
  with calls.limit_holds [OF assms(1) _ assms(2)] assms(3,4) show ?thesis by (simp add: fits_def)
qed

text \<open>C19: If every reported usage stays within its reservation, the committed and reserved
  input tokens, output tokens and costs never exceed their limits.\<close>

lemma honest_usage_within_limits:
  assumes "ledger_reach F True w" and "w a = Some l"
  shows "fits (bl_max_input_tokens (lg_limits l)) (ls_input (lg_state l)) (reserved_sum rv_input (lg_state l))
    \<and> fits (bl_max_output_tokens (lg_limits l)) (ls_output (lg_state l)) (reserved_sum rv_output (lg_state l))
    \<and> fits (bl_max_cost_micro_usd (lg_limits l)) (ls_cost (lg_state l)) (reserved_sum rv_cost (lg_state l))"
  using input.limit_holds [OF assms(1) _ assms(2)] out.limit_holds [OF assms(1) _ assms(2)]
    cost.limit_holds [OF assms(1) _ assms(2)] by simp

text \<open>Reserving, starting and reconciling a call charges exactly one call and the reported
  usage, releases the reservation and touches nothing else, also when the usage breaks a limit,
  which the result then reports.\<close>

lemma reconciled_call_is_charged_exactly:
  assumes "ledger_reach F honest w" and "w a = Some l" and "ls_next_id (lg_state l) < u64_max"
    and "reserve_model_call F t1 a pricing x y l w = (Inr h, w1)" and "mark_started h w1 = (s, h', w2)"
    and "(case pricing of None \<Rightarrow> Inr 0 | Some p \<Rightarrow> cost_micro_usd F p u) = Inr c"
    and "reconcile F t2 a h' (Some u) ChargeUsage w2 = (r, w3)"
    and "st = (lg_state l)\<lparr>ls_next_id := ls_next_id (lg_state l) + 1,
        ls_calls := saturating_add (ls_calls (lg_state l)) 1,
        ls_input := saturating_add (ls_input (lg_state l)) (input_tokens u),
        ls_output := saturating_add (ls_output (lg_state l)) (output_tokens u),
        ls_cost := saturating_add (ls_cost (lg_state l)) c\<rparr>"
  shows "w3 = w(a \<mapsto> l\<lparr>lg_state := st\<rparr>) \<and> s = Inr ()
    \<and> r = (case check_committed (lg_limits l) st of
             Inl e \<Rightarrow> Inl e | Inr _ \<Rightarrow> Inr (ledger_snapshot_of t2 (l\<lparr>lg_state := st\<rparr>)))"
proof -
  have id: "saturating_add (ls_next_id (lg_state l)) 1 = ls_next_id (lg_state l) + 1"
    using assms(3) by (simp add: saturating_add_def)
  note fresh = reach_fresh [OF assms(1,2,3), unfolded id]
  show ?thesis
    using assms(2,4,5)
  proof (rule start_after_reserve)
    fix rc
    assume "\<not> lg_poisoned l" and "s = Inr ()"
      and "h' = \<lparr>rs_id = saturating_add (ls_next_id (lg_state l)) 1, rs_owner = a, rs_handle_state = Started\<rparr>"
      and "w2 = w(a \<mapsto> l\<lparr>lg_state := (lg_state l)\<lparr>ls_next_id := rs_id h', ls_reservations := map_put (rs_id h')
      \<lparr>re_values = \<lparr>rv_input = x, rv_output = y, rv_cost = rc, rv_pricing = pricing\<rparr>, re_state = Started\<rparr>
      (ls_reservations (lg_state l))\<rparr>\<rparr>)"
    with assms(2,6,7,8) fresh show ?thesis
      by (auto simp: reconcile_def exact_cost_def settle_def map_of_put map_del_put put_state_simps id [simplified] bindR_def Let_def
          split: sum.splits)
  qed
qed

text \<open>A reservation that is dropped before its call starts is free: only the next
  identifier changes. One that is dropped after the start charges the whole reservation.\<close>

lemma dropped_reservation_is_settled:
  assumes "ledger_reach F honest w" and "w a = Some l" and "ls_next_id (lg_state l) < u64_max"
    and "reserve_model_call F t1 a pricing x y l w = (Inr h, w1)" and "mark_started h w1 = (s, h', w2)"
    and "st = (lg_state l)\<lparr>ls_next_id := ls_next_id (lg_state l) + 1\<rparr>"
  shows "drop_reservation h w1 = w(a \<mapsto> l\<lparr>lg_state := st\<rparr>)
    \<and> (\<exists>c. reserved_cost F (lg_limits l) pricing x y = Inr c \<and> drop_reservation h' w2 = w(a \<mapsto> l\<lparr>lg_state :=
         st\<lparr>ls_calls := saturating_add (ls_calls st) 1, ls_input := saturating_add (ls_input st) x,
            ls_output := saturating_add (ls_output st) y, ls_cost := saturating_add (ls_cost st) c\<rparr>\<rparr>))"
    (is "?free \<and> ?charged")
proof
  have id: "saturating_add (ls_next_id (lg_state l)) 1 = ls_next_id (lg_state l) + 1"
    using assms(3) by (simp add: saturating_add_def)
  note fresh = reach_fresh [OF assms(1,2,3), unfolded id]
  show ?free
    using assms(2,6) fresh by (rule_tac reserve_okE [OF assms(4)])
      (simp add: drop_reservation_def map_of_put map_del_put put_state_simps id [simplified] Let_def)
  show ?charged
    using assms(2,6) fresh by (rule_tac start_after_reserve [OF assms(2,4,5)])
      (simp add: drop_reservation_def commit_reserved_def map_of_put map_del_put put_state_simps id [simplified] Let_def)
qed


subsection \<open>A concrete ledger\<close>

text \<open>The witnesses count in whole units of one millionth, which the operations never round.\<close>

definition demo_f64 :: "nat f64_ops" where
  "demo_f64 = \<lparr>f_of_u64 = (\<lambda>n. n), f_zero = 0, f_million = 1000000, f_add = (+), f_mul = (*), f_div = (div),
     f_ceil = (\<lambda>x. x), f_less = (<), f_is_finite = (\<lambda>_. True), f_to_u64 = (\<lambda>x. x)\<rparr>"

definition demo_limits :: budget_limits where
  "demo_limits = \<lparr>bl_max_model_calls = Some 2, bl_max_input_tokens = Some 100, bl_max_output_tokens = Some 50,
     bl_max_cost_micro_usd = None, bl_wall_time_ms = None\<rparr>"

definition demo_ledger :: "nat ledger" where
  "demo_ledger = \<lparr>lg_limits = demo_limits, lg_started = 0, lg_deadline = None, lg_poisoned = False,
     lg_state = ledger_state_empty\<rparr>"

definition demo_world :: "nat ledgers" where
  "demo_world = [0 \<mapsto> demo_ledger]"

definition demo_reserved :: "nat ledgers" where
  "demo_reserved = snd (reserve_model_call demo_f64 0 0 None 60 20 demo_ledger demo_world)"

definition demo_handle :: reservation where
  "demo_handle = \<lparr>rs_id = 1, rs_owner = 0, rs_handle_state = Reserved\<rparr>"

definition demo_started :: "nat ledgers" where
  "demo_started = snd (snd (mark_started demo_handle demo_reserved))"

definition demo_usage :: usage where
  "demo_usage = usage_zero\<lparr>input_tokens := 70, output_tokens := 60\<rparr>"

lemmas demo_budget = demo_f64_def demo_limits_def demo_ledger_def demo_world_def demo_reserved_def demo_handle_def
  demo_started_def demo_usage_def usage_zero_def ledger_state_empty_def

lemma demo_world_reach: "ledger_reach demo_f64 honest demo_world"
proof -
  have "ledger_new 0 0 demo_limits = Inr demo_ledger" by (simp add: ledger_new_def demo_budget)
  then show ?thesis
    unfolding demo_world_def by (intro ledger_reach.step [OF ledger_reach.empty] ledger_step.create) simp_all
qed

lemma demo_reserve_ok:
  "reserve_model_call demo_f64 0 0 None 60 20 demo_ledger demo_world = (Inr demo_handle, demo_reserved)"
  by (simp add: demo_budget reserve_model_call_def check_wall_time_def reserved_cost_def check_reservation_def
      reservation_totals_def check_limit_def saturating_add_def u64_max_def)

lemma demo_reserved_eq:
  "demo_reserved = [0 \<mapsto> demo_ledger\<lparr>lg_state := ledger_state_empty\<lparr>ls_next_id := 1, ls_reservations :=
     [(1, \<lparr>re_values = \<lparr>rv_input = 60, rv_output = 20, rv_cost = 0, rv_pricing = None\<rparr>, re_state = Reserved\<rparr>)]\<rparr>\<rparr>]"
  by (rule reserve_okE [OF demo_reserve_ok])
    (simp add: demo_handle_def reserved_cost_def put_state_def demo_world_def demo_ledger_def demo_limits_def map_put_def
      ledger_state_empty_def)

lemma demo_reserved_reach: "ledger_reach demo_f64 honest demo_reserved"
  using demo_world_reach
  by (rule ledger_reach.step) (rule ledger_step.reserve [OF _ demo_reserve_ok], simp add: demo_world_def)

lemma demo_start_ok: "mark_started demo_handle demo_reserved = (Inr (), demo_handle\<lparr>rs_handle_state := Started\<rparr>, demo_started)"
  by (simp add: demo_started_def mark_started_def demo_reserved_eq demo_handle_def demo_ledger_def)

theorem call_limit_never_exceeded_witness: "\<exists>l. demo_reserved 0 = Some l \<and> ls_calls (lg_state l) + length (ls_reservations (lg_state l)) \<le> 2"
  using call_limit_never_exceeded [OF demo_reserved_reach [of False], of 0 _ 2]
  by (simp add: demo_reserved_eq demo_ledger_def demo_limits_def u64_max_def)

theorem honest_usage_within_limits_witness:
  "\<exists>l. demo_reserved 0 = Some l \<and> fits (Some 100) (ls_input (lg_state l)) (reserved_sum rv_input (lg_state l))"
  using honest_usage_within_limits [OF demo_reserved_reach, of 0]
  by (simp add: demo_reserved_eq demo_ledger_def demo_limits_def)

theorem reconciled_call_is_charged_exactly_witness:
  "reconcile demo_f64 0 0 (demo_handle\<lparr>rs_handle_state := Started\<rparr>) (Some demo_usage) ChargeUsage demo_started
   = (Inl (Exceeded ''output_tokens'' 50 60), demo_world(0 \<mapsto> demo_ledger\<lparr>lg_state :=
       ledger_state_empty\<lparr>ls_next_id := 1, ls_calls := 1, ls_input := 70, ls_output := 60\<rparr>\<rparr>))"
proof (cases "reconcile demo_f64 0 0 (demo_handle\<lparr>rs_handle_state := Started\<rparr>) (Some demo_usage) ChargeUsage demo_started")
  case (Pair r w3)
  show ?thesis
    using reconciled_call_is_charged_exactly [OF demo_world_reach [of False] _ _ demo_reserve_ok demo_start_ok _ Pair refl, of 0] Pair
    by (simp add: demo_world_def demo_ledger_def demo_limits_def ledger_state_empty_def saturating_add_def u64_max_def
        demo_usage_def usage_zero_def check_committed_def check_limit_def)
qed

theorem dropped_reservation_is_settled_witness:
  "drop_reservation demo_handle demo_reserved
     = demo_world(0 \<mapsto> demo_ledger\<lparr>lg_state := ledger_state_empty\<lparr>ls_next_id := 1\<rparr>\<rparr>)
   \<and> drop_reservation (demo_handle\<lparr>rs_handle_state := Started\<rparr>) demo_started
     = demo_world(0 \<mapsto> demo_ledger\<lparr>lg_state :=
         ledger_state_empty\<lparr>ls_next_id := 1, ls_calls := 1, ls_input := 60, ls_output := 20\<rparr>\<rparr>)"
  using dropped_reservation_is_settled [OF demo_world_reach [of False] _ _ demo_reserve_ok demo_start_ok refl]
  by (simp add: demo_world_def demo_ledger_def demo_limits_def ledger_state_empty_def saturating_add_def u64_max_def
      reserved_cost_def)

end
