(* ===== verification/Digest.thy ===== *)
theory Digest
  imports Contracts
begin

text \<open>
  The second SHA-256 of the repository, in \<open>governance/contracts.rs\<close>: the same algorithm with its
  own constants and padding, written with other loops (blocks of four bytes, an array state updated
  through an iterator). Everything that the function spells out is translated here a second time,
  from its own lines; only the operations of the standard library are those of \<open>Sha256\<close>
  (\<open>to\_be\_bytes\<close>, \<open>from\_be\_bytes\<close>, \<open>chunks\_exact\<close>, the format \<open>\{word:08x\}\<close>).
  It is shown equal to the one of \<open>durability.rs\<close>, whose output is shown to have the form that the
  rest of the code relies on: 64 lower-case hexadecimal digits.
\<close>

unbundle bit_operations_syntax

subsection \<open>The copy in the governance contracts\<close>

definition contracts_initial :: "u32 list" where
  "contracts_initial =
     [0x6a09e667, 0xbb67ae85, 0x3c6ef372, 0xa54ff53a, 0x510e527f, 0x9b05688c, 0x1f83d9ab,
      0x5be0cd19]"

definition contracts_K :: "u32 list" where
  "contracts_K =
     [0x428a2f98, 0x71374491, 0xb5c0fbcf, 0xe9b5dba5, 0x3956c25b, 0x59f111f1, 0x923f82a4,
      0xab1c5ed5, 0xd807aa98, 0x12835b01, 0x243185be, 0x550c7dc3, 0x72be5d74, 0x80deb1fe,
      0x9bdc06a7, 0xc19bf174, 0xe49b69c1, 0xefbe4786, 0x0fc19dc6, 0x240ca1cc, 0x2de92c6f,
      0x4a7484aa, 0x5cb0a9dc, 0x76f988da, 0x983e5152, 0xa831c66d, 0xb00327c8, 0xbf597fc7,
      0xc6e00bf3, 0xd5a79147, 0x06ca6351, 0x14292967, 0x27b70a85, 0x2e1b2138, 0x4d2c6dfc,
      0x53380d13, 0x650a7354, 0x766a0abb, 0x81c2c92e, 0x92722c85, 0xa2bfe8a1, 0xa81a664b,
      0xc24b8b70, 0xc76c51a3, 0xd192e819, 0xd6990624, 0xf40e3585, 0x106aa070, 0x19a4c116,
      0x1e376c08, 0x2748774c, 0x34b0bcb5, 0x391c0cb3, 0x4ed8aa4a, 0x5b9cca4f, 0x682e6ff3,
      0x748f82ee, 0x78a5636f, 0x84c87814, 0x8cc70208, 0x90befffa, 0xa4506ceb, 0xbef9a3f7,
      0xc67178f2]"

text \<open>\<open>while padded.len() % 64 != 56 \{ padded.push(0) \}\<close>\<close>

function contracts_zeros :: "byte list \<Rightarrow> byte list" where
  "contracts_zeros padded = (if length padded mod 64 \<noteq> 56 then contracts_zeros (padded @ [0]) else padded)"
  by pat_completeness auto
termination
proof (relation "measure (\<lambda>m. (120 - length m mod 64) mod 64)")
  fix padded :: "byte list"
  assume a: "length padded mod 64 \<noteq> 56"
  define r where "r = length padded mod 64"
  have r: "r < 64" "r \<noteq> 56" using a by (simp_all add: r_def)
  have "Suc (length padded) mod 64 = (if r = 63 then 0 else Suc r)" by (simp add: r_def mod_Suc)
  moreover have "(120 - (if r = 63 then 0 else Suc r)) mod 64 < (120 - r) mod 64"
    using r by (cases "r < 56") (auto simp: mod_if)
  ultimately have "(120 - Suc (length padded) mod 64) mod 64 < (120 - length padded mod 64) mod 64"
    by (simp only: r_def)
  then show "(padded @ [0], padded) \<in> measure (\<lambda>m. (120 - length m mod 64) mod 64)" by simp
qed simp

declare contracts_zeros.simps [simp del]

definition contracts_padded :: "byte list \<Rightarrow> byte list" where
  "contracts_padded input =
     (let bit_len = of_nat (length input) * 8;
          padded = contracts_zeros (input @ [0x80])
      in padded @ u64_be_bytes bit_len)"

definition contracts_schedule :: "byte list \<Rightarrow> u32 list" where
  "contracts_schedule block =
     fold (\<lambda>index words.
         let s0 = (word_rotr 7 (words ! (index - 15)) XOR word_rotr 18 (words ! (index - 15)))
                  XOR drop_bit 3 (words ! (index - 15));
             s1 = (word_rotr 17 (words ! (index - 2)) XOR word_rotr 19 (words ! (index - 2)))
                  XOR drop_bit 10 (words ! (index - 2))
         in words[index := ((words ! (index - 16) + s0) + words ! (index - 7)) + s1]) [16..<64]
       (fold (\<lambda>(index, bytes) words.
            words[index := u32_from_be_bytes (bytes ! 0) (bytes ! 1) (bytes ! 2) (bytes ! 3)])
          (enumerate 0 (chunks_exact 4 block)) (replicate 64 0))"

fun contracts_round :: "u32 \<Rightarrow> u32 \<Rightarrow> hash_state \<Rightarrow> hash_state" where
  "contracts_round k w (a, b, c, d, e, f, g, h) =
     (let upper = (word_rotr 6 e XOR word_rotr 11 e) XOR word_rotr 25 e;
          choice = (e AND f) XOR ((NOT e) AND g);
          temp1 = (((h + upper) + choice) + k) + w;
          lower = (word_rotr 2 a XOR word_rotr 13 a) XOR word_rotr 22 a;
          majority = ((a AND b) XOR (a AND c)) XOR (b AND c);
          temp2 = lower + majority
      in (temp1 + temp2, a, b, c, d + temp1, e, f, g))"

text \<open>The state is an array here: it is taken apart into eight variables, and each slot is
  increased by its variable.\<close>

fun state_array :: "hash_state \<Rightarrow> u32 list" where
  "state_array (a, b, c, d, e, f, g, h) = [a, b, c, d, e, f, g, h]"

definition array_state :: "u32 list \<Rightarrow> hash_state" where
  "array_state s = (s ! 0, s ! 1, s ! 2, s ! 3, s ! 4, s ! 5, s ! 6, s ! 7)"

definition contracts_block :: "byte list \<Rightarrow> u32 list \<Rightarrow> u32 list" where
  "contracts_block block state =
     (let words = contracts_schedule block;
          vars = fold (\<lambda>i st. contracts_round (contracts_K ! i) (words ! i) st) [0..<64] (array_state state)
      in map (\<lambda>(slot, v). slot + v) (zip state (state_array vars)))"

text \<open>The digits of the state, written word by word.\<close>

definition contracts_hex :: "u32 list \<Rightarrow> string" where
  "contracts_hex state = fold (\<lambda>word result. result @ hex_u32 word) state []"

definition contracts_hex_sha256 :: "string \<Rightarrow> string" where
  "contracts_hex_sha256 input =
     contracts_hex (fold contracts_block (chunks_exact 64 (contracts_padded (map of_char input))) contracts_initial)"

definition sha256_digest :: "string \<Rightarrow> string" where
  "sha256_digest input = ''sha256:'' @ contracts_hex_sha256 input"

subsection \<open>Blocks\<close>

lemma chunks_exact_Nil [simp]: "length xs < n \<Longrightarrow> chunks_exact n xs = []"
  by (simp add: chunks_exact.simps)

lemma chunks_exact_length: "c \<in> set (chunks_exact n xs) \<Longrightarrow> length c = n"
  by (induction n xs rule: chunks_exact.induct)
    (subst (asm) (2) chunks_exact.simps, auto split: if_splits)

lemma chunks_exact_nth:
  assumes "length xs = n * k" and "0 < n"
  shows "chunks_exact n xs = map (\<lambda>i. take n (drop (n * i) xs)) [0..<k]"
  using assms
proof (induction k arbitrary: xs)
  case (Suc k)
  have "chunks_exact n xs = take n xs # chunks_exact n (drop n xs)"
    using Suc.prems by (subst chunks_exact.simps) simp
  also have "chunks_exact n (drop n xs) = map (\<lambda>i. take n (drop (n * i) (drop n xs))) [0..<k]"
    using Suc.prems by (intro Suc.IH) simp_all
  also have "take n xs # \<dots> = map (\<lambda>i. take n (drop (n * i) xs)) (0 # map Suc [0..<k])"
    by (simp add: comp_def add.commute)
  also have "0 # map Suc [0..<k] = [0..<Suc k]" by (simp add: map_Suc_upt upt_conv_Cons del: upt_Suc)
  finally show ?case .
qed simp

lemma concat_chunks_exact:
  assumes "length xs mod n = 0" and "0 < n"
  shows "concat (chunks_exact n xs) = xs"
  using assms
proof (induction n xs rule: chunks_exact.induct)
  case (1 n xs)
  show ?case
  proof (cases "length xs < n")
    case True
    with 1(2,3) show ?thesis by simp
  next
    case False
    with 1(2) have "length (drop n xs) mod n = 0" by (simp add: mod_if)
    with 1 False show ?thesis by (subst chunks_exact.simps) simp
  qed
qed

text \<open>Storing the values of an enumerated list into an array.\<close>

lemma fold_store:
  assumes "n + length xs \<le> length ws"
  shows "fold (\<lambda>(i, x) ws. ws[i := g x]) (enumerate n xs) ws = take n ws @ map g xs @ drop (n + length xs) ws"
  using assms
proof (induction xs arbitrary: n ws)
  case (Cons x xs)
  have "take (Suc n) (ws[n := g x]) = take n ws @ [g x]"
    using Cons.prems by (simp add: take_Suc_conv_app_nth)
  with Cons.IH [of "Suc n" "ws[n := g x]"] Cons.prems show ?case by simp
qed simp

subsection \<open>The two implementations agree\<close>

lemma contracts_initial_eq: "contracts_initial = state_array sha256_initial"
  by (simp add: contracts_initial_def sha256_initial_def)

lemma contracts_K_eq: "contracts_K = sha256_K"
  by (simp add: contracts_K_def sha256_K_def)

lemma contracts_zeros_eq: "contracts_zeros m = push_zeros m"
  by (induction m rule: push_zeros.induct) (subst contracts_zeros.simps, subst push_zeros.simps, simp)

lemma contracts_padded_eq: "contracts_padded input = sha256_message input"
  by (simp add: contracts_padded_def sha256_message_def contracts_zeros_eq)

lemma contracts_schedule_eq:
  assumes "length block = 64"
  shows "contracts_schedule block = sha256_schedule block"
proof -
  let ?word = "\<lambda>bytes :: byte list. u32_from_be_bytes (bytes ! 0) (bytes ! 1) (bytes ! 2) (bytes ! 3)"
  have chunks: "chunks_exact 4 block = map (\<lambda>i. take 4 (drop (4 * i) block)) [0..<16]"
    using assms by (intro chunks_exact_nth) simp_all
  have "fold (\<lambda>(i, bytes) ws. ws[i := ?word bytes]) (enumerate 0 (chunks_exact 4 block)) (replicate 64 0)
      = map ?word (chunks_exact 4 block) @ replicate 48 0"
    by (subst fold_store) (simp_all add: chunks)
  also have "map ?word (chunks_exact 4 block) = map (\<lambda>i. u32_from_be_bytes (block ! (i * 4)) (block ! (i * 4 + 1))
      (block ! (i * 4 + 2)) (block ! (i * 4 + 3))) [0..<16]"
    unfolding chunks map_map using assms by (intro map_cong) (simp_all add: mult.commute)
  finally show ?thesis by (simp only: contracts_schedule_def sha256_schedule_def sha256_small0_def sha256_small1_def Let_def)
qed

lemma contracts_round_eq: "contracts_round k w st = sha256_round k w st"
  by (cases st rule: state_array.cases) (simp add: Let_def add.commute)

lemma array_state_array [simp]: "array_state (state_array st) = st"
  by (cases st rule: state_array.cases) (simp add: array_state_def)

lemma add_states_array: "map (\<lambda>(slot, v). slot + v) (zip (state_array s) (state_array t)) = state_array (add_states s t)"
  by (cases s rule: state_array.cases; cases t rule: state_array.cases) simp

lemma contracts_block_eq:
  "length block = 64 \<Longrightarrow> contracts_block block (state_array st) = state_array (sha256_compress st block)"
  by (simp add: contracts_block_def sha256_compress_def sha256_rounds_def contracts_schedule_eq contracts_round_eq
      contracts_K_eq Let_def add_states_array)

lemma contracts_blocks_eq:
  "\<forall>b \<in> set blocks. length b = 64 \<Longrightarrow>
    fold contracts_block blocks (state_array st) = state_array (sha256_blocks st blocks)"
  by (induction blocks arbitrary: st) (simp_all add: contracts_block_eq)

lemma contracts_hex_eq: "contracts_hex (state_array st) = hex_state st"
  by (cases st rule: state_array.cases) (simp add: contracts_hex_def)

lemma contracts_hex_sha256_eq: "contracts_hex_sha256 input = hex_sha256 input"
  by (simp add: contracts_hex_sha256_def hex_sha256_def sha256_hash_def contracts_blocks_eq chunks_exact_length
      contracts_hex_eq contracts_padded_eq contracts_initial_eq)

subsection \<open>The form of a digest\<close>

lemma push_zeros_length: "length (push_zeros m) mod 64 = 56"
  by (induction m rule: push_zeros.induct) (subst push_zeros.simps, simp)

lemma push_zeros_extends: "\<exists>k. push_zeros m = m @ replicate k 0"
proof (induction m rule: push_zeros.induct)
  case (1 m)
  show ?case
  proof (cases "length m mod 64 \<noteq> 56")
    case True
    with 1 obtain k where "push_zeros (m @ [0]) = (m @ [0]) @ replicate k 0" by blast
    with True have "push_zeros m = m @ replicate (Suc k) 0" by (subst push_zeros.simps) simp
    then show ?thesis by blast
  qed (subst push_zeros.simps, simp)
qed

lemma sha256_message_aligned: "length (sha256_message input) mod 64 = 0"
proof -
  have "length (sha256_message input) = length (push_zeros (input @ [0x80])) + 8"
    by (simp add: sha256_message_def Let_def u64_be_bytes_def)
  then show ?thesis using push_zeros_length [of "input @ [0x80]"] by (simp add: mod_add_left_eq [symmetric])
qed

definition is_lower_hex :: "char \<Rightarrow> bool" where
  "is_lower_hex c = (c \<in> set ''0123456789abcdef'')"

lemma hex_digit_lower:
  assumes "uint d < 16"
  shows "is_lower_hex (hex_digit d)"
proof -
  have "\<forall>k \<in> set [0..15]. is_lower_hex (char_of (if k < 10 then 48 + k else 87 + (k :: int)))"
    by code_simp
  moreover have "uint d \<in> set [0..15]" using assms by simp
  ultimately show ?thesis by (simp only: hex_digit_def)
qed

lemma nibble_bound: "uint ((w :: u32) AND 15) < 16"
proof -
  have "w AND 15 = take_bit 4 w" by (simp add: take_bit_eq_mask mask_eq_exp_minus_1)
  then show ?thesis by (simp add: take_bit_eq_mod uint_mod)
qed

lemma hex_u32_form: "length (hex_u32 w) = 8 \<and> list_all is_lower_hex (hex_u32 w)"
  by (simp add: hex_u32_def hex_digit_lower nibble_bound)

lemma hex_sha256_form: "length (hex_sha256 input) = 64 \<and> list_all is_lower_hex (hex_sha256 input)"
  unfolding hex_sha256_def by (cases "sha256_hash (map of_char input)" rule: state_array.cases) (simp add: hex_u32_form)

lemma lower_hex_hexdigit: "is_lower_hex c \<Longrightarrow> is_ascii_hexdigit c"
  by (auto simp: is_lower_hex_def is_ascii_hexdigit_def)

lemma lower_hex_no_control: "list_all is_lower_hex s \<Longrightarrow> \<not> has_control s"
  by (induction s) (auto simp: is_lower_hex_def)

subsection \<open>Properties\<close>

text \<open>C20: the two implementations of SHA-256 in the repository, each with its own constants, padding,
  schedule, rounds and output loop, compute the same digest, and every digest is 64 lower-case
  hexadecimal digits.\<close>

theorem sha256_copies_agree:
  "contracts_hex_sha256 input = hex_sha256 input
   \<and> length (hex_sha256 input) = 64 \<and> list_all is_lower_hex (hex_sha256 input)"
  using hex_sha256_form contracts_hex_sha256_eq by simp

text \<open>C21: a prefixed digest always passes the validation that policies, skills and bindings apply
  to it, and no digest contains a control character, as the validation of identifiers requires.\<close>

theorem digest_is_valid: "valid_digest (sha256_digest input) \<and> \<not> has_control (hex_sha256 input)"
proof -
  have "list_all is_ascii_hexdigit (hex_sha256 input)"
    using hex_sha256_form [of input] by (auto simp: list_all_iff lower_hex_hexdigit)
  then show ?thesis
    using hex_sha256_form [of input]
    by (simp add: valid_digest_def sha256_digest_def contracts_hex_sha256_eq lower_hex_no_control)
qed

text \<open>The digest of \<open>abc\<close> is the one of the standard (FIPS 180-4).\<close>

theorem sha256_abc:
  "hex_sha256 ''abc'' = ''ba7816bf8f01cfea414140de5dae2223b00361a396177a9cb410ff61f20015ad''"
  by code_simp

text \<open>Two stable identifiers are equal only if their namespaces and parts are equal, or their
  framed texts, which then differ, have the same digest.\<close>

theorem identifiers_are_unique:
  assumes "digest h = hex_sha256" and "stable_identifier h ns ps = stable_identifier h ns' qs"
    and "list_all (\<lambda>p. length p < 2 ^ 64) (ns # ps)" and "list_all (\<lambda>q. length q < 2 ^ 64) (ns' # qs)"
  shows "ns = ns' \<and> ps = qs
    \<or> framed_fields ns ps \<noteq> framed_fields ns' qs \<and> hex_sha256 (framed_fields ns ps) = hex_sha256 (framed_fields ns' qs)"
proof -
  let ?x = "framed_fields ns ps" and ?y = "framed_fields ns' qs"
  have eq: "(ns @ ''_'') @ hex_sha256 ?x = (ns' @ ''_'') @ hex_sha256 ?y"
    using assms(1,2) by (simp add: stable_identifier_def)
  have "length (hex_sha256 ?x) = length (hex_sha256 ?y)" using hex_sha256_form by simp
  with eq have "hex_sha256 ?x = hex_sha256 ?y" using append_eq_append_conv by blast
  moreover have "ns = ns' \<and> ps = qs" if "?x = ?y"
    using that assms(3,4) by (intro framed_fields_inj) (auto simp: list_all_iff)
  ultimately show ?thesis by blast
qed

definition demo_hasher :: hasher where
  "demo_hasher = \<lparr>digest = hex_sha256, number_to_string = (\<lambda>_. []), quote_string = (\<lambda>s. s)\<rparr>"

theorem identifiers_are_unique_witness:
  "stable_identifier demo_hasher ''run'' [''a'', ''b''] = stable_identifier demo_hasher ''run'' [''a'', ''b'']
   \<and> (''run'' = ''run'' \<and> [''a'', ''b''] = [''a'', ''b''] \<or> framed_fields ''run'' [''a'', ''b''] \<noteq> framed_fields ''run'' [''a'', ''b'']
      \<and> hex_sha256 (framed_fields ''run'' [''a'', ''b'']) = hex_sha256 (framed_fields ''run'' [''a'', ''b'']))"
  using identifiers_are_unique [of demo_hasher "''run''" "[''a'', ''b'']" "''run''" "[''a'', ''b'']"]
  by (simp add: demo_hasher_def)

end
