(* ===== verification/Net.thy ===== *)
theory Net
  imports Reliability Digest
begin

text \<open>
  What the governance code takes of \<open>std::net\<close> and \<open>str\<close>: addresses, their classification, the
  parser behind \<open>str::parse::<IpAddr>\<close> and the text form of an IPv4 address. Octets and segments are
  machine words. A parser takes the rest of the input and gives a value with the new rest, or fails
  without consuming anything, as \<open>read\_atomically\<close> does.
\<close>

unbundle bit_operations_syntax

type_synonym u16 = "16 word"

datatype ip_addr = V4 byte byte byte byte | V6 "u16 list"

subsection \<open>Classification\<close>

fun v4_is_loopback :: "ip_addr \<Rightarrow> bool" where
  "v4_is_loopback (V4 a _ _ _) = (a = 127)"
| "v4_is_loopback (V6 _) = False"

fun v4_is_private :: "ip_addr \<Rightarrow> bool" where
  "v4_is_private (V4 a b _ _) = (a = 10 \<or> (a = 172 \<and> 16 \<le> b \<and> b \<le> 31) \<or> (a = 192 \<and> b = 168))"
| "v4_is_private (V6 _) = False"

fun v4_is_link_local :: "ip_addr \<Rightarrow> bool" where
  "v4_is_link_local (V4 a b _ _) = (a = 169 \<and> b = 254)"
| "v4_is_link_local (V6 _) = False"

fun v4_is_broadcast :: "ip_addr \<Rightarrow> bool" where
  "v4_is_broadcast (V4 a b c d) = (a = 255 \<and> b = 255 \<and> c = 255 \<and> d = 255)"
| "v4_is_broadcast (V6 _) = False"

fun v4_is_unspecified :: "ip_addr \<Rightarrow> bool" where
  "v4_is_unspecified (V4 a b c d) = (a = 0 \<and> b = 0 \<and> c = 0 \<and> d = 0)"
| "v4_is_unspecified (V6 _) = False"

fun v4_is_documentation :: "ip_addr \<Rightarrow> bool" where
  "v4_is_documentation (V4 a b c _) =
     ((a = 192 \<and> b = 0 \<and> c = 2) \<or> (a = 198 \<and> b = 51 \<and> c = 100) \<or> (a = 203 \<and> b = 0 \<and> c = 113))"
| "v4_is_documentation (V6 _) = False"

fun v4_is_multicast :: "ip_addr \<Rightarrow> bool" where
  "v4_is_multicast (V4 a _ _ _) = (224 \<le> a \<and> a \<le> 239)"
| "v4_is_multicast (V6 _) = False"

definition v6_is_loopback :: "u16 list \<Rightarrow> bool" where
  "v6_is_loopback s = (s = [0, 0, 0, 0, 0, 0, 0, 1])"

definition v6_is_unspecified :: "u16 list \<Rightarrow> bool" where
  "v6_is_unspecified s = (s = [0, 0, 0, 0, 0, 0, 0, 0])"

definition v6_is_unique_local :: "u16 list \<Rightarrow> bool" where
  "v6_is_unique_local s = (s ! 0 AND 0xfe00 = 0xfc00)"

definition v6_is_unicast_link_local :: "u16 list \<Rightarrow> bool" where
  "v6_is_unicast_link_local s = (s ! 0 AND 0xffc0 = 0xfe80)"

text \<open>The IPv4 address in the last two segments.\<close>

definition embedded_v4 :: "u16 list \<Rightarrow> ip_addr" where
  "embedded_v4 s = V4 (ucast (drop_bit 8 (s ! 6))) (ucast (s ! 6)) (ucast (drop_bit 8 (s ! 7))) (ucast (s ! 7))"

definition to_ipv4_mapped :: "u16 list \<Rightarrow> ip_addr option" where
  "to_ipv4_mapped s = (if take 6 s = [0, 0, 0, 0, 0, 0xffff] then Some (embedded_v4 s) else None)"

fun is_loopback :: "ip_addr \<Rightarrow> bool" where
  "is_loopback (V4 a b c d) = v4_is_loopback (V4 a b c d)"
| "is_loopback (V6 s) = v6_is_loopback s"

subsection \<open>Parsing\<close>

type_synonym 'a reader = "string \<Rightarrow> ('a \<times> string) option"

definition to_digit :: "nat \<Rightarrow> char \<Rightarrow> nat option" where
  "to_digit radix c =
     (let b = byte_of c;
          d = (if 48 \<le> b \<and> b \<le> 57 then Some (b - 48)
               else if 97 \<le> b \<and> b \<le> 122 then Some (b - 87)
               else if 65 \<le> b \<and> b \<le> 90 then Some (b - 55) else None)
      in case d of None \<Rightarrow> None | Some n \<Rightarrow> if n < radix then Some n else None)"

fun read_digits :: "nat \<Rightarrow> nat \<Rightarrow> nat \<Rightarrow> nat \<Rightarrow> string \<Rightarrow> ((nat \<times> nat) \<times> string) option" where
  "read_digits radix max_digits result seen [] = Some ((result, seen), [])"
| "read_digits radix max_digits result seen (c # cs) =
     (case to_digit radix c of
        None \<Rightarrow> Some ((result, seen), c # cs)
      | Some d \<Rightarrow> if seen + 1 > max_digits then None
                  else read_digits radix max_digits (result * radix + d) (seen + 1) cs)"

definition read_number :: "nat \<Rightarrow> nat \<Rightarrow> bool \<Rightarrow> nat \<Rightarrow> nat reader" where
  "read_number radix max_digits allow_zero_prefix max_value s =
     (case read_digits radix max_digits 0 0 s of
        None \<Rightarrow> None
      | Some ((result, seen), rest) \<Rightarrow>
          if seen = 0 then None
          else if \<not> allow_zero_prefix \<and> s \<noteq> [] \<and> hd s = CHR ''0'' \<and> seen > 1 then None
          else if result > max_value then None
          else Some (result, rest))"

definition read_separator :: "char \<Rightarrow> nat \<Rightarrow> 'a reader \<Rightarrow> 'a reader" where
  "read_separator sep index inner s =
     (if index = 0 then inner s
      else case s of [] \<Rightarrow> None | c # cs \<Rightarrow> if c = sep then inner cs else None)"

definition read_octet :: "nat \<Rightarrow> nat reader" where
  "read_octet index = read_separator (CHR ''.'') index (read_number 10 3 False 255)"

definition read_ipv4_addr :: "(nat \<times> nat \<times> nat \<times> nat) reader" where
  "read_ipv4_addr s =
     (case read_octet 0 s of None \<Rightarrow> None | Some (a, s) \<Rightarrow>
     (case read_octet 1 s of None \<Rightarrow> None | Some (b, s) \<Rightarrow>
     (case read_octet 2 s of None \<Rightarrow> None | Some (c, s) \<Rightarrow>
     (case read_octet 3 s of None \<Rightarrow> None | Some (d, s) \<Rightarrow> Some ((a, b, c, d), s)))))"

text \<open>Groups from position \<open>limit - n\<close> on; the flag tells whether an embedded IPv4 address ended
  them.\<close>

fun read_groups :: "nat \<Rightarrow> nat \<Rightarrow> string \<Rightarrow> u16 list \<times> bool \<times> string" where
  "read_groups limit 0 s = ([], False, s)"
| "read_groups limit (Suc n) s =
     (let i = limit - Suc n in
      case (if i < limit - 1 then read_separator (CHR '':'') i read_ipv4_addr s else None) of
        Some ((a, b, c, d), s') \<Rightarrow> ([of_nat (a * 256 + b), of_nat (c * 256 + d)], True, s')
      | None \<Rightarrow>
          (case read_separator (CHR '':'') i (read_number 16 4 True 65535) s of
             None \<Rightarrow> ([], False, s)
           | Some (g, s') \<Rightarrow> (let (gs, v4, s'') = read_groups limit n s' in (of_nat g # gs, v4, s''))))"

definition read_ipv6_addr :: "u16 list reader" where
  "read_ipv6_addr s =
     (let (head, head_ipv4, s) = read_groups 8 8 s in
      if length head = 8 then Some (head, s)
      else if head_ipv4 then None
      else case s of
        c # c' # s' \<Rightarrow>
          if c = CHR '':'' \<and> c' = CHR '':'' then
            (let limit = 8 - (length head + 1); (tail, _, s'') = read_groups limit limit s'
             in Some (head @ replicate (8 - length head - length tail) 0 @ tail, s''))
          else None
      | _ \<Rightarrow> None)"

definition parse_ip :: "string \<Rightarrow> ip_addr option" where
  "parse_ip s =
     (case (case read_ipv4_addr s of
              Some ((a, b, c, d), rest) \<Rightarrow> Some (V4 (of_nat a) (of_nat b) (of_nat c) (of_nat d), rest)
            | None \<Rightarrow> (case read_ipv6_addr s of None \<Rightarrow> None | Some (segs, rest) \<Rightarrow> Some (V6 segs, rest))) of
        Some (ip, []) \<Rightarrow> Some ip
      | _ \<Rightarrow> None)"

text \<open>\<open>Display for Ipv4Addr\<close>.\<close>

definition show_ipv4 :: "byte \<Rightarrow> byte \<Rightarrow> byte \<Rightarrow> byte \<Rightarrow> string" where
  "show_ipv4 a b c d = show_nat (unat a) @ ''.'' @ show_nat (unat b) @ ''.'' @ show_nat (unat c) @ ''.'' @ show_nat (unat d)"

text \<open>\<open>Display for Ipv6Addr\<close>: the longest run of zero segments, if longer than one, is written \<open>::\<close>.\<close>

definition hex_char :: "nat \<Rightarrow> char" where
  "hex_char d = char_of (if d < 10 then 48 + d else 87 + d)"

fun show_hex :: "nat \<Rightarrow> string" where
  "show_hex n = (if n < 16 then [hex_char n] else show_hex (n div 16) @ [hex_char (n mod 16)])"

declare show_hex.simps [simp del]

definition longest_zeroes :: "u16 list \<Rightarrow> nat \<times> nat" where
  "longest_zeroes segs =
     fst (fold (\<lambda>(i, seg) (longest, current).
         if seg = 0 then
           let current = (if snd current = 0 then (i, 1) else (fst current, snd current + 1))
           in (if snd current > snd longest then current else longest, current)
         else (longest, (0, 0))) (enumerate 0 segs) ((0, 0), (0, 0)))"

fun join_segments :: "u16 list \<Rightarrow> string" where
  "join_segments [] = []"
| "join_segments [x] = show_hex (unat x)"
| "join_segments (x # y # ys) = show_hex (unat x) @ '':'' @ join_segments (y # ys)"

definition show_ipv6 :: "u16 list \<Rightarrow> string" where
  "show_ipv6 segs =
     (case to_ipv4_mapped segs of
        Some (V4 a b c d) \<Rightarrow> ''::ffff:'' @ show_ipv4 a b c d
      | _ \<Rightarrow>
          let (start, len) = longest_zeroes segs in
          if len > 1 then join_segments (take start segs) @ ''::'' @ join_segments (drop (start + len) segs)
          else join_segments segs)"

subsection \<open>Text\<close>

definition to_ascii_lowercase :: "string \<Rightarrow> string" where
  "to_ascii_lowercase = map (\<lambda>c. if 65 \<le> byte_of c \<and> byte_of c \<le> 90 then char_of (byte_of c + 32) else c)"

definition trim_end_matches :: "char \<Rightarrow> string \<Rightarrow> string" where
  "trim_end_matches c s = rev (dropWhile (\<lambda>x. x = c) (rev s))"

definition ends_with :: "string \<Rightarrow> string \<Rightarrow> bool" where
  "ends_with s suffix = (length suffix \<le> length s \<and> drop (length s - length suffix) s = suffix)"

text \<open>\<open>str::split\<close> on a set of characters: the pieces between separators, empty ones included.\<close>

fun split_on :: "(char \<Rightarrow> bool) \<Rightarrow> string \<Rightarrow> string list" where
  "split_on sep [] = [[]]"
| "split_on sep (c # cs) =
     (if sep c then [] # split_on sep cs
      else case split_on sep cs of [] \<Rightarrow> [[c]] | p # ps \<Rightarrow> (c # p) # ps)"

subsection \<open>Evaluation\<close>

lemma read_groups_rec: "read_groups limit n s = (if n = 0 then ([], False, s) else
     (let i = limit - n in
      case (if i < limit - 1 then read_separator (CHR '':'') i read_ipv4_addr s else None) of
        Some ((a, b, c, d), s') \<Rightarrow> ([of_nat (a * 256 + b), of_nat (c * 256 + d)], True, s')
      | None \<Rightarrow>
          (case read_separator (CHR '':'') i (read_number 16 4 True 65535) s of
             None \<Rightarrow> ([], False, s)
           | Some (g, s') \<Rightarrow> (let (gs, v4, s'') = read_groups limit (n - 1) s' in (of_nat g # gs, v4, s'')))))"
proof (cases n)
  case (Suc m)
  show ?thesis unfolding Suc read_groups.simps(2) diff_Suc_1 by simp
qed simp

lemmas parse_eval = parse_ip_def read_ipv4_addr_def read_octet_def read_separator_def read_number_def to_digit_def
  read_ipv6_addr_def

lemmas text_eval = trim_def trim_start.simps is_blank_def trim_end_matches_def to_ascii_lowercase_def ends_with_def

subsection \<open>Printing and parsing an IPv4 address\<close>

text \<open>Reading the digits of a number that \<open>show_nat\<close> wrote.\<close>

lemma to_digit_show: "n < 10 \<Longrightarrow> to_digit 10 (char_of (48 + n)) = Some n"
  by (simp add: to_digit_def)

definition no_digit :: "string \<Rightarrow> bool" where
  "no_digit s = (case s of [] \<Rightarrow> True | c # _ \<Rightarrow> to_digit 10 c = None)"

lemma read_digits_stop: "no_digit rest \<Longrightarrow> read_digits 10 m r k rest = Some ((r, k), rest)"
  by (cases rest) (simp_all add: no_digit_def)

lemma read_digits_show:
  assumes "k + length (show_nat n) \<le> m"
  shows "read_digits 10 m r k (show_nat n @ rest)
    = read_digits 10 m (r * 10 ^ length (show_nat n) + n) (k + length (show_nat n)) rest"
  using assms
proof (induction n arbitrary: rest r k rule: show_nat.induct)
  case (1 n)
  show ?case
  proof (cases "n < 10")
    case True
    with 1(2) show ?thesis by (simp add: show_nat.simps [of n] to_digit_show)
  next
    case False
    let ?q = "n div 10" and ?d = "char_of (48 + n mod 10)"
    have s: "show_nat n = show_nat ?q @ [?d]" using False by (subst show_nat.simps) simp
    have "read_digits 10 m r k (show_nat ?q @ ?d # rest)
      = read_digits 10 m (r * 10 ^ length (show_nat ?q) + ?q) (k + length (show_nat ?q)) (?d # rest)"
      using 1(2) False by (intro 1(1)) (simp_all add: s)
    also have "\<dots> = read_digits 10 m ((r * 10 ^ length (show_nat ?q) + ?q) * 10 + n mod 10)
        (k + length (show_nat ?q) + 1) rest"
      using 1(2) by (simp add: s to_digit_show)
    also have "(r * 10 ^ length (show_nat ?q) + ?q) * 10 + n mod 10 = r * 10 ^ length (show_nat n) + n"
      by (simp add: s algebra_simps)
    finally show ?thesis by (simp add: s)
  qed
qed

lemma show_nat_length: "n < 10 ^ Suc k \<Longrightarrow> length (show_nat n) \<le> Suc k"
proof (induction k arbitrary: n)
  case 0
  then show ?case by (subst show_nat.simps) simp
next
  case (Suc k)
  then have "length (show_nat (n div 10)) \<le> Suc k" by (intro Suc.IH) (simp add: less_mult_imp_div_less)
  then show ?case by (subst show_nat.simps) simp
qed

lemma show_nat_no_zero: "hd (show_nat n) = CHR ''0'' \<Longrightarrow> length (show_nat n) = 1"
proof (induction n rule: show_nat.induct)
  case (1 n)
  show ?case
  proof (cases "n < 10")
    case True
    then show ?thesis by (subst show_nat.simps) simp
  next
    case False
    then have s: "show_nat n = show_nat (n div 10) @ [char_of (48 + n mod 10)]" by (subst show_nat.simps) simp
    with 1 False have l: "length (show_nat (n div 10)) = 1" by simp
    have "hd (show_nat (n div 10)) = CHR ''0''" using 1(2) s by simp
    moreover have "n div 10 < 10" using l show_nat.simps [of "n div 10"] by (auto split: if_splits)
    ultimately have "char_of (48 + n div 10) = CHR ''0''" by (simp add: show_nat.simps [of "n div 10"])
    then have "of_char (char_of (48 + n div 10) :: char) = (48 :: nat)" by simp
    with \<open>n div 10 < 10\<close> have "n div 10 = 0" by simp
    with False show ?thesis by simp
  qed
qed

lemma read_number_show:
  assumes "n \<le> 255" and "no_digit rest"
  shows "read_number 10 3 False 255 (show_nat n @ rest) = Some (n, rest)"
proof -
  have l: "length (show_nat n) \<le> 3" using show_nat_length [of n 2] assms(1) by simp
  then have "read_digits 10 3 0 0 (show_nat n @ rest) = Some ((n, length (show_nat n)), rest)"
    using read_digits_show [of 0 n 3 0 rest] read_digits_stop [OF assms(2)] by simp
  with assms(1) show_nat_no_zero [of n] show ?thesis by (auto simp: read_number_def)
qed

lemma read_octet_show:
  assumes "n \<le> 255" and "no_digit rest"
  shows "read_octet 0 (show_nat n @ rest) = Some (n, rest)"
    and "0 < i \<Longrightarrow> read_octet i (CHR ''.'' # show_nat n @ rest) = Some (n, rest)"
  using read_number_show [OF assms] by (simp_all add: read_octet_def read_separator_def)

lemma no_digit_simps [simp]: "no_digit []" "no_digit (CHR ''.'' # s)"
  by (simp_all add: no_digit_def to_digit_def)

text \<open>Every IPv4 address is read back from its text.\<close>

lemma unat_octet: "unat (a :: byte) \<le> 255"
proof -
  have "unat a < 2 ^ LENGTH(8)" by (rule unsigned_less)
  then show ?thesis by simp
qed

lemma parse_show_ipv4: "parse_ip (show_ipv4 a b c d) = Some (V4 a b c d)"
proof -
  have "read_ipv4_addr (show_ipv4 a b c d) = Some ((unat a, unat b, unat c, unat d), [])"
    using read_octet_show(2) [of "unat d" "[]" 3]
    by (simp add: read_ipv4_addr_def show_ipv4_def read_octet_show unat_octet)
  then show ?thesis by (simp add: parse_ip_def)
qed

end
