(* ===== verification/Egress.thy ===== *)
theory Egress
  imports Net
begin

text \<open>
  Outbound network policy: \<open>EgressPolicy\<close> of \<open>governance/contracts.rs\<close>, and the addresses to which
  the broker of \<open>governance/egress\_broker.rs\<close> connects. A set of domains is a list.
\<close>

unbundle bit_operations_syntax

subsection \<open>The policy\<close>

datatype egress_decision = EgAllow | EgDeny

record egress_policy =
  ep_default_decision :: egress_decision
  ep_allowed_domains :: "string list"
  ep_denied_domains :: "string list"
  ep_allow_loopback :: bool
  ep_allow_private_networks :: bool
  ep_allowed_unix_sockets :: "string list"

definition deny_all :: egress_policy where
  "deny_all = \<lparr>ep_default_decision = EgDeny, ep_allowed_domains = [], ep_denied_domains = [],
     ep_allow_loopback = False, ep_allow_private_networks = False, ep_allowed_unix_sockets = []\<rparr>"

definition normalise_domain :: "string \<Rightarrow> string" where
  "normalise_domain s = to_ascii_lowercase (trim_end_matches (CHR ''.'') (trim s))"

definition domain_matches :: "string \<Rightarrow> string \<Rightarrow> bool" where
  "domain_matches pattern domain =
     (let pattern = normalise_domain pattern in
      if pattern = ''*'' then False
      else case strip_prefix ''*.'' pattern of
        Some suffix \<Rightarrow> length domain > length suffix \<and> ends_with domain (''.'' @ suffix)
      | None \<Rightarrow> pattern = domain)"

fun is_private_or_local :: "ip_addr \<Rightarrow> bool" where
  "is_private_or_local (V4 a b c d) =
     (let ip = V4 a b c d in
      v4_is_private ip \<or> v4_is_link_local ip \<or> v4_is_broadcast ip \<or> v4_is_unspecified ip \<or> a = 0)"
| "is_private_or_local (V6 s) = (v6_is_unique_local s \<or> v6_is_unicast_link_local s \<or> v6_is_unspecified s)"

definition evaluate_destination :: "egress_policy \<Rightarrow> string \<Rightarrow> egress_decision" where
  "evaluate_destination p destination =
     (let normalized = normalise_domain destination in
      if normalized = [] then EgDeny
      else if (case parse_ip normalized of
                 None \<Rightarrow> False
               | Some ip \<Rightarrow> is_loopback ip \<and> \<not> ep_allow_loopback p
                   \<or> is_private_or_local ip \<and> \<not> ep_allow_private_networks p)
      then EgDeny
      else if list_ex (\<lambda>pattern. domain_matches pattern normalized) (ep_denied_domains p) then EgDeny
      else if list_ex (\<lambda>pattern. domain_matches pattern normalized) (ep_allowed_domains p) then EgAllow
      else ep_default_decision p)"

subsection \<open>Addresses the broker may connect to\<close>

fun destination_ipv4_allowed :: "egress_policy \<Rightarrow> ip_addr \<Rightarrow> bool" where
  "destination_ipv4_allowed p (V4 a b c d) =
     (let ip = V4 a b c d in
      if v4_is_loopback ip then ep_allow_loopback p
      else if v4_is_private ip then ep_allow_private_networks p
      else \<not> (v4_is_link_local ip \<or> v4_is_broadcast ip \<or> v4_is_documentation ip \<or> v4_is_unspecified ip
               \<or> v4_is_multicast ip \<or> a = 0 \<or> (a = 100 \<and> 64 \<le> b \<and> b \<le> 127) \<or> (a = 192 \<and> b = 0)
               \<or> (a = 192 \<and> b = 88) \<or> (a = 198 \<and> 18 \<le> b \<and> b \<le> 19) \<or> a \<ge> 240))"
| "destination_ipv4_allowed p (V6 s) = False"

definition ipv6_destination_is_public :: "u16 list \<Rightarrow> bool" where
  "ipv6_destination_is_public s =
     (let first = s ! 0 in
      if first AND 0xe000 \<noteq> 0x2000 then False
      else if first = 0x2001 \<and> s ! 1 \<le> 0x01ff then
        (let protocol_anycast = (s ! 1 = 0x0001 \<and> list_all (\<lambda>seg. seg = 0) (take 5 (drop 2 s))
               \<and> 0x0001 \<le> s ! 7 \<and> s ! 7 \<le> 0x0003);
             amt = (s ! 1 = 0x0003);
             as112 = (s ! 1 = 0x0004 \<and> s ! 2 = 0x0112);
             orchid_v2 = (s ! 1 AND 0xfff0 = 0x0020);
             drone_remote_id = (s ! 1 AND 0xfff0 = 0x0030)
         in protocol_anycast \<or> amt \<or> as112 \<or> orchid_v2 \<or> drone_remote_id)
      else \<not> (first = 0x2001 \<and> s ! 1 = 0x0db8 \<or> first = 0x2002 \<or> first = 0x3ffe
               \<or> first = 0x3fff \<and> s ! 1 AND 0xf000 = 0))"

definition destination_ipv6_allowed :: "egress_policy \<Rightarrow> u16 list \<Rightarrow> bool" where
  "destination_ipv6_allowed p s =
     (case to_ipv4_mapped s of
        Some mapped \<Rightarrow> destination_ipv4_allowed p mapped
      | None \<Rightarrow>
          if v6_is_loopback s then ep_allow_loopback p
          else if list_all (\<lambda>seg. seg = 0) (take 6 s) then destination_ipv4_allowed p (embedded_v4 s)
          else if v6_is_unique_local s then ep_allow_private_networks p
          else ipv6_destination_is_public s)"

fun destination_ip_allowed :: "egress_policy \<Rightarrow> ip_addr \<Rightarrow> bool" where
  "destination_ip_allowed p (V4 a b c d) = destination_ipv4_allowed p (V4 a b c d)"
| "destination_ip_allowed p (V6 s) = destination_ipv6_allowed p s"

subsection \<open>Addresses of internal networks\<close>

text \<open>The IPv4 networks that are not public: this host, private and shared networks, link-local
  addresses (which include the metadata services of cloud providers) and \<open>0.0.0.0/8\<close>.\<close>

fun internal_v4 :: "ip_addr \<Rightarrow> bool" where
  "internal_v4 (V4 a b _ _) =
     (a = 0 \<or> a = 10 \<or> a = 127 \<or> (a = 100 \<and> 64 \<le> b \<and> b \<le> 127) \<or> (a = 169 \<and> b = 254)
      \<or> (a = 172 \<and> 16 \<le> b \<and> b \<le> 31) \<or> (a = 192 \<and> b = 168))"
| "internal_v4 (V6 _) = False"

text \<open>The two kinds of internal network that a policy can open: loopback and private networks.\<close>

fun loopback_v4 :: "ip_addr \<Rightarrow> bool" where
  "loopback_v4 (V4 a _ _ _) = (a = 127)"
| "loopback_v4 (V6 _) = False"

fun private_v4 :: "ip_addr \<Rightarrow> bool" where
  "private_v4 (V4 a b _ _) = (a = 10 \<or> (a = 172 \<and> 16 \<le> b \<and> b \<le> 31) \<or> (a = 192 \<and> b = 168))"
| "private_v4 (V6 _) = False"

text \<open>An IPv6 address carries an IPv4 address when it is mapped or compatible. It is internal when it
  is loopback, unspecified, unique local or link local, or when it carries an internal address.\<close>

definition carries_v4 :: "u16 list \<Rightarrow> bool" where
  "carries_v4 s \<longleftrightarrow> take 6 s = [0, 0, 0, 0, 0, 0xffff] \<or> take 6 s = [0, 0, 0, 0, 0, 0]"

definition internal_v6 :: "u16 list \<Rightarrow> bool" where
  "internal_v6 s \<longleftrightarrow> v6_is_loopback s \<or> v6_is_unspecified s \<or> v6_is_unique_local s \<or> v6_is_unicast_link_local s
     \<or> carries_v4 s \<and> internal_v4 (embedded_v4 s)"

fun internal_address :: "ip_addr \<Rightarrow> bool" where
  "internal_address (V4 a b c d) = internal_v4 (V4 a b c d)"
| "internal_address (V6 s) = internal_v6 s"

fun loopback_address :: "ip_addr \<Rightarrow> bool" where
  "loopback_address (V4 a b c d) = loopback_v4 (V4 a b c d)"
| "loopback_address (V6 s) = (s = [0, 0, 0, 0, 0, 0, 0, 1] \<or> carries_v4 s \<and> loopback_v4 (embedded_v4 s))"

fun private_address :: "ip_addr \<Rightarrow> bool" where
  "private_address (V4 a b c d) = private_v4 (V4 a b c d)"
| "private_address (V6 s) = (s ! 0 AND 0xfe00 = 0xfc00 \<or> carries_v4 s \<and> private_v4 (embedded_v4 s))"

text \<open>The addresses that the policy opens as exceptions.\<close>

definition excepted_address :: "egress_policy \<Rightarrow> ip_addr \<Rightarrow> bool" where
  "excepted_address p ip \<longleftrightarrow> loopback_address ip \<and> ep_allow_loopback p
     \<or> private_address ip \<and> ep_allow_private_networks p"

lemma internal_v4_excepted:
  assumes "internal_v4 ip" and "destination_ipv4_allowed p ip"
  shows "loopback_v4 ip \<and> ep_allow_loopback p \<or> private_v4 ip \<and> ep_allow_private_networks p"
proof (cases ip)
  case (V4 a b c d)
  with assms(1) have "a = 0 \<or> a = 10 \<or> a = 127 \<or> (a = 100 \<and> 64 \<le> b \<and> b \<le> 127) \<or> (a = 169 \<and> b = 254)
      \<or> (a = 172 \<and> 16 \<le> b \<and> b \<le> 31) \<or> (a = 192 \<and> b = 168)" by simp
  with V4 assms(2) show ?thesis by (elim disjE conjE) (simp_all add: Let_def)
qed (use assms in simp)

text \<open>Global unicast addresses are disjoint from the local ranges.\<close>

lemma public_not_local:
  assumes "(w :: u16) AND 0xe000 = 0x2000"
  shows "w AND 0xfe00 \<noteq> 0xfc00" and "w AND 0xffc0 \<noteq> 0xfe80"
proof -
  have *: "w AND 0xe000 = (w AND m) AND 0xe000" if "m AND 0xe000 = (0xe000 :: u16)" for m
    by (simp add: and.assoc that)
  show "w AND 0xfe00 \<noteq> 0xfc00" using assms * [of "0xfe00"] by auto
  show "w AND 0xffc0 \<noteq> 0xfe80" using assms * [of "0xffc0"] by auto
qed

lemma all_zero_take: "length s = 8 \<Longrightarrow> list_all (\<lambda>seg. seg = 0) (take 6 s) \<longleftrightarrow> take 6 s = [0, 0, 0, 0, 0, (0 :: u16)]"
proof -
  assume "length s = 8"
  then obtain a b c d e f g h where "s = [a, b, c, d, e, f, g, h]"
    by (auto simp: numeral_eq_Suc length_Suc_conv)
  then show ?thesis by simp
qed

lemma internal_v6_excepted:
  assumes "length s = 8" and "internal_v6 s" and "destination_ipv6_allowed p s"
  shows "excepted_address p (V6 s)"
proof -
  obtain a b c d e f g h where s: "s = [a, b, c, d, e, f, g, h]"
    using assms(1) by (auto simp: numeral_eq_Suc length_Suc_conv)
  note local_defs = v6_is_loopback_def v6_is_unspecified_def v6_is_unique_local_def v6_is_unicast_link_local_def
  note allowed_defs = destination_ipv6_allowed_def to_ipv4_mapped_def all_zero_take [OF assms(1)]
  show ?thesis
  proof (cases "carries_v4 s")
    case True
    show ?thesis
    proof (cases "v6_is_loopback s")
      case False
      with True have v4: "internal_v4 (embedded_v4 s)"
        using assms(2) by (auto simp: internal_v6_def carries_v4_def local_defs s embedded_v4_def)
      have "destination_ipv4_allowed p (embedded_v4 s)"
        using assms(3) True False by (auto simp: allowed_defs carries_v4_def)
      from internal_v4_excepted [OF v4 this] True show ?thesis by (auto simp: excepted_address_def)
    qed (use assms(3) in \<open>auto simp: excepted_address_def allowed_defs local_defs s\<close>)
  next
    case False
    then have "v6_is_unique_local s \<or> v6_is_unicast_link_local s"
      using assms(2) by (auto simp: internal_v6_def carries_v4_def local_defs s)
    moreover have "\<not> v6_is_loopback s" using False by (auto simp: carries_v4_def local_defs s)
    ultimately show ?thesis
      using False assms(3) public_not_local [of "s ! 0"]
      by (auto simp: allowed_defs carries_v4_def excepted_address_def
          ipv6_destination_is_public_def local_defs Let_def split: if_splits)
  qed
qed

fun well_formed_ip :: "ip_addr \<Rightarrow> bool" where
  "well_formed_ip (V4 a b c d) = True"
| "well_formed_ip (V6 s) = (length s = 8)"

lemma internal_excepted:
  assumes "well_formed_ip ip" and "destination_ip_allowed p ip" and "internal_address ip"
  shows "excepted_address p ip"
  using assms internal_v4_excepted internal_v6_excepted by (cases ip) (auto simp: excepted_address_def)

subsection \<open>The text of an IPv4 address\<close>

definition plain_char :: "char \<Rightarrow> bool" where
  "plain_char c \<longleftrightarrow> 33 \<le> byte_of c \<and> byte_of c \<le> 126"

lemma plain_not_blank: "list_all plain_char s \<Longrightarrow> s \<noteq> [] \<Longrightarrow> \<not> is_blank s"
  by (cases s) (auto simp: is_blank_def plain_char_def split: list.splits)

lemma trim_plain:
  assumes "list_all plain_char s"
  shows "trim s = s"
proof -
  have part: "\<not> is_blank (take (Suc k) s)" if "s \<noteq> []" for k
    using assms that by (intro plain_not_blank) (auto simp: list_all_iff dest: in_set_takeD)
  have "trim_start s = s"
    using part [of 0] part [of 1] part [of 2] by (subst trim_start.simps) (auto simp: numeral_eq_Suc)
  moreover have "trim_end s = s" using assms
  proof (induction s)
    case (Cons c cs)
    with plain_not_blank [of "c # cs"] show ?case by simp
  qed simp
  ultimately show ?thesis by (simp add: trim_def)
qed

lemma show_nat_digits: "c \<in> set (show_nat n) \<Longrightarrow> 48 \<le> byte_of c \<and> byte_of c \<le> 57"
proof (induction n rule: show_nat.induct)
  case (1 n)
  then show ?case by (cases "n < 10") (auto simp: show_nat.simps [of n])
qed

lemma show_ipv4_chars: "c \<in> set (show_ipv4 a b c' d) \<Longrightarrow> 48 \<le> byte_of c \<and> byte_of c \<le> 57 \<or> c = CHR ''.''"
  by (auto simp: show_ipv4_def dest: show_nat_digits)

lemma last_show_ipv4: "last (show_ipv4 a b c d) \<noteq> CHR ''.''"
proof -
  have "last (show_ipv4 a b c d) = last (show_nat (unat d))" by (simp add: show_ipv4_def)
  then show ?thesis using show_nat_digits [of "last (show_nat (unat d))" "unat d"] by auto
qed

lemma trim_end_matches_last: "s \<noteq> [] \<Longrightarrow> last s \<noteq> c \<Longrightarrow> trim_end_matches c s = s"
  by (cases s rule: rev_cases) (simp_all add: trim_end_matches_def)

lemma normalise_show_ipv4: "normalise_domain (show_ipv4 a b c d) = show_ipv4 a b c d"
proof -
  let ?s = "show_ipv4 a b c d"
  have ne: "?s \<noteq> []" by (simp add: show_ipv4_def)
  have "trim ?s = ?s" by (rule trim_plain) (auto simp: list_all_iff plain_char_def dest: show_ipv4_chars)
  moreover have "trim_end_matches (CHR ''.'') ?s = ?s" using ne last_show_ipv4 by (rule trim_end_matches_last)
  moreover have "to_ascii_lowercase ?s = ?s"
    unfolding to_ascii_lowercase_def by (rule map_idI) (auto dest: show_ipv4_chars)
  ultimately show ?thesis by (simp add: normalise_domain_def)
qed

text \<open>Every loopback, private, link-local or unspecified IPv4 address is denied as a
  destination, whatever domain lists and default the policy has, unless its exception is set.\<close>

theorem internal_ipv4_literal_denied:
  assumes "ip = V4 a b c d"
    and "is_loopback ip \<and> \<not> ep_allow_loopback p \<or> is_private_or_local ip \<and> \<not> ep_allow_private_networks p"
  shows "evaluate_destination p (show_ipv4 a b c d) = EgDeny"
  using assms by (auto simp: evaluate_destination_def normalise_show_ipv4 parse_show_ipv4 Let_def)

theorem internal_ipv4_literal_denied_witness:
  "evaluate_destination \<lparr>ep_default_decision = EgAllow, ep_allowed_domains = [''127.8.0.1''], ep_denied_domains = [],
     ep_allow_loopback = False, ep_allow_private_networks = True, ep_allowed_unix_sockets = []\<rparr> (show_ipv4 127 8 0 1) = EgDeny"
  by (rule internal_ipv4_literal_denied [OF refl]) simp

text \<open>An IPv4-mapped IPv6 literal escapes both tests of the policy.\<close>

theorem mapped_loopback_literal_allowed:
  "evaluate_destination (deny_all\<lparr>ep_default_decision := EgAllow\<rparr>) ''::ffff:127.0.0.1'' = EgAllow"
proof -
  have "normalise_domain ''::ffff:127.0.0.1'' = ''::ffff:127.0.0.1''"
    by (simp add: normalise_domain_def text_eval)
  moreover have zeros: "replicate 5 (0 :: u16) = [0, 0, 0, 0, 0]" by (simp add: numeral_eq_Suc)
  moreover have "parse_ip ''::ffff:127.0.0.1'' = Some (V6 [0, 0, 0, 0, 0, 0xffff, 0x7f00, 1])"
    by (simp add: parse_eval read_groups_rec [of 8 8] read_groups_rec [of 7 7] read_groups_rec [of 7 6] zeros)
  ultimately show ?thesis
    by (simp add: evaluate_destination_def deny_all_def v6_is_loopback_def v6_is_unique_local_def
        v6_is_unicast_link_local_def v6_is_unspecified_def)
qed
end
