(* ===== verification/Broker.thy ===== *)
theory Broker
  imports Egress
begin

text \<open>
  The HTTP broker of \<open>governance/egress\_broker.rs\<close>. The \<open>url\<close>, \<open>http\<close> and \<open>reqwest\<close> crates are
  parameters: a URL and a header map are abstract values with the operations that the broker calls
  (\<open>http\_ops\<close>); DNS and transport are functions of the hop number, so that answers may change
  between two hops. A run of the broker gives its result and the requests it sent, in order.
  Timeouts other than that of DNS belong to the transport.
\<close>

subsection \<open>Building a broker\<close>

datatype egress_scheme = Http | Https

datatype broker_error =
    PolicyMustDenyByDefault | InvalidDomainPattern | InvalidPortPolicy | InvalidUrl | UrlTooLong nat
  | UrlCredentialsForbidden | UrlFragmentForbidden | SchemeDenied | HostMissing | DomainDenied | PortDenied
  | MethodDenied | ForbiddenRequestHeader | RequestHeadersTooLarge nat | RequestBodyTooLarge nat
  | DnsTimeout | DnsFailed | DnsReturnedNoAddresses | DestinationAddressDenied | ClientConstructionFailed
  | TransportFailed | UnexpectedResponseUrl | RedirectLocationInvalid | RedirectStatusDenied | RedirectLoop
  | RedirectLimitExceeded nat | CrossOriginBodyRedirectDenied | ResponseHeadersTooLarge nat
  | ResponseBodyTooLarge nat | BrowserProxyPolicyIncompatible

definition scheme_parse :: "string \<Rightarrow> broker_error + egress_scheme" where
  "scheme_parse v = (if v = ''http'' then Inr Http else if v = ''https'' then Inr Https else Inl SchemeDenied)"

record egress_broker =
  eb_policy :: egress_policy
  eb_allowed_schemes :: "egress_scheme list"
  eb_allowed_ports :: "nat list"
  eb_allowed_methods :: "string list"
  eb_max_redirects :: nat
  eb_max_url_bytes :: nat
  eb_max_request_header_bytes :: nat
  eb_max_request_body_bytes :: nat
  eb_max_response_header_bytes :: nat
  eb_max_response_body_bytes :: nat

definition broker_builder :: "egress_policy \<Rightarrow> egress_broker" where
  "broker_builder policy = \<lparr>eb_policy = policy, eb_allowed_schemes = [], eb_allowed_ports = [], eb_allowed_methods = [],
     eb_max_redirects = 5, eb_max_url_bytes = 8 * 1024, eb_max_request_header_bytes = 64 * 1024,
     eb_max_request_body_bytes = 2 * 1024 * 1024, eb_max_response_header_bytes = 64 * 1024,
     eb_max_response_body_bytes = 2 * 1024 * 1024\<rparr>"

definition valid_label :: "string \<Rightarrow> bool" where
  "valid_label l = (l \<noteq> [] \<and> length l \<le> 63 \<and> hd l \<noteq> CHR ''-'' \<and> last l \<noteq> CHR ''-''
     \<and> list_all (\<lambda>c. let b = byte_of c in
          48 \<le> b \<and> b \<le> 57 \<or> 65 \<le> b \<and> b \<le> 90 \<or> 97 \<le> b \<and> b \<le> 122 \<or> b = 45) l)"

definition normalize_domain_pattern :: "string \<Rightarrow> broker_error + string" where
  "normalize_domain_pattern pattern =
     (let normalized = normalise_domain pattern;
          domain = (case strip_prefix ''*.'' normalized of Some d \<Rightarrow> d | None \<Rightarrow> normalized)
      in if normalized = ''*'' \<or> domain = [] \<or> length domain > 253 \<or> hd domain = CHR ''.''
            \<or> parse_ip domain = None \<and> \<not> list_all valid_label (split_on (\<lambda>c. c = CHR ''.'') domain)
         then Inl InvalidDomainPattern else Inr normalized)"

fun normalize_patterns :: "string list \<Rightarrow> broker_error + string list" where
  "normalize_patterns [] = Inr []"
| "normalize_patterns (p # ps) =
     bindR (normalize_domain_pattern p) (\<lambda>n. bindR (normalize_patterns ps) (\<lambda>ns. Inr (n # ns)))"

definition broker_build :: "egress_broker \<Rightarrow> broker_error + egress_broker" where
  "broker_build b =
     (if ep_default_decision (eb_policy b) \<noteq> EgDeny then Inl PolicyMustDenyByDefault
      else if 0 \<in> set (eb_allowed_ports b) then Inl InvalidPortPolicy
      else bindR (normalize_patterns (ep_allowed_domains (eb_policy b))) (\<lambda>allowed.
           bindR (normalize_patterns (ep_denied_domains (eb_policy b))) (\<lambda>denied.
             Inr (b\<lparr>eb_policy := (eb_policy b)\<lparr>ep_allowed_domains := allowed, ep_denied_domains := denied\<rparr>,
                    eb_max_url_bytes := max (eb_max_url_bytes b) 1,
                    eb_max_request_header_bytes := max (eb_max_request_header_bytes b) 1,
                    eb_max_response_header_bytes := max (eb_max_response_header_bytes b) 1\<rparr>))))"

definition browser_proxy_assertion :: "egress_broker \<Rightarrow> broker_error + string list" where
  "browser_proxy_assertion b =
     (let p = eb_policy b;
          exact_https = (set (eb_allowed_schemes b) = {Https});
          exact_port = (set (eb_allowed_ports b) = {443});
          exact_hosts = (ep_allowed_domains p \<noteq> [] \<and> list_all (\<lambda>host.
            strip_prefix ''*.'' host = None \<and> evaluate_destination p host = EgAllow) (ep_allowed_domains p))
      in if \<not> exact_https \<or> \<not> exact_port \<or> \<not> exact_hosts \<or> ep_allow_loopback p \<or> ep_allow_private_networks p
         then Inl BrowserProxyPolicyIncompatible else Inr (ep_allowed_domains p))"


subsection \<open>Requests\<close>

datatype url_host = Domain string | HostV4 byte byte byte byte | HostV6 "u16 list"

record ('u, 'h) http_ops =
  u_parse :: "string \<Rightarrow> 'u option"
  u_text :: "'u \<Rightarrow> string"
  u_username :: "'u \<Rightarrow> string"
  u_password :: "'u \<Rightarrow> string option"
  u_fragment :: "'u \<Rightarrow> string option"
  u_scheme :: "'u \<Rightarrow> string"
  u_host :: "'u \<Rightarrow> url_host option"
  u_set_host :: "'u \<Rightarrow> string \<Rightarrow> 'u option"
  u_port_or_known_default :: "'u \<Rightarrow> nat option"
  u_join :: "'u \<Rightarrow> string \<Rightarrow> 'u option"
  h_entries :: "'h \<Rightarrow> (string \<times> string) list"
  h_get_str :: "'h \<Rightarrow> string \<Rightarrow> string option"
  h_insert :: "'h \<Rightarrow> string \<Rightarrow> string \<Rightarrow> 'h"
  h_remove :: "'h \<Rightarrow> string \<Rightarrow> 'h"
  h_empty :: 'h

text \<open>A method is its text, the name of a header is lower-case text, a status its number.\<close>

record ('u, 'h) egress_request =
  rq_method :: string
  rq_url :: 'u
  rq_headers :: 'h
  rq_body :: string

definition request_new :: "('u, 'h) http_ops \<Rightarrow> string \<Rightarrow> string \<Rightarrow> broker_error + ('u, 'h) egress_request" where
  "request_new H meth url =
     (if length url > 8 * 1024 then Inl (UrlTooLong (8 * 1024))
      else case u_parse H url of None \<Rightarrow> Inl InvalidUrl
      | Some u \<Rightarrow> Inr \<lparr>rq_method = meth, rq_url = u, rq_headers = h_empty H, rq_body = []\<rparr>)"

definition with_header :: "('u, 'h) http_ops \<Rightarrow> string \<Rightarrow> string \<Rightarrow> ('u, 'h) egress_request \<Rightarrow> ('u, 'h) egress_request" where
  "with_header H name v r = r\<lparr>rq_headers := h_insert H (rq_headers r) name v\<rparr>"

definition with_body :: "string \<Rightarrow> ('u, 'h) egress_request \<Rightarrow> ('u, 'h) egress_request" where
  "with_body body r = r\<lparr>rq_body := body\<rparr>"

record 'u destination =
  ds_url :: 'u
  ds_host :: string
  ds_port :: nat
  ds_scheme :: egress_scheme

definition destination_origin :: "'u destination \<Rightarrow> egress_scheme \<times> string \<times> nat" where
  "destination_origin d = (ds_scheme d, ds_host d, ds_port d)"

definition forbidden_request_header :: "string \<Rightarrow> bool" where
  "forbidden_request_header name =
     (name \<in> {''host'', ''connection'', ''content-length'', ''proxy-authorization'', ''te'', ''trailer'',
        ''transfer-encoding'', ''upgrade''} \<or> to_ascii_lowercase name = ''proxy-connection'')"

text \<open>The loop over the headers, with the bytes counted so far.\<close>

fun check_headers :: "nat \<Rightarrow> nat \<Rightarrow> (string \<times> string) list \<Rightarrow> broker_error + unit" where
  "check_headers limit bytes [] = Inr ()"
| "check_headers limit bytes ((name, v) # hs) =
     (if forbidden_request_header name then Inl ForbiddenRequestHeader
      else let bytes = saturating_add (saturating_add bytes (length name)) (length v) in
        if bytes > limit then Inl (RequestHeadersTooLarge limit) else check_headers limit bytes hs)"

definition validate_request :: "('u, 'h) http_ops \<Rightarrow> egress_broker \<Rightarrow> ('u, 'h) egress_request \<Rightarrow> broker_error + unit" where
  "validate_request H b r =
     (if rq_method r \<notin> set (eb_allowed_methods b) \<or> rq_method r = ''CONNECT'' \<or> rq_method r = ''TRACE''
      then Inl MethodDenied
      else if length (rq_body r) > eb_max_request_body_bytes b
      then Inl (RequestBodyTooLarge (eb_max_request_body_bytes b))
      else check_headers (eb_max_request_header_bytes b) 0 (h_entries H (rq_headers r)))"

definition canonical_url_host :: "('u, 'h) http_ops \<Rightarrow> 'u \<Rightarrow> broker_error + string" where
  "canonical_url_host H u =
     (case u_host H u of
        None \<Rightarrow> Inl HostMissing
      | Some (Domain domain) \<Rightarrow> Inr (to_ascii_lowercase (trim_end_matches (CHR ''.'') domain))
      | Some (HostV4 a b c d) \<Rightarrow> Inr (show_ipv4 a b c d)
      | Some (HostV6 segs) \<Rightarrow> Inr (show_ipv6 segs))"

definition validate_url :: "('u, 'h) http_ops \<Rightarrow> egress_broker \<Rightarrow> 'u \<Rightarrow> broker_error + 'u destination" where
  "validate_url H b url =
     (if length (u_text H url) > eb_max_url_bytes b then Inl (UrlTooLong (eb_max_url_bytes b))
      else if u_username H url \<noteq> [] \<or> u_password H url \<noteq> None then Inl UrlCredentialsForbidden
      else if u_fragment H url \<noteq> None then Inl UrlFragmentForbidden
      else bindR (scheme_parse (u_scheme H url)) (\<lambda>scheme.
        if scheme \<notin> set (eb_allowed_schemes b) then Inl SchemeDenied
        else bindR (canonical_url_host H url) (\<lambda>host.
          bindR (case u_host H url of
                   Some (Domain _) \<Rightarrow> (case u_set_host H url host of None \<Rightarrow> Inl InvalidUrl | Some u \<Rightarrow> Inr u)
                 | _ \<Rightarrow> Inr url) (\<lambda>url.
          bindR (canonical_url_host H url) (\<lambda>again.
            if again \<noteq> host then Inl InvalidUrl
            else if evaluate_destination (eb_policy b) host \<noteq> EgAllow then Inl DomainDenied
            else case u_port_or_known_default H url of
              None \<Rightarrow> Inl PortDenied
            | Some port \<Rightarrow>
                if port \<notin> set (eb_allowed_ports b) then Inl PortDenied
                else Inr \<lparr>ds_url = url, ds_host = host, ds_port = port, ds_scheme = scheme\<rparr>)))))"

subsection \<open>Sending\<close>

datatype dns_answer = DnsTimedOut | DnsError | DnsAddresses "ip_addr list"

text \<open>The addresses that the client of one hop is pinned to; the port is that of the request.\<close>

definition pinned_client :: "egress_broker \<Rightarrow> dns_answer \<Rightarrow> bool \<Rightarrow> broker_error + ip_addr set" where
  "pinned_client b answer client_ok =
     (case answer of
        DnsTimedOut \<Rightarrow> Inl DnsTimeout
      | DnsError \<Rightarrow> Inl DnsFailed
      | DnsAddresses ips \<Rightarrow>
          if ips = [] then Inl DnsReturnedNoAddresses
          else if \<not> list_all (destination_ip_allowed (eb_policy b)) ips then Inl DestinationAddressDenied
          else if \<not> client_ok then Inl ClientConstructionFailed
          else Inr (set ips))"

record ('u, 'h) sent_request =
  sq_destination :: "'u destination"
  sq_addresses :: "ip_addr set"
  sq_method :: string
  sq_headers :: 'h
  sq_body :: string

record ('u, 'h) received =
  rc_url :: 'u
  rc_status :: nat
  rc_headers :: 'h
  rc_content_length :: "nat option"
  rc_chunks :: "string option list"

record ('u, 'h) network =
  nw_resolve :: "nat \<Rightarrow> string \<Rightarrow> nat \<Rightarrow> dns_answer"
  nw_client_ok :: "nat \<Rightarrow> bool"
  nw_send :: "nat \<Rightarrow> ('u, 'h) sent_request \<Rightarrow> ('u, 'h) received option"

record ('u, 'h) egress_response =
  er_status :: nat
  er_final_url :: 'u
  er_headers :: 'h
  er_body :: string
  er_redirect_count :: nat

definition header_bytes :: "(string \<times> string) list \<Rightarrow> nat" where
  "header_bytes hs = fold (\<lambda>(name, v) total. saturating_add (saturating_add total (length name)) (length v)) hs 0"

definition validate_response_headers :: "('u, 'h) http_ops \<Rightarrow> egress_broker \<Rightarrow> 'h \<Rightarrow> broker_error + unit" where
  "validate_response_headers H b headers =
     (if header_bytes (h_entries H headers) > eb_max_response_header_bytes b
      then Inl (ResponseHeadersTooLarge (eb_max_response_header_bytes b)) else Inr ())"

definition rewrite_redirect_request ::
  "('u, 'h) http_ops \<Rightarrow> nat \<Rightarrow> bool \<Rightarrow> ('u, 'h) egress_request \<Rightarrow> broker_error + ('u, 'h) egress_request"
where
  "rewrite_redirect_request H status cross_origin r =
     (let r = (if status \<in> {301, 302, 303} \<and> rq_method r \<noteq> ''GET'' \<and> rq_method r \<noteq> ''HEAD''
               then r\<lparr>rq_method := ''GET'', rq_body := [],
                      rq_headers := h_remove H (h_remove H (rq_headers r) ''content-type'') ''content-length''\<rparr>
               else r)
      in if cross_origin then
           if rq_body r \<noteq> [] then Inl CrossOriginBodyRedirectDenied
           else Inr (r\<lparr>rq_headers := h_remove H (h_empty H) ''cookie''\<rparr>)
         else Inr (r\<lparr>rq_headers := h_remove H (h_remove H (rq_headers r) ''proxy-authorization'') ''cookie''\<rparr>))"

text \<open>The body loop: \<open>None\<close> stands for a chunk that failed.\<close>

fun read_body :: "nat \<Rightarrow> string \<Rightarrow> string option list \<Rightarrow> broker_error + string" where
  "read_body limit body [] = Inr body"
| "read_body limit body (None # cs) = Inl TransportFailed"
| "read_body limit body (Some chunk # cs) =
     (if saturating_add (length body) (length chunk) > limit then Inl (ResponseBodyTooLarge limit)
      else read_body limit (body @ chunk) cs)"

definition finish_response ::
  "egress_broker \<Rightarrow> 'u destination \<Rightarrow> nat \<Rightarrow> ('u, 'h) received \<Rightarrow> broker_error + ('u, 'h) egress_response"
where
  "finish_response b current redirects resp =
     (if (case rc_content_length resp of None \<Rightarrow> False | Some l \<Rightarrow> l > eb_max_response_body_bytes b)
      then Inl (ResponseBodyTooLarge (eb_max_response_body_bytes b))
      else bindR (read_body (eb_max_response_body_bytes b) [] (rc_chunks resp)) (\<lambda>body.
        Inr \<lparr>er_status = rc_status resp, er_final_url = ds_url current, er_headers = rc_headers resp, er_body = body,
             er_redirect_count = redirects\<rparr>))"

text \<open>The redirect branch: the next destination and the rewritten request.\<close>

definition follow_redirect ::
  "('u, 'h) http_ops \<Rightarrow> egress_broker \<Rightarrow> 'u destination \<Rightarrow> ('u, 'h) egress_request \<Rightarrow> string set \<Rightarrow> nat
    \<Rightarrow> ('u, 'h) received \<Rightarrow> broker_error + 'u destination \<times> ('u, 'h) egress_request"
where
  "follow_redirect H b current request visited redirects resp =
     (if rc_status resp \<notin> {301, 302, 303, 307, 308} then Inl RedirectStatusDenied
      else if redirects \<ge> eb_max_redirects b then Inl (RedirectLimitExceeded (eb_max_redirects b))
      else case h_get_str H (rc_headers resp) ''location'' of
        None \<Rightarrow> Inl RedirectLocationInvalid
      | Some location \<Rightarrow>
          if length location > eb_max_url_bytes b then Inl (UrlTooLong (eb_max_url_bytes b))
          else case u_join H (ds_url current) location of
            None \<Rightarrow> Inl RedirectLocationInvalid
          | Some next_url \<Rightarrow>
              bindR (validate_url H b next_url) (\<lambda>next.
              bindR (rewrite_redirect_request H (rc_status resp)
                       (destination_origin current \<noteq> destination_origin next) request) (\<lambda>request.
                if u_text H (ds_url next) \<in> visited then Inl RedirectLoop else Inr (next, request))))"

text \<open>\<open>StatusCode::is\_redirection\<close>.\<close>

definition is_redirection :: "nat \<Rightarrow> bool" where
  "is_redirection status = (300 \<le> status \<and> status < 400)"

function execute_loop ::
  "('u, 'h) http_ops \<Rightarrow> egress_broker \<Rightarrow> ('u, 'h) network \<Rightarrow> string set \<Rightarrow> nat \<Rightarrow> 'u destination
    \<Rightarrow> ('u, 'h) egress_request \<Rightarrow> (broker_error + ('u, 'h) egress_response) \<times> ('u, 'h) sent_request list"
where
  "execute_loop H b net visited redirects current request =
     (case validate_request H b request of
        Inl e \<Rightarrow> (Inl e, [])
      | Inr _ \<Rightarrow>
        (case pinned_client b (nw_resolve net redirects (ds_host current) (ds_port current)) (nw_client_ok net redirects) of
           Inl e \<Rightarrow> (Inl e, [])
         | Inr ips \<Rightarrow>
             let sent = \<lparr>sq_destination = current, sq_addresses = ips, sq_method = rq_method request,
                         sq_headers = rq_headers request, sq_body = rq_body request\<rparr>
             in case nw_send net redirects sent of
                  None \<Rightarrow> (Inl TransportFailed, [sent])
                | Some resp \<Rightarrow>
                    if rc_url resp \<noteq> ds_url current then (Inl UnexpectedResponseUrl, [sent])
                    else (case validate_response_headers H b (rc_headers resp) of
                      Inl e \<Rightarrow> (Inl e, [sent])
                    | Inr _ \<Rightarrow>
                        if is_redirection (rc_status resp) then
                          (case follow_redirect H b current request visited redirects resp of
                             Inl e \<Rightarrow> (Inl e, [sent])
                           | Inr (next, request') \<Rightarrow>
                               (let (result, later) = execute_loop H b net (insert (u_text H (ds_url next)) visited)
                                      (redirects + 1) next request'
                                in (result, sent # later)))
                        else (finish_response b current redirects resp, [sent]))))"
  by pat_completeness auto
termination
  by (relation "measure (\<lambda>(H, b, net, visited, redirects, current, request). eb_max_redirects b - redirects)")
    (auto simp: follow_redirect_def split: if_splits)

declare execute_loop.simps [simp del]

definition broker_execute ::
  "('u, 'h) http_ops \<Rightarrow> egress_broker \<Rightarrow> ('u, 'h) network \<Rightarrow> ('u, 'h) egress_request
    \<Rightarrow> (broker_error + ('u, 'h) egress_response) \<times> ('u, 'h) sent_request list"
where
  "broker_execute H b net request =
     (case bindR (validate_request H b request) (\<lambda>_. validate_url H b (rq_url request)) of
        Inl e \<Rightarrow> (Inl e, [])
      | Inr current \<Rightarrow> execute_loop H b net {u_text H (ds_url current)} 0 current request)"

subsection \<open>The shape of a run\<close>

definition sent_as :: "('u, 'h) egress_request \<Rightarrow> 'u destination \<Rightarrow> ip_addr set \<Rightarrow> ('u, 'h) sent_request" where
  "sent_as request current ips = \<lparr>sq_destination = current, sq_addresses = ips, sq_method = rq_method request,
     sq_headers = rq_headers request, sq_body = rq_body request\<rparr>"

text \<open>A run of the loop stops before sending, or sends once and stops, or sends and goes on.\<close>

lemma execute_loop_cases:
  obtains (stopped) e where "execute_loop H b net visited redirects current request = (Inl e, [])"
  | (sent) r ips where "validate_request H b request = Inr ()"
      and "pinned_client b (nw_resolve net redirects (ds_host current) (ds_port current)) (nw_client_ok net redirects) = Inr ips"
      and "execute_loop H b net visited redirects current request = (r, [sent_as request current ips])"
      and "\<And>resp. r = Inr resp \<Longrightarrow> \<exists>received. finish_response b current redirects received = Inr resp"
  | (redirected) r ips received next' request' later where "validate_request H b request = Inr ()"
      and "pinned_client b (nw_resolve net redirects (ds_host current) (ds_port current)) (nw_client_ok net redirects) = Inr ips"
      and "follow_redirect H b current request visited redirects received = Inr (next', request')"
      and "execute_loop H b net (insert (u_text H (ds_url next')) visited) (redirects + 1) next' request' = (r, later)"
      and "execute_loop H b net visited redirects current request = (r, sent_as request current ips # later)"
proof -
  note unfold = execute_loop.simps [of H b net visited redirects current request] sent_as_def [symmetric]
  show thesis
  proof (cases "validate_request H b request")
    case (Inl e)
    then show thesis by (intro stopped [of e]) (simp add: unfold)
  next
    case valid: (Inr u)
    let ?pin = "pinned_client b (nw_resolve net redirects (ds_host current) (ds_port current)) (nw_client_ok net redirects)"
    show thesis
    proof (cases ?pin)
      case (Inl e)
      with valid show thesis by (intro stopped [of e]) (simp add: unfold)
    next
      case pin: (Inr ips)
      note loop = unfold valid pin Let_def
      show thesis
      proof (cases "\<exists>received next' request'. nw_send net redirects (sent_as request current ips) = Some received
          \<and> rc_url received = ds_url current \<and> validate_response_headers H b (rc_headers received) = Inr ()
          \<and> is_redirection (rc_status received)
          \<and> follow_redirect H b current request visited redirects received = Inr (next', request')")
        case True
        then obtain received next' request' where *: "nw_send net redirects (sent_as request current ips) = Some received"
          "rc_url received = ds_url current" "validate_response_headers H b (rc_headers received) = Inr ()"
          "is_redirection (rc_status received)"
          and f: "follow_redirect H b current request visited redirects received = Inr (next', request')" by blast
        obtain r later where "execute_loop H b net (insert (u_text H (ds_url next')) visited) (redirects + 1) next' request' = (r, later)"
          by fastforce
        with valid pin f * show thesis by (intro redirected [OF _ _ f]) (simp_all add: loop)
      next
        case False
        have "\<exists>r. execute_loop H b net visited redirects current request = (r, [sent_as request current ips])
            \<and> (\<forall>resp. r = Inr resp \<longrightarrow> (\<exists>received. finish_response b current redirects received = Inr resp))"
          using False by (auto simp: loop split: option.split sum.split)
        with valid pin show thesis by (auto intro: sent)
      qed
    qed
  qed
qed

subsection \<open>What every request that is sent satisfies\<close>

definition allowed_request :: "('u, 'h) http_ops \<Rightarrow> egress_broker \<Rightarrow> ('u, 'h) sent_request \<Rightarrow> bool" where
  "allowed_request H b q \<longleftrightarrow>
     sq_addresses q \<noteq> {} \<and> (\<forall>ip \<in> sq_addresses q. destination_ip_allowed (eb_policy b) ip)
     \<and> ds_scheme (sq_destination q) \<in> set (eb_allowed_schemes b)
     \<and> ds_port (sq_destination q) \<in> set (eb_allowed_ports b)
     \<and> evaluate_destination (eb_policy b) (ds_host (sq_destination q)) = EgAllow
     \<and> sq_method q \<in> set (eb_allowed_methods b) \<and> sq_method q \<noteq> ''CONNECT'' \<and> sq_method q \<noteq> ''TRACE''
     \<and> length (sq_body q) \<le> eb_max_request_body_bytes b
     \<and> (\<forall>(name, v) \<in> set (h_entries H (sq_headers q)). \<not> forbidden_request_header name)"

definition allowed_destination :: "egress_broker \<Rightarrow> 'u destination \<Rightarrow> bool" where
  "allowed_destination b d \<longleftrightarrow> ds_scheme d \<in> set (eb_allowed_schemes b) \<and> ds_port d \<in> set (eb_allowed_ports b)
     \<and> evaluate_destination (eb_policy b) (ds_host d) = EgAllow"

lemma validate_url_allowed: "validate_url H b url = Inr d \<Longrightarrow> allowed_destination b d"
  by (auto simp: validate_url_def allowed_destination_def result_simps split: if_splits option.splits)

lemma check_headers_allowed:
  "check_headers limit bytes hs = Inr () \<Longrightarrow> (name, v) \<in> set hs \<Longrightarrow> \<not> forbidden_request_header name"
  by (induction limit bytes hs rule: check_headers.induct) (auto simp: Let_def split: if_splits)

lemma sent_allowed:
  assumes "validate_request H b request = Inr ()" and "pinned_client b answer ok = Inr ips"
    and "allowed_destination b current"
  shows "allowed_request H b (sent_as request current ips)"
proof -
  have "ips \<noteq> {} \<and> (\<forall>ip \<in> ips. destination_ip_allowed (eb_policy b) ip)"
    using assms(2) by (auto simp: pinned_client_def list_all_iff split: dns_answer.splits if_splits)
  with assms(1,3) show ?thesis
    by (auto simp: allowed_request_def allowed_destination_def sent_as_def validate_request_def
        dest: check_headers_allowed split: if_splits)
qed

lemma follow_redirectD:
  assumes "follow_redirect H b current request visited redirects received = Inr (next', request')"
  shows "allowed_destination b next'" and "redirects < eb_max_redirects b" and "u_text H (ds_url next') \<notin> visited"
    and "rewrite_redirect_request H (rc_status received) (destination_origin current \<noteq> destination_origin next') request
      = Inr request'"
  using assms by (auto simp: follow_redirect_def result_simps dest: validate_url_allowed split: if_splits option.splits)

text \<open>Induction over the redirects that are left.\<close>

lemma redirect_induct [case_names step]:
  fixes b :: egress_broker
  assumes "\<And>visited redirects current request.
      (\<And>visited' current' request'. redirects < eb_max_redirects b \<Longrightarrow> P visited' (redirects + 1) current' request')
      \<Longrightarrow> P visited redirects current request"
  shows "P visited redirects current request"
proof (induction "eb_max_redirects b - redirects" arbitrary: visited redirects current request rule: less_induct)
  case less
  show ?case by (rule assms) (rule less, simp)
qed

lemma loop_allowed:
  "allowed_destination b current \<Longrightarrow>
    list_all (allowed_request H b) (snd (execute_loop H b net visited redirects current request))"
proof (induction visited redirects current request rule: redirect_induct [where b = b])
  case (step visited redirects current request)
  show ?case
  proof (cases rule: execute_loop_cases [of H b net visited redirects current request])
    case (redirected r ips received next' request' later)
    note f = follow_redirectD [OF redirected(3)]
    have "list_all (allowed_request H b) later" using step.IH [OF f(2,1)] redirected(4) by (metis snd_conv)
    with sent_allowed [OF redirected(1,2) step.prems] redirected(5) show ?thesis by simp
  next
    case (sent r ips)
    with sent_allowed [OF sent(1,2) step.prems] show ?thesis by simp
  qed simp
qed

text \<open>Redirects are bounded and never visit a URL twice.\<close>

lemma loop_urls:
  assumes "u_text H (ds_url current) \<in> visited"
  shows "let sent = snd (execute_loop H b net visited redirects current request);
             urls = map (\<lambda>q. u_text H (ds_url (sq_destination q))) sent
    in length sent \<le> Suc (eb_max_redirects b - redirects) \<and> distinct urls \<and> set (tl urls) \<inter> visited = {}
       \<and> (sent \<noteq> [] \<longrightarrow> sq_destination (hd sent) = current)"
  using assms
proof (induction visited redirects current request rule: redirect_induct [where b = b])
  case (step visited redirects current request)
  let ?url = "\<lambda>q. u_text H (ds_url (sq_destination q))"
  show ?case
  proof (cases rule: execute_loop_cases [of H b net visited redirects current request])
    case (redirected r ips received next' request' later)
    let ?visited = "insert (u_text H (ds_url next')) visited"
    note f = follow_redirectD [OF redirected(3)]
    have IH: "length later \<le> Suc (eb_max_redirects b - (redirects + 1))" "distinct (map ?url later)"
      "set (tl (map ?url later)) \<inter> ?visited = {}" "later \<noteq> [] \<longrightarrow> sq_destination (hd later) = next'"
      using step.IH [of next' ?visited request', OF f(2)] redirected(4) by (simp_all add: Let_def)
    have "set (map ?url later) \<inter> visited = {}"
      using IH(3,4) f(3) by (cases later) auto
    with IH f(2) step.prems redirected(5) show ?thesis by (auto simp: sent_as_def Let_def)
  next
    case (sent r ips)
    then show ?thesis by (simp add: sent_as_def)
  qed simp
qed

text \<open>Across an origin boundary neither a body nor headers are carried.\<close>

definition origin_safe :: "('u, 'h) http_ops \<Rightarrow> ('u, 'h) sent_request \<Rightarrow> ('u, 'h) sent_request \<Rightarrow> bool" where
  "origin_safe H q q' \<longleftrightarrow> destination_origin (sq_destination q) = destination_origin (sq_destination q')
     \<or> sq_body q' = [] \<and> h_entries H (sq_headers q') = []"

lemma loop_first:
  "snd (execute_loop H b net visited redirects current request) = q # qs \<Longrightarrow>
    sq_destination q = current \<and> sq_body q = rq_body request \<and> sq_headers q = rq_headers request"
  by (cases rule: execute_loop_cases [of H b net visited redirects current request]) (auto simp: sent_as_def)

lemma rewrite_cross_origin:
  assumes "rewrite_redirect_request H status True request = Inr request'"
  shows "rq_body request' = []" and "rq_headers request' = h_remove H (h_empty H) ''cookie''"
  using assms by (auto simp: rewrite_redirect_request_def Let_def split: if_splits)

lemma loop_origins:
  assumes "h_entries H (h_remove H (h_empty H) ''cookie'') = []"
  shows "successively (origin_safe H) (snd (execute_loop H b net visited redirects current request))"
proof (induction visited redirects current request rule: redirect_induct [where b = b])
  case (step visited redirects current request)
  show ?case
  proof (cases rule: execute_loop_cases [of H b net visited redirects current request])
    case (redirected r ips received next' request' later)
    note f = follow_redirectD [OF redirected(3)]
    have IH: "successively (origin_safe H) later"
      using step.IH [of "insert (u_text H (ds_url next')) visited" next' request', OF f(2)] redirected(4) by simp
    have "origin_safe H (sent_as request current ips) q" if "later = q # qs" for q qs
    proof -
      have q: "sq_destination q = next' \<and> sq_body q = rq_body request' \<and> sq_headers q = rq_headers request'"
        using loop_first redirected(4) that by (metis snd_conv)
      show ?thesis
      proof (cases "destination_origin current = destination_origin next'")
        case False
        with f(4) q assms rewrite_cross_origin [of H "rc_status received" request request'] show ?thesis
          by (simp add: origin_safe_def)
      qed (simp add: origin_safe_def sent_as_def q)
    qed
    with IH redirected(5) show ?thesis by (cases later) auto
  next
    case (sent r ips)
    then show ?thesis by simp
  qed simp
qed

lemma read_body_bound: "read_body limit body chunks = Inr r \<Longrightarrow> length body \<le> limit \<Longrightarrow> limit < u64_max \<Longrightarrow> length r \<le> limit"
  by (induction limit body chunks rule: read_body.induct) (auto simp: saturating_add_def split: if_splits)

lemma loop_response:
  "fst (execute_loop H b net visited redirects current request) = Inr resp \<Longrightarrow> eb_max_response_body_bytes b < u64_max \<Longrightarrow>
    length (er_body resp) \<le> eb_max_response_body_bytes b
    \<and> er_redirect_count resp + 1 = redirects + length (snd (execute_loop H b net visited redirects current request))"
proof (induction visited redirects current request rule: redirect_induct [where b = b])
  case (step visited redirects current request)
  show ?case
  proof (cases rule: execute_loop_cases [of H b net visited redirects current request])
    case (redirected r ips received next' request' later)
    with step.IH [of "insert (u_text H (ds_url next')) visited" next' request'] follow_redirectD(2) [OF redirected(3)]
      step.prems show ?thesis by simp
  next
    case (sent r ips)
    with step.prems obtain received where "finish_response b current redirects received = Inr resp" by auto
    then show ?thesis
      using sent(3) step.prems(2)
      by (auto simp: finish_response_def result_simps dest: read_body_bound split: if_splits)
  next
    case (stopped e)
    with step.prems show ?thesis by simp
  qed
qed

subsection \<open>Properties\<close>

lemma execute_cases:
  obtains (rejected) e where "broker_execute H b net request = (Inl e, [])"
  | (accepted) current where "validate_url H b (rq_url request) = Inr current"
      and "broker_execute H b net request = execute_loop H b net {u_text H (ds_url current)} 0 current request"
proof (cases "bindR (validate_request H b request) (\<lambda>_. validate_url H b (rq_url request))")
  case (Inl e)
  then show thesis by (intro rejected [of e]) (simp add: broker_execute_def)
next
  case (Inr current)
  then show thesis by (intro accepted [of current]) (auto simp: broker_execute_def bindR_Inr)
qed

text \<open>C22: every request that the broker sends, whatever redirects it follows and however DNS
  changes its answers between hops, uses an allowed scheme, host, port and method, carries no
  forbidden header, and is pinned to addresses that the policy allows. None of them is internal, in
  any IPv4 or IPv6 form, unless it is a loopback address and the policy allows loopback, or an address
  of a private network and the policy allows private networks: link-local addresses with the metadata
  services, shared and unspecified addresses are never reached.\<close>

theorem broker_sends_only_allowed:
  "list_all (\<lambda>q. allowed_request H b q
       \<and> (\<forall>ip \<in> sq_addresses q. well_formed_ip ip \<and> internal_address ip \<longrightarrow> excepted_address (eb_policy b) ip))
    (snd (broker_execute H b net request))"
proof -
  have "list_all (allowed_request H b) (snd (broker_execute H b net request))"
    by (cases rule: execute_cases [of H b net request]) (simp_all add: loop_allowed validate_url_allowed)
  then show ?thesis
    by (rule list.pred_mono_strong) (use internal_excepted in \<open>auto simp: allowed_request_def\<close>)
qed

text \<open>C23: the redirect loop ends: at most one request more than the configured number of redirects
  is sent, and no URL is requested twice.\<close>

theorem broker_redirects_are_bounded:
  "length (snd (broker_execute H b net request)) \<le> Suc (eb_max_redirects b)
   \<and> distinct (map (\<lambda>q. u_text H (ds_url (sq_destination q))) (snd (broker_execute H b net request)))"
proof (cases rule: execute_cases [of H b net request])
  case (accepted current)
  then show ?thesis
    using loop_urls [of H current "{u_text H (ds_url current)}" b net 0 request] by (simp add: Let_def)
qed simp

text \<open>A redirect to another origin never carries a body or a header of the request. Removing a
  header from an empty header map is assumed to leave it empty.\<close>

theorem cross_origin_redirect_carries_nothing:
  assumes "h_entries H (h_remove H (h_empty H) ''cookie'') = []"
  shows "successively (\<lambda>q q'. destination_origin (sq_destination q) = destination_origin (sq_destination q')
       \<or> sq_body q' = [] \<and> h_entries H (sq_headers q') = []) (snd (broker_execute H b net request))"
  unfolding origin_safe_def [symmetric]
  by (cases rule: execute_cases [of H b net request]) (simp_all add: loop_origins [OF assms])

subsection \<open>A concrete run\<close>

text \<open>Two URLs, known by their number: the first redirects to the second, on another host.\<close>

definition demo_http :: "(nat, (string \<times> string) list) http_ops" where
  "demo_http = \<lparr>u_parse = (\<lambda>s. if s = ''a'' then Some 0 else Some 1), u_text = (\<lambda>u. if u = 0 then ''a'' else ''b''),
     u_username = (\<lambda>_. []), u_password = (\<lambda>_. None), u_fragment = (\<lambda>_. None), u_scheme = (\<lambda>_. ''https''),
     u_host = (\<lambda>u. Some (Domain (if u = 0 then ''api.test'' else ''cdn.test''))), u_set_host = (\<lambda>u _. Some u),
     u_port_or_known_default = (\<lambda>_. Some 443), u_join = (\<lambda>_ _. Some 1), h_entries = (\<lambda>h. h),
     h_get_str = map_of, h_insert = (\<lambda>h n v. (n, v) # filter (\<lambda>e. fst e \<noteq> n) h),
     h_remove = (\<lambda>h n. filter (\<lambda>e. fst e \<noteq> n) h), h_empty = []\<rparr>"

definition demo_broker :: egress_broker where
  "demo_broker = (broker_builder (deny_all\<lparr>ep_allowed_domains := [''*.test'']\<rparr>))
     \<lparr>eb_allowed_schemes := [Https], eb_allowed_ports := [443], eb_allowed_methods := [''GET'']\<rparr>"

definition demo_network :: "(nat, (string \<times> string) list) network" where
  "demo_network = \<lparr>nw_resolve = (\<lambda>_ _ _. DnsAddresses [V4 93 184 216 34]), nw_client_ok = (\<lambda>_. True),
     nw_send = (\<lambda>hop q. Some \<lparr>rc_url = ds_url (sq_destination q), rc_status = (if hop = 0 then 302 else 200),
       rc_headers = [(''location'', ''b'')], rc_content_length = None, rc_chunks = [Some ''ok'']\<rparr>)\<rparr>"

definition demo_get :: "(nat, (string \<times> string) list) egress_request" where
  "demo_get = \<lparr>rq_method = ''GET'', rq_url = 0, rq_headers = [(''authorization'', ''secret'')], rq_body = []\<rparr>"

lemma demo_hosts:
  "evaluate_destination (eb_policy demo_broker) ''api.test'' = EgAllow"
  "evaluate_destination (eb_policy demo_broker) ''cdn.test'' = EgAllow"
proof -
  have ip: "parse_ip ''api.test'' = None" "parse_ip ''cdn.test'' = None"
    by (simp_all add: parse_eval read_groups_rec [of 8 8] read_groups_rec [of 8 7] read_groups_rec [of 8 6])
  have name: "normalise_domain ''api.test'' = ''api.test''" "normalise_domain ''cdn.test'' = ''cdn.test''"
    "normalise_domain ''*.test'' = ''*.test''"
    by (simp_all add: normalise_domain_def text_eval)
  show "evaluate_destination (eb_policy demo_broker) ''api.test'' = EgAllow"
    "evaluate_destination (eb_policy demo_broker) ''cdn.test'' = EgAllow"
    by (simp_all add: evaluate_destination_def ip name domain_matches_def demo_broker_def broker_builder_def deny_all_def
        ends_with_def)
qed

lemma demo_url:
  "validate_url demo_http demo_broker 0 = Inr \<lparr>ds_url = 0, ds_host = ''api.test'', ds_port = 443, ds_scheme = Https\<rparr>"
  "validate_url demo_http demo_broker 1 = Inr \<lparr>ds_url = 1, ds_host = ''cdn.test'', ds_port = 443, ds_scheme = Https\<rparr>"
  using demo_hosts
  by (simp_all add: validate_url_def canonical_url_host_def scheme_parse_def demo_http_def demo_broker_def
      broker_builder_def text_eval)

lemma demo_run:
  "map (\<lambda>q. (ds_host (sq_destination q), sq_headers q, sq_addresses q))
       (snd (broker_execute demo_http demo_broker demo_network demo_get))
   = [(''api.test'', [(''authorization'', ''secret'')], {V4 93 184 216 34}), (''cdn.test'', [], {V4 93 184 216 34})]"
proof -
  have valid: "validate_request demo_http demo_broker (demo_get\<lparr>rq_headers := h\<rparr>) = Inr ()"
    if "h = [] \<or> h = [(''authorization'', ''secret'')]" for h
    using that by (auto simp: validate_request_def demo_http_def demo_broker_def broker_builder_def demo_get_def
        forbidden_request_header_def to_ascii_lowercase_def saturating_add_def u64_max_def)
  have first: "validate_request demo_http demo_broker demo_get = Inr ()"
    using valid [of "[(''authorization'', ''secret'')]"] by (simp add: demo_get_def)
  have pin: "pinned_client demo_broker (DnsAddresses [V4 93 184 216 34]) True = Inr {V4 93 184 216 34}"
    by (simp add: pinned_client_def)
  have headers: "validate_response_headers demo_http demo_broker [(''location'', ''b'')] = Inr ()"
    by (simp add: validate_response_headers_def header_bytes_def demo_http_def demo_broker_def broker_builder_def
        saturating_add_def u64_max_def)
  have follow: "follow_redirect demo_http demo_broker \<lparr>ds_url = 0, ds_host = ''api.test'', ds_port = 443, ds_scheme = Https\<rparr>
      demo_get {''a''} 0 \<lparr>rc_url = 0, rc_status = 302, rc_headers = [(''location'', ''b'')], rc_content_length = None,
        rc_chunks = [Some ''ok'']\<rparr>
      = Inr (\<lparr>ds_url = 1, ds_host = ''cdn.test'', ds_port = 443, ds_scheme = Https\<rparr>, demo_get\<lparr>rq_headers := []\<rparr>)"
    using demo_url(2)
    by (simp add: follow_redirect_def rewrite_redirect_request_def destination_origin_def demo_get_def demo_http_def
        demo_broker_def broker_builder_def)
  have url_text: "u_text demo_http u = (if u = 0 then ''a'' else ''b'')" for u by (simp add: demo_http_def)
  show ?thesis
    using valid [of "[]"] demo_url first pin headers follow
    by (simp add: url_text Let_def broker_execute_def execute_loop.simps is_redirection_def demo_network_def demo_get_def)
qed

lemma demo_run_nonempty: "snd (broker_execute demo_http demo_broker demo_network demo_get) \<noteq> []"
  using arg_cong [OF demo_run, of length] by (metis length_map list.size(3) list.size(4) nat.distinct(1) add_Suc_right)

theorem broker_sends_only_allowed_witness:
  "map sq_addresses (snd (broker_execute demo_http demo_broker demo_network demo_get)) = [{V4 93 184 216 34}, {V4 93 184 216 34}]
   \<and> \<not> internal_address (V4 93 184 216 34)"
proof -
  have "map (snd \<circ> snd) (map (\<lambda>q. (ds_host (sq_destination q), sq_headers q, sq_addresses q))
      (snd (broker_execute demo_http demo_broker demo_network demo_get))) = [{V4 93 184 216 34}, {V4 93 184 216 34}]"
    unfolding demo_run by simp
  then have a: "map sq_addresses (snd (broker_execute demo_http demo_broker demo_network demo_get)) =
      [{V4 93 184 216 34}, {V4 93 184 216 34}]" by (simp add: comp_def)
  then have "{V4 93 184 216 34} \<in> sq_addresses ` set (snd (broker_execute demo_http demo_broker demo_network demo_get))"
    by (simp only: set_map [symmetric]) simp
  then obtain q where "q \<in> set (snd (broker_execute demo_http demo_broker demo_network demo_get))"
      "sq_addresses q = {V4 93 184 216 34}" by auto
  with broker_sends_only_allowed [of demo_http demo_broker demo_network demo_get]
  have "internal_address (V4 93 184 216 34) \<longrightarrow> excepted_address (eb_policy demo_broker) (V4 93 184 216 34)"
    by (auto simp: list_all_iff)
  with a show ?thesis by (auto simp: excepted_address_def demo_broker_def broker_builder_def deny_all_def)
qed

theorem cross_origin_redirect_carries_nothing_witness:
  "map (\<lambda>q. ds_host (sq_destination q)) (snd (broker_execute demo_http demo_broker demo_network demo_get)) = [''api.test'', ''cdn.test'']
   \<and> successively (\<lambda>q q'. destination_origin (sq_destination q) = destination_origin (sq_destination q')
       \<or> sq_body q' = [] \<and> h_entries demo_http (sq_headers q') = []) (snd (broker_execute demo_http demo_broker demo_network demo_get))"
proof
  have "map fst (map (\<lambda>q. (ds_host (sq_destination q), sq_headers q, sq_addresses q))
      (snd (broker_execute demo_http demo_broker demo_network demo_get))) = [''api.test'', ''cdn.test'']"
    unfolding demo_run by simp
  then show "map (\<lambda>q. ds_host (sq_destination q)) (snd (broker_execute demo_http demo_broker demo_network demo_get))
      = [''api.test'', ''cdn.test'']" by (simp add: comp_def)
qed (rule cross_origin_redirect_carries_nothing, simp add: demo_http_def)

end
