(* ===== verification/Governance.thy ===== *)
theory Governance
  imports Egress
begin

text \<open>
  The other contracts of \<open>governance/contracts.rs\<close>: skill manifests sealed with a digest, data-flow
  rules from labelled sources to sinks, approval evidence bound to an action, and sandbox profiles.
  The byte form that \<open>serde\_json\<close> gives the payload of a skill is a parameter; the digest is the
  SHA-256 of the module (theory \<open>Digest\<close>). Sets of labels and capabilities are lists.
\<close>

subsection \<open>Skill manifests\<close>

record tool_descriptor =
  td_name :: string
  td_description :: string
  td_input_schema :: json
  td_read_only :: bool
  td_requires_approval :: bool
  td_capabilities :: "string list"

record skill_payload =
  sk_schema_version :: nat
  sk_name :: string
  sk_version :: string
  sk_description :: string
  sk_entrypoint :: string
  sk_tools :: "tool_descriptor list"
  sk_artifacts :: "(string \<times> string) list"

record skill_manifest = skill_payload +
  sk_integrity_hash :: string

definition path_is_unsafe :: "string \<Rightarrow> bool" where
  "path_is_unsafe path \<longleftrightarrow> is_blank path \<or> strip_prefix ''/'' path \<noteq> None \<or> strip_prefix [CHR 0x5C] path \<noteq> None
     \<or> CHR 0x00 \<in> set path \<or> list_ex (\<lambda>c. c = ''..'') (split_on (\<lambda>c. c = CHR ''/'' \<or> c = CHR 0x5C) path)"

fun tool_names_ok :: "string set \<Rightarrow> tool_descriptor list \<Rightarrow> bool" where
  "tool_names_ok names [] = True"
| "tool_names_ok names (t # ts) =
     (\<not> (is_blank (td_name t) \<or> td_name t \<in> names) \<and> tool_names_ok (insert (td_name t) names) ts)"

definition skill_validate_shape :: "'z skill_payload_scheme \<Rightarrow> contract_error + unit" where
  "skill_validate_shape m =
     (if sk_schema_version m \<noteq> GOVERNANCE_CONTRACT_VERSION
      then Inl (Invalid (''unsupported skill schema version '' @ show_nat (sk_schema_version m)))
      else if is_blank (sk_name m) \<or> is_blank (sk_version m) \<or> is_blank (sk_entrypoint m)
      then Inl (Invalid ''skill name, version, and entrypoint must be non-empty'')
      else if \<not> tool_names_ok {} (sk_tools m)
      then Inl (Invalid (''skill '' @ [CHR 0x27] @ sk_name m @ [CHR 0x27] @ '' contains an empty or duplicate tool name''))
      else case List.find (\<lambda>(path, digest). path_is_unsafe path \<or> \<not> valid_digest digest) (sk_artifacts m) of
        Some (path, _) \<Rightarrow> Inl (Invalid (''skill '' @ [CHR 0x27] @ sk_name m @ [CHR 0x27]
          @ '' contains an unsafe or unpinned artifact '' @ [CHR 0x27] @ path @ [CHR 0x27]))
      | None \<Rightarrow> Inr ())"

text \<open>The payload that is sealed: every field but the hash.\<close>

definition payload_of :: "skill_manifest \<Rightarrow> skill_payload" where
  "payload_of m = skill_payload.truncate m"

definition computed_integrity_hash ::
  "(skill_payload \<Rightarrow> string + string) \<Rightarrow> skill_manifest \<Rightarrow> contract_error + string"
where
  "computed_integrity_hash to_vec m =
     (case to_vec (payload_of m) of Inl e \<Rightarrow> Inl (Serialization e)
      | Inr bytes \<Rightarrow> Inr (''sha256:'' @ contracts_hex_sha256 bytes))"

definition validate_integrity :: "(skill_payload \<Rightarrow> string + string) \<Rightarrow> skill_manifest \<Rightarrow> contract_error + unit" where
  "validate_integrity to_vec m =
     bindR (skill_validate_shape m) (\<lambda>_. bindR (computed_integrity_hash to_vec m) (\<lambda>actual.
       if actual \<noteq> sk_integrity_hash m then Inl (IntegrityMismatch (sk_integrity_hash m) actual) else Inr ()))"

definition validate_no_drift ::
  "(skill_payload \<Rightarrow> string + string) \<Rightarrow> skill_manifest \<Rightarrow> skill_manifest \<Rightarrow> contract_error + unit"
where
  "validate_no_drift to_vec m expected =
     bindR (validate_integrity to_vec m) (\<lambda>_. bindR (validate_integrity to_vec expected) (\<lambda>_.
       if sk_integrity_hash m \<noteq> sk_integrity_hash expected
       then Inl (SkillDrift (sk_integrity_hash expected) (sk_integrity_hash m)) else Inr ()))"

definition skill_seal ::
  "(skill_payload \<Rightarrow> string + string) \<Rightarrow> string \<Rightarrow> string \<Rightarrow> string \<Rightarrow> string \<Rightarrow> tool_descriptor list
    \<Rightarrow> (string \<times> string) list \<Rightarrow> contract_error + skill_manifest"
where
  "skill_seal to_vec name version description entrypoint tools artifacts =
     (let m = \<lparr>sk_schema_version = GOVERNANCE_CONTRACT_VERSION, sk_name = name, sk_version = version,
               sk_description = description, sk_entrypoint = entrypoint, sk_tools = tools, sk_artifacts = artifacts,
               sk_integrity_hash = []\<rparr>
      in bindR (skill_validate_shape m) (\<lambda>_. bindR (computed_integrity_hash to_vec m) (\<lambda>h.
           Inr (m\<lparr>sk_integrity_hash := h\<rparr>))))"

text \<open>\<open>Deserialize for SkillManifest\<close>: the wire form, decoded by \<open>serde\<close>, is checked before it is
  handed out.\<close>

definition deserialize_skill ::
  "(string \<Rightarrow> string + skill_manifest) \<Rightarrow> (skill_payload \<Rightarrow> string + string) \<Rightarrow> string \<Rightarrow> string + skill_manifest"
where
  "deserialize_skill decode to_vec s =
     bindR (decode s) (\<lambda>m. bindR (map_err contract_error_text (validate_integrity to_vec m)) (\<lambda>_. Inr m))"

subsection \<open>Data flow\<close>

datatype data_label = Public | Internal | Confidential | Restricted | Pii | Secret | Credential | Untrusted

datatype data_source_kind = SrcUser | SrcModel | SrcTool | SrcFile | SrcNetwork | SrcSystem

record provenance =
  pv_source :: data_source_kind
  pv_origin :: string
  pv_labels :: "data_label list"
  pv_parents :: "string list"

datatype data_sink_kind = SinkUser | SinkModel | SinkTool | SinkFile | SinkNetwork | SinkLog

record data_sink =
  sink_kind :: data_sink_kind
  sink_target :: string

datatype flow_effect = FlowAllow | FlowRedact | FlowRequireApproval | FlowDeny

fun flow_precedence :: "flow_effect \<Rightarrow> nat" where
  "flow_precedence FlowAllow = 0"
| "flow_precedence FlowRedact = 1"
| "flow_precedence FlowRequireApproval = 2"
| "flow_precedence FlowDeny = 3"

record source_to_sink_rule =
  fr_id :: string
  fr_source :: "data_source_kind option"
  fr_required_labels :: "data_label list"
  fr_sink :: data_sink_kind
  fr_effect :: flow_effect

definition flow_rule_matches :: "source_to_sink_rule \<Rightarrow> provenance \<Rightarrow> data_sink \<Rightarrow> bool" where
  "flow_rule_matches r p s \<longleftrightarrow> fr_sink r = sink_kind s
     \<and> (case fr_source r of None \<Rightarrow> True | Some source \<Rightarrow> source = pv_source p)
     \<and> list_all (\<lambda>label. label \<in> set (pv_labels p)) (fr_required_labels r)"

record data_flow_policy =
  fp_default_effect :: flow_effect
  fp_rules :: "source_to_sink_rule list"

record data_flow_decision =
  fd_effect :: flow_effect
  fd_matched_rule_ids :: "string list"

definition secure_defaults :: data_flow_policy where
  "secure_defaults = \<lparr>fp_default_effect = FlowAllow,
     fp_rules = map (\<lambda>(i, label, sink). \<lparr>fr_id = i, fr_source = None, fr_required_labels = [label], fr_sink = sink,
         fr_effect = (if i = ''redact_pii_logs'' then FlowRedact else FlowDeny)\<rparr>)
       [(''deny_secret_network'', Secret, SinkNetwork), (''deny_credential_network'', Credential, SinkNetwork),
        (''deny_secret_logs'', Secret, SinkLog), (''deny_credential_logs'', Credential, SinkLog),
        (''redact_pii_logs'', Pii, SinkLog)]\<rparr>"

definition flow_evaluate :: "data_flow_policy \<Rightarrow> provenance \<Rightarrow> data_sink \<Rightarrow> data_flow_decision" where
  "flow_evaluate policy p s =
     (let matching = filter (\<lambda>r. flow_rule_matches r p s) (fp_rules policy);
          eff = (case max_by_key flow_precedence (map fr_effect matching) of
                   None \<Rightarrow> fp_default_effect policy | Some e \<Rightarrow> e)
      in \<lparr>fd_effect = eff, fd_matched_rule_ids = map fr_id matching\<rparr>)"

subsection \<open>Approval evidence\<close>

datatype approval_scope = ExactAction string | ToolForRun string string

datatype evidence_outcome = EvApprove | EvDeny

record approval_evidence =
  ev_request_id :: string
  ev_approver_id :: string
  ev_outcome :: evidence_outcome
  ev_scope :: approval_scope
  ev_policy_snapshot_hash :: string
  ev_issued_at_unix_ms :: nat
  ev_expires_at_unix_ms :: nat
  ev_reason :: "string option"

record approval_check_context =
  ac_action_digest :: string
  ac_run_id :: string
  ac_tool :: string
  ac_policy_snapshot_hash :: string

datatype approval_deny_reason =
    ExplicitlyDenied | InvalidEvidence | NotYetValid | TimedOut | PolicyChanged | ScopeMismatch

datatype evidence_decision = EvidenceAllow | EvidenceDeny approval_deny_reason

definition evidence_scope_matches :: "approval_scope \<Rightarrow> approval_check_context \<Rightarrow> bool" where
  "evidence_scope_matches scope c =
     (case scope of
        ExactAction action \<Rightarrow> valid_digest action \<and> action = ac_action_digest c
      | ToolForRun run tool \<Rightarrow> run \<noteq> [] \<and> tool \<noteq> [] \<and> run = ac_run_id c \<and> tool = ac_tool c)"

definition evidence_evaluate :: "approval_evidence \<Rightarrow> approval_check_context \<Rightarrow> nat \<Rightarrow> evidence_decision" where
  "evidence_evaluate e c now =
     (if is_blank (ev_request_id e) \<or> is_blank (ev_approver_id e) \<or> \<not> valid_digest (ev_policy_snapshot_hash e)
         \<or> ev_expires_at_unix_ms e \<le> ev_issued_at_unix_ms e then EvidenceDeny InvalidEvidence
      else if ev_outcome e = EvDeny then EvidenceDeny ExplicitlyDenied
      else if now < ev_issued_at_unix_ms e then EvidenceDeny NotYetValid
      else if now \<ge> ev_expires_at_unix_ms e then EvidenceDeny TimedOut
      else if ev_policy_snapshot_hash e \<noteq> ac_policy_snapshot_hash c then EvidenceDeny PolicyChanged
      else if \<not> evidence_scope_matches (ev_scope e) c then EvidenceDeny ScopeMismatch
      else EvidenceAllow)"

subsection \<open>Sandbox profiles\<close>

datatype filesystem_profile = ReadOnly | WorkspaceWrite | Unrestricted

record sandbox_profile =
  sb_name :: string
  sb_require_os_containment :: bool
  sb_allow_unsandboxed_fallback :: bool
  sb_filesystem :: filesystem_profile
  sb_egress :: egress_policy
  sb_max_processes :: nat
  sb_max_memory_bytes :: nat
  sb_max_output_bytes :: nat
  sb_allow_privilege_escalation :: bool

definition hardened :: sandbox_profile where
  "hardened = \<lparr>sb_name = ''hardened'', sb_require_os_containment = True, sb_allow_unsandboxed_fallback = False,
     sb_filesystem = WorkspaceWrite, sb_egress = deny_all, sb_max_processes = 128,
     sb_max_memory_bytes = 512 * 1024 * 1024, sb_max_output_bytes = 4 * 1024 * 1024,
     sb_allow_privilege_escalation = False\<rparr>"

definition sandbox_validate :: "sandbox_profile \<Rightarrow> contract_error + unit" where
  "sandbox_validate p =
     (if is_blank (sb_name p) \<or> sb_max_processes p = 0 \<or> sb_max_memory_bytes p = 0 \<or> sb_max_output_bytes p = 0
      then Inl (Invalid ''sandbox profile name and resource limits must be non-zero'')
      else if sb_require_os_containment p \<and> sb_allow_unsandboxed_fallback p
      then Inl (Invalid ''required containment cannot allow an unsandboxed fallback'')
      else Inr ())"

record agent_definition =
  ad_schema_version :: nat
  ad_id :: string
  ad_name :: string
  ad_tenant_id :: "string option"
  ad_instructions :: string
  ad_tools :: "tool_descriptor list"
  ad_skills :: "string list"
  ad_metadata :: "(string \<times> json) list"
  ad_policy_snapshot_hash :: "string option"
  ad_sandbox_profile :: sandbox_profile

subsection \<open>Sealed skills\<close>

lemma skill_shape_update: "skill_validate_shape (m\<lparr>sk_integrity_hash := h\<rparr>) = skill_validate_shape m"
  by (simp add: skill_validate_shape_def split: option.split)

lemma computed_hash_update: "computed_integrity_hash to_vec (m\<lparr>sk_integrity_hash := h\<rparr>) = computed_integrity_hash to_vec m"
  by (simp add: computed_integrity_hash_def payload_of_def skill_payload.defs)

lemma skill_seal_valid:
  assumes "skill_seal to_vec n v d e ts as = Inr m"
  shows "validate_integrity to_vec m = Inr ()"
proof -
  define m0 where "m0 = \<lparr>sk_schema_version = GOVERNANCE_CONTRACT_VERSION, sk_name = n, sk_version = v, sk_description = d,
     sk_entrypoint = e, sk_tools = ts, sk_artifacts = as, sk_integrity_hash = []\<rparr>"
  from assms obtain h where "skill_validate_shape m0 = Inr ()" "computed_integrity_hash to_vec m0 = Inr h"
    "m = m0\<lparr>sk_integrity_hash := h\<rparr>"
    unfolding skill_seal_def Let_def m0_def [symmetric] by (auto simp: result_simps)
  then show ?thesis by (simp add: validate_integrity_def skill_shape_update computed_hash_update)
qed

lemma validate_integrity_hash:
  "validate_integrity to_vec m = Inr () \<Longrightarrow>
    \<exists>bytes. to_vec (payload_of m) = Inr bytes \<and> sk_integrity_hash m = ''sha256:'' @ contracts_hex_sha256 bytes"
  by (auto simp: validate_integrity_def computed_integrity_hash_def result_simps split: sum.splits if_splits)

text \<open>The artifacts of an accepted manifest are pinned, and their paths stay below the directory of
  the skill: no component goes up.\<close>

lemma find_None_list_all: "List.find P xs = None \<longleftrightarrow> list_all (\<lambda>x. \<not> P x) xs"
  by (auto simp: find_None_iff list_all_iff)

lemma accepted_artifacts:
  assumes "skill_validate_shape m = Inr ()"
  shows "list_all (\<lambda>(path, digest). \<not> path_is_unsafe path \<and> valid_digest digest) (sk_artifacts m)"
proof -
  have "List.find (\<lambda>(path, digest). path_is_unsafe path \<or> \<not> valid_digest digest) (sk_artifacts m) = None"
    using assms by (auto simp: skill_validate_shape_def split: if_splits option.splits)
  then show ?thesis by (auto simp: find_None_list_all list_all_iff)
qed

text \<open>A skill that is accepted as unchanged against the expected one has the same payload,
  unless the serialised bytes of the two payloads, which then differ, have the same SHA-256 digest.\<close>

theorem no_drift_same_payload:
  assumes "validate_no_drift to_vec m expected = Inr ()"
    and "\<And>x y bytes. to_vec x = Inr bytes \<Longrightarrow> to_vec y = Inr bytes \<Longrightarrow> x = y"
  shows "payload_of m = payload_of expected
    \<or> (\<exists>b b'. to_vec (payload_of m) = Inr b \<and> to_vec (payload_of expected) = Inr b' \<and> b \<noteq> b'
         \<and> contracts_hex_sha256 b = contracts_hex_sha256 b')"
proof -
  from assms(1) have "validate_integrity to_vec m = Inr ()" "validate_integrity to_vec expected = Inr ()"
    and same: "sk_integrity_hash m = sk_integrity_hash expected"
    by (auto simp: validate_no_drift_def result_simps split: if_splits)
  then obtain b b' where "to_vec (payload_of m) = Inr b" "sk_integrity_hash m = ''sha256:'' @ contracts_hex_sha256 b"
    and "to_vec (payload_of expected) = Inr b'" "sk_integrity_hash expected = ''sha256:'' @ contracts_hex_sha256 b'"
    using validate_integrity_hash by meson
  with same assms(2) show ?thesis by (cases "b = b'") auto
qed

definition demo_skill :: skill_manifest where
  "demo_skill = \<lparr>sk_schema_version = 1, sk_name = ''fmt'', sk_version = ''1'', sk_description = [], sk_entrypoint = ''run'',
     sk_tools = [], sk_artifacts = [], sk_integrity_hash = ''sha256:'' @ contracts_hex_sha256 ''{}''\<rparr>"

definition demo_to_vec :: "skill_payload \<Rightarrow> string + string" where
  "demo_to_vec p = (if p = payload_of demo_skill then Inr ''{}'' else Inl [])"

theorem no_drift_same_payload_witness:
  "validate_no_drift demo_to_vec demo_skill demo_skill = Inr ()
   \<and> (payload_of demo_skill = payload_of demo_skill
      \<or> (\<exists>b b'. demo_to_vec (payload_of demo_skill) = Inr b \<and> demo_to_vec (payload_of demo_skill) = Inr b' \<and> b \<noteq> b'
           \<and> contracts_hex_sha256 b = contracts_hex_sha256 b'))"
proof
  show ok: "validate_no_drift demo_to_vec demo_skill demo_skill = Inr ()"
    by (simp add: validate_no_drift_def validate_integrity_def computed_integrity_hash_def skill_validate_shape_def
        demo_to_vec_def demo_skill_def GOVERNANCE_CONTRACT_VERSION_def is_blank_def)
  show "payload_of demo_skill = payload_of demo_skill
      \<or> (\<exists>b b'. demo_to_vec (payload_of demo_skill) = Inr b \<and> demo_to_vec (payload_of demo_skill) = Inr b' \<and> b \<noteq> b'
           \<and> contracts_hex_sha256 b = contracts_hex_sha256 b')"
    by (rule no_drift_same_payload [OF ok]) (auto simp: demo_to_vec_def split: if_splits)
qed

subsection \<open>Secrets never leave\<close>

lemma flow_precedence_inj: "flow_precedence a = flow_precedence b \<Longrightarrow> a = b"
  by (cases a; cases b) auto

lemma flow_deny_dominates:
  assumes "r \<in> set (fp_rules policy)" and "flow_rule_matches r p s" and "fr_effect r = FlowDeny"
  shows "fd_effect (flow_evaluate policy p s) = FlowDeny"
proof -
  let ?effects = "map fr_effect (filter (\<lambda>r. flow_rule_matches r p s) (fp_rules policy))"
  have deny: "FlowDeny \<in> set ?effects" using assms by force
  then obtain e where e: "max_by_key flow_precedence ?effects = Some e"
    using max_by_key_Some [of ?effects flow_precedence] by fastforce
  with max_by_key_props [OF e] deny have "flow_precedence FlowDeny \<le> flow_precedence e" by blast
  then have "e = FlowDeny" by (cases e) simp_all
  with e show ?thesis by (simp add: flow_evaluate_def Let_def)
qed

text \<open>Whatever rules are added to the default ones and whatever the default effect is, data
  labelled as a secret or a credential never flows to the network or to a log.\<close>

theorem secrets_never_leave:
  assumes "set (fp_rules secure_defaults) \<subseteq> set (fp_rules policy)"
    and "label \<in> set (pv_labels p)" and "label = Secret \<or> label = Credential"
    and "sink_kind s = SinkNetwork \<or> sink_kind s = SinkLog"
  shows "fd_effect (flow_evaluate policy p s) = FlowDeny"
proof -
  have "\<exists>r \<in> set (fp_rules secure_defaults). flow_rule_matches r p s \<and> fr_effect r = FlowDeny"
    using assms(2-4) by (elim disjE) (simp_all add: secure_defaults_def flow_rule_matches_def)
  with assms(1) flow_deny_dominates show ?thesis by blast
qed

theorem secrets_never_leave_witness:
  "fd_effect (flow_evaluate secure_defaults
     \<lparr>pv_source = SrcTool, pv_origin = ''vault'', pv_labels = [Internal, Credential], pv_parents = []\<rparr>
     \<lparr>sink_kind = SinkLog, sink_target = ''trace''\<rparr>) = FlowDeny"
  by (rule secrets_never_leave [of _ Credential]) simp_all

subsection \<open>Policies\<close>

text \<open>The effect of a policy does not depend on the order of its rules, and a matching deny
  rule wins over every other rule and scope.\<close>

theorem policy_effect_order_independent:
  assumes "mset (pd_rules (ps_policy s)) = mset (pd_rules (ps_policy s'))"
    and "pd_default_effect (ps_policy s) = pd_default_effect (ps_policy s')"
  shows "sd_effect (snapshot_evaluate s c) = sd_effect (snapshot_evaluate s' c)
    \<and> ((\<exists>r \<in> set (pd_rules (ps_policy s)). scope_matches (sr_scope r) c \<and> sr_effect r = EffDeny)
        \<longrightarrow> sd_effect (snapshot_evaluate s c) = EffDeny)"
proof -
  have "matched_effects s c = matched_effects s' c"
    using mset_eq_setD [OF assms(1)] by (simp add: matched_effects_def)
  moreover have "(\<exists>r \<in> set (pd_rules (ps_policy s)). scope_matches (sr_scope r) c \<and> sr_effect r = EffDeny)
      \<longrightarrow> EffDeny \<in> matched_effects s c" by (force simp: matched_effects_def)
  ultimately show ?thesis using assms(2) by (simp add: snapshot_evaluate_effect)
qed

definition demo_rules :: "scoped_rule list" where
  "demo_rules = [\<lparr>sr_id = ''r1'', sr_scope = ScopeGlobal, sr_effect = EffDeny, sr_reason = None\<rparr>,
     \<lparr>sr_id = ''r2'', sr_scope = ScopeGlobal, sr_effect = EffDeny, sr_reason = None\<rparr>]"

definition demo_snapshot :: "scoped_rule list \<Rightarrow> policy_snapshot" where
  "demo_snapshot rules = \<lparr>ps_policy = \<lparr>pd_schema_version = 1, pd_default_effect = EffAllow, pd_rules = rules\<rparr>, ps_hash = []\<rparr>"

definition demo_context :: policy_context where
  "demo_context = \<lparr>pc_tenant_id = None, pc_agent_id = None, pc_run_id = None, pc_tool = ''sh''\<rparr>"

theorem policy_effect_order_independent_witness:
  "sd_effect (snapshot_evaluate (demo_snapshot demo_rules) demo_context)
     = sd_effect (snapshot_evaluate (demo_snapshot (rev demo_rules)) demo_context)"
  using policy_effect_order_independent [of "demo_snapshot demo_rules" "demo_snapshot (rev demo_rules)" demo_context]
  by (simp add: demo_snapshot_def)

text \<open>The rule that is named as deciding does depend on the order.\<close>

theorem deciding_rule_depends_on_order:
  "sd_deciding_rule_id (snapshot_evaluate (demo_snapshot demo_rules) demo_context) = Some ''r2''
   \<and> sd_deciding_rule_id (snapshot_evaluate (demo_snapshot (rev demo_rules)) demo_context) = Some ''r1''"
  by code_simp

end
