(* ===== verification/StreamProps.thy ===== *)
theory StreamProps
  imports Streaming
begin

text \<open>
  The stream encoder refines the lifecycle automaton: an abstract account of an event stream that
  knows only the identifier of the response, the next sequence number, the blocks that are open and those ever started, and whether
  the response has started or ended. A step of the encoder is a run of the automaton; a refused delta
  changes nothing that the automaton sees.
\<close>

subsection \<open>The lifecycle of a stream\<close>

record lifecycle =
  lc_id :: string
  lc_next :: nat
  lc_started :: bool
  lc_open :: "string set"
  lc_seen :: "string set"
  lc_done :: bool

definition lifecycle_start :: "string \<Rightarrow> lifecycle" where
  "lifecycle_start response_id = \<lparr>lc_id = response_id, lc_next = 1, lc_started = False, lc_open = {}, lc_seen = {}, lc_done = False\<rparr>"

fun lc_kind :: "stream_event_kind \<Rightarrow> lifecycle \<Rightarrow> lifecycle option" where
  "lc_kind (EvResponseStart r _) l =
     (if r = lc_id l \<and> \<not> lc_started l then Some (l\<lparr>lc_started := True\<rparr>) else None)"
| "lc_kind (EvBlockStart b _ _) l =
     (if lc_started l \<and> b \<notin> lc_seen l
      then Some (l\<lparr>lc_open := insert b (lc_open l), lc_seen := insert b (lc_seen l)\<rparr>) else None)"
| "lc_kind (EvBlockDelta b _) l = (if b \<in> lc_open l then Some l else None)"
| "lc_kind (EvBlockEnd b _) l = (if b \<in> lc_open l then Some (l\<lparr>lc_open := lc_open l - {b}\<rparr>) else None)"
| "lc_kind (EvProviderMetadata _ _) l = (if lc_started l then Some l else None)"
| "lc_kind (EvUsage _) l = (if lc_started l then Some l else None)"
| "lc_kind (EvWarning _) l = Some l"
| "lc_kind (EvResponseEnd r _) l =
     (if r = lc_id l \<and> lc_started l \<and> lc_open l = {} then Some (l\<lparr>lc_done := True\<rparr>) else None)"
| "lc_kind (EvError _ _) l = (if lc_open l = {} then Some (l\<lparr>lc_done := True\<rparr>) else None)"
| "lc_kind (EvRawProviderEvent _ _) l = None"

text \<open>Every event has the next sequence number, and the identifier made of it.\<close>

definition lc_next_event :: "stream_event \<Rightarrow> lifecycle \<Rightarrow> bool" where
  "lc_next_event ev l \<longleftrightarrow> se_sequence ev = lc_next l
     \<and> se_event_id ev = lc_id l @ ''-evt-'' @ show_nat (lc_next l)"

definition lc_step :: "stream_event \<Rightarrow> lifecycle \<Rightarrow> lifecycle option" where
  "lc_step ev l =
     (if lc_done l \<or> \<not> lc_next_event ev l then None
      else lc_kind (se_kind ev) (l\<lparr>lc_next := Suc (lc_next l)\<rparr>))"

fun lc_run :: "stream_event list \<Rightarrow> lifecycle \<Rightarrow> lifecycle option" where
  "lc_run [] l = Some l"
| "lc_run (ev # evs) l = Option.bind (lc_step ev l) (lc_run evs)"

lemma lc_run_append: "lc_run (xs @ ys) l = Option.bind (lc_run xs l) (lc_run ys)"
  by (induction xs arbitrary: l) (auto split: bind_splits)

subsection \<open>Abstraction\<close>

definition seq_of :: "nat option \<Rightarrow> nat" where
  "seq_of s = (case s of Some n \<Rightarrow> n | None \<Rightarrow> Suc u64_max)"

definition open_blocks :: "encoder \<Rightarrow> string list" where
  "open_blocks e = (case en_active_text e of None \<Rightarrow> [] | Some i \<Rightarrow> [i])
     @ (case en_active_reasoning e of None \<Rightarrow> [] | Some i \<Rightarrow> [i]) @ bt_values (en_active_tools e)"

definition abs_encoder :: "encoder \<Rightarrow> lifecycle" where
  "abs_encoder e = \<lparr>lc_id = en_response_id e, lc_next = seq_of (en_next_sequence e), lc_started = en_response_started e,
     lc_open = set (open_blocks e), lc_seen = en_started_blocks e, lc_done = en_terminated e\<rparr>"

definition encoder_ok :: "encoder \<Rightarrow> bool" where
  "encoder_ok e \<longleftrightarrow> (case en_next_sequence e of None \<Rightarrow> True | Some n \<Rightarrow> n \<le> u64_max)
     \<and> distinct (open_blocks e) \<and> set (open_blocks e) \<subseteq> en_started_blocks e
     \<and> (open_blocks e \<noteq> [] \<longrightarrow> en_response_started e)
     \<and> list_all (\<lambda>(i, b). b = tool_block_id i e) (en_active_tools e)"

lemma seq_of_simps [simp]: "seq_of (Some n) = n" "seq_of None = Suc u64_max"
  by (simp_all add: seq_of_def)

lemma seq_of_checked: "n \<le> u64_max \<Longrightarrow> seq_of (checked_add n (Suc 0)) = Suc n"
  by (auto simp: checked_add_def)

lemma checked_not_end [simp]: "checked_add n (Suc 0) \<noteq> Some (Suc u64_max)"
  by (simp add: checked_add_def)

lemma emit_event_Inr [result_simps]:
  "emit_event k e = (Inr ev, e') \<longleftrightarrow> (\<exists>n. en_next_sequence e = Some n
     \<and> ev = \<lparr>se_event_id = en_response_id e @ ''-evt-'' @ show_nat n, se_sequence = n, se_kind = k\<rparr>
     \<and> e' = e\<lparr>en_next_sequence := checked_add n 1\<rparr>)"
  by (auto simp: emit_event_def split: option.splits)

lemma emit_event_Inl [result_simps]:
  "emit_event k e = (Inl err, e') \<longleftrightarrow> en_next_sequence e = None \<and> err = EncoderPanicked \<and> e' = e"
  by (auto simp: emit_event_def split: option.splits)

lemma block_id_result:
  "block_id p e = (r, e') \<Longrightarrow>
     \<exists>nb. e' = e\<lparr>en_next_block := nb\<rparr> \<and> (case r of Inl err \<Rightarrow> err = BlockIdExhausted | Inr i \<Rightarrow> i \<notin> en_started_blocks e)"
proof (induction p e rule: block_id.induct)
  case (1 p e)
  show ?case
  proof (cases "en_next_block e")
    case None
    with 1(2) show ?thesis by (auto simp: block_id.simps [of p e] intro!: exI [of _ None])
  next
    case (Some n)
    let ?i = "en_response_id e @ ''-'' @ p @ ''-'' @ show_nat n"
    show ?thesis
    proof (cases "?i \<in> en_started_blocks e")
      case True
      with 1(2) Some have "block_id p (e\<lparr>en_next_block := checked_add n 1\<rparr>) = (r, e')"
        by (simp add: block_id.simps [of p e] Let_def)
      from 1(1) [OF Some refl refl _ this] True show ?thesis by (auto split: sum.splits)
    next
      case False
      with 1(2) Some show ?thesis by (auto simp: block_id.simps [of p e] Let_def)
    qed
  qed
qed

lemma block_id_Inr:
  "block_id p e = (Inr i, e') \<Longrightarrow> i \<notin> en_started_blocks e \<and> (\<exists>nb. e' = e\<lparr>en_next_block := nb\<rparr>)"
  using block_id_result [of p e "Inr i" e'] by auto

lemma start_block_Inr:
  "start_block i k name e = (Inr ev, e') \<Longrightarrow> i \<notin> en_started_blocks e \<and> (\<exists>n. en_next_sequence e = Some n
     \<and> ev = \<lparr>se_event_id = en_response_id e @ ''-evt-'' @ show_nat n, se_sequence = n, se_kind = EvBlockStart i k name\<rparr>
     \<and> e' = e\<lparr>en_started_blocks := insert i (en_started_blocks e), en_next_sequence := checked_add n 1\<rparr>)"
  by (auto simp: start_block_def result_simps split: if_splits)


lemma checked_in_range [simp]: "case checked_add n (Suc 0) of None \<Rightarrow> True | Some n \<Rightarrow> n \<le> u64_max"
  by (simp add: checked_add_def)

lemma emit_step:
  assumes "emit_event k e = (Inr ev, e')" "encoder_ok e" "\<not> en_terminated e"
  shows "encoder_ok e'" "abs_encoder e' = (abs_encoder e)\<lparr>lc_next := Suc (lc_next (abs_encoder e))\<rparr>"
    "lc_step ev (abs_encoder e) = lc_kind k (abs_encoder e')" "\<exists>s. e' = e\<lparr>en_next_sequence := s\<rparr>"
  using assms
  by (auto simp: result_simps encoder_ok_def abs_encoder_def lc_step_def lc_next_event_def seq_of_checked open_blocks_def tool_block_id_def)

lemma start_step:
  assumes "start_block i k name e = (Inr ev, e')" "encoder_ok e" "\<not> en_terminated e" "en_response_started e"
  shows "encoder_ok e'" "i \<notin> en_started_blocks e" "\<exists>s. e' = e\<lparr>en_started_blocks := insert i (en_started_blocks e), en_next_sequence := s\<rparr>"
    "lc_step ev (abs_encoder e) = Some ((abs_encoder e')\<lparr>lc_open := insert i (lc_open (abs_encoder e'))\<rparr>)"
  using assms
  by (auto simp: start_block_def result_simps encoder_ok_def abs_encoder_def lc_step_def lc_next_event_def seq_of_checked open_blocks_def tool_block_id_def
     split: if_splits)

lemma ok_next_block: "encoder_ok (e\<lparr>en_next_block := nb\<rparr>) = encoder_ok e" "abs_encoder (e\<lparr>en_next_block := nb\<rparr>) = abs_encoder e"
  by (simp_all add: encoder_ok_def abs_encoder_def open_blocks_def tool_block_id_def)

definition produces :: "encoder \<Rightarrow> stream_event list \<Rightarrow> encoder \<Rightarrow> bool" where
  "produces e evs e' \<longleftrightarrow> encoder_ok e' \<and> lc_run evs (abs_encoder e) = Some (abs_encoder e')"

lemmas encoder_simps = encoder_ok_def abs_encoder_def open_blocks_def tool_block_id_def seq_of_checked

lemma ensure_text_step:
  assumes "ensure_text e = (Inr (evs, i), e')" "encoder_ok e" "\<not> en_terminated e" "en_response_started e"
  shows "produces e evs e' \<and> en_active_text e' = Some i \<and> \<not> en_terminated e'"
proof (cases "en_active_text e")
  case None
  with assms(1) obtain nb n where b: "i \<notin> en_started_blocks e" and n: "en_next_sequence e = Some n"
      and e': "e' = e\<lparr>en_next_block := nb, en_started_blocks := insert i (en_started_blocks e),
          en_next_sequence := checked_add n 1, en_active_text := Some i\<rparr>"
      and evs: "evs = [\<lparr>se_event_id = en_response_id e @ ''-evt-'' @ show_nat n, se_sequence = n, se_kind = EvBlockStart i BkText None\<rparr>]"
    by (auto simp: ensure_text_def result_simps dest!: block_id_Inr start_block_Inr)
  from None b n assms show ?thesis unfolding e' evs
    by (auto simp: produces_def encoder_simps lc_step_def lc_next_event_def)
next
  case (Some a)
  with assms show ?thesis by (simp add: ensure_text_def produces_def)
qed

lemma ensure_reasoning_step:
  assumes "ensure_reasoning e = (Inr (evs, i), e')" "encoder_ok e" "\<not> en_terminated e" "en_response_started e"
  shows "produces e evs e' \<and> en_active_reasoning e' = Some i \<and> \<not> en_terminated e'"
proof (cases "en_active_reasoning e")
  case None
  with assms(1) obtain nb n where b: "i \<notin> en_started_blocks e" and n: "en_next_sequence e = Some n"
      and e': "e' = e\<lparr>en_next_block := nb, en_started_blocks := insert i (en_started_blocks e),
          en_next_sequence := checked_add n 1, en_active_reasoning := Some i\<rparr>"
      and evs: "evs = [\<lparr>se_event_id = en_response_id e @ ''-evt-'' @ show_nat n, se_sequence = n, se_kind = EvBlockStart i BkReasoning None\<rparr>]"
    by (auto simp: ensure_reasoning_def result_simps dest!: block_id_Inr start_block_Inr)
  from None b n assms show ?thesis unfolding e' evs
    by (auto simp: produces_def encoder_simps lc_step_def lc_next_event_def)
next
  case (Some a)
  with assms show ?thesis by (simp add: ensure_reasoning_def produces_def)
qed

lemma produces_snoc:
  "produces e evs e1 \<Longrightarrow> emit_event k e1 = (Inr ev, e2) \<Longrightarrow> \<not> en_terminated e1
   \<Longrightarrow> lc_kind k (abs_encoder e2) = Some (abs_encoder e3) \<Longrightarrow> encoder_ok e3 \<Longrightarrow> produces e (evs @ [ev]) e3"
  by (auto simp: produces_def lc_run_append dest: emit_step)

lemma produces_Nil: "encoder_ok e \<Longrightarrow> produces e [] e"
  by (simp add: produces_def)

lemma produces_trans: "produces e xs f \<Longrightarrow> produces f ys g \<Longrightarrow> produces e (xs @ ys) g"
  by (auto simp: produces_def lc_run_append)

lemma end_blocks_step:
  "end_blocks bs e = (Inr evs, e') \<Longrightarrow> encoder_ok e \<Longrightarrow> \<not> en_terminated e \<Longrightarrow> distinct bs
   \<Longrightarrow> set bs \<inter> set (open_blocks e) = {} 
   \<Longrightarrow> (\<exists>s. e' = e\<lparr>en_next_sequence := s\<rparr>) \<and> encoder_ok e' \<and>
       lc_run evs ((abs_encoder e)\<lparr>lc_open := set bs \<union> lc_open (abs_encoder e)\<rparr>) = Some (abs_encoder e')"
proof (induction bs arbitrary: e evs)
  case Nil
  then show ?case by (auto intro!: exI [of _ "en_next_sequence e"])
next
  case (Cons b bs)
  from Cons.prems(1) obtain ev e1 evs1 where m: "emit_event (EvBlockEnd b None) e = (Inr ev, e1)"
      "end_blocks bs e1 = (Inr evs1, e')" "evs = ev # evs1" by (auto simp: result_simps)
  note st = emit_step [OF m(1) Cons.prems(2,3)]
  from st(4) obtain s where s: "e1 = e\<lparr>en_next_sequence := s\<rparr>" by blast
  have o: "open_blocks e1 = open_blocks e" by (simp add: s open_blocks_def)
  have ih: "(\<exists>s. e' = e1\<lparr>en_next_sequence := s\<rparr>) \<and> encoder_ok e' \<and>
       lc_run evs1 ((abs_encoder e1)\<lparr>lc_open := set bs \<union> lc_open (abs_encoder e1)\<rparr>) = Some (abs_encoder e')"
    by (rule Cons.IH) (use m st(1) s o Cons.prems in auto)
  have "lc_step ev ((abs_encoder e)\<lparr>lc_open := set (b # bs) \<union> lc_open (abs_encoder e)\<rparr>)
     = Some ((abs_encoder e1)\<lparr>lc_open := set bs \<union> lc_open (abs_encoder e1)\<rparr>)"
    using m(1) Cons.prems(2-5) by (auto simp: result_simps lc_step_def lc_next_event_def encoder_simps)
  with ih m(3) s show ?case by auto
qed


lemma close_step:
  assumes "close_open_blocks e = (Inr evs, e')" "encoder_ok e" "\<not> en_terminated e"
  shows "produces e evs e' \<and> open_blocks e' = [] \<and> (\<exists>s. e' = e\<lparr>en_active_text := None,
     en_active_reasoning := None, en_active_tools := [], en_next_sequence := s\<rparr>)"
proof -
  let ?t = "case en_active_text e of None \<Rightarrow> [] | Some i \<Rightarrow> [i]"
  let ?r = "case en_active_reasoning e of None \<Rightarrow> [] | Some i \<Rightarrow> [i]"
  let ?l = "bt_values (en_active_tools e)"
  from assms(1) obtain a e1 b e2 c where
      1: "end_blocks ?t (e\<lparr>en_active_text := None\<rparr>) = (Inr a, e1)"
      and 2: "end_blocks (case en_active_reasoning e1 of None \<Rightarrow> [] | Some i \<Rightarrow> [i]) (e1\<lparr>en_active_reasoning := None\<rparr>) = (Inr b, e2)"
      and 3: "end_blocks (bt_values (en_active_tools e2)) (e2\<lparr>en_active_tools := []\<rparr>) = (Inr c, e')"
      and evs: "evs = a @ b @ c"
    by (auto simp: close_open_blocks_def result_simps)
  have ok1: "encoder_ok (e\<lparr>en_active_text := None\<rparr>)" "\<not> en_terminated (e\<lparr>en_active_text := None\<rparr>)"
      "distinct ?t" "set ?t \<inter> set (open_blocks (e\<lparr>en_active_text := None\<rparr>)) = {}"
    using assms(2,3) by (auto simp: encoder_simps split: option.splits)
  from end_blocks_step [OF 1 ok1] obtain s1 where
      e1: "e1 = e\<lparr>en_active_text := None, en_next_sequence := s1\<rparr>" "encoder_ok e1"
      and r1: "lc_run a (abs_encoder e) = Some (abs_encoder e1)"
    by (auto simp: abs_encoder_def open_blocks_def)
  have ok2: "encoder_ok (e1\<lparr>en_active_reasoning := None\<rparr>)" "\<not> en_terminated (e1\<lparr>en_active_reasoning := None\<rparr>)"
      "distinct ?r" "set ?r \<inter> set (open_blocks (e1\<lparr>en_active_reasoning := None\<rparr>)) = {}"
    using e1 assms(3) by (auto simp: encoder_simps split: option.splits)
  have r: "(case en_active_reasoning e1 of None \<Rightarrow> [] | Some i \<Rightarrow> [i]) = ?r" by (simp add: e1)
  from end_blocks_step [OF 2 [unfolded r] ok2] obtain s2 where
      e2: "e2 = e1\<lparr>en_active_reasoning := None, en_next_sequence := s2\<rparr>" "encoder_ok e2"
      and r2: "lc_run b (abs_encoder e1) = Some (abs_encoder e2)"
    using e1 by (auto simp: abs_encoder_def open_blocks_def)
  have ok3: "encoder_ok (e2\<lparr>en_active_tools := []\<rparr>)" "\<not> en_terminated (e2\<lparr>en_active_tools := []\<rparr>)"
      "distinct ?l" "set ?l \<inter> set (open_blocks (e2\<lparr>en_active_tools := []\<rparr>)) = {}"
    using e2 e1 assms(3) by (auto simp: encoder_simps bt_values_def split: option.splits)
  have l: "bt_values (en_active_tools e2) = ?l" by (simp add: e1 e2)
  from end_blocks_step [OF 3 [unfolded l] ok3] obtain s3 where
      e3: "e' = e2\<lparr>en_active_tools := [], en_next_sequence := s3\<rparr>" "encoder_ok e'"
      and r3: "lc_run c (abs_encoder e2) = Some (abs_encoder e')"
    using e1 e2 by (auto simp: abs_encoder_def open_blocks_def)
  have "produces e evs e'" using r1 r2 r3 e3(2) by (simp add: produces_def evs lc_run_append)
  moreover have "open_blocks e' = []" by (simp add: e3(1) e2(1) e1(1) open_blocks_def)
  moreover have "e' = e\<lparr>en_active_text := None, en_active_reasoning := None, en_active_tools := [], en_next_sequence := s3\<rparr>"
    by (simp add: e3(1) e2(1) e1(1))
  ultimately show ?thesis by blast
qed


lemma tool_keys:
  "encoder_ok e \<Longrightarrow> tool_block_id i e \<notin> en_started_blocks e \<Longrightarrow> i \<notin> fst ` set (en_active_tools e)"
proof
  assume e: "encoder_ok e" "tool_block_id i e \<notin> en_started_blocks e" and i: "i \<in> fst ` set (en_active_tools e)"
  then obtain b where b: "(i, b) \<in> set (en_active_tools e)" by auto
  with e(1) have "b = tool_block_id i e" by (auto simp: encoder_ok_def list_all_iff)
  moreover from b have "b \<in> set (open_blocks e)" by (force simp: open_blocks_def bt_values_def)
  ultimately show False using e by (auto simp: encoder_ok_def)
qed

lemma values_insert:
  "i \<notin> fst ` set m \<Longrightarrow> mset (bt_values (bt_insert i v m)) = add_mset v (mset (bt_values m))"
  by (induction i v m rule: bt_insert.induct) (auto simp: bt_values_def)

lemma open_insert_tool:
  assumes "i \<notin> fst ` set (en_active_tools e)"
  shows "mset (open_blocks (e\<lparr>en_active_tools := bt_insert i b (en_active_tools e)\<rparr>)) = add_mset b (mset (open_blocks e))"
  using values_insert [OF assms] by (simp add: open_blocks_def)

lemma whole_block_step:
  assumes "whole_block p k v e = (Inr evs, e')" "encoder_ok e" "\<not> en_terminated e" "en_response_started e"
  shows "produces e evs e'"
proof -
  from assms(1) obtain i nb n m where b: "i \<notin> en_started_blocks e" and n: "en_next_sequence e = Some n"
      "checked_add n 1 = Some m" 
      and e': "e' = e\<lparr>en_next_block := nb, en_started_blocks := insert i (en_started_blocks e),
          en_next_sequence := checked_add m 1\<rparr>"
      and evs: "evs = [\<lparr>se_event_id = en_response_id e @ ''-evt-'' @ show_nat n, se_sequence = n, se_kind = EvBlockStart i k None\<rparr>,
          \<lparr>se_event_id = en_response_id e @ ''-evt-'' @ show_nat m, se_sequence = m, se_kind = EvBlockEnd i (Some v)\<rparr>]"
    by (auto simp: whole_block_def result_simps dest!: block_id_Inr start_block_Inr)
  from n(2) have m: "m = Suc n" "m \<le> u64_max" by (auto simp: checked_add_def split: if_splits)
  from b n m assms(2-4) show ?thesis unfolding e'
    by (auto simp: evs produces_def encoder_simps lc_step_def lc_next_event_def)
qed

lemma set_bt_insert: "set (bt_insert k v m) \<subseteq> insert (k, v) (set m)"
  by (induction k v m rule: bt_insert.induct) auto

lemma tool_start_step:
  assumes "start_block (tool_block_id i e) BkToolCall name e = (Inr ev, e1)"
    and "encoder_ok e" "\<not> en_terminated e" "en_response_started e"
  shows "produces e [ev] (e1\<lparr>en_active_tools := bt_insert i (tool_block_id i e1) (en_active_tools e1)\<rparr>)"
proof -
  let ?b = "tool_block_id i e"
  let ?e = "e1\<lparr>en_active_tools := bt_insert i (tool_block_id i e1) (en_active_tools e1)\<rparr>"
  note st = start_step [OF assms]
  from st(3) obtain s where e1: "e1 = e\<lparr>en_started_blocks := insert ?b (en_started_blocks e), en_next_sequence := s\<rparr>" by blast
  have tb: "tool_block_id i e1 = ?b" by (simp add: e1 tool_block_id_def)
  have fresh: "i \<notin> fst ` set (en_active_tools e1)" using tool_keys [OF assms(2) st(2)] by (simp add: e1)
  note op = open_insert_tool [OF fresh, of ?b]
  have ob: "open_blocks e1 = open_blocks e" by (simp add: e1 open_blocks_def)
  from op have set: "set (open_blocks ?e) = insert ?b (set (open_blocks e))"
    unfolding tb ob [symmetric] by (metis set_mset_add_mset_insert set_mset_mset)
  have nb: "?b \<notin> set (open_blocks e)" using assms(2) st(2) by (auto simp: encoder_ok_def)
  have "distinct (open_blocks ?e)"
    using op nb assms(2) unfolding tb ob by (metis distinct.simps(2) mset_eq_imp_distinct_iff encoder_ok_def mset.simps(2))
  moreover have "list_all (\<lambda>(j, b). b = tool_block_id j ?e) (en_active_tools ?e)"
    using assms(2) set_bt_insert [of i ?b "en_active_tools e1"]
    by (auto simp: encoder_ok_def list_all_iff tool_block_id_def e1)
  ultimately have "encoder_ok ?e" using st(1) set assms(4)
    by (auto simp: encoder_ok_def ob) (auto simp: e1)
  moreover have "lc_step ev (abs_encoder e) = Some (abs_encoder ?e)"
    using st(4) set by (simp add: abs_encoder_def ob)
  ultimately show ?thesis by (simp add: produces_def)
qed


lemma emit_one_Inr: "emit_one k e = (Inr evs, e') \<longleftrightarrow> (\<exists>ev. evs = [ev] \<and> emit_event k e = (Inr ev, e'))"
  by (auto simp: emit_one_def result_simps)

lemma emit_one_step:
  "emit_one k e = (Inr evs, e') \<Longrightarrow> encoder_ok e \<Longrightarrow> \<not> en_terminated e
   \<Longrightarrow> lc_kind k (abs_encoder e') = Some (abs_encoder e') \<Longrightarrow> produces e evs e'"
  using produces_snoc [OF produces_Nil] emit_step(1) by (fastforce simp: emit_one_Inr)

lemma abs_sel [simp]:
  "lc_id (abs_encoder e) = en_response_id e"
  "lc_started (abs_encoder e) = en_response_started e" "lc_open (abs_encoder e) = set (open_blocks e)"
  "lc_seen (abs_encoder e) = en_started_blocks e" "lc_done (abs_encoder e) = en_terminated e"
  by (simp_all add: abs_encoder_def)

lemma emit_frame:
  "emit_event k e = (Inr ev, e') \<Longrightarrow> open_blocks e' = open_blocks e \<and> en_response_started e' = en_response_started e
    \<and> en_terminated e' = en_terminated e \<and> en_response_id e' = en_response_id e \<and> en_active_text e' = en_active_text e \<and> en_active_reasoning e' = en_active_reasoning e"
  by (auto simp: result_simps open_blocks_def)

lemma emit_plain_step:
  assumes "emit_one k e = (Inr evs, e')" "encoder_ok e" "\<not> en_terminated e"
    and "k = EvWarning w \<or> en_response_started e \<and> (k = EvUsage u \<or> k = EvProviderMetadata p m)"
  shows "produces e evs e'"
proof -
  have "en_response_started e' = en_response_started e" using assms(1) by (auto simp: emit_one_Inr result_simps)
  with assms(4) emit_one_step [OF assms(1-3)] show ?thesis by auto
qed

lemma message_start_step:
  assumes "emit_one (EvResponseStart (en_response_id e) m) (e\<lparr>en_response_started := True\<rparr>) = (Inr evs, e')"
    and "encoder_ok e" "\<not> en_terminated e" "\<not> en_response_started e"
  shows "produces e evs e'"
  using assms
  by (cases "en_active_text e"; cases "en_active_reasoning e")
    (auto simp: emit_one_Inr result_simps produces_def encoder_simps lc_step_def lc_next_event_def)

lemma text_step:
  assumes "ensure_text e = (Inr (evs, i), e1)" "emit_event (EvBlockDelta i v) e1 = (Inr ev, e2)"
    and "encoder_ok e" "\<not> en_terminated e" "en_response_started e"
  shows "produces e (evs @ [ev]) e2"
proof -
  from ensure_text_step [OF assms(1,3-5)] have 1: "produces e evs e1" "en_active_text e1 = Some i" "\<not> en_terminated e1" by auto
  have "i \<in> set (open_blocks e2)" using 1(2) emit_frame [OF assms(2)] by (simp add: open_blocks_def)
  then show ?thesis using produces_snoc [OF 1(1) assms(2) 1(3)] 1 emit_step(1) [OF assms(2)]
    by (simp add: produces_def)
qed

lemma reasoning_step:
  assumes "ensure_reasoning e = (Inr (evs, i), e1)" "emit_event (EvBlockDelta i v) e1 = (Inr ev, e2)"
    and "encoder_ok e" "\<not> en_terminated e" "en_response_started e"
  shows "produces e (evs @ [ev]) e2"
proof -
  from ensure_reasoning_step [OF assms(1,3-5)] have 1: "produces e evs e1" "en_active_reasoning e1 = Some i" "\<not> en_terminated e1" by auto
  have "i \<in> set (open_blocks e2)" using 1(2) emit_frame [OF assms(2)] by (simp add: open_blocks_def)
  then show ?thesis using produces_snoc [OF 1(1) assms(2) 1(3)] 1 emit_step(1) [OF assms(2)]
    by (simp add: produces_def)
qed

lemma reasoning_end_step:
  assumes "ensure_reasoning e = (Inr (evs, i), e1)"
    and "emit_event (EvBlockEnd i v) (e1\<lparr>en_active_reasoning := None\<rparr>) = (Inr ev, e2)"
    and "encoder_ok e" "\<not> en_terminated e" "en_response_started e"
  shows "produces e (evs @ [ev]) e2"
proof -
  from ensure_reasoning_step [OF assms(1,3-5)] have 1: "produces e evs e1" "en_active_reasoning e1 = Some i" "\<not> en_terminated e1" by auto
  from 1 assms(2) have "produces e1 [ev] e2"
    by (cases "en_active_text e1") (auto simp: produces_def result_simps encoder_simps lc_step_def lc_next_event_def)
  with 1(1) show ?thesis by (rule produces_trans)
qed

lemma terminal_step:
  assumes "close_open_blocks e = (Inr evs, e1)" "emit_event k e1 = (Inr ev, e2)"
    and "encoder_ok e" "\<not> en_terminated e"
    and "k = EvResponseEnd (en_response_id e) t \<and> en_response_started e \<or> k = EvError m info"
  shows "produces e (evs @ [ev]) (e2\<lparr>en_terminated := True\<rparr>)"
proof -
  from close_step [OF assms(1,3,4)] have 1: "produces e evs e1" "open_blocks e1 = []"
      "en_response_started e1 = en_response_started e" "\<not> en_terminated e1" "en_response_id e1 = en_response_id e"
    using assms(4) by auto
  have ok: "encoder_ok e2" using emit_step(1) [OF assms(2) _ 1(4)] 1(1) by (simp add: produces_def)
  note fr = emit_frame [OF assms(2)]
  have "lc_kind k (abs_encoder e2) = Some ((abs_encoder e2)\<lparr>lc_done := True\<rparr>)"
    using assms(5) 1 fr by auto
  also have "(abs_encoder e2)\<lparr>lc_done := True\<rparr> = abs_encoder (e2\<lparr>en_terminated := True\<rparr>)"
    by (simp add: abs_encoder_def open_blocks_def)
  finally have "lc_kind k (abs_encoder e2) = Some (abs_encoder (e2\<lparr>en_terminated := True\<rparr>))" .
  moreover have "encoder_ok (e2\<lparr>en_terminated := True\<rparr>)" using ok by (simp add: encoder_simps)
  ultimately show ?thesis using produces_snoc [OF 1(1) assms(2) 1(4)] by blast
qed

lemma tool_input_step:
  assumes "bt_get (en_active_tools e) i = Some b" "emit_one (EvBlockDelta b v) e = (Inr evs, e')"
    and "encoder_ok e" "\<not> en_terminated e"
  shows "produces e evs e'"
proof -
  have "b \<in> set (open_blocks e)" using assms(1)
    by (force simp: open_blocks_def bt_values_def bt_get_def dest: map_of_SomeD)
  then have "b \<in> set (open_blocks e')" using assms(2) emit_frame by (fastforce simp: emit_one_Inr)
  with emit_one_step [OF assms(2-4)] show ?thesis by simp
qed

lemma encode_delta_step:
  assumes "encode_delta d e = (Inr evs, e')" "encoder_ok e" "\<not> en_terminated e" "response_guard d e = Inr ()"
  shows "produces e evs e'"
proof (cases d)
  case (MessageStart m)
  with assms show ?thesis by (auto simp: encode_delta_def response_guard_def intro: message_start_step split: if_splits)
next
  case (TextDelta x)
  with assms show ?thesis by (auto simp: encode_delta_def response_guard_def bindS_Inr returnS_iff intro: text_step split: if_splits)
next
  case (ReasoningDelta x)
  with assms show ?thesis by (auto simp: encode_delta_def response_guard_def bindS_Inr returnS_iff intro: reasoning_step split: if_splits)
next
  case (ReasoningComplete x s q)
  with assms show ?thesis by (auto simp: encode_delta_def response_guard_def bindS_Inr returnS_iff intro: reasoning_end_step split: if_splits)
next
  case (ToolCallStart i name)
  with assms show ?thesis by (auto simp: encode_delta_def response_guard_def bindS_Inr intro: tool_start_step split: if_splits)
next
  case (ToolCallInput i v)
  with assms show ?thesis by (auto simp: encode_delta_def intro: tool_input_step split: option.splits)
next
  case (MessageStop r)
  with assms show ?thesis by (auto simp: encode_delta_def response_guard_def bindS_Inr intro: terminal_step split: if_splits)
next
  case (ErrorDelta m info)
  with assms show ?thesis by (auto simp: encode_delta_def bindS_Inr intro: terminal_step)
qed (use assms in \<open>auto simp: encode_delta_def response_guard_def intro: whole_block_step emit_plain_step split: if_splits\<close>)

lemma try_push_step:
  assumes "try_push d e = (Inr evs, e')" "encoder_ok e"
  shows "produces e evs e'"
proof (rule encode_delta_step [OF _ assms(2)])
  show "encode_delta d e = (Inr evs, e')" "\<not> en_terminated e" "response_guard d e = Inr ()"
    using assms(1) by (auto simp: try_push_def result_simps split: if_splits)
qed

subsection \<open>Refused deltas\<close>

definition room :: "encoder \<Rightarrow> nat" where
  "room e = Suc u64_max - seq_of (en_next_sequence e)"

lemma room_capacity: "encoder_ok e \<Longrightarrow> ensure_sequence_capacity k e = Inr () \<longleftrightarrow> k \<le> room e"
  by (auto simp: ensure_sequence_capacity_def room_def encoder_ok_def checked_add_def split: option.splits if_splits)

lemma room_emit: "0 < room e \<Longrightarrow> emit_event k e \<noteq> (Inl err, e')"
  by (auto simp: result_simps room_def)

lemma room_pos: "0 < room e \<Longrightarrow> \<exists>n. en_next_sequence e = Some n"
  by (cases "en_next_sequence e") (auto simp: room_def)

lemma room_after:
  "emit_event k e = (Inr ev, e') \<Longrightarrow> encoder_ok e \<Longrightarrow> room e' = room e - 1"
  by (auto simp: result_simps room_def seq_of_checked encoder_ok_def)

lemma room_start:
  "start_block i k name e = (Inr ev, e') \<Longrightarrow> encoder_ok e \<Longrightarrow> room e' = room e - 1"
  by (auto simp: start_block_def result_simps room_def seq_of_checked encoder_ok_def split: if_splits)

lemma room_upd [simp]:
  "room (e\<lparr>en_next_block := nb\<rparr>) = room e" "room (e\<lparr>en_active_text := t\<rparr>) = room e"
  "room (e\<lparr>en_active_reasoning := t\<rparr>) = room e" "room (e\<lparr>en_active_tools := ts\<rparr>) = room e"
  "room (e\<lparr>en_response_started := b\<rparr>) = room e" "room (e\<lparr>en_terminated := b\<rparr>) = room e"
  "room (e\<lparr>en_started_blocks := bs\<rparr>) = room e"
  by (simp_all add: room_def)

text \<open>What a refused delta may have changed: the counter of generated block identifiers.\<close>

definition refuses :: "encoder \<Rightarrow> encoding_error \<Rightarrow> encoder \<Rightarrow> bool" where
  "refuses e err e' \<longleftrightarrow> err \<noteq> EncoderPanicked \<and> (\<exists>nb. e' = e\<lparr>en_next_block := nb\<rparr>)"

lemma refuses_same: "err \<noteq> EncoderPanicked \<Longrightarrow> refuses e err e"
  unfolding refuses_def by (auto intro!: exI [of _ "en_next_block e"])

lemma fresh_block_refuses:
  assumes "bindS (block_id p) (\<lambda>i. bindS (start_block i k name) (f i)) e = (Inl err, e')"
    and "encoder_ok e" "0 < room e"
    and "\<And>i e1 ev e2. encoder_ok e1 \<Longrightarrow> room e1 = room e \<Longrightarrow> start_block i k name e1 = (Inr ev, e2) \<Longrightarrow> f i ev e2 \<noteq> (Inl err, e')"
  shows "refuses e err e'"
proof -
  from assms(1) consider "block_id p e = (Inl err, e')"
    | i e1 where "block_id p e = (Inr i, e1)" "start_block i k name e1 = (Inl err, e')"
    | i e1 ev e2 where "block_id p e = (Inr i, e1)" "start_block i k name e1 = (Inr ev, e2)" "f i ev e2 = (Inl err, e')"
    by (auto simp: result_simps)
  then show ?thesis
  proof cases
    case 1
    then show ?thesis using block_id_result [OF 1] by (auto simp: refuses_def)
  next
    case 2
    then show ?thesis using assms(3) block_id_Inr [OF 2(1)] room_emit
      by (auto simp: start_block_def split: if_splits)
  next
    case 3
    obtain nb where "e1 = e\<lparr>en_next_block := nb\<rparr>" using block_id_Inr [OF 3(1)] by blast
    then have "encoder_ok e1" "room e1 = room e" using assms(2) by (simp_all add: ok_next_block)
    from assms(4) [OF this 3(2)] 3(3) show ?thesis by simp
  qed
qed

lemma end_blocks_room:
  "length bs \<le> room e \<Longrightarrow> encoder_ok e \<Longrightarrow> \<exists>evs s. end_blocks bs e = (Inr evs, e\<lparr>en_next_sequence := s\<rparr>)
     \<and> encoder_ok (e\<lparr>en_next_sequence := s\<rparr>) \<and> room (e\<lparr>en_next_sequence := s\<rparr>) = room e - length bs"
proof (induction bs arbitrary: e)
  case Nil
  then show ?case by (auto intro!: exI [of _ "en_next_sequence e"])
next
  case (Cons b bs)
  from Cons.prems obtain n where n: "en_next_sequence e = Some n"
    by (cases "en_next_sequence e") (auto simp: room_def)
  obtain ev where ev: "emit_event (EvBlockEnd b None) e = (Inr ev, e\<lparr>en_next_sequence := checked_add n 1\<rparr>)"
    using n by (simp add: emit_event_def)
  let ?e = "e\<lparr>en_next_sequence := checked_add n 1\<rparr>"
  have ok: "encoder_ok ?e" using Cons.prems(2) by (simp add: encoder_simps)
  have r: "room ?e = room e - 1" by (rule room_after [OF ev Cons.prems(2)])
  have "length bs \<le> room ?e" using Cons.prems(1) unfolding r by simp
  from Cons.IH [OF this ok] r obtain evs s where
    "end_blocks bs ?e = (Inr evs, e\<lparr>en_next_sequence := s\<rparr>)" "encoder_ok (e\<lparr>en_next_sequence := s\<rparr>)"
    "room (e\<lparr>en_next_sequence := s\<rparr>) = room e - 1 - length bs" by auto
  then show ?case using ev by (auto simp: bindS_def returnS_def)
qed


lemma close_room:
  assumes "encoder_ok e" "length (open_blocks e) \<le> room e" "\<not> en_terminated e"
  shows "\<exists>evs e'. close_open_blocks e = (Inr evs, e') \<and> room e' = room e - length (open_blocks e)"
proof -
  let ?t = "case en_active_text e of None \<Rightarrow> [] | Some i \<Rightarrow> [i]"
  let ?r = "case en_active_reasoning e of None \<Rightarrow> [] | Some i \<Rightarrow> [i]"
  let ?l = "bt_values (en_active_tools e)"
  have len: "length ?t + length ?r + length ?l \<le> room e" using assms(2) by (simp add: open_blocks_def)
  have "length ?t \<le> room (e\<lparr>en_active_text := None\<rparr>)" "encoder_ok (e\<lparr>en_active_text := None\<rparr>)"
    using assms(1) len by (auto simp: encoder_simps)
  from end_blocks_room [OF this] obtain a s where
    1: "end_blocks ?t (e\<lparr>en_active_text := None\<rparr>) = (Inr a, e\<lparr>en_active_text := None, en_next_sequence := s\<rparr>)"
      "encoder_ok (e\<lparr>en_active_text := None, en_next_sequence := s\<rparr>)"
      "room (e\<lparr>en_active_text := None, en_next_sequence := s\<rparr>) = room e - length ?t" by auto
  let ?e1 = "e\<lparr>en_active_text := None, en_next_sequence := s\<rparr>"
  have "length ?r \<le> room (?e1\<lparr>en_active_reasoning := None\<rparr>)" "encoder_ok (?e1\<lparr>en_active_reasoning := None\<rparr>)"
    using 1(2,3) len by (auto simp: encoder_simps)
  from end_blocks_room [OF this] 1(3) obtain b s' where
    2: "end_blocks ?r (?e1\<lparr>en_active_reasoning := None\<rparr>) = (Inr b, ?e1\<lparr>en_active_reasoning := None, en_next_sequence := s'\<rparr>)"
      "encoder_ok (?e1\<lparr>en_active_reasoning := None, en_next_sequence := s'\<rparr>)"
      "room (?e1\<lparr>en_active_reasoning := None, en_next_sequence := s'\<rparr>) = room e - length ?t - length ?r" by auto
  let ?e2 = "?e1\<lparr>en_active_reasoning := None, en_next_sequence := s'\<rparr>"
  have "length ?l \<le> room (?e2\<lparr>en_active_tools := []\<rparr>)" "encoder_ok (?e2\<lparr>en_active_tools := []\<rparr>)"
    using 2(2,3) len by (auto simp: encoder_simps bt_values_def)
  from end_blocks_room [OF this] 2(3) obtain c s'' where
    3: "end_blocks ?l (?e2\<lparr>en_active_tools := []\<rparr>) = (Inr c, ?e2\<lparr>en_active_tools := [], en_next_sequence := s''\<rparr>)"
      "room (?e2\<lparr>en_active_tools := [], en_next_sequence := s''\<rparr>) = room e - length ?t - length ?r - length ?l" by auto
  have "close_open_blocks e = (Inr (a @ b @ c), ?e2\<lparr>en_active_tools := [], en_next_sequence := s''\<rparr>)"
    using 1(1) 2(1) 3(1) by (simp add: close_open_blocks_def bindS_def returnS_def)
  then show ?thesis using 3(2) by (auto simp: open_blocks_def)
qed


lemma emit_one_Inl: "emit_one k e = (Inl err, e') \<longleftrightarrow> emit_event k e = (Inl err, e')"
  by (auto simp: emit_one_def result_simps)

lemma whole_block_refuses:
  assumes "whole_block p k v e = (Inl err, e')" "encoder_ok e" "2 \<le> room e" "\<not> en_terminated e" "en_response_started e"
  shows "refuses e err e'"
  using assms(1) unfolding whole_block_def
proof (rule fresh_block_refuses)
  show "encoder_ok e" "0 < room e" using assms(2,3) by simp_all
  fix i e1 ev e2
  assume e1: "encoder_ok e1" "room e1 = room e" "start_block i k None e1 = (Inr ev, e2)"
  then have "0 < room e2" using room_start assms(3) by fastforce
  then show "bindS (emit_event (EvBlockEnd i (Some v))) (\<lambda>ev'. returnS [ev, ev']) e2 \<noteq> (Inl err, e')"
    using room_emit by (auto simp: result_simps)
qed

lemma ensure_text_refuses:
  assumes "bindS ensure_text (\<lambda>(evs, i). bindS (emit_event (k i)) (\<lambda>ev. returnS (g evs ev))) e = (Inl err, e')"
    and "encoder_ok e" "1 + (if en_active_text e = None then 1 else 0) \<le> room e"
  shows "refuses e err e'"
proof (cases "en_active_text e")
  case None
  from assms(1) None have "bindS (block_id ''text'') (\<lambda>i. bindS (start_block i BkText None) (\<lambda>ev0 e.
      bindS (emit_event (k i)) (\<lambda>ev. returnS (g [ev0] ev)) (e\<lparr>en_active_text := Some i\<rparr>))) e = (Inl err, e')"
    by (auto simp: ensure_text_def bindS_def split: prod.splits sum.splits)
  then show ?thesis
  proof (rule fresh_block_refuses)
    show "encoder_ok e" "0 < room e" using assms(2,3) by simp_all
    fix i e1 ev e2
    assume e1: "encoder_ok e1" "room e1 = room e" "start_block i BkText None e1 = (Inr ev, e2)"
    then have "0 < room (e2\<lparr>en_active_text := Some i\<rparr>)" using room_start assms(3) None by fastforce
    then show "bindS (emit_event (k i)) (\<lambda>ev'. returnS (g [ev] ev')) (e2\<lparr>en_active_text := Some i\<rparr>) \<noteq> (Inl err, e')"
      using room_emit by (auto simp: result_simps)
  qed
next
  case (Some a)
  with assms(1,3) room_emit [of e "k a" err e'] show ?thesis by (auto simp: ensure_text_def result_simps)
qed

lemma ensure_reasoning_refuses:
  assumes "bindS ensure_reasoning (\<lambda>(evs, i). bindS (\<lambda>e. emit_event (k i) (h e)) (\<lambda>ev. returnS (g evs ev))) e = (Inl err, e')"
    and "encoder_ok e" "1 + (if en_active_reasoning e = None then 1 else 0) \<le> room e"
    and h: "\<And>e. room (h e) = room e"
  shows "refuses e err e'"
proof (cases "en_active_reasoning e")
  case None
  from assms(1) None have "bindS (block_id ''reasoning'') (\<lambda>i. bindS (start_block i BkReasoning None) (\<lambda>ev0 e.
      bindS (\<lambda>e. emit_event (k i) (h e)) (\<lambda>ev. returnS (g [ev0] ev)) (e\<lparr>en_active_reasoning := Some i\<rparr>))) e = (Inl err, e')"
    by (auto simp: ensure_reasoning_def bindS_def split: prod.splits sum.splits)
  then show ?thesis
  proof (rule fresh_block_refuses)
    show "encoder_ok e" "0 < room e" using assms(2,3) by simp_all
    fix i e1 ev e2
    assume e1: "encoder_ok e1" "room e1 = room e" "start_block i BkReasoning None e1 = (Inr ev, e2)"
    then have "0 < room (h (e2\<lparr>en_active_reasoning := Some i\<rparr>))" using room_start assms(3) None h by fastforce
    then show "bindS (\<lambda>e. emit_event (k i) (h e)) (\<lambda>ev'. returnS (g [ev] ev')) (e2\<lparr>en_active_reasoning := Some i\<rparr>) \<noteq> (Inl err, e')"
      using room_emit by (auto simp: result_simps)
  qed
next
  case (Some a)
  with assms(1,3) room_emit [of "h e" "k a" err e'] h show ?thesis by (auto simp: ensure_reasoning_def result_simps)
qed

lemma terminal_never_refused:
  assumes "bindS close_open_blocks (\<lambda>evs. bindS (emit_event k) (\<lambda>ev e. (Inr (evs @ [ev]), u e))) e = (Inl err, e')"
    and "encoder_ok e" "Suc (length (open_blocks e)) \<le> room e" "\<not> en_terminated e"
  shows "refuses e err e'"
proof -
  from close_room [OF assms(2) _ assms(4)] assms(3) obtain evs e1 where
    e1: "close_open_blocks e = (Inr evs, e1)" "0 < room e1" by auto
  from assms(1) e1(1) room_pos [OF e1(2)] show ?thesis by (auto simp: result_simps)
qed

lemma length_open: "length (open_blocks e) = (if en_active_text e \<noteq> None then 1 else 0)
    + (if en_active_reasoning e \<noteq> None then 1 else 0) + length (en_active_tools e)"
  by (auto simp: open_blocks_def bt_values_def split: option.splits)

lemma encode_delta_refuses:
  assumes "encode_delta d e = (Inl err, e')" "encoder_ok e" "\<not> en_terminated e" "response_guard d e = Inr ()"
    and "required_event_slots d e \<le> room e"
  shows "refuses e err e'"
proof (cases d)
  case (TextDelta x)
  with assms ensure_text_refuses [where k = "\<lambda>i. EvBlockDelta i (JObject [(''text'', JString x)])" and g = "\<lambda>evs ev. evs @ [ev]"]
  show ?thesis by (simp add: encode_delta_def required_event_slots_def)
next
  case (ReasoningDelta x)
  with assms ensure_reasoning_refuses [where k = "\<lambda>i. EvBlockDelta i (JObject [(''text'', JString x)])" and g = "\<lambda>evs ev. evs @ [ev]" and h = "\<lambda>e. e"]
  show ?thesis by (simp add: encode_delta_def required_event_slots_def)
next
  case (ReasoningComplete x s q)
  with assms ensure_reasoning_refuses [where k = "\<lambda>i. EvBlockEnd i (Some (JObject [(''opaque'', opt_json id q),
                    (''signature'', opt_json JString s), (''text'', JString x)]))"
      and g = "\<lambda>evs ev. evs @ [ev]" and h = "\<lambda>e. e\<lparr>en_active_reasoning := None\<rparr>"]
  show ?thesis by (simp add: encode_delta_def required_event_slots_def)
next
  case (MessageStop x)
  with assms terminal_never_refused [where k = "EvResponseEnd (en_response_id e) x" and u = "\<lambda>e. e\<lparr>en_terminated := True\<rparr>"]
  show ?thesis by (simp add: encode_delta_def required_event_slots_def length_open)
next
  case (ErrorDelta x i)
  with assms terminal_never_refused [where k = "EvError x i" and u = "\<lambda>e. e\<lparr>en_terminated := True\<rparr>"]
  show ?thesis by (simp add: encode_delta_def required_event_slots_def length_open)
next
  case (ToolCallStart i name)
  with assms room_emit [of "e\<lparr>en_started_blocks := insert (tool_block_id i e) (en_started_blocks e)\<rparr>"]
  show ?thesis by (auto simp: encode_delta_def required_event_slots_def start_block_def bindS_Inl intro: refuses_same split: if_splits)
next
  case (ToolResult a b c)
  with assms whole_block_refuses show ?thesis
    by (auto simp: encode_delta_def required_event_slots_def response_guard_def split: if_splits)
next
  case (Citation a b c)
  with assms whole_block_refuses show ?thesis
    by (auto simp: encode_delta_def required_event_slots_def response_guard_def split: if_splits)
qed (use assms room_emit in \<open>auto simp: encode_delta_def required_event_slots_def emit_one_Inl intro: refuses_same split: option.splits\<close>)

lemma try_push_refuses:
  assumes "try_push d e = (Inl err, e')" "encoder_ok e"
  shows "refuses e err e'"
proof -
  consider "e' = e" "err \<noteq> EncoderPanicked"
    | "encode_delta d e = (Inl err, e')" "\<not> en_terminated e" "response_guard d e = Inr ()"
      "ensure_sequence_capacity (required_event_slots d e) e = Inr ()"
    using assms(1)
    by (auto simp: try_push_def result_simps response_guard_def ensure_sequence_capacity_def
        split: if_splits stream_delta.splits option.splits)
  then show ?thesis
    by cases (use assms(2) in \<open>auto intro: refuses_same encode_delta_refuses simp: room_capacity\<close>)
qed

subsection \<open>Whole streams\<close>

fun encode_all :: "stream_delta list \<Rightarrow> encoder \<Rightarrow> stream_event list \<times> encoder" where
  "encode_all [] e = ([], e)"
| "encode_all (d # ds) e =
     (case try_push d e of
        (Inr evs, e1) \<Rightarrow> (let (rest, e2) = encode_all ds e1 in (evs @ rest, e2))
      | (Inl _, e1) \<Rightarrow> encode_all ds e1)"

fun push_all :: "stream_delta list \<Rightarrow> encoder \<Rightarrow> stream_event list \<times> encoder" where
  "push_all [] e = ([], e)"
| "push_all (d # ds) e = (let (evs, e1) = push d e; (rest, e2) = push_all ds e1 in (evs @ rest, e2))"

lemma encoder_new_ok [simp]: "encoder_ok (encoder_new r)"
  by (simp add: encoder_simps encoder_new_def u64_max_def)

lemma abs_encoder_new [simp]: "abs_encoder (encoder_new r) = lifecycle_start r"
  by (simp add: encoder_simps encoder_new_def lifecycle_start_def)

lemma refuses_abs: "refuses e err e' \<Longrightarrow> encoder_ok e \<Longrightarrow> encoder_ok e' \<and> abs_encoder e' = abs_encoder e"
  by (auto simp: refuses_def ok_next_block)

lemma encode_all_produces: "encode_all ds e = (evs, e') \<Longrightarrow> encoder_ok e \<Longrightarrow> produces e evs e'"
proof (induction ds arbitrary: e evs)
  case Nil
  then show ?case by (simp add: produces_Nil)
next
  case (Cons d ds)
  obtain r e1 where r: "try_push d e = (r, e1)" by force
  show ?case
  proof (cases r)
    case (Inl err)
    with refuses_abs [OF try_push_refuses] r Cons.prems have e1: "encoder_ok e1" "abs_encoder e1 = abs_encoder e" by blast+
    from Cons.prems(1) r Inl have "encode_all ds e1 = (evs, e')" by simp
    from Cons.IH [OF this e1(1)] e1(2) show ?thesis by (simp add: produces_def)
  next
    case (Inr xs)
    from try_push_step [OF r [unfolded Inr] Cons.prems(2)] have p: "produces e xs e1" .
    obtain rest where rest: "encode_all ds e1 = (rest, e')" "evs = xs @ rest"
      using Cons.prems(1) r Inr by (auto split: prod.splits)
    from Cons.IH [OF rest(1)] p have "produces e1 rest e'" by (simp add: produces_def)
    with p show ?thesis unfolding rest(2) by (rule produces_trans)
  qed
qed

lemma push_terminated: "en_terminated e \<Longrightarrow> push d e = ([], e)"
  by (simp add: push_def try_push_def)

lemma push_all_terminated: "en_terminated e \<Longrightarrow> push_all ds e = ([], e)"
  by (induction ds) (simp_all add: push_terminated)

text \<open>The compatible adapter: either an ordinary step, or the end with at most one error.\<close>

lemma push_cases:
  assumes "push d e = (evs, e')" "encoder_ok e"
  shows "produces e evs e' \<or> en_terminated e' \<and> (evs = [] \<or>
    (\<exists>ev m. evs = [ev] \<and> lc_next_event ev (abs_encoder e) \<and> se_kind ev = EvError m (error_info_new EcConflict)))"
proof -
  obtain r e1 where r: "try_push d e = (r, e1)" by force
  show ?thesis
  proof (cases r)
    case (Inr xs)
    with assms r try_push_step [of d e xs e1] show ?thesis by (simp add: push_def)
  next
    case (Inl err)
    note rf = try_push_refuses [OF r [unfolded Inl] assms(2)]
    from rf obtain nb where e1: "e1 = e\<lparr>en_next_block := nb\<rparr>" by (auto simp: refuses_def)
    show ?thesis
    proof (cases "err = StreamTerminated")
      case True
      with assms r Inl refuses_abs [OF rf assms(2)] show ?thesis by (simp add: push_def produces_def)
    next
      case False
      let ?p = "case ensure_sequence_capacity 1 (e1\<lparr>en_terminated := True\<rparr>) of
        Inl _ \<Rightarrow> ([], e1\<lparr>en_terminated := True\<rparr>)
        | Inr _ \<Rightarrow> (case emit_event (EvError (encoding_error_text err) (error_info_new EcConflict)) (e1\<lparr>en_terminated := True\<rparr>) of
             (Inr ev, e3) \<Rightarrow> ([ev], e3) | (Inl _, e3) \<Rightarrow> ([], e3))"
      have "push d e = ?p" using r Inl False by (cases err) (auto simp: push_def Let_def)
      with assms(1) show ?thesis
        by (auto simp: e1 emit_event_def abs_encoder_def lc_next_event_def split: sum.splits option.splits prod.splits)
    qed
  qed
qed

text \<open>A delta that the encoder refuses emits nothing, changes nothing but the counter of generated
  block identifiers, and no delta makes the encoder panic.\<close>

theorem refused_delta_changes_nothing:
  assumes "encode_all ds (encoder_new r) = (evs, e)" and "try_push d e = (Inl err, e')"
  shows "err \<noteq> EncoderPanicked \<and> e'\<lparr>en_next_block := en_next_block e\<rparr> = e"
proof -
  from encode_all_produces [OF assms(1)] have "encoder_ok e" by (simp add: produces_def)
  from try_push_refuses [OF assms(2) this] show ?thesis by (auto simp: refuses_def)
qed

theorem refused_delta_changes_nothing_witness:
  "let (evs, e) = encode_all [MessageStart ''m''] (encoder_new ''r''); (r, e') = try_push (MessageStart ''n'') e
   in r = Inl DuplicateResponseStart \<and> e'\<lparr>en_next_block := en_next_block e\<rparr> = e"
proof -
  obtain evs e where e: "encode_all [MessageStart ''m''] (encoder_new ''r'') = (evs, e)" by force
  then have s: "en_response_started e" "\<not> en_terminated e"
    by (auto simp: try_push_def encoder_new_def response_guard_def bindS_def checkS_def ensure_sequence_capacity_def
        required_event_slots_def requires_generated_block_def encode_delta_def emit_one_def emit_event_def returnS_def
        checked_add_def u64_max_def)
  then have p: "try_push (MessageStart ''n'') e = (Inl DuplicateResponseStart, e)"
    by (simp add: try_push_def response_guard_def bindS_def checkS_def)
  show ?thesis using refused_delta_changes_nothing [OF e p] by (simp add: e p del: encode_all.simps)
qed

text \<open>The adapter for callers that want no errors emits a run of the lifecycle automaton followed by
  at most one more event, a conflict error that ends the stream with the next sequence number.\<close>

lemma push_ends_with_one_error:
  "\<exists>good bad l. fst (push_all ds (encoder_new r)) = good @ bad
     \<and> lc_run good (lifecycle_start r) = Some l
     \<and> (bad = [] \<or> (\<exists>ev m. bad = [ev] \<and> lc_next_event ev l \<and> se_kind ev = EvError m (error_info_new EcConflict)
          \<and> en_terminated (snd (push_all ds (encoder_new r)))))"
proof -
  have "\<exists>good bad l. fst (push_all ds e) = good @ bad \<and> lc_run good (abs_encoder e) = Some l
     \<and> (bad = [] \<or> (\<exists>ev m. bad = [ev] \<and> lc_next_event ev l \<and> se_kind ev = EvError m (error_info_new EcConflict)
          \<and> en_terminated (snd (push_all ds e))))" if "encoder_ok e" for e
    using that
  proof (induction ds arbitrary: e)
    case Nil
    then show ?case by simp
  next
    case (Cons d ds)
    obtain evs e1 where p: "push d e = (evs, e1)" by force
    have all: "push_all (d # ds) e = (evs @ fst (push_all ds e1), snd (push_all ds e1))"
      by (simp add: p split: prod.splits)
    from push_cases [OF p Cons.prems] consider "produces e evs e1"
      | "en_terminated e1" "evs = []"
      | ev m where "en_terminated e1" "evs = [ev]" "lc_next_event ev (abs_encoder e)"
          "se_kind ev = EvError m (error_info_new EcConflict)" by blast
    then show ?case
    proof cases
      case 1
      with Cons.IH [of e1] obtain good bad l where g: "fst (push_all ds e1) = good @ bad"
          "lc_run good (abs_encoder e1) = Some l"
          "bad = [] \<or> (\<exists>ev m. bad = [ev] \<and> lc_next_event ev l \<and> se_kind ev = EvError m (error_info_new EcConflict)
             \<and> en_terminated (snd (push_all ds e1)))" by (auto simp: produces_def)
      show ?thesis unfolding all
        by (rule exI [of _ "evs @ good"], rule exI [of _ bad], rule exI [of _ l])
          (use 1 g in \<open>auto simp: produces_def lc_run_append\<close>)
    next
      case 2
      then show ?thesis unfolding all by (simp add: push_all_terminated)
    next
      case 3
      show ?thesis unfolding all
        by (rule exI [of _ "[]"], rule exI [of _ evs], rule exI [of _ "abs_encoder e"])
          (use 3 in \<open>simp add: push_all_terminated\<close>)
    qed
  qed
  from this [of "encoder_new r"] show ?thesis by simp
qed

text \<open>C31: whatever deltas arrive, in any order and with any refused ones in between, the events that
  the encoder emits through \<open>try\_push\<close> form a run of the lifecycle automaton: consecutive sequence
  numbers from 1 and the event identifiers made of them, one start of the response under its identifier
  before any block, usage or metadata, block identifiers that are never reused, deltas and ends only of
  open blocks, and an end of the stream only when no block is open, after which nothing is emitted.
  Through the adapter \<open>push\<close> they form such a run, followed by at most one more event with the next number
  and identifier: the conflict error that ends the stream when a delta was refused, whatever blocks are
  open.\<close>

theorem encoder_refines_lifecycle:
  "lc_run (fst (encode_all ds (encoder_new r))) (lifecycle_start r)
       = Some (abs_encoder (snd (encode_all ds (encoder_new r))))
   \<and> (\<exists>good bad l. fst (push_all ds (encoder_new r)) = good @ bad \<and> lc_run good (lifecycle_start r) = Some l
        \<and> (bad = [] \<or> (\<exists>ev m. bad = [ev] \<and> lc_next_event ev l \<and> se_kind ev = EvError m (error_info_new EcConflict)
             \<and> en_terminated (snd (push_all ds (encoder_new r))))))"
  using encode_all_produces [of ds "encoder_new r"] push_ends_with_one_error [of ds r]
  by (simp add: produces_def surjective_pairing)

end
