(* ===== verification/TraceEval.thy ===== *)
theory TraceEval
  imports StreamProps DurProps
begin

text \<open>
  The trace assertions of \<open>trace\_eval.rs\<close> over stream events and durable events, and what they say
  of the streams that the encoder produces and of the logs of reachable runs.
\<close>

subsection \<open>Suites and results\<close>

datatype trace_assertion =
    StreamSequenceMonotonic
  | StreamBlocksBalanced
  | DurableSequenceMonotonic
  | NoDuplicateActivityCompletion
  | AllRequiredReconciliationsResolved
  | ApprovalResolvedAs string bool
  | RunStatusIs run_status

record eval_suite =
  es_schema_version :: nat
  es_name :: string
  es_assertions :: "trace_assertion list"

definition suite_new :: "string \<Rightarrow> trace_assertion list \<Rightarrow> eval_suite" where
  "suite_new name assertions = \<lparr>es_schema_version = 1, es_name = name, es_assertions = assertions\<rparr>"

record trace_input =
  ti_stream_events :: "stream_event list"
  ti_durable_events :: "run_event list"
  ti_run_status :: "run_status option"

record trace_check =
  tc_assertion :: string
  tc_passed :: bool
  tc_message :: string

record eval_result =
  er_suite :: string
  er_passed :: bool
  er_passed_checks :: nat
  er_total_checks :: nat
  er_checks :: "trace_check list"

subsection \<open>The loops of the assertions\<close>

fun consecutive_from :: "nat \<Rightarrow> nat list \<Rightarrow> bool" where
  "consecutive_from index [] = True"
| "consecutive_from index (s # ss) = (s = index + 1 \<and> consecutive_from (index + 1) ss)"

text \<open>The set operations \<open>insert\<close> and \<open>remove\<close> report whether they changed the set.\<close>

fun balance_blocks :: "stream_event list \<Rightarrow> string set \<Rightarrow> bool \<Rightarrow> string set \<times> bool" where
  "balance_blocks [] opened valid = (opened, valid)"
| "balance_blocks (ev # evs) opened valid =
     (case se_kind ev of
        EvBlockStart b _ _ \<Rightarrow> balance_blocks evs (insert b opened) (valid \<and> b \<notin> opened)
      | EvBlockDelta b _ \<Rightarrow> balance_blocks evs opened (valid \<and> b \<in> opened)
      | EvBlockEnd b _ \<Rightarrow> balance_blocks evs (opened - {b}) (valid \<and> b \<in> opened)
      | _ \<Rightarrow> balance_blocks evs opened valid)"

fun unique_completions :: "run_event list \<Rightarrow> (string \<times> nat) set \<Rightarrow> bool" where
  "unique_completions [] completed = True"
| "unique_completions (e # es) completed =
     (case ev_kind e of
        ActivityAttemptCompleted i k _ _ \<Rightarrow>
          (i, k) \<notin> completed \<and> unique_completions es (insert (i, k) completed)
      | _ \<Rightarrow> unique_completions es completed)"

fun reconciliations ::
  "run_event list \<Rightarrow> (string \<times> nat) set \<Rightarrow> (string \<times> nat) set \<Rightarrow> bool \<Rightarrow> (string \<times> nat) set \<times> bool"
where
  "reconciliations [] opened resolved valid = (opened, valid)"
| "reconciliations (e # es) opened resolved valid =
     (case ev_kind e of
        ActivityReconciliationRequired i k _ \<Rightarrow>
          if (i, k) \<in> resolved then reconciliations es opened resolved False
          else reconciliations es (insert (i, k) opened) resolved (valid \<and> (i, k) \<notin> opened)
      | ActivityReconciled i k _ \<Rightarrow>
          if (i, k) \<in> opened
          then reconciliations es (opened - {(i, k)}) (insert (i, k) resolved) (valid \<and> (i, k) \<notin> resolved)
          else reconciliations es opened resolved False
      | _ \<Rightarrow> reconciliations es opened resolved valid)"

fun approval_lifecycle ::
  "string \<Rightarrow> run_event list \<Rightarrow> bool \<Rightarrow> bool option \<Rightarrow> bool \<Rightarrow> bool \<times> bool option \<times> bool"
where
  "approval_lifecycle a [] requested resolution valid = (requested, resolution, valid)"
| "approval_lifecycle a (e # es) requested resolution valid =
     (case ev_kind e of
        ApprovalRequested i _ _ _ _ \<Rightarrow>
          if i = a then approval_lifecycle a es True resolution (valid \<and> \<not> requested \<and> resolution = None)
          else approval_lifecycle a es requested resolution valid
      | ApprovalResolved i approved _ \<Rightarrow>
          if i = a
          then approval_lifecycle a es requested
                 (if resolution = None then Some approved else resolution)
                 (valid \<and> requested \<and> resolution = None)
          else approval_lifecycle a es requested resolution valid
      | _ \<Rightarrow> approval_lifecycle a es requested resolution valid)"

definition check_of :: "string \<Rightarrow> bool \<Rightarrow> string \<Rightarrow> trace_check" where
  "check_of name passed message = \<lparr>tc_assertion = name, tc_passed = passed, tc_message = message\<rparr>"

fun status_debug :: "run_status \<Rightarrow> string" where
  "status_debug RunRunning = ''Running''"
| "status_debug RunPausedSt = ''Paused''"
| "status_debug RunReconcileRequired = ''ReconcileRequired''"
| "status_debug RunCompletedSt = ''Completed''"
| "status_debug RunFailedSt = ''Failed''"
| "status_debug RunCancelledSt = ''Cancelled''"

definition quoted :: "string \<Rightarrow> string" where
  "quoted s = [CHR 0x27] @ s @ [CHR 0x27]"

fun evaluate_assertion :: "trace_assertion \<Rightarrow> trace_input \<Rightarrow> trace_check" where
  "evaluate_assertion StreamSequenceMonotonic input =
     (let valid = consecutive_from 0 (map se_sequence (ti_stream_events input))
      in check_of ''stream_sequence_monotonic'' valid
           (if valid then ''stream sequence is consecutive'' else ''stream sequence contains a gap or duplicate''))"
| "evaluate_assertion StreamBlocksBalanced input =
     (let (opened, valid) = balance_blocks (ti_stream_events input) {} True;
          valid = (valid \<and> opened = {})
      in check_of ''stream_blocks_balanced'' valid
           (if valid then ''every stream block has a valid lifecycle''
            else ''stream contains an orphan, duplicate, or unclosed block''))"
| "evaluate_assertion DurableSequenceMonotonic input =
     (let valid = consecutive_from 0 (map ev_sequence (ti_durable_events input))
      in check_of ''durable_sequence_monotonic'' valid
           (if valid then ''durable sequence is consecutive'' else ''durable sequence contains a gap or duplicate''))"
| "evaluate_assertion NoDuplicateActivityCompletion input =
     (let valid = unique_completions (ti_durable_events input) {}
      in check_of ''no_duplicate_activity_completion'' valid
           (if valid then ''activity completions are unique''
            else ''the same activity attempt completed more than once''))"
| "evaluate_assertion AllRequiredReconciliationsResolved input =
     (let (opened, valid) = reconciliations (ti_durable_events input) {} {} True
      in check_of ''all_required_reconciliations_resolved'' (valid \<and> card opened = 0)
           (if valid then show_nat (card opened) @ '' reconciliation requirement(s) remain unresolved''
            else ''reconciliation lifecycle is duplicate or out of order''))"
| "evaluate_assertion (ApprovalResolvedAs a approved) input =
     (let (requested, resolution, lifecycle_valid) = approval_lifecycle a (ti_durable_events input) False None True;
          valid = (lifecycle_valid \<and> requested \<and> resolution = Some approved)
      in check_of ''approval_resolved'' valid
           (if valid then ''approval '' @ quoted a @ '' has the expected resolution''
            else if \<not> lifecycle_valid then ''approval '' @ quoted a @ '' has a duplicate or out-of-order lifecycle''
            else ''approval '' @ quoted a @ '' is missing or has another resolution''))"
| "evaluate_assertion (RunStatusIs status) input =
     check_of ''run_status'' (ti_run_status input = Some status)
       (''expected '' @ status_debug status @ '', observed ''
        @ (case ti_run_status input of None \<Rightarrow> ''None'' | Some s \<Rightarrow> ''Some('' @ status_debug s @ '')''))"

definition evaluate_trace :: "eval_suite \<Rightarrow> trace_input \<Rightarrow> eval_result" where
  "evaluate_trace suite input =
     (let checks = map (\<lambda>assertion. evaluate_assertion assertion input) (es_assertions suite);
          passed_checks = length (filter tc_passed checks)
      in \<lparr>er_suite = es_name suite, er_passed = (checks \<noteq> [] \<and> passed_checks = length checks),
          er_passed_checks = passed_checks, er_total_checks = length checks, er_checks = checks\<rparr>)"

subsection \<open>Streams of the encoder\<close>

lemma consecutive_iff: "consecutive_from k ss \<longleftrightarrow> (\<forall>i < length ss. ss ! i = k + i + 1)"
proof (induction ss arbitrary: k)
  case (Cons s ss)
  then show ?case by (auto simp: nth_Cons less_Suc_eq_0_disj split: nat.splits)
qed simp

lemma lc_kind_next: "lc_kind k l = Some l' \<Longrightarrow> lc_next l' = lc_next l"
  by (cases k) (auto split: if_splits)

lemma lc_step_next: "lc_step ev l = Some l' \<Longrightarrow> se_sequence ev = lc_next l \<and> lc_next l' = Suc (lc_next l)"
  by (auto simp: lc_step_def lc_next_event_def dest: lc_kind_next split: if_splits)

lemma lc_run_consecutive:
  "lc_run evs l = Some l' \<Longrightarrow> lc_next l = Suc k \<Longrightarrow> consecutive_from k (map se_sequence evs)"
  by (induction evs arbitrary: l k) (auto split: bind_splits dest!: lc_step_next)

text \<open>The evaluator's account of the open blocks is the automaton's.\<close>

lemma lc_step_balance:
  assumes "lc_step ev l = Some l1" "lc_open l \<subseteq> lc_seen l"
  shows "balance_blocks (ev # evs) (lc_open l) True = balance_blocks evs (lc_open l1) True \<and> lc_open l1 \<subseteq> lc_seen l1
     \<and> (lc_done l1 \<longrightarrow> lc_open l1 = {})"
proof (cases "se_kind ev")
  case (EvBlockStart b k n)
  with assms have "b \<notin> lc_open l" by (auto simp: lc_step_def lc_next_event_def split: if_splits)
  with EvBlockStart assms show ?thesis by (auto simp: lc_step_def lc_next_event_def split: if_splits)
qed (use assms in \<open>auto simp: lc_step_def lc_next_event_def split: if_splits\<close>)

lemma lc_run_balance:
  "lc_run evs l = Some l' \<Longrightarrow> lc_open l \<subseteq> lc_seen l \<Longrightarrow> (lc_done l \<longrightarrow> lc_open l = {}) \<Longrightarrow>
     balance_blocks evs (lc_open l) True = (lc_open l', True) \<and> (lc_done l' \<longrightarrow> lc_open l' = {})"
proof (induction evs arbitrary: l)
  case (Cons ev evs)
  then obtain l1 where "lc_step ev l = Some l1" "lc_run evs l1 = Some l'" by (auto split: bind_splits)
  with Cons lc_step_balance [of ev l l1 evs] show ?case by auto
qed simp

text \<open>Every stream that the encoder has ended passes the stream assertions of the trace evaluator:
  its sequence is consecutive and every block it started was ended.\<close>

theorem ended_stream_passes_trace:
  assumes "encode_all ds (encoder_new r) = (evs, e)" and "en_terminated e"
    and "ti_stream_events input = evs" and "set checks \<subseteq> {StreamSequenceMonotonic, StreamBlocksBalanced}"
    and "checks \<noteq> []"
  shows "er_passed (evaluate_trace (suite_new name checks) input)"
proof -
  from encode_all_produces [OF assms(1)] have run: "lc_run evs (lifecycle_start r) = Some (abs_encoder e)"
    by (simp add: produces_def)
  have "tc_passed (evaluate_assertion StreamSequenceMonotonic input)"
    using lc_run_consecutive [OF run, of 0] by (simp add: assms(3) lifecycle_start_def check_of_def Let_def)
  moreover have "tc_passed (evaluate_assertion StreamBlocksBalanced input)"
    using lc_run_balance [OF run] assms(2)
    by (auto simp: assms(3) lifecycle_start_def check_of_def Let_def split: prod.splits)
  ultimately have "\<forall>c \<in> set checks. tc_passed (evaluate_assertion c input)" using assms(4) by auto
  then show ?thesis using assms(5) by (simp add: evaluate_trace_def suite_new_def Let_def comp_def)
qed

lemmas encoder_eval = try_push_def encoder_new_def response_guard_def bindS_def checkS_def
  ensure_sequence_capacity_def required_event_slots_def requires_generated_block_def encode_delta_def
  emit_one_def emit_event_def returnS_def checked_add_def u64_max_def ensure_text_def start_block_def
  block_id.simps close_open_blocks_def bt_values_def

theorem ended_stream_passes_trace_witness:
  "er_passed (evaluate_trace (suite_new ''s'' [StreamSequenceMonotonic, StreamBlocksBalanced])
     \<lparr>ti_stream_events = fst (encode_all [MessageStart ''m'', TextDelta ''hi'', MessageStop ''stop''] (encoder_new ''r'')),
      ti_durable_events = [], ti_run_status = None\<rparr>)"
proof (rule ended_stream_passes_trace)
  let ?a = "encode_all [MessageStart ''m'', TextDelta ''hi'', MessageStop ''stop''] (encoder_new ''r'')"
  show "?a = (fst ?a, snd ?a)" by simp
  show "en_terminated (snd ?a)" by (simp add: encoder_eval)
qed simp_all

text \<open>An invalid delta ends the stream of the adapter with an error event while blocks are open: the
  evaluator finds an unclosed block.\<close>

theorem adapter_error_leaves_block_open:
  "\<not> er_passed (evaluate_trace (suite_new ''s'' [StreamBlocksBalanced])
     \<lparr>ti_stream_events = fst (push_all [MessageStart ''m'', TextDelta ''hi'', MessageStart ''m''] (encoder_new ''r'')),
      ti_durable_events = [], ti_run_status = None\<rparr>)"
  by (simp add: encoder_eval push_def evaluate_trace_def suite_new_def check_of_def)

subsection \<open>Logs of runs\<close>

text \<open>The log of every reachable run passes the sequence assertion, as long as its length fits in
  64 bits.\<close>

theorem reachable_log_passes_trace:
  assumes "api_reach env st" and "length (rs_events st) \<le> u64_max"
  shows "tc_passed (evaluate_assertion DurableSequenceMonotonic
    \<lparr>ti_stream_events = [], ti_durable_events = rs_events st, ti_run_status = Some (st_status st)\<rparr>)"
proof -
  from run_built_log [OF api_reach_built [OF assms(1)]] have "log_ok st" .
  then have "consecutive_from 0 (map ev_sequence (rs_events st))"
    using assms(2) by (simp add: log_ok_def consecutive_iff)
  then show ?thesis by (simp add: check_of_def)
qed

theorem reachable_log_passes_trace_witness:
  "tc_passed (evaluate_assertion DurableSequenceMonotonic
    \<lparr>ti_stream_events = [], ti_durable_events = rs_events demo0, ti_run_status = Some (st_status demo0)\<rparr>)"
  by (rule reachable_log_passes_trace [OF demo_reach(1)]) (simp add: demo0_def u64_max_def)

end
