(* ===== verification/Resilience.thy ===== *)
theory Resilience
  imports Streaming
begin

text \<open>
  Retry and fallback of model calls, \<open>resilience.rs\<close>, with the size estimate of \<open>providers/mod.rs\<close>
  that bounds what is buffered before the first output. Providers and the audit sink are outside the
  program: \<open>opens\<close> gives the behaviour of the n-th provider call (an error, no answer within the
  deadline, or a stream of polls), \<open>audit\<close> the answer of the sink to the n-th event. Both are arbitrary,
  so the properties hold for every behaviour. The mutex of the attempt list is never poisoned: nothing
  panics while it is held.
\<close>

subsection \<open>The safe prefix\<close>

definition MAX_SAFE_PREFIX_BYTES :: nat where "MAX_SAFE_PREFIX_BYTES = 1024 * 1024"
definition MAX_SAFE_PREFIX_ITEMS :: nat where "MAX_SAFE_PREFIX_ITEMS = 1024"
definition MAX_JSON_ACCOUNTING_DEPTH :: nat where "MAX_JSON_ACCOUNTING_DEPTH = 128"
definition MAX_JSON_ACCOUNTING_NODES :: nat where "MAX_JSON_ACCOUNTING_NODES = 100000"

text \<open>The loop over the explicit stack; the head of the list is its top. It visits at most
  \<open>MAX\_JSON\_ACCOUNTING\_NODES\<close> values, which is why it ends.\<close>

function retained_loop :: "(json_number \<Rightarrow> string) \<Rightarrow> (json \<times> nat) list \<Rightarrow> nat \<Rightarrow> nat \<Rightarrow> nat" where
  "retained_loop num [] bytes nodes = bytes"
| "retained_loop num ((v, depth) # stack) bytes nodes =
     (let nodes' = nodes + 1;
          child_depth = depth + 1;
          refused = (\<lambda>n. (n \<noteq> 0 \<and> child_depth > MAX_JSON_ACCOUNTING_DEPTH)
            \<or> saturating_add (saturating_add nodes' (length stack)) n > MAX_JSON_ACCOUNTING_NODES)
      in if nodes' > MAX_JSON_ACCOUNTING_NODES \<or> depth > MAX_JSON_ACCOUNTING_DEPTH then u64_max
         else
           let (stop, stack', bytes') =
             (case v of
                JNull \<Rightarrow> (False, stack, saturating_add bytes 4)
              | JBool _ \<Rightarrow> (False, stack, saturating_add bytes 5)
              | JNumber n \<Rightarrow> (False, stack, saturating_add bytes (length (num n)))
              | JString s \<Rightarrow> (False, stack, saturating_add bytes (saturating_add (length s) 2))
              | JArray vs \<Rightarrow>
                  (refused (length vs), rev (map (\<lambda>v. (v, child_depth)) vs) @ stack,
                   saturating_add bytes (saturating_add 2 (length vs)))
              | JObject kvs \<Rightarrow>
                  (refused (length kvs), rev (map (\<lambda>(k, v). (v, child_depth)) kvs) @ stack,
                   saturating_add (fold (\<lambda>(k, v) t. saturating_add (saturating_add t (length k)) 4) kvs bytes) 2))
           in if stop \<or> bytes' = u64_max then u64_max else retained_loop num stack' bytes' nodes')"
  by pat_completeness auto
termination
  by (relation "measure (\<lambda>(_, _, _, nodes). Suc MAX_JSON_ACCOUNTING_NODES - nodes)") auto

definition json_retained_bytes :: "(json_number \<Rightarrow> string) \<Rightarrow> json \<Rightarrow> nat" where
  "json_retained_bytes num v = retained_loop num [(v, 0)] 0 0"

record prefix_budget =
  pb_bytes :: nat
  pb_items :: nat

definition prefix_budget_default :: prefix_budget where
  "prefix_budget_default = \<lparr>pb_bytes = 0, pb_items = 0\<rparr>"

definition opt_len :: "string option \<Rightarrow> nat" where
  "opt_len s = (case s of None \<Rightarrow> 0 | Some t \<Rightarrow> length t)"

text \<open>A \<open>Usage\<close> is five words of 64 bits.\<close>

definition safe_prefix_delta_bytes :: "(json_number \<Rightarrow> string) \<Rightarrow> stream_delta \<Rightarrow> nat" where
  "safe_prefix_delta_bytes num delta =
     saturating_add
       (case delta of
          MessageStart model \<Rightarrow> length model
        | ProviderMetadata provider metadata \<Rightarrow>
            saturating_add (length provider) (json_retained_bytes num metadata)
        | WarningDelta w \<Rightarrow>
            saturating_add (saturating_add (saturating_add (saturating_add (length (pw_code w)) (length (pw_message w)))
              (opt_len (pw_parameter w))) (opt_len (pw_provider w))) (opt_len (pw_model w))
        | UsageDelta _ \<Rightarrow> 40
        | _ \<Rightarrow> 0)
       32"

definition retain_delta :: "(json_number \<Rightarrow> string) \<Rightarrow> stream_delta \<Rightarrow> prefix_budget \<Rightarrow> bool \<times> prefix_budget" where
  "retain_delta num delta b =
     (case checked_add (pb_bytes b) (safe_prefix_delta_bytes num delta) of
        None \<Rightarrow> (False, b)
      | Some bytes \<Rightarrow>
          (case checked_add (pb_items b) 1 of
             None \<Rightarrow> (False, b)
           | Some items \<Rightarrow>
               if bytes > MAX_SAFE_PREFIX_BYTES \<or> items > MAX_SAFE_PREFIX_ITEMS then (False, b)
               else (True, \<lparr>pb_bytes = bytes, pb_items = items\<rparr>)))"

subsection \<open>Policy, targets and records\<close>

record retry_policy =
  rp_max_attempts_per_model :: nat
  rp_base_delay_ms :: nat
  rp_max_delay_ms :: nat
  rp_per_attempt_timeout_ms :: nat

definition retry_policy_default :: retry_policy where
  "retry_policy_default = \<lparr>rp_max_attempts_per_model = 2, rp_base_delay_ms = 250, rp_max_delay_ms = 4000,
     rp_per_attempt_timeout_ms = 30000\<rparr>"

definition retry_attempts :: "retry_policy \<Rightarrow> nat" where
  "retry_attempts p = max (rp_max_attempts_per_model p) 1"

definition retry_timeout :: "retry_policy \<Rightarrow> nat" where
  "retry_timeout p = max (rp_per_attempt_timeout_ms p) 1"

definition saturating_mul :: "nat \<Rightarrow> nat \<Rightarrow> nat" where
  "saturating_mul a b = min (a * b) u64_max"

definition retry_delay :: "retry_policy \<Rightarrow> nat \<Rightarrow> nat option \<Rightarrow> nat" where
  "retry_delay p attempt retry_after_ms =
     (let exponent = min (saturating_sub attempt 1) 31;
          backoff = min (saturating_mul (rp_base_delay_ms p) (2 ^ exponent)) (rp_max_delay_ms p)
      in min (case retry_after_ms of Some ms \<Rightarrow> ms | None \<Rightarrow> backoff) (rp_max_delay_ms p))"

record model_target =
  mt_model :: string
  mt_provider_name :: string

datatype attempt_outcome =
    AoStarted
  | AoRetryableFailure provider_error_kind
  | AoNonRetryableFailure provider_error_kind
  | AoFirstDelta

record model_attempt_record =
  ma_provider :: string
  ma_model :: string
  ma_attempt :: nat
  ma_outcome :: attempt_outcome

record execution_plan =
  xp_targets :: "model_target list"
  xp_retry :: retry_policy

definition execution_plan_new :: "model_target list \<Rightarrow> aikit_error + execution_plan" where
  "execution_plan_new targets =
     (if targets = [] then Inl (OtherError ''execution plan requires at least one model target'')
      else Inr \<lparr>xp_targets = targets, xp_retry = retry_policy_default\<rparr>)"

definition plan_with_retry :: "retry_policy \<Rightarrow> execution_plan \<Rightarrow> execution_plan" where
  "plan_with_retry retry p = p\<lparr>xp_retry := retry\<rparr>"

text \<open>The provider keeps its targets and policy, the index of the sticky target and the attempts; the
  number of audit events, and the delays it slept, are what the world has seen.\<close>

record resilient_provider =
  rv_targets :: "model_target list"
  rv_retry :: retry_policy
  rv_sticky_target :: nat
  rv_attempts :: "model_attempt_record list"
  rv_audited :: nat
  rv_slept :: "nat list"

definition into_provider :: "execution_plan \<Rightarrow> resilient_provider" where
  "into_provider p = \<lparr>rv_targets = xp_targets p, rv_retry = xp_retry p, rv_sticky_target = 0, rv_attempts = [],
     rv_audited = 0, rv_slept = []\<rparr>"

definition provider_name :: "resilient_provider \<Rightarrow> string option" where
  "provider_name v = (if rv_sticky_target v < length (rv_targets v)
     then Some (mt_provider_name (rv_targets v ! rv_sticky_target v)) else None)"

datatype poll = PollDelta stream_delta | PollEnd | PollTimeout

datatype opened = OpenedStream "nat \<Rightarrow> poll" | OpenFailed aikit_error | OpenTimeout

record world =
  wd_opens :: "nat \<Rightarrow> opened"
  wd_audit :: "(nat \<Rightarrow> aikit_error + unit) option"
  wd_number_to_string :: "json_number \<Rightarrow> string"

text \<open>The number of provider calls so far: each is announced by a \<open>Started\<close> record.\<close>

definition calls :: "resilient_provider \<Rightarrow> nat" where
  "calls v = length (filter (\<lambda>r. ma_outcome r = AoStarted) (rv_attempts v))"

definition record_attempt ::
  "world \<Rightarrow> model_target \<Rightarrow> nat \<Rightarrow> attempt_outcome \<Rightarrow> (resilient_provider, aikit_error, unit) smeth"
where
  "record_attempt w target attempt outcome v =
     (let entry = \<lparr>ma_provider = mt_provider_name target, ma_model = mt_model target, ma_attempt = attempt,
                 ma_outcome = outcome\<rparr>
      in case wd_audit w of
           None \<Rightarrow> (Inr (), v\<lparr>rv_attempts := rv_attempts v @ [entry]\<rparr>)
         | Some sink \<Rightarrow>
             let v' = v\<lparr>rv_audited := rv_audited v + 1\<rparr> in
             (case sink (rv_audited v) of
                Inl e \<Rightarrow> (Inl e, v')
              | Inr _ \<Rightarrow> (Inr (), v'\<lparr>rv_attempts := rv_attempts v @ [entry]\<rparr>)))"

definition retryable_error_before_commit :: "stream_delta \<Rightarrow> model_target \<Rightarrow> provider_error option" where
  "retryable_error_before_commit delta target =
     (case delta of
        ErrorDelta message info \<Rightarrow>
          (case (case ei_code info of
                   EcProviderRateLimit \<Rightarrow> Some PkRateLimited
                 | EcProviderTimeout \<Rightarrow> Some PkTimeout
                 | EcProviderTransport \<Rightarrow> Some PkTransport
                 | EcProviderServer \<Rightarrow> Some PkServer
                 | _ \<Rightarrow> None) of
             None \<Rightarrow> None
           | Some kind \<Rightarrow>
               if \<not> ei_retryable info then None
               else Some \<lparr>pe_provider = (case ei_provider info of Some p \<Rightarrow> p | None \<Rightarrow> mt_provider_name target),
                          pe_model = (case ei_model info of Some m \<Rightarrow> m | None \<Rightarrow> mt_model target),
                          pe_kind = kind, pe_status = ei_status info, pe_retry_after_ms = ei_retry_after_ms info,
                          pe_message = message, pe_warnings = ei_warnings info\<rparr>)
      | _ \<Rightarrow> None)"

definition usage_default :: usage where
  "usage_default = \<lparr>input_tokens = 0, output_tokens = 0, cache_creation_input_tokens = 0,
     cache_read_input_tokens = 0, reasoning_tokens = 0\<rparr>"

definition commits_provider_output :: "stream_delta \<Rightarrow> bool" where
  "commits_provider_output delta =
     (case delta of
        MessageStart _ \<Rightarrow> False
      | ProviderMetadata _ _ \<Rightarrow> False
      | WarningDelta _ \<Rightarrow> False
      | UsageDelta u \<Rightarrow> u \<noteq> usage_default
      | _ \<Rightarrow> True)"

subsection \<open>One attempt\<close>

datatype prefix_result =
    PrefixCommitted "stream_delta list" stream_delta nat
  | PrefixRetry provider_error
  | PrefixOverflow
  | PrefixEnded
  | PrefixTimeout

text \<open>The inner loop: at most \<open>MAX\_SAFE\_PREFIX\_ITEMS\<close> deltas are buffered, so it ends even on a
  stream that never commits.\<close>

function read_prefix ::
  "world \<Rightarrow> model_target \<Rightarrow> (nat \<Rightarrow> poll) \<Rightarrow> nat \<Rightarrow> stream_delta list \<Rightarrow> prefix_budget \<Rightarrow> prefix_result"
where
  "read_prefix w target candidate n prefix budget =
     (case candidate n of
        PollDelta delta \<Rightarrow>
          (case retryable_error_before_commit delta target of
             Some e \<Rightarrow> PrefixRetry e
           | None \<Rightarrow>
               if commits_provider_output delta then PrefixCommitted prefix delta (n + 1)
               else case retain_delta (wd_number_to_string w) delta budget of
                 (False, _) \<Rightarrow> PrefixOverflow
               | (True, budget') \<Rightarrow> read_prefix w target candidate (n + 1) (prefix @ [delta]) budget')
      | PollEnd \<Rightarrow> PrefixEnded
      | PollTimeout \<Rightarrow> PrefixTimeout)"
  by pat_completeness auto
termination
  by (relation "measure (\<lambda>(_, _, _, _, _, b). Suc MAX_SAFE_PREFIX_ITEMS - pb_items b)")
    (auto simp: retain_delta_def checked_add_def split: option.splits if_splits)

declare read_prefix.simps [simp del]

text \<open>What an attempt decides: go on to the next attempt, remembering the error, or return. A released
  stream is the buffered prefix and the rest of the provider's stream.\<close>

datatype flow = NextAttempt aikit_error | ReturnErr aikit_error | ReturnStream "stream_delta list" "nat \<Rightarrow> poll"

definition sleep_unless_last :: "nat \<Rightarrow> nat \<Rightarrow> resilient_provider \<Rightarrow> resilient_provider" where
  "sleep_unless_last attempt delay v =
     (if attempt < retry_attempts (rv_retry v) then v\<lparr>rv_slept := rv_slept v @ [delay]\<rparr> else v)"

definition retry_later ::
  "world \<Rightarrow> model_target \<Rightarrow> nat \<Rightarrow> provider_error \<Rightarrow> (resilient_provider, aikit_error, flow) smeth"
where
  "retry_later w target attempt e =
     bindS (record_attempt w target attempt (AoRetryableFailure (pe_kind e))) (\<lambda>_ v.
       (Inr (NextAttempt (ProviderFailure e)),
        sleep_unless_last attempt (retry_delay (rv_retry v) attempt (pe_retry_after_ms e)) v))"

definition protocol_failure ::
  "world \<Rightarrow> model_target \<Rightarrow> nat \<Rightarrow> string \<Rightarrow> (resilient_provider, aikit_error, flow) smeth"
where
  "protocol_failure w target attempt message =
     bindS (record_attempt w target attempt (AoNonRetryableFailure PkProtocol)) (\<lambda>_.
       returnS (ReturnErr (ProviderFailure
         (provider_error_new (mt_provider_name target) (mt_model target) PkProtocol message))))"

definition timeout_error :: "retry_policy \<Rightarrow> model_target \<Rightarrow> string \<Rightarrow> provider_error" where
  "timeout_error p target what = provider_error_new (mt_provider_name target) (mt_model target) PkTimeout
     (what @ show_nat (rp_per_attempt_timeout_ms p) @ '' ms'')"

definition consume ::
  "world \<Rightarrow> nat \<Rightarrow> model_target \<Rightarrow> nat \<Rightarrow> (nat \<Rightarrow> poll) \<Rightarrow> (resilient_provider, aikit_error, flow) smeth"
where
  "consume w target_index target attempt candidate v =
     (case read_prefix w target candidate 0 [] prefix_budget_default of
        PrefixCommitted prefix first n \<Rightarrow>
          bindS (record_attempt w target attempt AoFirstDelta) (\<lambda>_ v.
            (Inr (ReturnStream (prefix @ [first]) (\<lambda>k. candidate (n + k))),
             v\<lparr>rv_sticky_target := target_index\<rparr>)) v
      | PrefixRetry e \<Rightarrow> retry_later w target attempt e v
      | PrefixOverflow \<Rightarrow> protocol_failure w target attempt
          ''provider pre-content stream prefix exceeded the retained byte or item limit'' v
      | PrefixEnded \<Rightarrow> protocol_failure w target attempt
          ''provider stream ended before meaningful output or a terminal delta'' v
      | PrefixTimeout \<Rightarrow> retry_later w target attempt
          (timeout_error (rv_retry v) target ''provider emitted no meaningful output within '') v)"

definition run_attempt ::
  "world \<Rightarrow> nat \<Rightarrow> model_target \<Rightarrow> nat \<Rightarrow> (resilient_provider, aikit_error, flow) smeth"
where
  "run_attempt w target_index target attempt v0 =
     bindS (record_attempt w target attempt AoStarted) (\<lambda>_ v.
       case wd_opens w (calls v0) of
         OpenedStream candidate \<Rightarrow> consume w target_index target attempt candidate v
       | OpenFailed e \<Rightarrow>
           (case provider_error_of e of
              None \<Rightarrow> (Inr (ReturnErr e), v)
            | Some p \<Rightarrow>
                if provider_retryable p then retry_later w target attempt p v
                else bindS (record_attempt w target attempt (AoNonRetryableFailure (pe_kind p))) (\<lambda>_.
                       returnS (ReturnErr e)) v)
       | OpenTimeout \<Rightarrow> retry_later w target attempt
           (timeout_error (rv_retry v) target ''provider did not open a stream within '') v) v0"

subsection \<open>The loops\<close>

text \<open>\<open>for attempt in 1..=attempts\<close> inside \<open>for target in targets.skip(start)\<close>; the state carries the
  last retryable error.\<close>

fun attempts_loop ::
  "world \<Rightarrow> nat \<Rightarrow> model_target \<Rightarrow> nat list \<Rightarrow> aikit_error option
    \<Rightarrow> (resilient_provider, aikit_error, (stream_delta list \<times> (nat \<Rightarrow> poll)) + aikit_error option) smeth"
where
  "attempts_loop w i target [] last_retryable v = (Inr (Inr last_retryable), v)"
| "attempts_loop w i target (a # as) last_retryable v =
     bindS (run_attempt w i target a) (\<lambda>f.
       case f of
         NextAttempt e \<Rightarrow> attempts_loop w i target as (Some e)
       | ReturnErr e \<Rightarrow> failS e
       | ReturnStream prefix rest \<Rightarrow> returnS (Inl (prefix, rest))) v"

fun targets_loop ::
  "world \<Rightarrow> (nat \<times> model_target) list \<Rightarrow> aikit_error option
    \<Rightarrow> (resilient_provider, aikit_error, stream_delta list \<times> (nat \<Rightarrow> poll)) smeth"
where
  "targets_loop w [] last_retryable v =
     (Inl (case last_retryable of Some e \<Rightarrow> e
           | None \<Rightarrow> OtherError ''execution plan exhausted without a provider attempt''), v)"
| "targets_loop w ((i, target) # ts) last_retryable v =
     bindS (attempts_loop w i target [1..<Suc (retry_attempts (rv_retry v))] last_retryable) (\<lambda>r.
       case r of
         Inl released \<Rightarrow> returnS released
       | Inr last_retryable' \<Rightarrow> targets_loop w ts last_retryable') v"

definition provider_stream ::
  "world \<Rightarrow> (resilient_provider, aikit_error, stream_delta list \<times> (nat \<Rightarrow> poll)) smeth"
where
  "provider_stream w v = targets_loop w (drop (rv_sticky_target v) (enumerate 0 (rv_targets v))) None v"

subsection \<open>What an attempt does\<close>

lemma record_Inr:
  "record_attempt w t a out v = (Inr x, v') \<Longrightarrow> rv_targets v' = rv_targets v \<and> rv_retry v' = rv_retry v
     \<and> rv_sticky_target v' = rv_sticky_target v \<and> rv_slept v' = rv_slept v
     \<and> calls v' = calls v + (if out = AoStarted then 1 else 0)"
  by (auto simp: record_attempt_def calls_def Let_def split: option.splits sum.splits)

lemma record_Inl:
  "record_attempt w t a out v = (Inl e, v') \<Longrightarrow> rv_targets v' = rv_targets v \<and> rv_retry v' = rv_retry v
     \<and> rv_sticky_target v' = rv_sticky_target v \<and> rv_slept v' = rv_slept v \<and> calls v' = calls v"
  by (auto simp: record_attempt_def calls_def Let_def split: option.splits sum.splits)

text \<open>What a consumer may receive twice without harm: it carries neither content of the answer, nor a tool
  call, nor billed usage, nor the end of the stream.\<close>

definition harmless :: "stream_delta \<Rightarrow> bool" where
  "harmless d \<longleftrightarrow> (\<exists>m. d = MessageStart m) \<or> (\<exists>p m. d = ProviderMetadata p m) \<or> (\<exists>x. d = WarningDelta x)
     \<or> (\<exists>u. d = UsageDelta u \<and> input_tokens u = 0 \<and> output_tokens u = 0 \<and> cache_creation_input_tokens u = 0
          \<and> cache_read_input_tokens u = 0 \<and> reasoning_tokens u = 0)"

lemma usage_default_iff:
  "u = usage_default \<longleftrightarrow> input_tokens u = 0 \<and> output_tokens u = 0 \<and> cache_creation_input_tokens u = 0
     \<and> cache_read_input_tokens u = 0 \<and> reasoning_tokens u = 0"
  by (cases u) (simp add: usage_default_def)

lemma commits_iff: "commits_provider_output d \<longleftrightarrow> \<not> harmless d"
  by (cases d) (auto simp: commits_provider_output_def harmless_def usage_default_iff)

text \<open>A call that may be followed by another: it failed before it answered, or its stream produced
  nothing but harmless deltas before it timed out or reported a retryable error.\<close>

definition abandoned_safely :: "opened \<Rightarrow> bool" where
  "abandoned_safely op =
     (case op of
        OpenTimeout \<Rightarrow> True
      | OpenFailed e \<Rightarrow> (case provider_error_of e of None \<Rightarrow> False | Some p \<Rightarrow> provider_retryable p)
      | OpenedStream c \<Rightarrow> (\<exists>m. (\<forall>k<m. \<exists>d. c k = PollDelta d \<and> harmless d)
          \<and> (c m = PollTimeout \<or> (\<exists>msg info. c m = PollDelta (ErrorDelta msg info) \<and> ei_retryable info))))"

text \<open>A released stream is the provider's stream, from its first delta.\<close>

definition delivers :: "(nat \<Rightarrow> poll) \<Rightarrow> stream_delta list \<Rightarrow> (nat \<Rightarrow> poll) \<Rightarrow> bool" where
  "delivers c p rest \<longleftrightarrow> p \<noteq> [] \<and> \<not> harmless (last p)
     \<and> (\<forall>k < length p. c k = PollDelta (p ! k)) \<and> (\<forall>k. rest k = c (length p + k))"

lemma retryable_delta:
  "retryable_error_before_commit d t = Some e \<Longrightarrow> \<exists>msg info. d = ErrorDelta msg info \<and> ei_retryable info"
  by (auto simp: retryable_error_before_commit_def split: stream_delta.splits option.splits if_splits)

lemma read_prefix_spec:
  assumes "n = length pre" "\<forall>k<n. c k = PollDelta (pre ! k) \<and> \<not> commits_provider_output (pre ! k)"
  shows "case read_prefix w t c n pre b of
      PrefixCommitted p d m \<Rightarrow> m = length (p @ [d]) \<and> (\<forall>k < m. c k = PollDelta ((p @ [d]) ! k)) \<and> commits_provider_output d
    | PrefixRetry e \<Rightarrow> abandoned_safely (OpenedStream c)
    | PrefixTimeout \<Rightarrow> abandoned_safely (OpenedStream c)
    | _ \<Rightarrow> True"
  using assms
proof (induction w t c n pre b rule: read_prefix.induct)
  case (1 w t c n pre b)
  have pre: "\<forall>k<n. \<exists>d. c k = PollDelta d \<and> \<not> commits_provider_output d" using "1.prems" by blast
  show ?case
  proof (cases "c n")
    case PollTimeout
    with pre show ?thesis by (auto simp: read_prefix.simps [of w t c n] abandoned_safely_def commits_iff)
  next
    case PollEnd
    then show ?thesis by (simp add: read_prefix.simps [of w t c n])
  next
    case (PollDelta d)
    show ?thesis
    proof (cases "retryable_error_before_commit d t")
      case (Some e)
      from retryable_delta [OF this] PollDelta pre have "abandoned_safely (OpenedStream c)"
        by (auto simp: abandoned_safely_def commits_iff)
      with Some PollDelta show ?thesis by (simp add: read_prefix.simps [of w t c n])
    next
      case None
      show ?thesis
      proof (cases "commits_provider_output d")
        case True
        with None PollDelta have "read_prefix w t c n pre b = PrefixCommitted pre d (n + 1)"
          by (simp add: read_prefix.simps [of w t c n])
        with True PollDelta "1.prems" show ?thesis by (auto simp: nth_append less_Suc_eq)
      next
        case False
        obtain r b' where r: "retain_delta (wd_number_to_string w) d b = (r, b')" by force
        show ?thesis
        proof (cases r)
          case True
          have "case read_prefix w t c (n + 1) (pre @ [d]) b' of
              PrefixCommitted p d m \<Rightarrow> m = length (p @ [d]) \<and> (\<forall>k < m. c k = PollDelta ((p @ [d]) ! k)) \<and> commits_provider_output d
            | PrefixRetry e \<Rightarrow> abandoned_safely (OpenedStream c)
            | PrefixTimeout \<Rightarrow> abandoned_safely (OpenedStream c)
            | _ \<Rightarrow> True"
            by (rule "1.IH" [OF PollDelta None False r [symmetric]])
              (use True False PollDelta "1.prems" in \<open>auto simp: nth_append less_Suc_eq\<close>)
          with True None False PollDelta r show ?thesis by (simp add: read_prefix.simps [of w t c n])
        next
          case False
          with \<open>\<not> commits_provider_output d\<close> None PollDelta r show ?thesis by (simp add: read_prefix.simps [of w t c n])
        qed
      qed
    qed
  qed
qed

text \<open>The contract of one attempt.\<close>

definition same_plan :: "resilient_provider \<Rightarrow> resilient_provider \<Rightarrow> bool" where
  "same_plan v v' \<longleftrightarrow> rv_targets v' = rv_targets v \<and> rv_retry v' = rv_retry v"

definition slept_at_most :: "nat \<Rightarrow> resilient_provider \<Rightarrow> resilient_provider \<Rightarrow> bool" where
  "slept_at_most n v v' \<longleftrightarrow> (\<exists>ds. rv_slept v' = rv_slept v @ ds \<and> length ds \<le> n
     \<and> (\<forall>d \<in> set ds. d \<le> rp_max_delay_ms (rv_retry v)))"

lemma retry_delay_bound: "retry_delay p a r \<le> rp_max_delay_ms p"
  by (simp add: retry_delay_def Let_def)

lemma slept_refl: "rv_slept v' = rv_slept v \<Longrightarrow> slept_at_most n v v'"
  by (simp add: slept_at_most_def)

lemma retry_later_spec:
  assumes "retry_later w t a e v = (r, v')"
  shows "same_plan v v' \<and> rv_sticky_target v' = rv_sticky_target v \<and> calls v' = calls v \<and> slept_at_most 1 v v'
    \<and> (\<forall>f. r = Inr f \<longrightarrow> f = NextAttempt (ProviderFailure e))"
proof (cases "record_attempt w t a (AoRetryableFailure (pe_kind e)) v")
  case (Pair q v1)
  show ?thesis
  proof (cases q)
    case (Inl x)
    with Pair assms record_Inl [of w t a _ v x v1] show ?thesis
      by (auto simp: retry_later_def bindS_def same_plan_def intro: slept_refl)
  next
    case (Inr x)
    with Pair have "record_attempt w t a (AoRetryableFailure (pe_kind e)) v = (Inr x, v1)" by simp
    note v1 = record_Inr [OF this]
    from assms Pair Inr have r: "r = Inr (NextAttempt (ProviderFailure e))"
        "v' = sleep_unless_last a (retry_delay (rv_retry v1) a (pe_retry_after_ms e)) v1"
      by (auto simp: retry_later_def bindS_def)
    have "rv_slept v' = rv_slept v @ [retry_delay (rv_retry v) a (pe_retry_after_ms e)] \<or> rv_slept v' = rv_slept v"
      using v1 by (auto simp: r sleep_unless_last_def)
    then have "slept_at_most 1 v v'" using retry_delay_bound by (auto simp: slept_at_most_def)
    with v1 r show ?thesis by (auto simp: sleep_unless_last_def same_plan_def calls_def)
  qed
qed

lemma protocol_failure_spec:
  assumes "protocol_failure w t a m v = (r, v')"
  shows "same_plan v v' \<and> rv_sticky_target v' = rv_sticky_target v \<and> calls v' = calls v \<and> slept_at_most 1 v v'
    \<and> (\<forall>f. r = Inr f \<longrightarrow> (\<exists>e. f = ReturnErr e))"
  using assms record_Inr record_Inl unfolding protocol_failure_def
  by (auto simp: bindS_def returnS_def same_plan_def intro!: slept_refl split: prod.splits sum.splits)

definition attempt_contract ::
  "world \<Rightarrow> nat \<Rightarrow> opened \<Rightarrow> resilient_provider \<Rightarrow> aikit_error + flow \<Rightarrow> resilient_provider \<Rightarrow> bool"
where
  "attempt_contract w i op v r v' \<longleftrightarrow> same_plan v v' \<and> calls v' = calls v \<and> slept_at_most 1 v v'
     \<and> (case r of
          Inr (NextAttempt e) \<Rightarrow> abandoned_safely op \<and> rv_sticky_target v' = rv_sticky_target v
        | Inr (ReturnStream p rest) \<Rightarrow> (\<exists>c. op = OpenedStream c \<and> delivers c p rest) \<and> rv_sticky_target v' = i
        | _ \<Rightarrow> rv_sticky_target v' = rv_sticky_target v)"

lemma contract_retry:
  "retry_later w t a e v = (r, v') \<Longrightarrow> abandoned_safely op \<Longrightarrow> attempt_contract w i op v r v'"
  using retry_later_spec [of w t a e v r v'] by (auto simp: attempt_contract_def split: sum.splits flow.splits)

lemma contract_protocol:
  "protocol_failure w t a m v = (r, v') \<Longrightarrow> attempt_contract w i op v r v'"
  using protocol_failure_spec [of w t a m v r v'] by (auto simp: attempt_contract_def split: sum.splits flow.splits)

lemma consume_spec:
  assumes "consume w i t a c v = (r, v')"
  shows "attempt_contract w i (OpenedStream c) v r v'"
proof -
  note rd = read_prefix_spec [of 0 "[]" c w t prefix_budget_default, simplified]
  show ?thesis
  proof (cases "read_prefix w t c 0 [] prefix_budget_default")
    case (PrefixCommitted p d m)
    with rd have d: "delivers c (p @ [d]) (\<lambda>k. c (m + k))" by (auto simp: delivers_def commits_iff)
    show ?thesis
    proof (cases "record_attempt w t a AoFirstDelta v")
      case (Pair q v1)
      then show ?thesis using assms PrefixCommitted d record_Inr [of w t a AoFirstDelta v _ v1]
          record_Inl [of w t a AoFirstDelta v _ v1]
        by (cases q) (auto simp: consume_def bindS_def attempt_contract_def same_plan_def calls_def intro: slept_refl)
    qed
  next
    case (PrefixRetry e)
    with rd assms contract_retry show ?thesis by (auto simp: consume_def)
  next
    case PrefixTimeout
    with rd assms contract_retry show ?thesis by (auto simp: consume_def)
  qed (use assms contract_protocol in \<open>auto simp: consume_def\<close>)
qed

lemma run_attempt_spec:
  assumes "run_attempt w i t a v = (r, v')"
  shows "(calls v' = calls v \<and> same_plan v v' \<and> rv_sticky_target v' = rv_sticky_target v \<and> slept_at_most 1 v v' \<and> (\<exists>e. r = Inl e))
    \<or> (\<exists>v1. calls v1 = Suc (calls v) \<and> same_plan v v1 \<and> rv_sticky_target v1 = rv_sticky_target v \<and> rv_slept v1 = rv_slept v
        \<and> attempt_contract w i (wd_opens w (calls v)) v1 r v')"
proof (cases "record_attempt w t a AoStarted v")
  case (Pair q v1)
  show ?thesis
  proof (cases q)
    case (Inl e)
    with Pair assms record_Inl [of w t a AoStarted v e v1] show ?thesis
      by (auto simp: run_attempt_def bindS_def same_plan_def intro: slept_refl)
  next
    case (Inr x)
    with Pair have "record_attempt w t a AoStarted v = (Inr x, v1)" by simp
    note v1 = record_Inr [OF this]
    have "attempt_contract w i (wd_opens w (calls v)) v1 r v'"
    proof (cases "wd_opens w (calls v)")
      case (OpenedStream c)
      with assms Pair Inr consume_spec show ?thesis by (simp add: run_attempt_def bindS_def)
    next
      case OpenTimeout
      have "abandoned_safely OpenTimeout" by (simp add: abandoned_safely_def)
      with OpenTimeout assms Pair Inr contract_retry show ?thesis by (simp add: run_attempt_def bindS_def)
    next
      case (OpenFailed e)
      show ?thesis
      proof (cases "provider_error_of e")
        case None
        with OpenFailed assms Pair Inr show ?thesis
          by (auto simp: run_attempt_def bindS_def attempt_contract_def same_plan_def intro: slept_refl)
      next
        case (Some p)
        show ?thesis
        proof (cases "provider_retryable p")
          case True
          with Some have "abandoned_safely (OpenFailed e)" by (simp add: abandoned_safely_def)
          with True Some OpenFailed assms Pair Inr contract_retry show ?thesis by (simp add: run_attempt_def bindS_def)
        next
          case False
          obtain q2 v2 where q2: "record_attempt w t a (AoNonRetryableFailure (pe_kind p)) v1 = (q2, v2)" by force
          with False Some OpenFailed assms Pair Inr record_Inr [of w t a _ v1 _ v2] record_Inl [of w t a _ v1 _ v2]
          show ?thesis
            by (cases q2) (auto simp: run_attempt_def bindS_def returnS_def attempt_contract_def same_plan_def intro: slept_refl)
        qed
      qed
    qed
    with v1 show ?thesis by (auto simp: same_plan_def)
  qed
qed

subsection \<open>What the loops do\<close>

lemma slept_trans:
  "slept_at_most m v v1 \<Longrightarrow> same_plan v v1 \<Longrightarrow> slept_at_most n v1 v2 \<Longrightarrow> slept_at_most (m + n) v v2"
  unfolding slept_at_most_def same_plan_def by (force simp: ball_Un)

lemma slept_mono: "slept_at_most m v v' \<Longrightarrow> m \<le> n \<Longrightarrow> slept_at_most n v v'"
  unfolding slept_at_most_def by force

lemma same_plan_trans: "same_plan u v \<Longrightarrow> same_plan v x \<Longrightarrow> same_plan u x"
  by (simp add: same_plan_def)

text \<open>All calls made between two states, but for the last one, were abandoned safely; and also the
  last one.\<close>

definition retried :: "world \<Rightarrow> resilient_provider \<Rightarrow> resilient_provider \<Rightarrow> bool" where
  "retried w v v' \<longleftrightarrow> (\<forall>n. calls v \<le> n \<and> Suc n < calls v' \<longrightarrow> abandoned_safely (wd_opens w n))"

definition all_failed :: "world \<Rightarrow> resilient_provider \<Rightarrow> resilient_provider \<Rightarrow> bool" where
  "all_failed w v v' \<longleftrightarrow> (\<forall>n. calls v \<le> n \<and> n < calls v' \<longrightarrow> abandoned_safely (wd_opens w n))"

definition released ::
  "world \<Rightarrow> resilient_provider \<Rightarrow> resilient_provider \<Rightarrow> stream_delta list \<Rightarrow> (nat \<Rightarrow> poll) \<Rightarrow> bool"
where
  "released w v v' p rest \<longleftrightarrow> calls v < calls v' \<and> retried w v v'
     \<and> (\<exists>c. wd_opens w (calls v' - 1) = OpenedStream c \<and> delivers c p rest)"

lemma failed_first:
  assumes "all_failed w v v1" "calls v \<le> calls v1"
  shows "all_failed w v1 v' \<Longrightarrow> all_failed w v v'" "retried w v1 v' \<Longrightarrow> retried w v v'"
    "released w v1 v' p rest \<Longrightarrow> released w v v' p rest"
proof -
  have r: "retried w v1 v' \<Longrightarrow> retried w v v'"
    using assms unfolding retried_def all_failed_def by (metis not_le_imp_less)
  show "all_failed w v1 v' \<Longrightarrow> all_failed w v v'"
    using assms unfolding all_failed_def by (metis not_le_imp_less)
  show "retried w v1 v' \<Longrightarrow> retried w v v'" by (rule r)
  show "released w v1 v' p rest \<Longrightarrow> released w v v' p rest"
    using r assms(2) by (auto simp: released_def)
qed

lemma attempts_loop_spec:
  assumes "attempts_loop w i t as last_retryable v = (r, v')"
  shows "same_plan v v' \<and> calls v \<le> calls v' \<and> calls v' \<le> calls v + length as \<and> slept_at_most (length as) v v'
    \<and> (case r of
         Inl e \<Rightarrow> retried w v v' \<and> rv_sticky_target v' = rv_sticky_target v
       | Inr (Inl (p, rest)) \<Rightarrow> released w v v' p rest \<and> rv_sticky_target v' = i
       | Inr (Inr l) \<Rightarrow> all_failed w v v' \<and> rv_sticky_target v' = rv_sticky_target v
           \<and> calls v' = calls v + length as)"
  using assms
proof (induction as arbitrary: last_retryable v)
  case Nil
  then show ?case by (auto simp: same_plan_def all_failed_def intro: slept_refl)
next
  case (Cons a as)
  obtain q v1 where q: "run_attempt w i t a v = (q, v1)" by force
  note ra = run_attempt_spec [OF q]
  show ?case
  proof (cases q)
    case (Inl e)
    with Cons.prems q have "r = Inl e" "v' = v1" by (auto simp: bindS_def)
    moreover have "slept_at_most 1 v v1" using ra Inl by (auto simp: attempt_contract_def same_plan_def slept_at_most_def)
    ultimately show ?thesis using ra Inl
      by (auto simp: retried_def attempt_contract_def same_plan_def intro: slept_mono)
  next
    case (Inr f)
    with ra have c: "calls v1 = Suc (calls v)" and pl: "same_plan v v1" and sl: "slept_at_most 1 v v1"
        and f: "case f of NextAttempt e \<Rightarrow> abandoned_safely (wd_opens w (calls v)) \<and> rv_sticky_target v1 = rv_sticky_target v
          | ReturnStream p rest \<Rightarrow> (\<exists>c. wd_opens w (calls v) = OpenedStream c \<and> delivers c p rest) \<and> rv_sticky_target v1 = i
          | ReturnErr _ \<Rightarrow> rv_sticky_target v1 = rv_sticky_target v"
      by (cases f; auto simp: attempt_contract_def same_plan_def slept_at_most_def)+
    show ?thesis
    proof (cases f)
      case (NextAttempt e)
      with Cons.prems q Inr have l: "attempts_loop w i t as (Some e) v1 = (r, v')" by (simp add: bindS_def)
      note ih = Cons.IH [OF l]
      have af: "all_failed w v v1" using f NextAttempt c by (auto simp: all_failed_def less_Suc_eq dest: le_antisym)
      have "slept_at_most (length (a # as)) v v'" using slept_trans [OF sl pl] ih by force
      with ih f NextAttempt c pl same_plan_trans failed_first [OF af] show ?thesis
        by (auto split: sum.splits)
    next
      case (ReturnErr e)
      with Cons.prems q Inr have "r = Inl e" "v' = v1" by (auto simp: bindS_def failS_def)
      with ReturnErr f c pl sl show ?thesis by (auto simp: retried_def intro: slept_mono)
    next
      case (ReturnStream p rest)
      with Cons.prems q Inr have "r = Inr (Inl (p, rest))" "v' = v1" by (auto simp: bindS_def returnS_def)
      with ReturnStream f c pl sl show ?thesis
        by (auto simp: released_def retried_def intro: slept_mono)
    qed
  qed
qed

lemma targets_loop_spec:
  assumes "targets_loop w ts last_retryable v = (r, v')"
  shows "same_plan v v' \<and> calls v \<le> calls v' \<and> calls v' \<le> calls v + length ts * retry_attempts (rv_retry v)
    \<and> slept_at_most (length ts * retry_attempts (rv_retry v)) v v'
    \<and> (case r of
         Inl e \<Rightarrow> retried w v v' \<and> rv_sticky_target v' = rv_sticky_target v
       | Inr (p, rest) \<Rightarrow> released w v v' p rest \<and> rv_sticky_target v' \<in> fst ` set ts)"
  using assms
proof (induction ts arbitrary: last_retryable v)
  case Nil
  then show ?case by (auto simp: same_plan_def retried_def intro: slept_refl)
next
  case (Cons x ts)
  obtain i t where x: "x = (i, t)" by force
  let ?n = "retry_attempts (rv_retry v)"
  obtain q v1 where q: "attempts_loop w i t [1..<Suc ?n] last_retryable v = (q, v1)" by force
  have len: "length [1..<Suc ?n] = ?n" by (simp del: upt_Suc)
  note al = attempts_loop_spec [OF q, unfolded len]
  show ?case
  proof (cases q)
    case (Inl e)
    with Cons.prems q x have "r = Inl e" "v' = v1" by (auto simp: bindS_def)
    with al Inl x show ?thesis by (auto intro: slept_mono)
  next
    case (Inr y)
    show ?thesis
    proof (cases y)
      case (Inl pr)
      with Cons.prems q x Inr have "r = Inr pr" "v' = v1" by (auto simp: bindS_def returnS_def)
      with al Inr Inl x show ?thesis by (auto intro: slept_mono split: prod.splits)
    next
      case (Inr l)
      with Cons.prems q x \<open>q = Inr y\<close> have t: "targets_loop w ts l v1 = (r, v')" by (simp add: bindS_def)
      note ih = Cons.IH [OF t]
      from al \<open>q = Inr y\<close> Inr have a: "same_plan v v1" "all_failed w v v1" "calls v1 = calls v + ?n"
          "rv_sticky_target v1 = rv_sticky_target v" "slept_at_most ?n v v1" by auto
      have rt: "retry_attempts (rv_retry v1) = ?n" using a(1) by (simp add: same_plan_def)
      have "slept_at_most (?n + length ts * ?n) v v'" using slept_trans [OF a(5,1)] ih rt by auto
      with ih a rt same_plan_trans [OF a(1)] failed_first [OF a(2)] show ?thesis
        by (auto split: sum.splits)
    qed
  qed
qed

lemma enumerate_indices: "fst ` set (drop k (enumerate 0 xs)) \<subseteq> {k..<length xs}"
  by (auto simp: in_set_conv_nth nth_enumerate_eq)

subsection \<open>Properties\<close>

text \<open>C32: a stream that the provider releases is, from its first delta on, exactly the stream of the last
  provider call that was made. Every call before it was given up before it had produced any output,
  usage or tool call, so no output is ever seen twice and no model work that was reported is repeated.
  The target that answered becomes the sticky one, and fallback never goes back to an earlier target.\<close>

theorem released_stream_is_one_call:
  assumes "provider_stream w v = (Inr (p, rest), v')"
  shows "(\<exists>c. wd_opens w (calls v' - 1) = OpenedStream c \<and> delivers c p rest)
    \<and> (\<forall>n. calls v \<le> n \<and> n + 1 < calls v' \<longrightarrow> abandoned_safely (wd_opens w n))
    \<and> rv_sticky_target v \<le> rv_sticky_target v' \<and> rv_sticky_target v' < length (rv_targets v)"
  using targets_loop_spec [OF assms [unfolded provider_stream_def]]
    enumerate_indices [of "rv_sticky_target v" "rv_targets v"]
  by (auto simp: released_def retried_def)

text \<open>A plan of two targets; the first does not answer, the second does.\<close>

definition plan_demo :: resilient_provider where
  "plan_demo = into_provider \<lparr>xp_targets = [\<lparr>mt_model = ''a'', mt_provider_name = ''p''\<rparr>,
     \<lparr>mt_model = ''b'', mt_provider_name = ''q''\<rparr>], xp_retry = retry_policy_default\<rparr>"

definition answer_demo :: "nat \<Rightarrow> poll" where
  "answer_demo k = (if k = 0 then PollDelta (MessageStart ''b'') else if k = 1 then PollDelta (TextDelta ''hi'')
     else PollEnd)"

definition world_demo :: world where
  "world_demo = \<lparr>wd_opens = (\<lambda>n. if n < 2 then OpenTimeout else OpenedStream answer_demo), wd_audit = None,
     wd_number_to_string = (\<lambda>n. [])\<rparr>"

lemma demo_prefix: "read_prefix world_demo t answer_demo 0 [] prefix_budget_default
    = PrefixCommitted [MessageStart ''b''] (TextDelta ''hi'') 2"
  by (simp add: read_prefix.simps answer_demo_def retryable_error_before_commit_def commits_provider_output_def
      retain_delta_def prefix_budget_default_def checked_add_def safe_prefix_delta_bytes_def saturating_add_def
      u64_max_def MAX_SAFE_PREFIX_BYTES_def MAX_SAFE_PREFIX_ITEMS_def)

lemma demo_opens: "wd_opens world_demo 0 = OpenTimeout" "wd_opens world_demo (Suc 0) = OpenTimeout"
  "wd_opens world_demo (Suc (Suc 0)) = OpenedStream answer_demo" "wd_audit world_demo = None"
  by (simp_all add: world_demo_def)

lemma demo_stream: "\<exists>v'. provider_stream world_demo plan_demo
    = (Inr ([MessageStart ''b'', TextDelta ''hi''], \<lambda>k. answer_demo (2 + k)), v')
   \<and> calls plan_demo = 0 \<and> calls v' = 3 \<and> rv_sticky_target v' = 1 \<and> rv_slept v' = [250]"
  by (simp add: provider_stream_def plan_demo_def into_provider_def enumerate_eq_zip bindS_def returnS_def
      run_attempt_def record_attempt_def demo_opens demo_prefix consume_def retry_later_def timeout_error_def
      sleep_unless_last_def retry_attempts_def retry_policy_default_def retry_delay_def calls_def Let_def
      provider_error_new_def saturating_mul_def saturating_sub_def u64_max_def)

theorem released_stream_is_one_call_witness:
  "\<exists>p rest v'. provider_stream world_demo plan_demo = (Inr (p, rest), v')
     \<and> (\<exists>c. wd_opens world_demo (calls v' - 1) = OpenedStream c \<and> delivers c p rest)"
proof -
  from demo_stream obtain v' where "provider_stream world_demo plan_demo
    = (Inr ([MessageStart ''b'', TextDelta ''hi''], \<lambda>k. answer_demo (2 + k)), v')" by blast
  from this released_stream_is_one_call [OF this] show ?thesis by blast
qed

text \<open>C33: retry and fallback are bounded: one request makes at most as many provider calls as there are
  remaining targets times the attempts per target, sleeps at most that often, and never longer than the
  configured maximum, whatever delay a provider asks for. A request that fails leaves the sticky target
  as it was.\<close>

theorem provider_calls_are_bounded:
  assumes "provider_stream w v = (r, v')"
  shows "calls v' - calls v \<le> (length (rv_targets v) - rv_sticky_target v) * retry_attempts (rv_retry v)
    \<and> (\<exists>ds. rv_slept v' = rv_slept v @ ds \<and> (\<forall>d \<in> set ds. d \<le> rp_max_delay_ms (rv_retry v))
         \<and> length ds \<le> (length (rv_targets v) - rv_sticky_target v) * retry_attempts (rv_retry v))
    \<and> (is_ok r \<or> rv_sticky_target v' = rv_sticky_target v)"
  using targets_loop_spec [OF assms [unfolded provider_stream_def]]
  by (auto simp: slept_at_most_def split: sum.splits)

theorem provider_calls_are_bounded_witness:
  "\<exists>r v'. provider_stream world_demo plan_demo = (r, v') \<and> calls v' - calls plan_demo \<le> 4
     \<and> (is_ok r \<or> rv_sticky_target v' = rv_sticky_target plan_demo)"
proof -
  obtain r v' where p: "provider_stream world_demo plan_demo = (r, v')" by force
  have "(length (rv_targets plan_demo) - rv_sticky_target plan_demo) * retry_attempts (rv_retry plan_demo) = 4"
    by (simp add: plan_demo_def into_provider_def retry_attempts_def retry_policy_default_def)
  with provider_calls_are_bounded [OF p] p show ?thesis by auto
qed

end
