(* ===== verification/Routing.thy ===== *)
theory Routing
  imports Budget Reliability "HOL-Library.Product_Lexorder"
begin

text \<open>
  Model catalog and routing, \<open>routing.rs\<close>: a catalog of validated profiles in the order of their model
  names, the hard constraints of a request, and the choice among the models that meet them. Ordered
  sets are lists in increasing order. The arithmetic of \<open>f64\<close> is the parameter of theory \<open>Budget\<close>;
  \<open>total\_key\<close> is the integer by which \<open>f64::total\_cmp\<close> compares.
\<close>

subsection \<open>Capabilities\<close>

datatype model_capability =
    CapReasoning | CapPromptCache | CapCitations | CapVision | CapNativeStructuredOutput | CapToolUse
  | CapImageGeneration | CapDocumentInput | CapAudioInput | CapTranscription | CapSpeechGeneration
  | CapRealtimeDuplex | CapCustom string

fun capability_key :: "model_capability \<Rightarrow> string" where
  "capability_key CapReasoning = ''reasoning''"
| "capability_key CapPromptCache = ''prompt_cache''"
| "capability_key CapCitations = ''citations''"
| "capability_key CapVision = ''vision''"
| "capability_key CapNativeStructuredOutput = ''native_structured_output''"
| "capability_key CapToolUse = ''tool_use''"
| "capability_key CapImageGeneration = ''image_generation''"
| "capability_key CapDocumentInput = ''document_input''"
| "capability_key CapAudioInput = ''audio_input''"
| "capability_key CapTranscription = ''transcription''"
| "capability_key CapSpeechGeneration = ''speech_generation''"
| "capability_key CapRealtimeDuplex = ''realtime_duplex''"
| "capability_key (CapCustom v) = ''custom:'' @ v"

text \<open>The derived order: by the position of the variant, then by the text.\<close>

fun capability_rank :: "model_capability \<Rightarrow> nat \<times> string" where
  "capability_rank CapReasoning = (0, [])"
| "capability_rank CapPromptCache = (1, [])"
| "capability_rank CapCitations = (2, [])"
| "capability_rank CapVision = (3, [])"
| "capability_rank CapNativeStructuredOutput = (4, [])"
| "capability_rank CapToolUse = (5, [])"
| "capability_rank CapImageGeneration = (6, [])"
| "capability_rank CapDocumentInput = (7, [])"
| "capability_rank CapAudioInput = (8, [])"
| "capability_rank CapTranscription = (9, [])"
| "capability_rank CapSpeechGeneration = (10, [])"
| "capability_rank CapRealtimeDuplex = (11, [])"
| "capability_rank (CapCustom v) = (12, v)"

lemma capability_rank_inj: "capability_rank a = capability_rank b \<Longrightarrow> a = b"
  by (cases a; cases b) simp_all

instantiation model_capability :: linorder
begin

definition less_eq_model_capability :: "model_capability \<Rightarrow> model_capability \<Rightarrow> bool" where
  "less_eq_model_capability a b = (capability_rank a \<le> capability_rank b)"

definition less_model_capability :: "model_capability \<Rightarrow> model_capability \<Rightarrow> bool" where
  "less_model_capability a b = (capability_rank a < capability_rank b)"

instance
  by standard (auto simp: less_eq_model_capability_def less_model_capability_def intro: capability_rank_inj)

end

datatype capability_state = CapSupported | CapUnsupported | CapUnknown

subsection \<open>Profiles\<close>

record 'f model_profile =
  pf_provider :: string
  pf_model :: string
  pf_context_window_tokens :: nat
  pf_max_output_tokens :: nat
  pf_pricing :: "'f model_pricing option"
  pf_quality_score :: nat
  pf_skills :: "string list"
  pf_capabilities :: "model_capability list"
  pf_capability_states :: "capability_state btree"

definition profile_new :: "string \<Rightarrow> string \<Rightarrow> nat \<Rightarrow> nat \<Rightarrow> nat \<Rightarrow> 'f model_profile" where
  "profile_new provider model context output quality = \<lparr>pf_provider = provider, pf_model = model,
     pf_context_window_tokens = context, pf_max_output_tokens = output, pf_pricing = None,
     pf_quality_score = quality, pf_skills = [], pf_capabilities = [], pf_capability_states = []\<rparr>"

definition with_pricing :: "'f model_pricing \<Rightarrow> 'f model_profile \<Rightarrow> 'f model_profile" where
  "with_pricing pricing p = p\<lparr>pf_pricing := Some pricing\<rparr>"

definition with_skill :: "string \<Rightarrow> 'f model_profile \<Rightarrow> 'f model_profile" where
  "with_skill skill p = p\<lparr>pf_skills := insort_insert skill (pf_skills p)\<rparr>"

definition with_capability :: "model_capability \<Rightarrow> 'f model_profile \<Rightarrow> 'f model_profile" where
  "with_capability c p = p\<lparr>pf_capability_states := bt_insert (capability_key c) CapSupported (pf_capability_states p),
     pf_capabilities := insort_insert c (pf_capabilities p)\<rparr>"

definition with_capability_state :: "model_capability \<Rightarrow> capability_state \<Rightarrow> 'f model_profile \<Rightarrow> 'f model_profile" where
  "with_capability_state c state p =
     p\<lparr>pf_capabilities := (if state = CapSupported then insort_insert c (pf_capabilities p)
         else removeAll c (pf_capabilities p)),
       pf_capability_states := bt_insert (capability_key c) state (pf_capability_states p)\<rparr>"

definition capability_state_of :: "model_capability \<Rightarrow> 'f model_profile \<Rightarrow> capability_state" where
  "capability_state_of c p =
     (case bt_get (pf_capability_states p) (capability_key c) of
        Some state \<Rightarrow> state
      | None \<Rightarrow> if c \<in> set (pf_capabilities p) then CapSupported else CapUnknown)"

datatype 'f rejection_reason =
    MissingCredential string
  | MissingSkill string
  | MissingCapability model_capability
  | CapabilityUnavailable model_capability capability_state
  | ContextWindowTooSmall nat nat
  | OutputLimitTooSmall nat nat
  | UnknownRoutePricing
  | CostExceedsBudget 'f 'f

record 'f model_rejection =
  rj_model :: string
  rj_reasons :: "'f rejection_reason list"

datatype 'f route_error =
    InvalidProfile string string
  | DuplicateModel string
  | InvalidRequest string
  | ExplicitModelNotFound string
  | NoEligibleModels "'f model_rejection list"

definition profile_validate :: "'f f64_ops \<Rightarrow> 'f model_profile \<Rightarrow> 'f route_error + unit" where
  "profile_validate F p =
     (let bad = (\<lambda>reason. Inl (InvalidProfile (pf_model p) reason)) in
      if is_blank (pf_provider p) then bad ''provider must not be empty''
      else if is_blank (pf_model p) then bad ''model must not be empty''
      else if pf_context_window_tokens p = 0 then bad ''context_window_tokens must be greater than zero''
      else if pf_max_output_tokens p = 0 \<or> pf_max_output_tokens p > pf_context_window_tokens p
      then bad ''max_output_tokens must be within the context window''
      else if pf_quality_score p > 100 then bad ''quality_score must be in 0..=100''
      else if list_ex is_blank (pf_skills p) then bad ''skills must not contain an empty value''
      else if list_ex is_blank (map fst (pf_capability_states p))
      then bad ''capability_states must not contain an empty key''
      else case pf_pricing p of
        None \<Rightarrow> Inr ()
      | Some pricing \<Rightarrow>
          (case List.find (\<lambda>nr. bad_rate F (snd nr))
              [(''input_per_million_usd'', Some (mp_input pricing)), (''output_per_million_usd'', Some (mp_output pricing)),
               (''cache_read_per_million_usd'', mp_cache_read pricing),
               (''cache_write_per_million_usd'', mp_cache_write pricing)] of
             Some nr \<Rightarrow> bad (fst nr @ '' must be finite and non-negative'')
           | None \<Rightarrow> Inr ()))"

subsection \<open>Requests\<close>

datatype route_objective = ObCost | ObQuality | ObBalanced

datatype route_policy = Explicit string | Automatic route_objective

record 'f route_request =
  rq_policy :: route_policy
  rq_active_providers :: "string list"
  rq_estimated_input_tokens :: nat
  rq_required_output_tokens :: nat
  rq_max_cost_usd :: "'f option"
  rq_required_skills :: "string list"
  rq_required_capabilities :: "model_capability list"

definition request_automatic :: "route_objective \<Rightarrow> 'f route_request" where
  "request_automatic objective = \<lparr>rq_policy = Automatic objective, rq_active_providers = [],
     rq_estimated_input_tokens = 0, rq_required_output_tokens = 0, rq_max_cost_usd = None,
     rq_required_skills = [], rq_required_capabilities = []\<rparr>"

definition request_explicit :: "string \<Rightarrow> 'f route_request" where
  "request_explicit model = (request_automatic ObBalanced)\<lparr>rq_policy := Explicit model\<rparr>"

definition checked_tokens :: "nat \<Rightarrow> nat \<Rightarrow> nat option" where
  "checked_tokens a b = (if a + b \<le> u64_max then Some (a + b) else None)"

definition request_validate :: "'f f64_ops \<Rightarrow> 'f route_request \<Rightarrow> 'f route_error + nat" where
  "request_validate F r =
     (if bad_rate F (rq_max_cost_usd r) then Inl (InvalidRequest ''max_cost_usd must be finite and non-negative'')
      else if list_ex is_blank (rq_active_providers r)
      then Inl (InvalidRequest ''active_providers must not contain an empty value'')
      else if list_ex is_blank (rq_required_skills r)
      then Inl (InvalidRequest ''required_skills must not contain an empty value'')
      else ok_or (checked_tokens (rq_estimated_input_tokens r) (rq_required_output_tokens r))
             (InvalidRequest ''token estimate overflowed u64''))"

record 'f route_decision =
  rd_profile :: "'f model_profile"
  rd_estimated_cost_usd :: "'f option"
  rd_policy :: route_policy
  rd_eligible_models :: nat

subsection \<open>The catalog\<close>

record 'f model_catalog =
  ct_profiles :: "'f model_profile list"

fun duplicate_pair :: "'f model_profile list \<Rightarrow> 'f model_profile option" where
  "duplicate_pair (a # b # ps) = (if pf_model a = pf_model b then Some a else duplicate_pair (b # ps))"
| "duplicate_pair _ = None"

fun validate_all :: "'f f64_ops \<Rightarrow> 'f model_profile list \<Rightarrow> 'f route_error + unit" where
  "validate_all F [] = Inr ()"
| "validate_all F (p # ps) = bindR (profile_validate F p) (\<lambda>_. validate_all F ps)"

definition catalog_new :: "'f f64_ops \<Rightarrow> 'f model_profile list \<Rightarrow> 'f route_error + 'f model_catalog" where
  "catalog_new F profiles =
     bindR (validate_all F profiles) (\<lambda>_.
       let sorted_profiles = sort_key pf_model profiles in
       case duplicate_pair sorted_profiles of
         Some d \<Rightarrow> Inl (DuplicateModel (pf_model d))
       | None \<Rightarrow> Inr \<lparr>ct_profiles = sorted_profiles\<rparr>)"

text \<open>\<open>binary\_search\_by\<close> on a list in the order of the model names: the position of the model, or the
  one where it would be inserted.\<close>

definition search_model :: "string \<Rightarrow> 'f model_profile list \<Rightarrow> nat + nat" where
  "search_model m ps =
     (let i = length (takeWhile (\<lambda>p. pf_model p < m) ps)
      in if i < length ps \<and> pf_model (ps ! i) = m then Inr i else Inl i)"

definition catalog_upsert ::
  "'f f64_ops \<Rightarrow> 'f model_profile \<Rightarrow> ('f model_catalog, 'f route_error, unit) smeth"
where
  "catalog_upsert F p c =
     (case profile_validate F p of
        Inl e \<Rightarrow> (Inl e, c)
      | Inr _ \<Rightarrow>
          (case search_model (pf_model p) (ct_profiles c) of
             Inr i \<Rightarrow> (Inr (), c\<lparr>ct_profiles := (ct_profiles c)[i := p]\<rparr>)
           | Inl i \<Rightarrow> (Inr (), c\<lparr>ct_profiles := take i (ct_profiles c) @ p # drop i (ct_profiles c)\<rparr>)))"

subsection \<open>Routing\<close>

definition estimate_cost_usd :: "'f f64_ops \<Rightarrow> 'f model_pricing \<Rightarrow> nat \<Rightarrow> nat \<Rightarrow> 'f" where
  "estimate_cost_usd F pricing input output =
     f_add F (priced F input (mp_input pricing)) (priced F output (mp_output pricing))"

definition profile_cost :: "'f f64_ops \<Rightarrow> 'f route_request \<Rightarrow> 'f model_profile \<Rightarrow> 'f option" where
  "profile_cost F r p = map_option (\<lambda>pricing.
     estimate_cost_usd F pricing (rq_estimated_input_tokens r) (rq_required_output_tokens r)) (pf_pricing p)"

definition objective_of :: "'f route_request \<Rightarrow> route_objective option" where
  "objective_of r = (case rq_policy r of Explicit _ \<Rightarrow> None | Automatic ob \<Rightarrow> Some ob)"

definition needs_pricing :: "'f route_request \<Rightarrow> bool" where
  "needs_pricing r = (objective_of r = Some ObCost \<or> objective_of r = Some ObBalanced)"

definition rejection_reasons :: "'f f64_ops \<Rightarrow> 'f route_request \<Rightarrow> nat \<Rightarrow> 'f model_profile \<Rightarrow> 'f rejection_reason list" where
  "rejection_reasons F r required_context p =
     (if pf_provider p \<in> set (rq_active_providers r) then [] else [MissingCredential (pf_provider p)])
     @ map MissingSkill (filter (\<lambda>s. s \<notin> set (pf_skills p)) (rq_required_skills r))
     @ map (\<lambda>c. CapabilityUnavailable c (capability_state_of c p))
         (filter (\<lambda>c. capability_state_of c p \<noteq> CapSupported) (rq_required_capabilities r))
     @ (if required_context > pf_context_window_tokens p
        then [ContextWindowTooSmall required_context (pf_context_window_tokens p)] else [])
     @ (if rq_required_output_tokens r > pf_max_output_tokens p
        then [OutputLimitTooSmall (rq_required_output_tokens r) (pf_max_output_tokens p)] else [])
     @ (if rq_max_cost_usd r \<noteq> None \<or> needs_pricing r
        then (case (profile_cost F r p, rq_max_cost_usd r) of
                (None, _) \<Rightarrow> [UnknownRoutePricing]
              | (Some estimated, Some limit) \<Rightarrow>
                  if f_less F limit estimated then [CostExceedsBudget estimated limit] else []
              | _ \<Rightarrow> [])
        else [])"

definition route_candidates :: "'f model_catalog \<Rightarrow> 'f route_request \<Rightarrow> 'f route_error + 'f model_profile list" where
  "route_candidates c r =
     (case rq_policy r of
        Explicit model \<Rightarrow>
          (case search_model model (ct_profiles c) of
             Inr i \<Rightarrow> Inr [ct_profiles c ! i]
           | Inl _ \<Rightarrow> Inl (ExplicitModelNotFound model))
      | Automatic _ \<Rightarrow> Inr (ct_profiles c))"

text \<open>The arithmetic and the total order of \<open>f64\<close> that the choice uses.\<close>

record 'f route_f64 =
  rf_ops :: "'f f64_ops"
  rf_sub :: "'f \<Rightarrow> 'f \<Rightarrow> 'f"
  rf_eq :: "'f \<Rightarrow> 'f \<Rightarrow> bool"
  total_key :: "'f \<Rightarrow> int"

type_synonym 'f candidate = "'f model_profile \<times> 'f option"

text \<open>\<open>expect\<close> on the cost of every candidate; \<open>None\<close> is the panic.\<close>

fun expect_costs :: "'f candidate list \<Rightarrow> ('f model_profile \<times> 'f) list option" where
  "expect_costs [] = Some []"
| "expect_costs ((p, None) # cs) = None"
| "expect_costs ((p, Some cost) # cs) = map_option (\<lambda>rest. (p, cost) # rest) (expect_costs cs)"

text \<open>\<open>min\_by\<close> keeps the first minimum, \<open>max\_by\<close> the last maximum.\<close>

definition min_total :: "'f route_f64 \<Rightarrow> 'f \<Rightarrow> 'f list \<Rightarrow> 'f" where
  "min_total R x xs = fold (\<lambda>y acc. if total_key R y < total_key R acc then y else acc) xs x"

definition max_total :: "'f route_f64 \<Rightarrow> 'f \<Rightarrow> 'f list \<Rightarrow> 'f" where
  "max_total R x xs = fold (\<lambda>y acc. if total_key R acc \<le> total_key R y then y else acc) xs x"

definition balanced_score :: "'f route_f64 \<Rightarrow> 'f \<Rightarrow> 'f \<Rightarrow> 'f model_profile \<times> 'f \<Rightarrow> 'f" where
  "balanced_score R max_cost cost_span c =
     (let F = rf_ops R;
          quality = f_div F (f_of_u64 F (pf_quality_score (fst c))) (f_of_u64 F 100);
          cost_score = (if rf_eq R cost_span (f_zero F) then f_of_u64 F 1
                        else f_div F (rf_sub R max_cost (snd c)) cost_span)
      in f_div F (f_add F quality cost_score) (f_of_u64 F 2))"

definition select_balanced :: "'f route_f64 \<Rightarrow> ('f model_profile \<times> 'f) list \<Rightarrow> 'f model_profile \<times> 'f" where
  "select_balanced R cs =
     (let costs = map snd cs;
          min_cost = min_total R (hd costs) (tl costs);
          max_cost = max_total R (hd costs) (tl costs);
          cost_span = rf_sub R max_cost min_cost
      in hd (sort_key (\<lambda>c. (- total_key R (balanced_score R max_cost cost_span c), pf_model (fst c))) cs))"

definition select_cheapest :: "'f route_f64 \<Rightarrow> ('f model_profile \<times> 'f) list \<Rightarrow> 'f model_profile \<times> 'f" where
  "select_cheapest R cs = hd (sort_key (\<lambda>c. (total_key R (snd c), pf_model (fst c))) cs)"

definition select_best :: "'f candidate list \<Rightarrow> 'f candidate" where
  "select_best cs = hd (sort_key (\<lambda>c. (- int (pf_quality_score (fst c)), pf_model (fst c))) cs)"

text \<open>The choice among the eligible candidates, never called on an empty list.\<close>

definition select_route :: "'f route_f64 \<Rightarrow> route_objective option \<Rightarrow> 'f candidate list \<Rightarrow> 'f candidate option" where
  "select_route R objective eligible =
     (case objective of
        None \<Rightarrow> Some (hd eligible)
      | Some ObCost \<Rightarrow> map_option (\<lambda>cs. map_prod id Some (select_cheapest R cs)) (expect_costs eligible)
      | Some ObQuality \<Rightarrow> Some (select_best eligible)
      | Some ObBalanced \<Rightarrow> map_option (\<lambda>cs. map_prod id Some (select_balanced R cs)) (expect_costs eligible))"

datatype 'f route_outcome = Routed "'f route_decision" | RouteFailed "'f route_error" | RoutePanicked

definition eligible_candidates :: "'f route_f64 \<Rightarrow> 'f route_request \<Rightarrow> nat \<Rightarrow> 'f model_profile list \<Rightarrow> 'f candidate list" where
  "eligible_candidates R r required_context ps =
     map (\<lambda>p. (p, profile_cost (rf_ops R) r p)) (filter (\<lambda>p. rejection_reasons (rf_ops R) r required_context p = []) ps)"

definition rejected_candidates :: "'f route_f64 \<Rightarrow> 'f route_request \<Rightarrow> nat \<Rightarrow> 'f model_profile list \<Rightarrow> 'f model_rejection list" where
  "rejected_candidates R r required_context ps =
     map (\<lambda>p. \<lparr>rj_model = pf_model p, rj_reasons = rejection_reasons (rf_ops R) r required_context p\<rparr>)
       (filter (\<lambda>p. rejection_reasons (rf_ops R) r required_context p \<noteq> []) ps)"

definition route :: "'f route_f64 \<Rightarrow> 'f model_catalog \<Rightarrow> 'f route_request \<Rightarrow> 'f route_outcome" where
  "route R c r =
     (case request_validate (rf_ops R) r of
        Inl e \<Rightarrow> RouteFailed e
      | Inr required_context \<Rightarrow>
          (case route_candidates c r of
             Inl e \<Rightarrow> RouteFailed e
           | Inr ps \<Rightarrow>
               let eligible = eligible_candidates R r required_context ps in
               if eligible = [] then RouteFailed (NoEligibleModels (rejected_candidates R r required_context ps))
               else case select_route R (objective_of r) eligible of
                 None \<Rightarrow> RoutePanicked
               | Some (p, cost) \<Rightarrow> Routed \<lparr>rd_profile = p, rd_estimated_cost_usd = cost, rd_policy = rq_policy r,
                                         rd_eligible_models = length eligible\<rparr>))"

subsection \<open>The catalog invariant\<close>

text \<open>Valid profiles in strictly increasing order of their models.\<close>

definition catalog_ok :: "'f f64_ops \<Rightarrow> 'f model_catalog \<Rightarrow> bool" where
  "catalog_ok F c \<longleftrightarrow> sorted_wrt (<) (map pf_model (ct_profiles c))
     \<and> (\<forall>p \<in> set (ct_profiles c). profile_validate F p = Inr ())"

lemma validate_all_iff: "validate_all F ps = Inr () \<longleftrightarrow> (\<forall>p \<in> set ps. profile_validate F p = Inr ())"
  by (induction ps) (auto simp: result_simps)

lemma no_duplicate_pair:
  "sorted (map pf_model ps) \<Longrightarrow> duplicate_pair ps = None \<longleftrightarrow> sorted_wrt (<) (map pf_model ps)"
proof (induction ps rule: duplicate_pair.induct)
  case (1 a b ps)
  then show ?case by (auto simp: order.strict_iff_order dest: order.strict_trans1)
qed auto

lemma catalog_new_ok: "catalog_new F ps = Inr c \<Longrightarrow> catalog_ok F c \<and> mset (ct_profiles c) = mset ps"
  by (auto simp: catalog_new_def catalog_ok_def result_simps validate_all_iff no_duplicate_pair Let_def
      split: option.splits)

lemma search_Nil [simp]: "search_model m [] = Inl 0"
  by (simp add: search_model_def)

lemma search_Cons:
  "search_model m (p # ps) = (if pf_model p < m then map_sum Suc Suc (search_model m ps)
     else if pf_model p = m then Inr 0 else Inl 0)"
  by (simp add: search_model_def Let_def)

lemma search_found:
  "sorted_wrt (<) (map pf_model ps) \<Longrightarrow> search_model m ps = Inr i \<longleftrightarrow> i < length ps \<and> pf_model (ps ! i) = m"
proof (induction ps arbitrary: i)
  case (Cons p ps)
  have lt: "\<forall>q \<in> set ps. pf_model p < pf_model q" using Cons.prems by auto
  show ?case
  proof (cases i)
    case 0
    then show ?thesis using lt by (cases "search_model m ps") (auto simp: search_Cons)
  next
    case (Suc j)
    have "j < length ps \<Longrightarrow> pf_model p < pf_model (ps ! j)" using lt by simp
    with Suc Cons.IH [of j] Cons.prems show ?thesis
      by (cases "search_model m ps") (auto simp: search_Cons)
  qed
qed simp

lemma search_missing:
  assumes "sorted_wrt (<) (map pf_model ps)" "search_model m ps = Inl i"
  shows "i \<le> length ps \<and> (\<forall>p \<in> set (take i ps). pf_model p < m) \<and> (\<forall>p \<in> set (drop i ps). m < pf_model p)"
  using assms
proof (induction ps arbitrary: i)
  case (Cons p ps)
  show ?case
  proof (cases "pf_model p < m")
    case True
    with Cons.prems obtain j where "search_model m ps = Inl j" "i = Suc j"
      by (cases "search_model m ps") (auto simp: search_Cons)
    with Cons True show ?thesis by auto
  next
    case False
    with Cons.prems show ?thesis by (auto simp: search_Cons split: if_splits)
  qed
qed simp

lemma catalog_upsert_ok:
  assumes "catalog_upsert F p c = (r, c')" "catalog_ok F c"
  shows "catalog_ok F c' \<and> (is_ok r \<longrightarrow> (\<forall>q. q \<in> set (ct_profiles c') \<longleftrightarrow> q = p \<or> q \<in> set (ct_profiles c) \<and> pf_model q \<noteq> pf_model p))"
proof (cases "profile_validate F p")
  case (Inl e)
  with assms(1) have "r = Inl e" "c' = c" by (auto simp: catalog_upsert_def)
  with assms(2) show ?thesis by simp
next
  case (Inr u)
  let ?ps = "ct_profiles c"
  have srt: "sorted_wrt (<) (map pf_model ?ps)" using assms(2) by (simp add: catalog_ok_def)
  have valid: "profile_validate F p = Inr ()" using Inr by simp
  show ?thesis
  proof (cases "search_model (pf_model p) ?ps")
    case (Inl i)
    note m = search_missing [OF srt Inl]
    from assms(1) Inr Inl have c': "ct_profiles c' = take i ?ps @ p # drop i ?ps" by (auto simp: catalog_upsert_def)
    have split: "?ps = take i ?ps @ drop i ?ps" by simp
    have "sorted_wrt (<) (map pf_model (take i ?ps @ drop i ?ps))" using srt by simp
    then have "sorted_wrt (<) (map pf_model (ct_profiles c'))" unfolding c' using m
      by (auto simp: sorted_wrt_append simp del: append_take_drop_id)
    moreover have "set (ct_profiles c') = insert p (set ?ps)" unfolding c'
      by (metis set_append Un_insert_right append_take_drop_id list.simps(15))
    moreover have "\<forall>q \<in> set ?ps. pf_model q \<noteq> pf_model p"
      using m by (metis Un_iff append_take_drop_id less_irrefl set_append)
    ultimately show ?thesis using assms(2) valid by (auto simp: catalog_ok_def)
  next
    case (Inr i)
    with search_found [OF srt] have i: "i < length ?ps" "pf_model (?ps ! i) = pf_model p" by blast+
    from assms(1) \<open>profile_validate F p = Inr u\<close> Inr have c': "ct_profiles c' = ?ps[i := p]"
      by (auto simp: catalog_upsert_def)
    have models: "map pf_model (ct_profiles c') = map pf_model ?ps"
      unfolding c' by (metis i(2) list_update_id map_update)
    have "q \<in> set (?ps[i := p]) \<longleftrightarrow> q = p \<or> q \<in> set ?ps \<and> pf_model q \<noteq> pf_model p" for q
    proof -
      have d: "distinct (map pf_model ?ps)" using srt strict_sorted_iff by blast
      then have "inj_on pf_model (set ?ps)" "distinct ?ps" by (simp_all add: distinct_map)
      then have "q \<in> set ?ps \<Longrightarrow> pf_model q = pf_model p \<longleftrightarrow> q = ?ps ! i" using i by (metis inj_on_eq_iff nth_mem)
      with set_update_distinct [OF \<open>distinct ?ps\<close> i(1), of p] show ?thesis by auto
    qed
    then show ?thesis using assms(2) valid models c' by (auto simp: catalog_ok_def)
  qed
qed

subsection \<open>Properties\<close>

text \<open>The order in which profiles are inserted does not matter: any permutation of the profiles of a
  catalog gives the same catalog, and so the same route for every request.\<close>

theorem catalog_order_irrelevant:
  assumes "catalog_new F ps = Inr c" and "mset qs = mset ps"
  shows "catalog_new F qs = Inr c \<and> catalog_ok F c"
proof -
  note ok = catalog_new_ok [OF assms(1)]
  then have srt: "sorted_wrt (<) (map pf_model (ct_profiles c))" by (simp add: catalog_ok_def)
  then have d: "distinct (map pf_model (ct_profiles c))" using strict_sorted_iff by blast
  have sq: "sort_key pf_model qs = ct_profiles c"
  proof (rule sort_key_inj_key_eq)
    show "mset qs = mset (ct_profiles c)" using ok assms(2) by simp
    then have "mset (map pf_model qs) = mset (map pf_model (ct_profiles c))" by simp
    with d have "distinct (map pf_model qs)" by (metis mset_eq_imp_distinct_iff)
    then show "inj_on pf_model (set qs)" by (simp add: distinct_map)
    show "sorted (map pf_model (ct_profiles c))" using srt strict_sorted_iff by blast
  qed
  have "set qs = set ps" using assms(2) by (metis set_mset_mset)
  moreover have "validate_all F ps = Inr ()" using assms(1) by (auto simp: catalog_new_def result_simps)
  ultimately have v: "validate_all F qs = Inr ()" by (simp add: validate_all_iff)
  have "duplicate_pair (ct_profiles c) = None" using no_duplicate_pair srt strict_sorted_iff by blast
  with v sq ok show ?thesis by (simp add: catalog_new_def Let_def)
qed

lemma hd_sort_key:
  assumes "xs \<noteq> []"
  shows "hd (sort_key f xs) \<in> set xs \<and> (\<forall>x \<in> set xs. f (hd (sort_key f xs)) \<le> f x)"
proof -
  obtain y ys where y: "sort_key f xs = y # ys" using assms by (metis list.exhaust set_empty2 set_sort)
  have "sorted (map f (y # ys))" using sorted_sort_key [of f xs] by (simp add: y)
  moreover have "set xs = set (y # ys)" by (metis set_sort y)
  ultimately show ?thesis by (auto simp: y)
qed

lemma expect_costs_iff: "expect_costs cs = Some es \<longleftrightarrow> cs = map (\<lambda>(p, c). (p, Some c)) es"
  by (induction cs arbitrary: es rule: expect_costs.induct) auto

lemma expect_costs_total: "\<forall>c \<in> set cs. snd c \<noteq> None \<Longrightarrow> \<exists>es. expect_costs cs = Some es"
  by (induction cs rule: expect_costs.induct) auto

lemma select_route_mem:
  assumes "eligible \<noteq> []" "select_route R ob eligible = Some c"
  shows "c \<in> set eligible"
proof -
  have e: "expect_costs eligible = Some es \<Longrightarrow> es \<noteq> [] \<and> (\<forall>x \<in> set es. map_prod id Some x \<in> set eligible)" for es
    using assms(1) by (force simp: expect_costs_iff)
  show ?thesis
  proof (cases ob)
    case None
    with assms show ?thesis by (auto simp: select_route_def)
  next
    case (Some o')
    with assms show ?thesis
      by (cases o') (auto simp: select_route_def select_best_def select_cheapest_def select_balanced_def Let_def
          dest!: e intro: hd_sort_key [THEN conjunct1])
  qed
qed

lemma route_cases:
  assumes "route R c r = Routed d"
  obtains ctx ps cost where "request_validate (rf_ops R) r = Inr ctx" "route_candidates c r = Inr ps"
    "(rd_profile d, cost) \<in> set (eligible_candidates R r ctx ps)"
    "select_route R (objective_of r) (eligible_candidates R r ctx ps) = Some (rd_profile d, cost)"
    "rd_estimated_cost_usd d = cost" "rd_eligible_models d = length (eligible_candidates R r ctx ps)"
  using assms select_route_mem [where R = R and ob = "objective_of r"] that unfolding route_def
  by (fastforce simp: Let_def split: sum.splits if_splits option.splits)

lemma candidates_subset: "route_candidates c r = Inr ps \<Longrightarrow> catalog_ok F c \<Longrightarrow> set ps \<subseteq> set (ct_profiles c)
    \<and> (\<forall>m. rq_policy r = Explicit m \<longrightarrow> (\<forall>p \<in> set ps. pf_model p = m))"
  by (auto simp: route_candidates_def catalog_ok_def search_found split: route_policy.splits sum.splits)

text \<open>C34: a routed model meets every hard constraint of the request, also when it was named explicitly: its
  provider has a credential, it has all required skills and capabilities, the request fits its context
  window and output limit, and under a cost cap its price is known and the estimate does not exceed the
  cap.\<close>

theorem routed_model_meets_constraints:
  assumes "catalog_ok (rf_ops R) c" and "route R c r = Routed d"
  shows "rd_profile d \<in> set (ct_profiles c)
    \<and> (\<forall>m. rq_policy r = Explicit m \<longrightarrow> pf_model (rd_profile d) = m)
    \<and> pf_provider (rd_profile d) \<in> set (rq_active_providers r)
    \<and> set (rq_required_skills r) \<subseteq> set (pf_skills (rd_profile d))
    \<and> (\<forall>cap \<in> set (rq_required_capabilities r). capability_state_of cap (rd_profile d) = CapSupported)
    \<and> rq_estimated_input_tokens r + rq_required_output_tokens r \<le> pf_context_window_tokens (rd_profile d)
    \<and> rq_required_output_tokens r \<le> pf_max_output_tokens (rd_profile d)
    \<and> (\<forall>limit. rq_max_cost_usd r = Some limit \<longrightarrow>
         (\<exists>cost. rd_estimated_cost_usd d = Some cost \<and> \<not> f_less (rf_ops R) limit cost))"
proof -
  from route_cases [OF assms(2)] obtain ctx ps cost where r: "request_validate (rf_ops R) r = Inr ctx"
    "route_candidates c r = Inr ps" "(rd_profile d, cost) \<in> set (eligible_candidates R r ctx ps)"
    "rd_estimated_cost_usd d = cost" by metis
  have ctx: "ctx = rq_estimated_input_tokens r + rq_required_output_tokens r"
    using r(1) by (auto simp: request_validate_def checked_tokens_def result_simps split: if_splits)
  from r(3) have p: "rd_profile d \<in> set ps" "cost = profile_cost (rf_ops R) r (rd_profile d)"
      "rejection_reasons (rf_ops R) r ctx (rd_profile d) = []"
    by (auto simp: eligible_candidates_def)
  from candidates_subset [OF r(2) assms(1)] p(1) have 1: "rd_profile d \<in> set (ct_profiles c)"
      "\<forall>m. rq_policy r = Explicit m \<longrightarrow> pf_model (rd_profile d) = m" by auto
  from p(3) have 2: "pf_provider (rd_profile d) \<in> set (rq_active_providers r)"
    "set (rq_required_skills r) \<subseteq> set (pf_skills (rd_profile d))"
    "\<forall>cap \<in> set (rq_required_capabilities r). capability_state_of cap (rd_profile d) = CapSupported"
    "ctx \<le> pf_context_window_tokens (rd_profile d)"
    "rq_required_output_tokens r \<le> pf_max_output_tokens (rd_profile d)"
    by (auto simp: rejection_reasons_def filter_empty_conv split: if_splits)
  have 3: "\<exists>x. cost = Some x \<and> \<not> f_less (rf_ops R) limit x" if "rq_max_cost_usd r = Some limit" for limit
    using p(3) that by (auto simp: rejection_reasons_def p(2) split: if_splits option.splits)
  show ?thesis using 1 2 3 unfolding r(4) ctx by blast
qed

lemma eligible_priced:
  assumes "x \<in> set (eligible_candidates R r ctx ps)" "needs_pricing r"
  shows "snd x \<noteq> None"
  using assms by (auto simp: eligible_candidates_def rejection_reasons_def split: if_splits option.splits)

text \<open>C35: automatic routing returns the best model among all that meet the constraints: no other costs less
  under the cost objective, no other has a higher quality under the quality objective, and among equals
  the first model name wins.\<close>

theorem automatic_route_is_optimal:
  assumes "route R c r = Routed d" and "rq_policy r = Automatic ob" and "ob \<noteq> ObBalanced"
    and "p \<in> set (ct_profiles c)"
    and "rejection_reasons (rf_ops R) r (rq_estimated_input_tokens r + rq_required_output_tokens r) p = []"
  shows "(if ob = ObCost
      then (total_key R (the (profile_cost (rf_ops R) r (rd_profile d))), pf_model (rd_profile d))
        \<le> (total_key R (the (profile_cost (rf_ops R) r p)), pf_model p)
      else (- int (pf_quality_score (rd_profile d)), pf_model (rd_profile d)) \<le> (- int (pf_quality_score p), pf_model p))"
proof -
  from route_cases [OF assms(1)] obtain ctx ps cost where r: "request_validate (rf_ops R) r = Inr ctx"
    "route_candidates c r = Inr ps"
    "select_route R (objective_of r) (eligible_candidates R r ctx ps) = Some (rd_profile d, cost)" by metis
  have ctx: "ctx = rq_estimated_input_tokens r + rq_required_output_tokens r"
    using r(1) by (auto simp: request_validate_def checked_tokens_def result_simps split: if_splits)
  have ps: "ps = ct_profiles c" using r(2) assms(2) by (simp add: route_candidates_def)
  let ?e = "eligible_candidates R r ctx ps"
  have p: "(p, profile_cost (rf_ops R) r p) \<in> set ?e"
    using assms(4,5) by (auto simp: eligible_candidates_def ps ctx)
  have costs: "x \<in> set ?e \<Longrightarrow> snd x = profile_cost (rf_ops R) r (fst x)" for x
    by (auto simp: eligible_candidates_def)
  show ?thesis
  proof (cases ob)
    case ObQuality
    with r(3) assms(2) have "(rd_profile d, cost) = select_best ?e" by (simp add: select_route_def objective_of_def)
    then have d: "hd (sort_key (\<lambda>c. (- int (pf_quality_score (fst c)), pf_model (fst c))) ?e) = (rd_profile d, cost)"
      by (simp add: select_best_def)
    have "?e \<noteq> []" using p by auto
    from hd_sort_key [OF this, of "\<lambda>c. (- int (pf_quality_score (fst c)), pf_model (fst c))"] p
    have "(- int (pf_quality_score (rd_profile d)), pf_model (rd_profile d)) \<le> (- int (pf_quality_score p), pf_model p)"
      unfolding d by fastforce
    with ObQuality show ?thesis by simp
  next
    case ObCost
    with r(3) assms(2) obtain es where es: "expect_costs ?e = Some es" "(rd_profile d, cost) = map_prod id Some (select_cheapest R es)"
      by (auto simp: select_route_def objective_of_def)
    from es(1) have e: "?e = map (\<lambda>(p, c). (p, Some c)) es" by (simp add: expect_costs_iff)
    with p obtain x where x: "(p, x) \<in> set es" "profile_cost (rf_ops R) r p = Some x" by auto
    let ?k = "\<lambda>c. (total_key R (snd c), pf_model (fst c))"
    have h: "select_cheapest R es \<in> set es" "?k (select_cheapest R es) \<le> ?k (p, x)"
      using hd_sort_key [of es ?k] x(1) unfolding select_cheapest_def by fastforce+
    obtain y where y: "select_cheapest R es = (rd_profile d, y)" using es(2) by (cases "select_cheapest R es") auto
    with h(1) e have "(rd_profile d, Some y) \<in> set ?e" by force
    with costs have "profile_cost (rf_ops R) r (rd_profile d) = Some y" by fastforce
    with h(2) y x ObCost show ?thesis by simp
  qed (use assms(3) in simp)
qed

text \<open>Routing never panics, and when no model is eligible the error lists every candidate with at
  least one reason.\<close>

theorem failed_route_explains_every_model:
  "route R c r \<noteq> RoutePanicked
   \<and> (\<forall>rj ob. route R c r = RouteFailed (NoEligibleModels rj) \<and> rq_policy r = Automatic ob \<longrightarrow>
        map rj_model rj = map pf_model (ct_profiles c) \<and> (\<forall>j \<in> set rj. rj_reasons j \<noteq> []))"
proof -
  have sel: "select_route R (objective_of r) (eligible_candidates R r ctx ps) \<noteq> None" for ctx ps
  proof (cases "needs_pricing r")
    case True
    then have "\<forall>x \<in> set (eligible_candidates R r ctx ps). snd x \<noteq> None" using eligible_priced by fast
    from expect_costs_total [OF this] obtain es where "expect_costs (eligible_candidates R r ctx ps) = Some es" ..
    with True show ?thesis by (auto simp: select_route_def needs_pricing_def)
  next
    case False
    then show ?thesis by (auto simp: select_route_def needs_pricing_def split: option.splits route_objective.splits)
  qed
  have "route R c r \<noteq> RoutePanicked"
    using sel by (auto simp: route_def Let_def simp del: not_None_eq split: sum.splits option.splits)
  moreover have "filter (\<lambda>p. rejection_reasons (rf_ops R) r ctx p \<noteq> []) ps = ps
      \<and> (\<forall>p \<in> set ps. rejection_reasons (rf_ops R) r ctx p \<noteq> [])"
    if "eligible_candidates R r ctx ps = []" for ctx ps
    using that by (simp add: eligible_candidates_def filter_empty_conv)
  ultimately show ?thesis
    by (auto simp: route_def Let_def rejected_candidates_def route_candidates_def request_validate_def result_simps
        comp_def split: sum.splits option.splits if_splits)
qed

subsection \<open>Witnesses\<close>

definition demo_route :: "nat route_f64" where
  "demo_route = \<lparr>rf_ops = demo_f64, rf_sub = (-), rf_eq = (=), total_key = int\<rparr>"

definition demo_rate :: "nat \<Rightarrow> nat model_pricing" where
  "demo_rate n = \<lparr>mp_input = n, mp_output = n, mp_cache_read = None, mp_cache_write = None\<rparr>"

definition demo_small :: "nat model_profile" where
  "demo_small = with_pricing (demo_rate 1) (profile_new ''p'' ''a'' 100 50 10)"

definition demo_large :: "nat model_profile" where
  "demo_large = with_pricing (demo_rate 5) (profile_new ''p'' ''b'' 1000 500 90)"

definition demo_catalog :: "nat model_catalog" where
  "demo_catalog = \<lparr>ct_profiles = [demo_small, demo_large]\<rparr>"

definition demo_request :: "nat route_request" where
  "demo_request = (request_automatic ObCost)\<lparr>rq_active_providers := [''p''], rq_estimated_input_tokens := 300\<rparr>"

lemmas demo_routing = demo_route_def demo_rate_def demo_small_def demo_large_def demo_catalog_def demo_request_def
  demo_f64_def request_automatic_def with_pricing_def profile_new_def

lemma demo_profiles_valid: "profile_validate demo_f64 demo_small = Inr ()" "profile_validate demo_f64 demo_large = Inr ()"
  by (simp_all add: profile_validate_def demo_routing is_blank_def bad_rate_def)

lemma demo_catalog_new: "catalog_new demo_f64 [demo_small, demo_large] = Inr demo_catalog"
proof -
  have "sort_key pf_model [demo_small, demo_large] = [demo_small, demo_large]" by (simp add: demo_routing)
  then show ?thesis by (simp add: catalog_new_def demo_profiles_valid demo_catalog_def) (simp add: demo_routing)
qed

theorem catalog_order_irrelevant_witness: "catalog_new demo_f64 [demo_large, demo_small] = Inr demo_catalog"
  using catalog_order_irrelevant [OF demo_catalog_new, of "[demo_large, demo_small]"] by (simp add: add_mset_commute)

lemma demo_catalog_ok: "catalog_ok (rf_ops demo_route) demo_catalog"
  using catalog_new_ok [OF demo_catalog_new] by (simp add: demo_route_def)

lemma demo_routed: "route demo_route demo_catalog demo_request = Routed
    \<lparr>rd_profile = demo_large, rd_estimated_cost_usd = Some 0, rd_policy = Automatic ObCost, rd_eligible_models = 1\<rparr>"
  by (simp add: route_def request_validate_def checked_tokens_def u64_max_def route_candidates_def
      eligible_candidates_def rejection_reasons_def profile_cost_def estimate_cost_usd_def priced_def objective_of_def
      select_route_def select_cheapest_def needs_pricing_def bad_rate_def is_blank_def Let_def demo_routing)

theorem routed_model_meets_constraints_witness:
  "\<exists>d. route demo_route demo_catalog demo_request = Routed d \<and> 300 \<le> pf_context_window_tokens (rd_profile d)"
  using routed_model_meets_constraints [OF demo_catalog_ok demo_routed] demo_routed by (simp add: demo_request_def)

theorem automatic_route_is_optimal_witness:
  "(int 0, pf_model demo_large) \<le> (total_key demo_route (the (profile_cost (rf_ops demo_route) demo_request demo_large)), ''b'')"
proof -
  have r: "rejection_reasons (rf_ops demo_route) demo_request
     (rq_estimated_input_tokens demo_request + rq_required_output_tokens demo_request) demo_large = []"
    by (simp add: rejection_reasons_def demo_routing needs_pricing_def objective_of_def profile_cost_def)
  have p: "rq_policy demo_request = Automatic ObCost" "demo_large \<in> set (ct_profiles demo_catalog)"
    by (simp_all add: demo_request_def demo_catalog_def request_automatic_def)
  from automatic_route_is_optimal [OF demo_routed p(1) _ p(2) r] show ?thesis
    by (simp add: demo_routing profile_cost_def estimate_cost_usd_def priced_def)
qed

theorem failed_route_explains_every_model_witness:
  "\<exists>rj. route demo_route demo_catalog (request_automatic ObQuality) = RouteFailed (NoEligibleModels rj)
     \<and> map rj_model rj = [''a'', ''b'']"
proof -
  let ?r = "request_automatic ObQuality :: nat route_request"
  have "\<exists>rj. route demo_route demo_catalog ?r = RouteFailed (NoEligibleModels rj)"
    by (simp add: route_def request_validate_def checked_tokens_def u64_max_def route_candidates_def bad_rate_def
        eligible_candidates_def rejection_reasons_def Let_def demo_routing)
  then obtain rj where rj: "route demo_route demo_catalog ?r = RouteFailed (NoEligibleModels rj)" ..
  with failed_route_explains_every_model [of demo_route demo_catalog ?r] show ?thesis
    by (simp add: request_automatic_def) (simp add: demo_catalog_def demo_small_def demo_large_def with_pricing_def profile_new_def)
qed

end
