(* ===== verification/StoreOps.thy ===== *)
theory StoreOps
  imports DurStore
begin

text \<open>
  The trait \<open>DurableStore\<close> of \<open>durable\_store.rs\<close> as a record of operations, for the code that works with
  any store, and the in-memory backend as such a record. A store reads its clock itself: the in-memory
  backend is given the sequence of readings that the operating system returns.
\<close>

record 's store_ops =
  so_create :: "run_state \<Rightarrow> ('s, store_error, unit) smeth"
  so_load :: "string \<Rightarrow> 's \<Rightarrow> store_error + run_state"
  so_cas :: "nat \<Rightarrow> run_state \<Rightarrow> ('s, store_error, unit) smeth"
  so_cas_fenced :: "nat \<Rightarrow> run_state \<Rightarrow> lease_authority \<Rightarrow> ('s, store_error, unit) smeth"
  so_cas_approval :: "nat \<Rightarrow> run_state \<Rightarrow> string \<Rightarrow> lease_authority option \<Rightarrow> ('s, store_error, unit) smeth"
  so_clock :: "('s, store_error, nat) smeth"
  so_supports_atomic_approval :: bool

text \<open>The defaults of the trait refuse.\<close>

definition default_clock :: "('s, store_error, nat) smeth" where
  "default_clock s = (Inl LeaseClockUnsupported, s)"

definition default_cas_fenced :: "nat \<Rightarrow> run_state \<Rightarrow> lease_authority \<Rightarrow> ('s, store_error, unit) smeth" where
  "default_cas_fenced expected replacement authority s = (Inl (LeaseFencingUnsupported (rs_run_id replacement)), s)"

definition default_cas_approval ::
  "nat \<Rightarrow> run_state \<Rightarrow> string \<Rightarrow> lease_authority option \<Rightarrow> ('s, store_error, unit) smeth"
where
  "default_cas_approval expected replacement approval authority s =
     (Inl (ApprovalResolutionUnsupported (rs_run_id replacement)), s)"

text \<open>The in-memory backend next to the clock it reads.\<close>

record timed_store =
  ts_memory :: memory_store
  ts_readings :: "nat \<Rightarrow> store_error + nat"
  ts_reads :: nat

definition timed_clock :: "(timed_store, store_error, nat) smeth" where
  "timed_clock s = (ts_readings s (ts_reads s), s\<lparr>ts_reads := ts_reads s + 1\<rparr>)"

definition timed_swap ::
  "nat \<Rightarrow> run_state \<Rightarrow> lease_authority option \<Rightarrow> string option \<Rightarrow> (timed_store, store_error, unit) smeth"
where
  "timed_swap expected replacement authority approval s =
     (let (clock, s1) = timed_clock s;
          (r, m) = compare_and_swap_inner clock expected replacement authority approval (ts_memory s1)
      in (r, s1\<lparr>ts_memory := m\<rparr>))"

definition timed_create :: "run_state \<Rightarrow> (timed_store, store_error, unit) smeth" where
  "timed_create st s = (case store_create st (ts_memory s) of (r, m) \<Rightarrow> (r, s\<lparr>ts_memory := m\<rparr>))"

definition memory_ops :: "timed_store store_ops" where
  "memory_ops = \<lparr>so_create = timed_create,
     so_load = (\<lambda>run s. store_load run (ts_memory s)),
     so_cas = (\<lambda>n st. timed_swap n st None None),
     so_cas_fenced = (\<lambda>n st a. timed_swap n st (Some a) None),
     so_cas_approval = (\<lambda>n st i a. timed_swap n st a (Some i)),
     so_clock = timed_clock, so_supports_atomic_approval = True\<rparr>"

text \<open>What a client relies on: a swap that succeeds has passed the checks of a replacement, at the time that
  the clock of the store showed when the swap began, and is what a later load returns; a swap that fails,
  and a reading of the clock, leave every run as it was.\<close>

locale store_contract =
  fixes ops :: "'s store_ops"
  assumes cas_Inr: "so_cas ops n st s = (Inr u, s') \<Longrightarrow>
      (\<exists>current. so_load ops (rs_run_id st) s = Inr current
         \<and> validate_swap (fst (so_clock ops s)) n current st None None = Inr ())
      \<and> so_load ops (rs_run_id st) s' = Inr st"
    and fenced_Inr: "so_cas_fenced ops n st a s = (Inr u, s') \<Longrightarrow>
      (\<exists>current. so_load ops (rs_run_id st) s = Inr current
         \<and> validate_swap (fst (so_clock ops s)) n current st (Some a) None = Inr ())
      \<and> so_load ops (rs_run_id st) s' = Inr st"
    and approval_Inr: "so_cas_approval ops n st i b s = (Inr u, s') \<Longrightarrow>
      (\<exists>current. so_load ops (rs_run_id st) s = Inr current
         \<and> validate_swap (fst (so_clock ops s)) n current st b (Some i) = Inr ())
      \<and> so_load ops (rs_run_id st) s' = Inr st"
    and cas_Inl: "so_cas ops n st s = (Inl e, s') \<Longrightarrow> so_load ops j s' = so_load ops j s"
    and fenced_Inl: "so_cas_fenced ops n st a s = (Inl e, s') \<Longrightarrow> so_load ops j s' = so_load ops j s"
    and approval_Inl: "so_cas_approval ops n st i b s = (Inl e, s') \<Longrightarrow> so_load ops j s' = so_load ops j s"
    and create_Inr: "so_create ops st s = (Inr u, s') \<Longrightarrow>
      (\<exists>e. so_load ops (rs_run_id st) s = Inl e) \<and> so_load ops (rs_run_id st) s' = Inr st"
    and create_Inl: "so_create ops st s = (Inl e, s') \<Longrightarrow> so_load ops j s' = so_load ops j s"
    and clock_load: "so_clock ops s = (r, s') \<Longrightarrow> so_load ops j s' = so_load ops j s"

lemma timed_swap_Inr:
  assumes "timed_swap n st a p s = (Inr u, s')"
  shows "(\<exists>current. store_load (rs_run_id st) (ts_memory s) = Inr current
      \<and> validate_swap (fst (timed_clock s)) n current st a p = Inr ())
    \<and> store_load (rs_run_id st) (ts_memory s') = Inr st"
  using assms
  by (auto simp: timed_swap_def timed_clock_def compare_and_swap_inner_def store_load_def Let_def
      split: if_splits option.splits sum.splits)

lemma timed_swap_Inl:
  assumes "timed_swap n st a p s = (Inl e, s')"
  shows "ts_memory s' = ts_memory s"
  using assms
  by (auto simp: timed_swap_def timed_clock_def compare_and_swap_inner_def Let_def
      split: if_splits option.splits sum.splits)

lemma timed_create_Inr:
  "store_create st m = (Inr u, m') \<Longrightarrow> (\<exists>e. store_load (rs_run_id st) m = Inl e) \<and> store_load (rs_run_id st) m' = Inr st"
  by (auto simp: store_create_def store_load_def split: if_splits)

lemma timed_create_Inl: "store_create st m = (Inl e, m') \<Longrightarrow> m' = m"
  by (auto simp: store_create_def split: if_splits)

interpretation timed: store_contract memory_ops
  by unfold_locales
    (auto simp: memory_ops_def timed_clock_def timed_create_def dest: timed_swap_Inr timed_swap_Inl
        timed_create_Inr timed_create_Inl split: prod.splits)

end
