(* ===== verification/Hooks.thy ===== *)
theory Hooks
  imports DurTypes Errors
begin

text \<open>
  The lifecycle hooks of \<open>governance/hooks.rs\<close>. A hook is host code: a function of the context it is
  called with that may also not answer within the dispatcher's timeout (\<open>None\<close>), so that the timeout
  itself is no field of the model. Since a hook may keep state, it is
  also given the number of the pass in which it is called. Registration is an append to a list.
\<close>

datatype hook_outcome = HookContinue | HookBlock string | HookRewrite json

datatype post_tool_outcome = PostContinue | RewriteOutput string | MarkError string

datatype failure_hook_outcome = FailureContinue | RewriteError string

datatype prompt_hook_outcome = PromptContinue | PromptBlock string | PromptRewrite string

datatype failure_stage =
    StageConfiguration | StageProviderStart | StageProviderStream | StageToolNotAdvertised | StagePreToolUse
  | StagePermission | StageToolExecution | StageToolInputValidation | StagePostToolUse | StageMaxTurns
  | StageMalformedToolCall | StageBudget | StageAudit

fun stage_as_str :: "failure_stage \<Rightarrow> string" where
  "stage_as_str StageConfiguration = ''configuration''"
| "stage_as_str StageProviderStart = ''provider_start''"
| "stage_as_str StageProviderStream = ''provider_stream''"
| "stage_as_str StageToolNotAdvertised = ''tool_not_advertised''"
| "stage_as_str StagePreToolUse = ''pre_tool_use''"
| "stage_as_str StagePermission = ''permission''"
| "stage_as_str StageToolExecution = ''tool_execution''"
| "stage_as_str StageToolInputValidation = ''tool_input_validation''"
| "stage_as_str StagePostToolUse = ''post_tool_use''"
| "stage_as_str StageMaxTurns = ''max_turns''"
| "stage_as_str StageMalformedToolCall = ''malformed_tool_call''"
| "stage_as_str StageBudget = ''budget''"
| "stage_as_str StageAudit = ''audit''"

record prompt_context =
  pt_run_id :: string
  pt_prompt :: string

record pre_tool_context =
  pr_run_id :: string
  pr_turn :: nat
  pr_tool_use_id :: string
  pr_tool :: string
  pr_input :: json

record post_tool_context =
  po_run_id :: string
  po_turn :: nat
  po_tool_use_id :: string
  po_tool :: string
  po_input :: json
  po_output :: string
  po_duration_ms :: nat

record failure_context =
  fc_run_id :: string
  fc_turn :: nat
  fc_stage :: failure_stage
  fc_tool_use_id :: "string option"
  fc_tool :: "string option"
  fc_error :: string

record stop_context =
  sx_run_id :: string
  sx_turns :: nat
  sx_reason :: string
  sx_usage :: usage

type_synonym ('c, 'o) hook = "nat \<Rightarrow> 'c \<Rightarrow> 'o option"

record hook_dispatcher =
  hd_user_prompt_submit :: "(prompt_context, prompt_hook_outcome) hook list"
  hd_pre_tool_use :: "(string \<times> (pre_tool_context, hook_outcome) hook) list"
  hd_post_tool_use :: "(string \<times> (post_tool_context, post_tool_outcome) hook) list"
  hd_post_tool_failure :: "(string \<times> (failure_context, failure_hook_outcome) hook) list"
  hd_failure :: "(failure_context, failure_hook_outcome) hook list"
  hd_stop :: "(stop_context, unit) hook list"

definition dispatcher_default :: hook_dispatcher where
  "dispatcher_default = \<lparr>hd_user_prompt_submit = [], hd_pre_tool_use = [], hd_post_tool_use = [],
     hd_post_tool_failure = [], hd_failure = [], hd_stop = []\<rparr>"

text \<open>Registration appends. A hook registered by the synchronous variant sees less of the context, always
  answers, and is the same function in every pass.\<close>

definition on_user_prompt_submit_async ::
  "(prompt_context, prompt_hook_outcome) hook \<Rightarrow> hook_dispatcher \<Rightarrow> hook_dispatcher"
where
  "on_user_prompt_submit_async hook d = d\<lparr>hd_user_prompt_submit := hd_user_prompt_submit d @ [hook]\<rparr>"

definition on_user_prompt_submit :: "(string \<Rightarrow> prompt_hook_outcome) \<Rightarrow> hook_dispatcher \<Rightarrow> hook_dispatcher" where
  "on_user_prompt_submit hook d =
     d\<lparr>hd_user_prompt_submit := hd_user_prompt_submit d @ [\<lambda>_ ctx. Some (hook (pt_prompt ctx))]\<rparr>"

definition on_pre_tool_use_async ::
  "string \<Rightarrow> (pre_tool_context, hook_outcome) hook \<Rightarrow> hook_dispatcher \<Rightarrow> hook_dispatcher"
where
  "on_pre_tool_use_async matcher hook d = d\<lparr>hd_pre_tool_use := hd_pre_tool_use d @ [(matcher, hook)]\<rparr>"

definition on_pre_tool_use ::
  "string \<Rightarrow> (string \<Rightarrow> json \<Rightarrow> hook_outcome) \<Rightarrow> hook_dispatcher \<Rightarrow> hook_dispatcher"
where
  "on_pre_tool_use matcher hook d =
     d\<lparr>hd_pre_tool_use := hd_pre_tool_use d @ [(matcher, \<lambda>_ ctx. Some (hook (pr_tool ctx) (pr_input ctx)))]\<rparr>"

definition on_post_tool_use_async ::
  "string \<Rightarrow> (post_tool_context, post_tool_outcome) hook \<Rightarrow> hook_dispatcher \<Rightarrow> hook_dispatcher"
where
  "on_post_tool_use_async matcher hook d = d\<lparr>hd_post_tool_use := hd_post_tool_use d @ [(matcher, hook)]\<rparr>"

definition on_post_tool_use ::
  "string \<Rightarrow> (string \<Rightarrow> json \<Rightarrow> string \<Rightarrow> post_tool_outcome) \<Rightarrow> hook_dispatcher \<Rightarrow> hook_dispatcher"
where
  "on_post_tool_use matcher hook d =
     d\<lparr>hd_post_tool_use := hd_post_tool_use d
          @ [(matcher, \<lambda>_ ctx. Some (hook (po_tool ctx) (po_input ctx) (po_output ctx)))]\<rparr>"

definition on_post_tool_failure_async ::
  "string \<Rightarrow> (failure_context, failure_hook_outcome) hook \<Rightarrow> hook_dispatcher \<Rightarrow> hook_dispatcher"
where
  "on_post_tool_failure_async matcher hook d = d\<lparr>hd_post_tool_failure := hd_post_tool_failure d @ [(matcher, hook)]\<rparr>"

definition on_post_tool_failure ::
  "string \<Rightarrow> (failure_context \<Rightarrow> failure_hook_outcome) \<Rightarrow> hook_dispatcher \<Rightarrow> hook_dispatcher"
where
  "on_post_tool_failure matcher hook d =
     d\<lparr>hd_post_tool_failure := hd_post_tool_failure d @ [(matcher, \<lambda>_ ctx. Some (hook ctx))]\<rparr>"

definition on_failure_async :: "(failure_context, failure_hook_outcome) hook \<Rightarrow> hook_dispatcher \<Rightarrow> hook_dispatcher" where
  "on_failure_async hook d = d\<lparr>hd_failure := hd_failure d @ [hook]\<rparr>"

definition on_failure :: "(failure_context \<Rightarrow> failure_hook_outcome) \<Rightarrow> hook_dispatcher \<Rightarrow> hook_dispatcher" where
  "on_failure hook d = d\<lparr>hd_failure := hd_failure d @ [\<lambda>_ ctx. Some (hook ctx)]\<rparr>"

definition on_stop_async :: "(stop_context, unit) hook \<Rightarrow> hook_dispatcher \<Rightarrow> hook_dispatcher" where
  "on_stop_async hook d = d\<lparr>hd_stop := hd_stop d @ [hook]\<rparr>"

definition on_stop :: "(stop_context \<Rightarrow> unit) \<Rightarrow> hook_dispatcher \<Rightarrow> hook_dispatcher" where
  "on_stop hook d = d\<lparr>hd_stop := hd_stop d @ [\<lambda>_ ctx. Some (hook ctx)]\<rparr>"

definition matcher_matches :: "string \<Rightarrow> string \<Rightarrow> bool" where
  "matcher_matches matcher tool = (matcher = ''*'' \<or> matcher = tool)"

fun prompt_loop :: "nat \<Rightarrow> (prompt_context, prompt_hook_outcome) hook list \<Rightarrow> prompt_context \<Rightarrow> bool \<Rightarrow> prompt_hook_outcome" where
  "prompt_loop n [] ctx rewritten = (if rewritten then PromptRewrite (pt_prompt ctx) else PromptContinue)"
| "prompt_loop n (hook # hooks) ctx rewritten =
     (case hook n ctx of
        None \<Rightarrow> PromptBlock ''UserPromptSubmit hook timed out''
      | Some (PromptBlock reason) \<Rightarrow> PromptBlock reason
      | Some (PromptRewrite prompt) \<Rightarrow> prompt_loop n hooks (ctx\<lparr>pt_prompt := prompt\<rparr>) True
      | Some PromptContinue \<Rightarrow> prompt_loop n hooks ctx rewritten)"

definition run_user_prompt_submit :: "nat \<Rightarrow> hook_dispatcher \<Rightarrow> prompt_context \<Rightarrow> prompt_hook_outcome" where
  "run_user_prompt_submit n d ctx = prompt_loop n (hd_user_prompt_submit d) ctx False"

fun pre_tool_loop ::
  "nat \<Rightarrow> (string \<times> (pre_tool_context, hook_outcome) hook) list \<Rightarrow> pre_tool_context \<Rightarrow> bool \<Rightarrow> hook_outcome"
where
  "pre_tool_loop n [] ctx rewritten = (if rewritten then HookRewrite (pr_input ctx) else HookContinue)"
| "pre_tool_loop n ((matcher, hook) # hooks) ctx rewritten =
     (if \<not> matcher_matches matcher (pr_tool ctx) then pre_tool_loop n hooks ctx rewritten
      else case hook n ctx of
        None \<Rightarrow> HookBlock ''PreToolUse hook timed out''
      | Some (HookBlock reason) \<Rightarrow> HookBlock reason
      | Some (HookRewrite input) \<Rightarrow> pre_tool_loop n hooks (ctx\<lparr>pr_input := input\<rparr>) True
      | Some HookContinue \<Rightarrow> pre_tool_loop n hooks ctx rewritten)"

definition run_pre_tool_use :: "nat \<Rightarrow> hook_dispatcher \<Rightarrow> pre_tool_context \<Rightarrow> hook_outcome" where
  "run_pre_tool_use n d ctx = pre_tool_loop n (hd_pre_tool_use d) ctx False"

fun post_tool_loop ::
  "nat \<Rightarrow> (string \<times> (post_tool_context, post_tool_outcome) hook) list \<Rightarrow> post_tool_context \<Rightarrow> bool \<Rightarrow> post_tool_outcome"
where
  "post_tool_loop n [] ctx rewritten = (if rewritten then RewriteOutput (po_output ctx) else PostContinue)"
| "post_tool_loop n ((matcher, hook) # hooks) ctx rewritten =
     (if \<not> matcher_matches matcher (po_tool ctx) then post_tool_loop n hooks ctx rewritten
      else case hook n ctx of
        None \<Rightarrow> MarkError ''PostToolUse hook timed out after tool execution''
      | Some (MarkError reason) \<Rightarrow> MarkError reason
      | Some (RewriteOutput out) \<Rightarrow> post_tool_loop n hooks (ctx\<lparr>po_output := out\<rparr>) True
      | Some PostContinue \<Rightarrow> post_tool_loop n hooks ctx rewritten)"

definition run_post_tool_use :: "nat \<Rightarrow> hook_dispatcher \<Rightarrow> post_tool_context \<Rightarrow> post_tool_outcome" where
  "run_post_tool_use n d ctx = post_tool_loop n (hd_post_tool_use d) ctx False"

text \<open>A failure hook that does not answer in time is skipped.\<close>

definition rewrite_failure :: "nat \<Rightarrow> (failure_context, failure_hook_outcome) hook \<Rightarrow> failure_context \<Rightarrow> failure_context" where
  "rewrite_failure n hook ctx =
     (case hook n ctx of Some (RewriteError error) \<Rightarrow> ctx\<lparr>fc_error := error\<rparr> | _ \<Rightarrow> ctx)"

definition run_failure :: "nat \<Rightarrow> hook_dispatcher \<Rightarrow> failure_context \<Rightarrow> string" where
  "run_failure n d ctx =
     (let ctx' = (case (fc_tool ctx, fc_tool_use_id ctx) of
          (Some tool, Some _) \<Rightarrow>
            fold (\<lambda>(matcher, hook) c. if matcher_matches matcher tool then rewrite_failure n hook c else c)
              (hd_post_tool_failure d) ctx
        | _ \<Rightarrow> ctx)
      in fc_error (fold (rewrite_failure n) (hd_failure d) ctx'))"

fun stop_loop :: "nat \<Rightarrow> (stop_context, unit) hook list \<Rightarrow> stop_context \<Rightarrow> aikit_error + unit" where
  "stop_loop n [] ctx = Inr ()"
| "stop_loop n (hook # hooks) ctx =
     (case hook n ctx of None \<Rightarrow> Inl (HookError ''Stop hook timed out'') | Some _ \<Rightarrow> stop_loop n hooks ctx)"

definition run_stop :: "nat \<Rightarrow> hook_dispatcher \<Rightarrow> stop_context \<Rightarrow> aikit_error + unit" where
  "run_stop n d ctx = stop_loop n (hd_stop d) ctx"

subsection \<open>What a pass guarantees\<close>

text \<open>The inputs that the matching hooks see in one pass, and the input that comes out: every hook
  answered and none blocked.\<close>

inductive hook_pass ::
  "nat \<Rightarrow> (string \<times> (pre_tool_context, hook_outcome) hook) list \<Rightarrow> pre_tool_context \<Rightarrow> json \<Rightarrow> bool"
for n where
  passed: "hook_pass n [] ctx (pr_input ctx)"
| skipped: "\<not> matcher_matches m (pr_tool ctx) \<Longrightarrow> hook_pass n hooks ctx v \<Longrightarrow> hook_pass n ((m, h) # hooks) ctx v"
| continued: "h n ctx = Some HookContinue \<Longrightarrow> hook_pass n hooks ctx v \<Longrightarrow> hook_pass n ((m, h) # hooks) ctx v"
| rewritten: "h n ctx = Some (HookRewrite w) \<Longrightarrow> hook_pass n hooks (ctx\<lparr>pr_input := w\<rparr>) v
    \<Longrightarrow> hook_pass n ((m, h) # hooks) ctx v"

lemma pre_tool_loop_pass:
  "(pre_tool_loop n hooks ctx rw = HookRewrite v \<longrightarrow> hook_pass n hooks ctx v)
   \<and> (pre_tool_loop n hooks ctx rw = HookContinue \<longrightarrow> hook_pass n hooks ctx (pr_input ctx))"
proof (induction n hooks ctx rw rule: pre_tool_loop.induct)
  case (1 n ctx rw)
  then show ?case by (auto intro: hook_pass.passed)
next
  case (2 n m h hooks ctx rw)
  show ?case
  proof (cases "matcher_matches m (pr_tool ctx)")
    case False
    with 2(1) show ?thesis by (auto intro: hook_pass.skipped)
  next
    case True
    have nc: "pre_tool_loop n hooks c True \<noteq> HookContinue" for c
      by (induction n hooks c "True" rule: pre_tool_loop.induct) (auto split: option.splits hook_outcome.splits)
    show ?thesis
    proof (cases "h n ctx")
      case (Some out)
      with True 2 nc show ?thesis
        by (cases out) (auto intro: hook_pass.continued hook_pass.rewritten)
    qed (use True in simp)
  qed
qed

lemma run_pre_tool_use_pass:
  "run_pre_tool_use n d ctx = HookRewrite v \<Longrightarrow> hook_pass n (hd_pre_tool_use d) ctx v"
  "run_pre_tool_use n d ctx = HookContinue \<Longrightarrow> hook_pass n (hd_pre_tool_use d) ctx (pr_input ctx)"
  using pre_tool_loop_pass [of n "hd_pre_tool_use d" ctx False] by (auto simp: run_pre_tool_use_def)

text \<open>A hook that blocks, or does not answer, for every input lets nothing pass.\<close>

lemma hook_pass_blocked:
  "hook_pass n hooks ctx v \<Longrightarrow> (m, h) \<in> set hooks \<Longrightarrow> matcher_matches m (pr_tool ctx) \<Longrightarrow>
     \<exists>w out. h n (ctx\<lparr>pr_input := w\<rparr>) = Some out \<and> (\<forall>reason. out \<noteq> HookBlock reason)"
proof (induction rule: hook_pass.induct)
  case (continued h' ctx hooks v m')
  show ?case
  proof (cases "(m, h) = (m', h')")
    case True
    with continued(1) show ?thesis by (intro exI [of _ "pr_input ctx"] exI [of _ HookContinue]) simp
  qed (use continued in auto)
next
  case (rewritten h' ctx w hooks v m')
  show ?case
  proof (cases "(m, h) = (m', h')")
    case True
    with rewritten(1) show ?thesis by (intro exI [of _ "pr_input ctx"] exI [of _ "HookRewrite w"]) simp
  qed (use rewritten in auto)
qed auto

end
