(* ===== verification/Permissions.thy ===== *)
theory Permissions
  imports Json
begin

text \<open>
  The permission engine of \<open>governance/permissions.rs\<close>: every tool call is evaluated against a
  default posture and an ordered list of rules, of which a matching deny is final. The regular
  expressions come from the \<open>regex\<close> crate: the type of compiled patterns, their compilation and
  their matching are parameters.
\<close>

datatype permission_mode = ModeAllow | ModeDeny | ModeAsk

datatype rule_effect = RAllow | RDeny | RAsk

record 're rule =
  ru_id :: "string option"
  ru_effect :: rule_effect
  ru_tool :: string
  ru_pattern :: "'re option"
  ru_field :: "string option"

definition rule_allow :: "string \<Rightarrow> 're rule" where
  "rule_allow tool = \<lparr>ru_id = None, ru_effect = RAllow, ru_tool = tool, ru_pattern = None, ru_field = None\<rparr>"

definition rule_deny :: "string \<Rightarrow> 're rule" where
  "rule_deny tool = \<lparr>ru_id = None, ru_effect = RDeny, ru_tool = tool, ru_pattern = None, ru_field = None\<rparr>"

definition rule_ask :: "string \<Rightarrow> 're rule" where
  "rule_ask tool = \<lparr>ru_id = None, ru_effect = RAsk, ru_tool = tool, ru_pattern = None, ru_field = None\<rparr>"

definition rule_named :: "string \<Rightarrow> 're rule \<Rightarrow> 're rule" where
  "rule_named i r = r\<lparr>ru_id := Some i\<rparr>"

definition rule_matching :: "(string \<Rightarrow> 'e + 're) \<Rightarrow> string \<Rightarrow> 're rule \<Rightarrow> 'e + 're rule" where
  "rule_matching compile pattern r = bindR (compile pattern) (\<lambda>re. Inr (r\<lparr>ru_pattern := Some re\<rparr>))"

definition rule_matching_field :: "(string \<Rightarrow> 'e + 're) \<Rightarrow> string \<Rightarrow> string \<Rightarrow> 're rule \<Rightarrow> 'e + 're rule" where
  "rule_matching_field compile field pattern r =
     bindR (compile pattern) (\<lambda>re. Inr (r\<lparr>ru_field := Some field, ru_pattern := Some re\<rparr>))"

text \<open>\<open>collect\_strings\<close>: every string leaf of a JSON value, in document order.\<close>

fun collect_strings :: "json \<Rightarrow> string list" where
  "collect_strings (JString s) = [s]"
| "collect_strings (JArray vs) = concat (map collect_strings vs)"
| "collect_strings (JObject kvs) = concat (map (\<lambda>kv. collect_strings (snd kv)) kvs)"
| "collect_strings JNull = []"
| "collect_strings (JBool b) = []"
| "collect_strings (JNumber n) = []"

definition rule_matches :: "('re \<Rightarrow> string \<Rightarrow> bool) \<Rightarrow> 're rule \<Rightarrow> string \<Rightarrow> json \<Rightarrow> bool" where
  "rule_matches is_match r tool input =
     (if ru_tool r \<noteq> ''*'' \<and> ru_tool r \<noteq> tool then False
      else case ru_pattern r of
        None \<Rightarrow> True
      | Some re \<Rightarrow>
          (case ru_field r of
             Some field \<Rightarrow> (case jget_str input field of None \<Rightarrow> False | Some v \<Rightarrow> is_match re v)
           | None \<Rightarrow> list_ex (is_match re) (collect_strings input)))"

datatype outcome = OAllow | ODeny string | OAsk

record permission_decision =
  pd_outcome :: outcome
  pd_source :: string

record 're permission_engine =
  pe_mode :: permission_mode
  pe_rules :: "'re rule list"

definition engine_new :: "permission_mode \<Rightarrow> 're permission_engine" where
  "engine_new mode = \<lparr>pe_mode = mode, pe_rules = []\<rparr>"

definition engine_push :: "'re rule \<Rightarrow> 're permission_engine \<Rightarrow> 're permission_engine" where
  "engine_push r e = e\<lparr>pe_rules := pe_rules e @ [r]\<rparr>"

definition denied_by_rule :: "string \<Rightarrow> string" where
  "denied_by_rule tool = ''tool '' @ [CHR 0x27] @ tool @ [CHR 0x27] @ '' denied by rule''"

definition denied_by_default :: "string \<Rightarrow> string" where
  "denied_by_default tool = ''tool '' @ [CHR 0x27] @ tool @ [CHR 0x27] @ '' denied by default (deny mode)''"

text \<open>The source a decision reports: the name of the rule or its position.\<close>

definition rule_source :: "nat \<Rightarrow> 're rule \<Rightarrow> string" where
  "rule_source index r = (case ru_id r of Some i \<Rightarrow> i | None \<Rightarrow> ''rule:'' @ show_nat index)"

text \<open>The loop over the rules: \<open>Inl\<close> is the early return, \<open>Inr\<close> the first decision that is not a
  denial.\<close>

fun evaluate_rules ::
  "('re \<Rightarrow> string \<Rightarrow> bool) \<Rightarrow> string \<Rightarrow> json \<Rightarrow> nat \<Rightarrow> 're rule list \<Rightarrow> permission_decision option
    \<Rightarrow> permission_decision + permission_decision option"
where
  "evaluate_rules is_match tool input index [] first_non_deny = Inr first_non_deny"
| "evaluate_rules is_match tool input index (r # rs) first_non_deny =
     (if rule_matches is_match r tool input then
        (case ru_effect r of
           RDeny \<Rightarrow> Inl \<lparr>pd_outcome = ODeny (denied_by_rule tool), pd_source = rule_source index r\<rparr>
         | RAllow \<Rightarrow> evaluate_rules is_match tool input (index + 1) rs
             (case first_non_deny of None \<Rightarrow> Some \<lparr>pd_outcome = OAllow, pd_source = rule_source index r\<rparr>
              | Some d \<Rightarrow> Some d)
         | RAsk \<Rightarrow> evaluate_rules is_match tool input (index + 1) rs
             (case first_non_deny of None \<Rightarrow> Some \<lparr>pd_outcome = OAsk, pd_source = rule_source index r\<rparr>
              | Some d \<Rightarrow> Some d))
      else evaluate_rules is_match tool input (index + 1) rs first_non_deny)"

definition default_outcome :: "permission_mode \<Rightarrow> string \<Rightarrow> outcome" where
  "default_outcome mode tool =
     (case mode of ModeAllow \<Rightarrow> OAllow | ModeDeny \<Rightarrow> ODeny (denied_by_default tool) | ModeAsk \<Rightarrow> OAsk)"

definition evaluate_detailed ::
  "('re \<Rightarrow> string \<Rightarrow> bool) \<Rightarrow> 're permission_engine \<Rightarrow> string \<Rightarrow> json \<Rightarrow> permission_decision"
where
  "evaluate_detailed is_match e tool input =
     (case evaluate_rules is_match tool input 0 (pe_rules e) None of
        Inl d \<Rightarrow> d
      | Inr (Some d) \<Rightarrow> d
      | Inr None \<Rightarrow> \<lparr>pd_outcome = default_outcome (pe_mode e) tool, pd_source = ''default_mode''\<rparr>)"

definition engine_evaluate :: "('re \<Rightarrow> string \<Rightarrow> bool) \<Rightarrow> 're permission_engine \<Rightarrow> string \<Rightarrow> json \<Rightarrow> outcome" where
  "engine_evaluate is_match e tool input = pd_outcome (evaluate_detailed is_match e tool input)"

subsection \<open>What a decision means\<close>

text \<open>The reference: the first matching denial decides; without one, the first matching rule;
  without one, the mode.\<close>

definition matching_positions :: "('re rule \<Rightarrow> bool) \<Rightarrow> nat \<Rightarrow> 're rule list \<Rightarrow> (nat \<times> 're rule) list" where
  "matching_positions m n rs = filter (\<lambda>(i, r). m r) (enumerate n rs)"

definition rule_decision :: "string \<Rightarrow> nat \<times> 're rule \<Rightarrow> permission_decision" where
  "rule_decision tool ir = \<lparr>pd_outcome = (case ru_effect (snd ir) of RAllow \<Rightarrow> OAllow
       | RDeny \<Rightarrow> ODeny (denied_by_rule tool) | RAsk \<Rightarrow> OAsk),
     pd_source = rule_source (fst ir) (snd ir)\<rparr>"

definition reference_decision ::
  "('re \<Rightarrow> string \<Rightarrow> bool) \<Rightarrow> 're permission_engine \<Rightarrow> string \<Rightarrow> json \<Rightarrow> permission_decision"
where
  "reference_decision is_match e tool input =
     (let ms = matching_positions (\<lambda>r. rule_matches is_match r tool input) 0 (pe_rules e) in
      case List.find (\<lambda>ir. ru_effect (snd ir) = RDeny) ms of
        Some ir \<Rightarrow> rule_decision tool ir
      | None \<Rightarrow>
          (case ms of
             ir # _ \<Rightarrow> rule_decision tool ir
           | [] \<Rightarrow> \<lparr>pd_outcome = default_outcome (pe_mode e) tool, pd_source = ''default_mode''\<rparr>))"

lemma matching_positions_simps [simp]:
  "matching_positions m n [] = []"
  "matching_positions m n (r # rs) =
     (if m r then (n, r) # matching_positions m (Suc n) rs else matching_positions m (Suc n) rs)"
  by (simp_all add: matching_positions_def)

lemma evaluate_rules_spec:
  "evaluate_rules is_match tool input n rs acc =
     (let ms = matching_positions (\<lambda>r. rule_matches is_match r tool input) n rs in
      case List.find (\<lambda>ir. ru_effect (snd ir) = RDeny) ms of
        Some ir \<Rightarrow> Inl (rule_decision tool ir)
      | None \<Rightarrow> Inr (case acc of Some d \<Rightarrow> Some d
                  | None \<Rightarrow> (case ms of ir # _ \<Rightarrow> Some (rule_decision tool ir) | [] \<Rightarrow> None)))"
proof (induction rs arbitrary: n acc)
  case (Cons r rs)
  show ?case
    by (cases "rule_matches is_match r tool input"; cases "ru_effect r"; cases acc)
      (simp_all add: Cons.IH Let_def rule_decision_def split: option.split)
qed (simp add: Let_def split: option.split)

lemma evaluate_reference: "evaluate_detailed is_match e tool input = reference_decision is_match e tool input"
  by (simp add: evaluate_detailed_def reference_decision_def evaluate_rules_spec Let_def split: option.split list.split)

lemma matching_positions_rules: "(\<exists>i. (i, r) \<in> set (matching_positions m n rs)) \<longleftrightarrow> r \<in> set rs \<and> m r"
  by (induction rs arbitrary: n) auto

lemma denied_iff:
  "(\<exists>reason. engine_evaluate is_match e tool input = ODeny reason) \<longleftrightarrow>
     (\<exists>r \<in> set (pe_rules e). rule_matches is_match r tool input \<and> ru_effect r = RDeny)
     \<or> (pe_mode e = ModeDeny \<and> \<not> (\<exists>r \<in> set (pe_rules e). rule_matches is_match r tool input))"
  (is "?L \<longleftrightarrow> ?deny \<or> ?default")
proof -
  let ?m = "\<lambda>r. rule_matches is_match r tool input"
  let ?ms = "matching_positions ?m 0 (pe_rules e)"
  show ?thesis
  proof (cases "List.find (\<lambda>ir. ru_effect (snd ir) = RDeny) ?ms")
    case (Some ir)
    then have ir: "ir \<in> set ?ms" "ru_effect (snd ir) = RDeny" by (auto dest: find_SomeD)
    then have "(fst ir, snd ir) \<in> set ?ms" by simp
    then have "?deny" using matching_positions_rules [of "snd ir" ?m 0 "pe_rules e"] ir(2) by blast
    with Some ir(2) show ?thesis
      by (simp add: engine_evaluate_def evaluate_reference reference_decision_def Let_def rule_decision_def)
  next
    case None
    then have no: "\<not> ?deny" using matching_positions_rules [of _ ?m 0 "pe_rules e"] 
      by (simp add: find_None_iff) metis
    show ?thesis
    proof (cases ?ms)
      case Nil
      then have "\<not> (\<exists>r \<in> set (pe_rules e). ?m r)" 
        using matching_positions_rules [of _ ?m 0 "pe_rules e"] by (metis empty_iff empty_set)
      with None Nil no show ?thesis
        by (cases "pe_mode e")
          (simp_all add: engine_evaluate_def evaluate_reference reference_decision_def Let_def default_outcome_def)
    next
      case (Cons ir rest)
      then have ir: "ir \<in> set ?ms" by simp
      then have "(fst ir, snd ir) \<in> set ?ms" by simp
      then have "\<exists>r \<in> set (pe_rules e). ?m r" using matching_positions_rules [of "snd ir" ?m 0 "pe_rules e"] by blast
      moreover have "ru_effect (snd ir) \<noteq> RDeny" using None ir by (cases ir) (auto simp: find_None_iff)
      ultimately show ?thesis using None Cons no
        by (cases "ru_effect (snd ir)")
          (simp_all add: engine_evaluate_def evaluate_reference reference_decision_def Let_def rule_decision_def)
    qed
  qed
qed

subsection \<open>String leaves\<close>

text \<open>The string leaves of a JSON value, as a relation.\<close>

inductive leaf :: "string \<Rightarrow> json \<Rightarrow> bool" where
  string: "leaf s (JString s)"
| element: "leaf s v \<Longrightarrow> v \<in> set vs \<Longrightarrow> leaf s (JArray vs)"
| field: "leaf s v \<Longrightarrow> (k, v) \<in> set kvs \<Longrightarrow> leaf s (JObject kvs)"

lemma collect_strings_leaf: "s \<in> set (collect_strings v) \<longleftrightarrow> leaf s v"
proof
  show "s \<in> set (collect_strings v) \<Longrightarrow> leaf s v"
    by (induction v rule: collect_strings.induct) (auto intro: leaf.intros, metis leaf.field prod.collapse)
  show "leaf s v \<Longrightarrow> s \<in> set (collect_strings v)"
    by (induction rule: leaf.induct) force+
qed

subsection \<open>Properties\<close>

text \<open>C17: the loop of the engine computes the documented decision: the first matching deny rule
  wins wherever it stands, else the first matching rule, else the mode, with the name or position
  of the deciding rule as its source.\<close>

theorem evaluation_is_reference:
  "evaluate_detailed is_match e tool input = reference_decision is_match e tool input"
  by (rule evaluate_reference)

text \<open>A matching deny rule cannot be overruled: whatever rules are added, removed or moved
  around it and whatever the mode, a call that it matches is denied.\<close>

theorem denial_is_monotone:
  assumes "ru_effect r = RDeny" and "rule_matches is_match r tool input" and "pe_rules e = before @ r # after"
  shows "\<exists>reason. engine_evaluate is_match e tool input = ODeny reason"
  using assms by (auto simp: denied_iff)

theorem denial_is_monotone_witness:
  "\<exists>reason. engine_evaluate (\<lambda>p s. p = s) \<lparr>pe_mode = ModeAllow, pe_rules = [rule_allow ''*'',
     (rule_deny ''sh'')\<lparr>ru_pattern := Some ''rm''\<rparr>, rule_ask ''sh'']\<rparr> ''sh''
     (JObject [(''args'', JArray [JString ''ls'', JString ''rm''])]) = ODeny reason"
  using denial_is_monotone [of "(rule_deny ''sh'')\<lparr>ru_pattern := Some ''rm''\<rparr>" "\<lambda>p s. p = s" "''sh''"
      "JObject [(''args'', JArray [JString ''ls'', JString ''rm''])]" _ "[rule_allow ''*'']" "[rule_ask ''sh'']"]
  by (simp add: rule_deny_def rule_matches_def)

text \<open>A deny rule with a pattern and no field sees every string of the input, however deep: the
  call is denied when any string leaf matches.\<close>

theorem pattern_sees_every_leaf:
  assumes "rule \<in> set (pe_rules e)" and "ru_effect rule = RDeny" and "ru_tool rule = ''*'' \<or> ru_tool rule = tool"
    and "ru_pattern rule = Some re" and "ru_field rule = None" and "leaf s input" and "is_match re s"
  shows "\<exists>reason. engine_evaluate is_match e tool input = ODeny reason"
proof -
  have "rule_matches is_match rule tool input"
    using assms by (auto simp: rule_matches_def list_ex_iff collect_strings_leaf)
  with assms(1,2) show ?thesis by (auto simp: denied_iff)
qed

theorem pattern_sees_every_leaf_witness:
  "\<exists>reason. engine_evaluate (\<lambda>p s. p = s) (engine_push ((rule_deny ''*'')\<lparr>ru_pattern := Some ''rm''\<rparr>)
     (engine_new ModeAllow)) ''sh'' (JArray [JObject [(''a'', JString ''rm'')]]) = ODeny reason"
proof -
  have "leaf ''rm'' (JArray [JObject [(''a'', JString ''rm'')]])"
    by (rule leaf.element [OF leaf.field [OF leaf.string]]) simp_all
  from pattern_sees_every_leaf [OF _ _ _ _ _ this, of "(rule_deny ''*'')\<lparr>ru_pattern := Some ''rm''\<rparr>"
      "engine_push ((rule_deny ''*'')\<lparr>ru_pattern := Some ''rm''\<rparr>) (engine_new ModeAllow)" "''sh''" "''rm''" "\<lambda>p s. p = s"]
  show ?thesis by (simp add: engine_push_def engine_new_def rule_deny_def)
qed

end
