(* ===== verification/Policy.thy ===== *)
theory Policy
  imports Permissions Reliability Errors
begin

text \<open>
  The declarative front of the permission engine (\<open>governance/policy.rs\<close>), risk scoring and smart
  approval (\<open>governance/risk.rs\<close>) and plan review (\<open>governance/plan.rs\<close>). Decoding of JSON text and the
  regular expressions are parameters; what is assumed of the latter is the meaning of the small
  fragment of patterns that the glob translation produces. Approvers and reviewers are people or
  services: functions of what they are shown.
\<close>

subsection \<open>Policy specifications\<close>

datatype policy_mode = PmAllow | PmDeny | PmAsk

fun permission_mode_of :: "policy_mode \<Rightarrow> permission_mode" where
  "permission_mode_of PmAllow = ModeAllow"
| "permission_mode_of PmDeny = ModeDeny"
| "permission_mode_of PmAsk = ModeAsk"

record policy_spec =
  ps_mode :: policy_mode
  ps_allow :: "string list"
  ps_ask :: "string list"
  ps_deny :: "string list"

text \<open>The metacharacters that the translation escapes.\<close>

definition is_meta :: "char \<Rightarrow> bool" where
  "is_meta ch = (ch \<in> {CHR ''.'', CHR ''+'', CHR ''('', CHR '')'', CHR ''|'', CHR ''['', CHR '']'', CHR 0x7B, CHR 0x7D,
     CHR 0x5E, CHR ''$'', CHR 0x5C})"

fun glob_to_regex :: "string \<Rightarrow> string" where
  "glob_to_regex [] = []"
| "glob_to_regex (ch # g) =
     (if ch = CHR ''*'' then ''.*''
      else if ch = CHR ''?'' then ''.''
      else if is_meta ch then [CHR 0x5C, ch]
      else [ch]) @ glob_to_regex g"

text \<open>The first opening parenthesis splits a specification.\<close>

fun split_at_paren :: "string \<Rightarrow> (string \<times> string) option" where
  "split_at_paren [] = None"
| "split_at_paren (c # cs) =
     (if c = CHR ''('' then Some ([], cs) else map_option (\<lambda>(a, b). (c # a, b)) (split_at_paren cs))"

definition ends_with_paren :: "string \<Rightarrow> bool" where
  "ends_with_paren s = (s \<noteq> [] \<and> last s = CHR '')'')"

definition parse_spec :: "string \<Rightarrow> string \<times> string option" where
  "parse_spec spec0 =
     (let spec = trim spec0 in
      if ends_with_paren spec then
        (case split_at_paren spec of
           Some (before, after) \<Rightarrow>
             let inner = trim (butlast after) in (trim before, if inner = [] then None else Some inner)
         | None \<Rightarrow> (spec, None))
      else (spec, None))"

definition base_rule :: "rule_effect \<Rightarrow> string \<Rightarrow> 're rule" where
  "base_rule kind tool = (case kind of RAllow \<Rightarrow> rule_allow tool | RAsk \<Rightarrow> rule_ask tool | RDeny \<Rightarrow> rule_deny tool)"

definition glob_pattern :: "string \<Rightarrow> string" where
  "glob_pattern g = ''(?s)'' @ [CHR 0x5E] @ glob_to_regex g @ ''$''"

definition quote_text :: "string \<Rightarrow> string" where
  "quote_text s = [CHR 0x27] @ s @ [CHR 0x27]"

definition compile_rule :: "(string \<Rightarrow> string + 're) \<Rightarrow> rule_effect \<Rightarrow> string \<Rightarrow> aikit_error + 're rule" where
  "compile_rule regex_new kind spec =
     (let trimmed = trim spec in
      if (CHR ''('' \<in> set trimmed \<and> \<not> ends_with_paren trimmed)
         \<or> (CHR '')'' \<in> set trimmed \<and> CHR ''('' \<notin> set trimmed)
      then Inl (OtherError (''malformed policy rule: '' @ quote_text spec))
      else case parse_spec spec of
        (tool, glob) \<Rightarrow>
          if tool = [] then Inl (OtherError (''policy rule has no tool name: '' @ quote_text spec))
          else case glob of
            Some g \<Rightarrow> map_err (\<lambda>e. OtherError (''bad glob '' @ quote_text g @ '': '' @ e))
                        (rule_matching regex_new (glob_pattern g) (base_rule kind tool))
          | None \<Rightarrow> Inr (base_rule kind tool))"

fun compile_all :: "(string \<Rightarrow> string + 're) \<Rightarrow> rule_effect \<Rightarrow> string list \<Rightarrow> aikit_error + 're rule list" where
  "compile_all regex_new kind [] = Inr []"
| "compile_all regex_new kind (s # ss) =
     bindR (compile_rule regex_new kind s) (\<lambda>r. bindR (compile_all regex_new kind ss) (\<lambda>rs. Inr (r # rs)))"

definition policy_build :: "(string \<Rightarrow> string + 're) \<Rightarrow> policy_spec \<Rightarrow> aikit_error + 're permission_engine" where
  "policy_build regex_new p =
     bindR (compile_all regex_new RDeny (ps_deny p)) (\<lambda>deny.
     bindR (compile_all regex_new RAsk (ps_ask p)) (\<lambda>ask.
     bindR (compile_all regex_new RAllow (ps_allow p)) (\<lambda>allow.
       Inr \<lparr>pe_mode = permission_mode_of (ps_mode p), pe_rules = deny @ ask @ allow\<rparr>)))"

text \<open>\<open>PolicySpec::from\_json\<close>, with the decoder a parameter.\<close>

definition policy_from_json :: "(string \<Rightarrow> string + policy_spec) \<Rightarrow> string \<Rightarrow> aikit_error + policy_spec" where
  "policy_from_json decode s = map_err (\<lambda>e. OtherError (''invalid policy JSON: '' @ e)) (decode s)"

subsection \<open>Risk and approval\<close>

datatype risk_level = RiskLow | RiskMedium | RiskHigh

instantiation risk_level :: linorder
begin

definition risk_rank :: "risk_level \<Rightarrow> nat" where
  "risk_rank r = (case r of RiskLow \<Rightarrow> 0 | RiskMedium \<Rightarrow> 1 | RiskHigh \<Rightarrow> 2)"

definition less_eq_risk_level :: "risk_level \<Rightarrow> risk_level \<Rightarrow> bool" where
  "less_eq_risk_level a b = (risk_rank a \<le> risk_rank b)"

definition less_risk_level :: "risk_level \<Rightarrow> risk_level \<Rightarrow> bool" where
  "less_risk_level a b = (risk_rank a < risk_rank b)"

instance
  by standard (auto simp: less_eq_risk_level_def less_risk_level_def risk_rank_def split: risk_level.splits)

end

record risk_scorer =
  sc_read_only_tools :: "string list"
  sc_write_tools :: "string list"
  sc_dangerous_command :: "string \<Rightarrow> bool"
  sc_sensitive_path :: "string \<Rightarrow> bool"

text \<open>The default scorer; the matching of its two regular expressions is the parameter.\<close>

definition scorer_default :: "(string \<Rightarrow> bool) \<Rightarrow> (string \<Rightarrow> bool) \<Rightarrow> risk_scorer" where
  "scorer_default dangerous sensitive = \<lparr>
     sc_read_only_tools = [''Read'', ''Grep'', ''Glob'', ''LS'', ''List'', ''WebSearch''],
     sc_write_tools = [''Write'', ''Edit'', ''Delete'', ''Remove'', ''Move''],
     sc_dangerous_command = dangerous, sc_sensitive_path = sensitive\<rparr>"

definition risk_score :: "risk_scorer \<Rightarrow> string \<Rightarrow> json \<Rightarrow> risk_level" where
  "risk_score s tool input =
     (let strings = collect_strings input;
          dangerous = list_ex (sc_dangerous_command s) strings;
          sensitive = list_ex (sc_sensitive_path s) strings
      in if tool \<in> set (sc_read_only_tools s) then (if sensitive then RiskMedium else RiskLow)
         else if tool = ''Bash'' then (if dangerous then RiskHigh else RiskMedium)
         else if tool \<in> set (sc_write_tools s) then (if sensitive then RiskHigh else RiskMedium)
         else if dangerous \<or> sensitive then RiskHigh else RiskMedium)"

record tool_approval_request =
  aq_run_id :: string
  aq_turn :: nat
  aq_tool_use_id :: string
  aq_tool :: string
  aq_input :: json

datatype permission_update = AllowExactInput | AllowTool

datatype approval_decision =
    ApproveAllow "json option" "permission_update list"
  | ApproveDeny string bool

definition decision_allow :: "json option \<Rightarrow> approval_decision" where
  "decision_allow updated_input = ApproveAllow updated_input []"

definition decision_deny :: "string \<Rightarrow> approval_decision" where
  "decision_deny message = ApproveDeny message False"

record smart_approver =
  sa_score :: "string \<Rightarrow> json \<Rightarrow> risk_level"
  sa_human :: "tool_approval_request \<Rightarrow> approval_decision"
  sa_auto_approve_at_or_below :: risk_level

definition smart_heuristic ::
  "(string \<Rightarrow> bool) \<Rightarrow> (string \<Rightarrow> bool) \<Rightarrow> (tool_approval_request \<Rightarrow> approval_decision) \<Rightarrow> smart_approver"
where
  "smart_heuristic dangerous sensitive human = \<lparr>sa_score = risk_score (scorer_default dangerous sensitive),
     sa_human = human, sa_auto_approve_at_or_below = RiskLow\<rparr>"

definition smart_approve :: "smart_approver \<Rightarrow> tool_approval_request \<Rightarrow> approval_decision" where
  "smart_approve a r =
     (if sa_score a (aq_tool r) (aq_input r) \<le> sa_auto_approve_at_or_below a then decision_allow None
      else sa_human a r)"

subsection \<open>Plans\<close>

record plan_step =
  st_description :: string
  st_tool :: "string option"

record plan =
  pl_goal :: string
  pl_steps :: "plan_step list"

definition plan_new :: "string \<Rightarrow> plan" where
  "plan_new goal = \<lparr>pl_goal = goal, pl_steps = []\<rparr>"

definition plan_add_step :: "string \<Rightarrow> plan \<Rightarrow> plan" where
  "plan_add_step description p = p\<lparr>pl_steps := pl_steps p @ [\<lparr>st_description = description, st_tool = None\<rparr>]\<rparr>"

definition plan_add_tool_step :: "string \<Rightarrow> string \<Rightarrow> plan \<Rightarrow> plan" where
  "plan_add_tool_step description tool p =
     p\<lparr>pl_steps := pl_steps p @ [\<lparr>st_description = description, st_tool = Some tool\<rparr>]\<rparr>"

definition plan_tools :: "plan \<Rightarrow> string list" where
  "plan_tools p = fold (\<lambda>step seen. case st_tool step of
       Some t \<Rightarrow> if t \<in> set seen then seen else seen @ [t]
     | None \<Rightarrow> seen) (pl_steps p) []"

datatype plan_review = PlanApprove | PlanApproveRevised plan | PlanReject string

datatype plan_outcome = PlanApproved plan | PlanRejected string

definition review_plan :: "plan \<Rightarrow> (plan \<Rightarrow> plan_review) \<Rightarrow> plan_outcome" where
  "review_plan p reviewer =
     (case reviewer p of
        PlanApprove \<Rightarrow> PlanApproved p
      | PlanApproveRevised revised \<Rightarrow> PlanApproved revised
      | PlanReject reason \<Rightarrow> PlanRejected reason)"

subsection \<open>What a glob means\<close>

datatype glob_item = Lit char | AnyChar | AnyRun

definition glob_items :: "string \<Rightarrow> glob_item list" where
  "glob_items g = map (\<lambda>c. if c = CHR ''*'' then AnyRun else if c = CHR ''?'' then AnyChar else Lit c) g"

text \<open>The length in bytes of the first character of a UTF-8 string.\<close>

definition char_len :: "string \<Rightarrow> nat" where
  "char_len s = (case s of [] \<Rightarrow> 1 | c # _ \<Rightarrow>
     if byte_of c < 128 then 1 else if byte_of c < 224 then 2 else if byte_of c < 240 then 3 else 4)"

lemma char_len_pos: "0 < char_len s"
  by (simp add: char_len_def split: list.splits)

function items_match :: "glob_item list \<Rightarrow> string \<Rightarrow> bool" where
  "items_match [] s = (s = [])"
| "items_match (Lit c # is) s = (case s of [] \<Rightarrow> False | d # t \<Rightarrow> c = d \<and> items_match is t)"
| "items_match (AnyChar # is) s = (s \<noteq> [] \<and> items_match is (drop (char_len s) s))"
| "items_match (AnyRun # is) s = (if s = [] then items_match is s
     else items_match is s \<or> items_match (AnyRun # is) (drop (char_len s) s))"
  by pat_completeness auto
termination
  by (relation "measure (\<lambda>(is, s). length is + length s)")
    (use char_len_pos in \<open>auto simp: diff_less\<close>)

text \<open>The patterns of the regular expressions that the translation produces: a dot, a starred dot, an
  escaped metacharacter, or a plain character.\<close>

fun regex_items :: "string \<Rightarrow> glob_item list option" where
  "regex_items [] = Some []"
| "regex_items (c # cs) =
     (if c = CHR ''.'' then
        (case cs of
           [] \<Rightarrow> Some [AnyChar]
         | d # ds \<Rightarrow> if d = CHR ''*'' then map_option (Cons AnyRun) (regex_items ds)
                   else map_option (Cons AnyChar) (regex_items cs))
      else if c = CHR 0x5C then
        (case cs of [] \<Rightarrow> None | d # ds \<Rightarrow> if is_meta d then map_option (Cons (Lit d)) (regex_items ds) else None)
      else if is_meta c \<or> c = CHR ''*'' \<or> c = CHR ''?'' then None
      else map_option (Cons (Lit c)) (regex_items cs))"

text \<open>What is assumed of the regular expressions: when an anchored pattern of this fragment compiles, the
  expression matches the strings that its items match, the dot standing for any character. That a pattern
  compiles is not assumed (the engine limits the size of a compiled expression).\<close>

definition regex_meaning :: "(string \<Rightarrow> string + 're) \<Rightarrow> ('re \<Rightarrow> string \<Rightarrow> bool) \<Rightarrow> bool" where
  "regex_meaning regex_new is_match \<longleftrightarrow>
     (\<forall>body items re. regex_items body = Some items \<longrightarrow>
        regex_new (''(?s)'' @ [CHR 0x5E] @ body @ ''$'') = Inr re \<longrightarrow> (\<forall>s. is_match re s = items_match items s))"

text \<open>The translation escapes what it must: read back as a regular expression, the translated glob has
  exactly the items of the glob.\<close>

lemma regex_of_glob: "regex_items (glob_to_regex g) = Some (glob_items g)"
proof (induction g)
  case (Cons c g)
  have star: "glob_to_regex g = d # ds \<Longrightarrow> d \<noteq> CHR ''*''" for d ds
    by (cases g) (auto split: if_splits)
  show ?case
  proof (cases "glob_to_regex g")
    case Nil
    then have "g = []" by (cases g) (auto split: if_splits)
    then show ?thesis by (auto simp: glob_items_def is_meta_def)
  next
    case (Cons d ds)
    with star Cons.IH show ?thesis by (auto simp: glob_items_def is_meta_def)
  qed
qed (simp add: glob_items_def)

lemma glob_rule:
  assumes "regex_meaning regex_new is_match" and "regex_new (glob_pattern g) = Inr re"
  shows "is_match re s = items_match (glob_items g) s"
  using assms regex_of_glob [of g] unfolding regex_meaning_def glob_pattern_def by blast

lemma base_rule_sel [simp]:
  "ru_effect (base_rule k t) = k" "ru_tool (base_rule k t) = t" "ru_pattern (base_rule k t) = None"
  "ru_field (base_rule k t) = None"
  by (cases k; simp add: base_rule_def rule_allow_def rule_ask_def rule_deny_def)+

text \<open>The meaning of one specification.\<close>

definition spec_matches :: "string \<Rightarrow> string \<Rightarrow> json \<Rightarrow> bool" where
  "spec_matches spec tool input =
     (case parse_spec spec of (t, glob) \<Rightarrow>
        (t = ''*'' \<or> t = tool)
        \<and> (case glob of None \<Rightarrow> True | Some g \<Rightarrow> list_ex (items_match (glob_items g)) (collect_strings input)))"

lemma compile_rule_matches:
  assumes "regex_meaning regex_new is_match" "compile_rule regex_new k spec = Inr r"
  shows "ru_effect r = k \<and> (rule_matches is_match r tool input \<longleftrightarrow> spec_matches spec tool input)"
proof -
  obtain t glob where p: "parse_spec spec = (t, glob)" by force
  show ?thesis
  proof (cases glob)
    case None
    with assms(2) p have "r = base_rule k t" by (auto simp: compile_rule_def Let_def split: if_splits)
    with None p show ?thesis by (auto simp: rule_matches_def spec_matches_def)
  next
    case (Some g)
    from assms(2) p Some obtain re where re: "regex_new (glob_pattern g) = Inr re"
        "r = (base_rule k t)\<lparr>ru_pattern := Some re\<rparr>"
      by (auto simp: compile_rule_def rule_matching_def Let_def result_simps split: if_splits)
    with Some p glob_rule [OF assms(1) re(1)] show ?thesis by (auto simp: rule_matches_def spec_matches_def list_ex_iff)
  qed
qed

lemma compile_all_iff:
  "compile_all regex_new k ss = Inr rs \<longleftrightarrow> list_all2 (\<lambda>s r. compile_rule regex_new k s = Inr r) ss rs"
  by (induction ss arbitrary: rs) (auto simp: result_simps list_all2_Cons1)

lemma compile_all_matching:
  assumes "regex_meaning regex_new is_match" "compile_all regex_new k ss = Inr rs"
  shows "(\<exists>r \<in> set rs. rule_matches is_match r tool input) \<longleftrightarrow> (\<exists>s \<in> set ss. spec_matches s tool input)"
    and "\<forall>r \<in> set rs. ru_effect r = k"
  using assms(2) compile_rule_matches [OF assms(1)] unfolding compile_all_iff
  by (induction rule: list_all2_induct) auto

subsection \<open>Properties\<close>

text \<open>C30: a declarative policy that is accepted, all its globs compiled, means what it says: a call is denied exactly when a deny specification
  matches it, or when no specification matches it and the mode is deny; a deny specification wins over any
  allow or ask specification. A specification with a glob matches when some string of the input, at any
  depth, is matched by the glob as a whole, with every other metacharacter taken literally.\<close>

theorem policy_denies_exactly:
  assumes "regex_meaning regex_new is_match" and "policy_build regex_new p = Inr e"
  shows "(\<exists>reason. engine_evaluate is_match e tool input = ODeny reason) \<longleftrightarrow>
     (\<exists>s \<in> set (ps_deny p). spec_matches s tool input)
     \<or> (ps_mode p = PmDeny \<and> \<not> (\<exists>s \<in> set (ps_deny p) \<union> set (ps_ask p) \<union> set (ps_allow p). spec_matches s tool input))"
proof -
  from assms(2) obtain d a l where c: "compile_all regex_new RDeny (ps_deny p) = Inr d"
      "compile_all regex_new RAsk (ps_ask p) = Inr a" "compile_all regex_new RAllow (ps_allow p) = Inr l"
      "pe_rules e = d @ a @ l" "pe_mode e = permission_mode_of (ps_mode p)"
    by (auto simp: policy_build_def result_simps)
  note m = compile_all_matching [OF assms(1) c(1)] compile_all_matching [OF assms(1) c(2)]
    compile_all_matching [OF assms(1) c(3)]
  have "(\<exists>r \<in> set (pe_rules e). rule_matches is_match r tool input \<and> ru_effect r = RDeny) \<longleftrightarrow>
      (\<exists>s \<in> set (ps_deny p). spec_matches s tool input)"
    using m unfolding c(4) by (metis Un_iff rule_effect.distinct(1) rule_effect.distinct(5) set_append)
  moreover have "(\<exists>r \<in> set (pe_rules e). rule_matches is_match r tool input) \<longleftrightarrow>
      (\<exists>s \<in> set (ps_deny p) \<union> set (ps_ask p) \<union> set (ps_allow p). spec_matches s tool input)"
    using m unfolding c(4) by (simp add: bex_Un)
  moreover have "pe_mode e = ModeDeny \<longleftrightarrow> ps_mode p = PmDeny" unfolding c(5) by (cases "ps_mode p") simp_all
  ultimately show ?thesis by (simp add: denied_iff)
qed

text \<open>An engine for the fragment, with a limit on the size of a pattern, which shows that the assumption
  can be met.\<close>

definition demo_regex_new :: "string \<Rightarrow> string + string" where
  "demo_regex_new pattern = (if length pattern > 1000 then Inl ''too large'' else Inr pattern)"

definition demo_is_match :: "string \<Rightarrow> string \<Rightarrow> bool" where
  "demo_is_match re s = (case regex_items (butlast (drop 5 re)) of None \<Rightarrow> False | Some items \<Rightarrow> items_match items s)"

lemma demo_regex_meaning: "regex_meaning demo_regex_new demo_is_match"
  by (auto simp: regex_meaning_def demo_regex_new_def demo_is_match_def)

definition demo_policy :: policy_spec where
  "demo_policy = \<lparr>ps_mode = PmAllow, ps_allow = [''Bash''], ps_ask = [], ps_deny = [''Bash(rm *)'']\<rparr>"

theorem policy_denies_exactly_witness:
  "\<exists>e reason. policy_build demo_regex_new demo_policy = Inr e
     \<and> engine_evaluate demo_is_match e ''Bash'' (JObject [(''cmd'', JString ''rm -rf /'')]) = ODeny reason"
proof -
  have t: "trim ''Bash(rm *)'' = ''Bash(rm *)''" "trim ''Bash'' = ''Bash''" "trim ''rm *'' = ''rm *''"
    by (simp_all add: trim_def trim_start.simps is_blank_def)
  have p: "parse_spec ''Bash(rm *)'' = (''Bash'', Some ''rm *'')" "parse_spec ''Bash'' = (''Bash'', None)"
    by (simp_all add: parse_spec_def t ends_with_paren_def Let_def)
  have "length (glob_pattern ''rm *'') \<le> 1000" by (simp add: glob_pattern_def is_meta_def)
  then obtain e where e: "policy_build demo_regex_new demo_policy = Inr e"
    by (simp add: policy_build_def demo_policy_def compile_rule_def t p ends_with_paren_def rule_matching_def
        demo_regex_new_def Let_def)
  have "spec_matches ''Bash(rm *)'' ''Bash'' (JObject [(''cmd'', JString ''rm -rf /'')])"
    by (simp add: spec_matches_def p glob_items_def char_len_def)
  then have "\<exists>reason. engine_evaluate demo_is_match e ''Bash'' (JObject [(''cmd'', JString ''rm -rf /'')]) = ODeny reason"
    using policy_denies_exactly [OF demo_regex_meaning e] by (simp add: demo_policy_def)
  with e show ?thesis by blast
qed

text \<open>What the default smart approver lets through without asking a person is a call of one of six
  read-only tools none of whose arguments mentions a sensitive path; every other decision is the
  person's.\<close>

theorem auto_approved_is_read_only:
  assumes "human r \<noteq> smart_approve (smart_heuristic dangerous sensitive human) r"
  shows "aq_tool r \<in> {''Read'', ''Grep'', ''Glob'', ''LS'', ''List'', ''WebSearch''}
    \<and> (\<forall>s. leaf s (aq_input r) \<longrightarrow> \<not> sensitive s)
    \<and> smart_approve (smart_heuristic dangerous sensitive human) r = ApproveAllow None []"
  using assms
  by (auto simp: smart_approve_def smart_heuristic_def risk_score_def scorer_default_def less_eq_risk_level_def
      risk_rank_def decision_allow_def Let_def list_ex_iff collect_strings_leaf split: if_splits)

theorem auto_approved_is_read_only_witness:
  "smart_approve (smart_heuristic (\<lambda>_. False) (\<lambda>s. s = ''.env'') (\<lambda>_. decision_deny ''no''))
     \<lparr>aq_run_id = ''r'', aq_turn = 1, aq_tool_use_id = ''t'', aq_tool = ''Read'', aq_input = JString ''x''\<rparr>
   = ApproveAllow None []"
proof -
  let ?r = "\<lparr>aq_run_id = ''r'', aq_turn = 1, aq_tool_use_id = ''t'', aq_tool = ''Read'', aq_input = JString ''x''\<rparr>"
  have "(\<lambda>_. decision_deny ''no'') ?r \<noteq>
      smart_approve (smart_heuristic (\<lambda>_. False) (\<lambda>s. s = ''.env'') (\<lambda>_. decision_deny ''no'')) ?r"
    by (simp add: smart_approve_def smart_heuristic_def risk_score_def scorer_default_def less_eq_risk_level_def
        risk_rank_def decision_allow_def decision_deny_def Let_def)
  from auto_approved_is_read_only [OF this] show ?thesis by blast
qed

text \<open>The tools of a plan, each once.\<close>

lemma plan_tools_fold:
  "distinct seen \<Longrightarrow> distinct (fold (\<lambda>step seen. case st_tool step of
       Some t \<Rightarrow> if t \<in> set seen then seen else seen @ [t] | None \<Rightarrow> seen) steps seen)
   \<and> set (fold (\<lambda>step seen. case st_tool step of
       Some t \<Rightarrow> if t \<in> set seen then seen else seen @ [t] | None \<Rightarrow> seen) steps seen)
     = set seen \<union> {t. \<exists>s \<in> set steps. st_tool s = Some t}"
  by (induction steps arbitrary: seen) (auto split: option.splits)

lemma plan_tools_once: "distinct (plan_tools p) \<and> set (plan_tools p) = {t. \<exists>s \<in> set (pl_steps p). st_tool s = Some t}"
  unfolding plan_tools_def using plan_tools_fold [of "[]" "pl_steps p"] by simp

end
