(* ===== verification/Authorize.thy ===== *)
theory Authorize
  imports Hooks Policy DurOps
begin

text \<open>
  The authorization of a tool call, the core of \<open>governance/mod.rs\<close>: enforcing hooks, permission rules
  and the sealed policy, reusable approvals, the approver, the recheck of what the approver changed, and
  the registry of durable bindings. A \<open>Governance\<close> value shares its approval cache, its registry and its
  run state with its clones, so these live in a heap and the value holds their addresses; a poisoned lock
  is a cell without content. While a hook or the approver is awaited other tasks may change the heap:
  \<open>aw\<close> gives what they did, and is arbitrary. The constructors that install a durable approver
  are in theory \<open>Approver\<close>.
\<close>

subsection \<open>State\<close>

datatype authorization = Allowed json | Denied string bool

definition auth_denied :: "string \<Rightarrow> authorization" where
  "auth_denied message = Denied message False"

definition auth_interrupted :: "string \<Rightarrow> authorization" where
  "auth_interrupted message = Denied message True"

definition auth_interrupt :: "authorization \<Rightarrow> bool" where
  "auth_interrupt a = (case a of Denied _ i \<Rightarrow> i | _ \<Rightarrow> False)"

record authorization_context =
  ac_run_id :: string
  ac_turn :: nat
  ac_tool_use_id :: string
  ac_tool :: string
  ac_input :: json

record authorization_report =
  rp_authorization :: authorization
  rp_interrupt :: bool
  rp_pre_hook_outcome :: string
  rp_permission_outcome :: string
  rp_permission_source :: string

record approved_permission =
  gr_run_id :: string
  gr_tool :: string
  gr_scope :: permission_update
  gr_input :: "json option"
  gr_source :: string

definition grant_matches :: "string \<Rightarrow> string \<Rightarrow> json \<Rightarrow> approved_permission \<Rightarrow> bool" where
  "grant_matches run_id tool input g =
     (gr_run_id g = run_id \<and> gr_tool g = tool
      \<and> (case gr_scope g of AllowTool \<Rightarrow> True | AllowExactInput \<Rightarrow> gr_input g = Some input))"

definition matching_source :: "string \<Rightarrow> string \<Rightarrow> json \<Rightarrow> approved_permission list \<Rightarrow> string option" where
  "matching_source run_id tool input grants =
     map_option gr_source (List.find (grant_matches run_id tool input) (rev grants))"

definition grant_insert :: "approved_permission \<Rightarrow> approved_permission list \<Rightarrow> approved_permission list" where
  "grant_insert g grants =
     (if list_ex (\<lambda>x. gr_run_id x = gr_run_id g \<and> gr_tool x = gr_tool g \<and> gr_scope x = gr_scope g
           \<and> gr_input x = gr_input g) grants
      then grants else grants @ [g])"

text \<open>The cells that a durable approver shares, by their addresses.\<close>

record approver_authority =
  da_run :: nat
  da_store_cell :: "nat option"
  da_poison_cell :: "nat option"
  da_lease :: "lease_authority option"

record 're governance =
  gv_permissions :: "'re permission_engine"
  gv_hooks :: hook_dispatcher
  gv_approver :: "(tool_approval_request \<Rightarrow> approval_decision) option"
  gv_approved_permissions :: nat
  gv_policy_snapshot :: "policy_snapshot option"
  gv_tenant_id :: "string option"
  gv_agent_id :: "string option"
  gv_durable_binding :: "governance_binding option"
  gv_durable_run :: "nat option"
  gv_durable_store :: "nat option"
  gv_durable_approver_authority :: "approver_authority option"
  gv_durable_bindings :: nat
  gv_binding_violation :: "string option"

record gov_heap =
  gh_grants :: "nat \<Rightarrow> approved_permission list option"
  gh_bindings :: "nat \<Rightarrow> governance_binding btree option"
  gh_runs :: "nat \<Rightarrow> run_state option"
  gh_next :: nat

definition governance_new :: "'re permission_engine \<Rightarrow> hook_dispatcher \<Rightarrow> gov_heap \<Rightarrow> 're governance \<times> gov_heap" where
  "governance_new permissions hooks h =
     (\<lparr>gv_permissions = permissions, gv_hooks = hooks, gv_approver = None, gv_approved_permissions = gh_next h,
       gv_policy_snapshot = None, gv_tenant_id = None, gv_agent_id = None, gv_durable_binding = None,
       gv_durable_run = None, gv_durable_store = None, gv_durable_approver_authority = None,
       gv_durable_bindings = gh_next h, gv_binding_violation = None\<rparr>,
      h\<lparr>gh_grants := (gh_grants h)(gh_next h := Some []), gh_bindings := (gh_bindings h)(gh_next h := Some []),
        gh_next := gh_next h + 1\<rparr>)"

definition with_approver :: "(tool_approval_request \<Rightarrow> approval_decision) \<Rightarrow> 're governance \<Rightarrow> 're governance" where
  "with_approver approver g =
     (if gv_durable_binding g \<noteq> None
      then g\<lparr>gv_binding_violation := Some ''durable approver cannot be replaced after governance binding''\<rparr> else g)
     \<lparr>gv_approver := Some approver, gv_durable_approver_authority := None\<rparr>"

definition with_policy_snapshot :: "policy_snapshot \<Rightarrow> 're governance \<Rightarrow> 're governance" where
  "with_policy_snapshot snapshot g =
     (if (case gv_durable_binding g of None \<Rightarrow> False | Some b \<Rightarrow> gb_policy_snapshot_hash b \<noteq> ps_hash snapshot)
      then g\<lparr>gv_binding_violation := Some ''policy snapshot changed after durable governance binding''\<rparr>
      else g\<lparr>gv_policy_snapshot := Some snapshot\<rparr>)"

definition with_policy_identity :: "string option \<Rightarrow> string option \<Rightarrow> 're governance \<Rightarrow> 're governance" where
  "with_policy_identity tenant agent g =
     (if (case gv_durable_binding g of None \<Rightarrow> False | Some b \<Rightarrow> gb_tenant_id b \<noteq> tenant \<or> gb_agent_id b \<noteq> agent)
      then g\<lparr>gv_binding_violation := Some ''policy identity changed after durable governance binding''\<rparr>
      else g\<lparr>gv_tenant_id := tenant, gv_agent_id := agent\<rparr>)"

definition fork_for_run :: "'re governance \<Rightarrow> gov_heap \<Rightarrow> 're governance \<times> gov_heap" where
  "fork_for_run g h =
     (g\<lparr>gv_approved_permissions := gh_next h\<rparr>,
      h\<lparr>gh_grants := (gh_grants h)(gh_next h := Some []), gh_next := gh_next h + 1\<rparr>)"

subsection \<open>Durable bindings\<close>

datatype durable_approver_error =
    MissingPolicySnapshot
  | MissingGovernanceBinding
  | BindingMismatch string
  | StateUnavailable
  | ApproverRunTerminal string
  | RunNotTerminal string run_status
  | BindingRegistryFull nat
  | PolicyMismatch "string option" string
  | InvalidTimeout
  | ApproverStore string

definition MAX_REGISTERED_DURABLE_BINDINGS :: nat where
  "MAX_REGISTERED_DURABLE_BINDINGS = 4096"

definition register_durable_binding ::
  "'re governance \<Rightarrow> governance_binding \<Rightarrow> (gov_heap, durable_approver_error, unit) smeth"
where
  "register_durable_binding g binding h =
     (case gh_bindings h (gv_durable_bindings g) of
        None \<Rightarrow> (Inl StateUnavailable, h)
      | Some bindings \<Rightarrow>
          (case bt_get bindings (gb_run_id binding) of
             Some existing \<Rightarrow>
               if existing \<noteq> binding
               then (Inl (BindingMismatch (''run `'' @ gb_run_id binding @ ''` is already bound to '' @ gb_binding_hash existing)), h)
               else (Inr (), h)
           | None \<Rightarrow>
               if length bindings \<ge> MAX_REGISTERED_DURABLE_BINDINGS
               then (Inl (BindingRegistryFull MAX_REGISTERED_DURABLE_BINDINGS), h)
               else (Inr (), h\<lparr>gh_bindings := (gh_bindings h)(gv_durable_bindings g :=
                       Some (bt_insert (gb_run_id binding) binding bindings))\<rparr>)))"

definition validate_run_binding ::
  "'z contract_env_scheme \<Rightarrow> 're governance \<Rightarrow> nat \<Rightarrow> gov_heap \<Rightarrow> durable_approver_error + governance_binding"
where
  "validate_run_binding env g run h =
     bindR (ok_or (gv_policy_snapshot g) MissingPolicySnapshot) (\<lambda>snapshot.
     bindR (ok_or (gh_runs h run) StateUnavailable) (\<lambda>st.
       if is_terminal (st_status st) then Inl (ApproverRunTerminal (rs_run_id st))
       else bindR (ok_or (rs_governance_binding st) MissingGovernanceBinding) (\<lambda>actual.
            bindR (map_err (\<lambda>e. BindingMismatch (contract_error_text e))
                    (binding_seal env (ps_hash snapshot) (gv_tenant_id g) (gv_agent_id g) (rs_run_id st))) (\<lambda>expected.
              if actual \<noteq> expected
              then Inl (BindingMismatch (''expected '' @ gb_binding_hash expected @ '', found '' @ gb_binding_hash actual))
              else Inr actual))))"

definition ensure_run_authority :: "'re governance \<Rightarrow> nat \<Rightarrow> durable_approver_error + unit" where
  "ensure_run_authority g run =
     (if (case gv_durable_run g of None \<Rightarrow> False | Some existing \<Rightarrow> existing \<noteq> run)
      then Inl (BindingMismatch ''governance is already attached to a different durable state authority'')
      else Inr ())"

text \<open>The governance value is consumed, so an error returns none.\<close>

definition with_durable_run ::
  "'z contract_env_scheme \<Rightarrow> nat \<Rightarrow> 're governance \<Rightarrow> (gov_heap, durable_approver_error, 're governance) smeth"
where
  "with_durable_run env run g =
     bindS (checkS (\<lambda>_. ensure_run_authority g run)) (\<lambda>_.
     bindS (checkS (validate_run_binding env g run)) (\<lambda>binding.
     bindS (register_durable_binding g binding) (\<lambda>_.
       returnS (g\<lparr>gv_durable_binding := Some binding, gv_durable_run := Some run\<rparr>))))"

definition retire_durable_run ::
  "'z contract_env_scheme \<Rightarrow> 're governance \<Rightarrow> run_state \<Rightarrow> (gov_heap, durable_approver_error, unit) smeth"
where
  "retire_durable_run env g st h =
     (if \<not> is_terminal (st_status st) then (Inl (RunNotTerminal (rs_run_id st) (st_status st)), h)
      else case rs_governance_binding st of
        None \<Rightarrow> (Inl MissingGovernanceBinding, h)
      | Some binding \<Rightarrow>
          (case binding_validate env binding of
             Inl e \<Rightarrow> (Inl (BindingMismatch (contract_error_text e)), h)
           | Inr _ \<Rightarrow>
               (case (gh_bindings h (gv_durable_bindings g), gh_grants h (gv_approved_permissions g)) of
                  (Some bindings, Some grants) \<Rightarrow>
                    (case bt_get bindings (rs_run_id st) of
                       Some registered \<Rightarrow>
                         if registered \<noteq> binding
                         then (Inl (BindingMismatch (''terminal run `'' @ rs_run_id st
                                 @ ''` does not match registered binding '' @ gb_binding_hash registered)), h)
                         else (Inr (), h\<lparr>gh_bindings := (gh_bindings h)(gv_durable_bindings g :=
                                   Some (bt_retain (\<lambda>k _. k \<noteq> rs_run_id st) bindings)),
                                 gh_grants := (gh_grants h)(gv_approved_permissions g :=
                                   Some (filter (\<lambda>x. gr_run_id x \<noteq> rs_run_id st) grants))\<rparr>)
                     | None \<Rightarrow>
                         (Inr (), h\<lparr>gh_grants := (gh_grants h)(gv_approved_permissions g :=
                                   Some (filter (\<lambda>x. gr_run_id x \<noteq> rs_run_id st) grants))\<rparr>))
                | _ \<Rightarrow> (Inl StateUnavailable, h))))"

definition clear_run_permissions :: "'re governance \<Rightarrow> string \<Rightarrow> (gov_heap, aikit_error, unit) smeth" where
  "clear_run_permissions g run_id h =
     (case gh_grants h (gv_approved_permissions g) of
        None \<Rightarrow> (Inl (ConflictError ''approved permission state is unavailable during run cleanup''), h)
      | Some grants \<Rightarrow>
          (Inr (), h\<lparr>gh_grants := (gh_grants h)(gv_approved_permissions g :=
             Some (filter (\<lambda>x. gr_run_id x \<noteq> run_id) grants))\<rparr>))"

definition start_durable_run ::
  "durable_env \<Rightarrow> 're governance \<Rightarrow> string \<Rightarrow> string \<Rightarrow> durability_mode \<Rightarrow> (gov_heap, durability_error, run_state) smeth"
where
  "start_durable_run env g session_id run_id durability h =
     (case gv_policy_snapshot g of
        None \<Rightarrow> (Inl InvalidEvent, h)
      | Some snapshot \<Rightarrow>
          if gv_binding_violation g \<noteq> None then (Inl InvalidEvent, h)
          else if (case gv_durable_binding g of None \<Rightarrow> False | Some b \<Rightarrow> gb_run_id b \<noteq> run_id)
          then (Inl InvalidEvent, h)
          else case binding_seal env (ps_hash snapshot) (gv_tenant_id g) (gv_agent_id g) run_id of
            Inl e \<Rightarrow> (Inl InvalidEvent, h)
          | Inr binding \<Rightarrow>
              (case new_with_governance_binding env session_id run_id durability binding of
                 Inl e \<Rightarrow> (Inl e, h)
               | Inr st \<Rightarrow>
                   (case rs_governance_binding st of
                      None \<Rightarrow> (Inl Panicked, h)
                    | Some b \<Rightarrow>
                        (case register_durable_binding g b h of
                           (Inl e, h') \<Rightarrow> (Inl InvalidEvent, h')
                         | (Inr _, h') \<Rightarrow> (Inr st, h')))))"

definition validate_authorization_binding ::
  "'z contract_env_scheme \<Rightarrow> 're governance \<Rightarrow> string \<Rightarrow> gov_heap \<Rightarrow> string + unit"
where
  "validate_authorization_binding env g run_id h =
     (case gv_binding_violation g of
        Some reason \<Rightarrow> Inl reason
      | None \<Rightarrow>
          bindR (ok_or (gh_bindings h (gv_durable_bindings g)) ''durable governance binding registry is unavailable'')
            (\<lambda>registry.
          bindR (case (gv_durable_binding g, bt_get registry run_id) of
                   (Some attached, Some registered) \<Rightarrow>
                     if attached \<noteq> registered then Inl ''attached and registered durable bindings disagree''
                     else Inr (Some attached)
                 | (Some _, None) \<Rightarrow>
                     Inl ''attached durable governance binding is not registered or was retired''
                 | (None, Some registered) \<Rightarrow> Inr (Some registered)
                 | (None, None) \<Rightarrow> Inr None) (\<lambda>found.
            case found of
              None \<Rightarrow> Inr ()
            | Some binding \<Rightarrow>
                bindR (ok_or (gv_policy_snapshot g) ''durable governance policy snapshot is missing'') (\<lambda>snapshot.
                bindR (map_err (\<lambda>e. ''invalid durable governance identity: '' @ contract_error_text e)
                        (binding_seal env (ps_hash snapshot) (gv_tenant_id g) (gv_agent_id g) run_id)) (\<lambda>expected.
                  if expected \<noteq> binding
                  then Inl ''authorization context does not match durable governance binding''
                  else case gv_durable_run g of
                    None \<Rightarrow> Inr ()
                  | Some address \<Rightarrow>
                      bindR (ok_or (gh_runs h address) ''durable governance run state is unavailable'') (\<lambda>st.
                        if rs_governance_binding st \<noteq> Some binding \<or> rs_run_id st \<noteq> run_id
                        then Inl ''durable run governance binding changed after attachment'' else Inr ()))))))"

subsection \<open>Authorization\<close>

definition evaluate_permission ::
  "('re \<Rightarrow> string \<Rightarrow> bool) \<Rightarrow> 're governance \<Rightarrow> string \<Rightarrow> string \<Rightarrow> json \<Rightarrow> permission_decision"
where
  "evaluate_permission is_match g run_id tool input =
     (let legacy = evaluate_detailed is_match (gv_permissions g) tool input in
      case gv_policy_snapshot g of
        None \<Rightarrow> legacy
      | Some snapshot \<Rightarrow>
          let policy = snapshot_evaluate snapshot
                \<lparr>pc_tenant_id = gv_tenant_id g, pc_agent_id = gv_agent_id g, pc_run_id = Some run_id, pc_tool = tool\<rparr>;
              policy_source = (case sd_deciding_rule_id policy of Some i \<Rightarrow> i | None \<Rightarrow> ''policy.default'');
              joint = pd_source legacy @ ''+policy_snapshot:'' @ ps_hash snapshot @ '':'' @ policy_source
          in case (pd_outcome legacy, sd_effect policy) of
               (ODeny _, _) \<Rightarrow> legacy
             | (_, EffDeny) \<Rightarrow> \<lparr>pd_outcome = ODeny (''denied by sealed policy `'' @ policy_source @ ''`''),
                              pd_source = ''policy_snapshot:'' @ ps_hash snapshot @ '':'' @ policy_source\<rparr>
             | (OAllow, EffAllow) \<Rightarrow> \<lparr>pd_outcome = OAllow, pd_source = joint\<rparr>
             | _ \<Rightarrow> \<lparr>pd_outcome = OAsk, pd_source = joint\<rparr>)"

definition pre_context :: "authorization_context \<Rightarrow> json \<Rightarrow> pre_tool_context" where
  "pre_context ctx input = \<lparr>pr_run_id = ac_run_id ctx, pr_turn = ac_turn ctx, pr_tool_use_id = ac_tool_use_id ctx,
     pr_tool = ac_tool ctx, pr_input = input\<rparr>"

definition report ::
  "authorization \<Rightarrow> bool \<Rightarrow> string \<Rightarrow> string \<Rightarrow> string \<Rightarrow> authorization_report"
where
  "report a interrupt hook outcome source = \<lparr>rp_authorization = a, rp_interrupt = interrupt,
     rp_pre_hook_outcome = hook, rp_permission_outcome = outcome, rp_permission_source = source\<rparr>"

definition update_name :: "permission_update \<Rightarrow> string" where
  "update_name u = (case u of AllowExactInput \<Rightarrow> ''allow_exact_input'' | AllowTool \<Rightarrow> ''allow_tool'')"

definition new_grant :: "authorization_context \<Rightarrow> string \<Rightarrow> json \<Rightarrow> permission_update \<Rightarrow> approved_permission" where
  "new_grant ctx source input u = \<lparr>gr_run_id = ac_run_id ctx, gr_tool = ac_tool ctx, gr_scope = u,
     gr_input = (if u = AllowExactInput then Some input else None),
     gr_source = ''human_approval:'' @ source @ '':'' @ ac_tool_use_id ctx @ '':'' @ update_name u\<rparr>"

text \<open>After the approver allowed the call: recheck what it changed, then install its updates.\<close>

definition install_updates ::
  "'re governance \<Rightarrow> authorization_context \<Rightarrow> string \<Rightarrow> string \<Rightarrow> string \<Rightarrow> json \<Rightarrow> permission_update list
    \<Rightarrow> gov_heap \<Rightarrow> authorization_report \<times> gov_heap"
where
  "install_updates g ctx source pre_hook final_hook approved_input updates h =
     (let ok = report (Allowed approved_input) False final_hook ''ask_allowed''
          (if updates = [] then ''human_approval:'' @ source
           else ''human_approval:'' @ source @ '';updates='' @ comma_separated (map update_name updates))
      in if updates = [] then (ok, h)
         else case gh_grants h (gv_approved_permissions g) of
           None \<Rightarrow> (report (auth_interrupted ''approved permission state is unavailable'') True pre_hook
                     ''approval_state_error'' ''human_approval_state:poisoned'', h)
         | Some grants \<Rightarrow>
             (ok, h\<lparr>gh_grants := (gh_grants h)(gv_approved_permissions g :=
                Some (fold (\<lambda>u. grant_insert (new_grant ctx source approved_input u)) updates grants))\<rparr>))"

definition approval_recheck ::
  "('re \<Rightarrow> string \<Rightarrow> bool) \<Rightarrow> 're governance \<Rightarrow> authorization_context \<Rightarrow> string \<Rightarrow> string \<Rightarrow> string \<Rightarrow> json
    \<Rightarrow> permission_update list \<Rightarrow> gov_heap \<Rightarrow> authorization_report \<times> gov_heap"
where
  "approval_recheck is_match g ctx source pre_hook final_hook approved_input updates h =
     (let recheck = evaluate_permission is_match g (ac_run_id ctx) (ac_tool ctx) approved_input in
      case pd_outcome recheck of
        ODeny reason \<Rightarrow> (report (auth_denied reason) False pre_hook ''ask_allow_rejected''
                          (''static_recheck:'' @ pd_source recheck), h)
      | _ \<Rightarrow> install_updates g ctx source pre_hook final_hook approved_input updates h)"

definition after_approval ::
  "('re \<Rightarrow> string \<Rightarrow> bool) \<Rightarrow> (nat \<Rightarrow> gov_heap \<Rightarrow> gov_heap) \<Rightarrow> 're governance \<Rightarrow> authorization_context \<Rightarrow> string
    \<Rightarrow> string \<Rightarrow> json \<Rightarrow> approval_decision \<Rightarrow> gov_heap \<Rightarrow> authorization_report \<times> gov_heap"
where
  "after_approval is_match aw g ctx source pre_hook effective decision h =
     (case decision of
        ApproveDeny message interrupt \<Rightarrow>
          (report (Denied message interrupt) interrupt pre_hook
             (if interrupt then ''ask_denied_interrupt'' else ''ask_denied'') (''human_approval:'' @ source), h)
      | ApproveAllow None updates \<Rightarrow>
          approval_recheck is_match g ctx source pre_hook pre_hook effective updates h
      | ApproveAllow (Some updated) updates \<Rightarrow>
          (let h' = aw 2 h in
           case run_pre_tool_use 1 (gv_hooks g) (pre_context ctx updated) of
             HookBlock reason \<Rightarrow>
               (report (auth_denied (''approval-updated input blocked by hook: '' @ reason)) False
                  ''approval_recheck_block'' ''ask_allow_rejected'' ''post_approval_pre_tool_hook'', h')
           | HookRewrite final \<Rightarrow>
               approval_recheck is_match g ctx source pre_hook ''approval_recheck_rewrite'' final updates h'
           | HookContinue \<Rightarrow>
               approval_recheck is_match g ctx source pre_hook ''approval_recheck_continue'' updated updates h'))"

definition ask_permission ::
  "('re \<Rightarrow> string \<Rightarrow> bool) \<Rightarrow> (nat \<Rightarrow> gov_heap \<Rightarrow> gov_heap) \<Rightarrow> 're governance \<Rightarrow> authorization_context \<Rightarrow> string
    \<Rightarrow> string \<Rightarrow> json \<Rightarrow> gov_heap \<Rightarrow> authorization_report \<times> gov_heap"
where
  "ask_permission is_match aw g ctx source pre_hook effective h =
     (case gh_grants h (gv_approved_permissions g) of
        None \<Rightarrow> (report (auth_interrupted ''approved permission state is unavailable'') True pre_hook
                  ''approval_state_error'' ''human_approval_state:poisoned'', h)
      | Some grants \<Rightarrow>
          (case matching_source (ac_run_id ctx) (ac_tool ctx) effective grants of
             Some s \<Rightarrow> (report (Allowed effective) False pre_hook ''approved_permission'' s, h)
           | None \<Rightarrow>
               (case gv_approver g of
                  None \<Rightarrow> (report (auth_denied (''tool '' @ quote_text (ac_tool ctx)
                            @ '' requires approval (no approver wired)'')) False pre_hook ''ask_unavailable'' source, h)
                | Some approve \<Rightarrow>
                    after_approval is_match aw g ctx source pre_hook effective
                      (approve \<lparr>aq_run_id = ac_run_id ctx, aq_turn = ac_turn ctx, aq_tool_use_id = ac_tool_use_id ctx,
                         aq_tool = ac_tool ctx, aq_input = effective\<rparr>)
                      (aw 1 h))))"

definition authorize_detailed_with_context ::
  "'z contract_env_scheme \<Rightarrow> ('re \<Rightarrow> string \<Rightarrow> bool) \<Rightarrow> (nat \<Rightarrow> gov_heap \<Rightarrow> gov_heap) \<Rightarrow> 're governance
    \<Rightarrow> authorization_context \<Rightarrow> gov_heap \<Rightarrow> authorization_report \<times> gov_heap"
where
  "authorize_detailed_with_context env is_match aw g ctx h =
     (case validate_authorization_binding env g (ac_run_id ctx) h of
        Inl reason \<Rightarrow>
          (report (auth_interrupted (''durable governance binding rejected authorization: '' @ reason)) True
             ''not_evaluated'' ''binding_mismatch'' ''durable_governance_binding'', h)
      | Inr _ \<Rightarrow>
          let h1 = aw 0 h;
              evaluate = (\<lambda>effective pre_hook.
                let permission = evaluate_permission is_match g (ac_run_id ctx) (ac_tool ctx) effective in
                case pd_outcome permission of
                  OAllow \<Rightarrow> (report (Allowed effective) False pre_hook ''allow'' (pd_source permission), h1)
                | ODeny reason \<Rightarrow> (report (auth_denied reason) False pre_hook ''deny'' (pd_source permission), h1)
                | OAsk \<Rightarrow> ask_permission is_match aw g ctx (pd_source permission) pre_hook effective h1)
          in case run_pre_tool_use 0 (gv_hooks g) (pre_context ctx (ac_input ctx)) of
               HookBlock reason \<Rightarrow>
                 (report (auth_denied (''blocked by hook: '' @ reason)) False ''block'' ''not_evaluated''
                    ''pre_tool_use_hook'', h1)
             | HookRewrite new_input \<Rightarrow> evaluate new_input ''rewrite''
             | HookContinue \<Rightarrow> evaluate (ac_input ctx) ''continue'')"

definition authorize_with_context ::
  "'z contract_env_scheme \<Rightarrow> ('re \<Rightarrow> string \<Rightarrow> bool) \<Rightarrow> (nat \<Rightarrow> gov_heap \<Rightarrow> gov_heap) \<Rightarrow> 're governance
    \<Rightarrow> authorization_context \<Rightarrow> gov_heap \<Rightarrow> authorization \<times> gov_heap"
where
  "authorize_with_context env is_match aw g ctx h =
     (let (r, h') = authorize_detailed_with_context env is_match aw g ctx h in (rp_authorization r, h'))"

subsection \<open>What each stage guarantees\<close>

text \<open>An input that neither the rules nor the sealed policy deny.\<close>

definition not_denied :: "('re \<Rightarrow> string \<Rightarrow> bool) \<Rightarrow> 're governance \<Rightarrow> authorization_context \<Rightarrow> json \<Rightarrow> bool" where
  "not_denied is_match g ctx v \<longleftrightarrow>
     (\<forall>reason. pd_outcome (evaluate_permission is_match g (ac_run_id ctx) (ac_tool ctx) v) \<noteq> ODeny reason)"

text \<open>The input that came out of the enforcing hooks of the call, in their \<open>n\<close>-th dispatch, when they
  were given an input: no hook blocked it.\<close>

definition passed_hooks :: "nat \<Rightarrow> 're governance \<Rightarrow> authorization_context \<Rightarrow> json \<Rightarrow> json \<Rightarrow> bool" where
  "passed_hooks n g ctx given v \<longleftrightarrow> hook_pass n (hd_pre_tool_use (gv_hooks g)) (pre_context ctx given) v"

text \<open>Only the approval cache of the governance value changed, and only by grants for this run and tool.\<close>

definition adds_grants :: "'re governance \<Rightarrow> authorization_context \<Rightarrow> gov_heap \<Rightarrow> gov_heap \<Rightarrow> bool" where
  "adds_grants g ctx h h' \<longleftrightarrow> gh_bindings h' = gh_bindings h \<and> gh_runs h' = gh_runs h \<and> gh_next h' = gh_next h
     \<and> (\<forall>a. a \<noteq> gv_approved_permissions g \<longrightarrow> gh_grants h' a = gh_grants h a)
     \<and> (\<forall>new. gh_grants h' (gv_approved_permissions g) = Some new \<longrightarrow>
          (\<exists>old. gh_grants h (gv_approved_permissions g) = Some old
             \<and> (\<forall>x \<in> set new. x \<in> set old \<or> gr_run_id x = ac_run_id ctx \<and> gr_tool x = ac_tool ctx)))"

lemma adds_grants_refl [simp]: "adds_grants g ctx h h"
  by (simp add: adds_grants_def)

lemma report_sel [simp]:
  "rp_authorization (report a i p out src) = a" "rp_interrupt (report a i p out src) = i"
  by (simp_all add: report_def)

lemma grant_insert_set: "x \<in> set (grant_insert y ys) \<Longrightarrow> x = y \<or> x \<in> set ys"
  by (auto simp: grant_insert_def split: if_splits)

lemma fold_grants:
  "x \<in> set (fold (\<lambda>u. grant_insert (new_grant ctx source v u)) us grants) \<Longrightarrow>
     x \<in> set grants \<or> (\<exists>u \<in> set us. x = new_grant ctx source v u)"
  by (induction us arbitrary: grants) (auto dest: grant_insert_set)

lemma new_grant_sel [simp]:
  "gr_run_id (new_grant ctx source v u) = ac_run_id ctx" "gr_tool (new_grant ctx source v u) = ac_tool ctx"
  by (simp_all add: new_grant_def)

lemma install_updates_spec:
  assumes "install_updates g ctx source ph fh v us h = (r, h')"
  shows "adds_grants g ctx h h' \<and> (\<forall>w. rp_authorization r = Allowed w \<longrightarrow> w = v)"
  using assms
  by (auto simp: install_updates_def adds_grants_def Let_def auth_interrupted_def dest!: fold_grants
      split: if_splits option.splits)

lemma approval_recheck_spec:
  assumes "approval_recheck is_match g ctx source ph fh v us h = (r, h')"
  shows "adds_grants g ctx h h' \<and> (\<forall>w. rp_authorization r = Allowed w \<longrightarrow> w = v \<and> not_denied is_match g ctx v)"
proof (cases "pd_outcome (evaluate_permission is_match g (ac_run_id ctx) (ac_tool ctx) v)")
  case (ODeny reason)
  with assms show ?thesis by (auto simp: approval_recheck_def auth_denied_def)
qed (use assms in \<open>auto simp: approval_recheck_def not_denied_def dest: install_updates_spec\<close>)

text \<open>The input that an answer of the approver lets run: without an update the input of the request,
  otherwise what the hooks made of the updated input.\<close>

definition answered_with :: "'re governance \<Rightarrow> authorization_context \<Rightarrow> json \<Rightarrow> json option \<Rightarrow> json \<Rightarrow> bool" where
  "answered_with g ctx asked updated v \<longleftrightarrow>
     (case updated of None \<Rightarrow> v = asked | Some u \<Rightarrow> passed_hooks 1 g ctx u v)"

lemma after_approval_spec:
  assumes "after_approval is_match aw g ctx source ph v d h = (r, h')"
  shows "(adds_grants g ctx h h' \<or> adds_grants g ctx (aw 2 h) h')
    \<and> (\<forall>w. rp_authorization r = Allowed w \<longrightarrow> not_denied is_match g ctx w
         \<and> (\<exists>upd us. d = ApproveAllow upd us \<and> answered_with g ctx v upd w))"
proof (cases d)
  case (ApproveDeny m i)
  with assms show ?thesis by (auto simp: after_approval_def)
next
  case (ApproveAllow upd us)
  show ?thesis
  proof (cases upd)
    case None
    with ApproveAllow assms approval_recheck_spec show ?thesis
      by (fastforce simp: after_approval_def answered_with_def)
  next
    case (Some w)
    show ?thesis
    proof (cases "run_pre_tool_use 1 (gv_hooks g) (pre_context ctx w)")
      case (HookBlock reason)
      with Some ApproveAllow assms show ?thesis by (auto simp: after_approval_def auth_denied_def)
    next
      case (HookRewrite x)
      from run_pre_tool_use_pass(1) [OF HookRewrite] have "answered_with g ctx v (Some w) x"
        by (simp add: answered_with_def passed_hooks_def)
      with HookRewrite Some ApproveAllow assms approval_recheck_spec show ?thesis by (fastforce simp: after_approval_def)
    next
      case HookContinue
      from run_pre_tool_use_pass(2) [OF HookContinue] have "answered_with g ctx v (Some w) w"
        by (simp add: answered_with_def passed_hooks_def pre_context_def)
      with HookContinue Some ApproveAllow assms approval_recheck_spec show ?thesis by (fastforce simp: after_approval_def)
    qed
  qed
qed

text \<open>Why a call that needs an approval may run: an earlier approval for the same run and tool covers the
  input that the hooks made of the request, or the approver was asked about that input and its answer lets
  this very input run.\<close>

definition approved_for ::
  "'re governance \<Rightarrow> authorization_context \<Rightarrow> gov_heap \<Rightarrow> json \<Rightarrow> bool"
where
  "approved_for g ctx h v \<longleftrightarrow>
     (\<exists>asked. passed_hooks 0 g ctx (ac_input ctx) asked \<and>
       ((\<exists>grants x. gh_grants h (gv_approved_permissions g) = Some grants \<and> x \<in> set grants
           \<and> grant_matches (ac_run_id ctx) (ac_tool ctx) asked x \<and> v = asked)
        \<or> (\<exists>approve upd us. gv_approver g = Some approve
           \<and> approve \<lparr>aq_run_id = ac_run_id ctx, aq_turn = ac_turn ctx, aq_tool_use_id = ac_tool_use_id ctx,
                aq_tool = ac_tool ctx, aq_input = asked\<rparr> = ApproveAllow upd us
           \<and> answered_with g ctx asked upd v)))"

lemma matching_source_SomeD:
  "matching_source r t v grants = Some s \<Longrightarrow> \<exists>x \<in> set grants. grant_matches r t v x"
  unfolding matching_source_def by (auto dest!: find_SomeD)

definition awaited :: "(nat \<Rightarrow> gov_heap \<Rightarrow> gov_heap) \<Rightarrow> gov_heap \<Rightarrow> gov_heap set" where
  "awaited aw h = {h, aw 0 h, aw 1 (aw 0 h), aw 2 (aw 1 (aw 0 h))}"

lemma ask_permission_spec:
  assumes "ask_permission is_match aw g ctx source ph v h = (r, h')" "passed_hooks 0 g ctx (ac_input ctx) v" "not_denied is_match g ctx v"
  shows "(adds_grants g ctx h h' \<or> adds_grants g ctx (aw 1 h) h' \<or> adds_grants g ctx (aw 2 (aw 1 h)) h')
    \<and> (\<forall>w. rp_authorization r = Allowed w \<longrightarrow> not_denied is_match g ctx w \<and> approved_for g ctx h w)"
proof (cases "gh_grants h (gv_approved_permissions g)")
  case None
  with assms show ?thesis by (auto simp: ask_permission_def auth_interrupted_def)
next
  case (Some grants)
  show ?thesis
  proof (cases "matching_source (ac_run_id ctx) (ac_tool ctx) v grants")
    case (Some src)
    with \<open>gh_grants h (gv_approved_permissions g) = Some grants\<close> matching_source_SomeD assms show ?thesis
      by (fastforce simp: ask_permission_def approved_for_def)
  next
    case None
    show ?thesis
    proof (cases "gv_approver g")
      case None
      with \<open>gh_grants h (gv_approved_permissions g) = Some grants\<close> \<open>matching_source _ _ v grants = None\<close> assms
      show ?thesis by (auto simp: ask_permission_def auth_denied_def)
    next
      case (Some approve)
      let ?req = "\<lparr>aq_run_id = ac_run_id ctx, aq_turn = ac_turn ctx, aq_tool_use_id = ac_tool_use_id ctx,
        aq_tool = ac_tool ctx, aq_input = v\<rparr>"
      from Some None \<open>gh_grants h (gv_approved_permissions g) = Some grants\<close> assms(1)
      have a: "after_approval is_match aw g ctx source ph v (approve ?req) (aw 1 h) = (r, h')"
        by (simp add: ask_permission_def)
      from after_approval_spec [OF a] Some assms(2) show ?thesis by (fastforce simp: approved_for_def)
    qed
  qed
qed

lemma authorize_spec:
  assumes "authorize_detailed_with_context env is_match aw g ctx h = (r, h')"
  shows "(\<exists>h1 \<in> awaited aw h. adds_grants g ctx h1 h')
    \<and> (\<forall>w. rp_authorization r = Allowed w \<longrightarrow>
         validate_authorization_binding env g (ac_run_id ctx) h = Inr ()
         \<and> not_denied is_match g ctx w
         \<and> (passed_hooks 0 g ctx (ac_input ctx) w
              \<and> pd_outcome (evaluate_permission is_match g (ac_run_id ctx) (ac_tool ctx) w) = OAllow
            \<or> approved_for g ctx (aw 0 h) w))"
proof (cases "validate_authorization_binding env g (ac_run_id ctx) h")
  case (Inl reason)
  with assms show ?thesis by (auto simp: authorize_detailed_with_context_def auth_interrupted_def awaited_def)
next
  case (Inr u)
  have eval: "(\<exists>h1 \<in> awaited aw h. adds_grants g ctx h1 h')
    \<and> (\<forall>w. rp_authorization r = Allowed w \<longrightarrow> not_denied is_match g ctx w
         \<and> (passed_hooks 0 g ctx (ac_input ctx) w
              \<and> pd_outcome (evaluate_permission is_match g (ac_run_id ctx) (ac_tool ctx) w) = OAllow
            \<or> approved_for g ctx (aw 0 h) w))"
    if ev: "(let permission = evaluate_permission is_match g (ac_run_id ctx) (ac_tool ctx) v in
                case pd_outcome permission of
                  OAllow \<Rightarrow> (report (Allowed v) False ph ''allow'' (pd_source permission), aw 0 h)
                | ODeny reason \<Rightarrow> (report (auth_denied reason) False ph ''deny'' (pd_source permission), aw 0 h)
                | OAsk \<Rightarrow> ask_permission is_match aw g ctx (pd_source permission) ph v (aw 0 h)) = (r, h')"
      and ps: "passed_hooks 0 g ctx (ac_input ctx) v" for v ph
  proof (cases "pd_outcome (evaluate_permission is_match g (ac_run_id ctx) (ac_tool ctx) v)")
    case OAsk
    with ev have a: "ask_permission is_match aw g ctx (pd_source (evaluate_permission is_match g (ac_run_id ctx) (ac_tool ctx) v))
        ph v (aw 0 h) = (r, h')" by (simp add: Let_def)
    have "not_denied is_match g ctx v" using OAsk by (simp add: not_denied_def)
    from ask_permission_spec [OF a ps this] show ?thesis by (auto simp: awaited_def)
  qed (use ev ps in \<open>auto simp: Let_def auth_denied_def awaited_def not_denied_def\<close>)
  show ?thesis
  proof (cases "run_pre_tool_use 0 (gv_hooks g) (pre_context ctx (ac_input ctx))")
    case (HookBlock reason)
    with assms Inr show ?thesis
      by (auto simp: authorize_detailed_with_context_def auth_denied_def awaited_def Let_def)
  next
    case (HookRewrite x)
    from run_pre_tool_use_pass(1) [OF HookRewrite] have "passed_hooks 0 g ctx (ac_input ctx) x" by (auto simp: passed_hooks_def)
    with eval [of x "''rewrite''"] HookRewrite assms Inr show ?thesis
      by (simp add: authorize_detailed_with_context_def Let_def)
  next
    case HookContinue
    from run_pre_tool_use_pass(2) [OF HookContinue] have "passed_hooks 0 g ctx (ac_input ctx) (ac_input ctx)"
      by (auto simp: passed_hooks_def pre_context_def)
    with eval [of "ac_input ctx" "''continue''"] HookContinue assms Inr show ?thesis
      by (simp add: authorize_detailed_with_context_def Let_def)
  qed
qed

subsection \<open>The registry\<close>

text \<open>The bindings of a registry cell, and its size.\<close>

definition registry :: "gov_heap \<Rightarrow> nat \<Rightarrow> governance_binding btree" where
  "registry h a = (case gh_bindings h a of None \<Rightarrow> [] | Some m \<Rightarrow> m)"

lemma length_bt_insert: "length (bt_insert k v m) \<le> Suc (length m)"
  by (induction k v m rule: bt_insert.induct) auto

text \<open>Registration adds at most the binding of a run that had none.\<close>

lemma register_spec:
  assumes "register_durable_binding g b h = (r, h')"
  shows "(\<forall>a i x. bt_get (registry h a) i = Some x \<longrightarrow> bt_get (registry h' a) i = Some x)
    \<and> (\<forall>a. length (registry h a) \<le> MAX_REGISTERED_DURABLE_BINDINGS \<longrightarrow>
           length (registry h' a) \<le> MAX_REGISTERED_DURABLE_BINDINGS)
    \<and> gh_grants h' = gh_grants h \<and> gh_runs h' = gh_runs h
    \<and> (is_ok r \<longrightarrow> bt_get (registry h' (gv_durable_bindings g)) (gb_run_id b) = Some b)"
proof (cases "gh_bindings h (gv_durable_bindings g)")
  case None
  with assms show ?thesis by (auto simp: register_durable_binding_def)
next
  case (Some m)
  show ?thesis
  proof (cases "bt_get m (gb_run_id b)")
    case (Some x)
    with \<open>gh_bindings h _ = Some m\<close> assms show ?thesis
      by (auto simp: register_durable_binding_def registry_def split: if_splits)
  next
    case None
    show ?thesis
    proof (cases "length m \<ge> MAX_REGISTERED_DURABLE_BINDINGS")
      case True
      with None Some assms show ?thesis by (auto simp: register_durable_binding_def)
    next
      case False
      with None Some assms have h': "r = Inr ()" "h' = h\<lparr>gh_bindings := (gh_bindings h)(gv_durable_bindings g :=
          Some (bt_insert (gb_run_id b) b m))\<rparr>" by (auto simp: register_durable_binding_def)
      have "length (bt_insert (gb_run_id b) b m) \<le> MAX_REGISTERED_DURABLE_BINDINGS"
        using False length_bt_insert [of "gb_run_id b" b m] by simp
      with None Some show ?thesis unfolding h'
        by (auto simp: registry_def bt_get_def map_of_bt_insert)
    qed
  qed
qed

text \<open>An authorization that is bound to a durable run is made under the identity that the run pinned.\<close>

lemma validated_identity:
  assumes "validate_authorization_binding env g run h = Inr ()" "bt_get (registry h (gv_durable_bindings g)) run = Some b"
  shows "\<exists>s. gv_policy_snapshot g = Some s \<and> gb_policy_snapshot_hash b = ps_hash s \<and> gb_tenant_id b = gv_tenant_id g
    \<and> gb_agent_id b = gv_agent_id g \<and> gb_run_id b = run \<and> binding_validate env b = Inr ()"
proof -
  have "\<exists>s. gv_policy_snapshot g = Some s \<and> binding_seal env (ps_hash s) (gv_tenant_id g) (gv_agent_id g) run = Inr b"
    using assms unfolding validate_authorization_binding_def registry_def
    by (auto simp: result_simps split: option.splits if_splits)
  then show ?thesis using binding_seal_fields binding_seal_valid by metis
qed

end
