(* ===== verification/Approver.thy ===== *)
theory Approver
  imports StoreOps Authorize
begin

text \<open>
  \<open>DurableToolApprover\<close> of \<open>governance/mod.rs\<close>: the adapter that records the request and the answer of a
  human approver in the event log of a durable run, through the compare-and-swap of a store when it has
  one. Its state is the locked run, the store and the poison flag it shares with the driver of the run; a
  run that is \<open>None\<close> stands for a lock that a panic has poisoned. Other tasks act on this state while the
  approver waits for its gate and for the answer. The texts that the source appends from other errors are
  left out of the messages.
\<close>

subsection \<open>The answer as a recorded response\<close>

definition approval_decision_payload :: "approval_decision \<Rightarrow> json option" where
  "approval_decision_payload decision =
     (case decision of
        ApproveAllow updated_input updated_permissions \<Rightarrow> Some (JObject
          [(''decision'', JString ''allow''),
           (''updated_input'', case updated_input of None \<Rightarrow> JNull | Some v \<Rightarrow> v),
           (''updated_permissions'', JArray (map (\<lambda>u. JString (update_name u)) updated_permissions))])
      | ApproveDeny message interrupt \<Rightarrow> Some (JObject
          [(''decision'', JString ''deny''), (''message'', JString message), (''interrupt'', JBool interrupt)]))"

definition permission_of_name :: "json \<Rightarrow> permission_update option" where
  "permission_of_name v =
     (if as_str v = Some ''allow_exact_input'' then Some AllowExactInput
      else if as_str v = Some ''allow_tool'' then Some AllowTool else None)"

fun permissions_of :: "json list \<Rightarrow> string + permission_update list" where
  "permissions_of [] = Inr []"
| "permissions_of (v # vs) =
     (case permission_of_name v of
        None \<Rightarrow> Inl ''durable approval permission is unknown''
      | Some u \<Rightarrow> bindR (permissions_of vs) (\<lambda>us. Inr (u # us)))"

definition as_array :: "json \<Rightarrow> json list option" where
  "as_array v = (case v of JArray vs \<Rightarrow> Some vs | _ \<Rightarrow> None)"

definition as_bool :: "json \<Rightarrow> bool option" where
  "as_bool v = (case v of JBool b \<Rightarrow> Some b | _ \<Rightarrow> None)"

definition durable_approval_decision :: "durable_approval \<Rightarrow> string + approval_decision" where
  "durable_approval_decision approval =
     (if ap_timed_out approval then Inr (decision_deny ''approval timed out'')
      else bindR (ok_or (Option.bind (ap_response approval) as_object) ''durable approval response is missing'') (\<lambda>response.
        let decision = Option.bind (map_of response ''decision'') as_str in
        if decision = Some ''allow'' \<and> ap_status approval = Approved then
          bindR (ok_or (Option.bind (map_of response ''updated_permissions'') as_array)
                   ''durable approval permissions are malformed'') (\<lambda>vs.
          bindR (permissions_of vs) (\<lambda>permissions.
            Inr (ApproveAllow (case map_of response ''updated_input'' of
                                 None \<Rightarrow> None | Some v \<Rightarrow> if is_null v then None else Some v) permissions)))
        else if decision = Some ''deny'' \<and> ap_status approval = Rejected then
          bindR (ok_or (Option.bind (map_of response ''message'') as_str) ''durable denial message is missing'') (\<lambda>message.
          bindR (ok_or (Option.bind (map_of response ''interrupt'') as_bool)
                   ''durable denial interrupt flag is missing'') (\<lambda>interrupt.
            Inr (ApproveDeny message interrupt)))
        else Inl ''durable approval status and response disagree''))"

subsection \<open>The approver and its world\<close>

record 's approver_world =
  aw_run :: "run_state option"
  aw_store :: 's
  aw_poisoned :: bool

text \<open>The callback gets the time that is left and may not answer in it.\<close>

record 's durable_tool_approver =
  da_legacy :: "nat \<Rightarrow> tool_approval_request \<Rightarrow> approval_decision option"
  da_governance_binding :: governance_binding
  da_timeout_ms :: nat
  da_store :: "'s store_ops option"
  da_shares_poison :: bool
  da_worker_lease :: "lease_authority option"

definition fail_closed :: "string \<Rightarrow> approval_decision" where
  "fail_closed message = ApproveDeny message True"

definition approver_new_inner ::
  "'z contract_env_scheme \<Rightarrow> (nat \<Rightarrow> tool_approval_request \<Rightarrow> approval_decision option) \<Rightarrow> policy_snapshot \<Rightarrow> nat
    \<Rightarrow> 's store_ops option \<Rightarrow> bool \<Rightarrow> lease_authority option
    \<Rightarrow> ('s approver_world, durable_approver_error, 's durable_tool_approver) smeth"
where
  "approver_new_inner env legacy policy_snapshot timeout_ms store shares_poison worker_lease w =
     (if timeout_ms = 0 then (Inl InvalidTimeout, w)
      else case aw_run w of
        None \<Rightarrow> (Inl StateUnavailable, w)
      | Some run \<Rightarrow>
          if rs_policy_snapshot_hash run \<noteq> Some (ps_hash policy_snapshot)
          then (Inl (PolicyMismatch (rs_policy_snapshot_hash run) (ps_hash policy_snapshot)), w)
          else case rs_governance_binding run of
            None \<Rightarrow> (Inl MissingGovernanceBinding, w)
          | Some binding \<Rightarrow>
              (case binding_validate env binding of
                 Inl e \<Rightarrow> (Inl (BindingMismatch (contract_error_text e)), w)
               | Inr _ \<Rightarrow>
                   if gb_run_id binding \<noteq> rs_run_id run \<or> gb_policy_snapshot_hash binding \<noteq> ps_hash policy_snapshot
                   then (Inl (BindingMismatch ''run, policy, or binding identity differs''), w)
                   else
                     let built = \<lparr>da_legacy = legacy, da_governance_binding = binding, da_timeout_ms = timeout_ms,
                           da_store = store, da_shares_poison = shares_poison, da_worker_lease = worker_lease\<rparr>
                     in case store of
                       None \<Rightarrow> (Inr built, w)
                     | Some ops \<Rightarrow>
                         (case so_load ops (rs_run_id run) (aw_store w) of
                            Inl _ \<Rightarrow> (Inl (ApproverStore []), w)
                          | Inr persisted \<Rightarrow>
                              if persisted \<noteq> run
                              then (Inl (ApproverStore ''persisted run does not match the supplied run state''), w)
                              else case so_clock ops (aw_store w) of
                                (Inl _, s) \<Rightarrow>
                                  (Inl (ApproverStore ''trusted approval clock is unavailable''), w\<lparr>aw_store := s\<rparr>)
                              | (Inr _, s) \<Rightarrow>
                                  if \<not> so_supports_atomic_approval ops
                                  then (Inl (ApproverStore ''store does not provide atomic approval resolution''),
                                        w\<lparr>aw_store := s\<rparr>)
                                  else (Inr built, w\<lparr>aw_store := s\<rparr>))))"

definition set_poison :: "'s durable_tool_approver \<Rightarrow> 's approver_world \<Rightarrow> 's approver_world" where
  "set_poison a w = (if da_shares_poison a then w\<lparr>aw_poisoned := True\<rparr> else w)"

definition is_poisoned :: "'s durable_tool_approver \<Rightarrow> 's approver_world \<Rightarrow> bool" where
  "is_poisoned a w = (da_shares_poison a \<and> aw_poisoned w)"

text \<open>A store that reports that the approval expired, with a time at or after the recorded deadline, has
  not written; every other failure leaves it unknown whether the candidate was written.\<close>

definition definite_expiry :: "run_state \<Rightarrow> run_state \<Rightarrow> string option \<Rightarrow> store_error \<Rightarrow> bool" where
  "definite_expiry current candidate approval_id e =
     (case (e, approval_id) of
        (ApprovalExpired run_id expired_id observed_at, Some expected_id) \<Rightarrow>
          run_id = rs_run_id current \<and> expired_id = expected_id
          \<and> (case stored_approval current expected_id of None \<Rightarrow> False
             | Some ap \<Rightarrow> (case ap_expires_at ap of None \<Rightarrow> False | Some expires_at \<Rightarrow> observed_at \<ge> expires_at))
          \<and> (case stored_approval candidate expected_id of None \<Rightarrow> False | Some ap \<Rightarrow> ap_status ap = Approved)
      | _ \<Rightarrow> False)"

definition commit_candidate ::
  "'s durable_tool_approver \<Rightarrow> run_state \<Rightarrow> run_state \<Rightarrow> string option \<Rightarrow> ('s approver_world, store_error, unit) smeth"
where
  "commit_candidate a current candidate approval_id w =
     (case da_store a of
        None \<Rightarrow> (Inr (), w\<lparr>aw_run := Some candidate\<rparr>)
      | Some ops \<Rightarrow>
          let expected = last_sequence current;
              (persisted, s) = (case approval_id of
                 Some i \<Rightarrow> so_cas_approval ops expected candidate i (da_worker_lease a) (aw_store w)
               | None \<Rightarrow> (case da_worker_lease a of
                   Some authority \<Rightarrow> so_cas_fenced ops expected candidate authority (aw_store w)
                 | None \<Rightarrow> so_cas ops expected candidate (aw_store w)));
              w1 = w\<lparr>aw_store := s\<rparr>
          in case persisted of
               Inl e \<Rightarrow> (Inl e, if definite_expiry current candidate approval_id e then w1 else set_poison a w1)
             | Inr _ \<Rightarrow> (Inr (), w1\<lparr>aw_run := Some candidate\<rparr>))"

definition verify_current :: "'s durable_tool_approver \<Rightarrow> run_state \<Rightarrow> ('s approver_world, string, unit) smeth" where
  "verify_current a current w =
     (if is_poisoned a w then (Inl ''durable driver is poisoned; reload state before approval'', w)
      else case da_store a of
        None \<Rightarrow> (Inr (), w)
      | Some ops \<Rightarrow>
          (case so_load ops (rs_run_id current) (aw_store w) of
             Inr stored \<Rightarrow>
               if stored = current then (Inr (), w)
               else (Inl ''durable approval state no longer matches the store'', set_poison a w)
           | Inl _ \<Rightarrow> (Inl ''durable approval store could not be loaded'', set_poison a w)))"

text \<open>Without a store the system clock is read.\<close>

definition approval_clock_unix_ms ::
  "'s durable_tool_approver \<Rightarrow> string + nat \<Rightarrow> ('s approver_world, string, nat) smeth"
where
  "approval_clock_unix_ms a system w =
     (case da_store a of
        None \<Rightarrow> (system, w)
      | Some ops \<Rightarrow>
          (case so_clock ops (aw_store w) of
             (Inl _, s) \<Rightarrow> (Inl ''durable approval trusted store clock is unavailable'', w\<lparr>aw_store := s\<rparr>)
           | (Inr now, s) \<Rightarrow> (Inr now, w\<lparr>aw_store := s\<rparr>)))"

subsection \<open>Approving\<close>

definition expected_payload :: "tool_approval_request \<Rightarrow> json" where
  "expected_payload r = JObject [(''turn'', JNumber (PosInt (aq_turn r))), (''tool_use_id'', JString (aq_tool_use_id r)),
     (''tool'', JString (aq_tool r)), (''input'', aq_input r)]"

definition durable_request ::
  "'s durable_tool_approver \<Rightarrow> tool_approval_request \<Rightarrow> nat \<Rightarrow> nat \<Rightarrow> approval_request"
where
  "durable_request a r requested_at expires_at =
     \<lparr>rq_logical_key = aq_tool_use_id r, rq_activity_id = None, rq_kind = Confirmation,
      rq_prompt = ''Allow tool `'' @ aq_tool r @ ''`?'', rq_payload = expected_payload r,
      rq_policy_snapshot_hash = Some (gb_policy_snapshot_hash (da_governance_binding a)),
      rq_governance_binding = Some (da_governance_binding a),
      rq_requested_at = requested_at, rq_expires_at = expires_at\<rparr>"

definition matches_action :: "'s durable_tool_approver \<Rightarrow> tool_approval_request \<Rightarrow> durable_approval \<Rightarrow> bool" where
  "matches_action a r existing =
     (ap_governance_binding existing = Some (da_governance_binding a)
      \<and> ap_policy_snapshot_hash existing = Some (gb_policy_snapshot_hash (da_governance_binding a))
      \<and> ap_payload existing = expected_payload r)"

text \<open>The first half: the pending approval of this action, an answer that is already recorded, or a new
  request. A result on the left is the final answer.\<close>

definition pending_request ::
  "durable_env \<Rightarrow> 's durable_tool_approver \<Rightarrow> tool_approval_request \<Rightarrow> nat
    \<Rightarrow> ('s approver_world, approval_decision, string \<times> nat) smeth"
where
  "pending_request env a r requested_at w =
     (case aw_run w of
        None \<Rightarrow> (Inl (fail_closed ''durable approval state is unavailable''), w)
      | Some run \<Rightarrow>
          (case verify_current a run w of
             (Inl message, w1) \<Rightarrow> (Inl (fail_closed message), w1)
           | (Inr _, w1) \<Rightarrow>
               if rs_run_id run \<noteq> aq_run_id r
               then (Inl (fail_closed (''approval run `'' @ aq_run_id r @ ''` does not match durable run `''
                       @ rs_run_id run @ ''`'')), w1)
               else if rs_governance_binding run \<noteq> Some (da_governance_binding a)
               then (Inl (fail_closed ''durable run governance binding changed after approver attachment''), w1)
               else case filter (\<lambda>ap. ap_logical_key ap = aq_tool_use_id r) (bt_values (st_approvals run)) of
                 [] \<Rightarrow>
                   let proposed_expiry = saturating_add requested_at (min (da_timeout_ms a) u64_max) in
                   (case request_typed_approval env (durable_request a r requested_at proposed_expiry) run of
                      (Inl _, _) \<Rightarrow> (Inl (fail_closed ''durable approval request could not be recorded''), w1)
                    | (Inr i, candidate) \<Rightarrow>
                        (case commit_candidate a run candidate None w1 of
                           (Inl _, w2) \<Rightarrow> (Inl (fail_closed ''durable approval request could not be committed''), w2)
                         | (Inr _, w2) \<Rightarrow> (Inr (i, proposed_expiry), w2)))
               | [existing] \<Rightarrow>
                   if \<not> matches_action a r existing
                   then (Inl (fail_closed ''durable approval replay does not match the current governed action''), w1)
                   else (case ap_status existing of
                     Pending \<Rightarrow>
                       (case ap_expires_at existing of
                          None \<Rightarrow> (Inl (fail_closed ''durable approval is missing its expiration clock''), w1)
                        | Some expires_at \<Rightarrow> (Inr (ap_approval_id existing, expires_at), w1))
                   | _ \<Rightarrow> (Inl (case durable_approval_decision existing of
                                    Inl message \<Rightarrow> fail_closed message | Inr d \<Rightarrow> d), w1))
               | _ \<Rightarrow> (Inl (fail_closed ''durable approval identity is ambiguous''), w1)))"

definition resolution_command :: "string \<Rightarrow> bool \<Rightarrow> json option \<Rightarrow> run_command" where
  "resolution_command approval_id approved response = Resume (''approval:'' @ approval_id)
     [\<lparr>res_approval_id = approval_id, res_approved = approved, res_response = response\<rparr>]"

definition timeout_response :: json where
  "timeout_response = JObject [(''reason'', JString ''approval_timeout'')]"

text \<open>The second half: the outcome that the log records, as status and expiry flag. Reading the approval of
  a candidate without it panics while the lock of the run is held.\<close>

datatype outcome = Outcome approval_status bool | OutcomeErr | OutcomePanic

definition record_timeout ::
  "durable_env \<Rightarrow> 's durable_tool_approver \<Rightarrow> string \<Rightarrow> run_state \<Rightarrow> nat \<Rightarrow> 's approver_world \<Rightarrow> outcome \<times> 's approver_world"
where
  "record_timeout env a approval_id run observed_at w =
     (case apply_command_at env (resolution_command approval_id False (Some timeout_response)) observed_at run of
        (Inl _, _) \<Rightarrow> (OutcomeErr, set_poison a w)
      | (Inr _, candidate) \<Rightarrow>
          (case stored_approval candidate approval_id of
             None \<Rightarrow> (OutcomePanic, w\<lparr>aw_run := None\<rparr>)
           | Some resolved \<Rightarrow>
               (case commit_candidate a run candidate (Some approval_id) w of
                  (Inl _, w1) \<Rightarrow> (OutcomeErr, w1)
                | (Inr _, w1) \<Rightarrow> (Outcome (ap_status resolved) (ap_timed_out resolved), w1))))"

definition record_resolution ::
  "durable_env \<Rightarrow> 's durable_tool_approver \<Rightarrow> string \<Rightarrow> bool \<Rightarrow> json option \<Rightarrow> nat \<Rightarrow> 's approver_world
    \<Rightarrow> outcome \<times> 's approver_world"
where
  "record_resolution env a approval_id approved response resolved_at w =
     (case aw_run w of
        None \<Rightarrow> (OutcomeErr, w)
      | Some run \<Rightarrow>
          (case apply_command_at env (resolution_command approval_id approved response) resolved_at run of
             (Inl _, _) \<Rightarrow> (OutcomeErr, w)
           | (Inr _, candidate) \<Rightarrow>
               (case stored_approval candidate approval_id of
                  None \<Rightarrow> (OutcomePanic, w\<lparr>aw_run := None\<rparr>)
                | Some resolved \<Rightarrow>
                    (case commit_candidate a run candidate (Some approval_id) w of
                       (Inr _, w1) \<Rightarrow> (Outcome (ap_status resolved) (ap_timed_out resolved), w1)
                     | (Inl (ApprovalExpired run_id expired_id observed_at), w1) \<Rightarrow>
                         if run_id = rs_run_id run \<and> expired_id = approval_id
                            \<and> ap_status resolved = Approved \<and> \<not> ap_timed_out resolved
                            \<and> (case stored_approval run approval_id of None \<Rightarrow> False
                               | Some ap \<Rightarrow> (case ap_expires_at ap of None \<Rightarrow> False | Some expires_at \<Rightarrow> observed_at \<ge> expires_at))
                            \<and> \<not> is_poisoned a w1
                         then record_timeout env a approval_id run observed_at w1
                         else (OutcomeErr, w1)
                     | (Inl _, w1) \<Rightarrow> (OutcomeErr, w1)))))"

datatype approver_answer = Answered approval_decision | ApproverPanicked

definition answer_of :: "approval_decision \<Rightarrow> outcome \<Rightarrow> approver_answer" where
  "answer_of decision out =
     (case out of
        Outcome Approved False \<Rightarrow> Answered decision
      | Outcome Rejected True \<Rightarrow> Answered (decision_deny ''approval timed out'')
      | Outcome Rejected False \<Rightarrow> Answered decision
      | OutcomePanic \<Rightarrow> ApproverPanicked
      | _ \<Rightarrow> Answered (fail_closed ''durable approval resolution could not be recorded''))"

definition is_allow :: "approval_decision \<Rightarrow> bool" where
  "is_allow d = (case d of ApproveAllow _ _ \<Rightarrow> True | ApproveDeny _ _ \<Rightarrow> False)"

text \<open>What other tasks do: before the gate is entered and while the callback runs. The two readings of the
  system clock are arguments.\<close>

definition approve ::
  "durable_env \<Rightarrow> (nat \<Rightarrow> 's approver_world \<Rightarrow> 's approver_world) \<Rightarrow> (nat \<Rightarrow> string + nat) \<Rightarrow> 's durable_tool_approver
    \<Rightarrow> tool_approval_request \<Rightarrow> 's approver_world \<Rightarrow> approver_answer \<times> 's approver_world"
where
  "approve env others system a r w =
     (if is_poisoned a w
      then (Answered (fail_closed ''durable driver is poisoned; reload state before requesting approval''), w)
      else case approval_clock_unix_ms a (system 0) (others 0 w) of
        (Inl message, w1) \<Rightarrow> (Answered (fail_closed message), w1)
      | (Inr requested_at, w1) \<Rightarrow>
          (case pending_request env a r requested_at w1 of
             (Inl d, w2) \<Rightarrow> (Answered d, w2)
           | (Inr (approval_id, expires_at), w2) \<Rightarrow>
               let remaining = saturating_sub expires_at requested_at;
                   callback = (if remaining = 0 then None else da_legacy a remaining r);
                   w3 = (if remaining = 0 then w2 else others 1 w2)
               in case callback of
                    None \<Rightarrow>
                      (let (out, w4) = record_resolution env a approval_id False (Some timeout_response) expires_at w3
                       in (answer_of (decision_deny ''approval timed out'') out, w4))
                  | Some decision \<Rightarrow>
                      (case approval_clock_unix_ms a (system 1) w3 of
                         (Inl message, w4) \<Rightarrow> (Answered (fail_closed message), w4)
                       | (Inr resolved_at, w4) \<Rightarrow>
                           (let (out, w5) = record_resolution env a approval_id (is_allow decision)
                                  (approval_decision_payload decision) resolved_at w4
                            in (answer_of decision out, w5)))))"

subsection \<open>Attaching it to a governance value\<close>

text \<open>The builders consume the governance value, so an error returns none. What the adapter answers when it
  is called is \<open>approve\<close>; the governance value holds it as a function of the request, \<open>answers\<close>. The heap
  and the state of the store are threaded; a driver is given by the addresses of its cells.\<close>

record driver_handles =
  dh_run :: nat
  dh_store :: nat
  dh_poison :: nat
  dh_worker_lease :: "lease_authority option"

definition ensure_store_authority :: "'re governance \<Rightarrow> nat \<Rightarrow> durable_approver_error + unit" where
  "ensure_store_authority g store =
     (if (case gv_durable_store g of None \<Rightarrow> False | Some existing \<Rightarrow> existing \<noteq> store)
      then Inl (ApproverStore ''governance is already attached to a different durable store authority'')
      else Inr ())"

definition driver_authority :: "driver_handles \<Rightarrow> approver_authority" where
  "driver_authority d = \<lparr>da_run = dh_run d, da_store_cell = Some (dh_store d), da_poison_cell = Some (dh_poison d),
     da_lease = dh_worker_lease d\<rparr>"

definition ensure_driver_approver_authority :: "'re governance \<Rightarrow> driver_handles \<Rightarrow> durable_approver_error + unit" where
  "ensure_driver_approver_authority g d =
     (if gv_approver g = None then Inr ()
      else case gv_durable_approver_authority g of
        None \<Rightarrow> Inl (BindingMismatch
          ''durable driver cannot use an ordinary approver; install the driver-backed durable approver'')
      | Some authority \<Rightarrow>
          if da_run authority \<noteq> dh_run d \<or> da_store_cell authority \<noteq> Some (dh_store d)
             \<or> da_poison_cell authority \<noteq> Some (dh_poison d) \<or> da_lease authority \<noteq> dh_worker_lease d
          then Inl (BindingMismatch
            ''durable approver does not share the driver's exact state, store, poison, and worker lease authority'')
          else Inr ())"

definition build_approver ::
  "'z contract_env_scheme \<Rightarrow> (nat \<Rightarrow> tool_approval_request \<Rightarrow> approval_decision option) \<Rightarrow> policy_snapshot \<Rightarrow> nat \<Rightarrow> nat
    \<Rightarrow> 's store_ops option \<Rightarrow> bool \<Rightarrow> lease_authority option
    \<Rightarrow> (gov_heap \<times> 's, durable_approver_error, 's durable_tool_approver) smeth"
where
  "build_approver env legacy snapshot run timeout_ms store shares lease hs =
     (case approver_new_inner env legacy snapshot timeout_ms store shares lease
             \<lparr>aw_run = gh_runs (fst hs) run, aw_store = snd hs, aw_poisoned = False\<rparr> of
        (r, w) \<Rightarrow> (r, (fst hs, aw_store w)))"

definition registerS :: "'re governance \<Rightarrow> governance_binding \<Rightarrow> (gov_heap \<times> 's, durable_approver_error, unit) smeth" where
  "registerS g binding hs = (case register_durable_binding g binding (fst hs) of (r, h) \<Rightarrow> (r, (h, snd hs)))"

definition with_durable_approver ::
  "'z contract_env_scheme \<Rightarrow> ('s durable_tool_approver \<Rightarrow> tool_approval_request \<Rightarrow> approval_decision)
    \<Rightarrow> (nat \<Rightarrow> tool_approval_request \<Rightarrow> approval_decision option) \<Rightarrow> nat \<Rightarrow> nat \<Rightarrow> 're governance
    \<Rightarrow> (gov_heap \<times> 's, durable_approver_error, 're governance) smeth"
where
  "with_durable_approver env answers legacy run timeout_ms g =
     bindS (checkS (\<lambda>_. ensure_run_authority g run)) (\<lambda>_.
     bindS (checkS (\<lambda>_. if gv_durable_store g \<noteq> None
       then Inl (ApproverStore ''cannot replace a persisted durable authority with an in-memory approver'') else Inr ())) (\<lambda>_.
     bindS (checkS (\<lambda>_. ok_or (gv_policy_snapshot g) MissingPolicySnapshot)) (\<lambda>snapshot.
     bindS (checkS (\<lambda>hs. validate_run_binding env g run (fst hs))) (\<lambda>binding.
     bindS (build_approver env legacy snapshot run timeout_ms None False None) (\<lambda>approver.
     bindS (registerS g binding) (\<lambda>_.
       returnS (g\<lparr>gv_approver := Some (answers approver), gv_durable_binding := Some binding,
         gv_durable_run := Some run,
         gv_durable_approver_authority := Some \<lparr>da_run = run, da_store_cell = None, da_poison_cell = None,
           da_lease = None\<rparr>\<rparr>)))))))"

definition with_persisted_durable_approver ::
  "'z contract_env_scheme \<Rightarrow> ('s durable_tool_approver \<Rightarrow> tool_approval_request \<Rightarrow> approval_decision)
    \<Rightarrow> (nat \<Rightarrow> tool_approval_request \<Rightarrow> approval_decision option) \<Rightarrow> nat \<Rightarrow> nat \<Rightarrow> nat \<Rightarrow> 's store_ops \<Rightarrow> 're governance
    \<Rightarrow> (gov_heap \<times> 's, durable_approver_error, 're governance) smeth"
where
  "with_persisted_durable_approver env answers legacy run timeout_ms store ops g =
     bindS (checkS (\<lambda>_. ensure_run_authority g run)) (\<lambda>_.
     bindS (checkS (\<lambda>_. ensure_store_authority g store)) (\<lambda>_.
     bindS (checkS (\<lambda>_. ok_or (gv_policy_snapshot g) MissingPolicySnapshot)) (\<lambda>snapshot.
     bindS (checkS (\<lambda>hs. validate_run_binding env g run (fst hs))) (\<lambda>binding.
     bindS (build_approver env legacy snapshot run timeout_ms (Some ops) False None) (\<lambda>approver.
     bindS (registerS g binding) (\<lambda>_.
       returnS (g\<lparr>gv_approver := Some (answers approver), gv_durable_binding := Some binding,
         gv_durable_run := Some run, gv_durable_store := Some store,
         gv_durable_approver_authority := Some \<lparr>da_run = run, da_store_cell = Some store, da_poison_cell = None,
           da_lease = None\<rparr>\<rparr>)))))))"

definition with_durable_driver ::
  "'z contract_env_scheme \<Rightarrow> driver_handles \<Rightarrow> 're governance \<Rightarrow> (gov_heap, durable_approver_error, 're governance) smeth"
where
  "with_durable_driver env d g =
     bindS (checkS (\<lambda>_. ensure_run_authority g (dh_run d))) (\<lambda>_.
     bindS (checkS (\<lambda>_. ensure_store_authority g (dh_store d))) (\<lambda>_.
     bindS (checkS (\<lambda>_. ensure_driver_approver_authority g d)) (\<lambda>_.
     bindS (checkS (\<lambda>h. ok_or (gh_runs h (dh_run d)) StateUnavailable)) (\<lambda>run.
     bindS (case (rs_governance_binding run, gv_policy_snapshot g) of
              (Some _, Some _) \<Rightarrow> with_durable_run env (dh_run d) g
            | (Some _, None) \<Rightarrow> failS MissingPolicySnapshot
            | (None, Some _) \<Rightarrow> failS MissingGovernanceBinding
            | (None, None) \<Rightarrow>
                if gv_durable_binding g \<noteq> None \<or> gv_tenant_id g \<noteq> None \<or> gv_agent_id g \<noteq> None
                   \<or> gv_binding_violation g \<noteq> None
                then failS (BindingMismatch
                  ''ungoverned durable run received partially configured governance identity'')
                else returnS (g\<lparr>gv_durable_run := Some (dh_run d)\<rparr>)) (\<lambda>g'.
       returnS (g'\<lparr>gv_durable_store := Some (dh_store d)\<rparr>))))))"

definition with_persisted_durable_driver_approver ::
  "'z contract_env_scheme \<Rightarrow> ('s durable_tool_approver \<Rightarrow> tool_approval_request \<Rightarrow> approval_decision)
    \<Rightarrow> (nat \<Rightarrow> tool_approval_request \<Rightarrow> approval_decision option) \<Rightarrow> driver_handles \<Rightarrow> nat \<Rightarrow> 's store_ops \<Rightarrow> 're governance
    \<Rightarrow> (gov_heap \<times> 's, durable_approver_error, 're governance) smeth"
where
  "with_persisted_durable_driver_approver env answers legacy d timeout_ms ops g =
     bindS (checkS (\<lambda>_. ok_or (gv_policy_snapshot g) MissingPolicySnapshot)) (\<lambda>snapshot.
     bindS (build_approver env legacy snapshot (dh_run d) timeout_ms (Some ops) True (dh_worker_lease d)) (\<lambda>approver hs.
       case with_durable_driver env d (g\<lparr>gv_approver := Some (answers approver),
              gv_durable_approver_authority := Some (driver_authority d)\<rparr>) (fst hs) of
         (r, h) \<Rightarrow> (r, (h, snd hs))))"

end
