(* ===== verification/AuthorizeProps.thy ===== *)
theory AuthorizeProps
  imports Authorize DemoBranch
begin

text \<open>The properties of authorization, with their witnesses.\<close>

subsection \<open>A governed agent\<close>

definition demo_sealed :: policy_snapshot where
  "demo_sealed = \<lparr>ps_policy = \<lparr>pd_schema_version = 1, pd_default_effect = EffAllow, pd_rules = []\<rparr>, ps_hash = demo_hash\<rparr>"

definition demo_heap :: gov_heap where
  "demo_heap = \<lparr>gh_grants = (\<lambda>a. if a = 0 then Some [] else None),
     gh_bindings = (\<lambda>a. if a = 0 then Some [(''r'', demo_binding)] else None), gh_runs = (\<lambda>_. None), gh_next = 1\<rparr>"

definition demo_gov :: "string governance" where
  "demo_gov = \<lparr>gv_permissions = engine_new ModeAsk, gv_hooks = dispatcher_default,
     gv_approver = Some (\<lambda>_. ApproveAllow None [AllowTool]), gv_approved_permissions = 0,
     gv_policy_snapshot = Some demo_sealed, gv_tenant_id = Some ''t'', gv_agent_id = None,
     gv_durable_binding = None, gv_durable_run = None, gv_durable_store = None, gv_durable_approver_authority = None,
     gv_durable_bindings = 0, gv_binding_violation = None\<rparr>"

definition demo_call :: authorization_context where
  "demo_call = \<lparr>ac_run_id = ''r'', ac_turn = 1, ac_tool_use_id = ''u'', ac_tool = ''Write'', ac_input = JNull\<rparr>"

lemma demo_seal: "binding_seal demo_env demo_hash (Some ''t'') None ''r'' = Inr demo_binding"
proof -
  let ?b = "demo_binding\<lparr>gb_binding_hash := []\<rparr>"
  have "binding_validate_shape ?b = Inr ()"
    by (simp add: binding_validate_shape_def demo_binding_def demo_hash_valid validate_binding_id_def
        GOVERNANCE_CONTRACT_VERSION_def)
  moreover have "binding_computed_hash demo_env ?b = Inr demo_hash"
    by (simp add: binding_computed_hash_def canonical_digest_def demo_env_def demo_hash_def)
  ultimately show ?thesis
    by (simp add: binding_seal_def Let_def demo_binding_def GOVERNANCE_CONTRACT_VERSION_def)
qed

lemma demo_authorized: "\<exists>r h'. authorize_detailed_with_context demo_env (=) (\<lambda>_ h. h) demo_gov demo_call demo_heap = (r, h')
   \<and> rp_authorization r = Allowed JNull
   \<and> map_option (map gr_tool) (gh_grants h' 0) = Some [''Write'']"
proof -
  have v: "validate_authorization_binding demo_env demo_gov ''r'' demo_heap = Inr ()"
    by (simp add: validate_authorization_binding_def demo_gov_def demo_heap_def bt_get_def demo_sealed_def demo_seal)
  have hooks: "run_pre_tool_use n (gv_hooks demo_gov) c = HookContinue" for n c
    by (simp add: demo_gov_def run_pre_tool_use_def dispatcher_default_def)
  have e: "pd_outcome (evaluate_permission (=) demo_gov ''r'' ''Write'' JNull) = OAsk"
    by (simp add: evaluate_permission_def demo_gov_def engine_new_def evaluate_detailed_def default_outcome_def
        demo_sealed_def snapshot_evaluate_def matching_rules_def Let_def)
  have sel: "gv_approved_permissions demo_gov = 0" "gh_grants demo_heap 0 = Some []"
      "gv_approver demo_gov = Some (\<lambda>_. ApproveAllow None [AllowTool])"
    by (simp_all add: demo_gov_def demo_heap_def)
  show ?thesis
    using v e
    by (simp add: authorize_detailed_with_context_def demo_call_def hooks ask_permission_def matching_source_def
        after_approval_def approval_recheck_def install_updates_def Let_def grant_insert_def new_grant_def sel)
qed

subsection \<open>Properties\<close>

text \<open>C28: an allowed call may run, and with which input. The input is denied neither by a permission rule
  nor by the sealed policy. Either it is what the enforcing hooks made of the requested input, none of them
  blocking, and the rules allow it outright; or it was approved: what the hooks made of the requested input
  is covered by an earlier approval of the same run and tool, or the approver was asked about exactly that
  input and allowed it, and when the answer carries an updated input, the call runs with what the hooks,
  dispatched again and not blocking, made of that update. All this holds whatever hooks and approver do and
  whatever other tasks do while they are awaited.\<close>

theorem allowed_call_is_authorized:
  assumes "authorize_detailed_with_context env is_match aw g ctx h = (r, h')"
    and "rp_authorization r = Allowed v"
  shows "not_denied is_match g ctx v
    \<and> (passed_hooks 0 g ctx (ac_input ctx) v
         \<and> pd_outcome (evaluate_permission is_match g (ac_run_id ctx) (ac_tool ctx) v) = OAllow
       \<or> approved_for g ctx (aw 0 h) v)"
  using authorize_spec [OF assms(1)] assms(2) by blast

theorem allowed_call_is_authorized_witness:
  "\<exists>r h'. authorize_detailed_with_context demo_env (=) (\<lambda>_ h. h) demo_gov demo_call demo_heap = (r, h')
     \<and> not_denied (=) demo_gov demo_call JNull"
proof -
  from demo_authorized obtain r h' where
    a: "authorize_detailed_with_context demo_env (=) (\<lambda>_ h. h) demo_gov demo_call demo_heap = (r, h')"
       "rp_authorization r = Allowed JNull" by blast
  with allowed_call_is_authorized [OF a] show ?thesis by blast
qed

text \<open>An approval never reaches beyond the run and the tool it was given for: between the last other
  change and its end, an authorization changes nothing but its own approval cache, and adds there only
  grants for its own run and tool; a forked governance starts with an empty cache of its own.\<close>

theorem approvals_stay_with_run:
  assumes "authorize_detailed_with_context env is_match aw g ctx h = (r, h')"
  shows "(\<exists>h1 \<in> awaited aw h. adds_grants g ctx h1 h')
    \<and> (\<forall>f h2. fork_for_run g h = (f, h2) \<longrightarrow>
         gh_grants h2 (gv_approved_permissions f) = Some [] \<and> gv_approved_permissions f = gh_next h
         \<and> (\<forall>a. a \<noteq> gh_next h \<longrightarrow> gh_grants h2 a = gh_grants h a))"
  using authorize_spec [OF assms] by (auto simp: fork_for_run_def)

theorem approvals_stay_with_run_witness:
  "\<exists>r h'. authorize_detailed_with_context demo_env (=) (\<lambda>_ h. h) demo_gov demo_call demo_heap = (r, h')
     \<and> adds_grants demo_gov demo_call demo_heap h'"
proof -
  from demo_authorized obtain r h' where
    a: "authorize_detailed_with_context demo_env (=) (\<lambda>_ h. h) demo_gov demo_call demo_heap = (r, h')" by blast
  with approvals_stay_with_run [OF a] show ?thesis by (auto simp: awaited_def)
qed

text \<open>C29: a call of a run whose durable binding is registered is allowed only under the identity that the
  run pinned: the policy snapshot, tenant, agent and run of the binding, which is valid.\<close>

theorem durable_identity_is_enforced:
  assumes "authorize_detailed_with_context env is_match aw g ctx h = (r, h')"
    and "rp_authorization r = Allowed v"
    and "bt_get (registry h (gv_durable_bindings g)) (ac_run_id ctx) = Some b"
  shows "\<exists>s. gv_policy_snapshot g = Some s \<and> ps_hash s = gb_policy_snapshot_hash b \<and> gv_tenant_id g = gb_tenant_id b
    \<and> gv_agent_id g = gb_agent_id b \<and> ac_run_id ctx = gb_run_id b \<and> binding_validate env b = Inr ()"
proof -
  from authorize_spec [OF assms(1)] assms(2) have "validate_authorization_binding env g (ac_run_id ctx) h = Inr ()" by blast
  from validated_identity [OF this assms(3)] show ?thesis by metis
qed

theorem durable_identity_is_enforced_witness: "binding_validate demo_env demo_binding = Inr ()"
proof -
  from demo_authorized obtain r h' where
    a: "authorize_detailed_with_context demo_env (=) (\<lambda>_ h. h) demo_gov demo_call demo_heap = (r, h')"
       "rp_authorization r = Allowed JNull" by blast
  have "bt_get (registry demo_heap (gv_durable_bindings demo_gov)) (ac_run_id demo_call) = Some demo_binding"
    by (simp add: registry_def demo_heap_def demo_gov_def demo_call_def bt_get_def)
  from durable_identity_is_enforced [OF a this] show ?thesis by blast
qed

subsection \<open>The registry of bindings\<close>

text \<open>The operations that change the registry of a governance value.\<close>

inductive registry_step :: "'re governance \<Rightarrow> gov_heap \<Rightarrow> gov_heap \<Rightarrow> bool" for g where
  register: "register_durable_binding g b h = (r, h') \<Longrightarrow> registry_step g h h'"
| attach: "with_durable_run (env :: durable_env) run g h = (r', h') \<Longrightarrow> registry_step g h h'"
| start: "start_durable_run env' g s i d h = (rs, h') \<Longrightarrow> registry_step g h h'"

lemma registry_step_register:
  "registry_step g h h' \<Longrightarrow> h' = h \<or> (\<exists>b r. register_durable_binding g b h = (r, h'))"
proof (induction rule: registry_step.induct)
  case (attach env run h r' h')
  then show ?case unfolding with_durable_run_def
    by (auto simp: bindS_def checkS_def returnS_def split: prod.splits sum.splits)
next
  case (start env' s i d h rs h')
  then show ?case unfolding start_durable_run_def
    by (auto split: option.splits if_splits sum.splits prod.splits)
qed auto

text \<open>The registry of durable bindings never rebinds a run and never grows beyond its capacity, in any
  sequence of registrations, attachments and starts of runs.\<close>

theorem registered_binding_is_permanent:
  assumes "(registry_step g)\<^sup>*\<^sup>* h h'"
  shows "(\<forall>a i b. bt_get (registry h a) i = Some b \<longrightarrow> bt_get (registry h' a) i = Some b)
    \<and> (\<forall>a. length (registry h a) \<le> MAX_REGISTERED_DURABLE_BINDINGS \<longrightarrow>
           length (registry h' a) \<le> MAX_REGISTERED_DURABLE_BINDINGS)"
  using assms
proof (induction rule: rtranclp_induct)
  case (step h1 h2)
  from registry_step_register [OF step(2)] show ?case
  proof
    assume "\<exists>b r. register_durable_binding g b h1 = (r, h2)"
    then obtain b r where "register_durable_binding g b h1 = (r, h2)" by blast
    from register_spec [OF this] step(3) show ?thesis by blast
  qed (use step(3) in simp)
qed simp

theorem registered_binding_is_permanent_witness:
  "\<exists>h'. registry_step demo_gov demo_heap h' \<and> bt_get (registry h' 0) ''r'' = Some demo_binding"
proof -
  obtain r h' where s: "register_durable_binding demo_gov (demo_binding\<lparr>gb_run_id := ''q''\<rparr>) demo_heap = (r, h')" by force
  then have st: "registry_step demo_gov demo_heap h'" by (rule registry_step.register)
  have "bt_get (registry demo_heap 0) ''r'' = Some demo_binding"
    by (simp add: registry_def demo_heap_def bt_get_def)
  with registered_binding_is_permanent [OF r_into_rtranclp [of "registry_step demo_gov", OF st]]
  have "bt_get (registry h' 0) ''r'' = Some demo_binding" by blast
  with st show ?thesis by blast
qed

end
