(* ===== verification/DemoApproval.thy ===== *)
theory DemoApproval
  imports Approver AuthorizeProps
begin

text \<open>A governed run whose tool call is approved or rejected, for the witnesses of \<open>ApproverProps\<close>.\<close>

text \<open>The environment of the small runs with a digest that does not truncate.\<close>

definition long_env :: durable_env where
  "long_env = demo_env\<lparr>digest := demo_filter\<rparr>"

lemma long_identifier:
  assumes "\<forall>p \<in> set (ns # ps). length p < 48"
  shows "stable_identifier long_env ns ps = ns @ ''_'' @ concat (map demo_filter (ns # ps))"
proof -
  have split: "demo_filter (x @ y) = demo_filter x @ demo_filter y" for x y by (simp add: demo_filter_def)
  have len: "demo_filter (u64_be_string n) = []" if "n < 48" for n
    using that by (simp add: demo_filter_def u64_be_string_small filter_replicate)
  have "demo_filter (concat (map frame qs)) = concat (map demo_filter qs)" if "\<forall>p \<in> set qs. length p < 48" for qs
    using that by (induction qs) (simp_all add: split frame_def len, simp add: demo_filter_def)
  from this [OF assms] show ?thesis
    by (simp add: stable_identifier_def framed_fields_concat long_env_def)
qed

lemma long_envelopes:
  "approval_codec long_env"
  "de_approval_envelope long_env (ser_approval_envelope long_env e) = Inr e"
  "de_resolution_envelope long_env (ser_resolution_envelope long_env f) = Inr f"
  using demo_codec by (simp_all add: approval_codec_def long_env_def)

lemma long_ids:
  "stable_identifier long_env ''branch'' [''r'', ''root''] = ''branch_branchrroot''"
  "stable_identifier long_env ''event'' [''r'', ''run_started''] = ''event_eventrrun_started''"
  "stable_identifier long_env ''event'' [''r'', ''governance_binding_pinned''] = ''event_eventrgovernance_binding_pinned''"
  "stable_identifier long_env ''approval'' [''r'', ''branch_branchrroot'', ''ok''] = ''approval_approvalrbranch_branchrrootok''"
  "stable_identifier long_env ''event'' [''approval_approvalrbranch_branchrrootok'', ''requested'']
    = ''event_eventapproval_approvalrbranch_branchrrootokrequested''"
  "stable_identifier long_env ''event'' [''approval_approvalrbranch_branchrrootok'', ''resolved'',
      ''approval:approval_approvalrbranch_branchrrootok'']
    = ''event_eventapproval_approvalrbranch_branchrrootokresolvedapprovalapproval_approvalrbranch_branchrrootok''"
  "stable_identifier long_env ''event'' [''r'', ''resume'', ''approval:approval_approvalrbranch_branchrrootok'']
    = ''event_eventrresumeapprovalapproval_approvalrbranch_branchrrootok''"
  by (simp_all add: long_identifier demo_filter_def)

lemma long_valid:
  "validate_identifier x ''event_eventrrun_started'' = Inr ()"
  "validate_identifier x ''branch_branchrroot'' = Inr ()"
  "validate_identifier x ''event_eventrgovernance_binding_pinned'' = Inr ()"
  "validate_identifier x ''approval_approvalrbranch_branchrrootok'' = Inr ()"
  "validate_identifier x ''event_eventapproval_approvalrbranch_branchrrootokrequested'' = Inr ()"
  "validate_identifier x ''approval:approval_approvalrbranch_branchrrootok'' = Inr ()"
  "validate_identifier x ''event_eventapproval_approvalrbranch_branchrrootokresolvedapprovalapproval_approvalrbranch_branchrrootok'' = Inr ()"
  "validate_identifier x ''event_eventrresumeapprovalapproval_approvalrbranch_branchrrootok'' = Inr ()"
  "validate_identifier x ''ok'' = Inr ()"
  "validate_identifier x ''r'' = Inr ()"
  "validate_identifier x ''s'' = Inr ()"
  by (simp_all add: validate_identifier_def)

lemma long_binding_valid: "binding_validate long_env demo_binding = Inr ()"
proof -
  have "binding_validate_shape demo_binding = Inr ()"
    by (simp add: binding_validate_shape_def demo_binding_def demo_hash_valid validate_binding_id_def
        GOVERNANCE_CONTRACT_VERSION_def)
  moreover have "binding_computed_hash long_env demo_binding = Inr demo_hash"
    by (simp add: binding_computed_hash_def canonical_digest_def demo_env_def demo_hash_def long_env_def)
  moreover have "gb_binding_hash demo_binding = demo_hash" by (simp add: demo_binding_def)
  ultimately show ?thesis by (simp add: binding_validate_def)
qed

lemmas long_eval = run_eval approval_eval long_envelopes(2,3) long_ids long_valid

lemma binding_simps: "gb_run_id demo_binding = ''r''" "gb_policy_snapshot_hash demo_binding = demo_hash"
  by (simp_all add: demo_binding_def)

definition long0 :: run_state where
  "long0 = \<lparr>rs_schema_version = 3, rs_session_id = ''s'', rs_run_id = ''r'', rs_durability = Sync,
     rs_parent_run_id = None, rs_policy_snapshot_hash = Some demo_hash, rs_governance_binding = Some demo_binding,
     rs_events = [\<lparr>ev_schema_version = 3, ev_run_id = ''r'', ev_sequence = 1,
       ev_event_id = ''event_eventrrun_started'', ev_kind = RunStarted ''s'' Sync ''branch_branchrroot''\<rparr>,
       \<lparr>ev_schema_version = 3, ev_run_id = ''r'', ev_sequence = 2,
       ev_event_id = ''event_eventrgovernance_binding_pinned'', ev_kind = GovernanceBindingPinned demo_binding\<rparr>],
     rs_checkpoints = [],
     rs_projection = \<lparr>pj_branch_id = ''branch_branchrroot'', pj_status = RunRunning, pj_state = JObject [],
       pj_activities = [], pj_approvals = [], pj_artifacts = [], pj_current_checkpoint_id = None,
       pj_pause_reason = None, pj_worker_lease = None\<rparr>\<rparr>"

lemma long0_new: "new_with_governance_binding long_env ''s'' ''r'' Sync demo_binding = Inr long0"
  by (simp add: new_with_governance_binding_def long_binding_valid long_eval long0_def map_err_def binding_simps
      apply_governance_binding_pinned_def branch_defs cong: bindR_weak bindS_weak)

lemma demo_policy_hash: "validate_policy_hash demo_hash = Inr ()"
  by (simp add: validate_policy_hash_def demo_hash_def is_ascii_hexdigit_def list_all_iff)

lemmas approver_eval = long_eval binding_simps long_binding_valid map_err_def demo_policy_hash

definition ask_demo :: tool_approval_request where
  "ask_demo = \<lparr>aq_run_id = ''r'', aq_turn = 1, aq_tool_use_id = ''ok'', aq_tool = ''T'', aq_input = JNull\<rparr>"

definition approver_demo :: "'s store_ops option \<Rightarrow> approval_decision \<Rightarrow> 's durable_tool_approver" where
  "approver_demo store d = \<lparr>da_legacy = (\<lambda>_ _. Some d), da_governance_binding = demo_binding, da_timeout_ms = 10,
     da_store = store, da_shares_poison = False, da_worker_lease = None\<rparr>"

abbreviation "approval_demo \<equiv> ''approval_approvalrbranch_branchrrootok''"

definition demo_durable_request :: approval_request where
  "demo_durable_request = \<lparr>rq_logical_key = ''ok'', rq_activity_id = None, rq_kind = Confirmation,
      rq_prompt = ''Allow tool `T`?'', rq_payload = expected_payload ask_demo,
      rq_policy_snapshot_hash = Some demo_hash, rq_governance_binding = Some demo_binding,
      rq_requested_at = 10, rq_expires_at = 20\<rparr>"

lemma durable_request_demo: "durable_request (approver_demo store d) ask_demo 10 20 = demo_durable_request"
  by (simp add: durable_request_def approver_demo_def ask_demo_def demo_durable_request_def binding_simps)

definition long1 :: run_state where
  "long1 = snd (request_typed_approval long_env demo_durable_request long0)"

lemma long1_run: "request_typed_approval long_env demo_durable_request long0 = (Inr approval_demo, long1)"
proof -
  have "fst (request_typed_approval long_env demo_durable_request long0) = Inr approval_demo"
    by (simp add: approver_eval long0_def demo_durable_request_def cong: bindR_weak bindS_weak)
  then show ?thesis by (simp add: long1_def prod_eq_iff)
qed

definition long2 :: run_state where
  "long2 = snd (apply_command_at long_env (resolution_command approval_demo True
     (approval_decision_payload (ApproveAllow None [AllowTool]))) 15 long1)"

definition long3 :: run_state where
  "long3 = snd (apply_command_at long_env (resolution_command approval_demo False
     (approval_decision_payload (ApproveDeny ''no'' False))) 15 long1)"

lemma long2_run: "apply_command_at long_env (resolution_command approval_demo True
     (approval_decision_payload (ApproveAllow None [AllowTool]))) 15 long1 = (Inr (Resumed 5), long2)"
proof -
  have "fst (apply_command_at long_env (resolution_command approval_demo True
     (approval_decision_payload (ApproveAllow None [AllowTool]))) 15 long1) = Inr (Resumed 5)"
    by (simp add: approver_eval long1_def long0_def demo_durable_request_def resolution_command_def cong: bindR_weak bindS_weak)
  then show ?thesis by (simp add: long2_def prod_eq_iff)
qed

lemma long3_run: "apply_command_at long_env (resolution_command approval_demo False
     (approval_decision_payload (ApproveDeny ''no'' False))) 15 long1 = (Inr (Resumed 5), long3)"
proof -
  have "fst (apply_command_at long_env (resolution_command approval_demo False
     (approval_decision_payload (ApproveDeny ''no'' False))) 15 long1) = Inr (Resumed 5)"
    by (simp add: approver_eval long1_def long0_def demo_durable_request_def resolution_command_def cong: bindR_weak bindS_weak)
  then show ?thesis by (simp add: long3_def prod_eq_iff)
qed

lemma long_reach: "api_reach long_env long0" "api_reach long_env long1" "api_reach long_env long2" "api_reach long_env long3"
proof -
  show r0: "api_reach long_env long0" by (rule run_reached.new_governed [OF long0_new])
  show r1: "api_reach long_env long1" by (rule run_reached.step [OF r0 run_step.request_typed [OF long1_run]])
  show "api_reach long_env long2" by (rule run_reached.step [OF r1 run_step.command_at [OF long2_run]])
  show "api_reach long_env long3" by (rule run_reached.step [OF r1 run_step.command_at [OF long3_run]])
qed

lemma long1_eval:
  "rs_run_id long1 = ''r''" "rs_governance_binding long1 = Some demo_binding"
  "map_option (\<lambda>a. (ap_status a, ap_expires_at a)) (stored_approval long1 approval_demo) = Some (Pending, Some 20)"
  by (simp_all add: approver_eval long1_def long0_def demo_durable_request_def cong: bindR_weak bindS_weak)

lemma long2_eval:
  "rs_run_id long2 = ''r''" "rs_governance_binding long2 = Some demo_binding" "length (rs_events long2) = 5"
  "map_option (\<lambda>a. (ap_status a, ap_timed_out a, ap_response a, ap_logical_key a, matches_action (approver_demo (None :: unit store_ops option) d) ask_demo a))
     (stored_approval long2 approval_demo) = Some (Approved, False, approval_decision_payload (ApproveAllow None [AllowTool]), ''ok'', True)"
  "map fst (st_approvals long2) = [approval_demo]"
  by (simp_all add: approver_eval long2_def long1_def long0_def demo_durable_request_def resolution_command_def
      matches_action_def approver_demo_def cong: bindR_weak bindS_weak)

lemma long3_eval:
  "map_option (\<lambda>a. (ap_status a, ap_timed_out a)) (stored_approval long3 approval_demo) = Some (Rejected, False)"
  "event_by_id long3 (event_id_of long_env [''r'', ''resume'', ''approval:'' @ approval_demo]) \<noteq> None"
  by (simp_all add: approver_eval long3_def long1_def long0_def demo_durable_request_def resolution_command_def
      cong: bindR_weak bindS_weak)

lemma long1_pending:
  "map (\<lambda>ap. (ap_logical_key ap, ap_status ap, ap_expires_at ap, ap_approval_id ap,
      matches_action (approver_demo (None :: unit store_ops option) d) ask_demo ap)) (bt_values (st_approvals long1))
    = [(''ok'', Pending, Some 20, approval_demo, True)]"
  by (simp add: approver_eval long1_def long0_def demo_durable_request_def matches_action_def approver_demo_def
      bt_values_def cong: bindR_weak bindS_weak)

lemma long3_again: "apply_command_at long_env (resolution_command approval_demo True
     (approval_decision_payload (ApproveAllow None []))) 16 long3 = (Inr (Resumed 5), long3)"
  by (simp add: approver_eval long3_def long1_def long0_def demo_durable_request_def resolution_command_def
      cong: bindR_weak bindS_weak)

end
