(* ===== verification/ApproverProps.thy ===== *)
theory ApproverProps
  imports DemoApproval
begin

text \<open>
  What the durable approver guarantees: an allow that it returns is recorded in the run and in the store
  before it is returned, and a recorded answer is the answer of every later call.
\<close>

subsection \<open>What a resume command does to one approval\<close>

definition settled :: "approval_resolution \<Rightarrow> bool \<Rightarrow> durable_approval \<Rightarrow> durable_approval \<Rightarrow> bool" where
  "settled r t ap ap' \<longleftrightarrow> (\<exists>at n. ap' = ap\<lparr>ap_status := (if res_approved r then Approved else Rejected),
     ap_response := res_response r, ap_resolved_at := at, ap_timed_out := (t \<and> ap_expires_at ap \<noteq> None),
     ap_resolved_sequence := Some n\<rparr>)"

lemma resolve_approval_effect:
  assumes "resolve_approval env cmd r (Some now) t st = (Inr u, st')" and "rs_events st \<noteq> []" and "approval_codec env"
  shows "rs_events st' \<noteq> [] \<and> (\<exists>ap. stored_approval st (res_approval_id r) = Some ap \<and> ap_status ap = Pending
     \<and> (st_approvals st' = st_approvals st
        \<or> (\<exists>ap'. settled r t ap ap' \<and> (\<forall>k. stored_approval st' k =
             (if k = res_approval_id r then Some ap' else stored_approval st k)))))"
proof -
  define i where "i = res_approval_id r"
  from assms(1) obtain ap oc where ap: "stored_approval st i = Some ap" "ap_status ap = Pending"
    and e: "emit env (event_id_of env [i, ''resolved'', cmd])
       (ApprovalResolved i (res_approved r)
          (if ap_expires_at ap \<noteq> None
               then Some (JObject [(DURABLE_RESOLUTION_ENVELOPE_KEY, ser_resolution_envelope env
                      \<lparr>re_schema_version = DURABILITY_SCHEMA_VERSION, re_resolved_at = now,
                       re_timed_out = t, re_response = res_response r\<rparr>)])
               else res_response r)) st = (Inr oc, st')"
    by (auto simp: resolve_approval_def result_simps i_def split: if_splits)
  from e assms(2) show ?thesis
  proof (cases rule: emit_cases)
    case (dedup old)
    with ap assms(2) show ?thesis by (auto simp: i_def)
  next
    case (appended c)
    from appended(2) obtain n payload where "apply_approval_resolved env DURABILITY_SCHEMA_VERSION n i (res_approved r)
        (if ap_expires_at ap \<noteq> None
               then Some (JObject [(DURABLE_RESOLUTION_ENVELOPE_KEY, ser_resolution_envelope env
                      \<lparr>re_schema_version = DURABILITY_SCHEMA_VERSION, re_resolved_at = now,
                       re_timed_out = t, re_response = res_response r\<rparr>)])
               else res_response r) st = Inr c"
      by (auto simp: apply_later_event_def)
    from apply_approval_resolved_Inr [OF this] ap(1) obtain d where
      d: "decode_resolution_payload env ap (res_approved r)
        (if ap_expires_at ap \<noteq> None
               then Some (JObject [(DURABLE_RESOLUTION_ENVELOPE_KEY, ser_resolution_envelope env
                      \<lparr>re_schema_version = DURABILITY_SCHEMA_VERSION, re_resolved_at = now,
                       re_timed_out = t, re_response = res_response r\<rparr>)])
               else res_response r) DURABILITY_SCHEMA_VERSION = Inr d"
      and c: "c = map_projection (\<lambda>p. p\<lparr>pj_approvals :=
         bt_modify i (resolved_approval (res_approved r) n d) (pj_approvals p)\<rparr>) st" by auto
    from d assms(3) have "dr_response d = res_response r" "dr_timed_out d = (t \<and> ap_expires_at ap \<noteq> None)"
      by (auto simp: decode_resolution_payload_def approval_codec_def result_simps split: if_splits)
    then have "settled r t ap (resolved_approval (res_approved r) n d ap)"
      by (auto simp: settled_def resolved_approval_def)
    moreover have "stored_approval st' k = (if k = i then Some (resolved_approval (res_approved r) n d ap)
        else stored_approval st k)" for k
      using appended(3) c ap(1) by (simp add: map_projection_def bt.lookup_modify)
    ultimately show ?thesis using ap appended(3) unfolding i_def by auto
  qed
qed


lemma settled_not_pending: "settled r t ap ap' \<Longrightarrow> ap_status ap' \<noteq> Pending"
  by (auto simp: settled_def split: if_splits)

lemma resolve_each_effect:
  assumes "resolve_each env cmd (Some now) t rs st = (Inr u, st')" and "rs_events st \<noteq> []" and "approval_codec env"
  shows "rs_events st' \<noteq> [] \<and> (\<forall>r \<in> set rs. \<exists>ap. stored_approval st (res_approval_id r) = Some ap \<and> ap_status ap = Pending)
     \<and> (\<forall>k. stored_approval st' k = stored_approval st k \<or> (\<exists>r \<in> set rs. res_approval_id r = k \<and> (\<exists>ap ap'.
          stored_approval st k = Some ap \<and> stored_approval st' k = Some ap' \<and> settled r t ap ap')))"
  using assms(1,2)
proof (induction rs arbitrary: st)
  case Nil
  then show ?case by (simp add: result_simps)
next
  case (Cons r rs)
  then obtain st1 where r: "resolve_approval env cmd r (Some now) t st = (Inr (), st1)"
    and rs: "resolve_each env cmd (Some now) t rs st1 = (Inr u, st')" by (auto simp: result_simps)
  note e = resolve_approval_effect [OF r Cons.prems(2) assms(3)]
  then obtain ap where ne: "rs_events st1 \<noteq> []" and ap: "stored_approval st (res_approval_id r) = Some ap" "ap_status ap = Pending"
    and ch: "st_approvals st1 = st_approvals st \<or> (\<exists>ap'. settled r t ap ap' \<and> (\<forall>k. stored_approval st1 k =
             (if k = res_approval_id r then Some ap' else stored_approval st k)))" by blast
  note ih = Cons.IH [OF rs ne]
  from ch show ?case
  proof
    assume "st_approvals st1 = st_approvals st"
    then have same: "stored_approval st1 = stored_approval st" by auto
    with ih ap show ?thesis unfolding same by auto
  next
    assume "\<exists>ap'. settled r t ap ap' \<and> (\<forall>k. stored_approval st1 k =
             (if k = res_approval_id r then Some ap' else stored_approval st k))"
    then obtain ap' where s: "settled r t ap ap'"
      "\<And>k. stored_approval st1 k = (if k = res_approval_id r then Some ap' else stored_approval st k)" by blast
    have np: "ap_status ap' \<noteq> Pending" using s(1) by (rule settled_not_pending)
    have other: "\<forall>r' \<in> set rs. res_approval_id r' \<noteq> res_approval_id r" using ih np unfolding s(2) by auto
    show ?thesis
    proof (intro conjI allI)
      show "rs_events st' \<noteq> []" using ih by blast
      show "\<forall>r \<in> set (r # rs). \<exists>ap. stored_approval st (res_approval_id r) = Some ap \<and> ap_status ap = Pending"
        using ih ap other unfolding s(2) by auto
    next
      fix k
      show "stored_approval st' k = stored_approval st k \<or> (\<exists>r \<in> set (r # rs). res_approval_id r = k \<and> (\<exists>ap ap'.
          stored_approval st k = Some ap \<and> stored_approval st' k = Some ap' \<and> settled r t ap ap'))"
      proof (cases "k = res_approval_id r")
        case True
        with ih other have "stored_approval st' k = stored_approval st1 k" by blast
        with True s ap show ?thesis by auto
      next
        case False
        with s(2) [of k] have "stored_approval st1 k = stored_approval st k" by simp
        with ih show ?thesis by (metis list.set_intros(2))
      qed
    qed
  qed
qed

lemma pending_ids_Nil: "pending_approval_ids (rs_projection st) = [] \<Longrightarrow> stored_approval st k = Some ap \<Longrightarrow> ap_status ap \<noteq> Pending"
  by (auto simp: pending_approval_ids_def bt_get_def bt_values_def filter_empty_conv dest!: map_of_SomeD)

lemma resume_candidate_effect:
  assumes "resume_candidate env cmd ev [r] (Some now) st = (Inr oc, st')" and "rs_events st \<noteq> []" and "approval_codec env"
    and "stored_approval st' (res_approval_id r) = Some ap'"
  shows "\<exists>ap. stored_approval st (res_approval_id r) = Some ap \<and> ap_status ap = Pending
     \<and> (if res_approval_id r \<in> set (expired_approval_ids now st)
        then settled (timeout_resolution (res_approval_id r)) True ap ap' else settled r False ap ap')"
proof -
  let ?k = "res_approval_id r" and ?ex = "expired_approval_ids now st"
  from assms(1) obtain st1 st2 n x y z where
      a: "resolve_each env cmd (Some now) True (map timeout_resolution ?ex) st = (Inr x, st1)"
    and b: "resolve_each env cmd (Some now) False (filter (\<lambda>r. res_approval_id r \<notin> set ?ex) [r]) st1 = (Inr y, st2)"
    and z: "(if pending_approval_ids (rs_projection st2) \<noteq> [] then Inl PendingApprovals else Inr ()) = Inr z"
    and e: "emit env ev RunResumed st2 = (Inr n, st')"
    unfolding resume_candidate_def Let_def bindS_Inr checkS_iff returnS_iff option.case
    by blast
  have p: "pending_approval_ids (rs_projection st2) = []" using z by (simp split: if_splits)
  note ea = resolve_each_effect [OF a assms(2,3)]
  then have "rs_events st1 \<noteq> []" by blast
  note eb = resolve_each_effect [OF b this assms(3)]
  then have "rs_events st2 \<noteq> []" by blast
  with e have "stored_approval st' = stored_approval st2"
  proof (cases rule: emit_cases)
    case (appended c)
    from appended(2) have "apply_run_resumed st2 = Inr c" by (simp add: apply_later_event_def)
    from apply_run_resumed_Inr(4) [OF this] appended(3) show ?thesis by (simp add: set_status_def map_projection_def)
  qed simp
  with assms(4) have k2: "stored_approval st2 ?k = Some ap'" by simp
  with pending_ids_Nil [OF p] have np: "ap_status ap' \<noteq> Pending" by blast
  show ?thesis
  proof (cases "?k \<in> set ?ex")
    case True
    with ea obtain ap where ap: "stored_approval st ?k = Some ap" "ap_status ap = Pending"
      by (force simp: timeout_resolution_def)
    from True b have "st2 = st1" by (simp add: result_simps)
    with k2 have k1: "stored_approval st1 ?k = Some ap'" by simp
    with np ap have "stored_approval st1 ?k \<noteq> stored_approval st ?k" by auto
    with ea obtain r' ap0 ap1 where "r' \<in> set (map timeout_resolution ?ex)" "res_approval_id r' = ?k"
      "stored_approval st ?k = Some ap0" "stored_approval st1 ?k = Some ap1" "settled r' True ap0 ap1" by blast
    with k1 ap(1) have "r' \<in> set (map timeout_resolution ?ex)" "res_approval_id r' = ?k" "settled r' True ap ap'" by auto
    with ap True show ?thesis by (auto simp: timeout_resolution_def)
  next
    case False
    with eb obtain ap where ap: "stored_approval st1 ?k = Some ap" "ap_status ap = Pending" by auto
    from False ea have "stored_approval st1 ?k = stored_approval st ?k" by (fastforce simp: timeout_resolution_def)
    moreover have "settled r False ap ap'"
    proof -
      from k2 np ap have "stored_approval st2 ?k \<noteq> stored_approval st1 ?k" by auto
      with eb obtain r' ap0 ap1 where "r' \<in> set (filter (\<lambda>r. res_approval_id r \<notin> set ?ex) [r])"
        "stored_approval st1 ?k = Some ap0" "stored_approval st2 ?k = Some ap1" "settled r' False ap0 ap1" by blast
      with k2 ap(1) show ?thesis by (auto split: if_splits)
    qed
    ultimately show ?thesis using ap False by (metis (full_types))
  qed
qed

lemma expired_iff:
  assumes "approvals_ok (st_approvals st)"
  shows "i \<in> set (expired_approval_ids now st) \<longleftrightarrow>
    (\<exists>ap x. stored_approval st i = Some ap \<and> ap_status ap = Pending \<and> ap_expires_at ap = Some x \<and> x \<le> now)"
proof -
  have "v \<in> set (bt_values (st_approvals st)) \<longleftrightarrow> (\<exists>k. stored_approval st k = Some v)" for v
    using bt_values_iff [of "st_approvals st"] assms by (simp add: approvals_ok_def)
  moreover have "ap_approval_id v = k" if "stored_approval st k = Some v" for k v
    using assms that by (auto simp: approvals_ok_def approval_ok_def)
  ultimately show ?thesis by (auto simp: expired_approval_ids_def image_iff split: option.splits)
qed

lemma apply_resolution_effect:
  assumes "apply_command_at env (resolution_command i approved response) now st = (Inr oc, st')" and "st' \<noteq> st"
    and "rs_events st \<noteq> []" and "approval_codec env" and "approvals_ok (st_approvals st)"
    and "stored_approval st' i = Some ap'"
  shows "(\<exists>ap. stored_approval st i = Some ap \<and> ap_status ap = Pending)
    \<and> (if i \<in> set (expired_approval_ids now st) then ap_status ap' = Rejected \<and> ap_timed_out ap'
     else ap_status ap' = (if approved then Approved else Rejected) \<and> \<not> ap_timed_out ap' \<and> ap_response ap' = response)"
proof -
  let ?r = "\<lparr>res_approval_id = i, res_approved = approved, res_response = response\<rparr>"
  from assms(1,2) obtain ev where "resume_candidate env (''approval:'' @ i) ev [?r] (Some now) st = (Inr oc, st')"
    by (auto simp: apply_command_at_def resolution_command_def resume_def Let_def result_simps
        split: option.splits if_splits)
  from resume_candidate_effect [OF this assms(3,4), unfolded approval_resolution.simps, OF assms(6)]
  obtain ap where ap: "stored_approval st i = Some ap" "ap_status ap = Pending"
    "if i \<in> set (expired_approval_ids now st) then settled (timeout_resolution i) True ap ap' else settled ?r False ap ap'"
    by blast
  show ?thesis
  proof (cases "i \<in> set (expired_approval_ids now st)")
    case True
    with ap expired_iff [OF assms(5)] have "ap_expires_at ap \<noteq> None" by auto
    with ap True show ?thesis by (auto simp: settled_def timeout_resolution_def)
  next
    case False
    with ap show ?thesis by (auto simp: settled_def)
  qed
qed

subsection \<open>The recorded response\<close>

text \<open>What is left of a decision in its recorded response: an input that is rewritten to \<open>null\<close> is read
  back as no rewrite.\<close>

definition as_recorded :: "approval_decision \<Rightarrow> approval_decision" where
  "as_recorded d = (case d of ApproveAllow (Some JNull) us \<Rightarrow> ApproveAllow None us | _ \<Rightarrow> d)"

lemma permissions_roundtrip: "permissions_of (map (\<lambda>u. JString (update_name u)) us) = Inr us"
proof (induction us)
  case (Cons u us)
  then show ?case by (cases u) (simp_all add: permission_of_name_def as_str_def update_name_def bindR_def)
qed simp

lemma decision_roundtrip:
  assumes "ap_response ap = approval_decision_payload d" and "\<not> ap_timed_out ap"
    and "ap_status ap = (if is_allow d then Approved else Rejected)"
  shows "durable_approval_decision ap = Inr (as_recorded d)"
proof (cases d)
  case (ApproveAllow u us)
  then show ?thesis using assms permissions_roundtrip [of us]
    by (cases u) (auto simp: durable_approval_decision_def approval_decision_payload_def as_object_def ok_or_def
        bindR_def as_str_def as_array_def is_null_def as_recorded_def is_allow_def comp_def split: json.splits)
next
  case (ApproveDeny m b)
  then show ?thesis using assms
    by (auto simp: durable_approval_decision_def approval_decision_payload_def as_object_def ok_or_def
        bindR_def as_str_def as_bool_def as_recorded_def is_allow_def)
qed

subsection \<open>Committing through a store\<close>

text \<open>A replacement that resolves an approval brings new events, so a repeated command is never stored.\<close>

lemma resolution_is_new:
  assumes "validate_swap c (last_sequence st) cur st lease (Some i) = Inr ()" and "log_ok st"
    and "length (rs_events st) \<le> u64_max"
  shows False
  using assms(1)
proof (rule validate_swapD)
  fix now
  assume last: "last_sequence cur = last_sequence st" and a: "validate_append_only cur st = Inr ()"
    and d: "\<And>j. Some i = Some j \<Longrightarrow> validate_approval_resolution_deadline cur st j now = Inr ()"
  from validate_append_onlyD(3) [OF a] obtain new where new: "rs_events st = rs_events cur @ new" by blast
  let ?n = "length (rs_events cur)"
  have len: "last_sequence st = length (rs_events st)" using last_sequence_log [OF assms(2)] assms(3) by simp
  moreover have "last_sequence cur = ?n"
  proof (cases "rs_events cur = []")
    case False
    then have "?n - 1 < length (rs_events st)" using new by (cases "rs_events cur") auto
    with assms(2) have "ev_sequence (rs_events st ! (?n - 1)) = min (?n - 1 + 1) u64_max" unfolding log_ok_def by blast
    with False new assms(3) have "ev_sequence (rs_events cur ! (?n - 1)) = ?n" by (simp add: nth_append)
    with False show ?thesis by (simp add: last_sequence_def last_opt_def last_conv_nth)
  qed (simp add: last_sequence_def last_opt_def)
  ultimately have "new = []" using last new by simp
  with d [of i] new show False
    by (auto simp: validate_approval_resolution_deadline_def bindR_def split: option.splits if_splits)
qed

text \<open>The approver changes the run only by operations of its interface.\<close>

definition run_reach :: "durable_env \<Rightarrow> 's approver_world \<Rightarrow> bool" where
  "run_reach env w \<longleftrightarrow> (\<forall>st. aw_run w = Some st \<longrightarrow> api_reach env st)"

lemma set_poison_run [simp]: "aw_run (set_poison a w) = aw_run w"
  by (simp add: set_poison_def)

lemma commit_run:
  "commit_candidate a run candidate p w = (r, w') \<Longrightarrow> aw_run w' = aw_run w \<or> aw_run w' = Some candidate"
  by (auto simp: commit_candidate_def Let_def split: option.splits prod.splits sum.splits if_splits)

lemma clock_run: "approval_clock_unix_ms a sys w = (r, w') \<Longrightarrow> aw_run w' = aw_run w"
  by (auto simp: approval_clock_unix_ms_def split: option.splits prod.splits sum.splits)

lemma verify_run: "verify_current a run w = (r, w') \<Longrightarrow> aw_run w' = aw_run w"
  by (auto simp: verify_current_def split: option.splits sum.splits if_splits)

lemma verified_loads:
  assumes "verify_current a run w = (Inr u, w')" and "da_store a = Some ops"
  shows "so_load ops (rs_run_id run) (aw_store w') = Inr run"
  using assms by (auto simp: verify_current_def split: sum.splits if_splits)

lemma pending_request_reach:
  assumes "pending_request env a r t w = (res, w')" and "run_reach env w"
  shows "run_reach env w'"
proof -
  have step: "api_reach env candidate" if "request_typed_approval env rq run = (v, candidate)" "aw_run w = Some run" for rq run v candidate
    using that assms(2) run_reached.step [OF _ run_step.request_typed] by (auto simp: run_reach_def)
  show ?thesis
  proof (cases "aw_run w' = aw_run w")
    case True
    with assms(2) show ?thesis by (simp add: run_reach_def)
  next
    case False
    with assms(1) show ?thesis
      by (auto simp: pending_request_def Let_def run_reach_def split: option.splits prod.splits sum.splits if_splits
          list.splits approval_status.splits dest!: verify_run commit_run dest: step)
  qed
qed

text \<open>The two ways to an approval: an earlier record of the very same action, or a pending request.\<close>

definition approval_of :: "durable_env \<Rightarrow> 's durable_tool_approver \<Rightarrow> tool_approval_request \<Rightarrow> 's approver_world \<Rightarrow> string \<Rightarrow> bool" where
  "approval_of env a r w i \<longleftrightarrow>
     (\<exists>st ap. aw_run w = Some st \<and> stored_approval st i = Some ap \<and> matches_action a r ap \<and> ap_logical_key ap = aq_tool_use_id r)
     \<or> (\<exists>t x v v'. pending_request env a r t v = (Inr (i, x), v'))"

lemma decision_allow_status:
  assumes "durable_approval_decision ap = Inr (ApproveAllow u us)"
  shows "ap_status ap = Approved \<and> u \<noteq> Some JNull"
  using assms
  by (auto simp: durable_approval_decision_def decision_deny_def Let_def result_simps is_null_def split: if_splits option.splits)

lemma replayed_allow:
  assumes "pending_request env a r t w = (Inl (ApproveAllow u us), w')" and "run_reach env w"
  obtains run i ap v where "aw_run w' = Some run" "verify_current a run w = (Inr v, w')" "stored_approval run i = Some ap"
    "matches_action a r ap" "ap_logical_key ap = aq_tool_use_id r" "durable_approval_decision ap = Inr (ApproveAllow u us)"
proof -
  from assms(1) obtain run ap v where run: "aw_run w = Some run" "verify_current a run w = (Inr v, w')"
    "filter (\<lambda>ap. ap_logical_key ap = aq_tool_use_id r) (bt_values (st_approvals run)) = [ap]"
    "matches_action a r ap" "durable_approval_decision ap = Inr (ApproveAllow u us)"
    by (auto simp: pending_request_def Let_def fail_closed_def split: option.splits prod.splits sum.splits if_splits
          list.splits approval_status.splits)
  have "approvals_ok (st_approvals run)"
    using assms(2) run(1) api_reach_ok by (auto simp: run_reach_def run_ok_def state_ok_def proj_ok_def)
  moreover from run(3) have "ap \<in> set (bt_values (st_approvals run))" "ap_logical_key ap = aq_tool_use_id r"
    by (auto simp: filter_eq_Cons_iff)
  ultimately obtain i where "stored_approval run i = Some ap" by (auto simp: approvals_ok_def bt_values_iff)
  with run verify_run [OF run(2)] \<open>ap_logical_key ap = _\<close> show thesis by (intro that) auto
qed

text \<open>An allow that is recorded, in the run and in the store.\<close>

definition recorded_allow :: "'s store_ops \<Rightarrow> 's approver_world \<Rightarrow> string \<Rightarrow> approval_decision \<Rightarrow> bool" where
  "recorded_allow ops w i d \<longleftrightarrow> (\<exists>st ap. aw_run w = Some st \<and> so_load ops (rs_run_id st) (aw_store w) = Inr st
     \<and> stored_approval st i = Some ap \<and> ap_status ap = Approved \<and> durable_approval_decision ap = Inr d)"

context store_contract
begin

lemma commit_Inr:
  assumes "commit_candidate a run candidate p w = (Inr u, w')" and "da_store a = Some ops"
  shows "aw_run w' = Some candidate \<and> so_load ops (rs_run_id candidate) (aw_store w') = Inr candidate
    \<and> (\<forall>i. p = Some i \<longrightarrow> (\<exists>c cur. validate_swap c (last_sequence run) cur candidate (da_worker_lease a) (Some i) = Inr ()))"
  using assms
  by (auto simp: commit_candidate_def Let_def split: prod.splits sum.splits option.splits)
    (metis cas_Inr fenced_Inr approval_Inr)+

text \<open>What the second half records, when it answers with the given decision.\<close>

lemma commit_resolution:
  assumes "apply_command_at env (resolution_command i approved response) now run = (Inr oc, candidate)"
    and "commit_candidate a run candidate (Some i) w = (Inr u, w')" and "da_store a = Some ops"
    and "api_reach env run" and "length (rs_events candidate) \<le> u64_max" and "approval_codec env"
    and "stored_approval candidate i = Some ap"
  shows "(\<exists>ap0. stored_approval run i = Some ap0 \<and> ap_status ap0 = Pending)
    \<and> (if i \<in> set (expired_approval_ids now run) then ap_status ap = Rejected \<and> ap_timed_out ap
     else ap_status ap = (if approved then Approved else Rejected) \<and> \<not> ap_timed_out ap \<and> ap_response ap = response)"
proof (rule apply_resolution_effect [OF assms(1) _ api_reach_nonempty [OF assms(4)] assms(6) _ assms(7)])
  show "approvals_ok (st_approvals run)"
    using api_reach_ok [OF assms(4)] by (simp add: run_ok_def state_ok_def proj_ok_def)
  show "candidate \<noteq> run"
  proof
    assume "candidate = run"
    with commit_Inr [OF assms(2,3)] assms(5) resolution_is_new [OF _ run_built_log [OF api_reach_built [OF assms(4)]]]
    show False by blast
  qed
qed

lemma timeout_denies:
  assumes "record_timeout env a i run observed w = (out, w')" and "da_store a = Some ops"
    and "api_reach env run" and "\<forall>st. aw_run w' = Some st \<longrightarrow> length (rs_events st) \<le> u64_max" and "approval_codec env"
    and "stored_approval run i = Some ap0" and "ap_expires_at ap0 = Some x" and "x \<le> observed"
  shows "answer_of decision out \<noteq> Answered (ApproveAllow u us)"
proof (cases "apply_command_at env (resolution_command i False (Some timeout_response)) observed run")
  case (Pair r candidate)
  show ?thesis
  proof (cases "\<exists>oc ap v w1. r = Inr oc \<and> stored_approval candidate i = Some ap
      \<and> commit_candidate a run candidate (Some i) w = (Inr v, w1)")
    case True
    then obtain oc ap v w1 where c: "r = Inr oc" "stored_approval candidate i = Some ap"
      "commit_candidate a run candidate (Some i) w = (Inr v, w1)" by blast
    with Pair assms(1) have out: "out = Outcome (ap_status ap) (ap_timed_out ap)" "w1 = w'"
      by (auto simp: record_timeout_def)
    from commit_Inr [OF c(3) assms(2)] assms(4) out(2) have "length (rs_events candidate) \<le> u64_max" by blast
    note res = commit_resolution [OF Pair [unfolded c(1)] c(3) assms(2,3) this assms(5) c(2)]
    have "approvals_ok (st_approvals run)"
      using api_reach_ok [OF assms(3)] by (simp add: run_ok_def state_ok_def proj_ok_def)
    with res assms(6-8) have "i \<in> set (expired_approval_ids observed run)" by (auto simp: expired_iff)
    with res out show ?thesis by (simp add: answer_of_def decision_deny_def)
  next
    case False
    with Pair assms(1) show ?thesis
      by (auto simp: record_timeout_def answer_of_def fail_closed_def split: sum.splits option.splits prod.splits)
  qed
qed

lemma resolution_recorded:
  assumes "record_resolution env a i (is_allow d) (approval_decision_payload d) now w = (out, w')"
    and "answer_of d out = Answered (ApproveAllow u us)" and "da_store a = Some ops"
    and "\<forall>st. aw_run w = Some st \<longrightarrow> api_reach env st"
    and "\<forall>st. aw_run w' = Some st \<longrightarrow> length (rs_events st) \<le> u64_max" and "approval_codec env"
  shows "recorded_allow ops w' i (as_recorded (ApproveAllow u us))"
proof -
  obtain run r candidate where run: "aw_run w = Some run"
    and cmd: "apply_command_at env (resolution_command i (is_allow d) (approval_decision_payload d)) now run = (r, candidate)"
    using assms(1,2) by (cases "aw_run w") (force simp: record_resolution_def answer_of_def fail_closed_def)+
  have reach: "api_reach env run" using assms(4) run by blast
  obtain oc ap where r: "r = Inr oc" and ap: "stored_approval candidate i = Some ap"
    using assms(1,2) run cmd
    by (auto simp: record_resolution_def answer_of_def fail_closed_def split: sum.splits option.splits)
  obtain v w1 where c: "commit_candidate a run candidate (Some i) w = (v, w1)" by force
  show ?thesis
  proof (cases v)
    case (Inr x)
    with assms(1) run cmd r ap c have out: "out = Outcome (ap_status ap) (ap_timed_out ap)" "w1 = w'"
      by (auto simp: record_resolution_def)
    note commit = commit_Inr [OF c [unfolded Inr] assms(3)]
    with assms(5) out(2) have "length (rs_events candidate) \<le> u64_max" by blast
    note res = commit_resolution [OF cmd [unfolded r] c [unfolded Inr] assms(3) reach this assms(6) ap]
    from assms(2) out(1) have d: "d = ApproveAllow u us" "\<not> ap_timed_out ap"
      by (auto simp: answer_of_def decision_deny_def fail_closed_def split: approval_status.splits bool.splits)
    with res have s: "ap_status ap = Approved" "ap_response ap = approval_decision_payload d"
      by (auto simp: is_allow_def split: if_splits)
    with d have "durable_approval_decision ap = Inr (as_recorded (ApproveAllow u us))"
      using decision_roundtrip [of ap d] by (simp add: is_allow_def)
    with commit s ap out(2) show ?thesis unfolding recorded_allow_def by blast
  next
    case (Inl e)
    show ?thesis
    proof (cases "\<exists>obs. e = ApprovalExpired (rs_run_id run) i obs \<and> out = fst (record_timeout env a i run obs w1)
        \<and> w' = snd (record_timeout env a i run obs w1)
        \<and> (\<exists>ap0 x. stored_approval run i = Some ap0 \<and> ap_expires_at ap0 = Some x \<and> x \<le> obs)
        \<and> ap_status ap = Approved \<and> \<not> ap_timed_out ap")
      case True
      then obtain obs ap0 x where t: "record_timeout env a i run obs w1 = (out, w')"
        "stored_approval run i = Some ap0" "ap_expires_at ap0 = Some x" "x \<le> obs" by auto
      from timeout_denies [OF t(1) assms(3) reach assms(5,6) t(2-4)] assms(2) show ?thesis by blast
    next
      case False
      with assms(1,2) run cmd r ap c Inl show ?thesis
        by (auto simp: record_resolution_def answer_of_def fail_closed_def
            split: store_error.splits option.splits if_splits)
    qed
  qed
qed

lemma approve_recorded:
  assumes "approve env others sys a r w = (Answered (ApproveAllow u us), w')" and "da_store a = Some ops"
    and "run_reach env w" and "\<And>k v. run_reach env v \<Longrightarrow> run_reach env (others k v)"
    and "\<forall>st. aw_run w' = Some st \<longrightarrow> length (rs_events st) \<le> u64_max" and "approval_codec env"
  shows "\<exists>i. recorded_allow ops w' i (as_recorded (ApproveAllow u us)) \<and> approval_of env a r w' i"
proof -
  obtain t w1 where clock: "approval_clock_unix_ms a (sys 0) (others 0 w) = (t, w1)" by force
  from assms(3,4) clock_run [OF clock] have r1: "run_reach env w1" by (simp add: run_reach_def)
  from assms(1) clock obtain now where t: "t = Inr now"
    by (auto simp: approve_def fail_closed_def split: sum.splits if_splits)
  obtain res w2 where pend: "pending_request env a r now w1 = (res, w2)" by force
  from pending_request_reach [OF pend r1] have r2: "run_reach env w2" .
  show ?thesis
  proof (cases res)
    case (Inl d)
    with assms(1) clock t pend have d: "d = ApproveAllow u us" "w2 = w'" by (auto simp: approve_def fail_closed_def split: if_splits)
    from replayed_allow [OF pend [unfolded Inl d(1)] r1] obtain run i ap v where
      p: "aw_run w2 = Some run" "verify_current a run w1 = (Inr v, w2)" "stored_approval run i = Some ap"
      "matches_action a r ap" "ap_logical_key ap = aq_tool_use_id r" "durable_approval_decision ap = Inr (ApproveAllow u us)" .
    from decision_allow_status [OF p(6)] have "ap_status ap = Approved" "as_recorded (ApproveAllow u us) = ApproveAllow u us"
      by (auto simp: as_recorded_def split: option.splits json.splits)
    with p verified_loads [OF p(2) assms(2)] d(2) show ?thesis unfolding recorded_allow_def approval_of_def by metis
  next
    case (Inr q)
    obtain i x where q: "q = (i, x)" by force
    let ?rem = "saturating_sub x now"
    define w3 where "w3 = (if ?rem = 0 then w2 else others 1 w2)"
    have r3: "run_reach env w3" using r2 assms(4) by (simp add: w3_def)
    from assms(1) clock t pend Inr q obtain d where cb: "?rem \<noteq> 0" "da_legacy a ?rem r = Some d"
      by (auto simp: approve_def Let_def answer_of_def decision_deny_def fail_closed_def
          split: if_splits option.splits prod.splits outcome.splits approval_status.splits bool.splits)
    obtain t4 w4 where c4: "approval_clock_unix_ms a (sys 1) w3 = (t4, w4)" by force
    from assms(1) clock t pend Inr q cb c4 obtain now4 where t4: "t4 = Inr now4"
      by (auto simp: approve_def Let_def w3_def fail_closed_def split: if_splits sum.splits)
    obtain out w5 where rec: "record_resolution env a i (is_allow d) (approval_decision_payload d) now4 w4 = (out, w5)" by force
    from assms(1) clock t pend Inr q cb c4 t4 rec have ans: "answer_of d out = Answered (ApproveAllow u us)" "w5 = w'"
      by (auto simp: approve_def Let_def w3_def fail_closed_def split: if_splits)
    from r3 clock_run [OF c4] have "\<forall>st. aw_run w4 = Some st \<longrightarrow> api_reach env st" by (simp add: run_reach_def)
    from resolution_recorded [OF rec ans(1) assms(2) this _ assms(6)] assms(5) ans(2)
    have "recorded_allow ops w' i (as_recorded (ApproveAllow u us))" by blast
    moreover have "approval_of env a r w' i" using pend Inr q unfolding approval_of_def by blast
    ultimately show ?thesis by blast
  qed
qed

end

text \<open>The approver changes the run only by operations of its interface, also when it fails.\<close>

lemma record_timeout_reach:
  assumes "record_timeout env a i run now w = (out, w')" and "run_reach env w" and "api_reach env run"
  shows "run_reach env w'"
proof -
  have step: "api_reach env c" if "apply_command_at env cmd t run = (v, c)" for cmd t v c
    using run_reached.step [OF assms(3) run_step.command_at [OF that]] .
  show ?thesis
    using assms(1,2)
    by (auto simp: record_timeout_def run_reach_def split: prod.splits sum.splits option.splits dest!: commit_run dest: step)
qed

lemma record_resolution_reach:
  assumes "record_resolution env a i ok response now w = (out, w')" and "run_reach env w"
  shows "run_reach env w'"
proof (cases "aw_run w")
  case None
  with assms show ?thesis by (simp add: record_resolution_def)
next
  case (Some run)
  with assms(2) have reach: "api_reach env run" by (simp add: run_reach_def)
  obtain v c where cmd: "apply_command_at env (resolution_command i ok response) now run = (v, c)" by force
  from run_reached.step [OF reach run_step.command_at [OF cmd]] have c: "api_reach env c" .
  obtain u w1 where commit: "commit_candidate a run c (Some i) w = (u, w1)" by force
  from commit_run [OF commit] Some assms(2) c have w1: "run_reach env w1" by (auto simp: run_reach_def)
  from assms(1) Some cmd commit consider "w' = w" | "w' = w\<lparr>aw_run := None\<rparr>" | "w' = w1"
    | obs where "record_timeout env a i run obs w1 = (out, w')"
    by (auto simp: record_resolution_def split: sum.splits option.splits store_error.splits if_splits)
  then show ?thesis
    by cases (use assms(2) w1 record_timeout_reach [OF _ w1 reach] in \<open>auto simp: run_reach_def\<close>)
qed

lemma approve_reach:
  assumes "approve env others sys a r w = (x, w')" and "run_reach env w"
    and "\<And>k v. run_reach env v \<Longrightarrow> run_reach env (others k v)"
  shows "run_reach env w'"
proof -
  have clock: "run_reach env v'" if "approval_clock_unix_ms a t v = (q, v')" "run_reach env v" for t v q v'
    using that clock_run by (fastforce simp: run_reach_def)
  obtain t w1 where c1: "approval_clock_unix_ms a (sys 0) (others 0 w) = (t, w1)" by force
  have r1: "run_reach env w1" by (rule clock [OF c1 assms(3) [OF assms(2)]])
  obtain res w2 where pend: "pending_request env a r (case t of Inr now \<Rightarrow> now | _ \<Rightarrow> 0) w1 = (res, w2)" by force
  from pending_request_reach [OF pend r1] have r2: "run_reach env w2" .
  obtain i x where q: "(case res of Inr q \<Rightarrow> q | _ \<Rightarrow> ([], 0)) = (i, x)" by force
  let ?rem = "saturating_sub x (case t of Inr now \<Rightarrow> now | _ \<Rightarrow> 0)"
  define w3 where "w3 = (if ?rem = 0 then w2 else others 1 w2)"
  have r3: "run_reach env w3" using r2 assms(3) by (simp add: w3_def)
  obtain t4 w4 where c4: "approval_clock_unix_ms a (sys 1) w3 = (t4, w4)" by force
  have r4: "run_reach env w4" by (rule clock [OF c4 r3])
  have "w' \<in> {w, w1, w2, w4} \<or> (\<exists>ok response now out. record_resolution env a i ok response now w3 = (out, w')
      \<or> record_resolution env a i ok response now w4 = (out, w'))"
    using assms(1) c1 pend q c4 by (auto simp: approve_def Let_def w3_def split: if_splits sum.splits prod.splits option.splits)
  with assms(2) r1 r2 r4 record_resolution_reach r3 show ?thesis by blast
qed

subsection \<open>Answering from the record\<close>

lemma unique_values:
  assumes "bt_ok m" and "bt_get m k = Some v" and "q v" and "\<And>j u. bt_get m j = Some u \<Longrightarrow> q u \<Longrightarrow> j = k"
  shows "filter q (bt_values m) = [v]"
proof -
  from assms(1) have d: "distinct (map fst m)" by (simp add: bt_ok_def)
  from d assms(2-4) show ?thesis
  proof (induction m)
    case (Cons p m)
    obtain j u where p: "p = (j, u)" by force
    show ?case
    proof (cases "j = k")
      case True
      have "\<not> q (snd x)" if "x \<in> set m" for x
      proof
        assume "q (snd x)"
        obtain j' u' where x: "x = (j', u')" by force
        with that Cons.prems(1) p have "j' \<noteq> j" "bt_get (p # m) j' = Some u'"
          by (auto simp: bt_get_def rev_image_eqI)
        with Cons.prems(4) [of j' u'] x True \<open>q (snd x)\<close> show False by simp
      qed
      then have "filter q (map snd m) = []" by (auto simp: filter_empty_conv)
      moreover have "u = v" using Cons.prems(2) p True by (simp add: bt_get_def)
      ultimately show ?thesis using p Cons.prems(3) by (simp add: bt_values_def)
    next
      case False
      have "\<not> q u"
      proof
        assume "q u"
        with Cons.prems(4) [of j u] p have "j = k" by (simp add: bt_get_def)
        with False show False ..
      qed
      moreover have "filter q (bt_values m) = [v]"
      proof (rule Cons.IH)
        show "distinct (map fst m)" using Cons.prems(1) p by simp
        show "bt_get m k = Some v" using Cons.prems(2) p False by (simp add: bt_get_def)
        show "q v" by (rule Cons.prems(3))
        fix j' u' assume j: "bt_get m j' = Some u'" "q u'"
        then have "j' \<noteq> j" using Cons.prems(1) p by (force simp: bt_get_def dest: map_of_SomeD)
        with j p Cons.prems(4) [of j' u'] show "j' = k" by (simp add: bt_get_def)
      qed
      ultimately show ?thesis using p by (simp add: bt_values_def)
    qed
  qed (simp add: bt_get_def)
qed

text \<open>A run that has recorded the answer \<open>d\<close> to this action, once.\<close>

definition answered :: "'s durable_tool_approver \<Rightarrow> tool_approval_request \<Rightarrow> approval_decision \<Rightarrow> run_state \<Rightarrow> bool" where
  "answered a r d st \<longleftrightarrow> rs_run_id st = aq_run_id r \<and> rs_governance_binding st = Some (da_governance_binding a)
     \<and> (\<exists>i ap. stored_approval st i = Some ap \<and> ap_logical_key ap = aq_tool_use_id r \<and> matches_action a r ap
          \<and> ap_response ap = approval_decision_payload d \<and> \<not> ap_timed_out ap
          \<and> ap_status ap = (if is_allow d then Approved else Rejected)
          \<and> (\<forall>j ap'. stored_approval st j = Some ap' \<and> ap_logical_key ap' = aq_tool_use_id r \<longrightarrow> j = i))"

lemma approve_replays:
  assumes "api_reach env st" and "answered a r d st" and "\<not> is_poisoned a w"
    and "approval_clock_unix_ms a (sys 0) (others 0 w) = (Inr now, w1)" and "aw_run w1 = Some st"
    and "verify_current a st w1 = (Inr u, w2)"
  shows "approve env others sys a r w = (Answered (as_recorded d), w2)"
proof -
  from assms(2) obtain i ap where ap: "stored_approval st i = Some ap" "ap_logical_key ap = aq_tool_use_id r"
    "matches_action a r ap" "ap_response ap = approval_decision_payload d" "\<not> ap_timed_out ap"
    "ap_status ap = (if is_allow d then Approved else Rejected)"
    and u: "\<And>j ap'. stored_approval st j = Some ap' \<Longrightarrow> ap_logical_key ap' = aq_tool_use_id r \<Longrightarrow> j = i"
    and st: "rs_run_id st = aq_run_id r" "rs_governance_binding st = Some (da_governance_binding a)"
    by (auto simp: answered_def)
  have "bt_ok (st_approvals st)"
    using api_reach_ok [OF assms(1)] by (simp add: run_ok_def state_ok_def proj_ok_def approvals_ok_def)
  from unique_values [OF this ap(1), of "\<lambda>ap. ap_logical_key ap = aq_tool_use_id r"] ap(2) u
  have f: "filter (\<lambda>ap. ap_logical_key ap = aq_tool_use_id r) (bt_values (st_approvals st)) = [ap]" by blast
  have "pending_request env a r now w1 = (Inl (as_recorded d), w2)"
    using ap decision_roundtrip [OF ap(4-6)]
    by (auto simp: pending_request_def assms(5,6) st f split: if_splits)
  then show ?thesis using assms(3,4) by (simp add: approve_def)
qed

subsection \<open>Concrete worlds\<close>

definition stored_memory :: "run_state \<Rightarrow> nat \<Rightarrow> timed_store" where
  "stored_memory st now = \<lparr>ts_memory = \<lparr>ms_runs = [rs_run_id st \<mapsto> st], ms_poisoned = False\<rparr>, ts_readings = (\<lambda>_. Inr now), ts_reads = 0\<rparr>"

definition stored_world :: "run_state \<Rightarrow> nat \<Rightarrow> timed_store approver_world" where
  "stored_world st now = \<lparr>aw_run = Some st, aw_store = stored_memory st now, aw_poisoned = False\<rparr>"

definition yes_demo :: approval_decision where
  "yes_demo = ApproveAllow None [AllowTool]"

abbreviation "stored_approver \<equiv> approver_demo (Some memory_ops) (ApproveDeny ''other'' True)"

lemma matches_demo: "matches_action (approver_demo s d) ask_demo = matches_action (approver_demo (None :: unit store_ops option) d') ask_demo"
  by (rule ext) (simp add: matches_action_def approver_demo_def)

lemma long2_answered: "answered stored_approver ask_demo yes_demo long2"
proof -
  from long2_eval(4) [of yes_demo] obtain ap where ap: "stored_approval long2 approval_demo = Some ap" "ap_status ap = Approved"
    "\<not> ap_timed_out ap" "ap_response ap = approval_decision_payload yes_demo" "ap_logical_key ap = ''ok''"
    "matches_action (approver_demo (None :: unit store_ops option) yes_demo) ask_demo ap"
    by (cases "stored_approval long2 approval_demo") (simp_all add: yes_demo_def)
  have "j = approval_demo" if "stored_approval long2 j = Some ap'" for j ap'
  proof -
    from that have "j \<in> fst ` set (st_approvals long2)" by (auto simp: bt_get_def dest: map_of_SomeD intro: rev_image_eqI)
    then have "j \<in> set (map fst (st_approvals long2))" by simp
    then show ?thesis by (simp only: long2_eval(5)) simp
  qed
  moreover have "matches_action stored_approver ask_demo ap" using ap(6) matches_demo by metis
  ultimately show ?thesis
    using ap long2_eval(1,2) unfolding answered_def
    by (auto simp: ask_demo_def approver_demo_def yes_demo_def is_allow_def intro!: exI [of _ approval_demo])
qed

lemma long2_clock:
  "approval_clock_unix_ms stored_approver sys (stored_world long2 16)
     = (Inr 16, (stored_world long2 16)\<lparr>aw_store := (stored_memory long2 16)\<lparr>ts_reads := 1\<rparr>\<rparr>)"
  by (simp add: approval_clock_unix_ms_def approver_demo_def memory_ops_def timed_clock_def stored_world_def stored_memory_def)

lemma long2_verify:
  "verify_current stored_approver long2 ((stored_world long2 16)\<lparr>aw_store := (stored_memory long2 16)\<lparr>ts_reads := 1\<rparr>\<rparr>)
     = (Inr (), (stored_world long2 16)\<lparr>aw_store := (stored_memory long2 16)\<lparr>ts_reads := 1\<rparr>\<rparr>)"
  by (simp add: verify_current_def is_poisoned_def approver_demo_def memory_ops_def stored_memory_def store_load_def
      stored_world_def)

lemma stored_world_reach: "api_reach env st \<Longrightarrow> run_reach env (stored_world st now)"
  by (simp add: run_reach_def stored_world_def)

lemma long2_short: "length (rs_events long2) \<le> u64_max"
  by (simp add: long2_eval(3) u64_max_def)

subsection \<open>Properties\<close>

text \<open>C36: when the durable approver lets a tool call through, whatever other tasks, the store and the human
  do, the run and the store hold an approved approval whose recorded answer is that very answer (a rewrite
  to \<open>null\<close> apart), and a deadline of that approval had not passed when it was resolved. The approval is one
  that was recorded for this action, or the one that this call found pending or requested.\<close>

theorem durable_allow_is_recorded:
  assumes "approve env others sys a r w = (Answered (ApproveAllow u us), w')"
    and "da_store a = Some memory_ops" and "run_reach env w"
    and "\<And>k v. run_reach env v \<Longrightarrow> run_reach env (others k v)"
    and "\<forall>st. aw_run w' = Some st \<longrightarrow> length (rs_events st) \<le> u64_max" and "approval_codec env"
  shows "\<exists>i st ap. aw_run w' = Some st \<and> store_load (rs_run_id st) (ts_memory (aw_store w')) = Inr st
     \<and> stored_approval st i = Some ap \<and> ap_status ap = Approved
     \<and> durable_approval_decision ap = Inr (as_recorded (ApproveAllow u us))
     \<and> (\<forall>x. ap_expires_at ap = Some x \<longrightarrow> (\<exists>t. ap_resolved_at ap = Some t \<and> t < x))
     \<and> approval_of env a r w' i"
proof -
  from timed.approve_recorded [OF assms] obtain i st ap where st: "aw_run w' = Some st"
    "so_load memory_ops (rs_run_id st) (aw_store w') = Inr st" "stored_approval st i = Some ap" "ap_status ap = Approved"
    "durable_approval_decision ap = Inr (as_recorded (ApproveAllow u us))" "approval_of env a r w' i"
    by (auto simp: recorded_allow_def)
  from approve_reach [OF assms(1,3,4)] st(1) have "api_reach env st" by (simp add: run_reach_def)
  from api_reach_ok [OF this] st(3) have "clock_ok ap" by (auto simp: run_ok_def proto_ok_def clocks_ok_def)
  with st(4) have "ap_expires_at ap = Some x \<Longrightarrow> \<exists>t. ap_resolved_at ap = Some t \<and> t < x" for x
    by (auto simp: clock_ok_def split: option.splits)
  with st show ?thesis by (auto simp: memory_ops_def)
qed

lemma long2_approve:
  "approve long_env (\<lambda>k v. v) sys stored_approver ask_demo (stored_world long2 16)
     = (Answered yes_demo, (stored_world long2 16)\<lparr>aw_store := (stored_memory long2 16)\<lparr>ts_reads := 1\<rparr>\<rparr>)"
proof -
  have "approve long_env (\<lambda>k v. v) sys stored_approver ask_demo (stored_world long2 16)
     = (Answered (as_recorded yes_demo), (stored_world long2 16)\<lparr>aw_store := (stored_memory long2 16)\<lparr>ts_reads := 1\<rparr>\<rparr>)"
    by (rule approve_replays [where sys = sys and others = "\<lambda>k v. v", OF long_reach(3) long2_answered _ long2_clock _ long2_verify])
      (simp_all add: is_poisoned_def approver_demo_def stored_world_def)
  then show ?thesis by (simp add: as_recorded_def yes_demo_def)
qed

theorem durable_allow_is_recorded_witness:
  "\<exists>i ap. stored_approval long2 i = Some ap \<and> ap_status ap = Approved
     \<and> durable_approval_decision ap = Inr (ApproveAllow None [AllowTool])"
proof -
  let ?w = "(stored_world long2 16)\<lparr>aw_store := (stored_memory long2 16)\<lparr>ts_reads := 1\<rparr>\<rparr>"
  have "\<exists>i st ap. aw_run ?w = Some st \<and> store_load (rs_run_id st) (ts_memory (aw_store ?w)) = Inr st
     \<and> stored_approval st i = Some ap \<and> ap_status ap = Approved
     \<and> durable_approval_decision ap = Inr (as_recorded (ApproveAllow None [AllowTool]))
     \<and> (\<forall>x. ap_expires_at ap = Some x \<longrightarrow> (\<exists>t. ap_resolved_at ap = Some t \<and> t < x))
     \<and> approval_of long_env stored_approver ask_demo ?w i"
    by (rule durable_allow_is_recorded [OF long2_approve [of "\<lambda>_. Inr 0", unfolded yes_demo_def] _
          stored_world_reach [OF long_reach(3)] _ _ long_envelopes(1)])
      (simp_all add: approver_demo_def stored_world_def long2_short)
  then show ?thesis by (auto simp: stored_world_def as_recorded_def)
qed

text \<open>A call whose answer the run has recorded is answered from the record: the human is not asked again,
  nobody else interferes after the clock is read, and the run keeps its log.\<close>

theorem recorded_answer_is_repeated:
  assumes "api_reach env st" and "answered a r d st" and "\<not> is_poisoned a w"
    and "approval_clock_unix_ms a (sys 0) (others 0 w) = (Inr now, w1)" and "aw_run w1 = Some st"
    and "verify_current a st w1 = (Inr v, w2)"
  shows "approve env others sys a r w = (Answered (as_recorded d), w2) \<and> aw_run w2 = Some st"
  using approve_replays [where sys = sys and others = others, OF assms] verify_run [OF assms(6)] assms(5) by simp

theorem recorded_answer_is_repeated_witness:
  "fst (approve long_env (\<lambda>k v. v) (\<lambda>_. Inr 0) stored_approver ask_demo (stored_world long2 16))
     = Answered (ApproveAllow None [AllowTool])"
proof -
  have "approve long_env (\<lambda>k v. v) (\<lambda>_. Inr 0) stored_approver ask_demo (stored_world long2 16)
     = (Answered (as_recorded yes_demo), (stored_world long2 16)\<lparr>aw_store := (stored_memory long2 16)\<lparr>ts_reads := 1\<rparr>\<rparr>)
     \<and> aw_run ((stored_world long2 16)\<lparr>aw_store := (stored_memory long2 16)\<lparr>ts_reads := 1\<rparr>\<rparr>) = Some long2"
    by (rule recorded_answer_is_repeated [where sys = "\<lambda>_. Inr 0" and others = "\<lambda>k v. v", OF long_reach(3) long2_answered _ long2_clock _ long2_verify])
      (simp_all add: is_poisoned_def approver_demo_def stored_world_def)
  then show ?thesis by (simp add: as_recorded_def yes_demo_def)
qed

subsection \<open>Two observations\<close>

text \<open>Two approvers of one run without a store do not share their gates. When one is overtaken by a rejection
  that the other records, its resume command is answered from the log, and it lets the call through although
  the log says rejected.\<close>

definition rejects_meanwhile :: "nat \<Rightarrow> unit approver_world \<Rightarrow> unit approver_world" where
  "rejects_meanwhile k w =
     (if k = 0 then w
      else snd (record_resolution long_env (approver_demo None (ApproveDeny ''no'' False)) approval_demo False
                  (approval_decision_payload (ApproveDeny ''no'' False)) 15 w))"

theorem overlapping_approver_allows_rejected:
  "\<exists>w'. approve long_env rejects_meanwhile (\<lambda>k. Inr (if k = 0 then 12 else 16))
      (approver_demo None (ApproveAllow None [])) ask_demo \<lparr>aw_run = Some long1, aw_store = (), aw_poisoned = False\<rparr>
     = (Answered (ApproveAllow None []), w')
   \<and> (\<exists>st ap. aw_run w' = Some st \<and> stored_approval st approval_demo = Some ap \<and> ap_status ap = Rejected)"
proof -
  let ?a = "approver_demo None (ApproveAllow None []) :: unit durable_tool_approver"
  let ?w = "\<lambda>st. \<lparr>aw_run = Some st, aw_store = (), aw_poisoned = False\<rparr>"
  obtain ap where ap: "stored_approval long3 approval_demo = Some ap" "ap_status ap = Rejected" "\<not> ap_timed_out ap"
    using long3_eval(1) by auto
  obtain p where p: "bt_values (st_approvals long1) = [p]" "ap_logical_key p = ''ok''" "ap_status p = Pending"
    "ap_expires_at p = Some 20" "ap_approval_id p = approval_demo" "matches_action ?a ask_demo p"
    using long1_pending [of "ApproveAllow None []"] by auto
  have pend: "pending_request long_env ?a ask_demo 12 (?w long1) = (Inr (approval_demo, 20), ?w long1)"
  proof -
    have "filter (\<lambda>ap. ap_logical_key ap = aq_tool_use_id ask_demo) (bt_values (st_approvals long1)) = [p]"
      by (simp add: p ask_demo_def)
    moreover have "verify_current ?a long1 (?w long1) = (Inr (), ?w long1)"
      by (simp add: verify_current_def is_poisoned_def approver_demo_def)
    moreover have "rs_run_id long1 = aq_run_id ask_demo" "rs_governance_binding long1 = Some (da_governance_binding ?a)"
      by (simp_all add: long1_eval ask_demo_def approver_demo_def)
    ultimately show ?thesis by (simp add: pending_request_def p)
  qed
  have other: "rejects_meanwhile 1 (?w long1) = ?w long3"
    using long3_run ap by (simp add: rejects_meanwhile_def record_resolution_def commit_candidate_def approver_demo_def)
  have mine: "record_resolution long_env ?a approval_demo True (approval_decision_payload (ApproveAllow None [])) 16 (?w long3)
     = (Outcome Rejected False, ?w long3)"
    using long3_again ap by (simp add: record_resolution_def commit_candidate_def approver_demo_def)
  have "approve long_env rejects_meanwhile (\<lambda>k. Inr (if k = 0 then 12 else 16)) ?a ask_demo (?w long1)
      = (Answered (ApproveAllow None []), ?w long3)"
  proof -
    have "da_legacy ?a = (\<lambda>_ _. Some (ApproveAllow None []))" "\<not> is_poisoned ?a v"
      "approval_clock_unix_ms ?a (Inr t) v = (Inr t, v)" "rejects_meanwhile 0 v = v" for t v
      by (simp_all add: approver_demo_def is_poisoned_def approval_clock_unix_ms_def rejects_meanwhile_def)
    moreover have "saturating_sub 20 12 = (8 :: nat)" by (simp add: saturating_sub_def)
    ultimately show ?thesis using pend other mine
      by (simp add: approve_def answer_of_def is_allow_def Let_def)
  qed
  with ap show ?thesis by auto
qed

text \<open>A human who rewrites the input to \<open>null\<close> is recorded as one who does not rewrite it.\<close>

theorem null_rewrite_is_lost:
  "approval_decision_payload (ApproveAllow (Some JNull) us) = approval_decision_payload (ApproveAllow None us)"
  by (simp add: approval_decision_payload_def)

end
