(* ===== verification/Driver.thy ===== *)
theory Driver
  imports Approver
begin

text \<open>
  \<open>DurableRunDriver\<close> of \<open>durable_runtime.rs\<close>: the handle through which the runtime changes a durable run.
  Every change is a transition: under the lock of the run it compares the run with the store, works on a
  candidate and commits it by compare-and-swap. Its state is the one that the durable approver shares with
  it (the run, the store, the poison flag) and the flag of the running invocation. Other processes act on
  the store between the comparison and the swap: the argument \<open>others\<close>. A panic of the work poisons the
  lock. The texts of \<open>InvalidCompletionPayload\<close> are left out.
\<close>

subsection \<open>Types\<close>

datatype driver_error =
    UnsupportedMode durability_mode
  | StateMismatch string
  | DriverStore store_error
  | DriverState durability_error
  | StateLock
  | DriverPoisoned
  | InvalidPayloadPolicy nat
  | CompletionPayloadTooLarge nat nat
  | InvalidCompletionPayload
  | ReconciliationRequired string string
  | ActivityFailed string string
  | ActivityCancelled string
  | InvocationAlreadyActive
  | LeaseRequired string
  | TerminalRecoveryRequired string string
  | TerminalAuditBlockedByRunningActivities "string list"
  | DriverPanicked

datatype durable_activity =
    ActExecute string nat "string option"
  | ActReuseCompleted string json

record 's driver_world = "'s approver_world" +
  dw_invocation_active :: bool

record 's run_driver =
  dd_store :: "'s store_ops"
  dd_max_completion_bytes :: nat
  dd_worker_lease :: "lease_authority option"

type_synonym 'a work = "(run_state, driver_error, 'a) smeth"
type_synonym ('s, 'z, 'a) driver_op = "(('s, 'z) approver_world_scheme, driver_error, 'a) smeth"

definition MAX_DURABLE_COMPLETION_BYTES :: nat where
  "MAX_DURABLE_COMPLETION_BYTES = 64 * 1024 * 1024"

definition payload_policy_new :: "nat \<Rightarrow> driver_error + nat" where
  "payload_policy_new max_completion_bytes =
     (if max_completion_bytes = 0 \<or> max_completion_bytes > MAX_DURABLE_COMPLETION_BYTES
      then Inl (InvalidPayloadPolicy max_completion_bytes) else Inr max_completion_bytes)"

text \<open>An operation of the run inside a transition: its errors are wrapped.\<close>

definition driver_error_of :: "durability_error \<Rightarrow> driver_error" where
  "driver_error_of e = (if e = Panicked then DriverPanicked else DriverState e)"

definition runS :: "'a run_op \<Rightarrow> 'a work" where
  "runS m st = (case m st of (r, st') \<Rightarrow> (map_err driver_error_of r, st'))"

text \<open>Work that depends on the state it starts from.\<close>

definition withS :: "('s \<Rightarrow> ('s, 'e, 'a) smeth) \<Rightarrow> ('s, 'e, 'a) smeth" where
  "withS f st = f st st"

subsection \<open>Attaching a run to its store\<close>

definition same_run :: "run_state \<Rightarrow> run_state \<Rightarrow> driver_error + unit" where
  "same_run st stored = (if stored \<noteq> st then Inl (StateMismatch (rs_run_id st)) else Inr ())"

definition attach_store :: "('s \<Rightarrow> 's) \<Rightarrow> 's store_ops \<Rightarrow> run_state \<Rightarrow> ('s, driver_error, unit) smeth" where
  "attach_store others ops st s =
     (if rs_durability st \<noteq> Sync then (Inl (UnsupportedMode (rs_durability st)), s)
      else case so_load ops (rs_run_id st) s of
        Inr stored \<Rightarrow> (same_run st stored, s)
      | Inl (StNotFound _) \<Rightarrow>
          (case so_create ops st (others s) of
             (Inr _, s1) \<Rightarrow> (Inr (), s1)
           | (Inl (StAlreadyExists _), s1) \<Rightarrow>
               (bindR (map_err DriverStore (so_load ops (rs_run_id st) s1)) (same_run st), s1)
           | (Inl e, s1) \<Rightarrow> (Inl (DriverStore e), s1))
      | Inl e \<Rightarrow> (Inl (DriverStore e), s))"

definition driver_new ::
  "('s \<Rightarrow> 's) \<Rightarrow> 's store_ops \<Rightarrow> nat \<Rightarrow> run_state \<Rightarrow> 's \<Rightarrow> (driver_error + 's run_driver) \<times> 's driver_world"
where
  "driver_new others ops max_completion_bytes st s =
     (case attach_store others ops st s of (r, s1) \<Rightarrow>
        (bindR r (\<lambda>_. Inr \<lparr>dd_store = ops, dd_max_completion_bytes = max_completion_bytes, dd_worker_lease = None\<rparr>),
         \<lparr>aw_run = Some st, aw_store = s1, aw_poisoned = False, dw_invocation_active = False\<rparr>))"

definition snapshot :: "('s, 'z, run_state) driver_op" where
  "snapshot w =
     (if aw_poisoned w then (Inl DriverPoisoned, w)
      else (case aw_run w of None \<Rightarrow> Inl StateLock | Some st \<Rightarrow> Inr st, w))"

subsection \<open>Transitions\<close>

definition store_clock :: "'s run_driver \<Rightarrow> ('s, 'z, nat) driver_op" where
  "store_clock d w =
     (case so_clock (dd_store d) (aw_store w) of (r, s) \<Rightarrow> (map_err DriverStore r, w\<lparr>aw_store := s\<rparr>))"

definition ensure_worker_lease_authority :: "'s run_driver \<Rightarrow> run_state \<Rightarrow> ('s, 'z, unit) driver_op" where
  "ensure_worker_lease_authority d current =
     (case (current_lease current, dd_worker_lease d) of
        (None, None) \<Rightarrow> returnS ()
      | (Some lease, None) \<Rightarrow> failS (LeaseRequired (wl_owner_id lease))
      | (None, Some binding) \<Rightarrow> failS (DriverState (WorkerLeaseLost (la_owner_id binding)))
      | (Some lease, Some binding) \<Rightarrow>
          if wl_owner_id lease = la_owner_id binding \<and> wl_lease_id lease = la_lease_id binding
          then bindS (store_clock d) (\<lambda>now.
            if wl_expires_at lease > now then returnS ()
            else failS (DriverState (WorkerLeaseLost (la_owner_id binding))))
          else failS (DriverState (WorkerLeaseLost (la_owner_id binding))))"

definition driver_swap :: "'s run_driver \<Rightarrow> nat \<Rightarrow> run_state \<Rightarrow> ('s, store_error, unit) smeth" where
  "driver_swap d expected candidate =
     (case dd_worker_lease d of
        Some authority \<Rightarrow> so_cas_fenced (dd_store d) expected candidate authority
      | None \<Rightarrow> so_cas (dd_store d) expected candidate)"

definition commit_work ::
  "('s \<Rightarrow> 's) \<Rightarrow> 's run_driver \<Rightarrow> 'a work \<Rightarrow> run_state \<Rightarrow> ('s, 'z, 'a) driver_op"
where
  "commit_work others d mutate current w =
     (case mutate current of
        (Inl e, _) \<Rightarrow> (Inl e, if e = DriverPanicked then w\<lparr>aw_run := None\<rparr> else w)
      | (Inr x, candidate) \<Rightarrow>
          if candidate = current then (Inr x, w)
          else (case driver_swap d (last_sequence current) candidate (others (aw_store w)) of
             (Inl e, s) \<Rightarrow> (Inl (DriverStore e), w\<lparr>aw_store := s, aw_poisoned := True\<rparr>)
           | (Inr _, s) \<Rightarrow> (Inr x, w\<lparr>aw_store := s, aw_run := Some candidate\<rparr>)))"

definition transition_inner ::
  "('s \<Rightarrow> 's) \<Rightarrow> 's run_driver \<Rightarrow> bool \<Rightarrow> 'a work \<Rightarrow> ('s, 'z, 'a) driver_op"
where
  "transition_inner others d require_worker_authority mutate w =
     (if aw_poisoned w then (Inl DriverPoisoned, w)
      else case aw_run w of
        None \<Rightarrow> (Inl StateLock, w)
      | Some current \<Rightarrow>
          (case so_load (dd_store d) (rs_run_id current) (aw_store w) of
             Inl e \<Rightarrow> (Inl (DriverStore e), w\<lparr>aw_poisoned := True\<rparr>)
           | Inr persisted \<Rightarrow>
               if persisted \<noteq> current
               then (Inl (StateMismatch (rs_run_id current)), w\<lparr>aw_poisoned := True\<rparr>)
               else bindS (if require_worker_authority then ensure_worker_lease_authority d current else returnS ())
                      (\<lambda>_. commit_work others d mutate current) w))"

definition transition :: "('s \<Rightarrow> 's) \<Rightarrow> 's run_driver \<Rightarrow> 'a work \<Rightarrow> ('s, 'z, 'a) driver_op" where
  "transition others d = transition_inner others d True"

subsection \<open>Worker leases\<close>

definition driver_claim_lease ::
  "durable_env \<Rightarrow> ('s \<Rightarrow> 's) \<Rightarrow> 's run_driver \<Rightarrow> string \<Rightarrow> string \<Rightarrow> nat \<Rightarrow> nat \<Rightarrow> ('s, 'z, bool) driver_op"
where
  "driver_claim_lease env others d owner_id lease_id claimed_at expires_at =
     transition_inner others d False (runS (claim_worker_lease env owner_id lease_id claimed_at expires_at))"

definition bind_worker_lease :: "'s run_driver \<Rightarrow> string \<Rightarrow> string \<Rightarrow> ('s, 'z, 's run_driver) driver_op" where
  "bind_worker_lease d owner_id lease_id =
     bindS (store_clock d) (\<lambda>now.
     bindS (checkS (\<lambda>w. ok_or (aw_run w) StateLock)) (\<lambda>current.
     bindS (checkS (\<lambda>_. ok_or (current_lease current) (DriverState (WorkerLeaseLost owner_id)))) (\<lambda>lease.
       if wl_owner_id lease \<noteq> owner_id \<or> wl_lease_id lease \<noteq> lease_id \<or> wl_expires_at lease \<le> now
       then failS (DriverState (WorkerLeaseLost owner_id))
       else returnS (d\<lparr>dd_worker_lease := Some \<lparr>la_owner_id = owner_id, la_lease_id = lease_id\<rparr>\<rparr>))))"

definition driver_renew_lease ::
  "durable_env \<Rightarrow> ('s \<Rightarrow> 's) \<Rightarrow> 's run_driver \<Rightarrow> nat \<Rightarrow> nat \<Rightarrow> ('s, 'z, unit) driver_op"
where
  "driver_renew_lease env others d renewed_at expires_at =
     (case dd_worker_lease d of
        None \<Rightarrow> failS InvalidCompletionPayload
      | Some binding \<Rightarrow> transition_inner others d False
          (runS (renew_worker_lease env (la_owner_id binding) (la_lease_id binding) renewed_at expires_at)))"

definition driver_release_lease ::
  "durable_env \<Rightarrow> ('s \<Rightarrow> 's) \<Rightarrow> 's run_driver \<Rightarrow> nat \<Rightarrow> ('s, 'z, unit) driver_op"
where
  "driver_release_lease env others d released_at =
     (case dd_worker_lease d of
        None \<Rightarrow> failS InvalidCompletionPayload
      | Some binding \<Rightarrow> transition_inner others d False
          (runS (release_worker_lease env (la_owner_id binding) (la_lease_id binding) released_at)))"

definition reconcile_worker_activity ::
  "durable_env \<Rightarrow> ('s \<Rightarrow> 's) \<Rightarrow> 's run_driver \<Rightarrow> string \<Rightarrow> string \<Rightarrow> reconciliation \<Rightarrow> ('s, 'z, unit) driver_op"
where
  "reconcile_worker_activity env others d reconciliation_id activity_id resolution =
     transition others d (bindS (runS (reconcile_activity env reconciliation_id activity_id resolution)) (\<lambda>_. returnS ()))"

text \<open>The exclusion of invocations inside one process; dropping the claim resets it.\<close>

definition claim_invocation :: "('s driver_world, driver_error, unit) smeth" where
  "claim_invocation w =
     (if dw_invocation_active w then (Inl InvocationAlreadyActive, w) else (Inr (), w\<lparr>dw_invocation_active := True\<rparr>))"

definition drop_invocation_claim :: "'s driver_world \<Rightarrow> 's driver_world" where
  "drop_invocation_claim w = w\<lparr>dw_invocation_active := False\<rparr>"

end
