(* ===== verification/DriverOps.thy ===== *)
theory DriverOps
  imports Driver
begin

text \<open>
  The operations of \<open>DurableRunDriver\<close>: activities, the lifecycle fence of an invocation, the delivery of the
  terminal audit record, and the end of a run. Serde is a parameter.
\<close>

record driver_codec =
  ser_replay_envelope :: "replay_envelope \<Rightarrow> json"
  ser_legacy_source :: "legacy_source \<Rightarrow> json"
  ser_legacy_resolution :: "legacy_resolution \<Rightarrow> string + json"
  de_receipt :: "json \<Rightarrow> string + run_stopped_receipt"
  json_bytes :: "json \<Rightarrow> string + nat"

definition invalid_payload :: "string + 'a \<Rightarrow> driver_error + 'a" where
  "invalid_payload = map_err (\<lambda>_. InvalidCompletionPayload)"

definition invalid_event :: driver_error where
  "invalid_event = DriverState InvalidEvent"

subsection \<open>Reading the records of the terminal audit\<close>

definition durable_activity_from_decision :: "activity_decision \<Rightarrow> driver_error + durable_activity" where
  "durable_activity_from_decision decision =
     (case decision of
        Execute activity_id attempt idempotency_key \<Rightarrow> Inr (ActExecute activity_id attempt idempotency_key)
      | ReuseCompleted activity_id output \<Rightarrow> Inr (ActReuseCompleted activity_id output)
      | DecReconcileRequired activity_id reason \<Rightarrow> Inl (ReconciliationRequired activity_id reason)
      | DecFailed activity_id error \<Rightarrow> Inl (ActivityFailed activity_id error)
      | DecCancelled activity_id \<Rightarrow> Inl (ActivityCancelled activity_id))"

definition begun :: "('s, 'z, activity_decision) driver_op \<Rightarrow> ('s, 'z, durable_activity) driver_op" where
  "begun m = bindS m (\<lambda>decision. checkS (\<lambda>_. durable_activity_from_decision decision))"

definition quarantine_unstarted :: "durable_env \<Rightarrow> activity_record \<Rightarrow> string \<Rightarrow> bool work" where
  "quarantine_unstarted env record reason =
     (if latest_attempt record \<noteq> None then returnS False
      else bindS (runS (quarantine_unstarted_reserved_activity env (ad_activity_id (ar_definition record)) reason))
             (\<lambda>_. returnS True))"

definition validate_replay_envelope ::
  "replay_envelope \<Rightarrow> audit_kind \<Rightarrow> string \<Rightarrow> string option \<Rightarrow> driver_error + unit"
where
  "validate_replay_envelope replay expected_kind run_id expected_invocation_id =
     (if rp_schema_version replay \<noteq> 1 then Inl InvalidCompletionPayload
      else if ab_schema_version (rp_audit_binding replay) \<noteq> 1 then Inl InvalidCompletionPayload
      else if rp_kind replay \<noteq> expected_kind \<or> rp_audit_run_id replay \<noteq> run_id
         \<or> rp_audit_run_id replay = [] \<or> has_control (rp_audit_run_id replay)
         \<or> rp_invocation_id replay = [] \<or> has_control (rp_invocation_id replay)
         \<or> rp_run_stopped_sequence replay = 0 \<or> rp_audit_reason replay = []
         \<or> (case expected_invocation_id of None \<Rightarrow> False | Some e \<Rightarrow> rp_invocation_id replay \<noteq> e)
      then Inl InvalidCompletionPayload
      else if (expected_kind = Canonical \<or> expected_kind = Direct)
         \<and> (rp_audit_turns replay \<noteq> rr_turns (rp_terminal_receipt replay)
            \<or> rp_audit_reason replay \<noteq> rr_reason (rp_terminal_receipt replay))
      then Inl InvalidCompletionPayload
      else Inr ())"

definition terminal_audit_input ::
  "durable_env \<Rightarrow> driver_codec \<Rightarrow> replay_envelope \<Rightarrow> json \<Rightarrow> driver_error + json"
where
  "terminal_audit_input env V replay expected_output =
     bindR (validate_replay_envelope replay (rp_kind replay) (rp_audit_run_id replay) (Some (rp_invocation_id replay)))
       (\<lambda>_. Inr (JObject [(''replay'', ser_replay_envelope V replay),
                  (''expected_output_hash'', JString (stable_input_hash env expected_output))]))"

definition valid_output_hash :: "string \<Rightarrow> bool" where
  "valid_output_hash value =
     (case strip_prefix ''sha256:'' value of
        None \<Rightarrow> False | Some d \<Rightarrow> length value = 71 \<and> list_all is_ascii_hexdigit d)"

definition legacy_resolution_source :: "durable_env \<Rightarrow> activity_record \<Rightarrow> driver_error + legacy_source" where
  "legacy_resolution_source env record =
     bindR (ok_or (Option.bind (jget (ad_input (ar_definition record)) ''legacy_resolution'') as_object)
              InvalidCompletionPayload) (\<lambda>source.
       if Option.bind (map_of source ''schema_version'') as_u64 \<noteq> Some LEGACY_RUN_STOPPED_RESOLUTION_SCHEMA_VERSION
          \<or> Option.bind (map_of source ''kind'') as_str \<noteq> Some LEGACY_RUN_STOPPED_RESOLUTION_KIND
       then Inl InvalidCompletionPayload
       else bindR (invalid_payload (de_legacy_source env (JObject source))) (\<lambda>s.
         if ls_source_activity_id s = [] \<or> has_control (ls_source_activity_id s)
            \<or> ls_source_attempt s = 0 \<or> ls_source_started_sequence s = 0
            \<or> (case ls_source_output_hash s of None \<Rightarrow> False | Some h \<Rightarrow> \<not> valid_output_hash h)
         then Inl InvalidCompletionPayload else Inr s))"

definition legacy_resolution_marker_input :: "driver_codec \<Rightarrow> activity_record \<Rightarrow> driver_error + json" where
  "legacy_resolution_marker_input V legacy_record =
     bindR (ok_or (latest_attempt legacy_record) InvalidCompletionPayload) (\<lambda>attempt.
     bindR (case at_status attempt of
              AtCompleted \<Rightarrow> ok_or (at_output_hash attempt) InvalidCompletionPayload
            | AtFailed \<Rightarrow> Inr []
            | AtCancelled \<Rightarrow> Inr []
            | AtRunning \<Rightarrow> Inl InvalidCompletionPayload
            | AtReconcileRequired \<Rightarrow> Inl InvalidCompletionPayload) (\<lambda>source_output_hash.
       Inr (JObject [(''legacy_resolution'', ser_legacy_source V
         \<lparr>ls_schema_version = LEGACY_RUN_STOPPED_RESOLUTION_SCHEMA_VERSION,
          ls_kind = LEGACY_RUN_STOPPED_RESOLUTION_KIND,
          ls_source_activity_id = ad_activity_id (ar_definition legacy_record),
          ls_source_attempt = at_attempt attempt,
          ls_source_started_sequence = at_started_sequence attempt,
          ls_source_output_hash = (if source_output_hash = [] then None else Some source_output_hash)\<rparr>)])))"

definition legacy_resolution_output ::
  "durable_env \<Rightarrow> driver_codec \<Rightarrow> activity_record \<Rightarrow> run_stopped_receipt \<Rightarrow> driver_error + json"
where
  "legacy_resolution_output env V record terminal_receipt =
     bindR (if ad_stable_step_id (ar_definition record) = RUNTIME_LEGACY_RUN_STOPPED_AUDIT_STEP_ID then
              bindR (ok_or (latest_attempt record) InvalidCompletionPayload) (\<lambda>attempt.
                Inr \<lparr>ls_schema_version = LEGACY_RUN_STOPPED_RESOLUTION_SCHEMA_VERSION,
                  ls_kind = LEGACY_RUN_STOPPED_RESOLUTION_KIND,
                  ls_source_activity_id = ad_activity_id (ar_definition record),
                  ls_source_attempt = at_attempt attempt,
                  ls_source_started_sequence = at_started_sequence attempt,
                  ls_source_output_hash = (if at_status attempt = AtCompleted then at_output_hash attempt else None)\<rparr>)
            else legacy_resolution_source env record) (\<lambda>source.
       invalid_payload (ser_legacy_resolution V
         \<lparr>ls_schema_version = LEGACY_RUN_STOPPED_RESOLUTION_SCHEMA_VERSION,
          ls_kind = LEGACY_RUN_STOPPED_RESOLUTION_KIND,
          ls_source_activity_id = ls_source_activity_id source,
          ls_source_attempt = ls_source_attempt source,
          ls_source_started_sequence = ls_source_started_sequence source,
          ls_source_output_hash = ls_source_output_hash source,
          lr_terminal_receipt = terminal_receipt\<rparr>))"

definition replay_from_record ::
  "durable_env \<Rightarrow> activity_record \<Rightarrow> audit_kind \<Rightarrow> string \<Rightarrow> driver_error + replay_envelope"
where
  "replay_from_record env record expected_kind run_id =
     (let d = ar_definition record in
      bindR (ok_or (jget (ad_input d) ''replay'') InvalidCompletionPayload) (\<lambda>v.
      bindR (invalid_payload (de_replay_envelope env v)) (\<lambda>replay.
      bindR (validate_replay_envelope replay expected_kind run_id
               (if expected_kind = Recovery then Some (ad_logical_key d) else None)) (\<lambda>_.
      bindR (ok_or (jget_str (ad_input d) ''expected_output_hash'') InvalidCompletionPayload) (\<lambda>expected_output_hash.
      bindR (case expected_kind of
               Canonical \<Rightarrow> invalid_payload (ser_receipt env (rp_terminal_receipt replay))
             | Recovery \<Rightarrow> Inr accepted_output
             | Direct \<Rightarrow> Inl InvalidCompletionPayload) (\<lambda>expected_output.
        if stable_input_hash env expected_output \<noteq> expected_output_hash
        then Inl InvalidCompletionPayload else Inr replay))))))"

definition lifecycle_not_started_output :: "string \<Rightarrow> string \<Rightarrow> json" where
  "lifecycle_not_started_output run_id invocation_id =
     JObject [(''status'', JString ''not_started''), (''audit_run_id'', JString run_id),
              (''invocation_id'', JString invocation_id)]"

definition lifecycle_closed_output :: "driver_codec \<Rightarrow> replay_envelope \<Rightarrow> json" where
  "lifecycle_closed_output V replay =
     JObject [(''status'', JString ''audit_closed''), (''replay'', ser_replay_envelope V replay)]"

definition replay_from_lifecycle_record ::
  "durable_env \<Rightarrow> activity_record \<Rightarrow> string \<Rightarrow> driver_error + replay_envelope option"
where
  "replay_from_lifecycle_record env record run_id =
     (case completed_output record of
        None \<Rightarrow> Inr None
      | Some output \<Rightarrow>
          let status = jget_str output ''status'' in
          if status \<noteq> Some ''audit_closed'' \<and> status \<noteq> Some ''terminal_replay_authorized'' then Inr None
          else
            bindR (ok_or (jget output ''replay'') InvalidCompletionPayload) (\<lambda>v.
            bindR (invalid_payload (de_replay_envelope env v)) (\<lambda>replay.
            bindR (validate_replay_envelope replay (rp_kind replay) run_id
                     (Some (ad_logical_key (ar_definition record)))) (\<lambda>_.
              if rp_kind replay = Direct \<and> status \<noteq> Some ''audit_closed''
              then Inl InvalidCompletionPayload else Inr (Some replay)))))"

definition resolution_matches :: "legacy_resolution \<Rightarrow> legacy_source \<Rightarrow> bool" where
  "resolution_matches resolution source =
     (ls_schema_version resolution = LEGACY_RUN_STOPPED_RESOLUTION_SCHEMA_VERSION
      \<and> ls_kind resolution = LEGACY_RUN_STOPPED_RESOLUTION_KIND
      \<and> ls_source_activity_id resolution = ls_source_activity_id source
      \<and> ls_source_attempt resolution = ls_source_attempt source
      \<and> ls_source_started_sequence resolution = ls_source_started_sequence source
      \<and> ls_source_output_hash resolution = ls_source_output_hash source
      \<and> rr_reason (lr_terminal_receipt resolution) \<noteq> [])"

definition validated_canonical_receipt_output ::
  "durable_env \<Rightarrow> activity_record \<Rightarrow> driver_error + json option"
where
  "validated_canonical_receipt_output env record =
     (let input = ad_input (ar_definition record) in
      case completed_output record of
        None \<Rightarrow> Inr None
      | Some output \<Rightarrow>
          if jget input ''legacy_resolution'' \<noteq> None then
            bindR (legacy_resolution_source env record) (\<lambda>source.
            bindR (invalid_payload (de_legacy_resolution env output)) (\<lambda>resolution.
              if \<not> resolution_matches resolution source then Inl InvalidCompletionPayload
              else map_err (\<lambda>_. InvalidCompletionPayload)
                     (bindR (ser_receipt env (lr_terminal_receipt resolution)) (\<lambda>v. Inr (Some v)))))
          else
            bindR (ok_or (Option.bind (case jget input ''expected_output_hash'' of
                                         Some v \<Rightarrow> Some v | None \<Rightarrow> jget input ''input_hash'') as_str)
                     InvalidCompletionPayload) (\<lambda>expected_hash.
              if stable_input_hash env output \<noteq> expected_hash then Inl InvalidCompletionPayload
              else Inr (Some output)))"

subsection \<open>Activities\<close>

definition records :: "run_state \<Rightarrow> activity_record list" where
  "records st = bt_values (st_activities st)"

definition is_step :: "string \<Rightarrow> activity_record \<Rightarrow> bool" where
  "is_step step r = (ad_stable_step_id (ar_definition r) = step)"

definition is_terminal_audit :: "activity_record \<Rightarrow> bool" where
  "is_terminal_audit r =
     ((is_step RUNTIME_RUN_STOPPED_AUDIT_STEP_ID r \<or> is_step RUNTIME_LEGACY_RUN_STOPPED_AUDIT_STEP_ID r)
      \<and> ad_logical_key (ar_definition r) = ''terminal'')"

definition ids_of :: "activity_record list \<Rightarrow> string list" where
  "ids_of rs = map (\<lambda>r. ad_activity_id (ar_definition r)) rs"

definition not_blocked :: "string list \<Rightarrow> driver_error + unit" where
  "not_blocked ids = (if ids \<noteq> [] then Inl (TerminalAuditBlockedByRunningActivities ids) else Inr ())"

definition check_audit_order :: "string \<Rightarrow> string \<Rightarrow> run_state \<Rightarrow> driver_error + unit" where
  "check_audit_order stable_step_id logical_key st =
     (let terminal = ((stable_step_id = RUNTIME_RUN_STOPPED_AUDIT_STEP_ID
                       \<or> stable_step_id = RUNTIME_LEGACY_RUN_STOPPED_AUDIT_STEP_ID) \<and> logical_key = ''terminal'');
          exists = list_ex is_terminal_audit (records st)
      in if terminal \<and> exists then Inl (TerminalRecoveryRequired stable_step_id logical_key)
         else bindR (if terminal
                     then not_blocked (ids_of (filter (\<lambda>r. \<not> is_step RUNTIME_RUN_STOPPED_AUDIT_STEP_ID r
                            \<and> \<not> is_step RUNTIME_LEGACY_RUN_STOPPED_AUDIT_STEP_ID r \<and> latest_is AtRunning r) (records st)))
                     else Inr ()) (\<lambda>_.
           if \<not> terminal \<and> exists then Inl (TerminalRecoveryRequired stable_step_id logical_key) else Inr ()))"

definition driver_begin_activity ::
  "durable_env \<Rightarrow> ('s \<Rightarrow> 's) \<Rightarrow> 's run_driver \<Rightarrow> string \<Rightarrow> string \<Rightarrow> json \<Rightarrow> side_effect_class \<Rightarrow> string option
    \<Rightarrow> ('s, 'z, durable_activity) driver_op"
where
  "driver_begin_activity env others d stable_step_id logical_key input side_effect_class idempotency_key =
     begun (transition others d
       (bindS (checkS (check_audit_order stable_step_id logical_key)) (\<lambda>_.
          runS (prepare_activity env stable_step_id logical_key input side_effect_class idempotency_key))))"

definition doneS :: "'a work \<Rightarrow> unit work" where
  "doneS m = bindS m (\<lambda>_. returnS ())"

definition oversized_error :: string where
  "oversized_error = ''activity result exceeded durable completion size policy after execution''"

definition driver_complete_activity ::
  "durable_env \<Rightarrow> driver_codec \<Rightarrow> ('s \<Rightarrow> 's) \<Rightarrow> 's run_driver \<Rightarrow> string \<Rightarrow> nat \<Rightarrow> json \<Rightarrow> ('s, 'z, unit) driver_op"
where
  "driver_complete_activity env V others d activity_id attempt output =
     bindS (checkS (\<lambda>_. invalid_payload (json_bytes V output))) (\<lambda>actual_bytes.
       if actual_bytes > dd_max_completion_bytes d
       then bindS (transition others d (doneS (runS (fail_activity env activity_id attempt oversized_error False True))))
              (\<lambda>_. failS (CompletionPayloadTooLarge actual_bytes (dd_max_completion_bytes d)))
       else transition others d (doneS (runS (complete_activity env activity_id attempt output))))"

definition driver_fail_activity ::
  "durable_env \<Rightarrow> ('s \<Rightarrow> 's) \<Rightarrow> 's run_driver \<Rightarrow> string \<Rightarrow> nat \<Rightarrow> string \<Rightarrow> bool \<Rightarrow> bool
    \<Rightarrow> ('s, 'z, activity_decision) driver_op"
where
  "driver_fail_activity env others d activity_id attempt error retryable effect_ambiguous =
     transition others d (runS (fail_activity env activity_id attempt error retryable effect_ambiguous))"

subsection \<open>The lifecycle fence of an invocation\<close>

definition begin_invocation_lifecycle ::
  "durable_env \<Rightarrow> ('s \<Rightarrow> 's) \<Rightarrow> 's run_driver \<Rightarrow> string \<Rightarrow> ('s, 'z, durable_activity) driver_op"
where
  "begin_invocation_lifecycle env others d invocation_id =
     begun (transition others d (withS (\<lambda>st.
       if list_ex (\<lambda>r. is_step RUNTIME_INVOCATION_LIFECYCLE_STEP_ID r \<and> latest_is AtRunning r) (records st)
       then failS InvocationAlreadyActive
       else if list_ex is_terminal_audit (records st)
       then failS (TerminalRecoveryRequired RUNTIME_INVOCATION_LIFECYCLE_STEP_ID invocation_id)
       else runS (prepare_activity env RUNTIME_INVOCATION_LIFECYCLE_STEP_ID invocation_id
              (JObject [(''schema_version'', JNumber (PosInt 1)), (''audit_run_id'', JString (rs_run_id st)),
                 (''invocation_id'', JString invocation_id)]) EffReconcileRequired None))))"

definition complete_unstarted_invocation_lifecycle ::
  "durable_env \<Rightarrow> ('s \<Rightarrow> 's) \<Rightarrow> 's run_driver \<Rightarrow> string \<Rightarrow> nat \<Rightarrow> ('s, 'z, unit) driver_op"
where
  "complete_unstarted_invocation_lifecycle env others d activity_id attempt =
     transition others d (withS (\<lambda>st.
       bindS (runS (checkS (\<lambda>st. activity st activity_id))) (\<lambda>record.
         doneS (runS (complete_activity env activity_id attempt
           (lifecycle_not_started_output (rs_run_id st) (ad_logical_key (ar_definition record))))))))"

definition complete_invocation_lifecycle_with_replay ::
  "durable_env \<Rightarrow> driver_codec \<Rightarrow> ('s \<Rightarrow> 's) \<Rightarrow> 's run_driver \<Rightarrow> string \<Rightarrow> nat \<Rightarrow> replay_envelope \<Rightarrow> ('s, 'z, unit) driver_op"
where
  "complete_invocation_lifecycle_with_replay env V others d activity_id attempt replay =
     transition others d (withS (\<lambda>st.
       bindS (runS (checkS (\<lambda>st. activity st activity_id))) (\<lambda>record.
       bindS (checkS (\<lambda>_. validate_replay_envelope replay (rp_kind replay) (rs_run_id st)
                (Some (ad_logical_key (ar_definition record))))) (\<lambda>_.
         doneS (runS (complete_activity env activity_id attempt (lifecycle_closed_output V replay)))))))"

definition receipt_of :: "driver_codec \<Rightarrow> json \<Rightarrow> driver_error + run_stopped_receipt" where
  "receipt_of V output = invalid_payload (de_receipt V output)"

definition completed_canonical :: "run_state \<Rightarrow> activity_record option" where
  "completed_canonical st = List.find (\<lambda>r. is_step RUNTIME_RUN_STOPPED_AUDIT_STEP_ID r
     \<and> ad_logical_key (ar_definition r) = ''terminal'' \<and> completed_output r \<noteq> None) (records st)"

definition close_matching_lifecycle ::
  "durable_env \<Rightarrow> driver_codec \<Rightarrow> ('s \<Rightarrow> 's) \<Rightarrow> 's run_driver \<Rightarrow> string \<Rightarrow> nat \<Rightarrow> ('s, 'z, bool) driver_op"
where
  "close_matching_lifecycle env V others d lifecycle_activity_id lifecycle_attempt =
     transition others d (withS (\<lambda>st.
       bindS (runS (checkS (\<lambda>st. activity st lifecycle_activity_id))) (\<lambda>lifecycle.
         if \<not> is_step RUNTIME_INVOCATION_LIFECYCLE_STEP_ID lifecycle \<or> \<not> is_reserved_audit_activity lifecycle
         then failS InvalidCompletionPayload
         else case completed_canonical st of
           None \<Rightarrow> returnS False
         | Some canonical \<Rightarrow>
             if jget (ad_input (ar_definition canonical)) ''legacy_resolution'' \<noteq> None then returnS False
             else
               bindS (checkS (\<lambda>_. replay_from_record env canonical Canonical (rs_run_id st))) (\<lambda>replay.
               bindS (checkS (\<lambda>_. bindR (validated_canonical_receipt_output env canonical) (\<lambda>r.
                        ok_or r InvalidCompletionPayload))) (\<lambda>receipt_output.
               bindS (checkS (\<lambda>_. receipt_of V receipt_output)) (\<lambda>receipt.
                 if rp_terminal_receipt replay \<noteq> receipt
                    \<or> rp_invocation_id replay \<noteq> ad_logical_key (ar_definition lifecycle)
                 then returnS False
                 else
                   bindS (checkS (\<lambda>_. replay_from_lifecycle_record env lifecycle (rs_run_id st))) (\<lambda>closed.
                     case closed of
                       Some closed_replay \<Rightarrow> returnS (closed_replay = replay)
                     | None \<Rightarrow>
                         bindS (checkS (\<lambda>_. ok_or (latest_attempt lifecycle) InvalidCompletionPayload)) (\<lambda>attempt.
                           if at_attempt attempt \<noteq> lifecycle_attempt \<or> at_status attempt \<noteq> AtRunning
                           then returnS False
                           else bindS (runS (complete_activity env lifecycle_activity_id lifecycle_attempt
                                  (lifecycle_closed_output V replay))) (\<lambda>_. returnS True)))))))))"

definition fail_invocation_lifecycle ::
  "durable_env \<Rightarrow> ('s \<Rightarrow> 's) \<Rightarrow> 's run_driver \<Rightarrow> string \<Rightarrow> nat \<Rightarrow> ('s, 'z, unit) driver_op"
where
  "fail_invocation_lifecycle env others d activity_id attempt =
     bindS (driver_fail_activity env others d activity_id attempt
              ''fail-closed invocation audit lifecycle was not accepted by every sink'' False True) (\<lambda>_. returnS ())"

subsection \<open>Delivering the terminal audit record\<close>

definition begin_invocation_run_stopped_audit ::
  "durable_env \<Rightarrow> driver_codec \<Rightarrow> ('s \<Rightarrow> 's) \<Rightarrow> 's run_driver \<Rightarrow> replay_envelope \<Rightarrow> ('s, 'z, durable_activity) driver_op"
where
  "begin_invocation_run_stopped_audit env V others d replay =
     bindS (checkS (\<lambda>_. invalid_payload (ser_receipt env (rp_terminal_receipt replay)))) (\<lambda>receipt.
     bindS (checkS (\<lambda>_. terminal_audit_input env V replay receipt)) (\<lambda>input.
       begun (transition others d
         (bindS (checkS (\<lambda>st. validate_replay_envelope replay Canonical (rs_run_id st) (Some (rp_invocation_id replay)))) (\<lambda>_.
          bindS (checkS (\<lambda>st.
            if \<not> list_ex (\<lambda>r. is_step RUNTIME_INVOCATION_LIFECYCLE_STEP_ID r
                 \<and> ad_logical_key (ar_definition r) = rp_invocation_id replay
                 \<and> completed_output r = None \<and> latest_is AtRunning r) (records st)
            then Inl invalid_event
            else if list_ex is_terminal_audit (records st)
            then Inl (TerminalRecoveryRequired RUNTIME_RUN_STOPPED_AUDIT_STEP_ID ''terminal'')
            else not_blocked (ids_of (filter (\<lambda>r. \<not> is_step RUNTIME_INVOCATION_LIFECYCLE_STEP_ID r
                   \<and> latest_is AtRunning r) (records st))))) (\<lambda>_.
            runS (prepare_activity env RUNTIME_RUN_STOPPED_AUDIT_STEP_ID ''terminal'' input
                    EffReconcileRequired None)))))))"

definition check_size :: "driver_codec \<Rightarrow> nat \<Rightarrow> json \<Rightarrow> driver_error + unit" where
  "check_size V max_bytes output =
     bindR (invalid_payload (json_bytes V output)) (\<lambda>actual_bytes.
       if actual_bytes > max_bytes then Inl (CompletionPayloadTooLarge actual_bytes max_bytes) else Inr ())"

definition complete_run_stopped_audit_and_invocation_lifecycle ::
  "durable_env \<Rightarrow> driver_codec \<Rightarrow> ('s \<Rightarrow> 's) \<Rightarrow> 's run_driver \<Rightarrow> string \<Rightarrow> nat \<Rightarrow> string \<Rightarrow> nat \<Rightarrow> replay_envelope
    \<Rightarrow> ('s, 'z, unit) driver_op"
where
  "complete_run_stopped_audit_and_invocation_lifecycle env V others d audit_activity_id audit_attempt
      lifecycle_activity_id lifecycle_attempt replay =
     bindS (checkS (\<lambda>_. invalid_payload (ser_receipt env (rp_terminal_receipt replay)))) (\<lambda>receipt.
     bindS (checkS (\<lambda>_. check_each (check_size V (dd_max_completion_bytes d))
              [receipt, lifecycle_closed_output V replay])) (\<lambda>_.
       transition others d
         (bindS (checkS (\<lambda>st. validate_replay_envelope replay Canonical (rs_run_id st) (Some (rp_invocation_id replay)))) (\<lambda>_.
          bindS (runS (complete_activity env audit_activity_id audit_attempt receipt)) (\<lambda>_.
          doneS (runS (complete_activity env lifecycle_activity_id lifecycle_attempt
                   (lifecycle_closed_output V replay))))))))"

definition fail_pair ::
  "durable_env \<Rightarrow> ('s \<Rightarrow> 's) \<Rightarrow> 's run_driver \<Rightarrow> string \<Rightarrow> nat \<Rightarrow> string \<Rightarrow> string \<Rightarrow> nat \<Rightarrow> string \<Rightarrow> ('s, 'z, unit) driver_op"
where
  "fail_pair env others d audit_activity_id audit_attempt audit_error lifecycle_activity_id lifecycle_attempt
      lifecycle_error =
     transition others d
       (bindS (runS (fail_activity env audit_activity_id audit_attempt audit_error False True)) (\<lambda>_.
        doneS (runS (fail_activity env lifecycle_activity_id lifecycle_attempt lifecycle_error False True))))"

definition fail_run_stopped_audit_and_invocation_lifecycle ::
  "durable_env \<Rightarrow> ('s \<Rightarrow> 's) \<Rightarrow> 's run_driver \<Rightarrow> string \<Rightarrow> nat \<Rightarrow> string \<Rightarrow> nat \<Rightarrow> ('s, 'z, unit) driver_op"
where
  "fail_run_stopped_audit_and_invocation_lifecycle env others d audit_id audit_attempt lifecycle_id lifecycle_attempt =
     fail_pair env others d audit_id audit_attempt
       ''fail-closed RunStopped audit delivery was not accepted by every sink''
       lifecycle_id lifecycle_attempt ''RunStopped audit rejection left the invocation lifecycle ambiguous''"

definition check_recovery ::
  "durable_env \<Rightarrow> driver_codec \<Rightarrow> replay_envelope \<Rightarrow> run_state \<Rightarrow> driver_error + unit"
where
  "check_recovery env V replay st =
     bindR (validate_replay_envelope replay Recovery (rs_run_id st) (Some (rp_invocation_id replay))) (\<lambda>_.
     bindR (ok_or (completed_canonical st) invalid_event) (\<lambda>terminal_receipt.
     bindR (bindR (validated_canonical_receipt_output env terminal_receipt) (\<lambda>r. ok_or r InvalidCompletionPayload))
       (\<lambda>completed_output.
     bindR (receipt_of V completed_output) (\<lambda>completed_receipt.
       if completed_receipt \<noteq> rp_terminal_receipt replay then Inl InvalidCompletionPayload
       else if jget (ad_input (ar_definition terminal_receipt)) ''legacy_resolution'' = None then
         bindR (replay_from_record env terminal_receipt Canonical (rs_run_id st)) (\<lambda>canonical_replay.
           if rp_invocation_id canonical_replay = rp_invocation_id replay
           then Inl InvalidCompletionPayload else Inr ())
       else Inr ()))))"

definition begin_recovery_run_stopped_audit ::
  "durable_env \<Rightarrow> driver_codec \<Rightarrow> ('s \<Rightarrow> 's) \<Rightarrow> 's run_driver \<Rightarrow> replay_envelope \<Rightarrow> ('s, 'z, durable_activity) driver_op"
where
  "begin_recovery_run_stopped_audit env V others d replay =
     bindS (checkS (\<lambda>_. terminal_audit_input env V replay accepted_output)) (\<lambda>input.
       begun (transition others d
         (bindS (checkS (check_recovery env V replay)) (\<lambda>_.
            runS (prepare_activity env RUNTIME_RECOVERY_RUN_STOPPED_AUDIT_STEP_ID (rp_invocation_id replay) input
                    EffReconcileRequired None)))))"

definition complete_recovery_run_stopped_audit_and_invocation_lifecycle ::
  "durable_env \<Rightarrow> driver_codec \<Rightarrow> ('s \<Rightarrow> 's) \<Rightarrow> 's run_driver \<Rightarrow> string \<Rightarrow> nat \<Rightarrow> string \<Rightarrow> nat \<Rightarrow> replay_envelope
    \<Rightarrow> ('s, 'z, unit) driver_op"
where
  "complete_recovery_run_stopped_audit_and_invocation_lifecycle env V others d recovery_activity_id recovery_attempt
      lifecycle_activity_id lifecycle_attempt replay =
     transition others d
       (bindS (checkS (\<lambda>st. validate_replay_envelope replay Recovery (rs_run_id st) (Some (rp_invocation_id replay)))) (\<lambda>_.
        bindS (runS (complete_activity env recovery_activity_id recovery_attempt accepted_output)) (\<lambda>_.
        doneS (runS (complete_activity env lifecycle_activity_id lifecycle_attempt
                 (lifecycle_closed_output V replay))))))"

definition fail_recovery_run_stopped_audit_and_invocation_lifecycle ::
  "durable_env \<Rightarrow> ('s \<Rightarrow> 's) \<Rightarrow> 's run_driver \<Rightarrow> string \<Rightarrow> nat \<Rightarrow> string \<Rightarrow> nat \<Rightarrow> ('s, 'z, unit) driver_op"
where
  "fail_recovery_run_stopped_audit_and_invocation_lifecycle env others d audit_id audit_attempt lifecycle_id
      lifecycle_attempt =
     fail_pair env others d audit_id audit_attempt
       ''fail-closed recovery RunStopped audit delivery was not accepted by every sink''
       lifecycle_id lifecycle_attempt ''recovery RunStopped rejection left the invocation lifecycle ambiguous''"

subsection \<open>Retrying a terminal audit record\<close>

record audit_retry =
  tr_kind :: audit_kind
  tr_activity_id :: string
  tr_attempt :: nat
  tr_replay :: replay_envelope

definition safe_to_retry :: "activity_record \<Rightarrow> bool" where
  "safe_to_retry r = (case latest_attempt r of None \<Rightarrow> False
     | Some a \<Rightarrow> at_status a = AtFailed \<and> at_retryable a \<and> \<not> at_effect_ambiguous a)"

definition retry_target :: "replay_envelope \<Rightarrow> driver_error + string \<times> string" where
  "retry_target replay =
     (case rp_kind replay of
        Canonical \<Rightarrow> Inr (RUNTIME_RUN_STOPPED_AUDIT_STEP_ID, ''terminal'')
      | Recovery \<Rightarrow> Inr (RUNTIME_RECOVERY_RUN_STOPPED_AUDIT_STEP_ID, rp_invocation_id replay)
      | Direct \<Rightarrow> Inl InvalidCompletionPayload)"

definition retried_record :: "durable_env \<Rightarrow> replay_envelope \<Rightarrow> run_state \<Rightarrow> driver_error + activity_record" where
  "retried_record env replay st =
     (let b = rp_audit_binding replay in
      if ab_delivery_id b = None \<or> ab_sink_count b = 0 \<or> ab_failure_mode b \<noteq> FailClosed
      then Inl InvalidCompletionPayload
      else
        bindR (retry_target replay) (\<lambda>(step, key).
        bindR (validate_replay_envelope replay (rp_kind replay) (rs_run_id st) (Some (rp_invocation_id replay))) (\<lambda>_.
        bindR (ok_or (List.find (\<lambda>r. is_step step r \<and> ad_logical_key (ar_definition r) = key) (records st))
                 invalid_event) (\<lambda>record.
        bindR (replay_from_record env record (rp_kind replay) (rs_run_id st)) (\<lambda>persisted_replay.
          if persisted_replay \<noteq> replay then Inl InvalidCompletionPayload
          else if \<not> safe_to_retry record then Inl invalid_event
          else bindR (not_blocked (ids_of (filter (latest_is AtRunning) (records st)))) (\<lambda>_. Inr record))))))"

definition begin_terminal_audit_retry ::
  "durable_env \<Rightarrow> ('s \<Rightarrow> 's) \<Rightarrow> 's run_driver \<Rightarrow> replay_envelope \<Rightarrow> ('s, 'z, audit_retry) driver_op"
where
  "begin_terminal_audit_retry env others d replay =
     transition others d
       (bindS (checkS (retried_record env replay)) (\<lambda>record.
          let a = ar_definition record in
          bindS (runS (prepare_activity env (ad_stable_step_id a) (ad_logical_key a) (ad_input a)
                   (ad_side_effect_class a) (ad_idempotency_key a))) (\<lambda>decision.
            case decision of
              Execute activity_id attempt _ \<Rightarrow>
                returnS \<lparr>tr_kind = rp_kind replay, tr_activity_id = activity_id, tr_attempt = attempt, tr_replay = replay\<rparr>
            | _ \<Rightarrow> failS invalid_event)))"

definition complete_terminal_audit_retry ::
  "durable_env \<Rightarrow> driver_codec \<Rightarrow> ('s \<Rightarrow> 's) \<Rightarrow> 's run_driver \<Rightarrow> audit_retry \<Rightarrow> ('s, 'z, unit) driver_op"
where
  "complete_terminal_audit_retry env V others d retry =
     bindS (checkS (\<lambda>_. case tr_kind retry of
              Canonical \<Rightarrow> invalid_payload (ser_receipt env (rp_terminal_receipt (tr_replay retry)))
            | Recovery \<Rightarrow> Inr accepted_output
            | Direct \<Rightarrow> Inl InvalidCompletionPayload)) (\<lambda>output.
       driver_complete_activity env V others d (tr_activity_id retry) (tr_attempt retry) output)"

definition fail_terminal_audit_retry ::
  "durable_env \<Rightarrow> ('s \<Rightarrow> 's) \<Rightarrow> 's run_driver \<Rightarrow> audit_retry \<Rightarrow> ('s, 'z, unit) driver_op"
where
  "fail_terminal_audit_retry env others d retry =
     bindS (driver_fail_activity env others d (tr_activity_id retry) (tr_attempt retry)
              ''reconciled RunStopped retry was not accepted by every audit sink'' False True) (\<lambda>_. returnS ())"

subsection \<open>Ending the run\<close>

definition end_completed :: "durable_env \<Rightarrow> unit work" where
  "end_completed env =
     bindS (runS (checkpoint_op env ''runtime-final'' (Some ''runtime completed''))) (\<lambda>_.
       doneS (runS (complete_run env ''runtime'')))"

definition end_failed :: "durable_env \<Rightarrow> string \<Rightarrow> unit work" where
  "end_failed env error =
     bindS (runS (checkpoint_op env ''runtime-failed'' (Some ''runtime failed''))) (\<lambda>_.
       doneS (runS (fail_run env ''runtime'' error)))"

definition end_cancelled :: "durable_env \<Rightarrow> string \<Rightarrow> unit work" where
  "end_cancelled env reason =
     bindS (runS (checkpoint_op env ''runtime-cancelled'' (Some ''runtime cancelled''))) (\<lambda>_.
       doneS (runS (apply_command env (Cancel ''runtime'' (Some reason)))))"

definition receipt_status :: "run_stopped_receipt \<Rightarrow> run_status" where
  "receipt_status receipt =
     (if rr_reason receipt = ''end_turn'' \<or> rr_reason receipt = ''stop'' then RunCompletedSt
      else if rr_reason receipt = ''approval_interrupted'' \<or> rr_reason receipt = ''cancelled'' then RunCancelledSt
      else RunFailedSt)"

definition finalize_run_stopped_receipt ::
  "durable_env \<Rightarrow> ('s \<Rightarrow> 's) \<Rightarrow> 's run_driver \<Rightarrow> run_stopped_receipt \<Rightarrow> ('s, 'z, unit) driver_op"
where
  "finalize_run_stopped_receipt env others d receipt =
     (let expected = receipt_status receipt in
      transition others d (withS (\<lambda>st.
        if st_status st = expected then returnS ()
        else case st_status st of
          RunReconcileRequired \<Rightarrow> failS (DriverState RunRequiresReconciliation)
        | RunRunning \<Rightarrow>
            (case expected of
               RunCompletedSt \<Rightarrow> end_completed env
             | RunFailedSt \<Rightarrow> end_failed env (rr_reason receipt)
             | _ \<Rightarrow> end_cancelled env (rr_reason receipt))
        | _ \<Rightarrow> failS invalid_event)))"

definition driver_complete_run :: "durable_env \<Rightarrow> ('s \<Rightarrow> 's) \<Rightarrow> 's run_driver \<Rightarrow> ('s, 'z, unit) driver_op" where
  "driver_complete_run env others d = transition others d (end_completed env)"

definition unless_ended :: "unit work \<Rightarrow> unit work" where
  "unless_ended m = withS (\<lambda>st.
     if st_status st = RunReconcileRequired \<or> is_terminal (st_status st) then returnS () else m)"

definition driver_fail_run :: "durable_env \<Rightarrow> ('s \<Rightarrow> 's) \<Rightarrow> 's run_driver \<Rightarrow> string \<Rightarrow> ('s, 'z, unit) driver_op" where
  "driver_fail_run env others d error = transition others d (unless_ended (end_failed env error))"

definition driver_cancel_run :: "durable_env \<Rightarrow> ('s \<Rightarrow> 's) \<Rightarrow> 's run_driver \<Rightarrow> string \<Rightarrow> ('s, 'z, unit) driver_op" where
  "driver_cancel_run env others d reason = transition others d (unless_ended (end_cancelled env reason))"

definition reconcile_legacy_run_stopped_audit ::
  "durable_env \<Rightarrow> driver_codec \<Rightarrow> ('s \<Rightarrow> 's) \<Rightarrow> 's run_driver \<Rightarrow> string \<Rightarrow> string \<Rightarrow> nat \<Rightarrow> string \<Rightarrow> usage
    \<Rightarrow> ('s, 'z, unit) driver_op"
where
  "reconcile_legacy_run_stopped_audit env V others d reconciliation_id activity_id turns reason usage =
     (if reason = [] then failS InvalidCompletionPayload
      else transition others d
        (bindS (runS (checkS (\<lambda>st. activity st activity_id))) (\<lambda>record.
         bindS (checkS (\<lambda>_. legacy_resolution_output env V record
                  \<lparr>rr_turns = turns, rr_reason = reason, rr_usage = usage\<rparr>)) (\<lambda>output.
           doneS (runS (reconcile_activity env reconciliation_id activity_id (RecCompleted output)))))))"

end
