(* ===== verification/Disposition.thy ===== *)
theory Disposition
  imports DriverOps
begin

text \<open>
  \<open>invocation_disposition\<close> of \<open>durable_runtime.rs\<close>: what an invocation may do with a run that another
  worker may have left behind. One transition looks at every reserved audit activity and every running
  activity that needs reconciliation, moves what is ambiguous to reconciliation, and classifies the run.
\<close>

datatype raw_disposition =
    RawExecute
  | RawFinalizeTerminal json
  | RawRetryTerminalAudit replay_envelope
  | RawAwaitingResume "string option"
  | RawReconcileRequired string
  | RawAlreadyTerminal run_status "string option"

datatype invocation_disposition =
    DispExecute
  | DispFinalizeTerminal run_stopped_receipt
  | DispRetryTerminalAudit replay_envelope
  | DispAwaitingResume "string option"
  | DispReconcileRequired string
  | DispAlreadyTerminal run_status "string option"

subsection \<open>Collecting what is ambiguous\<close>

text \<open>Whether something is ambiguous so far, and the reason.\<close>

type_synonym scan = "bool \<times> string"

definition ambiguous :: "string \<Rightarrow> scan work" where
  "ambiguous reason = returnS (True, reason)"

definition fail_ambiguous :: "durable_env \<Rightarrow> activity_record \<Rightarrow> nat \<Rightarrow> string \<Rightarrow> unit work" where
  "fail_ambiguous env record attempt error =
     doneS (runS (fail_activity env (ad_activity_id (ar_definition record)) attempt error False True))"

definition scan_lifecycle ::
  "durable_env \<Rightarrow> string \<Rightarrow> string option \<Rightarrow> activity_record \<Rightarrow> scan \<Rightarrow> scan work"
where
  "scan_lifecycle env run_id active_invocation_id record acc =
     bindS (quarantine_unstarted env record ''persisted invocation lifecycle schedule has no durable attempt'') (\<lambda>q.
       if q then ambiguous ''an orphan invocation lifecycle schedule requires explicit reconciliation''
       else bindS (checkS (\<lambda>_. replay_from_lifecycle_record env record run_id)) (\<lambda>replay.
         if replay \<noteq> None then returnS acc
         else case latest_attempt record of
           None \<Rightarrow> returnS acc
         | Some attempt \<Rightarrow>
             (case at_status attempt of
                AtRunning \<Rightarrow>
                  if active_invocation_id = Some (ad_logical_key (ar_definition record)) then returnS acc
                  else bindS (fail_ambiguous env record (at_attempt attempt)
                         ''worker stopped before the invocation audit lifecycle was closed'') (\<lambda>_.
                       ambiguous ''an invocation audit lifecycle may be open and requires explicit reconciliation'')
              | AtReconcileRequired \<Rightarrow> returnS (True, snd acc)
              | AtFailed \<Rightarrow>
                  if at_retryable attempt \<and> \<not> at_effect_ambiguous attempt
                  then ambiguous ''legacy invocation lifecycle reconciliation is incomplete; record an explicit Completed outcome''
                  else returnS acc
              | AtCancelled \<Rightarrow> ambiguous ''cancelled invocation lifecycle reconciliation is unsupported''
              | AtCompleted \<Rightarrow> returnS acc)))"

definition scan_recovery :: "durable_env \<Rightarrow> activity_record \<Rightarrow> scan \<Rightarrow> scan work" where
  "scan_recovery env record acc =
     bindS (quarantine_unstarted env record ''persisted recovery RunStopped schedule has no durable attempt'') (\<lambda>q.
       if q then ambiguous ''an orphan recovery RunStopped schedule requires explicit reconciliation''
       else case latest_attempt record of
         None \<Rightarrow> returnS acc
       | Some attempt \<Rightarrow>
           if at_status attempt = AtRunning then
             bindS (fail_ambiguous env record (at_attempt attempt)
                      ''worker stopped before recovery RunStopped audit delivery was committed'') (\<lambda>_.
               ambiguous ''recovery RunStopped audit delivery is ambiguous and requires explicit reconciliation'')
           else returnS (fst acc \<or> at_status attempt = AtReconcileRequired, snd acc))"

definition scan_current :: "durable_env \<Rightarrow> activity_record \<Rightarrow> scan \<Rightarrow> scan work" where
  "scan_current env record acc =
     bindS (quarantine_unstarted env record ''persisted RunStopped schedule has no durable attempt'') (\<lambda>q.
       let acc' = (if q then (True, ''an orphan RunStopped schedule requires explicit reconciliation'') else acc) in
       case latest_attempt record of
         None \<Rightarrow> returnS acc'
       | Some attempt \<Rightarrow>
           if at_status attempt = AtRunning then
             bindS (fail_ambiguous env record (at_attempt attempt)
                      ''worker stopped before RunStopped audit delivery was committed'') (\<lambda>_.
               ambiguous ''RunStopped audit delivery is ambiguous and requires explicit reconciliation'')
           else returnS (fst acc' \<or> at_status attempt = AtReconcileRequired, snd acc'))"

definition scan_running :: "durable_env \<Rightarrow> activity_record \<Rightarrow> scan \<Rightarrow> scan work" where
  "scan_running env record acc =
     (case latest_attempt record of
        None \<Rightarrow> failS DriverPanicked
      | Some attempt \<Rightarrow>
          bindS (withS (\<lambda>st. if is_terminal (st_status st)
                 then runS (quarantine_terminal_legacy_running_activity env (ad_activity_id (ar_definition record))
                        ''worker found a migrated v1 terminal run with an unresolved activity'')
                 else fail_ambiguous env record (at_attempt attempt)
                        ''worker stopped before a reconciliation-required activity completed'')) (\<lambda>_.
            ambiguous ''a reconciliation-required activity may still be open''))"

fun scan_each :: "(activity_record \<Rightarrow> scan \<Rightarrow> scan work) \<Rightarrow> activity_record list \<Rightarrow> scan \<Rightarrow> scan work" where
  "scan_each f [] acc = returnS acc"
| "scan_each f (r # rs) acc = bindS (f r acc) (scan_each f rs)"

definition reserved_step :: "string \<Rightarrow> activity_record \<Rightarrow> bool" where
  "reserved_step step r = (is_step step r \<and> is_reserved_audit_activity r)"

definition terminal_record :: "string \<Rightarrow> run_state \<Rightarrow> activity_record option" where
  "terminal_record step st = List.find (\<lambda>r. is_step step r \<and> ad_logical_key (ar_definition r) = ''terminal''
     \<and> is_reserved_audit_activity r) (records st)"

definition open_unreserved :: "activity_record \<Rightarrow> bool" where
  "open_unreserved r = (\<not> is_reserved_audit_activity r
     \<and> ad_side_effect_class (ar_definition r) = EffReconcileRequired \<and> latest_is AtRunning r)"

definition scan_run :: "durable_env \<Rightarrow> string option \<Rightarrow> scan work" where
  "scan_run env active_invocation_id = withS (\<lambda>st.
      let lifecycles = filter (reserved_step RUNTIME_INVOCATION_LIFECYCLE_STEP_ID) (records st);
          current = terminal_record RUNTIME_RUN_STOPPED_AUDIT_STEP_ID st;
          recoveries = filter (reserved_step RUNTIME_RECOVERY_RUN_STOPPED_AUDIT_STEP_ID) (records st);
          running = filter open_unreserved (records st);
          start = (st_status st = RunReconcileRequired \<or> list_ex (latest_is AtReconcileRequired) (records st),
                   unwrap_or (pj_pause_reason (rs_projection st)) ''durable run requires explicit reconciliation'')
      in bindS (scan_each (scan_lifecycle env (rs_run_id st) active_invocation_id) lifecycles start) (\<lambda>a.
         bindS (scan_each (scan_recovery env) recoveries a) (\<lambda>b.
         bindS (case current of None \<Rightarrow> returnS b | Some r \<Rightarrow> scan_current env r b) (\<lambda>c.
           scan_each (scan_running env) running c))))"

subsection \<open>Classifying an unambiguous run\<close>

fun classify_recoveries :: "durable_env \<Rightarrow> string \<Rightarrow> run_status \<Rightarrow> activity_record list \<Rightarrow> driver_error + raw_disposition option" where
  "classify_recoveries env run_id status [] = Inr None"
| "classify_recoveries env run_id status (r # rs) =
     (if completed_output r \<noteq> None then classify_recoveries env run_id status rs
      else if is_terminal status
      then Inr (Some (RawReconcileRequired ''terminal run still has an unresolved recovery RunStopped audit''))
      else if safe_to_retry r
      then bindR (replay_from_record env r Recovery run_id) (\<lambda>replay. Inr (Some (RawRetryTerminalAudit replay)))
      else Inr (Some (RawReconcileRequired ''recovery RunStopped audit has no safe terminal disposition'')))"

definition classify_current :: "durable_env \<Rightarrow> string \<Rightarrow> run_status \<Rightarrow> activity_record \<Rightarrow> driver_error + raw_disposition" where
  "classify_current env run_id status r =
     bindR (validated_canonical_receipt_output env r) (\<lambda>receipt.
       case receipt of
         Some output \<Rightarrow> Inr (RawFinalizeTerminal output)
       | None \<Rightarrow>
           if is_terminal status then Inr (RawReconcileRequired ''terminal run still has an unresolved RunStopped audit'')
           else if safe_to_retry r
           then bindR (replay_from_record env r Canonical run_id) (\<lambda>replay. Inr (RawRetryTerminalAudit replay))
           else Inr (RawReconcileRequired ''RunStopped audit has no safe terminal disposition''))"

definition already_terminal :: "run_state \<Rightarrow> raw_disposition" where
  "already_terminal st = RawAlreadyTerminal (st_status st) (pj_pause_reason (rs_projection st))"

text \<open>An attestation of the outcome that an operator recorded on the v1 receipt itself.\<close>

definition prior_attestation ::
  "durable_env \<Rightarrow> run_state \<Rightarrow> activity_record \<Rightarrow> activity_attempt \<Rightarrow> legacy_resolution option"
where
  "prior_attestation env st record attempt =
     (case completed_output record of
        None \<Rightarrow> None
      | Some output \<Rightarrow>
          (case de_legacy_resolution env output of
             Inl _ \<Rightarrow> None
           | Inr r \<Rightarrow>
               if ls_schema_version r = LEGACY_RUN_STOPPED_RESOLUTION_SCHEMA_VERSION
                  \<and> ls_kind r = LEGACY_RUN_STOPPED_RESOLUTION_KIND
                  \<and> ls_source_activity_id r = ad_activity_id (ar_definition record)
                  \<and> ls_source_attempt r = at_attempt attempt
                  \<and> ls_source_started_sequence r = at_started_sequence attempt
                  \<and> rr_reason (lr_terminal_receipt r) \<noteq> []
                  \<and> list_ex (\<lambda>e. ev_schema_version e \<ge> 2
                      \<and> (case ev_kind e of
                           ActivityReconciled activity_id _ (RecCompleted v) \<Rightarrow>
                             activity_id = ad_activity_id (ar_definition record) \<and> v = output
                         | _ \<Rightarrow> False)) (rs_events st)
               then Some r else None))"

definition attestation_bridge_id :: string where
  "attestation_bridge_id = ''runtime-legacy-source-attestation-bridge''"

definition migrate_legacy ::
  "durable_env \<Rightarrow> driver_codec \<Rightarrow> activity_record \<Rightarrow> activity_attempt \<Rightarrow> raw_disposition option work"
where
  "migrate_legacy env V record attempt = withS (\<lambda>st.
      let attestation = prior_attestation env st record attempt in
      bindS (checkS (\<lambda>_. legacy_resolution_marker_input V record)) (\<lambda>marker_input.
      bindS (runS (prepare_activity env RUNTIME_RUN_STOPPED_AUDIT_STEP_ID ''terminal'' marker_input
               EffReconcileRequired None)) (\<lambda>marker.
        case marker of
          Execute activity_id n _ \<Rightarrow>
            (case attestation of
               Some resolution \<Rightarrow>
                 bindS (runS (checkS (\<lambda>st. activity st activity_id))) (\<lambda>bridge.
                 bindS (checkS (\<lambda>_. legacy_resolution_output env V bridge (lr_terminal_receipt resolution))) (\<lambda>output.
                 bindS (doneS (runS (fail_activity env activity_id n
                          ''typed legacy source attestation is ready for canonical migration'' False True))) (\<lambda>_.
                 bindS (doneS (runS (reconcile_activity env attestation_bridge_id activity_id (RecCompleted output)))) (\<lambda>_.
                   returnS (Some (RawAwaitingResume
                     (Some ''typed legacy RunStopped attestation migrated; resume once more to finalize'')))))))
             | None \<Rightarrow>
                 bindS (doneS (runS (fail_activity env activity_id n
                          ''legacy RunStopped receipt requires explicit typed terminal metadata'' False True))) (\<lambda>_.
                   returnS None))
        | _ \<Rightarrow> returnS None)))"

definition classify_legacy :: "durable_env \<Rightarrow> driver_codec \<Rightarrow> activity_record \<Rightarrow> raw_disposition work" where
  "classify_legacy env V record = withS (\<lambda>st.
      let id = ad_activity_id (ar_definition record) in
      if is_terminal (st_status st) then
        bindS (if latest_attempt record = None
               then runS (quarantine_unstarted_reserved_activity env id
                      ''terminal v1 RunStopped schedule has no durable delivery attempt'')
               else returnS ()) (\<lambda>_. checkS (\<lambda>st'.
          if (case latest_attempt record of None \<Rightarrow> False
              | Some a \<Rightarrow> at_status a = AtCompleted \<and> at_output a \<noteq> None \<and> at_output_hash a \<noteq> None)
          then Inr (already_terminal st')
          else Inr (RawReconcileRequired
            ''terminal v1 run has an unresolved legacy RunStopped outcome; record a typed completed attestation'')))
      else
        bindS (if st_status st = RunRunning then
                 (case latest_attempt record of
                    None \<Rightarrow>
                      bindS (runS (quarantine_unstarted_reserved_activity env id
                               ''migrated v1 RunStopped schedule has no durable attempt'')) (\<lambda>_. returnS None)
                  | Some attempt \<Rightarrow>
                      (case at_status attempt of
                         AtRunning \<Rightarrow>
                           bindS (fail_ambiguous env record (at_attempt attempt)
                                    ''legacy RunStopped receipt outcome is ambiguous'') (\<lambda>_. returnS None)
                       | AtReconcileRequired \<Rightarrow> returnS None
                       | _ \<Rightarrow> migrate_legacy env V record attempt))
               else returnS None) (\<lambda>early.
          returnS (case early of Some d \<Rightarrow> d
                   | None \<Rightarrow> RawReconcileRequired ''legacy RunStopped receipt requires explicit reconciliation'')))"

definition classify_run ::
  "durable_env \<Rightarrow> driver_codec \<Rightarrow> activity_record list \<Rightarrow> activity_record option \<Rightarrow> activity_record option \<Rightarrow> raw_disposition work"
where
  "classify_run env V recoveries current legacy = withS (\<lambda>st.
      if st_status st = RunPausedSt then returnS (RawAwaitingResume (pj_pause_reason (rs_projection st)))
      else bindS (checkS (\<lambda>st. classify_recoveries env (rs_run_id st) (st_status st) recoveries)) (\<lambda>early.
        case early of
          Some d \<Rightarrow> returnS d
        | None \<Rightarrow>
            (case current of
               Some r \<Rightarrow> checkS (\<lambda>st. classify_current env (rs_run_id st) (st_status st) r)
             | None \<Rightarrow>
                 (case legacy of
                    Some r \<Rightarrow> classify_legacy env V r
                  | None \<Rightarrow> checkS (\<lambda>st. Inr (if is_terminal (st_status st) then already_terminal st else RawExecute))))))"

definition raw_invocation_disposition ::
  "durable_env \<Rightarrow> driver_codec \<Rightarrow> string option \<Rightarrow> raw_disposition work"
where
  "raw_invocation_disposition env V active_invocation_id = withS (\<lambda>st.
      let current = terminal_record RUNTIME_RUN_STOPPED_AUDIT_STEP_ID st;
          recoveries = filter (reserved_step RUNTIME_RECOVERY_RUN_STOPPED_AUDIT_STEP_ID) (records st);
          legacy = terminal_record RUNTIME_LEGACY_RUN_STOPPED_AUDIT_STEP_ID st
      in bindS (scan_run env active_invocation_id) (\<lambda>(ambiguity, reason).
           if ambiguity then returnS (RawReconcileRequired reason)
           else classify_run env V recoveries current legacy))"

definition typed_disposition :: "driver_codec \<Rightarrow> raw_disposition \<Rightarrow> driver_error + invocation_disposition" where
  "typed_disposition V raw =
     (case raw of
        RawExecute \<Rightarrow> Inr DispExecute
      | RawRetryTerminalAudit replay \<Rightarrow> Inr (DispRetryTerminalAudit replay)
      | RawAwaitingResume reason \<Rightarrow> Inr (DispAwaitingResume reason)
      | RawReconcileRequired reason \<Rightarrow> Inr (DispReconcileRequired reason)
      | RawAlreadyTerminal status reason \<Rightarrow> Inr (DispAlreadyTerminal status reason)
      | RawFinalizeTerminal output \<Rightarrow> bindR (receipt_of V output) (\<lambda>receipt. Inr (DispFinalizeTerminal receipt)))"

definition invocation_disposition_with_active_lifecycle ::
  "durable_env \<Rightarrow> driver_codec \<Rightarrow> ('s \<Rightarrow> 's) \<Rightarrow> 's run_driver \<Rightarrow> string option \<Rightarrow> ('s, 'z, invocation_disposition) driver_op"
where
  "invocation_disposition_with_active_lifecycle env V others d active_invocation_id =
     bindS (transition others d (raw_invocation_disposition env V active_invocation_id)) (\<lambda>raw.
       checkS (\<lambda>_. typed_disposition V raw))"

end
