(* ===== verification/Worker.thy ===== *)
theory Worker
  imports Disposition
begin

text \<open>
  \<open>durable_worker.rs\<close>: a worker claims the lease of a run in its log, renews it by a heartbeat while the
  runtime executes, and releases it. The state is that of the driver in use, with the store in it. Durations
  are in nanoseconds. What happens outside of the worker is collected in \<open>surroundings\<close>: random bytes, the
  cancellation token, acts of other processes, and what the select loop of the execution sees.
\<close>

subsection \<open>Configuration\<close>

record worker_config =
  wc_owner_id :: string
  wc_lease_ttl :: nat
  wc_heartbeat_interval :: nat
  wc_initial_poll_backoff :: nat
  wc_max_poll_backoff :: nat
  wc_max_poll_attempts :: nat
  wc_cancellation_grace :: nat

datatype worker_error =
    InvalidConfiguration
  | WorkerCancelled string
  | ClaimUnavailable string nat "string option" "nat option"
  | LeaseLost string
  | HeartbeatUnavailable string
  | CleanupFailed worker_error worker_error
  | TerminalReconciliation string run_status
  | ReconciliationUnavailable string
  | Entropy
  | ClockStalled
  | ClockOverflow
  | WorkerStore store_error
  | WorkerDriver driver_error

text \<open>\<open>ClockStalled\<close> and \<open>ClockOverflow\<close> are the two messages of \<open>DurableWorkerError::Clock\<close>.\<close>

datatype 'v worker_outcome =
    Executed 'v bool
  | Terminal run_status "string option"
  | AwaitingResume "string option"
  | ReconcileNeeded string "string list"

definition worker_identifier :: "string \<Rightarrow> worker_error + unit" where
  "worker_identifier value = (if value = [] \<or> has_control value then Inl InvalidConfiguration else Inr ())"

definition as_millis :: "nat \<Rightarrow> nat" where
  "as_millis duration = duration div 1000000"

definition duration_ms :: "nat \<Rightarrow> worker_error + nat" where
  "duration_ms duration =
     (if duration = 0 \<or> as_millis duration = 0 then Inl InvalidConfiguration
      else if as_millis duration > u64_max then Inl InvalidConfiguration else Inr (as_millis duration))"

definition config_validate :: "worker_config \<Rightarrow> worker_error + unit" where
  "config_validate c =
     bindR (worker_identifier (wc_owner_id c)) (\<lambda>_.
     bindR (duration_ms (wc_lease_ttl c)) (\<lambda>lease_ttl_ms.
     bindR (duration_ms (wc_heartbeat_interval c)) (\<lambda>heartbeat_interval_ms.
       if lease_ttl_ms > MAX_DURABLE_WORKER_LEASE_MS then Inl InvalidConfiguration
       else if heartbeat_interval_ms > lease_ttl_ms div 2 \<or> wc_initial_poll_backoff c = 0
          \<or> wc_max_poll_backoff c < wc_initial_poll_backoff c \<or> wc_max_poll_attempts c = 0
          \<or> wc_cancellation_grace c = 0
       then Inl InvalidConfiguration
       else
         bindR (duration_ms (wc_initial_poll_backoff c)) (\<lambda>_.
         bindR (duration_ms (wc_max_poll_backoff c)) (\<lambda>_.
         bindR (duration_ms (wc_cancellation_grace c)) (\<lambda>_. Inr ()))))))"

definition config_new :: "string \<Rightarrow> worker_error + worker_config" where
  "config_new owner_id =
     (let c = \<lparr>wc_owner_id = owner_id, wc_lease_ttl = 30 * 10 ^ 9, wc_heartbeat_interval = 10 * 10 ^ 9,
        wc_initial_poll_backoff = 25 * 10 ^ 6, wc_max_poll_backoff = 10 ^ 9, wc_max_poll_attempts = 120,
        wc_cancellation_grace = 5 * 10 ^ 9\<rparr>
      in bindR (config_validate c) (\<lambda>_. Inr c))"

record 's durable_worker =
  dk_store :: "'s store_ops"
  dk_config :: worker_config

definition worker_new :: "'s store_ops \<Rightarrow> worker_config \<Rightarrow> worker_error + 's durable_worker" where
  "worker_new store config = bindR (config_validate config) (\<lambda>_. Inr \<lparr>dk_store = store, dk_config = config\<rparr>)"

subsection \<open>Leases\<close>

definition expires_at :: "nat \<Rightarrow> nat \<Rightarrow> worker_error + nat" where
  "expires_at now ttl = bindR (duration_ms ttl) (\<lambda>ttl_ms.
     if now + ttl_ms > u64_max then Inl ClockOverflow else Inr (now + ttl_ms))"

definition hex_bytes :: "nat list \<Rightarrow> string" where
  "hex_bytes bs = concat (map (\<lambda>b. [''0123456789abcdef'' ! (b div 16 mod 16), ''0123456789abcdef'' ! (b mod 16)]) bs)"

definition secure_lease_id :: "string + nat list \<Rightarrow> worker_error + string" where
  "secure_lease_id random = map_err (\<lambda>_. Entropy) (bindR random (\<lambda>bs. Inr (''worker-lease-'' @ hex_bytes bs)))"

definition reconciliation_activity_ids :: "run_state \<Rightarrow> string list" where
  "reconciliation_activity_ids st = ids_of (filter (latest_is AtReconcileRequired) (records st))"

type_synonym ('s, 'a) worker_op = "('s driver_world, worker_error, 'a) smeth"

definition map_errS :: "('e \<Rightarrow> 'f) \<Rightarrow> ('s, 'e, 'a) smeth \<Rightarrow> ('s, 'f, 'a) smeth" where
  "map_errS f m s = (map_err f (fst (m s)), snd (m s))"

abbreviation driverS :: "('s driver_world, driver_error, 'a) smeth \<Rightarrow> ('s, 'a) worker_op" where
  "driverS \<equiv> map_errS WorkerDriver"

definition load_run :: "'s durable_worker \<Rightarrow> string \<Rightarrow> ('s, run_state) worker_op" where
  "load_run k run_id w = (map_err WorkerStore (so_load (dk_store k) run_id (aw_store w)), w)"

definition read_clock :: "'s durable_worker \<Rightarrow> ('s, nat) worker_op" where
  "read_clock k w =
     (case so_clock (dk_store k) (aw_store w) of (r, s) \<Rightarrow> (map_err WorkerStore r, w\<lparr>aw_store := s\<rparr>))"

definition open_driver :: "('s \<Rightarrow> 's) \<Rightarrow> 's durable_worker \<Rightarrow> run_state \<Rightarrow> ('s driver_world, driver_error, 's run_driver) smeth" where
  "open_driver others k st w = driver_new others (dk_store k) MAX_DURABLE_COMPLETION_BYTES st (aw_store w)"

definition heartbeat ::
  "durable_env \<Rightarrow> ('s \<Rightarrow> 's) \<Rightarrow> 's durable_worker \<Rightarrow> 's run_driver \<Rightarrow> ('s, unit) worker_op"
where
  "heartbeat env others k d =
     bindS (read_clock k) (\<lambda>now.
     bindS (checkS (\<lambda>_. expires_at now (wc_lease_ttl (dk_config k)))) (\<lambda>expiry.
     bindS (driverS snapshot) (\<lambda>st.
     bindS (checkS (\<lambda>_. ok_or (current_lease st) (LeaseLost (rs_run_id st)))) (\<lambda>lease.
       if expiry \<le> wl_expires_at lease then failS ClockStalled
       else driverS (driver_renew_lease env others d now expiry)))))"

text \<open>The first heartbeat is repeated while the clock of the store stands still and the time allows it; the
  list tells for each repetition whether the deadline is still ahead.\<close>

fun ready_heartbeat ::
  "durable_env \<Rightarrow> ('s \<Rightarrow> 's) \<Rightarrow> 's durable_worker \<Rightarrow> 's run_driver \<Rightarrow> bool list \<Rightarrow> ('s, unit) worker_op"
where
  "ready_heartbeat env others k d [] w = heartbeat env others k d w"
| "ready_heartbeat env others k d (early # checks) w =
     (case heartbeat env others k d w of
        (Inl ClockStalled, w1) \<Rightarrow>
          if early then ready_heartbeat env others k d checks w1 else (Inl ClockStalled, w1)
      | r \<Rightarrow> r)"

definition release_authority ::
  "durable_env \<Rightarrow> ('s \<Rightarrow> 's) \<Rightarrow> 's durable_worker \<Rightarrow> lease_authority \<Rightarrow> string \<Rightarrow> ('s, unit) worker_op"
where
  "release_authority env others k authority run_id =
     bindS (load_run k run_id) (\<lambda>st.
     bindS (checkS (\<lambda>_. ok_or (current_lease st) (LeaseLost run_id))) (\<lambda>lease.
       if wl_owner_id lease \<noteq> la_owner_id authority \<or> wl_lease_id lease \<noteq> la_lease_id authority
       then failS (LeaseLost run_id)
       else
         bindS (driverS (open_driver others k st)) (\<lambda>d.
         bindS (driverS (bind_worker_lease d (la_owner_id authority) (la_lease_id authority))) (\<lambda>d'.
         bindS (read_clock k) (\<lambda>now.
           map_errS (\<lambda>_. LeaseLost run_id) (driver_release_lease env others d' now))))))"

definition finish_authority ::
  "durable_env \<Rightarrow> ('s \<Rightarrow> 's) \<Rightarrow> 's durable_worker \<Rightarrow> lease_authority \<Rightarrow> string \<Rightarrow> worker_error + 'a \<Rightarrow> ('s, 'a) worker_op"
where
  "finish_authority env others k authority run_id r w =
     (case (r, release_authority env others k authority run_id w) of
        (Inr v, Inr _, w1) \<Rightarrow> (Inr v, w1)
      | (Inr _, Inl cleanup, w1) \<Rightarrow> (Inl cleanup, w1)
      | (Inl primary, Inr _, w1) \<Rightarrow> (Inl primary, w1)
      | (Inl primary, Inl cleanup, w1) \<Rightarrow> (Inl (CleanupFailed primary cleanup), w1))"

subsection \<open>Claiming a run\<close>

record 's acquired_worker =
  aq_driver :: "'s run_driver"
  aq_authority :: lease_authority
  aq_recovered_claim :: bool
  aq_terminal_status :: "run_status option"

text \<open>For each attempt: is the token cancelled before it, is it cancelled during the sleep after it, what do
  others do to the store before it and at its swaps.\<close>

record 's polling =
  pl_random :: "string + nat list"
  pl_cancelled :: "nat \<Rightarrow> bool"
  pl_cancelled_asleep :: "nat \<Rightarrow> bool"
  pl_before :: "nat \<Rightarrow> 's \<Rightarrow> 's"
  pl_meanwhile :: "nat \<Rightarrow> 's \<Rightarrow> 's"

text \<open>An attempt gets the lease, fails, or leaves the holder of the lease it saw, if any.\<close>

datatype 's attempt = Got "'s acquired_worker" | Held "(string \<times> nat) option"

definition claim_attempt ::
  "durable_env \<Rightarrow> ('s \<Rightarrow> 's) \<Rightarrow> 's durable_worker \<Rightarrow> string \<Rightarrow> string \<Rightarrow> ('s, 's attempt) worker_op"
where
  "claim_attempt env others k run_id lease_id =
     (let owner = wc_owner_id (dk_config k); authority = \<lparr>la_owner_id = owner, la_lease_id = lease_id\<rparr> in
      bindS (load_run k run_id) (\<lambda>st w.
        case open_driver others k st w of
          (Inl (StateMismatch _), w1) \<Rightarrow> (Inr (Held None), w1)
        | (Inl (DriverStore (StConflict _ _ _)), w1) \<Rightarrow> (Inr (Held None), w1)
        | (Inl e, w1) \<Rightarrow> (Inl (WorkerDriver e), w1)
        | (Inr d, w1) \<Rightarrow>
            bindS (read_clock k) (\<lambda>now.
            bindS (checkS (\<lambda>_. expires_at now (wc_lease_ttl (dk_config k)))) (\<lambda>expiry w2.
              case driver_claim_lease env others d owner lease_id now expiry w2 of
                (Inr recovered_claim, w3) \<Rightarrow>
                  (case bind_worker_lease d owner lease_id w3 of
                     (Inl e, w4) \<Rightarrow> finish_authority env others k authority run_id (Inl (WorkerDriver e)) w4
                   | (Inr d', w4) \<Rightarrow>
                       (Inr (Got \<lparr>aq_driver = d', aq_authority = authority, aq_recovered_claim = recovered_claim,
                          aq_terminal_status = (if is_terminal (st_status st) then Some (st_status st) else None)\<rparr>), w4))
              | (Inl (DriverState (WorkerLeaseHeld owner_id expires)), w3) \<Rightarrow> (Inr (Held (Some (owner_id, expires))), w3)
              | (Inl (StateMismatch _), w3) \<Rightarrow> (Inr (Held None), w3)
              | (Inl (DriverStore (StConflict _ _ _)), w3) \<Rightarrow> (Inr (Held None), w3)
              | (Inl e, w3) \<Rightarrow> (Inl (WorkerDriver e), w3))) w1))"

definition DURATION_MAX :: nat where
  "DURATION_MAX = u64_max * 10 ^ 9 + 999999999"

definition next_backoff :: "worker_config \<Rightarrow> nat \<Rightarrow> nat" where
  "next_backoff c backoff = min (min (2 * backoff) DURATION_MAX) (wc_max_poll_backoff c)"

text \<open>The loop, with the sleeps that it has taken.\<close>

fun acquire_loop ::
  "durable_env \<Rightarrow> 's polling \<Rightarrow> 's durable_worker \<Rightarrow> string \<Rightarrow> string \<Rightarrow> nat \<Rightarrow> nat \<Rightarrow> nat \<Rightarrow> (string \<times> nat) option
    \<Rightarrow> 's driver_world \<Rightarrow> (worker_error + 's acquired_worker) \<times> nat list \<times> 's driver_world"
where
  "acquire_loop env p k run_id lease_id 0 attempt backoff last_holder w =
     (Inl (ClaimUnavailable run_id (wc_max_poll_attempts (dk_config k)) (map_option fst last_holder)
        (map_option snd last_holder)), [], w)"
| "acquire_loop env p k run_id lease_id (Suc left) attempt backoff last_holder w =
     (if pl_cancelled p attempt then (Inl (WorkerCancelled run_id), [], w)
      else case claim_attempt env (pl_meanwhile p attempt) k run_id lease_id (w\<lparr>aw_store := pl_before p attempt (aw_store w)\<rparr>) of
        (Inl e, w1) \<Rightarrow> (Inl e, [], w1)
      | (Inr (Got claim), w1) \<Rightarrow> (Inr claim, [], w1)
      | (Inr (Held holder), w1) \<Rightarrow>
          (let last_holder = (if holder \<noteq> None then holder else last_holder) in
           if left = 0 then acquire_loop env p k run_id lease_id 0 (attempt + 1) backoff last_holder w1
           else if pl_cancelled_asleep p attempt then (Inl (WorkerCancelled run_id), [backoff], w1)
           else (case acquire_loop env p k run_id lease_id left (attempt + 1)
                        (next_backoff (dk_config k) backoff) last_holder w1 of
                   (r, sleeps, w2) \<Rightarrow> (r, backoff # sleeps, w2))))"

definition acquire ::
  "durable_env \<Rightarrow> 's polling \<Rightarrow> 's durable_worker \<Rightarrow> string \<Rightarrow> 's driver_world
    \<Rightarrow> (worker_error + 's acquired_worker) \<times> nat list \<times> 's driver_world"
where
  "acquire env p k run_id w =
     (case secure_lease_id (pl_random p) of
        Inl e \<Rightarrow> (Inl e, [], w)
      | Inr lease_id \<Rightarrow>
          acquire_loop env p k run_id lease_id (wc_max_poll_attempts (dk_config k)) 1
            (wc_initial_poll_backoff (dk_config k)) None w)"

definition acquireS :: "durable_env \<Rightarrow> 's polling \<Rightarrow> 's durable_worker \<Rightarrow> string \<Rightarrow> ('s, 's acquired_worker) worker_op" where
  "acquireS env p k run_id w = (case acquire env p k run_id w of (r, _, w') \<Rightarrow> (r, w'))"

subsection \<open>Executing under heartbeats\<close>

text \<open>What the select loop sees: the callback or another task has acted (through a clone of the driver or on the
  store), the heartbeat interval has passed, the heartbeat thread has died, the failure of the heartbeat is
  taken, the cancellation is taken, the grace period is over, the callback returns.\<close>

datatype ('s, 'v) exec_event =
    Acted "'s driver_world \<Rightarrow> 's driver_world"
  | BeatDue
  | ThreadDied
  | FailureTaken
  | CancellationTaken
  | GraceOver
  | Returned 'v

datatype 'v exec_end = EndValue 'v | EndLeaseLost | EndCancelled

record exec_state =
  ex_beating :: bool
  ex_failed :: bool
  ex_deadline :: bool

text \<open>\<open>None\<close> as long as the callback has not returned. A branch of the select that is not enabled is not taken.\<close>

fun execution_loop ::
  "durable_env \<Rightarrow> ('s \<Rightarrow> 's) \<Rightarrow> 's durable_worker \<Rightarrow> 's run_driver \<Rightarrow> ('s, 'v) exec_event list \<Rightarrow> exec_state
    \<Rightarrow> 's driver_world \<Rightarrow> 'v exec_end option \<times> 's driver_world"
where
  "execution_loop env others k d [] x w = (None, w)"
| "execution_loop env others k d (Acted f # es) x w = execution_loop env others k d es x (f w)"
| "execution_loop env others k d (BeatDue # es) x w =
     (if \<not> ex_beating x then execution_loop env others k d es x w
      else case heartbeat env others k d w of
        (Inr _, w1) \<Rightarrow> execution_loop env others k d es x w1
      | (Inl _, w1) \<Rightarrow> execution_loop env others k d es (x\<lparr>ex_beating := False, ex_failed := True\<rparr>) w1)"
| "execution_loop env others k d (ThreadDied # es) x w =
     execution_loop env others k d es (x\<lparr>ex_beating := False, ex_failed := True\<rparr>) w"
| "execution_loop env others k d (FailureTaken # es) x w =
     (if ex_failed x then (Some EndLeaseLost, w) else execution_loop env others k d es x w)"
| "execution_loop env others k d (CancellationTaken # es) x w =
     execution_loop env others k d es (x\<lparr>ex_deadline := True\<rparr>) w"
| "execution_loop env others k d (GraceOver # es) x w =
     (if ex_deadline x then (Some EndCancelled, w) else execution_loop env others k d es x w)"
| "execution_loop env others k d (Returned v # es) x w = (Some (EndValue v), w)"

text \<open>What the worker sees of the heartbeat thread before it executes; a thread that is cancelled may have made
  its first heartbeat.\<close>

datatype readiness = ThreadReady | ThreadGone | CancelledBefore bool

record ('s, 'v) surroundings = "'s polling" +
  su_cancelled :: bool
  su_others :: "'s \<Rightarrow> 's"
  su_thread_starts :: bool
  su_readiness :: readiness
  su_early :: "bool list"
  su_events :: "('s, 'v) exec_event list"
  su_acknowledged :: bool

definition finish_claim ::
  "durable_env \<Rightarrow> ('s, 'v) surroundings \<Rightarrow> 's durable_worker \<Rightarrow> 's acquired_worker \<Rightarrow> string \<Rightarrow> worker_error + 'a \<Rightarrow> ('s, 'a) worker_op"
where
  "finish_claim env p k claim run_id r = finish_authority env (su_others p) k (aq_authority claim) run_id r"

text \<open>Stopping the heartbeat thread waits for its acknowledgement.\<close>

definition stop_heartbeat :: "('s, 'v) surroundings \<Rightarrow> string \<Rightarrow> worker_error + unit" where
  "stop_heartbeat p run_id = (if su_acknowledged p then Inr () else Inl (LeaseLost run_id))"

text \<open>The call of the callback, \<open>execute(driver, cancellation)\<close>, and the select loop around it. The world in
  which the callback is called is part of the result, and so of the result of everything that may call it:
  a list that is empty as long as it has not been called.\<close>

definition run_callback ::
  "durable_env \<Rightarrow> ('s, 'v) surroundings \<Rightarrow> 's durable_worker \<Rightarrow> 's run_driver \<Rightarrow> 's driver_world
    \<Rightarrow> 'v exec_end option \<times> 's driver_world list \<times> 's driver_world"
where
  "run_callback env p k d w =
     (case execution_loop env (su_others p) k d (su_events p)
             \<lparr>ex_beating = True, ex_failed = False, ex_deadline = False\<rparr> w of
        (e, w') \<Rightarrow> (e, [w], w'))"

definition execute_claim ::
  "durable_env \<Rightarrow> ('s, 'v) surroundings \<Rightarrow> 's durable_worker \<Rightarrow> 's acquired_worker \<Rightarrow> string \<Rightarrow> 's driver_world
    \<Rightarrow> (worker_error + 'v worker_outcome) option \<times> 's driver_world list \<times> 's driver_world"
where
  "execute_claim env p k claim run_id w =
     (let d = aq_driver claim;
          finish = (\<lambda>r calls w. case finish_claim env p k claim run_id r w of (x, w') \<Rightarrow> (Some x, calls, w'));
          stopped = (\<lambda>r calls w. case stop_heartbeat p run_id of
             Inl e \<Rightarrow> (Some (Inl e), calls, w) | Inr _ \<Rightarrow> finish r calls w)
      in if \<not> su_thread_starts p then finish (Inl (HeartbeatUnavailable run_id)) [] w
         else case su_readiness p of
           ThreadGone \<Rightarrow> (Some (Inl (LeaseLost run_id)), [], w)
         | CancelledBefore beaten \<Rightarrow> stopped (Inl (WorkerCancelled run_id)) []
             (if beaten then snd (ready_heartbeat env (su_others p) k d (su_early p) w) else w)
         | ThreadReady \<Rightarrow>
             (case ready_heartbeat env (su_others p) k d (su_early p) w of
                (Inl _, w1) \<Rightarrow> (Some (Inl (LeaseLost run_id)), [], w1)
              | (Inr _, w1) \<Rightarrow>
                  (case run_callback env p k d w1 of
                     (None, calls, w2) \<Rightarrow> (None, calls, w2)
                   | (Some (EndValue v), calls, w2) \<Rightarrow> stopped (Inr (Executed v (aq_recovered_claim claim))) calls w2
                   | (Some EndLeaseLost, calls, w2) \<Rightarrow> (Some (Inl (LeaseLost run_id)), calls, w2)
                   | (Some EndCancelled, calls, w2) \<Rightarrow> stopped (Inl (WorkerCancelled run_id)) calls w2)))"

subsection \<open>Running and reconciling\<close>

definition needs_reconciliation :: "string \<Rightarrow> ('s, 'v worker_outcome) worker_op" where
  "needs_reconciliation reason =
     bindS (driverS snapshot) (\<lambda>st. returnS (ReconcileNeeded reason (reconciliation_activity_ids st)))"

definition nonterminal_reason :: string where
  "nonterminal_reason = ''terminal durable run has a non-terminal invocation disposition; explicit reconciliation is required''"

definition terminal_outcome ::
  "durable_env \<Rightarrow> ('s, 'v) surroundings \<Rightarrow> 's run_driver \<Rightarrow> run_status \<Rightarrow> invocation_disposition \<Rightarrow> ('s, 'v worker_outcome) worker_op"
where
  "terminal_outcome env p d status disposition =
     (case disposition of
        DispReconcileRequired reason \<Rightarrow> needs_reconciliation reason
      | DispAlreadyTerminal status reason \<Rightarrow> returnS (Terminal status reason)
      | DispFinalizeTerminal receipt \<Rightarrow>
          bindS (driverS (finalize_run_stopped_receipt env (su_others p) d receipt)) (\<lambda>_.
          bindS (driverS snapshot) (\<lambda>st. returnS (Terminal status (pj_pause_reason (rs_projection st)))))
      | _ \<Rightarrow> needs_reconciliation nonterminal_reason)"

text \<open>Without a terminal status: the outcome, or nothing when the callback executes.\<close>

definition open_outcome :: "invocation_disposition \<Rightarrow> ('s, 'v worker_outcome option) worker_op" where
  "open_outcome disposition =
     (case disposition of
        DispAwaitingResume reason \<Rightarrow> returnS (Some (AwaitingResume reason))
      | DispReconcileRequired reason \<Rightarrow> bindS (needs_reconciliation reason) (\<lambda>oc. returnS (Some oc))
      | DispAlreadyTerminal status reason \<Rightarrow> returnS (Some (Terminal status reason))
      | DispExecute \<Rightarrow> returnS None
      | DispFinalizeTerminal _ \<Rightarrow> returnS None
      | DispRetryTerminalAudit _ \<Rightarrow> returnS None)"

definition claim_outcome ::
  "durable_env \<Rightarrow> driver_codec \<Rightarrow> ('s, 'v) surroundings \<Rightarrow> 's acquired_worker \<Rightarrow> string \<Rightarrow> ('s, 'v worker_outcome option) worker_op"
where
  "claim_outcome env V p claim run_id =
     (if su_cancelled p then failS (WorkerCancelled run_id)
      else bindS (driverS (invocation_disposition_with_active_lifecycle env V (su_others p) (aq_driver claim) None)) (\<lambda>disposition.
        case aq_terminal_status claim of
          Some status \<Rightarrow> bindS (terminal_outcome env p (aq_driver claim) status disposition) (\<lambda>oc. returnS (Some oc))
        | None \<Rightarrow> open_outcome disposition))"

definition worker_run ::
  "durable_env \<Rightarrow> driver_codec \<Rightarrow> ('s, 'v) surroundings \<Rightarrow> 's durable_worker \<Rightarrow> string \<Rightarrow> 's driver_world
    \<Rightarrow> (worker_error + 'v worker_outcome) option \<times> 's driver_world list \<times> 's driver_world"
where
  "worker_run env V p k run_id w =
     (case bindS (checkS (\<lambda>_. worker_identifier run_id)) (\<lambda>_. acquireS env (polling.truncate p) k run_id) w of
        (Inl e, w1) \<Rightarrow> (Some (Inl e), [], w1)
      | (Inr claim, w1) \<Rightarrow>
          (case claim_outcome env V p claim run_id w1 of
             (Inr None, w2) \<Rightarrow> execute_claim env p k claim run_id w2
           | (Inr (Some oc), w2) \<Rightarrow> (case finish_claim env p k claim run_id (Inr oc) w2 of (x, w3) \<Rightarrow> (Some x, [], w3))
           | (Inl e, w2) \<Rightarrow> (case finish_claim env p k claim run_id (Inl e) w2 of (x, w3) \<Rightarrow> (Some x, [], w3))))"

definition reconciled_claim ::
  "durable_env \<Rightarrow> driver_codec \<Rightarrow> ('s, 'v) surroundings \<Rightarrow> 's acquired_worker \<Rightarrow> string \<Rightarrow> string \<Rightarrow> string \<Rightarrow> reconciliation
    \<Rightarrow> ('s, unit) worker_op"
where
  "reconciled_claim env V p claim run_id reconciliation_id activity_id resolution =
     (if su_cancelled p then failS (WorkerCancelled run_id)
      else bindS (driverS (invocation_disposition_with_active_lifecycle env V (su_others p) (aq_driver claim) None)) (\<lambda>disposition.
        case disposition of
          DispReconcileRequired _ \<Rightarrow>
            driverS (reconcile_worker_activity env (su_others p) (aq_driver claim) reconciliation_id activity_id resolution)
        | _ \<Rightarrow> (case aq_terminal_status claim of
              None \<Rightarrow> failS (ReconciliationUnavailable run_id)
            | Some status \<Rightarrow> failS (TerminalReconciliation run_id status))))"

definition worker_reconcile ::
  "durable_env \<Rightarrow> driver_codec \<Rightarrow> ('s, 'v) surroundings \<Rightarrow> 's durable_worker \<Rightarrow> string \<Rightarrow> string \<Rightarrow> string \<Rightarrow> reconciliation
    \<Rightarrow> ('s, run_state) worker_op"
where
  "worker_reconcile env V p k run_id reconciliation_id activity_id resolution =
     bindS (checkS (\<lambda>_. worker_identifier run_id)) (\<lambda>_.
     bindS (checkS (\<lambda>_. worker_identifier reconciliation_id)) (\<lambda>_.
     bindS (checkS (\<lambda>_. worker_identifier activity_id)) (\<lambda>_.
     bindS (acquireS env (polling.truncate p) k run_id) (\<lambda>claim w.
       case reconciled_claim env V p claim run_id reconciliation_id activity_id resolution w of
         (r, w1) \<Rightarrow> bindS (finish_claim env p k claim run_id r) (\<lambda>_. load_run k run_id) w1))))"

end
