(* ===== verification/DriverProps.thy ===== *)
theory DriverProps
  imports Disposition
begin

text \<open>
  What the driver of a durable run guarantees: a change of the run is committed to the store or it does not
  happen, no other worker's history is overwritten, a driver whose commit failed does nothing any more, and
  an invocation executes only when nothing is ambiguous.
\<close>

subsection \<open>The work of a transition goes through the interface of the run\<close>

lemma preserves_withS [preserving]: "(\<And>st. preserves I (f st)) \<Longrightarrow> preserves I (withS f)"
  by (auto simp: preserves_def withS_def)

lemma preserves_runS [preserving]: "preserves I m \<Longrightarrow> preserves I (runS m)"
  by (auto simp: preserves_def runS_def split: prod.splits)

lemma preserves_doneS [preserving]: "preserves I m \<Longrightarrow> preserves I (doneS m)"
  by (auto simp: doneS_def intro: preserving)

lemma preserves_case_decision [preserving]:
  assumes "\<And>i n k. preserves I (f i n k)" and "\<And>i v. preserves I (g i v)" and "\<And>i x. preserves I (h i x)"
    and "\<And>i x. preserves I (p i x)" and "\<And>i. preserves I (q i)"
  shows "preserves I (case d of Execute i n k \<Rightarrow> f i n k | ReuseCompleted i v \<Rightarrow> g i v
    | DecReconcileRequired i x \<Rightarrow> h i x | DecFailed i x \<Rightarrow> p i x | DecCancelled i \<Rightarrow> q i)"
  using assms by (cases d) simp_all

lemma preserves_scan_each: "(\<And>r acc. preserves I (f r acc)) \<Longrightarrow> preserves I (scan_each f rs acc)"
  by (induction rs arbitrary: acc) (auto intro: preserving)

context append_invariant
begin

lemma keeps_quarantine: "preserves I (quarantine_unstarted env r reason)"
  by (auto simp: quarantine_unstarted_def intro!: preserving keeps_quarantine_unstarted)

lemma keeps_fail_ambiguous: "preserves I (fail_ambiguous env r n e)"
  by (auto simp: fail_ambiguous_def intro!: preserving keeps_fail_activity)

lemma keeps_scan_lifecycle: "preserves I (scan_lifecycle env run act r acc)"
  by (auto simp: scan_lifecycle_def ambiguous_def intro!: preserving keeps_quarantine keeps_fail_ambiguous
      split: option.splits attempt_status.splits)

lemma keeps_scan_recovery: "preserves I (scan_recovery env r acc)"
  by (auto simp: scan_recovery_def ambiguous_def intro!: preserving keeps_quarantine keeps_fail_ambiguous
      split: option.splits)

lemma keeps_scan_current: "preserves I (scan_current env r acc)"
  by (auto simp: scan_current_def ambiguous_def Let_def intro!: preserving keeps_quarantine keeps_fail_ambiguous
      split: option.splits)

lemma keeps_scan_running: "preserves I (scan_running env r acc)"
  by (auto simp: scan_running_def ambiguous_def intro!: preserving keeps_quarantine_legacy keeps_fail_ambiguous
      split: option.splits)

lemma keeps_scan_run: "preserves I (scan_run env act)"
  unfolding scan_run_def Let_def
  by (intro preserving preserves_scan_each keeps_scan_lifecycle keeps_scan_recovery keeps_scan_running keeps_scan_current)

lemma keeps_migrate: "preserves I (migrate_legacy env V r a)"
  unfolding migrate_legacy_def Let_def
  by (intro preserving keeps_prepare)
    (auto intro!: preserving keeps_fail_activity keeps_reconcile split: activity_decision.splits option.splits)

lemma keeps_classify_legacy: "preserves I (classify_legacy env V r)"
  unfolding classify_legacy_def Let_def
  by (auto intro!: preserving keeps_quarantine_unstarted keeps_fail_ambiguous keeps_migrate
      split: option.splits attempt_status.splits)

lemma keeps_classify: "preserves I (classify_run env V rs c l)"
  unfolding classify_run_def by (intro preserving keeps_classify_legacy)

lemma keeps_disposition: "preserves I (raw_invocation_disposition env V act)"
  unfolding raw_invocation_disposition_def Let_def
  by (intro preserving keeps_scan_run) (auto intro!: preserving keeps_classify split: prod.splits)

text \<open>The operations of the driver, as work on the run.\<close>

lemma keeps_checked_prepare: "preserves I (bindS (checkS c) (\<lambda>_. runS (prepare_activity env step key input k ik)))"
  by (intro preserving keeps_prepare)

lemma keeps_begin_lifecycle_work:
  "preserves I (withS (\<lambda>st. if a st then failS e else if b st then failS f else runS (prepare_activity env step key (g st) k ik)))"
  by (intro preserving keeps_prepare)

lemma keeps_end: "preserves I (end_completed env)" "preserves I (end_failed env x)" "preserves I (end_cancelled env x)"
  unfolding end_completed_def end_failed_def end_cancelled_def
  by (intro preserving keeps_checkpoint keeps_complete_run keeps_fail_run keeps_command)+

lemma keeps_unless_ended: "preserves I m \<Longrightarrow> preserves I (unless_ended m)"
  unfolding unless_ended_def by (intro preserving)

end

subsection \<open>What a transition does\<close>

definition holds :: "(run_state \<Rightarrow> bool) \<Rightarrow> ('s, 'z) approver_world_scheme \<Rightarrow> bool" where
  "holds I w \<longleftrightarrow> (\<forall>st. aw_run w = Some st \<longrightarrow> I st)"

definition reading :: "'s store_ops \<Rightarrow> 's \<Rightarrow> 's \<Rightarrow> bool" where
  "reading ops s s' \<longleftrightarrow> s' = s \<or> s' = snd (so_clock ops s)"

lemma clock_reads: "store_clock d w = (r, w') \<Longrightarrow> \<exists>s. reading (dd_store d) (aw_store w) s \<and> w' = w\<lparr>aw_store := s\<rparr>"
  by (auto simp: store_clock_def reading_def split: prod.splits)

lemma authority_reads:
  assumes "ensure_worker_lease_authority d current w = (r, w')"
  shows "\<exists>s. reading (dd_store d) (aw_store w) s \<and> w' = w\<lparr>aw_store := s\<rparr>"
proof -
  have "w' = w \<or> (\<exists>x. store_clock d w = (x, w'))"
    using assms by (auto simp: ensure_worker_lease_authority_def bindS_def returnS_def failS_def
        split: option.splits if_splits prod.splits sum.splits)
  then show ?thesis
  proof
    assume "w' = w"
    then show ?thesis by (intro exI [of _ "aw_store w"]) (simp add: reading_def)
  qed (auto dest: clock_reads)
qed

text \<open>The effect of an operation: nothing but clock readings, a stop (a poisoned driver or a poisoned lock), or
  one commit of work on the run that the driver and the store had.\<close>

inductive effect :: "(run_state \<Rightarrow> run_state \<Rightarrow> bool) \<Rightarrow> 's run_driver \<Rightarrow> ('s \<Rightarrow> 's) \<Rightarrow> ('s, 'z) approver_world_scheme
    \<Rightarrow> ('s, 'z) approver_world_scheme \<Rightarrow> bool"
  for R d others w where
  quiet: "aw_run w' = aw_run w \<Longrightarrow> aw_poisoned w' = aw_poisoned w \<Longrightarrow>
    reading (dd_store d) (aw_store w) (aw_store w') \<Longrightarrow> effect R d others w w'"
| stopped: "\<not> aw_poisoned w \<Longrightarrow> aw_run w' = aw_run w \<and> aw_poisoned w' \<or> aw_run w' = None \<and> aw_poisoned w' = aw_poisoned w \<Longrightarrow>
    effect R d others w w'"
| commit: "\<not> aw_poisoned w \<Longrightarrow> aw_run w = Some current \<Longrightarrow> so_load (dd_store d) (rs_run_id current) (aw_store w) = Inr current \<Longrightarrow>
    reading (dd_store d) (aw_store w) s \<Longrightarrow> R current candidate \<Longrightarrow> candidate \<noteq> current \<Longrightarrow>
    driver_swap d (last_sequence current) candidate (others s) = (Inr u, aw_store w') \<Longrightarrow>
    aw_run w' = Some candidate \<Longrightarrow> aw_poisoned w' = aw_poisoned w \<Longrightarrow> effect R d others w w'"

definition work_of :: "'a work \<Rightarrow> run_state \<Rightarrow> run_state \<Rightarrow> bool" where
  "work_of m st st' \<longleftrightarrow> (\<exists>x. m st = (Inr x, st'))"

lemma transition_effect:
  assumes "transition_inner others d q m w = (r, w')"
  shows "effect (work_of m) d others w w'"
proof (cases "aw_poisoned w \<or> aw_run w = None")
  case True
  with assms show ?thesis by (intro effect.quiet) (auto simp: transition_inner_def reading_def split: if_splits)
next
  case False
  then obtain current where run: "\<not> aw_poisoned w" "aw_run w = Some current" by auto
  show ?thesis
  proof (cases "so_load (dd_store d) (rs_run_id current) (aw_store w) = Inr current")
    case False
    with assms run have "w' = w\<lparr>aw_poisoned := True\<rparr>" by (auto simp: transition_inner_def split: sum.splits if_splits)
    with run show ?thesis by (intro effect.stopped) simp_all
  next
    case True
    let ?m0 = "if q then ensure_worker_lease_authority d current else returnS ()"
    obtain x w1 where a: "?m0 w = (x, w1)" by force
    then obtain s where w1: "w1 = w\<lparr>aw_store := s\<rparr>" and s: "reading (dd_store d) (aw_store w) s"
      by (cases q) (auto simp: returnS_def reading_def dest: authority_reads intro: that [of "aw_store w"])
    have t: "bindS ?m0 (\<lambda>_. commit_work others d m current) w = (r, w')"
      using assms run True by (simp add: transition_inner_def)
    show ?thesis
    proof (cases x)
      case (Inl e)
      with t a w1 s show ?thesis by (intro effect.quiet) (auto simp: bindS_def)
    next
      case (Inr u)
      with t a have c: "commit_work others d m current w1 = (r, w')" by (simp add: bindS_def)
      obtain y candidate where m: "m current = (y, candidate)" by force
      show ?thesis
      proof (cases y)
        case (Inl e)
        with c m w1 have "w' = w1 \<or> w' = w1\<lparr>aw_run := None\<rparr>" by (auto simp: commit_work_def split: if_splits)
        then show ?thesis
        proof
          assume "w' = w1"
          with w1 s show ?thesis by (intro effect.quiet) simp_all
        next
          assume "w' = w1\<lparr>aw_run := None\<rparr>"
          with w1 run show ?thesis by (intro effect.stopped) simp_all
        qed
      next
        case (Inr v)
        show ?thesis
        proof (cases "candidate = current")
          case True
          with c m Inr w1 s show ?thesis by (intro effect.quiet) (auto simp: commit_work_def)
        next
          case False
          obtain z s' where sw: "driver_swap d (last_sequence current) candidate (others (aw_store w1)) = (z, s')" by force
          show ?thesis
          proof (cases z)
            case (Inl e)
            with c m Inr False sw w1 have "w' = w\<lparr>aw_store := s', aw_poisoned := True\<rparr>" by (simp add: commit_work_def)
            with run show ?thesis by (intro effect.stopped) simp_all
          next
            case ok: (Inr k)
            with c m Inr False sw w1 have "w' = w\<lparr>aw_store := s', aw_run := Some candidate\<rparr>" by (simp add: commit_work_def)
            with run True m Inr False sw w1 s ok show ?thesis by (intro effect.commit [where current = current and candidate = candidate and s = s]) (auto simp: work_of_def)
          qed
        qed
      qed
    qed
  qed
qed

subsection \<open>Every operation of the driver\<close>

text \<open>What every invariant of the appends survives.\<close>

definition lawful :: "durable_env \<Rightarrow> run_state \<Rightarrow> run_state \<Rightarrow> bool" where
  "lawful env st st' \<longleftrightarrow> (\<forall>allowed I. append_invariant env allowed I \<longrightarrow> I st \<longrightarrow> I st')"

definition acts :: "(run_state \<Rightarrow> run_state \<Rightarrow> bool) \<Rightarrow> 's run_driver \<Rightarrow> ('s \<Rightarrow> 's) \<Rightarrow> ('s, 'z, 'a) driver_op \<Rightarrow> bool" where
  "acts R d others m \<longleftrightarrow> (\<forall>w r w'. m w = (r, w') \<longrightarrow> effect R d others w w')"

named_theorems acting

lemma acts_transition:
  assumes "\<And>allowed I. append_invariant env allowed I \<Longrightarrow> preserves I m"
  shows "acts (lawful env) d others (transition_inner others d q m)"
  unfolding acts_def
proof (intro allI impI)
  fix w r w'
  assume "transition_inner others d q m w = (r, w')"
  from transition_effect [OF this] show "effect (lawful env) d others w w'"
  proof cases
    case (commit current s candidate u)
    have "lawful env current candidate"
      unfolding lawful_def
    proof (intro allI impI)
      fix allowed I
      assume inv: "append_invariant env allowed I" and "I current"
      with assms [OF inv] commit(5) show "I candidate" by (auto simp: work_of_def preserves_def)
    qed
    with commit show ?thesis by (intro effect.commit) assumption+
  qed (auto intro: effect.quiet effect.stopped)
qed

lemma effect_refl: "effect R d others w w"
  by (rule effect.quiet) (simp_all add: reading_def)

lemma acts_check [acting]: "(\<And>x. acts R d others (f x)) \<Longrightarrow> acts R d others (bindS (checkS c) f)"
  by (auto simp: acts_def bindS_def checkS_def effect_refl split: sum.splits)

lemma acts_pure [acting]: "acts R d others (returnS x)" "acts R d others (failS e)" "acts R d others (checkS c)"
  by (auto simp: acts_def returnS_def failS_def checkS_def effect_refl)

lemma acts_if [acting]: "acts R d others a \<Longrightarrow> acts R d others b \<Longrightarrow> acts R d others (if c then a else b)"
  by simp

definition looks :: "('s, 'z, 'a) driver_op \<Rightarrow> bool" where
  "looks m \<longleftrightarrow> (\<forall>w. snd (m w) = w)"

lemma acts_then: "acts R d others m \<Longrightarrow> (\<And>x. looks (f x)) \<Longrightarrow> acts R d others (bindS m f)"
  unfolding acts_def looks_def bindS_def by (auto split: prod.splits sum.splits) (metis snd_conv)+

lemma looks_pure: "looks (returnS x)" "looks (failS e)" "looks (checkS c)"
  by (simp_all add: looks_def returnS_def failS_def checkS_def)

lemma acts_begun: "acts R d others m \<Longrightarrow> acts R d others (begun m)"
  unfolding begun_def by (intro acts_then looks_pure)

lemma acts_clock: "(\<And>now. looks (f now)) \<Longrightarrow> acts R d others (bindS (store_clock d) f)"
proof (rule acts_then)
  show "acts R d others (store_clock d)"
    by (auto simp: acts_def dest!: clock_reads intro!: effect.quiet)
qed

context append_invariant
begin

lemma keeps_finalize_work:
  "preserves I (withS (\<lambda>st. if st_status st = s then returnS () else case st_status st of
       RunReconcileRequired \<Rightarrow> failS e
     | RunRunning \<Rightarrow> (case s of RunCompletedSt \<Rightarrow> end_completed env | RunFailedSt \<Rightarrow> end_failed env x
                        | _ \<Rightarrow> end_cancelled env x)
     | _ \<Rightarrow> failS f))"
  by (auto intro!: preserving keeps_end split: run_status.splits)

end

lemmas works_defs = driver_claim_lease_def driver_renew_lease_def driver_release_lease_def reconcile_worker_activity_def
  driver_begin_activity_def driver_complete_activity_def driver_fail_activity_def begin_invocation_lifecycle_def
  complete_unstarted_invocation_lifecycle_def complete_invocation_lifecycle_with_replay_def
  close_matching_lifecycle_def fail_invocation_lifecycle_def begin_invocation_run_stopped_audit_def
  complete_run_stopped_audit_and_invocation_lifecycle_def fail_pair_def
  fail_run_stopped_audit_and_invocation_lifecycle_def begin_recovery_run_stopped_audit_def
  complete_recovery_run_stopped_audit_and_invocation_lifecycle_def
  fail_recovery_run_stopped_audit_and_invocation_lifecycle_def begin_terminal_audit_retry_def
  complete_terminal_audit_retry_def fail_terminal_audit_retry_def finalize_run_stopped_receipt_def
  driver_complete_run_def driver_fail_run_def driver_cancel_run_def reconcile_legacy_run_stopped_audit_def
  invocation_disposition_with_active_lifecycle_def

inductive driver_step :: "durable_env \<Rightarrow> driver_codec \<Rightarrow> 's run_driver \<Rightarrow> ('s \<Rightarrow> 's)
    \<Rightarrow> ('s, 'z) approver_world_scheme \<Rightarrow> ('s, 'z) approver_world_scheme \<Rightarrow> bool"
  for env V d others w where
  claim: "driver_claim_lease env others d owner lease t x w = (rb, w') \<Longrightarrow> driver_step env V d others w w'"
| bind: "bind_worker_lease d owner lease w = (rd, w') \<Longrightarrow> driver_step env V d others w w'"
| renew: "driver_renew_lease env others d t x w = (ru, w') \<Longrightarrow> driver_step env V d others w w'"
| release: "driver_release_lease env others d t w = (ru, w') \<Longrightarrow> driver_step env V d others w w'"
| reconcile: "reconcile_worker_activity env others d rid i res w = (ru, w') \<Longrightarrow> driver_step env V d others w w'"
| begin_activity: "driver_begin_activity env others d step key input c ik w = (ra, w') \<Longrightarrow> driver_step env V d others w w'"
| complete_activity: "driver_complete_activity env V others d i n out w = (ru, w') \<Longrightarrow> driver_step env V d others w w'"
| fail_activity: "driver_fail_activity env others d i n e retryable amb w = (rc, w') \<Longrightarrow> driver_step env V d others w w'"
| begin_lifecycle: "begin_invocation_lifecycle env others d invocation w = (ra, w') \<Longrightarrow> driver_step env V d others w w'"
| unstarted: "complete_unstarted_invocation_lifecycle env others d i n w = (ru, w') \<Longrightarrow> driver_step env V d others w w'"
| with_replay: "complete_invocation_lifecycle_with_replay env V others d i n rp w = (ru, w') \<Longrightarrow> driver_step env V d others w w'"
| close: "close_matching_lifecycle env V others d i n w = (rb, w') \<Longrightarrow> driver_step env V d others w w'"
| fail_lifecycle: "fail_invocation_lifecycle env others d i n w = (ru, w') \<Longrightarrow> driver_step env V d others w w'"
| begin_audit: "begin_invocation_run_stopped_audit env V others d rp w = (ra, w') \<Longrightarrow> driver_step env V d others w w'"
| complete_audit: "complete_run_stopped_audit_and_invocation_lifecycle env V others d i n j k rp w = (ru, w') \<Longrightarrow>
    driver_step env V d others w w'"
| fail_audit: "fail_run_stopped_audit_and_invocation_lifecycle env others d i n j k w = (ru, w') \<Longrightarrow>
    driver_step env V d others w w'"
| begin_recovery: "begin_recovery_run_stopped_audit env V others d rp w = (ra, w') \<Longrightarrow> driver_step env V d others w w'"
| complete_recovery: "complete_recovery_run_stopped_audit_and_invocation_lifecycle env V others d i n j k rp w = (ru, w') \<Longrightarrow>
    driver_step env V d others w w'"
| fail_recovery: "fail_recovery_run_stopped_audit_and_invocation_lifecycle env others d i n j k w = (ru, w') \<Longrightarrow>
    driver_step env V d others w w'"
| begin_retry: "begin_terminal_audit_retry env others d rp w = (rt, w') \<Longrightarrow> driver_step env V d others w w'"
| complete_retry: "complete_terminal_audit_retry env V others d retry w = (ru, w') \<Longrightarrow> driver_step env V d others w w'"
| fail_retry: "fail_terminal_audit_retry env others d retry w = (ru, w') \<Longrightarrow> driver_step env V d others w w'"
| finalize: "finalize_run_stopped_receipt env others d receipt w = (ru, w') \<Longrightarrow> driver_step env V d others w w'"
| complete_run: "driver_complete_run env others d w = (ru, w') \<Longrightarrow> driver_step env V d others w w'"
| fail_run: "driver_fail_run env others d e w = (ru, w') \<Longrightarrow> driver_step env V d others w w'"
| cancel_run: "driver_cancel_run env others d reason w = (ru, w') \<Longrightarrow> driver_step env V d others w w'"
| legacy: "reconcile_legacy_run_stopped_audit env V others d rid i turns reason us w = (ru, w') \<Longrightarrow>
    driver_step env V d others w w'"
| disposition: "invocation_disposition_with_active_lifecycle env V others d active w = (rs, w') \<Longrightarrow>
    driver_step env V d others w w'"

lemmas keeps_work = append_invariant.keeps_operation append_invariant.keeps_end append_invariant.keeps_unless_ended
  append_invariant.keeps_disposition append_invariant.keeps_finalize_work

lemmas acts_driver = acting acts_begun acts_transition preserving keeps_work

lemma acts_leases:
  "acts (lawful env) d others (driver_claim_lease env others d owner lease t x)"
  "acts (lawful env) d others (bind_worker_lease d owner lease)"
  "acts (lawful env) d others (driver_renew_lease env others d t x)"
  "acts (lawful env) d others (driver_release_lease env others d t)"
  "acts (lawful env) d others (reconcile_worker_activity env others d rid i res)"
proof -
  show "acts (lawful env) d others (driver_claim_lease env others d owner lease t x)"
    unfolding works_defs by (rule acts_driver | assumption)+
  show "acts (lawful env) d others (driver_renew_lease env others d t x)"
    unfolding works_defs by (cases "dd_worker_lease d") (auto intro!: acts_driver)
  show "acts (lawful env) d others (driver_release_lease env others d t)"
    unfolding works_defs by (cases "dd_worker_lease d") (auto intro!: acts_driver)
  show "acts (lawful env) d others (reconcile_worker_activity env others d rid i res)"
    unfolding works_defs transition_def by (rule acts_driver | assumption)+
  have "looks (bindS (checkS c) (\<lambda>x. bindS (checkS (e x)) (\<lambda>y. if p x y then failS a else returnS b)))" for c e p a b
    by (simp add: looks_def bindS_def checkS_def failS_def returnS_def split: sum.splits)
  then show "acts (lawful env) d others (bind_worker_lease d owner lease)"
    unfolding bind_worker_lease_def by (intro acts_clock) auto
qed

lemma acts_activities:
  "acts (lawful env) d others (driver_begin_activity env others d step key input c ik)"
  "acts (lawful env) d others (driver_fail_activity env others d i n e retryable amb)"
  "acts (lawful env) d others (driver_complete_activity env V others d i n out)"
  "acts (lawful env) d others (begin_invocation_lifecycle env others d invocation)"
  "acts (lawful env) d others (complete_unstarted_invocation_lifecycle env others d i n)"
  "acts (lawful env) d others (complete_invocation_lifecycle_with_replay env V others d i n rp)"
  "acts (lawful env) d others (close_matching_lifecycle env V others d i n)"
  "acts (lawful env) d others (fail_invocation_lifecycle env others d i n)"
  unfolding works_defs transition_def Let_def by (rule acts_driver acts_then looks_pure | assumption)+

lemma acts_audits:
  "acts (lawful env) d others (begin_invocation_run_stopped_audit env V others d rp)"
  "acts (lawful env) d others (complete_run_stopped_audit_and_invocation_lifecycle env V others d i n j k rp)"
  "acts (lawful env) d others (fail_run_stopped_audit_and_invocation_lifecycle env others d i n j k)"
  "acts (lawful env) d others (begin_recovery_run_stopped_audit env V others d rp)"
  "acts (lawful env) d others (complete_recovery_run_stopped_audit_and_invocation_lifecycle env V others d i n j k rp)"
  "acts (lawful env) d others (fail_recovery_run_stopped_audit_and_invocation_lifecycle env others d i n j k)"
  "acts (lawful env) d others (begin_terminal_audit_retry env others d rp)"
  "acts (lawful env) d others (complete_terminal_audit_retry env V others d retry)"
  "acts (lawful env) d others (fail_terminal_audit_retry env others d retry)"
  unfolding works_defs transition_def Let_def by (rule acts_driver acts_then looks_pure | assumption)+

lemma acts_ends:
  "acts (lawful env) d others (finalize_run_stopped_receipt env others d receipt)"
  "acts (lawful env) d others (driver_complete_run env others d)"
  "acts (lawful env) d others (driver_fail_run env others d e)"
  "acts (lawful env) d others (driver_cancel_run env others d reason)"
  "acts (lawful env) d others (reconcile_legacy_run_stopped_audit env V others d rid i turns reason us)"
  "acts (lawful env) d others (invocation_disposition_with_active_lifecycle env V others d active)"
  unfolding works_defs transition_def Let_def by (rule acts_driver acts_then looks_pure | assumption)+

lemma driver_step_effect: "driver_step env V d others w w' \<Longrightarrow> effect (lawful env) d others w w'"
  by (induction rule: driver_step.induct)
    (erule acts_leases [unfolded acts_def, rule_format] acts_activities [unfolded acts_def, rule_format]
      acts_audits [unfolded acts_def, rule_format] acts_ends [unfolded acts_def, rule_format])+

subsection \<open>A commit continues the stored history\<close>

lemma lawful_built: "lawful env st st' \<Longrightarrow> run_built env st \<Longrightarrow> run_built env st'"
  using built.append_invariant_axioms by (auto simp: lawful_def)

lemma lawful_extends: "lawful env st st' \<Longrightarrow> rs_events st \<noteq> [] \<Longrightarrow> extends_run st st'"
  using grows.append_invariant_axioms [of env st] by (fastforce simp: lawful_def extends_run_def)

lemma built_log_length:
  assumes "run_built env st" and "length (rs_events st) \<le> u64_max"
  shows "last_sequence st = length (rs_events st)"
  using last_sequence_log [OF run_built_log [OF assms(1)]] assms(2) by simp

lemma swap_on_same_history:
  assumes "validate_swap clock (last_sequence current) stored candidate a p = Inr ()"
    and "run_built env current" and "run_built env stored" and "extends_run current candidate"
    and "length (rs_events candidate) \<le> u64_max"
  shows "stored = current"
  using assms(1)
proof (rule validate_swapD)
  assume last: "last_sequence stored = last_sequence current" and a: "validate_append_only stored candidate = Inr ()"
  from validate_append_onlyD(3) [OF a] obtain new where new: "rs_events candidate = rs_events stored @ new" by blast
  from assms(4) obtain more where more: "rs_events candidate = rs_events current @ more" by (auto simp: extends_run_def)
  from new assms(5) have "length (rs_events stored) \<le> u64_max" by simp
  moreover from more assms(5) have "length (rs_events current) \<le> u64_max" by simp
  moreover note last assms(2,3)
  ultimately have "length (rs_events stored) = length (rs_events current)" using built_log_length by metis
  with new more have "rs_events stored = rs_events current" by (metis append_eq_append_conv)
  with run_built_replay [OF assms(2)] run_built_replay [OF assms(3)] show ?thesis by simp
qed

lemma fence_names_holder:
  assumes "validate_worker_lease_fence current candidate (Some a) now = Inr ()"
  shows "\<exists>l. active_lease current now = Some l \<and> now < wl_expires_at l
    \<and> wl_owner_id l = la_owner_id a \<and> wl_lease_id l = la_lease_id a"
  using assms by (auto simp: validate_worker_lease_fence_def active_lease_def split: option.splits if_splits)

text \<open>All runs of a store are built by events.\<close>

definition built_store :: "durable_env \<Rightarrow> 's store_ops \<Rightarrow> 's \<Rightarrow> bool" where
  "built_store env ops s \<longleftrightarrow> (\<forall>j st. so_load ops j s = Inr st \<longrightarrow> run_built env st)"

context store_contract
begin

lemma reading_load: "reading ops s s' \<Longrightarrow> so_load ops j s' = so_load ops j s"
  using clock_load [OF surjective_pairing [of "so_clock ops s"], of j] by (auto simp: reading_def)

lemma driver_swap_Inr:
  assumes "driver_swap d n candidate s = (Inr u, s')" and "dd_store d = ops"
  shows "(\<exists>stored. so_load ops (rs_run_id candidate) s = Inr stored
      \<and> validate_swap (fst (so_clock ops s)) n stored candidate (dd_worker_lease d) None = Inr ())
    \<and> so_load ops (rs_run_id candidate) s' = Inr candidate"
proof (cases "dd_worker_lease d")
  case None
  with assms have "so_cas ops n candidate s = (Inr u, s')" by (simp add: driver_swap_def)
  from cas_Inr [OF this] None show ?thesis by auto
next
  case (Some a)
  with assms have "so_cas_fenced ops n candidate a s = (Inr u, s')" by (simp add: driver_swap_def)
  from fenced_Inr [OF this] Some show ?thesis by auto
qed

lemma commit_on_history:
  assumes "effect (lawful env) d others w w'" and "dd_store d = ops"
    and "built_store env ops (aw_store w)" and "\<And>s. built_store env ops s \<Longrightarrow> built_store env ops (others s)"
    and "holds (run_built env) w" and "holds (\<lambda>st. length (rs_events st) \<le> u64_max) w'"
    and "aw_run w' \<noteq> aw_run w" and "aw_run w' = Some candidate"
  shows "\<exists>current s now. aw_run w = Some current \<and> extends_run current candidate
    \<and> so_load ops (rs_run_id current) (aw_store w) = Inr current
    \<and> reading ops (aw_store w) s \<and> so_load ops (rs_run_id current) (others s) = Inr current
    \<and> so_load ops (rs_run_id current) (aw_store w') = Inr candidate
    \<and> fst (so_clock ops (others s)) = Inr now
    \<and> validate_worker_lease_fence current candidate (dd_worker_lease d) now = Inr ()"
  using assms(1)
proof cases
  case (commit current s cand u)
  with assms(8) have c: "cand = candidate" by simp
  from assms(5) commit(2) have b: "run_built env current" by (simp add: holds_def)
  then have e: "extends_run current candidate"
    using lawful_extends [OF commit(5)] c run_built_log by (fastforce simp: log_ok_def)
  then have id: "rs_run_id candidate = rs_run_id current" by (simp add: extends_run_def)
  from driver_swap_Inr [OF commit(7) assms(2)] c id obtain stored where
    st: "so_load ops (rs_run_id current) (others s) = Inr stored"
    "validate_swap (fst (so_clock ops (others s))) (last_sequence current) stored candidate (dd_worker_lease d) None = Inr ()"
    "so_load ops (rs_run_id current) (aw_store w') = Inr candidate" by auto
  have "built_store env ops s" using assms(3) reading_load [of "aw_store w" s] commit(4) assms(2) by (simp add: built_store_def)
  from assms(4) [OF this] st(1) have "run_built env stored" by (auto simp: built_store_def)
  with st(2) b e assms(6,8) have "stored = current" by (intro swap_on_same_history) (simp_all add: holds_def)
  moreover from st(2) obtain now where "fst (so_clock ops (others s)) = Inr now" "validate_worker_lease_fence stored candidate (dd_worker_lease d) now = Inr ()"
    by (rule validate_swapD)
  ultimately show ?thesis using commit(2-4) assms(2) e st by auto
qed (use assms in auto)

end

subsection \<open>An invocation executes only an unambiguous run\<close>

definition clean :: "(activity_record \<Rightarrow> scan \<Rightarrow> scan work) \<Rightarrow> (activity_record \<Rightarrow> bool) \<Rightarrow> bool" where
  "clean f P \<longleftrightarrow> (\<forall>r acc st amb z st'. f r acc st = (Inr (amb, z), st') \<longrightarrow> \<not> amb \<longrightarrow> \<not> fst acc \<and> st' = st \<and> P r)"

lemma clean_each:
  assumes "clean f P" and "scan_each f rs acc st = (Inr (amb, z), st')" and "\<not> amb"
  shows "\<not> fst acc \<and> st' = st \<and> (\<forall>r \<in> set rs. P r)"
  using assms(2)
proof (induction rs arbitrary: acc st)
  case Nil
  with assms(3) show ?case by (simp add: returnS_def)
next
  case (Cons r rs)
  then obtain acc' st1 where f: "f r acc st = (Inr acc', st1)" "scan_each f rs acc' st1 = (Inr (amb, z), st')"
    by (auto simp: bindS_def split: prod.splits sum.splits)
  from Cons.IH [OF f(2)] have i: "\<not> fst acc'" "st' = st1" "\<forall>r \<in> set rs. P r" by auto
  obtain a y where a: "acc' = (a, y)" by force
  from assms(1) [unfolded clean_def, rule_format, OF f(1) [unfolded a]] i a show ?case by auto
qed

lemma quarantine_cases:
  assumes "quarantine_unstarted env r reason st = (Inr q, st')"
  shows "(q \<and> latest_attempt r = None) \<or> (\<not> q \<and> latest_attempt r \<noteq> None \<and> st' = st)"
  using assms by (auto simp: quarantine_unstarted_def returnS_def bindS_def split: if_splits prod.splits sum.splits)

text \<open>The output of a completed lifecycle that closes it for good, with what is needed to replay its end.\<close>

definition closing_output :: "activity_record \<Rightarrow> bool" where
  "closing_output r \<longleftrightarrow> (\<exists>out. completed_output r = Some out
     \<and> (jget_str out ''status'' = Some ''audit_closed'' \<or> jget_str out ''status'' = Some ''terminal_replay_authorized''))"

text \<open>A lifecycle that leaves nothing to reconcile: it has such an output, or its latest attempt completed,
  or failed for good, or is running for the invocation that asks. A lifecycle that was never started, runs for
  another invocation, waits for its reconciliation, failed with a retry allowed (its reconciliation is
  incomplete) or was cancelled is not closed.\<close>

definition lifecycle_closed :: "string option \<Rightarrow> activity_record \<Rightarrow> bool" where
  "lifecycle_closed active r \<longleftrightarrow> closing_output r
     \<or> (\<exists>a. latest_attempt r = Some a \<and>
          (case at_status a of
             AtCompleted \<Rightarrow> True
           | AtFailed \<Rightarrow> \<not> at_retryable a \<or> at_effect_ambiguous a
           | AtRunning \<Rightarrow> active = Some (ad_logical_key (ar_definition r))
           | AtReconcileRequired \<Rightarrow> False
           | AtCancelled \<Rightarrow> False))"

lemma clean_lifecycle: "clean (scan_lifecycle env run active) (lifecycle_closed active)"
  unfolding clean_def
proof (intro allI impI)
  fix r acc st amb z st'
  assume s: "scan_lifecycle env run active r acc st = (Inr (amb, z), st')" and na: "\<not> amb"
  then obtain q st1 where q: "quarantine_unstarted env r ''persisted invocation lifecycle schedule has no durable attempt'' st = (Inr q, st1)"
    by (auto simp: scan_lifecycle_def bindS_def split: prod.splits sum.splits)
  with s na quarantine_cases [OF q] have l: "latest_attempt r \<noteq> None" "st1 = st" "\<not> q"
    by (auto simp: scan_lifecycle_def bindS_def ambiguous_def returnS_def)
  then obtain a where a: "latest_attempt r = Some a" by blast
  obtain rp where rp: "replay_from_lifecycle_record env r run = Inr rp"
    using s q l by (auto simp: scan_lifecycle_def bindS_def checkS_def split: sum.splits)
  show "\<not> fst acc \<and> st' = st \<and> lifecycle_closed active r"
  proof (cases "rp = None")
    case False
    then have "closing_output r" using rp
      by (auto simp: replay_from_lifecycle_record_def closing_output_def Let_def split: option.splits if_splits)
    with s q l rp False na show ?thesis
      by (auto simp: scan_lifecycle_def bindS_def checkS_def returnS_def lifecycle_closed_def)
  next
    case True
    with s q l rp na a show ?thesis
      by (auto simp: scan_lifecycle_def bindS_def checkS_def returnS_def ambiguous_def lifecycle_closed_def latest_is_def
          split: attempt_status.splits if_splits prod.splits sum.splits)
  qed
qed

lemma clean_recovery: "clean (scan_recovery env) (\<lambda>r. latest_attempt r \<noteq> None \<and> \<not> latest_is AtRunning r)"
  unfolding clean_def
proof (intro allI impI)
  fix r acc st amb z st'
  assume s: "scan_recovery env r acc st = (Inr (amb, z), st')" and na: "\<not> amb"
  then obtain q st1 where q: "quarantine_unstarted env r ''persisted recovery RunStopped schedule has no durable attempt'' st = (Inr q, st1)"
    by (auto simp: scan_recovery_def bindS_def split: prod.splits sum.splits)
  with s na quarantine_cases [OF q] have l: "latest_attempt r \<noteq> None" "st1 = st" "\<not> q"
    by (auto simp: scan_recovery_def bindS_def ambiguous_def returnS_def)
  then obtain a where "latest_attempt r = Some a" by blast
  with s q l na show "\<not> fst acc \<and> st' = st \<and> latest_attempt r \<noteq> None \<and> \<not> latest_is AtRunning r"
    by (auto simp: scan_recovery_def bindS_def returnS_def ambiguous_def latest_is_def split: if_splits prod.splits sum.splits)
qed

lemma clean_current: "clean (scan_current env) (\<lambda>r. latest_attempt r \<noteq> None \<and> \<not> latest_is AtRunning r)"
  unfolding clean_def
proof (intro allI impI)
  fix r acc st amb z st'
  assume s: "scan_current env r acc st = (Inr (amb, z), st')" and na: "\<not> amb"
  then obtain q st1 where q: "quarantine_unstarted env r ''persisted RunStopped schedule has no durable attempt'' st = (Inr q, st1)"
    by (auto simp: scan_current_def bindS_def split: prod.splits sum.splits)
  with s na quarantine_cases [OF q] have l: "latest_attempt r \<noteq> None" "st1 = st" "\<not> q"
    by (auto simp: scan_current_def bindS_def ambiguous_def returnS_def Let_def split: option.splits)
  then obtain a where "latest_attempt r = Some a" by blast
  with s q l na show "\<not> fst acc \<and> st' = st \<and> latest_attempt r \<noteq> None \<and> \<not> latest_is AtRunning r"
    by (auto simp: scan_current_def bindS_def returnS_def ambiguous_def latest_is_def split: if_splits prod.splits sum.splits)
qed

lemma clean_running: "clean (scan_running env) (\<lambda>r. False)"
  unfolding clean_def
  by (auto simp: scan_running_def bindS_def failS_def ambiguous_def returnS_def split: option.splits prod.splits sum.splits)

text \<open>A run in which nothing needs a reconciliation before another invocation. Activities that may safely
  be repeated may be running.\<close>

definition unambiguous :: "string option \<Rightarrow> run_state \<Rightarrow> bool" where
  "unambiguous active st \<longleftrightarrow> st_status st = RunRunning \<and> \<not> list_ex (latest_is AtReconcileRequired) (records st)
     \<and> (\<forall>r \<in> set (records st). \<not> open_unreserved r
          \<and> (reserved_step RUNTIME_INVOCATION_LIFECYCLE_STEP_ID r \<longrightarrow> lifecycle_closed active r)
          \<and> (reserved_step RUNTIME_RECOVERY_RUN_STOPPED_AUDIT_STEP_ID r \<longrightarrow> completed_output r \<noteq> None))
     \<and> terminal_record RUNTIME_RUN_STOPPED_AUDIT_STEP_ID st = None
     \<and> terminal_record RUNTIME_LEGACY_RUN_STOPPED_AUDIT_STEP_ID st = None"

lemma scan_run_clean:
  assumes "scan_run env active st = (Inr (False, z), st')"
  shows "st' = st \<and> st_status st \<noteq> RunReconcileRequired \<and> \<not> list_ex (latest_is AtReconcileRequired) (records st)
    \<and> (\<forall>r \<in> set (records st). \<not> open_unreserved r
         \<and> (reserved_step RUNTIME_INVOCATION_LIFECYCLE_STEP_ID r \<longrightarrow> lifecycle_closed active r))"
proof -
  let ?start = "(st_status st = RunReconcileRequired \<or> list_ex (latest_is AtReconcileRequired) (records st),
     unwrap_or (pj_pause_reason (rs_projection st)) ''durable run requires explicit reconciliation'')"
  let ?L = "filter (reserved_step RUNTIME_INVOCATION_LIFECYCLE_STEP_ID) (records st)"
  let ?R = "filter (reserved_step RUNTIME_RECOVERY_RUN_STOPPED_AUDIT_STEP_ID) (records st)"
  let ?C = "\<lambda>b. case terminal_record RUNTIME_RUN_STOPPED_AUDIT_STEP_ID st of None \<Rightarrow> returnS b | Some r \<Rightarrow> scan_current env r b"
  let ?W = "filter open_unreserved (records st)"
  from assms obtain a s1 b s2 c s3 where
    1: "scan_each (scan_lifecycle env (rs_run_id st) active) ?L ?start st = (Inr a, s1)" and
    2: "scan_each (scan_recovery env) ?R a s1 = (Inr b, s2)" and
    3: "?C b s2 = (Inr c, s3)" and
    4: "scan_each (scan_running env) ?W c s3 = (Inr (False, z), st')"
    unfolding scan_run_def withS_def Let_def bindS_Inr by blast
  from clean_each [OF clean_running 4] have w: "\<not> fst c" "st' = s3" "?W = []" by auto
  have cc: "\<not> fst b" "s3 = s2"
  proof -
    obtain c1 c2 where c: "c = (c1, c2)" by force
    show "\<not> fst b" "s3 = s2"
      using 3 w(1) c clean_current [unfolded clean_def, rule_format, of env _ b s2 c1 c2 s3]
      by (auto simp: returnS_def split: option.splits)
  qed
  obtain b1 b2 where b: "b = (b1, b2)" by force
  from clean_each [OF clean_recovery 2 [unfolded b]] cc b have r: "\<not> fst a" "s2 = s1" by auto
  obtain a1 a2 where a: "a = (a1, a2)" by force
  from clean_each [OF clean_lifecycle 1 [unfolded a]] r a
  have l: "\<not> fst ?start" "s1 = st" "\<forall>r \<in> set ?L. lifecycle_closed active r" by auto
  have "\<forall>r \<in> set (records st). \<not> open_unreserved r" using w(3) by (auto simp: filter_empty_conv)
  with l w cc r show ?thesis by auto
qed

lemma recoveries_None:
  "classify_recoveries env run status rs = Inr None \<Longrightarrow> r \<in> set rs \<Longrightarrow> completed_output r \<noteq> None"
  by (induction rs) (auto simp: bindR_Inr split: if_splits)

lemma recoveries_not_execute: "classify_recoveries env run status rs \<noteq> Inr (Some RawExecute)"
  by (induction rs) (auto simp: bindR_Inr)

lemma migrate_not_execute: "migrate_legacy env V r a st \<noteq> (Inr (Some RawExecute), st')"
  by (auto simp: migrate_legacy_def withS_def Let_def bindS_Inr returnS_iff split: activity_decision.splits option.splits)

lemma legacy_not_execute: "classify_legacy env V r st \<noteq> (Inr RawExecute, st')"
proof
  assume c: "classify_legacy env V r st = (Inr RawExecute, st')"
  show False
  proof (cases "is_terminal (st_status st)")
    case True
    with c show False
      by (auto simp: classify_legacy_def withS_def Let_def bindS_Inr checkS_iff already_terminal_def split: if_splits)
  next
    case False
    with c obtain early s1 where e: "(if st_status st = RunRunning then
                 (case latest_attempt r of
                    None \<Rightarrow> bindS (runS (quarantine_unstarted_reserved_activity env (ad_activity_id (ar_definition r))
                               ''migrated v1 RunStopped schedule has no durable attempt'')) (\<lambda>_. returnS None)
                  | Some attempt \<Rightarrow>
                      (case at_status attempt of
                         AtRunning \<Rightarrow> bindS (fail_ambiguous env r (at_attempt attempt)
                                    ''legacy RunStopped receipt outcome is ambiguous'') (\<lambda>_. returnS None)
                       | AtReconcileRequired \<Rightarrow> returnS None
                       | _ \<Rightarrow> migrate_legacy env V r attempt))
               else returnS None) st = (Inr early, s1)" and "(case early of Some d \<Rightarrow> d
                   | None \<Rightarrow> RawReconcileRequired ''legacy RunStopped receipt requires explicit reconciliation'') = RawExecute"
      by (auto simp: classify_legacy_def withS_def Let_def bindS_Inr returnS_iff)
    then have "early = Some RawExecute" by (auto split: option.splits)
    with e migrate_not_execute show False
      by (auto simp: bindS_Inr returnS_iff split: if_splits option.splits attempt_status.splits)
  qed
qed

lemma execute_unambiguous:
  assumes "raw_invocation_disposition env V active st = (Inr RawExecute, st')"
  shows "st' = st \<and> unambiguous active st"
proof -
  let ?R = "filter (reserved_step RUNTIME_RECOVERY_RUN_STOPPED_AUDIT_STEP_ID) (records st)"
  let ?C = "terminal_record RUNTIME_RUN_STOPPED_AUDIT_STEP_ID st"
  let ?G = "terminal_record RUNTIME_LEGACY_RUN_STOPPED_AUDIT_STEP_ID st"
  from assms obtain amb z s1 where 1: "scan_run env active st = (Inr (amb, z), s1)"
    and 2: "(if amb then returnS (RawReconcileRequired z) else classify_run env V ?R ?C ?G) s1 = (Inr RawExecute, st')"
    by (auto simp: raw_invocation_disposition_def withS_def Let_def bindS_Inr)
  from 2 have amb: "\<not> amb" by (auto simp: returnS_iff)
  with scan_run_clean [of env active st z s1] 1 have s: "s1 = st" "st_status st \<noteq> RunReconcileRequired"
    "\<not> list_ex (latest_is AtReconcileRequired) (records st)"
    "\<forall>r \<in> set (records st). \<not> open_unreserved r
       \<and> (reserved_step RUNTIME_INVOCATION_LIFECYCLE_STEP_ID r \<longrightarrow> lifecycle_closed active r)" by auto
  from 2 amb s(1) have c: "classify_run env V ?R ?C ?G st = (Inr RawExecute, st')" by simp
  then have np: "st_status st \<noteq> RunPausedSt" by (auto simp: classify_run_def withS_def returnS_iff split: if_splits)
  from c np obtain early where e: "classify_recoveries env (rs_run_id st) (st_status st) ?R = Inr early"
    and k: "(case early of Some d \<Rightarrow> returnS d | None \<Rightarrow> (case ?C of
               Some r \<Rightarrow> checkS (\<lambda>st. classify_current env (rs_run_id st) (st_status st) r)
             | None \<Rightarrow> (case ?G of Some r \<Rightarrow> classify_legacy env V r
                  | None \<Rightarrow> checkS (\<lambda>st. Inr (if is_terminal (st_status st) then already_terminal st else RawExecute))))) st
      = (Inr RawExecute, st')"
    by (auto simp: classify_run_def withS_def bindS_Inr checkS_iff)
  have early: "early = None" using k e recoveries_not_execute by (cases early) (auto simp: returnS_iff)
  with k have "?C = None" by (auto simp: checkS_iff classify_current_def bindR_Inr split: option.splits if_splits)
  with k early have "?G = None" using legacy_not_execute by (auto split: option.splits)
  with k early \<open>?C = None\<close> have t: "\<not> is_terminal (st_status st)" "st' = st"
    by (auto simp: checkS_iff already_terminal_def split: if_splits)
  with s np have "st_status st = RunRunning" by (cases "st_status st") auto
  with s t \<open>?C = None\<close> \<open>?G = None\<close> recoveries_None [OF e [unfolded early]] show ?thesis
    by (auto simp: unambiguous_def)
qed

end
