(* ===== verification/WorkerProps.thy ===== *)
theory WorkerProps
  imports Worker DriverProps
begin

text \<open>
  What a worker guarantees: it polls boundedly often, it executes only a run that it holds and that is
  classified as open, and when it reports success the release of its lease is in the stored log.
\<close>

subsection \<open>Polling\<close>

lemma next_backoff_le: "0 < b \<and> b \<le> wc_max_poll_backoff c \<Longrightarrow> 0 < next_backoff c b \<and> next_backoff c b \<le> wc_max_poll_backoff c"
  by (simp add: next_backoff_def DURATION_MAX_def)

lemma acquire_loop_sleeps:
  assumes "acquire_loop env p k run lease n i b h w = (r, sleeps, w')" and "0 < b \<and> b \<le> wc_max_poll_backoff (dk_config k)"
  shows "length sleeps \<le> n - 1 \<and> (\<forall>x \<in> set sleeps. 0 < x \<and> x \<le> wc_max_poll_backoff (dk_config k))"
  using assms
proof (induction n arbitrary: i b h w r sleeps w')
  case (Suc n)
  show ?case
  proof (cases "sleeps = []")
    case False
    with Suc.prems(1) obtain holder w1 where
      a: "\<not> pl_cancelled p i" "claim_attempt env (pl_meanwhile p i) k run lease (w\<lparr>aw_store := pl_before p i (aw_store w)\<rparr>)
        = (Inr (Held holder), w1)" "n \<noteq> 0"
      by (auto simp: Let_def split: if_splits prod.splits sum.splits attempt.splits)
    show ?thesis
    proof (cases "pl_cancelled_asleep p i")
      case True
      with Suc.prems a show ?thesis by (auto simp: Let_def split: if_splits)
    next
      case False
      obtain q more w2 where l: "acquire_loop env p k run lease n (i + 1) (next_backoff (dk_config k) b)
          (if holder \<noteq> None then holder else h) w1 = (q, more, w2)" by (metis prod_cases3)
      with Suc.prems a False have "sleeps = b # more" by (auto simp: Let_def)
      with Suc.IH [OF l next_backoff_le [OF Suc.prems(2)]] Suc.prems(2) a(3) show ?thesis by auto
    qed
  qed simp
qed simp

subsection \<open>What a successful transition records\<close>

lemma emit_recorded:
  assumes "emit env i k st = (Inr oc, st')"
  shows "k \<in> ev_kind ` set (rs_events st')"
  using assms
proof (cases rule: emit_Inr)
  case (dedup old)
  then show ?thesis by (auto simp: event_by_id_def find_Some_iff)
next
  case appended
  then have "rs_events st' = rs_events st @ [emitted st i k]" by (simp add: commit_event_keeps)
  then show ?thesis by (simp add: emitted_def)
qed

lemma renew_recorded:
  "renew_worker_lease env owner lease t x st = (Inr u, st') \<Longrightarrow> WorkerLeaseRenewed owner lease t x \<in> ev_kind ` set (rs_events st')"
  by (auto simp: renew_worker_lease_def result_simps dest: emit_recorded)

lemma release_recorded:
  "release_worker_lease env owner lease t st = (Inr u, st') \<Longrightarrow> WorkerLeaseReleased owner lease t \<in> ev_kind ` set (rs_events st')"
  by (auto simp: release_worker_lease_def result_simps dest: emit_recorded)

lemma release_run_id: "release_worker_lease env owner lease t st = (Inr u, st') \<Longrightarrow> rs_run_id st' = rs_run_id st"
  by (auto simp: release_worker_lease_def result_simps elim!: emit_Inr dest: commit_event_keeps)

lemma map_errS_Inr: "map_errS f m w = (Inr x, w') \<longleftrightarrow> m w = (Inr x, w')"
  by (cases "m w") (auto simp: map_errS_def map_err_Inr)

lemma commit_work_Inr:
  assumes "commit_work others d m current w = (Inr x, w')"
  obtains (same) "m current = (Inr x, current)" "w' = w"
    | (stored) candidate s u where "m current = (Inr x, candidate)" "candidate \<noteq> current"
        "driver_swap d (last_sequence current) candidate (others (aw_store w)) = (Inr u, s)"
        "w' = w\<lparr>aw_store := s, aw_run := Some candidate\<rparr>"
  using assms by (auto simp: commit_work_def split: prod.splits sum.splits if_splits)

lemma transition_Inr:
  assumes "transition_inner others d q m w = (Inr x, w')"
  obtains current s where "aw_run w = Some current" "so_load (dd_store d) (rs_run_id current) (aw_store w) = Inr current"
    "reading (dd_store d) (aw_store w) s" "commit_work others d m current (w\<lparr>aw_store := s\<rparr>) = (Inr x, w')"
proof -
  obtain current where run: "aw_run w = Some current" using assms by (auto simp: transition_inner_def split: if_splits option.splits)
  have load: "so_load (dd_store d) (rs_run_id current) (aw_store w) = Inr current"
    using assms run by (auto simp: transition_inner_def split: if_splits sum.splits)
  with assms run have "bindS (if q then ensure_worker_lease_authority d current else returnS ())
      (\<lambda>_. commit_work others d m current) w = (Inr x, w')"
    by (auto simp: transition_inner_def split: if_splits)
  then obtain u w1 where a: "(if q then ensure_worker_lease_authority d current else returnS ()) w = (Inr u, w1)"
    and c: "commit_work others d m current w1 = (Inr x, w')"
    by (auto simp: bindS_Inr)
  from a obtain s where s: "w1 = w\<lparr>aw_store := s\<rparr>" "reading (dd_store d) (aw_store w) s"
    by (cases q) (auto simp: returnS_def reading_def dest: authority_reads intro: that [of "aw_store w"])
  show thesis by (rule that [OF run load s(2) c [unfolded s(1)]])
qed

context store_contract
begin

lemma transition_recorded:
  assumes "transition_inner others d q (runS m) w = (Inr x, w')" and "dd_store d = ops"
    and "\<And>st y st'. aw_run w = Some st \<Longrightarrow> m st = (Inr y, st') \<Longrightarrow> P st'"
  shows "\<exists>st. aw_run w' = Some st \<and> so_load ops (rs_run_id st) (aw_store w') = Inr st \<and> P st"
  using assms(1)
proof (cases rule: transition_Inr)
  case (1 current s)
  have P: "P st'" if "runS m current = (Inr x, st')" for st'
    using that assms(3) 1(1) by (auto simp: runS_def map_err_Inr split: prod.splits)
  from 1(4) show ?thesis
  proof (cases rule: commit_work_Inr)
    case same
    with 1 P reading_load [of "aw_store w" s] assms(2) show ?thesis by auto
  next
    case (stored candidate s' u)
    from driver_swap_Inr [OF stored(3) assms(2)] P [OF stored(1)] stored(4) show ?thesis by auto
  qed
qed

lemma renewal_recorded:
  assumes "heartbeat env others k d w = (Inr u, w')" and "dd_store d = ops"
  shows "\<exists>st a t x. aw_run w' = Some st \<and> so_load ops (rs_run_id st) (aw_store w') = Inr st \<and> dd_worker_lease d = Some a
    \<and> WorkerLeaseRenewed (la_owner_id a) (la_lease_id a) t x \<in> ev_kind ` set (rs_events st)"
proof -
  from assms(1) obtain t x w1 y where r: "driver_renew_lease env others d t x w1 = (Inr y, w')"
    by (auto simp: heartbeat_def bindS_Inr checkS_iff failS_iff map_errS_Inr split: if_splits prod.splits)
  then obtain a where a: "dd_worker_lease d = Some a"
    and tr: "transition_inner others d False (runS (renew_worker_lease env (la_owner_id a) (la_lease_id a) t x)) w1 = (Inr y, w')"
    by (auto simp: driver_renew_lease_def failS_iff split: option.splits)
  from transition_recorded [OF tr assms(2), where P = "\<lambda>st. WorkerLeaseRenewed (la_owner_id a) (la_lease_id a) t x
      \<in> ev_kind ` set (rs_events st)"] a renew_recorded show ?thesis by blast
qed

lemma ready_recorded:
  assumes "ready_heartbeat env others k d checks w = (Inr u, w')" and "dd_store d = ops"
  shows "\<exists>st a t x. aw_run w' = Some st \<and> so_load ops (rs_run_id st) (aw_store w') = Inr st \<and> dd_worker_lease d = Some a
    \<and> WorkerLeaseRenewed (la_owner_id a) (la_lease_id a) t x \<in> ev_kind ` set (rs_events st)"
  using assms(1)
proof (induction checks arbitrary: w)
  case Nil
  with renewal_recorded [OF _ assms(2)] show ?case by simp
next
  case (Cons early checks)
  obtain q w1 where h: "heartbeat env others k d w = (q, w1)" by force
  show ?case
  proof (cases "q = Inl ClockStalled")
    case True
    with Cons h show ?thesis by (auto split: if_splits)
  next
    case False
    with Cons.prems h have "q = Inr u \<and> w1 = w'" by (cases q) (auto split: worker_error.splits)
    with renewal_recorded [OF h [THEN trans] assms(2)] h show ?thesis by simp
  qed
qed

text \<open>The stored run whose log holds the release of the lease.\<close>

lemma release_stored:
  assumes "release_authority env others k a run_id w = (Inr u, w')" and "dk_store k = ops"
  shows "\<exists>st st0 t. so_load ops run_id (aw_store w) = Inr st0 \<and> rs_run_id st = rs_run_id st0
    \<and> so_load ops (rs_run_id st) (aw_store w') = Inr st
    \<and> WorkerLeaseReleased (la_owner_id a) (la_lease_id a) t \<in> ev_kind ` set (rs_events st)"
proof -
  from assms(1) obtain st0 w0 w1 w2 d d' t w3 y where
    l: "load_run k run_id w = (Inr st0, w0)" and
    o: "open_driver others k st0 w0 = (Inr d, w1)" and
    b: "bind_worker_lease d (la_owner_id a) (la_lease_id a) w1 = (Inr d', w2)" and
    c: "read_clock k w2 = (Inr t, w3)" and
    r: "driver_release_lease env others d' t w3 = (Inr y, w')"
    by (auto simp: release_authority_def bindS_Inr checkS_iff failS_iff map_errS_Inr split: if_splits)
  from o have d: "aw_run w1 = Some st0" "dd_store d = ops"
    using assms(2) by (auto simp: open_driver_def driver_new_def bindR_Inr split: prod.splits)
  with b have d': "aw_run w2 = Some st0" "dd_store d' = ops" "dd_worker_lease d' = Some a"
    by (auto simp: bind_worker_lease_def bindS_Inr checkS_iff failS_iff returnS_iff store_clock_def split: if_splits prod.splits)
  with c have w3: "aw_run w3 = Some st0" by (auto simp: read_clock_def split: prod.splits)
  from r d' have tr: "transition_inner others d' False (runS (release_worker_lease env (la_owner_id a) (la_lease_id a) t)) w3 = (Inr y, w')"
    by (simp add: driver_release_lease_def)
  have "\<exists>st. aw_run w' = Some st \<and> so_load ops (rs_run_id st) (aw_store w') = Inr st
     \<and> (rs_run_id st = rs_run_id st0 \<and> WorkerLeaseReleased (la_owner_id a) (la_lease_id a) t \<in> ev_kind ` set (rs_events st))"
    by (rule transition_recorded [OF tr d'(2)]) (use w3 release_recorded release_run_id in force)
  with l assms(2) show ?thesis by (auto simp: load_run_def map_err_Inr)
qed

lemma finish_stored:
  assumes "finish_authority env others k a run_id r w = (Inr v, w')" and "dk_store k = ops"
  shows "\<exists>st st0 t. so_load ops run_id (aw_store w) = Inr st0 \<and> rs_run_id st = rs_run_id st0
    \<and> so_load ops (rs_run_id st) (aw_store w') = Inr st
    \<and> WorkerLeaseReleased (la_owner_id a) (la_lease_id a) t \<in> ev_kind ` set (rs_events st)"
proof -
  from assms(1) obtain u where "release_authority env others k a run_id w = (Inr u, w')"
    by (auto simp: finish_authority_def split: sum.splits prod.splits)
  then show ?thesis using assms(2) by (rule release_stored)
qed

end

subsection \<open>The parts of a run\<close>

lemma claimed_by_worker:
  assumes "claim_attempt env others k run lease w = (Inr (Got claim), w')"
  shows "dd_store (aq_driver claim) = dk_store k \<and> dd_worker_lease (aq_driver claim) = Some (aq_authority claim)
    \<and> aq_authority claim = \<lparr>la_owner_id = wc_owner_id (dk_config k), la_lease_id = lease\<rparr>"
proof -
  from assms obtain st w0 where l: "load_run k run w = (Inr st, w0)"
    by (auto simp: claim_attempt_def Let_def bindS_Inr)
  obtain q w1 where o: "open_driver others k st w0 = (q, w1)" by force
  with assms l obtain d where q: "q = Inr d"
    by (cases q) (auto simp: claim_attempt_def Let_def bindS_Inr split: driver_error.splits store_error.splits)
  with o have d: "dd_store d = dk_store k" by (auto simp: open_driver_def driver_new_def bindR_Inr split: prod.splits)
  obtain now wa expiry wb r w2 where r: "read_clock k w1 = (Inr now, wa)"
    "checkS (\<lambda>_. expires_at now (wc_lease_ttl (dk_config k))) wa = (Inr expiry, wb)"
    "driver_claim_lease env others d (wc_owner_id (dk_config k)) lease now expiry wb = (r, w2)"
    using assms l o q by (auto simp: claim_attempt_def Let_def bindS_Inr) force
  with assms l o q obtain b where b: "r = Inr b"
    by (cases r) (auto simp: claim_attempt_def Let_def bindS_Inr checkS_iff split: driver_error.splits store_error.splits durability_error.splits)
  obtain x w3 where x: "bind_worker_lease d (wc_owner_id (dk_config k)) lease w2 = (x, w3)" by force
  with assms l o q r b obtain d' where x': "x = Inr d'" and c: "claim = \<lparr>aq_driver = d',
      aq_authority = \<lparr>la_owner_id = wc_owner_id (dk_config k), la_lease_id = lease\<rparr>, aq_recovered_claim = b,
      aq_terminal_status = (if is_terminal (st_status st) then Some (st_status st) else None)\<rparr>"
    by (cases x) (auto simp: claim_attempt_def Let_def bindS_Inr checkS_iff finish_authority_def split: sum.splits prod.splits)
  from x x' d have "dd_store d' = dk_store k"
    "dd_worker_lease d' = Some \<lparr>la_owner_id = wc_owner_id (dk_config k), la_lease_id = lease\<rparr>"
    by (auto simp: bind_worker_lease_def bindS_Inr failS_iff returnS_iff split: if_splits)
  with c show ?thesis by simp
qed

lemma acquired_by_worker:
  assumes "acquire_loop env p k run lease n i b h w = (Inr claim, sleeps, w')"
  shows "dd_store (aq_driver claim) = dk_store k \<and> dd_worker_lease (aq_driver claim) = Some (aq_authority claim)
    \<and> aq_authority claim = \<lparr>la_owner_id = wc_owner_id (dk_config k), la_lease_id = lease\<rparr>"
  using assms
proof (induction n arbitrary: i b h w sleeps w')
  case (Suc n)
  obtain q w1 where a: "claim_attempt env (pl_meanwhile p i) k run lease (w\<lparr>aw_store := pl_before p i (aw_store w)\<rparr>) = (q, w1)" by force
  with Suc.prems consider "q = Inr (Got claim)" | holder where "q = Inr (Held holder)" "n \<noteq> 0"
    by (auto simp: Let_def split: if_splits sum.splits attempt.splits)
  then show ?case
  proof cases
    case 1
    with a claimed_by_worker show ?thesis by fast
  next
    case 2
    obtain r more w2 where l: "acquire_loop env p k run lease n (i + 1) (next_backoff (dk_config k) b)
        (if holder \<noteq> None then holder else h) w1 = (r, more, w2)" by (metis prod_cases3)
    with Suc.prems a 2 have "r = Inr claim" by (auto simp: Let_def split: if_splits)
    with Suc.IH l show ?thesis by fast
  qed
qed simp

lemma acquireS_claim:
  assumes "acquireS env p k run w = (Inr claim, w')"
  obtains lease where "secure_lease_id (pl_random p) = Inr lease" "dd_store (aq_driver claim) = dk_store k"
    "dd_worker_lease (aq_driver claim) = Some (aq_authority claim)"
    "aq_authority claim = \<lparr>la_owner_id = wc_owner_id (dk_config k), la_lease_id = lease\<rparr>"
proof -
  from assms obtain lease sleeps where l: "secure_lease_id (pl_random p) = Inr lease"
    "acquire_loop env p k run lease (wc_max_poll_attempts (dk_config k)) 1 (wc_initial_poll_backoff (dk_config k)) None w
      = (Inr claim, sleeps, w')"
    by (auto simp: acquireS_def acquire_def split: sum.splits prod.splits)
  from acquired_by_worker [OF l(2)] l(1) show thesis by (auto intro: that)
qed

text \<open>A run of the worker: without a call of the callback, or by \<open>execute_claim\<close>; and a run that ends with an
  outcome: with the outcome of the claim, or with the value of the callback.\<close>

lemma finish_result: "finish_claim env p k claim run r w = (Inr oc, w') \<Longrightarrow> r = Inr oc"
  by (auto simp: finish_claim_def finish_authority_def split: prod.splits sum.splits)

lemma finish_failed: "finish_claim env p k claim run (Inl c) w = (x, w') \<Longrightarrow> \<exists>e. x = Inl e"
  using finish_result [of env p k claim run "Inl c" w] by (cases x) auto

lemma worker_run_cases:
  assumes "worker_run env V p k run w = (r, calls, w')"
  obtains (failed) e where "r = Some (Inl e)" "calls = []"
  | (ended) claim w1 oc w2 x where "acquireS env (polling.truncate p) k run w = (Inr claim, w1)"
      "claim_outcome env V p claim run w1 = (Inr (Some oc), w2)" "finish_claim env p k claim run (Inr oc) w2 = (x, w')"
      "r = Some x" "calls = []"
  | (called) claim w1 w2 where "acquireS env (polling.truncate p) k run w = (Inr claim, w1)"
      "claim_outcome env V p claim run w1 = (Inr None, w2)" "execute_claim env p k claim run w2 = (r, calls, w')"
proof -
  obtain q w1 where b: "bindS (checkS (\<lambda>_. worker_identifier run)) (\<lambda>_. acquireS env (polling.truncate p) k run) w = (q, w1)"
    by force
  show thesis
  proof (cases q)
    case (Inl e)
    with assms b failed show thesis by (auto simp: worker_run_def)
  next
    case (Inr claim)
    with b have a: "acquireS env (polling.truncate p) k run w = (Inr claim, w1)" by (auto simp: bindS_Inr checkS_iff)
    obtain x w2 where x: "claim_outcome env V p claim run w1 = (x, w2)" by force
    consider e where "x = Inl e" | "x = Inr None" | oc where "x = Inr (Some oc)"
      by (cases x) (auto intro: option.exhaust)
    then show thesis
    proof cases
      case (1 e)
      with assms b Inr x failed show thesis by (auto simp: worker_run_def split: prod.splits dest: finish_failed)
    next
      case 2
      with assms b Inr x a called show thesis by (simp add: worker_run_def)
    next
      case (3 oc)
      obtain y w3 where "finish_claim env p k claim run (Inr oc) w2 = (y, w3)" by force
      with assms b Inr x a 3 ended show thesis by (simp add: worker_run_def)
    qed
  qed
qed

lemma execute_claim_cases:
  assumes "execute_claim env p k claim run w = (r, calls, w')"
  obtains (failed) e where "r = Some (Inl e)" "calls = []"
  | (called) u w1 e w2 where "ready_heartbeat env (su_others p) k (aq_driver claim) (su_early p) w = (Inr u, w1)"
      "execution_loop env (su_others p) k (aq_driver claim) (su_events p)
         \<lparr>ex_beating = True, ex_failed = False, ex_deadline = False\<rparr> w1 = (e, w2)"
      "calls = [w1]"
      "\<And>oc. r = Some (Inr oc) \<Longrightarrow> \<exists>v. e = Some (EndValue v) \<and> oc = Executed v (aq_recovered_claim claim)
         \<and> finish_claim env p k claim run (Inr oc) w2 = (Inr oc, w')"
proof -
  show thesis
  proof (cases "su_thread_starts p \<and> su_readiness p = ThreadReady
      \<and> (\<exists>u w1. ready_heartbeat env (su_others p) k (aq_driver claim) (su_early p) w = (Inr u, w1))")
    case False
    with assms failed show thesis
      by (auto simp: execute_claim_def Let_def stop_heartbeat_def split: if_splits readiness.splits prod.splits sum.splits dest: finish_failed)
  next
    case True
    then obtain u w1 where h: "ready_heartbeat env (su_others p) k (aq_driver claim) (su_early p) w = (Inr u, w1)" by blast
    obtain e w2 where l: "execution_loop env (su_others p) k (aq_driver claim) (su_events p)
         \<lparr>ex_beating = True, ex_failed = False, ex_deadline = False\<rparr> w1 = (e, w2)" by force
    note r = assms [unfolded execute_claim_def Let_def run_callback_def, simplified True h l, simplified]
    show thesis
    proof (rule called [OF h l])
      show "calls = [w1]"
        using r by (auto split: option.splits exec_end.splits sum.splits prod.splits)
      show "\<exists>v. e = Some (EndValue v) \<and> oc = Executed v (aq_recovered_claim claim)
         \<and> finish_claim env p k claim run (Inr oc) w2 = (Inr oc, w')" if "r = Some (Inr oc)" for oc
        using r that l by (auto split: option.splits exec_end.splits sum.splits prod.splits dest: finish_result)
    qed
  qed
qed

end
