(* ===== verification/DemoWorker.thy ===== *)
theory DemoWorker
  imports Worker DemoBranch
begin

text \<open>A worker that claims, executes and releases the smallest run, for the witnesses of \<open>WorkerClaims\<close>.\<close>

subsection \<open>The run with a lease\<close>

abbreviation "demo_lease \<equiv> ''worker-lease-00000000000000000000000000000000''"

lemma worker_numbers: "show_nat 100 = ''100''" "show_nat 140 = ''140''" "show_nat 170 = ''170''"
  by code_simp+

lemma worker_ids:
  "stable_identifier demo_env ''event'' [''r'', ''worker_lease_claimed'', demo_lease, ''100''] = ''event_000000000100''"
  "stable_identifier demo_env ''event'' [''r'', ''worker_lease_renewed'', demo_lease, ''140''] = ''event_000000000140''"
  "stable_identifier demo_env ''event'' [''r'', ''worker_lease_released'', demo_lease, ''170''] = ''event_000000000170''"
  by (simp_all add: demo_identifier demo_filter_def)

lemma worker_valid:
  "validate_identifier x ''event_000000000100'' = Inr ()"
  "validate_identifier x ''event_000000000140'' = Inr ()"
  "validate_identifier x ''event_000000000170'' = Inr ()"
  "validate_identifier x ''w'' = Inr ()"
  "validate_identifier x demo_lease = Inr ()"
  by (simp_all add: validate_identifier_def)

lemmas worker_eval = demo_eval branch_eval worker_numbers worker_ids worker_valid
  renew_worker_lease_def release_worker_lease_def apply_lease_renewed_def apply_lease_released_def

definition work1 :: run_state where
  "work1 = snd (claim_worker_lease demo_env ''w'' demo_lease 100 30100 demo0)"

definition work2 :: run_state where
  "work2 = snd (renew_worker_lease demo_env ''w'' demo_lease 140 30140 work1)"

definition work3 :: run_state where
  "work3 = snd (release_worker_lease demo_env ''w'' demo_lease 170 work2)"

lemma work1_run: "claim_worker_lease demo_env ''w'' demo_lease 100 30100 demo0 = (Inr False, work1)"
proof -
  have "fst (claim_worker_lease demo_env ''w'' demo_lease 100 30100 demo0) = Inr False"
    by (simp add: worker_eval demo0_def cong: bindR_weak bindS_weak)
  then show ?thesis by (simp add: work1_def prod_eq_iff)
qed

lemma work2_run: "renew_worker_lease demo_env ''w'' demo_lease 140 30140 work1 = (Inr (), work2)"
proof -
  have "fst (renew_worker_lease demo_env ''w'' demo_lease 140 30140 work1) = Inr ()"
    by (simp add: worker_eval work1_def demo0_def cong: bindR_weak bindS_weak)
  then show ?thesis by (simp add: work2_def prod_eq_iff)
qed

lemma work3_run: "release_worker_lease demo_env ''w'' demo_lease 170 work2 = (Inr (), work3)"
proof -
  have "fst (release_worker_lease demo_env ''w'' demo_lease 170 work2) = Inr ()"
    by (simp add: worker_eval work2_def work1_def demo0_def cong: bindR_weak bindS_weak)
  then show ?thesis by (simp add: work3_def prod_eq_iff)
qed

lemma work1_eq: "work1 = demo0\<lparr>
   rs_events := rs_events demo0 @ [demo_event 2 ''event_000000000100'' (WorkerLeaseClaimed ''w'' demo_lease 100 30100)],
   rs_projection := (rs_projection demo0)\<lparr>pj_worker_lease := Some \<lparr>wl_owner_id = ''w'', wl_lease_id = demo_lease,
     wl_acquired_at = 100, wl_heartbeat_at = 100, wl_expires_at = 30100\<rparr>\<rparr>\<rparr>"
  by (simp add: worker_eval work1_def demo0_def demo_event_def cong: bindR_weak bindS_weak)

lemma work2_eq: "work2 = work1\<lparr>
   rs_events := rs_events work1 @ [demo_event 3 ''event_000000000140'' (WorkerLeaseRenewed ''w'' demo_lease 140 30140)],
   rs_projection := (rs_projection demo0)\<lparr>pj_worker_lease := Some \<lparr>wl_owner_id = ''w'', wl_lease_id = demo_lease,
     wl_acquired_at = 100, wl_heartbeat_at = 140, wl_expires_at = 30140\<rparr>\<rparr>\<rparr>"
  by (simp add: worker_eval work2_def work1_eq demo0_def demo_event_def cong: bindR_weak bindS_weak)

lemma work3_eq: "work3 = work2\<lparr>
   rs_events := rs_events work2 @ [demo_event 4 ''event_000000000170'' (WorkerLeaseReleased ''w'' demo_lease 170)],
   rs_projection := rs_projection demo0\<rparr>"
  by (simp add: worker_eval work3_def work2_eq work1_eq demo0_def demo_event_def cong: bindR_weak bindS_weak)

lemmas work_values = work3_eq work2_eq work1_eq demo0_def demo_event_def

subsection \<open>A driver of the run\<close>

text \<open>The world with one run, at the \<open>n\<close>-th reading of the clock.\<close>

definition driven_store :: "run_state \<Rightarrow> nat \<Rightarrow> timed_store" where
  "driven_store st n = \<lparr>ts_memory = \<lparr>ms_runs = [''r'' \<mapsto> st], ms_poisoned = False\<rparr>,
     ts_readings = (\<lambda>k. Inr (100 + 10 * k)), ts_reads = n\<rparr>"

definition driven_world :: "run_state \<Rightarrow> nat \<Rightarrow> timed_store driver_world" where
  "driven_world st n = \<lparr>aw_run = Some st, aw_store = driven_store st n, aw_poisoned = False, dw_invocation_active = False\<rparr>"

definition driven_driver :: "lease_authority option \<Rightarrow> timed_store run_driver" where
  "driven_driver a = \<lparr>dd_store = memory_ops, dd_max_completion_bytes = MAX_DURABLE_COMPLETION_BYTES, dd_worker_lease = a\<rparr>"

abbreviation "demo_authority \<equiv> \<lparr>la_owner_id = ''w'', la_lease_id = demo_lease\<rparr>"

lemma driven_clock: "so_clock memory_ops (driven_store st n) = (Inr (100 + 10 * n), driven_store st (n + 1))"
  by (simp add: memory_ops_def timed_clock_def driven_store_def)

lemma driven_load: "so_load memory_ops ''r'' (driven_store st n) = Inr st"
  by (simp add: memory_ops_def store_load_def driven_store_def)

lemma driven_swap:
  assumes "validate_swap (Inr (100 + 10 * n)) k st cand a None = Inr ()" and "rs_run_id cand = ''r''"
  shows "driver_swap (driven_driver a) k cand (driven_store st n) = (Inr (), driven_store cand (n + 1))"
  using assms by (cases a) (simp_all add: driver_swap_def driven_driver_def memory_ops_def timed_swap_def timed_clock_def
      driven_store_def compare_and_swap_inner_def)

lemma demo_transition:
  assumes "mutate st = (Inr x, cand)" and "validate_swap (Inr (100 + 10 * n)) (last_sequence st) st cand a None = Inr ()"
    and "cand \<noteq> st" and "rs_run_id st = ''r''" and "rs_run_id cand = ''r''"
  shows "transition_inner (\<lambda>s. s) (driven_driver a) False mutate (driven_world st n) = (Inr x, driven_world cand (n + 1))"
proof -
  have d: "dd_store (driven_driver a) = memory_ops" by (simp add: driven_driver_def)
  from assms driven_swap [OF assms(2)] show ?thesis
    by (simp add: transition_inner_def driven_world_def d driven_load commit_work_def bindS_def returnS_def)
qed

lemmas swap_eval = validate_swap_def validate_worker_lease_fence_def validate_append_only_def
  reject_unvalidated_approval_resolutions_def appends_worker_lease_claim_def is_atomic_lease_claim_def
  active_lease_def last_sequence_def checked_sub_def MAX_DURABLE_WORKER_LEASE_MS_def

lemma work_swaps:
  "validate_swap (Inr (100 + 10 * 1)) (last_sequence demo0) demo0 work1 None None = Inr ()"
  "validate_swap (Inr (100 + 10 * 5)) (last_sequence work1) work1 work2 (Some demo_authority) None = Inr ()"
  "validate_swap (Inr (100 + 10 * 8)) (last_sequence work2) work2 work3 (Some demo_authority) None = Inr ()"
  by (simp_all add: swap_eval work_values)

subsection \<open>The worker\<close>

text \<open>The codec is not used: the run has no audit activity.\<close>

definition no_codec :: driver_codec where
  "no_codec = \<lparr>ser_replay_envelope = (\<lambda>_. JNull), ser_legacy_source = (\<lambda>_. JNull),
     ser_legacy_resolution = (\<lambda>_. Inl ''none''), de_receipt = (\<lambda>_. Inl ''none''), json_bytes = (\<lambda>_. Inl ''none'')\<rparr>"

definition demo_config :: worker_config where
  "demo_config = \<lparr>wc_owner_id = ''w'', wc_lease_ttl = 30 * 10 ^ 9, wc_heartbeat_interval = 10 * 10 ^ 9,
     wc_initial_poll_backoff = 25 * 10 ^ 6, wc_max_poll_backoff = 10 ^ 9, wc_max_poll_attempts = 120,
     wc_cancellation_grace = 5 * 10 ^ 9\<rparr>"

lemma demo_config_new: "config_new ''w'' = Inr demo_config"
  by (simp add: config_new_def config_validate_def demo_config_def worker_identifier_def duration_ms_def
      as_millis_def u64_max_def MAX_DURABLE_WORKER_LEASE_MS_def)

definition demo_worker :: "timed_store durable_worker" where
  "demo_worker = \<lparr>dk_store = memory_ops, dk_config = demo_config\<rparr>"

definition demo_surroundings :: "(timed_store, nat) surroundings" where
  "demo_surroundings = \<lparr>pl_random = Inr [0,0,0,0,0,0,0,0,0,0,0,0,0,0,0,0], pl_cancelled = (\<lambda>_. False), pl_cancelled_asleep = (\<lambda>_. False),
     pl_before = (\<lambda>_ s. s), pl_meanwhile = (\<lambda>_ s. s), su_cancelled = False, su_others = (\<lambda>s. s),
     su_thread_starts = True, su_readiness = ThreadReady, su_early = [], su_events = [Returned 7],
     su_acknowledged = True\<rparr>"

definition demo_claim :: "timed_store acquired_worker" where
  "demo_claim = \<lparr>aq_driver = driven_driver (Some demo_authority), aq_authority = demo_authority,
     aq_recovered_claim = False, aq_terminal_status = None\<rparr>"

lemma demo_read: "read_clock demo_worker (driven_world st n) = (Inr (100 + 10 * n), driven_world st (n + 1))"
  by (simp add: read_clock_def demo_worker_def driven_world_def driven_clock)

lemma demo_store_clock: "store_clock (driven_driver a) (driven_world st n) = (Inr (100 + 10 * n), driven_world st (n + 1))"
  by (simp add: store_clock_def driven_driver_def driven_world_def driven_clock)

lemma demo_load_run: "load_run demo_worker ''r'' (driven_world st n) = (Inr st, driven_world st n)"
  by (simp add: load_run_def demo_worker_def driven_world_def driven_load)

lemma demo_expiry: "expires_at t (wc_lease_ttl (dk_config demo_worker)) = (if t + 30000 > u64_max then Inl ClockOverflow else Inr (t + 30000))"
  by (simp add: expires_at_def demo_worker_def demo_config_def duration_ms_def as_millis_def u64_max_def)

lemma driven_snapshot: "snapshot (driven_world st n) = (Inr st, driven_world st n)"
  by (simp add: snapshot_def driven_world_def)

lemma demo_open:
  "rs_run_id st = ''r'' \<Longrightarrow> rs_durability st = Sync \<Longrightarrow>
    open_driver others demo_worker st (driven_world st n) = (Inr (driven_driver None), driven_world st n)"
  by (simp add: open_driver_def driver_new_def attach_store_def demo_worker_def driven_world_def driven_load same_run_def
      driven_driver_def)

lemma demo_bind:
  assumes "pj_worker_lease (rs_projection st) = Some l" and "wl_owner_id l = ''w''" and "wl_lease_id l = demo_lease"
    and "wl_expires_at l > 100 + 10 * n"
  shows "bind_worker_lease (driven_driver None) ''w'' demo_lease (driven_world st n)
    = (Inr (driven_driver (Some demo_authority)), driven_world st (n + 1))"
  using assms demo_store_clock [of None st n]
  by (simp add: bind_worker_lease_def bindS_def checkS_def returnS_def driven_world_def ok_or_def)
    (simp add: driven_driver_def)

lemma work_identity: "rs_run_id demo0 = ''r''" "rs_run_id work1 = ''r''" "rs_run_id work2 = ''r''" "rs_run_id work3 = ''r''"
  "rs_durability demo0 = Sync" "rs_durability work2 = Sync" "work1 \<noteq> demo0" "work2 \<noteq> work1" "work3 \<noteq> work2"
  by (simp_all add: work_values)

lemma work_leases:
  "pj_worker_lease (rs_projection work1) = Some \<lparr>wl_owner_id = ''w'', wl_lease_id = demo_lease,
     wl_acquired_at = 100, wl_heartbeat_at = 100, wl_expires_at = 30100\<rparr>"
  "pj_worker_lease (rs_projection work2) = Some \<lparr>wl_owner_id = ''w'', wl_lease_id = demo_lease,
     wl_acquired_at = 100, wl_heartbeat_at = 140, wl_expires_at = 30140\<rparr>"
  by (simp_all add: work_values)

lemma demo_claimed: "driver_claim_lease demo_env (\<lambda>s. s) (driven_driver None) ''w'' demo_lease 100 30100 (driven_world demo0 (Suc 0))
    = (Inr False, driven_world work1 2)"
  unfolding driver_claim_lease_def
  using demo_transition [of "runS (claim_worker_lease demo_env ''w'' demo_lease 100 30100)" demo0 False work1 1 None]
  by (simp add: runS_def work1_run work_swaps [simplified] work_identity map_err_def numeral_2_eq_2)

lemma demo_attempt_run:
  "claim_attempt demo_env (\<lambda>s. s) demo_worker ''r'' demo_lease (driven_world demo0 0) = (Inr (Got demo_claim), driven_world work1 3)"
proof -
  have b: "bind_worker_lease (driven_driver None) ''w'' demo_lease (driven_world work1 2)
      = (Inr (driven_driver (Some demo_authority)), driven_world work1 3)"
    using demo_bind [OF work_leases(1), of 2] by simp
  have k: "wc_owner_id (dk_config demo_worker) = ''w''" by (simp add: demo_worker_def demo_config_def)
  have t: "st_status demo0 = RunRunning" "expires_at 100 (wc_lease_ttl (dk_config demo_worker)) = Inr 30100"
    by (simp_all add: demo0_def demo_expiry u64_max_def)
  show ?thesis
    using demo_read [of demo0 0]
    by (simp add: claim_attempt_def Let_def k bindS_def checkS_def demo_load_run demo_open work_identity t demo_claimed b demo_claim_def)
qed

lemma demo_unchanged: "(driven_world st n)\<lparr>aw_store := aw_store (driven_world st n)\<rparr> = driven_world st n"
  by (simp add: driven_world_def)

lemma demo_acquire: "acquireS demo_env (polling.truncate demo_surroundings) demo_worker ''r'' (driven_world demo0 0)
  = (Inr demo_claim, driven_world work1 3)"
proof -
  have a: "pl_random (polling.truncate demo_surroundings) = Inr [0,0,0,0,0,0,0,0,0,0,0,0,0,0,0,0]" "pl_cancelled (polling.truncate demo_surroundings) 1 = False"
    "pl_before (polling.truncate demo_surroundings) 1 s = s" "pl_meanwhile (polling.truncate demo_surroundings) 1 = (\<lambda>s. s)" for s
    by (simp_all add: demo_surroundings_def polling.truncate_def)
  have k: "wc_max_poll_attempts (dk_config demo_worker) = 120" by (simp add: demo_worker_def demo_config_def)
  have attempts: "120 = Suc 119" by simp
  have i: "secure_lease_id (Inr [0,0,0,0,0,0,0,0,0,0,0,0,0,0,0,0]) = Inr demo_lease" by (simp add: secure_lease_id_def hex_bytes_def map_err_def bindR_def)
  have l: "acquire_loop demo_env (polling.truncate demo_surroundings) demo_worker ''r'' demo_lease 120 1 b h (driven_world demo0 0)
      = (Inr demo_claim, [], driven_world work1 3)" for b h
    unfolding attempts acquire_loop.simps(2) using demo_attempt_run by (simp add: a [simplified] demo_unchanged)
  show ?thesis by (simp add: acquireS_def acquire_def a i k l [simplified])
qed

text \<open>The claimed run has no activity, so nothing is ambiguous.\<close>

lemma demo_raw: "raw_invocation_disposition demo_env V None work1 = (Inr RawExecute, work1)"
  by (simp add: raw_invocation_disposition_def scan_run_def classify_run_def withS_def work_values records_def
      terminal_record_def bt_values_def bindS_def returnS_def checkS_def)

lemma demo_disposition:
  "invocation_disposition_with_active_lifecycle demo_env V others (driven_driver (Some demo_authority)) None (driven_world work1 3)
     = (Inr DispExecute, driven_world work1 4)"
proof -
  have "transition others (driven_driver (Some demo_authority)) (raw_invocation_disposition demo_env V None) (driven_world work1 3)
      = (Inr RawExecute, driven_world work1 4)"
  proof -
    have w: "aw_run (driven_world st n) = Some st" "\<not> aw_poisoned (driven_world st n)" "aw_store (driven_world st n) = driven_store st n"
      for st n by (simp_all add: driven_world_def)
    have d: "dd_store (driven_driver a) = memory_ops" "dd_worker_lease (driven_driver a) = a" for a by (simp_all add: driven_driver_def)
    show ?thesis
      using demo_store_clock [of "Some demo_authority" work1 3] demo_raw [of V] work_leases(1)
      by (simp add: transition_def transition_inner_def ensure_worker_lease_authority_def bindS_def commit_work_def
        returnS_def w d driven_load work_identity)
  qed
  then show ?thesis by (simp add: invocation_disposition_with_active_lifecycle_def bindS_def checkS_def typed_disposition_def)
qed

lemma demo_renewed:
  "driver_renew_lease demo_env (\<lambda>s. s) (driven_driver (Some demo_authority)) 140 30140 (driven_world work1 5) = (Inr (), driven_world work2 6)"
  using demo_transition [of "runS (renew_worker_lease demo_env ''w'' demo_lease 140 30140)" work1 "()" work2 5 "Some demo_authority"]
  by (simp add: driver_renew_lease_def runS_def work2_run work_swaps(2) [simplified] work_identity map_err_def)
    (simp add: driven_driver_def)

lemma demo_heartbeat: "heartbeat demo_env (\<lambda>s. s) demo_worker (driven_driver (Some demo_authority)) (driven_world work1 4)
  = (Inr (), driven_world work2 6)"
proof -
  show ?thesis
    using demo_read [of work1 4] demo_renewed
    by (simp add: heartbeat_def bindS_def checkS_def demo_expiry u64_max_def map_errS_def map_err_def driven_snapshot work_leases ok_or_def)
qed

lemma demo_release: "release_authority demo_env (\<lambda>s. s) demo_worker demo_authority ''r'' (driven_world work2 6)
  = (Inr (), driven_world work3 9)"
proof -
  have r: "driver_release_lease demo_env (\<lambda>s. s) (driven_driver (Some demo_authority)) 170 (driven_world work2 8) = (Inr (), driven_world work3 9)"
    using demo_transition [of "runS (release_worker_lease demo_env ''w'' demo_lease 170)" work2 "()" work3 8 "Some demo_authority"]
    by (simp add: driver_release_lease_def runS_def work3_run work_swaps(3) [simplified] work_identity map_err_def)
      (simp add: driven_driver_def)
  have b: "bind_worker_lease (driven_driver None) ''w'' demo_lease (driven_world work2 6)
      = (Inr (driven_driver (Some demo_authority)), driven_world work2 7)"
    using demo_bind [OF work_leases(2), of 6] by simp
  show ?thesis
    using demo_read [of work2 7]
    by (simp add: release_authority_def bindS_def checkS_def demo_load_run work_leases ok_or_def map_errS_def map_err_def
        demo_open work_identity b r)
qed

lemma driven_run: "worker_run demo_env V demo_surroundings demo_worker ''r'' (driven_world demo0 0)
  = (Some (Inr (Executed 7 False)), [driven_world work2 6], driven_world work3 9)"
proof -
  have s: "su_cancelled demo_surroundings = False" "su_others demo_surroundings = (\<lambda>s. s)" "su_thread_starts demo_surroundings"
    "su_readiness demo_surroundings = ThreadReady" "su_early demo_surroundings = []" "su_events demo_surroundings = [Returned 7]"
    "su_acknowledged demo_surroundings"
    by (simp_all add: demo_surroundings_def)
  have c: "aq_driver demo_claim = driven_driver (Some demo_authority)" "aq_authority demo_claim = demo_authority"
    "aq_recovered_claim demo_claim = False" "aq_terminal_status demo_claim = None"
    by (simp_all add: demo_claim_def)
  have o: "claim_outcome demo_env V demo_surroundings demo_claim ''r'' (driven_world work1 3) = (Inr None, driven_world work1 4)"
    by (simp add: claim_outcome_def s c bindS_def map_errS_def map_err_def demo_disposition open_outcome_def returnS_def)
  have f: "finish_claim demo_env demo_surroundings demo_worker demo_claim ''r'' (Inr x) (driven_world work2 6) = (Inr x, driven_world work3 9)" for x :: "nat worker_outcome"
    by (simp add: finish_claim_def finish_authority_def s c demo_release)
  have e: "execute_claim demo_env demo_surroundings demo_worker demo_claim ''r'' (driven_world work1 4)
      = (Some (Inr (Executed 7 False)), [driven_world work2 6], driven_world work3 9)"
    by (simp add: execute_claim_def run_callback_def Let_def s c demo_heartbeat stop_heartbeat_def f)
  have i: "worker_identifier ''r'' = Inr ()" by (simp add: worker_identifier_def)
  show ?thesis by (simp add: worker_run_def bindS_def checkS_def i demo_acquire o e)
qed

end
