(* ===== verification/WorkerClaims.thy ===== *)
theory WorkerClaims
  imports WorkerProps DemoWorker
begin

text \<open>The properties of the driver of a durable run and of the worker, with a concrete run for each.\<close>

subsection \<open>What the driver looked at\<close>

lemma authority_matches:
  assumes "ensure_worker_lease_authority d current w = (Inr u, w')"
  shows "map_option (\<lambda>l. \<lparr>la_owner_id = wl_owner_id l, la_lease_id = wl_lease_id l\<rparr>) (current_lease current) = dd_worker_lease d"
  using assms by (auto simp: ensure_worker_lease_authority_def failS_iff split: option.splits if_splits)

lemma execute_looked:
  assumes "invocation_disposition_with_active_lifecycle env V others d active w = (Inr DispExecute, w')"
  shows "\<exists>st. aw_run w = Some st \<and> aw_run w' = Some st \<and> so_load (dd_store d) (rs_run_id st) (aw_store w) = Inr st
     \<and> reading (dd_store d) (aw_store w) (aw_store w')
     \<and> map_option (\<lambda>l. \<lparr>la_owner_id = wl_owner_id l, la_lease_id = wl_lease_id l\<rparr>) (current_lease st) = dd_worker_lease d
     \<and> unambiguous active st"
proof -
  from assms obtain raw where t: "transition_inner others d True (raw_invocation_disposition env V active) w = (Inr raw, w')"
    and r: "typed_disposition V raw = Inr DispExecute"
    by (auto simp: invocation_disposition_with_active_lifecycle_def transition_def bindS_Inr checkS_iff)
  from r have raw: "raw = RawExecute" by (cases raw) (auto simp: typed_disposition_def bindR_Inr)
  from t show ?thesis
  proof (cases rule: transition_Inr)
    case (1 current s)
    from 1(4) have c: "commit_work others d (raw_invocation_disposition env V active) current (w\<lparr>aw_store := s\<rparr>) = (Inr RawExecute, w')"
      by (simp add: raw)
    then have w': "w' = w\<lparr>aw_store := s\<rparr>" and u: "unambiguous active current"
      by (cases rule: commit_work_Inr; use execute_unambiguous in fastforce)+
    from t 1(1,2) obtain v w1 where "ensure_worker_lease_authority d current w = (Inr v, w1)"
      by (auto simp: transition_inner_def bindS_Inr split: if_splits)
    from authority_matches [OF this] 1 w' u show ?thesis by simp
  qed
qed

text \<open>The outcome of a claim is never an execution, and none only when the disposition allows one.\<close>

lemma reconciliation_not_executed: "needs_reconciliation reason w = (Inr oc, w') \<Longrightarrow> oc \<noteq> Executed v b"
  by (auto simp: needs_reconciliation_def bindS_Inr returnS_iff)

lemma outcome_not_executed: "claim_outcome env V p claim run w \<noteq> (Inr (Some (Executed v b)), w')"
proof
  assume "claim_outcome env V p claim run w = (Inr (Some (Executed v b)), w')"
  then obtain disposition w1 where o: "(case aq_terminal_status claim of
      Some status \<Rightarrow> bindS (terminal_outcome env p (aq_driver claim) status disposition) (\<lambda>oc. returnS (Some oc))
    | None \<Rightarrow> open_outcome disposition) w1 = (Inr (Some (Executed v b)), w')"
    by (auto simp: claim_outcome_def bindS_Inr failS_iff split: if_splits)
  then show False
    by (cases disposition; cases "aq_terminal_status claim")
      (auto simp: terminal_outcome_def open_outcome_def bindS_Inr returnS_iff dest: reconciliation_not_executed)
qed

lemma claim_outcome_None:
  assumes "claim_outcome env V p claim run w = (Inr None, w')"
  obtains disposition where
    "invocation_disposition_with_active_lifecycle env V (su_others p) (aq_driver claim) None w = (Inr disposition, w')"
    "disposition \<in> {DispExecute} \<union> range DispFinalizeTerminal \<union> range DispRetryTerminalAudit"
proof -
  from assms obtain disposition w1 where d:
    "invocation_disposition_with_active_lifecycle env V (su_others p) (aq_driver claim) None w = (Inr disposition, w1)"
    and o: "(case aq_terminal_status claim of
      Some status \<Rightarrow> bindS (terminal_outcome env p (aq_driver claim) status disposition) (\<lambda>oc. returnS (Some oc))
    | None \<Rightarrow> open_outcome disposition) w1 = (Inr None, w')"
    by (auto simp: claim_outcome_def bindS_Inr failS_iff map_errS_Inr split: if_splits)
  from d o show thesis
    by (cases "aq_terminal_status claim"; cases disposition) (auto simp: open_outcome_def bindS_Inr returnS_iff intro: that)
qed

subsection \<open>Properties\<close>

text \<open>C37: whatever operation of a driver on the in-memory store changes the run: the new run extends the old
  one, the old one is what the store held at the moment of the swap although others write to the store, the
  new one is what it holds afterwards, and a driver that is bound to a lease held the lease of the run, not
  yet expired at the time that the clock of the store showed at that moment.\<close>

theorem driver_commits_on_stored_history:
  assumes "driver_step env V d others w w'" and "dd_store d = memory_ops"
    and "built_store env memory_ops (aw_store w)" and "\<And>s. built_store env memory_ops s \<Longrightarrow> built_store env memory_ops (others s)"
    and "holds (run_built env) w" and "holds (\<lambda>st. length (rs_events st) \<le> u64_max) w'"
    and "aw_run w' \<noteq> aw_run w" and "aw_run w' = Some candidate"
  shows "\<exists>current s now. aw_run w = Some current \<and> extends_run current candidate
     \<and> reading memory_ops (aw_store w) s
     \<and> store_load (rs_run_id current) (ts_memory (others s)) = Inr current
     \<and> store_load (rs_run_id current) (ts_memory (aw_store w')) = Inr candidate
     \<and> fst (timed_clock (others s)) = Inr now
     \<and> (\<forall>a. dd_worker_lease d = Some a \<longrightarrow> (\<exists>l. active_lease current now = Some l \<and> now < wl_expires_at l
          \<and> wl_owner_id l = la_owner_id a \<and> wl_lease_id l = la_lease_id a))"
proof -
  from timed.commit_on_history [OF driver_step_effect [OF assms(1)] assms(2-8)] obtain current s now where
    "aw_run w = Some current \<and> extends_run current candidate" "reading memory_ops (aw_store w) s"
    "so_load memory_ops (rs_run_id current) (others s) = Inr current"
    "so_load memory_ops (rs_run_id current) (aw_store w') = Inr candidate"
    and c: "fst (so_clock memory_ops (others s)) = Inr now"
    and f: "validate_worker_lease_fence current candidate (dd_worker_lease d) now = Inr ()" by blast
  moreover have "\<forall>a. dd_worker_lease d = Some a \<longrightarrow> (\<exists>l. active_lease current now = Some l \<and> now < wl_expires_at l
          \<and> wl_owner_id l = la_owner_id a \<and> wl_lease_id l = la_lease_id a)"
    using f by (auto dest: fence_names_holder)
  moreover have "fst (timed_clock (others s)) = Inr now" using c by (simp add: memory_ops_def)
  ultimately show ?thesis by (auto simp: memory_ops_def)
qed

theorem driver_commits_on_stored_history_witness:
  "\<exists>l. active_lease work1 150 = Some l \<and> extends_run work1 work2"
proof -
  have r: "run_built demo_env demo0" "run_built demo_env work1"
    using api_reach_built [OF run_reached.new [OF demo0_new]]
      api_reach_built [OF run_reached.step [OF run_reached.new [OF demo0_new] run_step.claim [OF work1_run]]] by auto
  have b: "built_store demo_env memory_ops (aw_store (driven_world work1 5))"
    using r by (auto simp: built_store_def driven_world_def memory_ops_def store_load_def driven_store_def split: if_splits)
  have "\<exists>current s now. aw_run (driven_world work1 5) = Some current \<and> extends_run current work2
     \<and> reading memory_ops (aw_store (driven_world work1 5)) s
     \<and> store_load (rs_run_id current) (ts_memory s) = Inr current
     \<and> store_load (rs_run_id current) (ts_memory (aw_store (driven_world work2 6))) = Inr work2
     \<and> fst (timed_clock s) = Inr now
     \<and> (\<forall>a. dd_worker_lease (driven_driver (Some demo_authority)) = Some a \<longrightarrow> (\<exists>l. active_lease current now = Some l
          \<and> now < wl_expires_at l \<and> wl_owner_id l = la_owner_id a \<and> wl_lease_id l = la_lease_id a))"
    by (rule driver_commits_on_stored_history [OF driver_step.renew [OF demo_renewed] _ b])
      (use r in \<open>simp_all add: driven_driver_def driven_world_def holds_def work_identity\<close>, simp_all add: work_values u64_max_def)
  then show ?thesis by (auto simp: driven_world_def active_lease_def work_leases)
qed

text \<open>C38: an invocation is told to execute only on the run that the store holds, under the lease that this driver
  is bound to, and only when the run is running and nothing in it needs a reconciliation: no activity waits
  for one, no activity is running that would need one (activities that may safely be repeated may be
  running), every lifecycle is closed for good or is the own one of this invocation, in particular none is
  cancelled or failed with its reconciliation incomplete, every recovery audit is complete, and no terminal
  audit has begun. Telling so changes nothing.\<close>

theorem execute_is_unambiguous:
  assumes "invocation_disposition_with_active_lifecycle env V others d active w = (Inr DispExecute, w')"
  shows "\<exists>st. aw_run w = Some st \<and> aw_run w' = Some st \<and> so_load (dd_store d) (rs_run_id st) (aw_store w) = Inr st
     \<and> reading (dd_store d) (aw_store w) (aw_store w')
     \<and> map_option (\<lambda>l. \<lparr>la_owner_id = wl_owner_id l, la_lease_id = wl_lease_id l\<rparr>) (current_lease st) = dd_worker_lease d
     \<and> unambiguous active st"
  using assms by (rule execute_looked)

theorem execute_is_unambiguous_witness: "unambiguous None work1"
  using execute_is_unambiguous [OF demo_disposition [of no_codec "\<lambda>s. s"]] by (auto simp: driven_world_def)

text \<open>A worker with a valid configuration sleeps between its attempts to claim a run, at most once less often than
  the configured attempts, and never longer than the configured bound.\<close>

theorem claim_polling_is_bounded:
  assumes "config_validate (dk_config k) = Inr ()" and "acquire env p k run w = (r, sleeps, w')"
  shows "length sleeps < wc_max_poll_attempts (dk_config k)
     \<and> (\<forall>x \<in> set sleeps. 0 < x \<and> x \<le> wc_max_poll_backoff (dk_config k))"
proof -
  from assms(1) have c: "wc_max_poll_attempts (dk_config k) > 0"
    "0 < wc_initial_poll_backoff (dk_config k) \<and> wc_initial_poll_backoff (dk_config k) \<le> wc_max_poll_backoff (dk_config k)"
    by (auto simp: config_validate_def bindR_Inr split: if_splits)
  show ?thesis
  proof (cases "secure_lease_id (pl_random p)")
    case (Inr lease)
    with assms(2) have "acquire_loop env p k run lease (wc_max_poll_attempts (dk_config k)) 1
        (wc_initial_poll_backoff (dk_config k)) None w = (r, sleeps, w')" by (simp add: acquire_def)
    from acquire_loop_sleeps [OF this c(2)] c(1) show ?thesis by auto
  qed (use assms(2) c in \<open>auto simp: acquire_def\<close>)
qed

theorem claim_polling_is_bounded_witness:
  "length (fst (snd (acquire demo_env (polling.truncate demo_surroundings) demo_worker ''r'' (driven_world demo0 0)))) < 120"
proof -
  obtain r sleeps w' where a: "acquire demo_env (polling.truncate demo_surroundings) demo_worker ''r'' (driven_world demo0 0)
      = (r, sleeps, w')" by (metis prod_cases3)
  from demo_config_new have "config_validate (dk_config demo_worker) = Inr ()"
    by (auto simp: config_new_def bindR_Inr demo_worker_def demo_config_def Let_def)
  from claim_polling_is_bounded [OF this a] a show ?thesis by (simp add: demo_worker_def demo_config_def)
qed

text \<open>C39: a worker that reports an outcome has released its lease: the store holds a run whose log has the
  release, under the owner of the worker and the lease identifier of this claim.\<close>

theorem successful_worker_releases_lease:
  assumes "worker_run env V p k run w = (Some (Inr oc), calls, w')" and "dk_store k = memory_ops"
  shows "\<exists>lease st t. secure_lease_id (pl_random p) = Inr lease
     \<and> store_load (rs_run_id st) (ts_memory (aw_store w')) = Inr st
     \<and> WorkerLeaseReleased (wc_owner_id (dk_config k)) lease t \<in> ev_kind ` set (rs_events st)"
proof -
  obtain claim w1 w2 where a: "acquireS env (polling.truncate p) k run w = (Inr claim, w1)"
    and f: "finish_claim env p k claim run (Inr oc) w2 = (Inr oc, w')"
    using assms(1)
  proof (cases rule: worker_run_cases)
    case (ended claim w1 oc' w2 x)
    with finish_result [of env p k claim run "Inr oc'" w2 oc w'] that show thesis by auto
  next
    case (called claim w1 w2)
    from called(3) called(1) that show thesis by (cases rule: execute_claim_cases) auto
  qed simp
  obtain lease where l: "secure_lease_id (pl_random (polling.truncate p)) = Inr lease"
    "aq_authority claim = \<lparr>la_owner_id = wc_owner_id (dk_config k), la_lease_id = lease\<rparr>"
    using acquireS_claim [OF a] by metis
  from timed.finish_stored [OF f [unfolded finish_claim_def] assms(2)] l show ?thesis
    by (auto simp: memory_ops_def polling.truncate_def)
qed

theorem successful_worker_releases_lease_witness:
  "\<exists>st t. store_load (rs_run_id st) (ts_memory (driven_store work3 9)) = Inr st
     \<and> WorkerLeaseReleased ''w'' demo_lease t \<in> ev_kind ` set (rs_events st)"
  using successful_worker_releases_lease [OF driven_run [of no_codec]]
  by (auto simp: demo_worker_def demo_config_def demo_surroundings_def secure_lease_id_def hex_bytes_def map_err_def
      bindR_def driven_world_def)

text \<open>What holds when the callback of a worker is called: the worker has claimed the run under a fresh lease;
  the disposition of the run under that lease allowed an execution, and an execution proper only of an
  unambiguous run; and the store holds the run with a renewal of that lease.\<close>

definition called_under_claim ::
  "durable_env \<Rightarrow> driver_codec \<Rightarrow> (timed_store, 'v) surroundings \<Rightarrow> timed_store durable_worker \<Rightarrow> string
    \<Rightarrow> timed_store driver_world \<Rightarrow> timed_store acquired_worker \<Rightarrow> timed_store driver_world \<Rightarrow> bool"
where
  "called_under_claim env V p k run w claim at \<longleftrightarrow>
     (\<exists>lease w1 disposition w2 st t x.
        secure_lease_id (pl_random p) = Inr lease \<and> acquireS env (polling.truncate p) k run w = (Inr claim, w1)
        \<and> dd_worker_lease (aq_driver claim) = Some \<lparr>la_owner_id = wc_owner_id (dk_config k), la_lease_id = lease\<rparr>
        \<and> invocation_disposition_with_active_lifecycle env V (su_others p) (aq_driver claim) None w1 = (Inr disposition, w2)
        \<and> disposition \<in> {DispExecute} \<union> range DispFinalizeTerminal \<union> range DispRetryTerminalAudit
        \<and> (disposition = DispExecute \<longrightarrow> (\<exists>s. aw_run w2 = Some s \<and> unambiguous None s))
        \<and> aw_run at = Some st \<and> store_load (rs_run_id st) (ts_memory (aw_store at)) = Inr st
        \<and> WorkerLeaseRenewed (wc_owner_id (dk_config k)) lease t x \<in> ev_kind ` set (rs_events st))"

lemma execute_called:
  assumes "acquireS env (polling.truncate p) k run w = (Inr claim, w1)" and "claim_outcome env V p claim run w1 = (Inr None, w2)"
    and "ready_heartbeat env (su_others p) k (aq_driver claim) (su_early p) w2 = (Inr u, w3)" and "dk_store k = memory_ops"
  shows "called_under_claim env V p k run w claim w3"
proof -
  obtain lease where l: "secure_lease_id (pl_random p) = Inr lease" "dd_store (aq_driver claim) = memory_ops"
    "dd_worker_lease (aq_driver claim) = Some \<lparr>la_owner_id = wc_owner_id (dk_config k), la_lease_id = lease\<rparr>"
    using acquireS_claim [OF assms(1)] assms(4) by (auto simp: polling.truncate_def)
  obtain disposition where d:
    "invocation_disposition_with_active_lifecycle env V (su_others p) (aq_driver claim) None w1 = (Inr disposition, w2)"
    "disposition \<in> {DispExecute} \<union> range DispFinalizeTerminal \<union> range DispRetryTerminalAudit"
    using assms(2) by (rule claim_outcome_None)
  from timed.ready_recorded [OF assms(3) l(2)] l(3) obtain st t y where
    st: "aw_run w3 = Some st" "store_load (rs_run_id st) (ts_memory (aw_store w3)) = Inr st"
    "WorkerLeaseRenewed (wc_owner_id (dk_config k)) lease t y \<in> ev_kind ` set (rs_events st)"
    by (auto simp: memory_ops_def)
  have u: "disposition = DispExecute \<longrightarrow> (\<exists>s. aw_run w2 = Some s \<and> unambiguous None s)"
    using d(1) by (auto dest: execute_looked)
  show ?thesis
    unfolding called_under_claim_def by (intro exI conjI) (rule l(1) assms(1) l(3) d u st)+
qed

text \<open>C40: whatever a worker reports, and also when it has not returned, its callback was called at most once,
  and only after the run was claimed under a fresh lease, its disposition under that lease allowed an
  execution, and the store of the worker, an in-memory store, held the run with a renewal of that lease. A
  value is reported as executed only when the callback was called and returned it.\<close>

theorem executed_run_was_claimed:
  assumes "worker_run env V p k run w = (r, calls, w')" and "dk_store k = memory_ops"
  shows "(calls = [] \<and> (\<forall>v b. r \<noteq> Some (Inr (Executed v b))))
    \<or> (\<exists>claim at e w4. calls = [at] \<and> called_under_claim env V p k run w claim at
         \<and> execution_loop env (su_others p) k (aq_driver claim) (su_events p)
             \<lparr>ex_beating = True, ex_failed = False, ex_deadline = False\<rparr> at = (e, w4)
         \<and> (\<forall>v b. r = Some (Inr (Executed v b)) \<longrightarrow> e = Some (EndValue v) \<and> b = aq_recovered_claim claim))"
  using assms(1)
proof (cases rule: worker_run_cases)
  case (ended claim w1 oc w2 x)
  have "r \<noteq> Some (Inr (Executed v b))" for v b
    using finish_result [of env p k claim run "Inr oc" w2 "Executed v b" w'] ended(3,4)
      outcome_not_executed [of env V p claim run w1 v b w2] ended(2) by auto
  with ended(5) show ?thesis by simp
next
  case (called claim w1 w2)
  from called(3) show ?thesis
  proof (cases rule: execute_claim_cases)
    case (called u w3 e w4)
    from execute_called [OF \<open>acquireS _ _ _ _ _ = _\<close> \<open>claim_outcome _ _ _ _ _ _ = _\<close> called(1) assms(2)] called(2-4)
    show ?thesis by fastforce
  qed simp
qed simp

theorem executed_run_was_claimed_witness:
  "\<exists>st t x. aw_run (driven_world work2 6) = Some st \<and> store_load (rs_run_id st) (ts_memory (driven_store work2 6)) = Inr st
     \<and> WorkerLeaseRenewed ''w'' demo_lease t x \<in> ev_kind ` set (rs_events st)"
proof -
  have k: "wc_owner_id (dk_config demo_worker) = ''w''" "secure_lease_id (pl_random demo_surroundings) = Inr demo_lease"
    "dk_store demo_worker = memory_ops" "aw_store (driven_world work2 6) = driven_store work2 6"
    by (simp_all add: demo_worker_def demo_config_def demo_surroundings_def secure_lease_id_def hex_bytes_def map_err_def
        bindR_def driven_world_def)
  from executed_run_was_claimed [OF driven_run [of no_codec] k(3)] obtain claim where
    "called_under_claim demo_env no_codec demo_surroundings demo_worker ''r'' (driven_world demo0 0) claim (driven_world work2 6)"
    by auto
  then show ?thesis unfolding called_under_claim_def by (auto simp: k)
qed

end
