(* ===== verification/Spec2Isabelle.thy ===== *)
theory Spec2Isabelle
  imports DurCmdProps DurStoreProps Reliability Budget Broker Governance TraceEval Resilience Routing ApproverProps WorkerClaims
begin

text \<open>
  A verification development for the aikit runtime. All source paths are relative to
  \<open>src/crates/aikit-core/src/\<close>.

  \<^bold>\<open>The program and its parts.\<close> The runtime drives language models and their tools. Its own logic
  is in five groups, which meet as follows.

  \<^item> A \<^emph>\<open>durable run\<close> (\<open>durability.rs\<close>) is a log of events and a projection that replay rebuilds from
    it. All its operations end in one append, which validates the event against the projection. A
    \<^emph>\<open>store\<close> (\<open>durable_store.rs\<close>) keeps runs and replaces them by compare-and-swap, with worker leases
    as fences and its own clock for the deadlines of approvals. The \<^emph>\<open>driver\<close>
    (\<open>durable_runtime.rs\<close>) commits every change of a run to its store before the caller goes on, and
    tells an invocation what it may do with a run that another worker left behind. A \<^emph>\<open>worker\<close>
    (\<open>durable_worker.rs\<close>) claims the lease of a run, executes it under heartbeats and releases it.
  \<^item> \<^emph>\<open>Governance\<close> (\<open>governance/\<close>) decides about tool calls: hooks, permission rules, a sealed policy
    snapshot and a human approver, bound to a durable run by its governance binding. The durable
    approver records the question and the answer of the human in the run, through the store.
  \<^item> The \<^emph>\<open>egress broker\<close> (\<open>governance/egress_broker.rs\<close>) sends HTTP requests under an egress policy of
    \<open>governance/contracts.rs\<close>.
  \<^item> \<^emph>\<open>Model calls\<close>: routing of a request to a model (\<open>routing.rs\<close>), budgets that all workers share
    (\<open>budget.rs\<close>), retry and fallback over providers (\<open>resilience.rs\<close>), and the encoder that turns the
    deltas of a provider into numbered events (\<open>streaming.rs\<close>), with the errors of \<open>error.rs\<close>.
  \<^item> The \<^emph>\<open>trace evaluator\<close> (\<open>trace_eval.rs\<close>) checks recorded streams and logs.

  \<^bold>\<open>How the code is modelled.\<close> A struct is a record and an enum a datatype with the source's
  constructors; a prefix makes the names of fields and constructors unique. A method with
  \<open>&mut self\<close> is a function from the state to the result and the new state (\<open>smeth\<close> of
  \<open>Prelude\<close>), so that each early return names the state it leaves behind; a \<open>Result\<close> is a sum
  with the error on the left. A lock that a panic has poisoned, a panic, and an action of another
  task while a function awaits are part of the model: as values (\<open>None\<close> for a poisoned run,
  constructors such as \<open>ApproverPanicked\<close>), and as function arguments that change the shared state at
  the points where the code awaits. Unsigned integers of the source are \<open>nat\<close> with the saturating and
  checked operations of the source written out at \<open>u64_max\<close>; the two SHA-256 use 32-bit words.
  Recursion is structural or has a measure; no definition uses fuel.

  \<^bold>\<open>Theories, in the order in which they build on each other.\<close>

  \<^item> \<open>Prelude\<close>: results, state passing, saturating arithmetic and lemmas on lists and maps. \<open>BTree\<close>:
    \<open>BTreeMap<String, V>\<close> as a sorted association list, with the locale \<open>ordered_map\<close> interpreted on
    it. \<open>Json\<close>: \<open>serde_json::Value\<close> and its accessors. \<open>Journal\<close>: the locale of an append-only log
    with replay.
  \<^item> \<open>Sha256\<close>, \<open>StableId\<close>, \<open>Digest\<close>: the SHA-256 of \<open>durability.rs\<close>, the identifiers built from
    it, and the SHA-256 of \<open>governance/contracts.rs\<close>; both copies compute the same digest.
  \<^item> \<open>Contracts\<close>, \<open>Governance\<close>, \<open>Net\<close>, \<open>Egress\<close>: policy snapshots, governance bindings, skills,
    data flow, approval evidence, sandbox profiles, IP addresses and egress policies of
    \<open>governance/contracts.rs\<close>.
  \<^item> \<open>DurTypes\<close>, \<open>DurAudit\<close>, \<open>DurCore\<close>, \<open>DurOps\<close>: data types, reserved audit activities, the
    projection of events (\<open>apply_event_in_place\<close>, one definition per event) with the append path, and
    the public operations of \<open>RunState\<close> with the commands resume, fork, rewind and cancel.
  \<^item> \<open>DurLog\<close> interprets \<open>journal\<close> on the run. \<open>DurApi\<close> gives the public interface as the step
    relation \<open>api_step\<close> with the reachable states \<open>api_reach\<close>, and the locale \<open>append_invariant\<close>: a
    predicate that every single append keeps is kept by every operation. It is interpreted for
    \<open>run_built\<close> (\<open>DurReplay\<close>: a state is the replay of its log), \<open>run_ok\<close> (\<open>DurProto\<close>: the structural
    invariant of \<open>DurInv\<close> and the protocol invariant) and three predicates of \<open>DurSafety\<close> (growth of the
    log, ended runs, pinned policy identity). \<open>DurFrame\<close> has the inversion rules of the events,
    \<open>DurCommands\<close> the effects of the commands. The properties are in \<open>DurProps\<close> and \<open>DurCmdProps\<close>,
    their example runs in \<open>Demo\<close> and \<open>DemoBranch\<close>.
  \<^item> \<open>DurStore\<close>, \<open>DurStoreProps\<close>: the checks of a replacement and the in-memory store. The locale
    \<open>durable_store\<close> states that a store refines one append-only log per run, and \<open>memory\<close> interprets it.
  \<^item> \<open>Permissions\<close>, \<open>Policy\<close>, \<open>Hooks\<close>: rules and their evaluation, policy files with globs compiled
    to regular expressions, the heuristic approver and plans, and the dispatch of hooks.
  \<^item> \<open>Authorize\<close>, \<open>AuthorizeProps\<close>: \<open>Governance\<close> of \<open>governance/mod.rs\<close> with its shared cells, and the
    authorization of a tool call. \<open>StoreOps\<close>, \<open>Approver\<close>, \<open>ApproverProps\<close>: the trait
    \<open>DurableStore\<close> as a record of operations, the locale \<open>store_contract\<close> of what its clients rely on
    with the in-memory store as its interpretation, \<open>DurableToolApprover\<close>, and what it records; the
    example runs are in \<open>DemoApproval\<close>.
  \<^item> \<open>Driver\<close>, \<open>DriverOps\<close>, \<open>Disposition\<close>: \<open>DurableRunDriver\<close> over the record of store operations: the
    transition (\<open>transition_inner\<close>, \<open>commit_work\<close>), every operation of the driver as work that one
    transition commits, and \<open>invocation_disposition\<close>, one definition per loop of the code.
    \<open>DriverProps\<close> gives the operations as the relation \<open>driver_step\<close>, shows by the invariants of
    \<open>DurApi\<close> that each is one lawful commit or none (\<open>effect\<close>), and uses \<open>store_contract\<close> for what the
    store then holds. \<open>Worker\<close>, \<open>WorkerProps\<close>: \<open>DurableWorker\<close>, with the events that its select loop sees
    as a list. The properties are in \<open>WorkerClaims\<close>, their example run in \<open>DemoWorker\<close>.
  \<^item> \<open>Broker\<close>: the requests of the egress broker with redirects and DNS answers.
  \<^item> \<open>Reliability\<close>: limits and prerequisites of tools. \<open>Budget\<close>: the budget tracker and the shared
    ledger; the locale \<open>resource\<close> proves the bound of one limited resource and is interpreted for
    calls, input tokens, output tokens and cost.
  \<^item> \<open>Errors\<close>, \<open>Streaming\<close>, \<open>StreamProps\<close>, \<open>TraceEval\<close>, \<open>Resilience\<close>, \<open>Routing\<close>: the errors with
    their public envelope, the stream encoder, the trace evaluator, retry and fallback, and routing.

  \<^bold>\<open>What the lemmas show.\<close> For the durable run: replay gives back every state, the invariants hold
  for all reachable states and for all logs that replay accepts, no effect is repeated unsafely, an
  approval counts only before its deadline, ended runs stay ended, and each command does what it
  promises. For the store: it refines append-only logs, loses no update, and fences stale workers and
  late approvals. For the driver and the worker: a commit extends the history that the store holds, an
  invocation executes an unambiguous run only, and a worker that reports an outcome has held, renewed
  and released its lease. For governance: an allowed call has passed all checks with the input it is executed
  with, whatever happens while it waits, and an answer of the durable approver is in the run and in the
  store. For the broker: it sends allowed requests only, and boundedly many. For budgets: limits hold
  in every interleaving. For the encoder: its events refine the abstract lifecycle of a response. For
  resilience: what is released is one call of a provider. For routing: the model that is chosen meets
  the constraints and is optimal.

  \<^bold>\<open>Parameters.\<close> Code that is not in the repository is an argument: decoding and encoding by serde, the
  regex crate, the arithmetic of \<open>f64\<close>, the url, http and reqwest crates, DNS and the network, clocks,
  providers, hooks, human approvers and the audit sink. The digest of the durable run is an argument of
  the run as well, so that the runs of the witnesses have short identifiers; \<open>StableId\<close> and \<open>Digest\<close>
  have the definitions of the code. Where a theorem needs what such a parameter guarantees, it is a
  named hypothesis (\<open>approval_codec\<close>: decoding gives back what was encoded).

  \<^bold>\<open>Left out of the models.\<close> The reason texts of durability and store errors; atomic orderings;
  logging; accessors that return a field.

  \<^bold>\<open>Not modelled.\<close> The SQLite and PostgreSQL stores (\<open>sqlite.rs\<close>,
  \<open>postgres_store.rs\<close>) and the Temporal adapter (\<open>temporal_adapter.rs\<close>),
  whose work is done by a database or a workflow engine; the two helpers of the driver that are
  compiled for its tests only; the agent loop, sessions and compaction (\<open>runtime.rs\<close>
  and its callers), which wait for models and tools; guardrails, off-prompt tools, skills and policy
  adapters, which dispatch to callbacks and brokers; the sandbox and containment backends, which
  call the operating system; the audit sinks of \<open>observability.rs\<close>; the wire formats of
  providers and the protocols A2A, MCP and ACP; external agents and tools, which are subprocesses;
  the bindings for Python and Node and the command line.
\<close>

end
